(* ===== verification/CRO_Prelude.thy ===== *)
theory CRO_Prelude
  imports Main "HOL-Library.Word"
begin

text \<open>
  Shared vocabulary of the development: Go's error values and multi-valued returns, the
  operations of the operator as functions on an explicit state, a small program logic for them,
  Go's decimal formatting, and the generic list lemmas the components use.
\<close>

section \<open>Errors\<close>

text \<open>
  A Go \<^verbatim>\<open>error\<close> is an immutable value. The operator makes errors with \<^verbatim>\<open>errors.New\<close> and
  \<^verbatim>\<open>fmt.Errorf\<close> (\<open>ErrNew\<close>), adds context with \<^verbatim>\<open>errors.Wrap\<close> of \<^verbatim>\<open>github.com/pkg/errors\<close>
  (\<open>ErrWrap\<close>; the text of a wrapped error is the message, a colon, a space and the text of the
  cause), and receives errors of the Kubernetes API server, of Google's HTTP and gRPC clients
  (with a status code) and of AWS (with a code string).
\<close>

datatype error =
    ErrNew string
  | ErrWrap error string
  | ErrK8s int string
  | ErrGoogleHTTP int string
  | ErrGoogleGRPC nat string
  | ErrAws string string

primrec error_text :: "error \<Rightarrow> string" where
  "error_text (ErrNew m) = m"
| "error_text (ErrWrap e m) = m @ '': '' @ error_text e"
| "error_text (ErrK8s c m) = m"
| "error_text (ErrGoogleHTTP c m) = m"
| "error_text (ErrGoogleGRPC c m) = m"
| "error_text (ErrAws c m) = c @ '': '' @ m"

text \<open>The innermost error of a chain, which \<^verbatim>\<open>errors.As\<close> reaches by unwrapping.\<close>

primrec error_root :: "error \<Rightarrow> error" where
  "error_root (ErrNew m) = ErrNew m"
| "error_root (ErrWrap e m) = error_root e"
| "error_root (ErrK8s c m) = ErrK8s c m"
| "error_root (ErrGoogleHTTP c m) = ErrGoogleHTTP c m"
| "error_root (ErrGoogleGRPC c m) = ErrGoogleGRPC c m"
| "error_root (ErrAws c m) = ErrAws c m"

section \<open>Operations on a state\<close>

text \<open>
  A Go function that may fail returns a value and an error; a nil dereference or an index out of
  range panics, and a loop may run forever. An operation takes the state and returns one of these
  outcomes together with the new state: what was done before an early return stays done.
\<close>

datatype abort = Panics | Hangs

datatype 'a res = Val 'a | Fail error | Abort abort

type_synonym ('s, 'a) op = "'s \<Rightarrow> 'a res \<times> 's"

definition ret :: "'a \<Rightarrow> ('s, 'a) op" where
  "ret x = (\<lambda>s. (Val x, s))"

definition throw :: "error \<Rightarrow> ('s, 'a) op" where
  "throw e = (\<lambda>s. (Fail e, s))"

definition crash :: "('s, 'a) op" where
  "crash = (\<lambda>s. (Abort Panics, s))"

definition andThen :: "('s, 'a) op \<Rightarrow> ('a \<Rightarrow> ('s, 'b) op) \<Rightarrow> ('s, 'b) op" where
  "andThen m f = (\<lambda>s. case m s of
     (Val x, t) \<Rightarrow> f x t
   | (Fail e, t) \<Rightarrow> (Fail e, t)
   | (Abort a, t) \<Rightarrow> (Abort a, t))"

text \<open>\<open>wrapping msg m\<close>: the error of \<open>m\<close>, if any, is returned as \<^verbatim>\<open>errors.Wrap(err, msg)\<close>.\<close>

definition wrapping :: "string \<Rightarrow> ('s, 'a) op \<Rightarrow> ('s, 'a) op" where
  "wrapping msg m = (\<lambda>s. case m s of
     (Val x, t) \<Rightarrow> (Val x, t)
   | (Fail e, t) \<Rightarrow> (Fail (ErrWrap e msg), t)
   | (Abort a, t) \<Rightarrow> (Abort a, t))"

text \<open>\<open>attempt m\<close>: the caller inspects the error itself (\<^verbatim>\<open>if err != nil { ... }\<close> with more than
  a wrapped return in its body).\<close>

definition attempt :: "('s, 'a) op \<Rightarrow> ('s, error + 'a) op" where
  "attempt m = (\<lambda>s. case m s of
     (Val x, t) \<Rightarrow> (Val (Inr x), t)
   | (Fail e, t) \<Rightarrow> (Val (Inl e), t)
   | (Abort a, t) \<Rightarrow> (Abort a, t))"

text \<open>A computation that uses no state.\<close>

definition lift :: "'a res \<Rightarrow> ('s, 'a) op" where
  "lift r = (\<lambda>s. (r, s))"

definition lift_sum :: "error + 'a \<Rightarrow> ('s, 'a) op" where
  "lift_sum r = (case r of Inl e \<Rightarrow> throw e | Inr x \<Rightarrow> ret x)"

text \<open>Dereference of a pointer that may be nil.\<close>

definition deref :: "'a option \<Rightarrow> ('s, 'a) op" where
  "deref p = (case p of None \<Rightarrow> crash | Some x \<Rightarrow> ret x)"

primrec for_each :: "('a \<Rightarrow> ('s, unit) op) \<Rightarrow> 'a list \<Rightarrow> ('s, unit) op" where
  "for_each f [] = ret ()"
| "for_each f (x # xs) = andThen (f x) (\<lambda>_. for_each f xs)"

primrec for_fold :: "('b \<Rightarrow> 'a \<Rightarrow> ('s, 'b) op) \<Rightarrow> 'b \<Rightarrow> 'a list \<Rightarrow> ('s, 'b) op" where
  "for_fold f acc [] = ret acc"
| "for_fold f acc (x # xs) = andThen (f acc x) (\<lambda>acc'. for_fold f acc' xs)"

text \<open>
  \<^verbatim>\<open>wait.PollUntilContextTimeout\<close> with an immediate first attempt: the condition gives a result (Some), asks
  for another attempt (None), or fails and ends the polling. \<open>n\<close> is the number of attempts the timeout
  allows after the first.
\<close>

fun poll :: "('s, 'a option) op \<Rightarrow> nat \<Rightarrow> ('s, 'a) op" where
  "poll m n = andThen m (\<lambda>r. case r of
     Some x \<Rightarrow> ret x
   | None \<Rightarrow> (case n of 0 \<Rightarrow> throw (ErrNew ''context deadline exceeded'') | Suc k \<Rightarrow> poll m k))"

declare poll.simps [simp del]

text \<open>
  \<open>otherwise m h f\<close>: run \<open>m\<close>; on an error return what \<open>h\<close> makes of it (Go functions that return a status
  message beside the error), else go on with \<open>f\<close>.
\<close>

definition otherwise :: "('s, 'a) op \<Rightarrow> (error \<Rightarrow> 'b) \<Rightarrow> ('a \<Rightarrow> ('s, 'b) op) \<Rightarrow> ('s, 'b) op" where
  "otherwise m h f = andThen (attempt m) (\<lambda>r. case r of Inl e \<Rightarrow> ret (h e) | Inr x \<Rightarrow> f x)"

named_theorems op_simps \<open>evaluation of the combinators\<close>

lemma ret_apply [op_simps]: "ret x s = (Val x, s)"
  by (simp add: ret_def)

lemma throw_apply [op_simps]: "throw e s = (Fail e, s)"
  by (simp add: throw_def)

lemma crash_apply [op_simps]: "crash s = (Abort Panics, s)"
  by (simp add: crash_def)

lemma andThen_apply [op_simps]:
  "andThen m f s = (case m s of (Val x, t) \<Rightarrow> f x t | (Fail e, t) \<Rightarrow> (Fail e, t) | (Abort a, t) \<Rightarrow> (Abort a, t))"
  by (simp add: andThen_def)

lemma wrapping_apply [op_simps]:
  "wrapping msg m s = (case m s of (Val x, t) \<Rightarrow> (Val x, t) | (Fail e, t) \<Rightarrow> (Fail (ErrWrap e msg), t)
     | (Abort a, t) \<Rightarrow> (Abort a, t))"
  by (simp add: wrapping_def)

lemma attempt_apply [op_simps]:
  "attempt m s = (case m s of (Val x, t) \<Rightarrow> (Val (Inr x), t) | (Fail e, t) \<Rightarrow> (Val (Inl e), t)
     | (Abort a, t) \<Rightarrow> (Abort a, t))"
  by (simp add: attempt_def)

lemma otherwise_apply [op_simps]:
  "otherwise m h f s = (case m s of (Val x, t) \<Rightarrow> f x t | (Fail e, t) \<Rightarrow> (Val (h e), t) | (Abort a, t) \<Rightarrow> (Abort a, t))"
  by (auto simp: otherwise_def andThen_def attempt_def ret_def split: prod.splits res.splits)

lemma lift_apply [op_simps]: "lift r s = (r, s)"
  by (simp add: lift_def)

lemma lift_sum_simps [op_simps, simp]: "lift_sum (Inl e) = throw e" "lift_sum (Inr x) = ret x"
  by (simp_all add: lift_sum_def)

lemma deref_simps [op_simps, simp]: "deref None = crash" "deref (Some x) = ret x"
  by (simp_all add: deref_def)

lemma andThen_ret [simp]: "andThen (ret x) f = f x"
  by (simp add: andThen_def ret_def)

lemma for_fold_ret:
  "(\<And>acc x. x \<in> set xs \<Longrightarrow> f acc x = ret (g acc x)) \<Longrightarrow> for_fold f acc xs = ret (foldl g acc xs)"
  by (induction xs arbitrary: acc) simp_all

lemma andThen_throw [simp]: "andThen (throw e) f = throw e"
  by (simp add: andThen_def throw_def)

lemma andThen_crash [simp]: "andThen crash f = crash"
  by (simp add: andThen_def crash_def)

lemma andThen_assoc: "andThen (andThen m f) g = andThen m (\<lambda>x. andThen (f x) g)"
  by (auto simp: andThen_def fun_eq_iff split: prod.splits res.splits)

lemma wrapping_ret [simp]: "wrapping msg (ret x) = ret x"
  by (simp add: wrapping_def ret_def)

lemma wrapping_throw [simp]: "wrapping msg (throw e) = throw (ErrWrap e msg)"
  by (simp add: wrapping_def throw_def)

text \<open>How an operation came to return a value: inversion, one step at a time.\<close>

named_theorems val_simps \<open>inversion of operations that returned a value\<close>

lemma andThen_Val [val_simps]: "andThen m f s = (Val x, t) \<longleftrightarrow> (\<exists>y u. m s = (Val y, u) \<and> f y u = (Val x, t))"
  by (auto simp: andThen_def split: prod.splits res.splits)

lemma wrapping_Val [val_simps]: "wrapping msg m s = (Val x, t) \<longleftrightarrow> m s = (Val x, t)"
  by (auto simp: wrapping_def split: prod.splits res.splits)

lemma base_Val [val_simps]:
  "ret y s = (Val x, t) \<longleftrightarrow> x = y \<and> t = s" "throw e s \<noteq> (Val x, t)" "crash s \<noteq> (Val x, t)"
  "deref p s = (Val x, t) \<longleftrightarrow> p = Some x \<and> t = s" "lift_sum z s = (Val x, t) \<longleftrightarrow> z = Inr x \<and> t = s"
  by (auto simp: ret_def throw_def crash_def deref_def lift_sum_def split: option.splits sum.splits)

lemma otherwise_Val [val_simps]: "otherwise m h f s = (Val x, t) \<longleftrightarrow>
    (\<exists>y u. m s = (Val y, u) \<and> f y u = (Val x, t)) \<or> (\<exists>e. m s = (Fail e, t) \<and> x = h e)"
  by (auto simp: otherwise_apply split: prod.splits res.splits)
section \<open>A program logic for operations\<close>

text \<open>
  \<open>triple P m Q E\<close>: from a state with \<open>P\<close>, if \<open>m\<close> returns a value then \<open>Q\<close> holds of it and of the
  final state; if \<open>m\<close> fails or aborts then \<open>E\<close> holds of the final state. The rules below are
  syntax directed and collected in \<open>triple_rules\<close>.
\<close>

definition triple :: "('s \<Rightarrow> bool) \<Rightarrow> ('s, 'a) op \<Rightarrow> ('a \<Rightarrow> 's \<Rightarrow> bool) \<Rightarrow> ('s \<Rightarrow> bool) \<Rightarrow> bool" where
  "triple P m Q E \<longleftrightarrow> (\<forall>s. P s \<longrightarrow> (case m s of (Val x, t) \<Rightarrow> Q x t | (Fail e, t) \<Rightarrow> E t | (Abort a, t) \<Rightarrow> E t))"

named_theorems triple_rules \<open>rules of the program logic\<close>

lemma tripleI:
  assumes "\<And>s x t. P s \<Longrightarrow> m s = (Val x, t) \<Longrightarrow> Q x t"
    and "\<And>s e t. P s \<Longrightarrow> m s = (Fail e, t) \<Longrightarrow> E t"
    and "\<And>s a t. P s \<Longrightarrow> m s = (Abort a, t) \<Longrightarrow> E t"
  shows "triple P m Q E"
  unfolding triple_def using assms by (auto split: prod.splits res.splits)

lemma triple_Val: "triple P m Q E \<Longrightarrow> P s \<Longrightarrow> m s = (Val x, t) \<Longrightarrow> Q x t"
  by (auto simp: triple_def dest!: spec [of _ s])

lemma triple_Fail: "triple P m Q E \<Longrightarrow> P s \<Longrightarrow> m s = (Fail e, t) \<Longrightarrow> E t"
  by (auto simp: triple_def dest!: spec [of _ s])

lemma triple_Abort: "triple P m Q E \<Longrightarrow> P s \<Longrightarrow> m s = (Abort a, t) \<Longrightarrow> E t"
  by (auto simp: triple_def dest!: spec [of _ s])

lemma triple_any:
  assumes "triple P m (\<lambda>_. E) E" and "P s" shows "E (snd (m s))"
proof (cases "m s")
  case (Pair r t)
  then show ?thesis using assms by (cases r) (auto simp: triple_def)
qed

lemma triple_ret [triple_rules]: "(\<And>s. P s \<Longrightarrow> Q x s) \<Longrightarrow> triple P (ret x) Q E"
  by (simp add: triple_def ret_def)

lemma triple_throw [triple_rules]: "(\<And>s. P s \<Longrightarrow> E s) \<Longrightarrow> triple P (throw e) Q E"
  by (simp add: triple_def throw_def)

lemma triple_crash [triple_rules]: "(\<And>s. P s \<Longrightarrow> E s) \<Longrightarrow> triple P crash Q E"
  by (simp add: triple_def crash_def)

lemma triple_andThen:
  assumes "triple P m R E" and "\<And>x. triple (R x) (f x) Q E"
  shows "triple P (andThen m f) Q E"
  using assms by (fastforce simp: triple_def andThen_def split: prod.splits res.splits)

lemma triple_wrapping [triple_rules]: "triple P m Q E \<Longrightarrow> triple P (wrapping msg m) Q E"
  by (fastforce simp: triple_def wrapping_def split: prod.splits res.splits)

lemma triple_attempt:
  assumes "\<And>s x t. P s \<Longrightarrow> m s = (Val x, t) \<Longrightarrow> Q (Inr x) t"
    and "\<And>s e t. P s \<Longrightarrow> m s = (Fail e, t) \<Longrightarrow> Q (Inl e) t"
    and "\<And>s a t. P s \<Longrightarrow> m s = (Abort a, t) \<Longrightarrow> E t"
  shows "triple P (attempt m) Q E"
  using assms by (auto simp: triple_def attempt_def split: prod.splits res.splits)

lemma triple_conseq:
  assumes "triple P' m Q' E'" and "\<And>s. P s \<Longrightarrow> P' s"
    and "\<And>x s. Q' x s \<Longrightarrow> Q x s" and "\<And>s. E' s \<Longrightarrow> E s"
  shows "triple P m Q E"
  using assms by (fastforce simp: triple_def split: prod.splits res.splits)

lemma triple_if [triple_rules]:
  "(b \<Longrightarrow> triple P m Q E) \<Longrightarrow> (\<not> b \<Longrightarrow> triple P n Q E) \<Longrightarrow> triple P (if b then m else n) Q E"
  by simp

lemma triple_option [triple_rules]:
  "(x = None \<Longrightarrow> triple P m Q E) \<Longrightarrow> (\<And>y. x = Some y \<Longrightarrow> triple P (f y) Q E) \<Longrightarrow>
   triple P (case x of None \<Rightarrow> m | Some y \<Rightarrow> f y) Q E"
  by (cases x) auto

lemma triple_sum [triple_rules]:
  "(\<And>e. x = Inl e \<Longrightarrow> triple P (f e) Q E) \<Longrightarrow> (\<And>y. x = Inr y \<Longrightarrow> triple P (g y) Q E) \<Longrightarrow>
   triple P (case x of Inl e \<Rightarrow> f e | Inr y \<Rightarrow> g y) Q E"
  by (cases x) auto

text \<open>An invariant of the body is an invariant of the loop.\<close>

lemma triple_for_each_inv:
  assumes "\<And>x. x \<in> set xs \<Longrightarrow> triple I (f x) (\<lambda>_. I) I"
  shows "triple I (for_each f xs) (\<lambda>_. I) I"
  using assms
proof (induction xs)
  case Nil
  show ?case by (simp add: triple_ret)
next
  case (Cons x xs)
  have "triple I (f x) (\<lambda>_. I) I" using Cons.prems by simp
  moreover have "triple I (for_each f xs) (\<lambda>_. I) I" using Cons by simp
  ultimately show ?case by (auto intro: triple_andThen)
qed

section \<open>The outside world and the calls made on it\<close>

text \<open>
  The Kubernetes API server and the cloud provider are parameters: a state of type \<open>'w\<close> and, for
  every request, a function that gives the response and the next state. Nothing is assumed of
  them, so what is proved holds whatever they answer, errors and concurrent changes included.
  \<open>trace\<close> records the state-changing requests in the order in which they are made.
\<close>

record ('w, 'e) sys =
  world :: 'w
  trace :: "'e list"

definition query :: "('w \<Rightarrow> (error + 'r) \<times> 'w) \<Rightarrow> (('w, 'e) sys, 'r) op" where
  "query f = (\<lambda>s. case f (world s) of
     (Inr r, w) \<Rightarrow> (Val r, s\<lparr>world := w\<rparr>)
   | (Inl e, w) \<Rightarrow> (Fail e, s\<lparr>world := w\<rparr>))"

text \<open>A question about the outside that cannot fail: the time, a random number.\<close>

definition ask :: "('w \<Rightarrow> 'r \<times> 'w) \<Rightarrow> (('w, 'e) sys, 'r) op" where
  "ask f = (\<lambda>s. case f (world s) of (r, w) \<Rightarrow> (Val r, s\<lparr>world := w\<rparr>))"

definition request :: "('w \<Rightarrow> (error + 'r) \<times> 'w) \<Rightarrow> ((error + 'r) \<Rightarrow> 'e) \<Rightarrow> (('w, 'e) sys, 'r) op" where
  "request f ev = (\<lambda>s. case f (world s) of
     (Inr r, w) \<Rightarrow> (Val r, s\<lparr>world := w, trace := trace s @ [ev (Inr r)]\<rparr>)
   | (Inl e, w) \<Rightarrow> (Fail e, s\<lparr>world := w, trace := trace s @ [ev (Inl e)]\<rparr>))"

definition ok :: "error + 'r \<Rightarrow> bool" where
  "ok r \<longleftrightarrow> (case r of Inl _ \<Rightarrow> False | Inr _ \<Rightarrow> True)"

lemma ok_simps [simp]: "ok (Inl e) = False" "ok (Inr x) = True"
  by (simp_all add: ok_def)

lemma triple_query [triple_rules]:
  assumes "\<And>s w r. P s \<Longrightarrow> Q r (s\<lparr>world := w\<rparr>)" and "\<And>s w. P s \<Longrightarrow> E (s\<lparr>world := w\<rparr>)"
  shows "triple P (query f) Q E"
  using assms by (auto simp: triple_def query_def split: prod.splits sum.splits)

lemma triple_request [triple_rules]:
  assumes "\<And>s w r. P s \<Longrightarrow> Q r (s\<lparr>world := w, trace := trace s @ [ev (Inr r)]\<rparr>)"
    and "\<And>s w e. P s \<Longrightarrow> E (s\<lparr>world := w, trace := trace s @ [ev (Inl e)]\<rparr>)"
  shows "triple P (request f ev) Q E"
  using assms by (auto simp: triple_def request_def split: prod.splits sum.splits)

section \<open>What an operation adds to the trace\<close>

text \<open>
  \<open>emits m R\<close>: from every state, \<open>m\<close> extends the trace by some events \<open>es\<close> and has an outcome \<open>r\<close> with
  \<open>R es r\<close>. The relation does not mention the world, so it holds whatever the outside answers.
\<close>

definition emits :: "(('w, 'e) sys, 'a) op \<Rightarrow> ('e list \<Rightarrow> 'a res \<Rightarrow> bool) \<Rightarrow> bool" where
  "emits m R \<longleftrightarrow> (\<forall>s r t. m s = (r, t) \<longrightarrow> (\<exists>es. trace t = trace s @ es \<and> R es r))"

lemma emitsI: "(\<And>s r t. m s = (r, t) \<Longrightarrow> \<exists>es. trace t = trace s @ es \<and> R es r) \<Longrightarrow> emits m R"
  by (simp add: emits_def)

lemma emitsD: "emits m R \<Longrightarrow> m s = (r, t) \<Longrightarrow> \<exists>es. trace t = trace s @ es \<and> R es r"
  by (simp add: emits_def)

lemma emits_weaken: "emits m R \<Longrightarrow> (\<And>es r. R es r \<Longrightarrow> R' es r) \<Longrightarrow> emits m R'"
  unfolding emits_def by blast

lemma emits_ret: "R [] (Val x) \<Longrightarrow> emits (ret x) R"
  by (simp add: emits_def ret_def)

lemma emits_throw: "R [] (Fail e) \<Longrightarrow> emits (throw e) R"
  by (simp add: emits_def throw_def)

lemma emits_crash: "R [] (Abort Panics) \<Longrightarrow> emits crash R"
  by (simp add: emits_def crash_def)

lemma emits_andThen:
  assumes m: "emits m R" and f: "\<And>es x. R es (Val x) \<Longrightarrow> emits (f x) (\<lambda>fs r. S (es @ fs) r)"
    and fail: "\<And>es e. R es (Fail e) \<Longrightarrow> S es (Fail e)"
    and abort: "\<And>es a. R es (Abort a) \<Longrightarrow> S es (Abort a)"
  shows "emits (andThen m f) S"
proof (rule emitsI)
  fix s r t assume run: "andThen m f s = (r, t)"
  obtain r1 s1 where m1: "m s = (r1, s1)" by force
  then obtain es where es: "trace s1 = trace s @ es" "R es r1" using emitsD [OF m] by blast
  show "\<exists>es. trace t = trace s @ es \<and> S es r"
  proof (cases r1)
    case (Val x)
    then have "f x s1 = (r, t)" using run m1 by (simp add: andThen_def)
    then obtain fs where "trace t = trace s1 @ fs" "S (es @ fs) r"
      using emitsD [OF f [of es x]] es Val by blast
    then show ?thesis using es by auto
  qed (use run m1 es fail abort in \<open>auto simp: andThen_def\<close>)
qed

lemma emits_wrapping:
  assumes "emits m R" and "\<And>es x. R es (Val x) \<Longrightarrow> S es (Val x)"
    and "\<And>es e. R es (Fail e) \<Longrightarrow> S es (Fail (ErrWrap e msg))" and "\<And>es a. R es (Abort a) \<Longrightarrow> S es (Abort a)"
  shows "emits (wrapping msg m) S"
proof (rule emitsI)
  fix s r t assume run: "wrapping msg m s = (r, t)"
  obtain r1 s1 where m1: "m s = (r1, s1)" by force
  then obtain es where "trace s1 = trace s @ es" "R es r1" using emitsD [OF assms(1)] by blast
  then show "\<exists>es. trace t = trace s @ es \<and> S es r"
    using run m1 assms(2-4) by (cases r1) (auto simp: wrapping_def)
qed

lemma emits_attempt:
  assumes "emits m R" and "\<And>es x. R es (Val x) \<Longrightarrow> S es (Val (Inr x))"
    and "\<And>es e. R es (Fail e) \<Longrightarrow> S es (Val (Inl e))" and "\<And>es a. R es (Abort a) \<Longrightarrow> S es (Abort a)"
  shows "emits (attempt m) S"
proof (rule emitsI)
  fix s r t assume run: "attempt m s = (r, t)"
  obtain r1 s1 where m1: "m s = (r1, s1)" by force
  then obtain es where "trace s1 = trace s @ es" "R es r1" using emitsD [OF assms(1)] by blast
  then show "\<exists>es. trace t = trace s @ es \<and> S es r"
    using run m1 assms(2-4) by (cases r1) (auto simp: attempt_def)
qed

lemma emits_query: "emits (query f) (\<lambda>es r. es = [] \<and> (\<forall>a. r \<noteq> Abort a))"
  by (auto simp: emits_def query_def split: prod.splits sum.splits)

lemma emits_request:
  "emits (request f ev) (\<lambda>es r. (\<exists>x. r = Val x \<and> es = [ev (Inr x)]) \<or> (\<exists>e. r = Fail e \<and> es = [ev (Inl e)]))"
  by (auto simp: emits_def request_def split: prod.splits sum.splits)

lemma emits_deref: "(p = None \<Longrightarrow> R [] (Abort Panics)) \<Longrightarrow> (\<And>x. p = Some x \<Longrightarrow> R [] (Val x)) \<Longrightarrow> emits (deref p) R"
  by (cases p) (auto intro: emits_ret emits_crash)

lemma emits_if: "(b \<Longrightarrow> emits m R) \<Longrightarrow> (\<not> b \<Longrightarrow> emits n R) \<Longrightarrow> emits (if b then m else n) R"
  by simp

lemma emits_option:
  "(x = None \<Longrightarrow> emits m R) \<Longrightarrow> (\<And>y. x = Some y \<Longrightarrow> emits (f y) R) \<Longrightarrow> emits (case x of None \<Rightarrow> m | Some y \<Rightarrow> f y) R"
  by (cases x) auto

lemma emits_sum:
  "(\<And>e. x = Inl e \<Longrightarrow> emits (f e) R) \<Longrightarrow> (\<And>y. x = Inr y \<Longrightarrow> emits (g y) R) \<Longrightarrow> emits (case x of Inl e \<Rightarrow> f e | Inr y \<Rightarrow> g y) R"
  by (cases x) auto

lemma emits_prod: "(\<And>a b. x = (a, b) \<Longrightarrow> emits (f a b) R) \<Longrightarrow> emits (case x of (a, b) \<Rightarrow> f a b) R"
  by (cases x) auto

text \<open>An operation that only reads.\<close>

definition quiet :: "(('w, 'e) sys, 'a) op \<Rightarrow> bool" where
  "quiet m \<longleftrightarrow> emits m (\<lambda>es r. es = [])"

named_theorems quiet_rules \<open>operations that make no state-changing request\<close>

lemma quiet_ret [quiet_rules]: "quiet (ret x)"
  by (simp add: quiet_def emits_ret)

lemma quiet_throw [quiet_rules]: "quiet (throw e)"
  by (simp add: quiet_def emits_throw)

lemma quiet_crash [quiet_rules]: "quiet crash"
  by (simp add: quiet_def emits_crash)

lemma quiet_query [quiet_rules]: "quiet (query f)"
  unfolding quiet_def by (rule emits_weaken [OF emits_query]) simp

lemma quiet_ask [quiet_rules]: "quiet (ask f)"
  by (auto simp: quiet_def emits_def ask_def split: prod.splits)

lemma quiet_andThen [quiet_rules]: "quiet m \<Longrightarrow> (\<And>x. quiet (f x)) \<Longrightarrow> quiet (andThen m f)"
  unfolding quiet_def by (rule emits_andThen) auto

lemma quiet_wrapping [quiet_rules]: "quiet m \<Longrightarrow> quiet (wrapping msg m)"
  unfolding quiet_def by (rule emits_wrapping)

lemma quiet_attempt [quiet_rules]: "quiet m \<Longrightarrow> quiet (attempt m)"
  unfolding quiet_def by (rule emits_attempt)

lemma quiet_lift_sum [quiet_rules]: "quiet (lift_sum x)"
  by (cases x) (auto intro: quiet_rules)

lemma quiet_deref [quiet_rules]: "quiet (deref p)"
  by (cases p) (auto intro: quiet_rules)

lemma quiet_if [quiet_rules]: "(b \<Longrightarrow> quiet m) \<Longrightarrow> (\<not> b \<Longrightarrow> quiet n) \<Longrightarrow> quiet (if b then m else n)"
  by simp

lemma quiet_option [quiet_rules]:
  "(x = None \<Longrightarrow> quiet m) \<Longrightarrow> (\<And>y. x = Some y \<Longrightarrow> quiet (f y)) \<Longrightarrow> quiet (case x of None \<Rightarrow> m | Some y \<Rightarrow> f y)"
  by (cases x) auto

lemma quiet_sum [quiet_rules]:
  "(\<And>e. x = Inl e \<Longrightarrow> quiet (f e)) \<Longrightarrow> (\<And>y. x = Inr y \<Longrightarrow> quiet (g y)) \<Longrightarrow> quiet (case x of Inl e \<Rightarrow> f e | Inr y \<Rightarrow> g y)"
  by (cases x) auto

lemma quiet_prod [quiet_rules]: "(\<And>a b. x = (a, b) \<Longrightarrow> quiet (f a b)) \<Longrightarrow> quiet (case x of (a, b) \<Rightarrow> f a b)"
  by (cases x) auto

lemma quiet_lift [quiet_rules]: "quiet (lift r)"
  by (simp add: quiet_def emits_def lift_def)

lemma quiet_list_case [quiet_rules]:
  "(xs = [] \<Longrightarrow> quiet m) \<Longrightarrow> (\<And>y ys. xs = y # ys \<Longrightarrow> quiet (f y ys)) \<Longrightarrow> quiet (case xs of [] \<Rightarrow> m | y # ys \<Rightarrow> f y ys)"
  by (cases xs) auto

lemma quiet_poll [quiet_rules]: "quiet m \<Longrightarrow> quiet (poll m n)"
proof (induction n)
  case 0
  then show ?case by (subst poll.simps) (auto intro!: quiet_rules)
next
  case (Suc n)
  then show ?case by (subst poll.simps) (auto intro!: quiet_rules)
qed

lemma quiet_otherwise [quiet_rules]: "quiet m \<Longrightarrow> (\<And>x. quiet (f x)) \<Longrightarrow> quiet (otherwise m h f)"
  unfolding otherwise_def by (intro quiet_rules)

lemma quiet_for_each [quiet_rules]: "(\<And>x. quiet (f x)) \<Longrightarrow> quiet (for_each f xs)"
  by (induction xs) (auto intro: quiet_rules)

lemma quiet_for_fold [quiet_rules]: "(\<And>a x. quiet (f a x)) \<Longrightarrow> quiet (for_fold f acc xs)"
  by (induction xs arbitrary: acc) (auto intro: quiet_rules)

lemma quietD: "quiet m \<Longrightarrow> m s = (r, t) \<Longrightarrow> trace t = trace s"
  using emitsD [of m "\<lambda>es r. es = []" s r t] by (simp add: quiet_def)

lemma emits_quiet: "quiet m \<Longrightarrow> (\<And>r. R [] r) \<Longrightarrow> emits m R"
  unfolding quiet_def by (erule emits_weaken) auto

lemma emits_andThen_quiet:
  assumes "quiet m" and "\<And>x. emits (f x) S" and "\<And>e. S [] (Fail e)" and "\<And>a. S [] (Abort a)"
  shows "emits (andThen m f) S"
  by (rule emits_andThen [OF assms(1) [unfolded quiet_def]]) (use assms(2-4) in auto)

section \<open>Operations that make requests of one kind only\<close>

text \<open>\<open>only P m\<close>: every state-changing request of \<open>m\<close> satisfies \<open>P\<close>, whatever the outside answers.\<close>

definition only :: "('e \<Rightarrow> bool) \<Rightarrow> (('w, 'e) sys, 'a) op \<Rightarrow> bool" where
  "only P m \<longleftrightarrow> emits m (\<lambda>es r. \<forall>e \<in> set es. P e)"

named_theorems only_rules \<open>operations whose requests are of one kind\<close>

lemma only_quiet: "quiet m \<Longrightarrow> only P m"
  unfolding only_def by (rule emits_quiet) auto

lemma only_weaken: "only P m \<Longrightarrow> (\<And>e. P e \<Longrightarrow> Q e) \<Longrightarrow> only Q m"
  unfolding only_def by (erule emits_weaken) blast

lemma only_andThen [only_rules]: "only P m \<Longrightarrow> (\<And>x. only P (f x)) \<Longrightarrow> only P (andThen m f)"
  unfolding only_def
  by (rule emits_andThen [where R = "\<lambda>es r. \<forall>e \<in> set es. P e"]) (auto intro: emits_weaken)

lemma only_wrapping [only_rules]: "only P m \<Longrightarrow> only P (wrapping msg m)"
  unfolding only_def by (rule emits_wrapping)

lemma only_attempt [only_rules]: "only P m \<Longrightarrow> only P (attempt m)"
  unfolding only_def by (rule emits_attempt)

lemma only_if [only_rules]: "(b \<Longrightarrow> only P m) \<Longrightarrow> (\<not> b \<Longrightarrow> only P n) \<Longrightarrow> only P (if b then m else n)"
  by simp

lemma only_option [only_rules]:
  "(x = None \<Longrightarrow> only P m) \<Longrightarrow> (\<And>y. x = Some y \<Longrightarrow> only P (f y)) \<Longrightarrow> only P (case x of None \<Rightarrow> m | Some y \<Rightarrow> f y)"
  by (cases x) auto

lemma only_sum [only_rules]:
  "(\<And>e. x = Inl e \<Longrightarrow> only P (f e)) \<Longrightarrow> (\<And>y. x = Inr y \<Longrightarrow> only P (g y)) \<Longrightarrow> only P (case x of Inl e \<Rightarrow> f e | Inr y \<Rightarrow> g y)"
  by (cases x) auto

lemma only_prod [only_rules]: "(\<And>a b. x = (a, b) \<Longrightarrow> only P (f a b)) \<Longrightarrow> only P (case x of (a, b) \<Rightarrow> f a b)"
  by (cases x) auto

lemma only_list_case [only_rules]:
  "(xs = [] \<Longrightarrow> only P m) \<Longrightarrow> (\<And>y ys. xs = y # ys \<Longrightarrow> only P (f y ys)) \<Longrightarrow> only P (case xs of [] \<Rightarrow> m | y # ys \<Rightarrow> f y ys)"
  by (cases xs) auto

lemma only_base [only_rules]: "only P (ret x)" "only P (throw e)" "only P crash" "only P (query f)" "only P (ask g)" "only P (deref p)"
    "only P (lift r)" "only P (lift_sum z)"
  by (rule only_quiet, rule quiet_rules)+

lemma only_otherwise [only_rules]: "only P m \<Longrightarrow> (\<And>x. only P (f x)) \<Longrightarrow> only P (otherwise m h f)"
  unfolding otherwise_def by (intro only_rules)

lemma only_for_each [only_rules]: "(\<And>x. only P (f x)) \<Longrightarrow> only P (for_each f xs)"
  by (induction xs) (auto intro: only_rules)

lemma only_for_fold [only_rules]: "(\<And>a x. only P (f a x)) \<Longrightarrow> only P (for_fold f acc xs)"
  by (induction xs arbitrary: acc) (auto intro: only_rules)

lemma onlyD: "only P m \<Longrightarrow> m s = (r, t) \<Longrightarrow> \<exists>es. trace t = trace s @ es \<and> (\<forall>e \<in> set es. P e)"
  unfolding only_def by (rule emitsD)

text \<open>
  \<open>visible L m S\<close>: the requests of \<open>m\<close> that are in \<open>L\<close> form, in their order, a list with \<open>S\<close>, whatever the outside
  answers. Steps outside \<open>L\<close> can be ignored.
\<close>

definition visible :: "('e \<Rightarrow> bool) \<Rightarrow> (('w, 'e) sys, 'a) op \<Rightarrow> ('e list \<Rightarrow> bool) \<Rightarrow> bool" where
  "visible L m S \<longleftrightarrow> emits m (\<lambda>es r. S (filter L es))"

lemma visibleD: "visible L m S \<Longrightarrow> m s = (r, t) \<Longrightarrow> \<exists>es. trace t = trace s @ es \<and> S (filter L es)"
  unfolding visible_def by (rule emitsD)

lemma visible_weaken: "visible L m S \<Longrightarrow> (\<And>es. S es \<Longrightarrow> S' es) \<Longrightarrow> visible L m S'"
  unfolding visible_def by (erule emits_weaken)

lemma visible_silent: "only (\<lambda>e. \<not> L e) m \<Longrightarrow> S [] \<Longrightarrow> visible L m S"
  unfolding visible_def only_def by (erule emits_weaken) (simp add: filter_empty_conv [THEN iffD2])

lemma visible_ret: "S [] \<Longrightarrow> visible L (ret x) S"
  by (rule visible_silent) (rule only_rules)

lemma visible_request:
  "(\<And>r. S (filter L [ev r])) \<Longrightarrow> visible L (request f ev) S"
  unfolding visible_def by (rule emits_weaken [OF emits_request]) blast

lemma visible_step:
  assumes "emits m (\<lambda>es r. (\<forall>e \<in> set es. \<not> L e) \<and> Q r)" and "\<And>x. Q (Val x) \<Longrightarrow> visible L (f x) S" and "S []"
  shows "visible L (andThen m f) S"
  unfolding visible_def
proof (rule emits_andThen [OF assms(1)])
  fix es x assume "(\<forall>e \<in> set es. \<not> L e) \<and> Q (Val x)"
  then show "emits (f x) (\<lambda>fs r. S (filter L (es @ fs)))"
    using assms(2) unfolding visible_def by (simp add: filter_empty_conv [THEN iffD2])
qed (use assms(3) in \<open>auto simp: filter_empty_conv [THEN iffD2]\<close>)

lemma visible_andThen: "only (\<lambda>e. \<not> L e) m \<Longrightarrow> (\<And>x. visible L (f x) S) \<Longrightarrow> S [] \<Longrightarrow> visible L (andThen m f) S"
  by (rule visible_step [where Q = "\<lambda>_. True"]) (auto simp: only_def)

lemma visible_otherwise: "only (\<lambda>e. \<not> L e) m \<Longrightarrow> (\<And>x. visible L (f x) S) \<Longrightarrow> S [] \<Longrightarrow> visible L (otherwise m h f) S"
  unfolding otherwise_def by (rule visible_andThen) (auto intro: only_rules visible_ret split: sum.split)

lemma visible_attempt: "visible L m S \<Longrightarrow> visible L (attempt m) S"
  unfolding visible_def by (rule emits_attempt)

lemma visible_after:
  assumes "visible L m S" and "\<And>x. only (\<lambda>e. \<not> L e) (f x)"
  shows "visible L (andThen m f) S"
  unfolding visible_def
proof (rule emits_andThen [OF assms(1) [unfolded visible_def]])
  fix es x assume "S (filter L es)"
  then show "emits (f x) (\<lambda>fs r. S (filter L (es @ fs)))"
    by (intro emits_weaken [OF assms(2) [unfolded only_def]]) (simp add: filter_empty_conv [THEN iffD2])
qed auto

lemma visible_otherwise_after: "visible L m S \<Longrightarrow> (\<And>x. only (\<lambda>e. \<not> L e) (f x)) \<Longrightarrow> visible L (otherwise m h f) S"
  unfolding otherwise_def by (rule visible_after [OF visible_attempt]) (auto intro: only_rules split: sum.split)

lemma emits_otherwise:
  assumes "emits m R" and "\<And>es x. R es (Val x) \<Longrightarrow> emits (f x) (\<lambda>fs r. S (es @ fs) r)"
    and "\<And>es e. R es (Fail e) \<Longrightarrow> S es (Val (h e))" and "\<And>es a. R es (Abort a) \<Longrightarrow> S es (Abort a)"
  shows "emits (otherwise m h f) S"
  unfolding otherwise_def
proof (rule emits_andThen [OF emits_attempt [OF assms(1), where S = "\<lambda>es r. case r of Val (Inr x) \<Rightarrow> R es (Val x) | Val (Inl e) \<Rightarrow> R es (Fail e) | Abort a \<Rightarrow> R es (Abort a) | _ \<Rightarrow> False"]])
qed (use assms(2-4) in \<open>auto intro: emits_ret split: sum.splits\<close>)

text \<open>A loop whose body makes one request per element: it stops at the first failure.\<close>

lemma emits_for_each_requests:
  assumes "\<And>x. x \<in> set xs \<Longrightarrow> emits (f x) (\<lambda>es r. (r = Val () \<and> es = [ev x True]) \<or> ((\<exists>e. r = Fail e) \<and> es = [ev x False]) \<or> ((\<exists>a. r = Abort a) \<and> es = []))"
  shows "emits (for_each f xs) (\<lambda>es r. (r = Val () \<and> es = map (\<lambda>x. ev x True) xs) \<or>
     (r \<noteq> Val () \<and> (\<exists>ys y zs. xs = ys @ y # zs \<and> (es = map (\<lambda>x. ev x True) ys \<or> es = map (\<lambda>x. ev x True) ys @ [ev y False]))))"
  using assms
proof (induction xs)
  case (Cons x xs)
  let ?R = "\<lambda>xs es r. (r = Val () \<and> es = map (\<lambda>x. ev x True) xs) \<or>
     (r \<noteq> Val () \<and> (\<exists>ys y zs. xs = ys @ y # zs \<and> (es = map (\<lambda>x. ev x True) ys \<or> es = map (\<lambda>x. ev x True) ys @ [ev y False])))"
  have IH: "emits (for_each f xs) (?R xs)" using Cons by simp
  have stop: "?R (x # xs) [] r" "?R (x # xs) [ev x False] r" if "r \<noteq> Val ()" for r
    using that by (auto intro: exI [where x = "[]"])
  have go: "?R (x # xs) (ev x True # es) r" if "?R xs es r" for es r
    using that
  proof (elim disjE conjE exE)
    fix ys y zs assume "r \<noteq> Val ()" "xs = ys @ y # zs" "es = map (\<lambda>x. ev x True) ys"
    then show ?thesis by (intro disjI2 conjI exI [where x = "x # ys"]) auto
  next
    fix ys y zs assume "r \<noteq> Val ()" "xs = ys @ y # zs" "es = map (\<lambda>x. ev x True) ys @ [ev y False]"
    then show ?thesis by (intro disjI2 conjI exI [where x = "x # ys"]) auto
  qed simp
  show ?case unfolding for_each.simps
  proof (rule emits_andThen [OF Cons.prems])
    fix es y assume "(Val y = Val () \<and> es = [ev x True]) \<or> ((\<exists>e. Val y = Fail e) \<and> es = [ev x False]) \<or> ((\<exists>a. Val y = Abort a) \<and> es = [])"
    then have "es = [ev x True]" by auto
    then show "emits (for_each f xs) (\<lambda>fs r. ?R (x # xs) (es @ fs) r)"
      using emits_weaken [OF IH go] by simp
  qed (use stop in auto)
qed (simp add: emits_ret)

section \<open>Decimal numbers\<close>

definition digit_char :: "nat \<Rightarrow> char" where
  "digit_char d = char_of (48 + d)"

definition is_digit :: "char \<Rightarrow> bool" where
  "is_digit c \<longleftrightarrow> 48 \<le> (of_char c :: nat) \<and> (of_char c :: nat) \<le> 57"

definition digit_val :: "char \<Rightarrow> nat" where
  "digit_val c = of_char c - 48"

fun itoa_nat :: "nat \<Rightarrow> string" where
  "itoa_nat n = (if n < 10 then [digit_char n] else itoa_nat (n div 10) @ [digit_char (n mod 10)])"

declare itoa_nat.simps [simp del]

definition itoa :: "int \<Rightarrow> string" where
  "itoa i = (if i < 0 then CHR ''-'' # itoa_nat (nat (- i)) else itoa_nat (nat i))"

text \<open>\<^verbatim>\<open>%02d\<close> of a number that is not negative.\<close>

definition pad2 :: "nat \<Rightarrow> string" where
  "pad2 n = (if n < 10 then CHR ''0'' # itoa_nat n else itoa_nat n)"

lemma digit_char_simps [simp]:
  "digit_char 0 = CHR ''0''" "digit_char (Suc 0) = CHR ''1''" "digit_char 1 = CHR ''1''" "digit_char 2 = CHR ''2''"
  "digit_char 3 = CHR ''3''" "digit_char 4 = CHR ''4''" "digit_char 5 = CHR ''5''" "digit_char 6 = CHR ''6''"
  "digit_char 7 = CHR ''7''" "digit_char 8 = CHR ''8''" "digit_char 9 = CHR ''9''"
  by code_simp+

lemma of_char_digit_char: "d < 10 \<Longrightarrow> (of_char (digit_char d) :: nat) = 48 + d"
  by (simp add: digit_char_def)

lemma is_digit_digit_char [simp]: "d < 10 \<Longrightarrow> is_digit (digit_char d)"
  by (simp add: is_digit_def of_char_digit_char)

lemma digit_val_digit_char [simp]: "d < 10 \<Longrightarrow> digit_val (digit_char d) = d"
  by (simp add: digit_val_def of_char_digit_char)

lemma digit_val_less: "is_digit c \<Longrightarrow> digit_val c < 10"
  by (auto simp: is_digit_def digit_val_def)

lemma itoa_nat_nonempty [simp]: "itoa_nat n \<noteq> []"
  by (subst itoa_nat.simps) simp

lemma itoa_nat_digits: "\<forall>c \<in> set (itoa_nat n). is_digit c"
proof (induction n rule: itoa_nat.induct)
  case (1 n)
  then show ?case by (subst itoa_nat.simps) auto
qed

text \<open>Reading the digits back gives the number, and only zero starts with a zero.\<close>

definition digits_val :: "nat \<Rightarrow> string \<Rightarrow> nat" where
  "digits_val acc s = foldl (\<lambda>v c. v * 10 + digit_val c) acc s"

lemma digits_val_simps [simp]:
  "digits_val acc [] = acc" "digits_val acc (c # cs) = digits_val (acc * 10 + digit_val c) cs"
  "digits_val acc (xs @ ys) = digits_val (digits_val acc xs) ys"
  by (simp_all add: digits_val_def)

lemma digits_val_itoa: "digits_val 0 (itoa_nat n) = n"
proof (induction n rule: itoa_nat.induct)
  case (1 n)
  show ?case
  proof (cases "n < 10")
    case True
    then show ?thesis by (subst itoa_nat.simps) simp
  next
    case False
    with 1 show ?thesis by (subst itoa_nat.simps) simp
  qed
qed

section \<open>Lists\<close>

text \<open>A Go loop that remembers the last match.\<close>

lemma foldl_last_match:
  "foldl (\<lambda>found x. if P x then Some x else found) acc xs =
   (case filter P (rev xs) of [] \<Rightarrow> acc | x # _ \<Rightarrow> Some x)"
  by (induction xs arbitrary: acc) (auto split: list.splits)

text \<open>The first element with a property, as a loop with an early return finds it.\<close>

lemma find_Some_set: "find P xs = Some x \<Longrightarrow> x \<in> set xs \<and> P x"
  by (induction xs) (auto split: if_splits)

lemma find_None: "find P xs = None \<longleftrightarrow> (\<forall>x \<in> set xs. \<not> P x)"
  by (induction xs) auto

end
