(* ===== verification/CRO_Types.thy ===== *)
theory CRO_Types
  imports CRO_Prelude
begin

text \<open>
  The custom resources of the operator (\<^verbatim>\<open>apis/integreatly/v1alpha1\<close>): the spec and status shared by
  Postgres, Redis and BlobStorage, the snapshot resources, and the Kubernetes object metadata with
  the fields the operator reads. A Go map that may be nil is an option; a pointer is an option.
\<close>

type_synonym labels = "string \<rightharpoonup> string"

record objectMeta =
  om_Name :: string
  om_Namespace :: string
  om_Labels :: "labels option"
  om_Annotations :: "labels option"
  om_Finalizers :: "string list"
  om_DeletionTimestamp :: "int option"
  om_CreationTimestamp :: string

record secretRef =
  ref_Name :: string
  ref_Namespace :: string

record resourceTypeSpec =
  spec_Type :: string
  spec_Tier :: string
  spec_SkipCreate :: bool
  spec_ApplyImmediately :: bool
  spec_MaintenanceWindow :: bool
  spec_SecretRef :: "secretRef option"
  spec_Size :: string
  spec_SnapshotFrequency :: string
  spec_SnapshotRetention :: string

record resourceTypeStatus =
  st_Strategy :: string
  st_Provider :: string
  st_Version :: string
  st_SecretRef :: "secretRef option"
  st_Phase :: string
  st_Message :: string

record cr =
  cr_meta :: objectMeta
  cr_spec :: resourceTypeSpec
  cr_status :: resourceTypeStatus

datatype kind = Postgres | Redis | BlobStorage

record resourceTypeSnapshotStatus =
  ss_SnapshotID :: string
  ss_Phase :: string
  ss_Message :: string
  ss_Strategy :: string

record snapshotSpec =
  sp_ResourceName :: string
  sp_SkipDelete :: bool

record snapshot =
  sn_meta :: objectMeta
  sn_spec :: snapshotSpec
  sn_status :: resourceTypeSnapshotStatus

section \<open>Phases and messages\<close>

definition PhaseInProgress :: string where "PhaseInProgress = ''in progress''"

definition PhaseDeleteInProgress :: string where "PhaseDeleteInProgress = ''deletion in progress''"

definition PhaseComplete :: string where "PhaseComplete = ''complete''"

definition PhasePaused :: string where "PhasePaused = ''paused''"

definition PhaseFailed :: string where "PhaseFailed = ''failed''"

definition StatusUnsupportedType :: string where "StatusUnsupportedType = ''unsupported deployment type''"

definition StatusDeploymentConfigNotFound :: string where
  "StatusDeploymentConfigNotFound = ''deployment configuration not found''"

definition StatusSkipCreate :: string where "StatusSkipCreate = ''skipping create or update for maintenance''"

lemmas phase_defs = PhaseInProgress_def PhaseDeleteInProgress_def PhaseComplete_def PhasePaused_def PhaseFailed_def

lemma phases_distinct [simp]:
  "distinct [PhaseInProgress, PhaseDeleteInProgress, PhaseComplete, PhasePaused, PhaseFailed]"
  by (simp add: phase_defs)

lemma phases_neq [simp]:
  "PhaseInProgress \<noteq> PhaseComplete" "PhaseComplete \<noteq> PhaseInProgress"
  "PhaseDeleteInProgress \<noteq> PhaseComplete" "PhaseComplete \<noteq> PhaseDeleteInProgress"
  "PhasePaused \<noteq> PhaseComplete" "PhaseComplete \<noteq> PhasePaused"
  "PhaseFailed \<noteq> PhaseComplete" "PhaseComplete \<noteq> PhaseFailed"
  "PhaseInProgress \<noteq> PhaseFailed" "PhaseFailed \<noteq> PhaseInProgress"
  "PhasePaused \<noteq> PhaseFailed" "PhaseFailed \<noteq> PhasePaused"
  "PhaseDeleteInProgress \<noteq> PhaseFailed" "PhaseFailed \<noteq> PhaseDeleteInProgress"
  "PhasePaused \<noteq> PhaseInProgress" "PhaseInProgress \<noteq> PhasePaused"
  by (simp_all add: phase_defs)

text \<open>\<^verbatim>\<open>StatusMessage.WrapError\<close>.\<close>

definition WrapError :: "string \<Rightarrow> error option \<Rightarrow> string" where
  "WrapError sm err = (case err of None \<Rightarrow> sm | Some e \<Rightarrow> sm @ '': '' @ error_text e)"

lemma WrapError_None [simp]: "WrapError sm None = sm"
  by (simp add: WrapError_def)

lemma WrapError_Some_nonempty [simp]: "WrapError sm (Some e) \<noteq> ''''"
  by (simp add: WrapError_def)

lemma status_messages_nonempty [simp]:
  "StatusUnsupportedType \<noteq> ''''" "StatusSkipCreate \<noteq> ''''" "StatusDeploymentConfigNotFound \<noteq> ''''"
  by (simp_all add: StatusUnsupportedType_def StatusSkipCreate_def StatusDeploymentConfigNotFound_def)

section \<open>Setters for nested fields\<close>

definition with_phase :: "string \<Rightarrow> string \<Rightarrow> cr \<Rightarrow> cr" where
  "with_phase phase msg inst = inst\<lparr>cr_status := (cr_status inst)\<lparr>st_Message := msg, st_Phase := phase\<rparr>\<rparr>"

definition with_secretRef :: "secretRef option \<Rightarrow> cr \<Rightarrow> cr" where
  "with_secretRef r inst = inst\<lparr>cr_status := (cr_status inst)\<lparr>st_SecretRef := r\<rparr>\<rparr>"

definition with_strategy :: "string \<Rightarrow> string \<Rightarrow> cr \<Rightarrow> cr" where
  "with_strategy strategy provider inst =
     inst\<lparr>cr_status := (cr_status inst)\<lparr>st_Strategy := strategy, st_Provider := provider\<rparr>\<rparr>"

lemma setter_simps [simp]:
  "cr_meta (with_phase p m i) = cr_meta i" "cr_spec (with_phase p m i) = cr_spec i"
  "st_Phase (cr_status (with_phase p m i)) = p" "st_Message (cr_status (with_phase p m i)) = m"
  "st_Strategy (cr_status (with_phase p m i)) = st_Strategy (cr_status i)"
  "st_Provider (cr_status (with_phase p m i)) = st_Provider (cr_status i)"
  "st_SecretRef (cr_status (with_phase p m i)) = st_SecretRef (cr_status i)"
  "cr_meta (with_secretRef r i) = cr_meta i" "cr_spec (with_secretRef r i) = cr_spec i"
  "st_SecretRef (cr_status (with_secretRef r i)) = r"
  "st_Phase (cr_status (with_secretRef r i)) = st_Phase (cr_status i)"
  "st_Strategy (cr_status (with_secretRef r i)) = st_Strategy (cr_status i)"
  "st_Provider (cr_status (with_secretRef r i)) = st_Provider (cr_status i)"
  "cr_meta (with_strategy s q i) = cr_meta i" "cr_spec (with_strategy s q i) = cr_spec i"
  "st_Strategy (cr_status (with_strategy s q i)) = s" "st_Provider (cr_status (with_strategy s q i)) = q"
  "st_Phase (cr_status (with_strategy s q i)) = st_Phase (cr_status i)"
  "st_SecretRef (cr_status (with_strategy s q i)) = st_SecretRef (cr_status i)"
  by (simp_all add: with_phase_def with_secretRef_def with_strategy_def)

end
