(* ===== verification/Go_Encoding.thy ===== *)
theory Go_Encoding
  imports CRO_Prelude
begin

text \<open>
  The parts of Go's standard library that the operator uses to make names: SHA-256
  (\<^verbatim>\<open>crypto/sha256\<close>, after FIPS 180-4) and the base32 encoding (\<^verbatim>\<open>encoding/base32\<close>, standard
  alphabet with padding). Strings are lists of bytes; a byte is a \<^typ>\<open>char\<close>.
\<close>

unbundle bit_operations_syntax

section \<open>SHA-256\<close>

definition sha256_K :: "32 word list" where
  "sha256_K = [
    1116352408, 1899447441, 3049323471, 3921009573, 961987163, 1508970993, 2453635748, 2870763221,
    3624381080, 310598401, 607225278, 1426881987, 1925078388, 2162078206, 2614888103, 3248222580,
    3835390401, 4022224774, 264347078, 604807628, 770255983, 1249150122, 1555081692, 1996064986,
    2554220882, 2821834349, 2952996808, 3210313671, 3336571891, 3584528711, 113926993, 338241895,
    666307205, 773529912, 1294757372, 1396182291, 1695183700, 1986661051, 2177026350, 2456956037,
    2730485921, 2820302411, 3259730800, 3345764771, 3516065817, 3600352804, 4094571909, 275423344,
    430227734, 506948616, 659060556, 883997877, 958139571, 1322822218, 1537002063, 1747873779,
    1955562222, 2024104815, 2227730452, 2361852424, 2428436474, 2756734187, 3204031479, 3329325298]"

definition sha256_H :: "32 word list" where
  "sha256_H = [1779033703, 3144134277, 1013904242, 2773480762, 1359893119, 2600822924, 528734635, 1541459225]"

definition rotr :: "nat \<Rightarrow> 32 word \<Rightarrow> 32 word" where
  "rotr n x = drop_bit n x OR push_bit (32 - n) x"

text \<open>Padding: a one bit, zeros to 56 modulo 64 bytes, and the length in bits as 64-bit big endian.\<close>

definition be_bytes :: "nat \<Rightarrow> nat \<Rightarrow> 8 word list" where
  "be_bytes n v = map (\<lambda>i. of_nat (v div 256 ^ (n - 1 - i))) [0..<n]"

definition sha256_pad :: "8 word list \<Rightarrow> 8 word list" where
  "sha256_pad m = (let l = length m in
     m @ [0x80] @ replicate ((119 - l mod 64) mod 64) 0 @ be_bytes 8 (8 * l))"

fun words_of :: "8 word list \<Rightarrow> 32 word list" where
  "words_of (a # b # c # d # r) =
     (push_bit 24 (ucast a) + push_bit 16 (ucast b) + push_bit 8 (ucast c) + ucast d) # words_of r"
| "words_of _ = []"

text \<open>The message schedule, kept newest word first.\<close>

primrec schedule :: "nat \<Rightarrow> 32 word list \<Rightarrow> 32 word list" where
  "schedule 0 w = w"
| "schedule (Suc n) w =
     (let s0 = (let x = w ! 14 in rotr 7 x XOR rotr 18 x XOR drop_bit 3 x);
          s1 = (let x = w ! 1 in rotr 17 x XOR rotr 19 x XOR drop_bit 10 x)
      in schedule n ((w ! 15 + s0 + w ! 6 + s1) # w))"

fun sha256_round :: "32 word list \<Rightarrow> 32 word \<times> 32 word \<Rightarrow> 32 word list" where
  "sha256_round [a, b, c, d, e, f, g, h] (k, w) =
     (let t1 = h + (rotr 6 e XOR rotr 11 e XOR rotr 25 e) + ((e AND f) XOR (NOT e AND g)) + k + w;
          t2 = (rotr 2 a XOR rotr 13 a XOR rotr 22 a) + ((a AND b) XOR (a AND c) XOR (b AND c))
      in [t1 + t2, a, b, c, d + t1, e, f, g])"
| "sha256_round st _ = st"

definition sha256_block :: "32 word list \<Rightarrow> 32 word list \<Rightarrow> 32 word list" where
  "sha256_block H ws = map2 (+) H (foldl sha256_round H (zip sha256_K (rev (schedule 48 (rev ws)))))"

fun chunks :: "nat \<Rightarrow> 'a list \<Rightarrow> 'a list list" where
  "chunks n xs = (if n = 0 \<or> xs = [] then [] else take n xs # chunks n (drop n xs))"

declare chunks.simps [simp del]

definition sha256_Sum :: "8 word list \<Rightarrow> 8 word list" where
  "sha256_Sum m = concat (map (\<lambda>w. be_bytes 4 (unat w)) (foldl sha256_block sha256_H (chunks 16 (words_of (sha256_pad m)))))"

section \<open>Base32\<close>

definition base32_char :: "nat \<Rightarrow> char" where
  "base32_char v = (if v < 26 then char_of (65 + v) else char_of (24 + v))"

text \<open>A group of at most five bytes gives eight characters; the unused ones are padding.\<close>

definition base32_group :: "8 word list \<Rightarrow> string" where
  "base32_group bs =
     (let v = foldl (\<lambda>acc b. acc * 256 + unat b) 0 (bs @ replicate (5 - length bs) 0);
          used = (length bs * 8 + 4) div 5
      in map (\<lambda>i. if i < used then base32_char (v div 32 ^ (7 - i) mod 32) else CHR ''='') [0..<8])"

definition base32_EncodeToString :: "8 word list \<Rightarrow> string" where
  "base32_EncodeToString bs = concat (map base32_group (chunks 5 bs))"

definition string_bytes :: "string \<Rightarrow> 8 word list" where
  "string_bytes s = map of_char s"

section \<open>Lengths and alphabets\<close>

lemma length_be_bytes [simp]: "length (be_bytes n v) = n"
  by (simp add: be_bytes_def)

lemma length_sha256_round: "length st = 8 \<Longrightarrow> length (sha256_round st kw) = 8"
  by (induction st kw rule: sha256_round.induct) (auto simp: Let_def)

lemma length_sha256_rounds: "length st = 8 \<Longrightarrow> length (foldl sha256_round st kws) = 8"
  by (induction kws arbitrary: st) (simp_all add: length_sha256_round)

lemma length_sha256_block: "length H = 8 \<Longrightarrow> length (sha256_block H ws) = 8"
  by (simp add: sha256_block_def length_sha256_rounds)

lemma length_sha256_blocks: "length H = 8 \<Longrightarrow> length (foldl sha256_block H bs) = 8"
  by (induction bs arbitrary: H) (simp_all add: length_sha256_block)

lemma length_sha256_Sum [simp]: "length (sha256_Sum m) = 32"
  by (simp add: sha256_Sum_def length_concat comp_def sum_list_triv length_sha256_blocks sha256_H_def)

lemma length_base32_group [simp]: "length (base32_group bs) = 8"
  by (simp add: base32_group_def Let_def)

text \<open>The first eight characters of an encoding come from the first five bytes and hold no padding.\<close>

lemma take_base32:
  assumes "5 \<le> length bs"
  shows "take 8 (base32_EncodeToString bs) = base32_group (take 5 bs)"
proof -
  have "chunks 5 bs = take 5 bs # chunks 5 (drop 5 bs)"
    using assms by (subst chunks.simps) auto
  then show ?thesis by (simp add: base32_EncodeToString_def)
qed

definition is_lower_alnum :: "char \<Rightarrow> bool" where
  "is_lower_alnum c \<longleftrightarrow> (let v = (of_char c :: nat) in (97 \<le> v \<and> v \<le> 122) \<or> (48 \<le> v \<and> v \<le> 57))"

text \<open>\<^verbatim>\<open>strings.ToLower\<close> on ASCII.\<close>

definition lower_char :: "char \<Rightarrow> char" where
  "lower_char c = (let v = (of_char c :: nat) in if 65 \<le> v \<and> v \<le> 90 then char_of (v + 32) else c)"

definition ToLower :: "string \<Rightarrow> string" where
  "ToLower s = map lower_char s"

lemma length_ToLower [simp]: "length (ToLower s) = length s"
  by (simp add: ToLower_def)

lemma of_char_char_of: "v < 256 \<Longrightarrow> (of_char (char_of v :: char) :: nat) = v"
  by simp

lemma base32_char_lower: "v < 32 \<Longrightarrow> is_lower_alnum (lower_char (base32_char v))"
  by (auto simp: is_lower_alnum_def lower_char_def base32_char_def Let_def of_char_char_of)

lemma base32_full_group: "length bs = 5 \<Longrightarrow> c \<in> set (base32_group bs) \<Longrightarrow> c \<in> base32_char ` {..<32}"
  by (auto simp: base32_group_def Let_def)

lemma base32_prefix_lower:
  assumes "5 \<le> length bs" and "k \<le> 8"
  shows "length (take k (base32_EncodeToString bs)) = k"
    and "c \<in> set (ToLower (take k (base32_EncodeToString bs))) \<Longrightarrow> is_lower_alnum c"
proof -
  have p: "take k (base32_EncodeToString bs) = take k (base32_group (take 5 bs))"
    using take_base32 [OF assms(1)] assms(2) by (metis min.absorb1 take_take)
  show "length (take k (base32_EncodeToString bs)) = k" unfolding p using assms(2) by simp
  show "is_lower_alnum c" if "c \<in> set (ToLower (take k (base32_EncodeToString bs)))"
  proof -
    from that obtain x where "x \<in> set (base32_group (take 5 bs))" "c = lower_char x"
      unfolding p ToLower_def by (auto dest: in_set_takeD)
    then show ?thesis using base32_full_group [of "take 5 bs" x] assms(1) base32_char_lower by auto
  qed
qed

end
