(* ===== verification/Resources.thy ===== *)
theory Resources
  imports CRO_Types Go_Encoding
begin

text \<open>
  The helpers of \<^verbatim>\<open>pkg/resources\<close> and \<^verbatim>\<open>pkg/annotations\<close> that work on values: names
  (\<^verbatim>\<open>strings.go\<close>), finalizers (\<^verbatim>\<open>finalizers.go\<close>), tags (\<^verbatim>\<open>tags.go\<close>), labels and annotations, error
  classification (\<^verbatim>\<open>errors.go\<close>) and settings from the environment (\<^verbatim>\<open>config.go\<close>). Labels and annotations
  share the interface \<open>meta_dict\<close>.
\<close>

section \<open>Strings\<close>

definition is_alnum :: "char \<Rightarrow> bool" where
  "is_alnum c \<longleftrightarrow> (let v = (of_char c :: nat) in
     (97 \<le> v \<and> v \<le> 122) \<or> (65 \<le> v \<and> v \<le> 90) \<or> (48 \<le> v \<and> v \<le> 57))"

text \<open>The replacement of \<^verbatim>\<open>[^a-zA-Z0-9]+\<close> by the empty string.\<close>

definition keep_alnum :: "string \<Rightarrow> string" where
  "keep_alnum s = filter is_alnum s"

definition ShortenString :: "string \<Rightarrow> int \<Rightarrow> string" where
  "ShortenString s0 n =
     (let hashLen = 4; s = keep_alnum s0 in
      if int (length s) < n then s
      else let postfixLen = int hashLen + 1;
               cutSize = (if n < int hashLen + 1 then length s else nat (n - postfixLen));
               cutStr = take cutSize s;
               hashedStr = base32_EncodeToString (sha256_Sum (string_bytes s))
           in ToLower (cutStr @ ''-'' @ take hashLen hashedStr))"

definition StringOrDefault :: "string \<Rightarrow> string \<Rightarrow> string" where
  "StringOrDefault str defaultTo = (if str = '''' then defaultTo else str)"

definition SafeStringDereference :: "string option \<Rightarrow> string" where
  "SafeStringDereference s = (case s of Some x \<Rightarrow> x | None \<Rightarrow> '''')"

section \<open>Finalizers\<close>

definition Contains :: "string list \<Rightarrow> string \<Rightarrow> bool" where
  "Contains xs s \<longleftrightarrow> (\<exists>v \<in> set xs. v = s)"

definition HasFinalizer :: "objectMeta \<Rightarrow> string \<Rightarrow> bool" where
  "HasFinalizer om finalizer = Contains (om_Finalizers om) finalizer"

definition addFinalizer :: "objectMeta \<Rightarrow> string \<Rightarrow> objectMeta" where
  "addFinalizer om finalizer = (if \<not> HasFinalizer om finalizer then om\<lparr>om_Finalizers := [finalizer]\<rparr> else om)"

text \<open>
  \<^verbatim>\<open>remove\<close> ranges over the slice it was given while \<^verbatim>\<open>append(list[:i], list[i+1:]...)\<close> shifts the
  elements of the shared array in place: \<open>arr\<close> is the array, \<open>m\<close> the length of the current slice.
  A slice bound beyond the length panics (None).
\<close>

fun remove_loop :: "string \<Rightarrow> nat list \<Rightarrow> string list \<times> nat \<Rightarrow> string list option" where
  "remove_loop s [] (arr, m) = Some (take m arr)"
| "remove_loop s (i # is) (arr, m) =
     (if arr ! i = s
      then if m < Suc i then None
           else remove_loop s is (take i arr @ drop (Suc i) (take m arr) @ drop (m - 1) arr, m - 1)
      else remove_loop s is (arr, m))"

definition remove :: "string list \<Rightarrow> string \<Rightarrow> string list option" where
  "remove xs s = remove_loop s [0..<length xs] (xs, length xs)"

definition RemoveFinalizer :: "objectMeta \<Rightarrow> string \<Rightarrow> objectMeta option" where
  "RemoveFinalizer om finalizer =
     (case remove (om_Finalizers om) finalizer of None \<Rightarrow> None | Some fs \<Rightarrow> Some (om\<lparr>om_Finalizers := fs\<rparr>))"

section \<open>Labels and annotations\<close>

definition map_get :: "labels option \<Rightarrow> string \<Rightarrow> string" where
  "map_get m k = (case m of None \<Rightarrow> '''' | Some f \<Rightarrow> (case f k of None \<Rightarrow> '''' | Some v \<Rightarrow> v))"

definition map_set :: "labels option \<Rightarrow> string \<Rightarrow> string \<Rightarrow> labels option" where
  "map_set m k v = Some ((case m of None \<Rightarrow> Map.empty | Some f \<Rightarrow> f)(k \<mapsto> v))"

definition HasLabel :: "objectMeta \<Rightarrow> string \<Rightarrow> bool" where
  "HasLabel om key = (case om_Labels om of None \<Rightarrow> False | Some f \<Rightarrow> f key \<noteq> None)"

definition HasLabelWithValue :: "objectMeta \<Rightarrow> string \<Rightarrow> string \<Rightarrow> bool" where
  "HasLabelWithValue om key v \<longleftrightarrow> map_get (om_Labels om) key = v"

definition GetLabel :: "objectMeta \<Rightarrow> string \<Rightarrow> string" where
  "GetLabel om key = map_get (om_Labels om) key"

definition AddLabel :: "objectMeta \<Rightarrow> string \<Rightarrow> string \<Rightarrow> objectMeta" where
  "AddLabel om key v = om\<lparr>om_Labels := map_set (om_Labels om) key v\<rparr>"

definition RemoveLabel :: "objectMeta \<Rightarrow> string \<Rightarrow> objectMeta" where
  "RemoveLabel om key = om\<lparr>om_Labels := map_option (\<lambda>f. f(key := None)) (om_Labels om)\<rparr>"

definition annotations_Add :: "objectMeta \<Rightarrow> string \<Rightarrow> string \<Rightarrow> objectMeta" where
  "annotations_Add om key v = om\<lparr>om_Annotations := map_set (om_Annotations om) key v\<rparr>"

definition annotations_Has :: "objectMeta \<Rightarrow> string \<Rightarrow> bool" where
  "annotations_Has om key = (case om_Annotations om of None \<Rightarrow> False | Some f \<Rightarrow> key \<in> dom f)"

definition annotations_Get :: "objectMeta \<Rightarrow> string \<Rightarrow> string" where
  "annotations_Get om key = (case om_Annotations om of None \<Rightarrow> ''''
     | Some f \<Rightarrow> if key \<in> dom f then the (f key) else '''')"

definition BuildGenericMetricLabels :: "objectMeta \<Rightarrow> string \<Rightarrow> string \<Rightarrow> string \<Rightarrow> labels" where
  "BuildGenericMetricLabels om clusterID instanceID providerName =
     [''clusterID'' \<mapsto> clusterID, ''resourceID'' \<mapsto> om_Name om, ''namespace'' \<mapsto> om_Namespace om,
      ''instanceID'' \<mapsto> instanceID, ''productName'' \<mapsto> map_get (om_Labels om) ''productName'',
      ''strategy'' \<mapsto> providerName]"

definition BuildInfoMetricLabels :: "objectMeta \<Rightarrow> string \<Rightarrow> string \<Rightarrow> string \<Rightarrow> string \<Rightarrow> labels" where
  "BuildInfoMetricLabels r status clusterID cacheName providerName =
     (BuildGenericMetricLabels r clusterID cacheName providerName)
       (''status'' \<mapsto> (if status \<noteq> '''' then status else ''nil''))"

definition BuildStatusMetricsLabels :: "objectMeta \<Rightarrow> string \<Rightarrow> string \<Rightarrow> string \<Rightarrow> string \<Rightarrow> labels" where
  "BuildStatusMetricsLabels r clusterID cacheName providerName phase =
     (BuildGenericMetricLabels r clusterID cacheName providerName)(''statusPhase'' \<mapsto> phase)"

section \<open>Tags\<close>

record tag =
  tag_Key :: string
  tag_Value :: string

definition tag_Equal :: "tag \<Rightarrow> tag \<Rightarrow> bool" where
  "tag_Equal a b \<longleftrightarrow> tag_Key a = tag_Key b \<and> tag_Value a = tag_Value b"

text \<open>\<open>dupMap\<close> holds the keys of the general tags only; the loop appends to the general tags.\<close>

fun merge_loop :: "string set \<Rightarrow> tag list \<Rightarrow> tag list \<Rightarrow> tag list" where
  "merge_loop dupMap acc [] = acc"
| "merge_loop dupMap acc (t # ts) =
     merge_loop dupMap (if tag_Key t \<notin> dupMap then acc @ [t] else acc) ts"

definition MergeTags :: "tag list \<Rightarrow> tag list \<Rightarrow> tag list" where
  "MergeTags generalTags infraTags = merge_loop (tag_Key ` set generalTags) generalTags infraTags"

definition TagsContains :: "tag list \<Rightarrow> string \<Rightarrow> string \<Rightarrow> bool" where
  "TagsContains tags key v \<longleftrightarrow> (\<exists>t \<in> set tags. tag_Key t = key \<and> tag_Value t = v)"

fun TagsContainsAll :: "tag list \<Rightarrow> tag list \<Rightarrow> bool" where
  "TagsContainsAll [] bs = True"
| "TagsContainsAll (a # as) bs =
     (if \<not> foldl (\<lambda>found b. if tag_Equal a b then True else found) False bs then False else TagsContainsAll as bs)"

definition BuildManagedTag :: tag where
  "BuildManagedTag = \<lparr>tag_Key = ''red-hat-managed'', tag_Value = ''true''\<rparr>"

definition TagDisplayName :: string where
  "TagDisplayName = ''Name''"

section \<open>Errors\<close>

definition IsNotFoundError :: "error \<Rightarrow> bool" where
  "IsNotFoundError err = (case error_root err of
     ErrGoogleHTTP c _ \<Rightarrow> c = 404 | ErrGoogleGRPC c _ \<Rightarrow> c = 5 | ErrK8s c _ \<Rightarrow> c = 404 | _ \<Rightarrow> False)"

definition IsConflictError :: "error \<Rightarrow> bool" where
  "IsConflictError err = (case error_root err of
     ErrGoogleHTTP c _ \<Rightarrow> c = 409 | ErrGoogleGRPC c _ \<Rightarrow> c = 6 | ErrK8s c _ \<Rightarrow> c = 409 | _ \<Rightarrow> False)"

text \<open>\<^verbatim>\<open>errors.IsNotFound\<close> of \<^verbatim>\<open>k8s.io/apimachinery\<close>: only an error of the API server counts.\<close>

definition k8s_IsNotFound :: "error \<Rightarrow> bool" where
  "k8s_IsNotFound err = (case error_root err of ErrK8s c _ \<Rightarrow> c = 404 | _ \<Rightarrow> False)"

section \<open>Settings from the environment\<close>

type_synonym env = "string \<rightharpoonup> string"

text \<open>\<^verbatim>\<open>strconv.ParseInt(s, 10, 64)\<close>: an optional sign and digits, in the range of an int64.\<close>

definition ParseInt64 :: "string \<Rightarrow> int option" where
  "ParseInt64 s =
     (let (neg, ds) = (case s of c # r \<Rightarrow> if c = CHR ''-'' then (True, r) else if c = CHR ''+'' then (False, r) else (False, s)
                        | [] \<Rightarrow> (False, []));
          v = int (digits_val 0 ds)
      in if ds = [] \<or> \<not> list_all is_digit ds then None
         else if neg then (if v \<le> 2 ^ 63 then Some (- v) else None)
         else (if v < 2 ^ 63 then Some v else None))"

definition reconcile_time_from_env :: "string \<Rightarrow> env \<Rightarrow> int \<Rightarrow> int" where
  "reconcile_time_from_env var env defaultTo = (case env var of
     Some recTime \<Rightarrow> (case ParseInt64 recTime of None \<Rightarrow> defaultTo | Some rt \<Rightarrow> rt)
   | None \<Rightarrow> defaultTo)"

definition GetForcedReconcileTimeOrDefault :: "env \<Rightarrow> int \<Rightarrow> int" where
  "GetForcedReconcileTimeOrDefault = reconcile_time_from_env ''ENV_FORCE_RECONCILE_TIMEOUT''"

definition GetMetricReconcileTimeOrDefault :: "env \<Rightarrow> int \<Rightarrow> int" where
  "GetMetricReconcileTimeOrDefault = reconcile_time_from_env ''ENV_METRIC_RECONCILE_TIMEOUT''"

definition GetOrganizationTag :: "env \<Rightarrow> string" where
  "GetOrganizationTag env = (case env ''TAG_KEY_PREFIX'' of None \<Rightarrow> ''integreatly.org/'' | Some t \<Rightarrow> t)"


section \<open>Names\<close>

lemma keep_alnum_alnum: "c \<in> set (keep_alnum s) \<Longrightarrow> is_alnum c"
  by (simp add: keep_alnum_def)

lemma lower_alnum: "is_alnum c \<Longrightarrow> is_lower_alnum (lower_char c)"
  by (auto simp: is_alnum_def is_lower_alnum_def lower_char_def Let_def of_char_char_of)

lemma ShortenString_short: "int (length (keep_alnum s)) < n \<Longrightarrow> ShortenString s n = keep_alnum s"
  by (simp add: ShortenString_def Let_def)

lemma ShortenString_cut:
  "\<not> int (length (keep_alnum s)) < n \<Longrightarrow> ShortenString s n =
    ToLower (take (if n < 5 then length (keep_alnum s) else nat (n - 5)) (keep_alnum s)) @ ''-'' @
    ToLower (take 4 (base32_EncodeToString (sha256_Sum (string_bytes (keep_alnum s)))))"
  by (simp add: ShortenString_def Let_def ToLower_def lower_char_def)

section \<open>Finalizers\<close>

lemma remove_loop_skip: "\<forall>i \<in> set is. arr ! i \<noteq> s \<Longrightarrow> remove_loop s is (arr, m) = Some (take m arr)"
  by (induction s "is" "(arr, m)" rule: remove_loop.induct) auto

lemma remove_loop_prefix:
  "\<forall>i \<in> set is. arr ! i \<noteq> s \<Longrightarrow> remove_loop s (is @ js) (arr, m) = remove_loop s js (arr, m)"
  by (induction "is") auto

lemma remove_absent: "s \<notin> set xs \<Longrightarrow> remove xs s = Some xs"
  unfolding remove_def by (subst remove_loop_skip) (auto simp: in_set_conv_nth)

lemma remove_once:
  assumes "s \<notin> set ys" and "s \<notin> set zs"
  shows "remove (ys @ s # zs) s = Some (ys @ zs)"
proof -
  let ?xs = "ys @ s # zs" and ?k = "length ys"
  let ?arr = "ys @ zs @ drop (length zs) (s # zs)"
  have idx: "[0..<length ?xs] = [0..<?k] @ ?k # [Suc ?k..<length ?xs]"
  proof -
    have "[0..<?k + Suc (length zs)] = [0..<?k] @ [?k..<?k + Suc (length zs)]" by (rule upt_add_eq_append) simp
    moreover have "[?k..<?k + Suc (length zs)] = ?k # [Suc ?k..<?k + Suc (length zs)]" by (rule upt_conv_Cons) simp
    ultimately show ?thesis by (simp only: length_append list.size) simp
  qed
  have "remove ?xs s = remove_loop s (?k # [Suc ?k..<length ?xs]) (?xs, length ?xs)"
    unfolding remove_def idx using assms(1)
    by (subst remove_loop_prefix) (auto simp: nth_append in_set_conv_nth)
  also have "\<dots> = remove_loop s [Suc ?k..<length ?xs] (?arr, length ys + length zs)"
    by simp
  also have "\<dots> = Some (take (length ys + length zs) ?arr)"
  proof (rule remove_loop_skip, rule ballI)
    fix i assume "i \<in> set [Suc ?k..<length ?xs]"
    then have i: "Suc ?k \<le> i" "i \<le> ?k + length zs" by auto
    then have ne: "zs \<noteq> []" by auto
    have "drop (length zs) (s # zs) = [last zs]"
      using ne by (cases zs rule: rev_cases) auto
    then have "?arr ! i \<in> set zs"
      using i ne by (cases "i = ?k + length zs") (auto simp: nth_append)
    then show "?arr ! i \<noteq> s" using assms(2) by auto
  qed
  finally show ?thesis by simp
qed

lemma remove_unique:
  assumes "count_list xs s \<le> 1" shows "remove xs s = Some (filter (\<lambda>x. x \<noteq> s) xs)"
proof (cases "s \<in> set xs")
  case True
  then obtain ys zs where xs: "xs = ys @ s # zs" "s \<notin> set ys" by (meson split_list_first)
  have "s \<notin> set zs" using assms xs by (auto simp: count_list_0_iff)
  moreover have "filter (\<lambda>x. x \<noteq> s) ys = ys" "filter (\<lambda>x. x \<noteq> s) zs = zs"
    using xs(2) calculation by (auto simp: filter_id_conv)
  ultimately show ?thesis using remove_once [of s ys zs] xs by simp
next
  case False
  then have "filter (\<lambda>x. x \<noteq> s) xs = xs" by (auto simp: filter_id_conv)
  with False show ?thesis by (simp add: remove_absent)
qed

section \<open>The dictionary interface of labels and annotations\<close>

text \<open>What callers rely on: a value that was added is found under its key and nothing else changes.\<close>

locale meta_dict =
  fixes Add :: "objectMeta \<Rightarrow> string \<Rightarrow> string \<Rightarrow> objectMeta"
    and Has :: "objectMeta \<Rightarrow> string \<Rightarrow> bool"
    and Get :: "objectMeta \<Rightarrow> string \<Rightarrow> string"
  assumes Has_Add: "Has (Add om k v) k' \<longleftrightarrow> k' = k \<or> Has om k'"
    and Get_Add: "Get (Add om k v) k' = (if k' = k then v else Get om k')"
    and Get_absent: "\<not> Has om k \<Longrightarrow> Get om k = ''''"
begin

text \<open>Adding a list of entries: the last entry of a key counts.\<close>

lemma Get_Add_all:
  "Get (foldl (\<lambda>om (k, v). Add om k v) om kvs) k =
   (case map_of (rev kvs) k of Some v \<Rightarrow> v | None \<Rightarrow> Get om k)"
  by (induction kvs rule: rev_induct) (auto simp: Get_Add split: option.splits)

lemma Has_Add_all:
  "Has (foldl (\<lambda>om (k, v). Add om k v) om kvs) k \<longleftrightarrow> k \<in> fst ` set kvs \<or> Has om k"
  by (induction kvs rule: rev_induct) (auto simp: Has_Add)

lemma Add_twice: "Get (Add (Add om k v) k v') k' = Get (Add om k v') k'"
  by (simp add: Get_Add)

end

interpretation label: meta_dict AddLabel HasLabel GetLabel
  by unfold_locales
    (auto simp: AddLabel_def HasLabel_def GetLabel_def map_set_def map_get_def split: option.splits)

interpretation annotation: meta_dict annotations_Add annotations_Has annotations_Get
  by unfold_locales
    (auto simp: annotations_Add_def annotations_Has_def annotations_Get_def map_set_def dom_def split: option.splits)

section \<open>Tags\<close>

lemma merge_loop_filter: "merge_loop dup acc ts = acc @ filter (\<lambda>t. tag_Key t \<notin> dup) ts"
  by (induction dup acc ts rule: merge_loop.induct) auto

lemma MergeTags_filter: "MergeTags gs is = gs @ filter (\<lambda>t. tag_Key t \<notin> tag_Key ` set gs) is"
  by (simp add: MergeTags_def merge_loop_filter)

text \<open>The tags as a dictionary, the first entry of a key counting.\<close>

definition tag_lookup :: "tag list \<Rightarrow> string \<rightharpoonup> string" where
  "tag_lookup ts = map_of (map (\<lambda>t. (tag_Key t, tag_Value t)) ts)"

lemma tag_lookup_None: "tag_lookup ts k = None \<longleftrightarrow> k \<notin> tag_Key ` set ts"
  by (auto simp: tag_lookup_def map_of_eq_None_iff image_image)

lemma tag_lookup_append: "tag_lookup (xs @ ys) k = (case tag_lookup xs k of Some v \<Rightarrow> Some v | None \<Rightarrow> tag_lookup ys k)"
  by (auto simp: tag_lookup_def map_add_def split: option.splits)

lemma tag_lookup_filter: "k \<notin> A \<Longrightarrow> tag_lookup (filter (\<lambda>t. tag_Key t \<notin> A) ts) k = tag_lookup ts k"
  by (induction ts) (auto simp: tag_lookup_def)

lemma tag_lookup_Nil [simp]: "tag_lookup [] k = None"
  by (simp add: tag_lookup_def)

lemma tag_lookup_MergeTags:
  "tag_lookup (MergeTags gs is) k = (case tag_lookup gs k of Some v \<Rightarrow> Some v | None \<Rightarrow> tag_lookup is k)"
  using tag_lookup_filter [of k "tag_Key ` set gs" "is"] tag_lookup_None [of gs k]
  by (auto simp: MergeTags_filter tag_lookup_append split: option.splits)

lemma found_loop: "foldl (\<lambda>found b. if tag_Equal a b then True else found) acc bs \<longleftrightarrow> acc \<or> (\<exists>b \<in> set bs. tag_Equal a b)"
  by (induction bs arbitrary: acc) auto

lemma tag_Equal_eq: "tag_Equal a b \<longleftrightarrow> a = b"
  by (cases a; cases b) (simp add: tag_Equal_def)

lemma TagsContainsAll_subset: "TagsContainsAll as bs \<longleftrightarrow> set as \<subseteq> set bs"
proof (induction as)
  case (Cons a as)
  have "foldl (\<lambda>found b. if tag_Equal a b then True else found) False bs \<longleftrightarrow> a \<in> set bs"
    unfolding found_loop by (simp add: tag_Equal_eq)
  then show ?case using Cons by (simp only: TagsContainsAll.simps list.set) auto
qed simp

section \<open>Properties\<close>



text \<open>
  Removing a finalizer that occurs at most once removes exactly it and keeps the order of the
  others; with a duplicate the in-place loop is wrong: it panics on \<^verbatim>\<open>[f, f]\<close> and leaves one behind
  on \<^verbatim>\<open>[f, f, g]\<close>.
\<close>

theorem RemoveFinalizer_exact:
  "(count_list (om_Finalizers om) f \<le> 1 \<longrightarrow>
      RemoveFinalizer om f = Some (om\<lparr>om_Finalizers := filter (\<lambda>x. x \<noteq> f) (om_Finalizers om)\<rparr>)) \<and>
   remove [f, f] f = None \<and> (f \<noteq> g \<longrightarrow> remove [f, f, g] f = Some [f, g])"
  by (simp add: RemoveFinalizer_def remove_unique) (simp add: remove_def)

theorem RemoveFinalizer_exact_witness:
  "remove [''a'', ''a'', ''b''] ''a'' = Some [''a'', ''b''] \<and> remove [''a'', ''a''] ''a'' = None"
  using RemoveFinalizer_exact [of _ "''a''" "''b''"] by simp

text \<open>
  \<^verbatim>\<open>MergeTags\<close> is a left-biased union: a key of the general tags keeps its value, every other key
  gets the value of the infrastructure tags, the general tags stay a prefix, and no key is doubled
  when neither list doubles one.
\<close>

theorem MergeTags_left_biased:
  "tag_lookup (MergeTags gs is) k = (case tag_lookup gs k of Some v \<Rightarrow> Some v | None \<Rightarrow> tag_lookup is k) \<and>
   (\<exists>rest. MergeTags gs is = gs @ rest \<and> set rest \<subseteq> set is) \<and>
   (distinct (map tag_Key gs) \<and> distinct (map tag_Key is) \<longrightarrow> distinct (map tag_Key (MergeTags gs is)))"
proof -
  let ?rest = "filter (\<lambda>t. tag_Key t \<notin> tag_Key ` set gs) is"
  have "distinct (map tag_Key (gs @ ?rest))" if "distinct (map tag_Key gs)" "distinct (map tag_Key is)"
  proof -
    have "distinct (map tag_Key ?rest)" using that(2) by (rule distinct_map_filter)
    moreover have "set (map tag_Key gs) \<inter> set (map tag_Key ?rest) = {}" by (auto simp: image_iff)
    ultimately show ?thesis using that(1) by (simp only: map_append distinct_append)
  qed
  moreover have "\<exists>rest. MergeTags gs is = gs @ rest \<and> set rest \<subseteq> set is"
    by (rule exI [of _ ?rest]) (auto simp: MergeTags_filter)
  ultimately show ?thesis using tag_lookup_MergeTags [of gs "is" k] by (simp only: MergeTags_filter) blast
qed

theorem MergeTags_left_biased_witness:
  "distinct (map tag_Key (MergeTags [BuildManagedTag] [BuildManagedTag]))"
  using MergeTags_left_biased [of "[BuildManagedTag]" "[BuildManagedTag]"] by simp

text \<open>
  Labels and annotations are dictionaries: after any sequence of additions a key has the value
  of its last addition, and a key that was not added is unchanged.
\<close>

theorem labels_annotations_last_write:
  "GetLabel (foldl (\<lambda>om (k, v). AddLabel om k v) om kvs) k =
     (case map_of (rev kvs) k of Some v \<Rightarrow> v | None \<Rightarrow> GetLabel om k) \<and>
   (HasLabel (foldl (\<lambda>om (k, v). AddLabel om k v) om kvs) k = (k \<in> fst ` set kvs \<or> HasLabel om k)) \<and>
   annotations_Get (foldl (\<lambda>om (k, v). annotations_Add om k v) om kvs) k =
     (case map_of (rev kvs) k of Some v \<Rightarrow> v | None \<Rightarrow> annotations_Get om k) \<and>
   (annotations_Has (foldl (\<lambda>om (k, v). annotations_Add om k v) om kvs) k = (k \<in> fst ` set kvs \<or> annotations_Has om k))"
  using label.Get_Add_all label.Has_Add_all annotation.Get_Add_all annotation.Has_Add_all by blast

end
