(* ===== verification/Go_JSON.thy ===== *)
theory Go_JSON
  imports CRO_Prelude
begin

text \<open>
  Go's \<^verbatim>\<open>encoding/json\<close> decoder, as far as the operator uses it: the syntax check with its error
  messages (\<^verbatim>\<open>checkValid\<close> and the scanner), and the decoding of an object into a struct whose fields
  are strings. Input is taken as valid UTF-8, so bytes above 127 are copied; the nesting limit of
  10000 is not modelled.
\<close>

datatype json = JNull | JBool bool | JNumber string | JString string | JArray "json list" | JObject "(string \<times> json) list"

section \<open>Scanner\<close>

definition json_space :: "char \<Rightarrow> bool" where
  "json_space c \<longleftrightarrow> c \<in> set [CHR '' '', CHR 0x09, CHR 0x0D, CHR 0x0A]"

definition skip_ws :: "string \<Rightarrow> string" where
  "skip_ws = dropWhile json_space"

definition hex_lower :: "nat \<Rightarrow> char" where
  "hex_lower d = (if d < 10 then char_of (48 + d) else char_of (87 + d))"

text \<open>\<^verbatim>\<open>quoteChar\<close>: the offending character as it appears in an error message.\<close>

definition quoteChar :: "char \<Rightarrow> string" where
  "quoteChar c = (let v = (of_char c :: nat); q = [CHR 0x27] in
     if v = 39 then [CHR 0x27, CHR 0x5C, CHR 0x27, CHR 0x27]
     else q @ (if v = 92 then [CHR 0x5C, CHR 0x5C]
       else if v = 7 then [CHR 0x5C, CHR ''a''] else if v = 8 then [CHR 0x5C, CHR ''b'']
       else if v = 9 then [CHR 0x5C, CHR ''t''] else if v = 10 then [CHR 0x5C, CHR ''n'']
       else if v = 11 then [CHR 0x5C, CHR ''v''] else if v = 12 then [CHR 0x5C, CHR ''f'']
       else if v = 13 then [CHR 0x5C, CHR ''r'']
       else if v < 32 \<or> v = 127 then [CHR 0x5C, CHR ''x'', hex_lower (v div 16), hex_lower (v mod 16)]
       else if v < 127 then [c]
       else if v < 160 \<or> v = 173 then [CHR 0x5C, CHR ''u'', CHR ''0'', CHR ''0'', hex_lower (v div 16), hex_lower (v mod 16)]
       else [char_of (192 + v div 64), char_of (128 + v mod 64)]) @ q)"

definition syntax_error :: "char \<Rightarrow> string \<Rightarrow> error" where
  "syntax_error c context = ErrNew (''invalid character '' @ quoteChar c @ '' '' @ context)"

definition eof_error :: error where
  "eof_error = ErrNew ''unexpected end of JSON input''"

definition hex_digit_val :: "char \<Rightarrow> nat option" where
  "hex_digit_val c = (let v = (of_char c :: nat) in
     if 48 \<le> v \<and> v \<le> 57 then Some (v - 48)
     else if 97 \<le> v \<and> v \<le> 102 then Some (v - 87)
     else if 65 \<le> v \<and> v \<le> 70 then Some (v - 55) else None)"

text \<open>Four hexadecimal digits after \<^verbatim>\<open>\u\<close>.\<close>

fun hex4 :: "nat \<Rightarrow> nat \<Rightarrow> string \<Rightarrow> error + nat \<times> string" where
  "hex4 0 acc s = Inr (acc, s)"
| "hex4 (Suc n) acc [] = Inl eof_error"
| "hex4 (Suc n) acc (c # s) = (case hex_digit_val c of
     None \<Rightarrow> Inl (syntax_error c (''in '' @ [CHR 0x5C] @ ''u hexadecimal character escape''))
   | Some d \<Rightarrow> hex4 n (acc * 16 + d) s)"

definition utf8 :: "nat \<Rightarrow> string" where
  "utf8 r = (if r < 128 then [char_of r]
     else if r < 2048 then [char_of (192 + r div 64), char_of (128 + r mod 64)]
     else if r < 65536 then [char_of (224 + r div 4096), char_of (128 + r div 64 mod 64), char_of (128 + r mod 64)]
     else [char_of (240 + r div 262144), char_of (128 + r div 4096 mod 64), char_of (128 + r div 64 mod 64), char_of (128 + r mod 64)])"

definition json_escapes :: "(char \<times> char) list" where
  "json_escapes = [(CHR 0x22, CHR 0x22), (CHR 0x5C, CHR 0x5C), (CHR ''/'', CHR ''/''), (CHR ''b'', CHR 0x08),
     (CHR ''f'', CHR 0x0C), (CHR ''n'', CHR 0x0A), (CHR ''r'', CHR 0x0D), (CHR ''t'', CHR 0x09)]"

text \<open>A surrogate half is combined with a following one; alone it is the replacement character.\<close>

definition unpaired :: "nat option \<Rightarrow> string" where
  "unpaired half = (case half of None \<Rightarrow> [] | Some _ \<Rightarrow> utf8 65533)"

lemma hex4_length: "hex4 n acc s = Inr (v, r) \<Longrightarrow> length r \<le> length s"
  by (induction n acc s rule: hex4.induct) (auto split: option.splits)

text \<open>The rest of a string literal; \<open>half\<close> is a pending high surrogate, \<open>acc\<close> the decoded text.\<close>

function json_string :: "nat option \<Rightarrow> string \<Rightarrow> string \<Rightarrow> error + string \<times> string" where
  "json_string half acc [] = Inl eof_error"
| "json_string half acc (c # s) =
    (if c = CHR 0x22 then Inr (acc @ unpaired half, s)
     else if (of_char c :: nat) < 32 then Inl (syntax_error c ''in string literal'')
     else if c \<noteq> CHR 0x5C then json_string None (acc @ unpaired half @ [c]) s
     else case s of [] \<Rightarrow> Inl eof_error
       | e # r \<Rightarrow>
           if e = CHR ''u'' then
             (case hex4 4 0 r of Inl er \<Rightarrow> Inl er
              | Inr (v, r') \<Rightarrow>
                  if length r < length r' then Inl eof_error
                  else if 55296 \<le> v \<and> v < 56320 then json_string (Some v) (acc @ unpaired half) r'
                  else if 56320 \<le> v \<and> v < 57344 then
                    (case half of None \<Rightarrow> json_string None (acc @ utf8 65533) r'
                     | Some h \<Rightarrow> json_string None (acc @ utf8 (65536 + (h - 55296) * 1024 + (v - 56320))) r')
                  else json_string None (acc @ unpaired half @ utf8 v) r')
           else (case map_of json_escapes e of
               None \<Rightarrow> Inl (syntax_error e ''in string escape code'')
             | Some d \<Rightarrow> json_string None (acc @ unpaired half @ [d]) r))"
  by pat_completeness auto
termination
  by (relation "measure (\<lambda>(half, acc, s). length s)") auto

definition json_digits :: "string \<Rightarrow> string \<Rightarrow> error + string \<times> string" where
  "json_digits context s = (case s of [] \<Rightarrow> Inl eof_error
     | c # r \<Rightarrow> if is_digit c then Inr (takeWhile is_digit s, dropWhile is_digit s) else Inl (syntax_error c context))"

text \<open>The optional fraction and exponent of a number.\<close>

definition json_exponent :: "string \<Rightarrow> error + string \<times> string" where
  "json_exponent s = (case s of
     c # r \<Rightarrow> if c = CHR ''e'' \<or> c = CHR ''E'' then
         (let (sg, r') = (case r of d # t \<Rightarrow> if d = CHR ''+'' \<or> d = CHR ''-'' then ([d], t) else ([], r) | [] \<Rightarrow> ([], []))
          in case json_digits ''in exponent of numeric literal'' r' of Inl e \<Rightarrow> Inl e
             | Inr (ds, t) \<Rightarrow> Inr (c # sg @ ds, t))
       else Inr ([], s)
   | [] \<Rightarrow> Inr ([], []))"

definition json_fraction :: "string \<Rightarrow> error + string \<times> string" where
  "json_fraction s = (case s of
     c # r \<Rightarrow> if c = CHR ''.'' then
         (case json_digits ''after decimal point in numeric literal'' r of Inl e \<Rightarrow> Inl e
          | Inr (ds, t) \<Rightarrow> Inr (c # ds, t))
       else Inr ([], s)
   | [] \<Rightarrow> Inr ([], []))"

definition json_number :: "string \<Rightarrow> error + string \<times> string" where
  "json_number s =
     (let (sg, s1) = (case s of c # r \<Rightarrow> if c = CHR ''-'' then ([c], r) else ([], s) | [] \<Rightarrow> ([], []))
      in case s1 of [] \<Rightarrow> Inl eof_error
         | c # r \<Rightarrow>
             (case (if c = CHR ''0'' then Inr ([c], r) else json_digits ''in numeric literal'' s1) of
                Inl e \<Rightarrow> Inl e
              | Inr (i, t) \<Rightarrow> (case json_fraction t of Inl e \<Rightarrow> Inl e
                  | Inr (f, u) \<Rightarrow> (case json_exponent u of Inl e \<Rightarrow> Inl e
                      | Inr (x, v) \<Rightarrow> Inr (sg @ i @ f @ x, v)))))"

text \<open>A literal: \<open>done\<close> has been read, \<open>w\<close> is still expected.\<close>

fun json_literal :: "string \<Rightarrow> string \<Rightarrow> string \<Rightarrow> error + string" where
  "json_literal name [] s = Inr s"
| "json_literal name (w # ws) [] = Inl eof_error"
| "json_literal name (w # ws) (c # s) =
     (if c = w then json_literal name ws s
      else Inl (syntax_error c (''in literal '' @ name @ '' (expecting '' @ quoteChar w @ '')'')))"

section \<open>Parser\<close>

text \<open>
  The three mutually recursive parts of the grammar in one function: a value, the members of an
  object after its brace or comma (\<open>Members\<close>), the elements of an array (\<open>Elements\<close>). A call makes progress, which
  the tests on the length state for the termination proof.
\<close>

datatype json_goal = Value | Members "(string \<times> json) list" | Elements "json list"

function (sequential) json_parse :: "json_goal \<Rightarrow> string \<Rightarrow> error + json \<times> string" where
  "json_parse Value s =
     (case skip_ws s of [] \<Rightarrow> Inl eof_error
      | c # r \<Rightarrow>
          if length s < Suc (length r) then Inl eof_error
          else if c = CHR ''{'' then
            (case skip_ws r of [] \<Rightarrow> Inl eof_error
             | d # t \<Rightarrow> if d = CHR ''}'' then Inr (JObject [], t)
                 else if length r < Suc (length t) then Inl eof_error
                 else json_parse (Members []) (d # t))
          else if c = CHR ''['' then
            (case skip_ws r of [] \<Rightarrow> Inl eof_error
             | d # t \<Rightarrow> if d = CHR '']'' then Inr (JArray [], t)
                 else if length r < Suc (length t) then Inl eof_error
                 else json_parse (Elements []) (d # t))
          else if c = CHR 0x22 then map_sum id (\<lambda>(v, t). (JString v, t)) (json_string None [] r)
          else if c = CHR ''t'' then map_sum id (\<lambda>t. (JBool True, t)) (json_literal ''true'' ''rue'' r)
          else if c = CHR ''f'' then map_sum id (\<lambda>t. (JBool False, t)) (json_literal ''false'' ''alse'' r)
          else if c = CHR ''n'' then map_sum id (\<lambda>t. (JNull, t)) (json_literal ''null'' ''ull'' r)
          else if c = CHR ''-'' \<or> is_digit c then map_sum id (\<lambda>(v, t). (JNumber v, t)) (json_number (c # r))
          else Inl (syntax_error c ''looking for beginning of value''))"
| "json_parse (Members ms) s =
     (case skip_ws s of [] \<Rightarrow> Inl eof_error
      | c # r \<Rightarrow>
          if c \<noteq> CHR 0x22 then Inl (syntax_error c ''looking for beginning of object key string'')
          else case json_string None [] r of Inl e \<Rightarrow> Inl e
          | Inr (key, t) \<Rightarrow>
              (case skip_ws t of [] \<Rightarrow> Inl eof_error
               | d # u \<Rightarrow>
                   if d \<noteq> CHR '':'' then Inl (syntax_error d ''after object key'')
                   else if length s \<le> length u then Inl eof_error
                   else case json_parse Value u of Inl e \<Rightarrow> Inl e
                   | Inr (v, w) \<Rightarrow>
                       (case skip_ws w of [] \<Rightarrow> Inl eof_error
                        | x # y \<Rightarrow>
                            if x = CHR ''}'' then Inr (JObject (ms @ [(key, v)]), y)
                            else if x \<noteq> CHR '','' then Inl (syntax_error x ''after object key:value pair'')
                            else if length s \<le> length y then Inl eof_error
                            else json_parse (Members (ms @ [(key, v)])) y)))"
| "json_parse (Elements vs) s =
     (case json_parse Value s of Inl e \<Rightarrow> Inl e
      | Inr (v, w) \<Rightarrow>
          (case skip_ws w of [] \<Rightarrow> Inl eof_error
           | x # y \<Rightarrow>
               if x = CHR '']'' then Inr (JArray (vs @ [v]), y)
               else if x \<noteq> CHR '','' then Inl (syntax_error x ''after array element'')
               else if length s \<le> length y then Inl eof_error
               else json_parse (Elements (vs @ [v])) y))"
  by pat_completeness auto
termination
  by (relation "measure (\<lambda>(g, s). 2 * length s + (case g of Elements _ \<Rightarrow> 1 | _ \<Rightarrow> 0))") auto

declare json_parse.simps [simp del] json_string.simps [simp del]

text \<open>\<^verbatim>\<open>json.Valid\<close> input is one value with nothing but white space after it.\<close>

definition json_document :: "string \<Rightarrow> error + json" where
  "json_document s = (case json_parse Value s of Inl e \<Rightarrow> Inl e
     | Inr (v, r) \<Rightarrow> (case skip_ws r of [] \<Rightarrow> Inr v | c # _ \<Rightarrow> Inl (syntax_error c ''after top-level value'')))"

section \<open>Decoding into a struct of strings\<close>

fun json_kind :: "json \<Rightarrow> string" where
  "json_kind JNull = ''null''"
| "json_kind (JBool _) = ''bool''"
| "json_kind (JNumber _) = ''number''"
| "json_kind (JString _) = ''string''"
| "json_kind (JArray _) = ''array''"
| "json_kind (JObject _) = ''object''"

definition fold_case :: "string \<Rightarrow> string" where
  "fold_case s = map (\<lambda>c. let v = (of_char c :: nat) in if 97 \<le> v \<and> v \<le> 122 then char_of (v - 32) else c) s"

text \<open>The field a key stands for: an exact match, else the first match that ignores case.\<close>

definition field_of :: "string list \<Rightarrow> string \<Rightarrow> string option" where
  "field_of fs key = (if key \<in> set fs then Some key
     else find (\<lambda>f. fold_case f = fold_case key) fs)"

definition type_error :: "string \<Rightarrow> json \<Rightarrow> string \<Rightarrow> error" where
  "type_error struct v f = ErrNew (''json: cannot unmarshal '' @ json_kind v @ '' into Go struct field '' @ struct @ ''.'' @ f @
     '' of type string'')"

text \<open>
  Members in order: a string sets its field, null leaves it, anything else is an error; the first
  error is returned at the end, and the later members are still decoded.
\<close>

fun decode_members :: "string \<Rightarrow> string list \<Rightarrow> (string \<rightharpoonup> string) \<Rightarrow> error option \<Rightarrow> (string \<times> json) list \<Rightarrow> error + (string \<rightharpoonup> string)" where
  "decode_members struct fs m err [] = (case err of None \<Rightarrow> Inr m | Some e \<Rightarrow> Inl e)"
| "decode_members struct fs m err ((k, v) # ms) = (case field_of fs k of
     None \<Rightarrow> decode_members struct fs m err ms
   | Some f \<Rightarrow> (case v of
        JString x \<Rightarrow> decode_members struct fs (m(f \<mapsto> x)) err ms
      | JNull \<Rightarrow> decode_members struct fs m err ms
      | _ \<Rightarrow> decode_members struct fs m (case err of None \<Rightarrow> Some (type_error struct v f) | Some e \<Rightarrow> Some e) ms))"

text \<open>\<^verbatim>\<open>json.Unmarshal\<close> into a fresh struct; a field that is not in the map has its zero value.\<close>

definition Unmarshal_strings :: "string \<Rightarrow> string \<Rightarrow> string list \<Rightarrow> string \<Rightarrow> error + (string \<rightharpoonup> string)" where
  "Unmarshal_strings type_name struct fs s = (case json_document s of Inl e \<Rightarrow> Inl e
     | Inr (JObject ms) \<Rightarrow> decode_members struct fs Map.empty None ms
     | Inr JNull \<Rightarrow> Inr Map.empty
     | Inr v \<Rightarrow> Inl (ErrNew (''json: cannot unmarshal '' @ json_kind v @ '' into Go value of type '' @ type_name)))"

end
