(* ===== verification/Kubernetes.thy ===== *)
theory Kubernetes
  imports Resources Go_JSON Complex_Main
begin

text \<open>
  The operator's use of the Kubernetes API. The API server is a parameter, a record of request
  functions over a world of any type; nothing is assumed of it. On top of it: the cluster queries of
  \<^verbatim>\<open>pkg/resources/cluster.go\<close>, the status updates of \<^verbatim>\<open>phase.go\<close>, \<^verbatim>\<open>CreateFinalizer\<close>, the connection
  secret of \<^verbatim>\<open>provider.go\<close>, the default tags of \<^verbatim>\<open>tags.go\<close>, and the deployment strategy mapping of
  \<^verbatim>\<open>pkg/providers/config.go\<close>.
\<close>

section \<open>Objects and requests\<close>

record awsPlatformStatus =
  aws_Region :: string
  aws_ResourceTags :: "(string \<times> string) list"

record gcpPlatformStatus =
  gcp_ProjectID :: string
  gcp_Region :: string

record platformStatus =
  pf_Type :: string
  pf_AWS :: "awsPlatformStatus option"
  pf_GCP :: "gcpPlatformStatus option"

record infrastructure =
  infra_InfrastructureName :: string
  infra_PlatformStatus :: "platformStatus option"

record networkConf =
  nc_ClusterNetwork :: "string list"
  nc_ServiceNetwork :: "string list"

record secret =
  sec_Name :: string
  sec_Namespace :: string
  sec_Data :: "labels option"
  sec_Type :: string
  sec_Owners :: "string list"

text \<open>
  A \<^verbatim>\<open>CredentialsRequest\<close> of the cloud credential operator; the provider specific parts are encoded.
\<close>

record credentialsRequest =
  cq_Name :: string
  cq_Namespace :: string
  cq_ProviderSpec :: "string option"
  cq_SecretRef :: "string \<times> string"
  cq_Provisioned :: bool
  cq_ProviderStatus :: "string option"

type_synonym nsName = "string \<times> string"

text \<open>
  Requests that read give a response or an error; requests that write are given the object and
  return the object as stored. \<open>kube_SetControllerReference\<close> is the function of that name of
  controller-runtime, which edits the secret locally. A snapshot resource is created from a prefix of its name,
  a namespace and the name of its resource.
\<close>

record 'w kube =
  kube_env :: env
  kube_Get :: "kind \<Rightarrow> nsName \<Rightarrow> 'w \<Rightarrow> (error + cr) \<times> 'w"
  kube_List :: "kind \<Rightarrow> 'w \<Rightarrow> (error + cr list) \<times> 'w"
  kube_Update :: "kind \<Rightarrow> cr \<Rightarrow> 'w \<Rightarrow> (error + cr) \<times> 'w"
  kube_Create :: "kind \<Rightarrow> cr \<Rightarrow> 'w \<Rightarrow> (error + cr) \<times> 'w"
  kube_StatusUpdate :: "kind \<Rightarrow> cr \<Rightarrow> 'w \<Rightarrow> (error + cr) \<times> 'w"
  kube_GetSnapshot :: "kind \<Rightarrow> nsName \<Rightarrow> 'w \<Rightarrow> (error + snapshot) \<times> 'w"
  kube_StatusUpdateSnapshot :: "kind \<Rightarrow> snapshot \<Rightarrow> 'w \<Rightarrow> (error + snapshot) \<times> 'w"
  kube_ListSnapshots :: "kind \<Rightarrow> string \<Rightarrow> 'w \<Rightarrow> (error + snapshot list) \<times> 'w"
  kube_CreateSnapshot :: "kind \<Rightarrow> string \<Rightarrow> string \<Rightarrow> string \<Rightarrow> 'w \<Rightarrow> (error + snapshot) \<times> 'w"
  kube_DeleteSnapshot :: "kind \<Rightarrow> nsName \<Rightarrow> 'w \<Rightarrow> (error + unit) \<times> 'w"
  kube_UpdateSnapshot :: "kind \<Rightarrow> snapshot \<Rightarrow> 'w \<Rightarrow> (error + snapshot) \<times> 'w"
  kube_GetConfigMap :: "nsName \<Rightarrow> 'w \<Rightarrow> (error + labels option) \<times> 'w"
  kube_GetInfrastructure :: "string \<Rightarrow> 'w \<Rightarrow> (error + infrastructure) \<times> 'w"
  kube_GetNetwork :: "string \<Rightarrow> 'w \<Rightarrow> (error + networkConf) \<times> 'w"
  kube_GetSecret :: "nsName \<Rightarrow> 'w \<Rightarrow> (error + secret) \<times> 'w"
  kube_CreateSecret :: "secret \<Rightarrow> 'w \<Rightarrow> (error + secret) \<times> 'w"
  kube_UpdateSecret :: "secret \<Rightarrow> 'w \<Rightarrow> (error + secret) \<times> 'w"
  kube_DeleteSecret :: "nsName \<Rightarrow> 'w \<Rightarrow> (error + unit) \<times> 'w"
  kube_GetCredentialsRequest :: "nsName \<Rightarrow> 'w \<Rightarrow> (error + credentialsRequest) \<times> 'w"
  kube_CreateCredentialsRequest :: "credentialsRequest \<Rightarrow> 'w \<Rightarrow> (error + credentialsRequest) \<times> 'w"
  kube_UpdateCredentialsRequest :: "credentialsRequest \<Rightarrow> 'w \<Rightarrow> (error + credentialsRequest) \<times> 'w"
  kube_DeleteCredentialsRequest :: "nsName \<Rightarrow> 'w \<Rightarrow> (error + unit) \<times> 'w"
  kube_SetControllerReference :: "kind \<Rightarrow> cr \<Rightarrow> secret \<Rightarrow> error + secret"

text \<open>
  The state-changing requests a run makes, with whether they succeeded, and the gauges it sets. \<open>'c\<close> are the requests to the
  cloud provider.
\<close>

datatype 'c event =
    EvUpdate kind cr bool
  | EvCreate kind cr bool
  | EvStatus kind cr bool
  | EvCreateSecret secret bool
  | EvUpdateSecret secret bool
  | EvDeleteSecret nsName bool
  | EvCreateCredentialsRequest credentialsRequest bool
  | EvUpdateCredentialsRequest credentialsRequest bool
  | EvDeleteCredentialsRequest nsName bool
  | EvProviderCreate kind string cr
  | EvProviderDelete kind string cr
  | EvSnapshotUpdate kind snapshot bool
  | EvCreateSnapshotCR kind string string string bool
  | EvDeleteSnapshotCR kind nsName bool
  | EvSnapshotStatus kind snapshot bool
  | EvSnapshotCreate kind string snapshot
  | EvSnapshotDelete kind string snapshot
  | EvSetMetric string labels real
  | EvResetMetric string
  | EvCloud 'c bool

type_synonym ('w, 'c, 'a) kop = "(('w, 'c event) sys, 'a) op"

text \<open>
  The gauges are local state of the operator; setting one is recorded in the trace with the requests. What
  the registry makes of the recorded calls is the subject of \<open>Metrics\<close>.
\<close>

definition set_metric :: "string \<Rightarrow> labels \<Rightarrow> real \<Rightarrow> ('w, 'c, unit) kop" where
  "set_metric name ls v = (\<lambda>s. (Val (), s\<lparr>trace := trace s @ [EvSetMetric name ls v]\<rparr>))"

definition reset_metric :: "string \<Rightarrow> ('w, 'c, unit) kop" where
  "reset_metric name = (\<lambda>s. (Val (), s\<lparr>trace := trace s @ [EvResetMetric name]\<rparr>))"

section \<open>The cluster\<close>

definition GetClusterInfrastructure :: "'w kube \<Rightarrow> ('w, 'c, infrastructure) kop" where
  "GetClusterInfrastructure k = wrapping ''failed to retrieve cluster infrastructure'' (query (kube_GetInfrastructure k ''cluster''))"

definition GetClusterID :: "'w kube \<Rightarrow> ('w, 'c, string) kop" where
  "GetClusterID k = andThen (wrapping ''failed to retrieve cluster infrastructure'' (GetClusterInfrastructure k))
     (\<lambda>infra. ret (infra_InfrastructureName infra))"

definition GetAWSRegion :: "'w kube \<Rightarrow> ('w, 'c, string) kop" where
  "GetAWSRegion k = andThen (wrapping ''failure happened while retrieving cluster infrastructure'' (GetClusterInfrastructure k))
     (\<lambda>infra. case infra_PlatformStatus infra of
        Some ps \<Rightarrow> if pf_Type ps = ''AWS'' then andThen (deref (pf_AWS ps)) (\<lambda>a. ret (aws_Region a))
                   else throw (ErrNew ''infrastructure does not contain aws region'')
      | None \<Rightarrow> throw (ErrNew ''infrastructure does not contain aws region''))"

definition GetGCPProject :: "'w kube \<Rightarrow> ('w, 'c, string) kop" where
  "GetGCPProject k = andThen (wrapping ''failed to retrieve cluster infrastructure'' (GetClusterInfrastructure k))
     (\<lambda>infra. case infra_PlatformStatus infra of
        Some ps \<Rightarrow> if pf_Type ps = ''GCP'' then andThen (deref (pf_GCP ps)) (\<lambda>g. ret (gcp_ProjectID g))
                   else throw (ErrNew ''infrastructure does not contain gcp project'')
      | None \<Rightarrow> throw (ErrNew ''infrastructure does not contain gcp project''))"

definition GetGCPRegion :: "'w kube \<Rightarrow> ('w, 'c, string) kop" where
  "GetGCPRegion k = andThen (wrapping ''failed to retrieve cluster infrastructure'' (GetClusterInfrastructure k))
     (\<lambda>infra. case infra_PlatformStatus infra of
        Some ps \<Rightarrow> if pf_Type ps = ''GCP'' then andThen (deref (pf_GCP ps)) (\<lambda>g. ret (gcp_Region g))
                   else throw (ErrNew ''infrastructure does not contain gcp project'')
      | None \<Rightarrow> throw (ErrNew ''infrastructure does not contain gcp project''))"

definition GetPlatformType :: "'w kube \<Rightarrow> ('w, 'c, string) kop" where
  "GetPlatformType k = andThen (wrapping ''failed to retrieve cluster platform type'' (GetClusterInfrastructure k))
     (\<lambda>infra. andThen (deref (infra_PlatformStatus infra)) (\<lambda>ps. ret (pf_Type ps)))"

definition BuildInfraName :: "'w kube \<Rightarrow> string \<Rightarrow> int \<Rightarrow> ('w, 'c, string) kop" where
  "BuildInfraName k postfix n = andThen (wrapping ''error getting clusterID'' (GetClusterID k))
     (\<lambda>clusterID. ret (ShortenString (clusterID @ ''-'' @ postfix) n))"

definition BuildInfraNameFromObject :: "'w kube \<Rightarrow> objectMeta \<Rightarrow> int \<Rightarrow> ('w, 'c, string) kop" where
  "BuildInfraNameFromObject k om n = andThen (wrapping ''failed to retrieve cluster identifier'' (GetClusterID k))
     (\<lambda>clusterID. ret (ShortenString (clusterID @ ''-'' @ om_Namespace om @ ''-'' @ om_Name om) n))"

text \<open>\<open>curTime\<close> is \<^verbatim>\<open>time.Now().Unix()\<close>.\<close>

definition BuildTimestampedInfraNameFromObject :: "'w kube \<Rightarrow> int \<Rightarrow> objectMeta \<Rightarrow> int \<Rightarrow> ('w, 'c, string) kop" where
  "BuildTimestampedInfraNameFromObject k curTime om n =
     andThen (wrapping ''failed to retrieve timestamped cluster identifier'' (GetClusterID k))
     (\<lambda>clusterID. ret (ShortenString (clusterID @ ''-'' @ om_Namespace om @ ''-'' @ om_Name om @ ''-'' @ itoa curTime) n))"

definition BuildTimestampedInfraNameFromObjectCreation :: "'w kube \<Rightarrow> objectMeta \<Rightarrow> int \<Rightarrow> ('w, 'c, string) kop" where
  "BuildTimestampedInfraNameFromObjectCreation k om n =
     andThen (wrapping ''failed to retrieve timestamped cluster identifier'' (GetClusterID k))
     (\<lambda>clusterID. ret (ShortenString (clusterID @ ''-'' @ om_Namespace om @ ''-'' @ om_Name om @ ''-'' @ om_CreationTimestamp om) n))"

section \<open>Tags\<close>

text \<open>A nil slice when the platform has no AWS tags: the empty list.\<close>

definition GetUserInfraTags :: "'w kube \<Rightarrow> ('w, 'c, tag list) kop" where
  "GetUserInfraTags k = andThen (wrapping ''failed to get cluster infrastructure'' (GetClusterInfrastructure k))
     (\<lambda>infra. ret (case infra_PlatformStatus infra of None \<Rightarrow> []
        | Some ps \<Rightarrow> (case pf_AWS ps of None \<Rightarrow> []
            | Some a \<Rightarrow> map (\<lambda>(key, v). \<lparr>tag_Key = key, tag_Value = v\<rparr>) (aws_ResourceTags a))))"

definition GetDefaultResourceTags :: "'w kube \<Rightarrow> string \<Rightarrow> string \<Rightarrow> string \<Rightarrow> ('w, 'c, tag list \<times> string) kop" where
  "GetDefaultResourceTags k specType name prodName =
     (let org = GetOrganizationTag (kube_env k) in
      andThen (wrapping ''Failed to get cluster id'' (GetClusterID k)) (\<lambda>clusterID.
      let tags = [\<lparr>tag_Key = org @ ''clusterID'', tag_Value = clusterID\<rparr>,
                  \<lparr>tag_Key = org @ ''resource-type'', tag_Value = specType\<rparr>,
                  \<lparr>tag_Key = org @ ''resource-name'', tag_Value = name\<rparr>,
                  BuildManagedTag] @
                 (if prodName \<noteq> '''' then [\<lparr>tag_Key = org @ ''product-name'', tag_Value = prodName\<rparr>] else [])
      in andThen (wrapping ''Failed to get user infrastructure tags'' (GetUserInfraTags k)) (\<lambda>infraTags.
         ret (if infraTags \<noteq> [] then MergeTags infraTags tags else tags, clusterID))))"

section \<open>Status, finalizers and the connection secret\<close>

definition UpdatePhase :: "'w kube \<Rightarrow> kind \<Rightarrow> cr \<Rightarrow> string \<Rightarrow> string \<Rightarrow> ('w, 'c, cr) kop" where
  "UpdatePhase k kind inst phase msg =
     (if msg = '''' then ret inst
      else let inst' = with_phase phase msg inst in
        wrapping ''failed to update resource status phase and message''
          (request (kube_StatusUpdate k kind inst') (\<lambda>r. EvStatus kind inst' (ok r))))"

text \<open>
  The same function called with a snapshot resource, whose status type is neither assignable nor
  convertible to \<^verbatim>\<open>ResourceTypeStatus\<close>: \<^verbatim>\<open>runtime.Field\<close> returns an error.
\<close>

definition UpdatePhase_on_snapshot :: "snapshot \<Rightarrow> string \<Rightarrow> string \<Rightarrow> ('w, 'c, snapshot) kop" where
  "UpdatePhase_on_snapshot inst phase msg =
     (if msg = '''' then ret inst
      else throw (ErrWrap (ErrNew ''couldn't assign/convert types.ResourceTypeSnapshotStatus to types.ResourceTypeStatus'')
                    ''failed to retrieve status block from object''))"

definition UpdateSnapshotPhase :: "'w kube \<Rightarrow> kind \<Rightarrow> snapshot \<Rightarrow> string \<Rightarrow> string \<Rightarrow> ('w, 'c, snapshot) kop" where
  "UpdateSnapshotPhase k kind inst phase msg =
     (if msg = '''' then ret inst
      else let inst' = inst\<lparr>sn_status := (sn_status inst)\<lparr>ss_Message := msg, ss_Phase := phase\<rparr>\<rparr> in
        wrapping ''failed to update resource status phase and message''
          (request (kube_StatusUpdateSnapshot k kind inst') (\<lambda>r. EvSnapshotStatus kind inst' (ok r))))"

definition CreateFinalizer :: "'w kube \<Rightarrow> kind \<Rightarrow> cr \<Rightarrow> string \<Rightarrow> ('w, 'c, cr) kop" where
  "CreateFinalizer k kind inst df =
     (if om_DeletionTimestamp (cr_meta inst) = None
      then let inst' = inst\<lparr>cr_meta := addFinalizer (cr_meta inst) df\<rparr> in
        wrapping ''failed to add finalizer to instance''
          (request (kube_Update k kind inst') (\<lambda>r. EvUpdate kind inst' (ok r)))
      else ret inst)"

text \<open>
  The mutate function of \<^verbatim>\<open>ReconcileResultSecret\<close>. It returns the secret and the instance, which a
  failing owner reference changes through \<^verbatim>\<open>UpdatePhase\<close>.
\<close>

definition mutate_secret :: "'w kube \<Rightarrow> kind \<Rightarrow> cr \<Rightarrow> labels \<Rightarrow> secret \<Rightarrow> ('w, 'c, (error + secret) \<times> cr) kop" where
  "mutate_secret k kind inst d sec =
     (case kube_SetControllerReference k kind inst sec of
        Inl ownerRefErr \<Rightarrow>
          andThen (attempt (UpdatePhase k kind inst PhaseFailed ''setting secret data'')) (\<lambda>r. case r of
            Inl updateErr \<Rightarrow> ret (Inl updateErr, with_phase PhaseFailed ''setting secret data'' inst)
          | Inr inst' \<Rightarrow> ret (Inl (ErrWrap ownerRefErr (''failed to set owner on secret '' @ sec_Name sec)), inst'))
      | Inr sec' \<Rightarrow> ret (Inr (sec'\<lparr>sec_Data := Some d, sec_Type := ''Opaque''\<rparr>), inst))"

text \<open>\<^verbatim>\<open>controllerutil.CreateOrUpdate\<close> on the secret: the error of the request, if any, and the instance.\<close>

definition CreateOrUpdate_secret ::
  "'w kube \<Rightarrow> kind \<Rightarrow> cr \<Rightarrow> labels \<Rightarrow> secret \<Rightarrow> ('w, 'c, error option \<times> cr) kop" where
  "CreateOrUpdate_secret k kind inst d sec =
     andThen (attempt (query (kube_GetSecret k (sec_Name sec, sec_Namespace sec)))) (\<lambda>r. case r of
       Inl err \<Rightarrow>
         if \<not> k8s_IsNotFound err then ret (Some err, inst)
         else andThen (mutate_secret k kind inst d sec) (\<lambda>(m, inst'). case m of
           Inl e \<Rightarrow> ret (Some e, inst')
         | Inr new \<Rightarrow> andThen (attempt (request (kube_CreateSecret k new) (\<lambda>r. EvCreateSecret new (ok r))))
             (\<lambda>r. case r of Inl e \<Rightarrow> ret (Some e, inst') | Inr _ \<Rightarrow> ret (None, inst')))
     | Inr existing \<Rightarrow>
         andThen (mutate_secret k kind inst d existing) (\<lambda>(m, inst'). case m of
           Inl e \<Rightarrow> ret (Some e, inst')
         | Inr new \<Rightarrow>
             if new = existing then ret (None, inst')
             else andThen (attempt (request (kube_UpdateSecret k new) (\<lambda>r. EvUpdateSecret new (ok r))))
               (\<lambda>r. case r of Inl e \<Rightarrow> ret (Some e, inst') | Inr _ \<Rightarrow> ret (None, inst'))))"

definition ReconcileResultSecret :: "'w kube \<Rightarrow> kind \<Rightarrow> cr \<Rightarrow> labels \<Rightarrow> ('w, 'c, cr) kop" where
  "ReconcileResultSecret k kind inst d =
     andThen (deref (spec_SecretRef (cr_spec inst))) (\<lambda>ref.
     let secNs = (if ref_Namespace ref \<noteq> '''' then ref_Namespace ref else om_Namespace (cr_meta inst));
         sec = \<lparr>sec_Name = ref_Name ref, sec_Namespace = secNs, sec_Data = None, sec_Type = '''', sec_Owners = []\<rparr>
     in andThen (CreateOrUpdate_secret k kind inst d sec) (\<lambda>(e, inst'). case e of
          None \<Rightarrow> ret inst'
        | Some err \<Rightarrow> andThen (UpdatePhase k kind inst' PhaseFailed ''failed to reconcile instance secret'')
            (\<lambda>_. throw (ErrWrap err (''failed to reconcile smtp credential set instance secret '' @ sec_Name sec)))))"

definition IsLastResource :: "'w kube \<Rightarrow> ('w, 'c, bool) kop" where
  "IsLastResource k =
     andThen (wrapping ''failed to retrieve postgres cr(s)'' (query (kube_List k Postgres))) (\<lambda>postgresList.
     if length postgresList > 1 then ret False
     else andThen (wrapping ''failed to retrieve redis cr(s)'' (query (kube_List k Redis))) (\<lambda>redisList.
       ret (length postgresList + length redisList = 1)))"

definition VerifyMaintenanceWindow :: "'w kube \<Rightarrow> kind \<Rightarrow> string \<Rightarrow> string \<Rightarrow> ('w, 'c, bool) kop" where
  "VerifyMaintenanceWindow k kind namespace name =
     andThen (query (kube_Get k kind (name, namespace))) (\<lambda>inst.
       if spec_MaintenanceWindow (cr_spec inst) then ret True else ret False)"

section \<open>The deployment strategy mapping\<close>

record deploymentStrategyMapping =
  dsm_BlobStorage :: string
  dsm_Redis :: string
  dsm_Postgres :: string

definition GetConfigMapOrDefault :: "'w kube \<Rightarrow> nsName \<Rightarrow> labels option \<Rightarrow> ('w, 'c, labels option) kop" where
  "GetConfigMapOrDefault k name def =
     andThen (attempt (query (kube_GetConfigMap k name))) (\<lambda>r. case r of
       Inl err \<Rightarrow> if k8s_IsNotFound err then ret def
                  else throw (ErrWrap err ''failed to get config map, not returning default'')
     | Inr cm \<Rightarrow> ret cm)"

text \<open>The JSON texts of \<^verbatim>\<open>buildDefaultConfigMap\<close>.\<close>

definition quoted :: "string \<Rightarrow> string" where
  "quoted s = [CHR 0x22] @ s @ [CHR 0x22]"

definition mapping_json :: "string \<Rightarrow> string" where
  "mapping_json s = ''{'' @ quoted ''blobstorage'' @ '':'' @ quoted s @ '', '' @ quoted ''redis'' @ '':'' @ quoted s @ '', '' @
     quoted ''postgres'' @ '':'' @ quoted s @ ''}''"

definition buildDefaultConfigMap :: labels where
  "buildDefaultConfigMap = [''openshift'' \<mapsto> mapping_json ''openshift'', ''aws'' \<mapsto> mapping_json ''aws'', ''gcp'' \<mapsto> mapping_json ''gcp'']"

record configMapConfigManager =
  cfg_Name :: string
  cfg_Namespace :: string

text \<open>\<^verbatim>\<open>DefaultConfigNamespace\<close> is the value of \<^verbatim>\<open>WATCH_NAMESPACE\<close>, empty when it is not set.\<close>

definition NewConfigManager :: "env \<Rightarrow> string \<Rightarrow> string \<Rightarrow> configMapConfigManager" where
  "NewConfigManager env cm namespace =
     \<lparr>cfg_Name = (if cm = '''' then ''cloud-resource-config'' else cm),
      cfg_Namespace = (if namespace = '''' then (case env ''WATCH_NAMESPACE'' of None \<Rightarrow> '''' | Some ns \<Rightarrow> ns) else namespace)\<rparr>"

definition UnmarshalMapping :: "string \<Rightarrow> error + deploymentStrategyMapping" where
  "UnmarshalMapping s =
     (case Unmarshal_strings ''providers.DeploymentStrategyMapping'' ''DeploymentStrategyMapping'' [''blobstorage'', ''redis'', ''postgres''] s of
        Inl e \<Rightarrow> Inl e
      | Inr m \<Rightarrow> Inr \<lparr>dsm_BlobStorage = map_get (Some m) ''blobstorage'', dsm_Redis = map_get (Some m) ''redis'',
                    dsm_Postgres = map_get (Some m) ''postgres''\<rparr>)"

definition GetStrategyMappingForDeploymentType ::
  "'w kube \<Rightarrow> configMapConfigManager \<Rightarrow> string \<Rightarrow> ('w, 'c, deploymentStrategyMapping) kop" where
  "GetStrategyMappingForDeploymentType k m t =
     andThen (wrapping (''failed to read provider config from configmap '' @ cfg_Name m @ '' in namespace '' @ cfg_Namespace m)
       (GetConfigMapOrDefault k (cfg_Name m, cfg_Namespace m) (Some buildDefaultConfigMap))) (\<lambda>cm.
     wrapping (''failed to unmarshal config for deployment type '' @ t) (lift_sum (UnmarshalMapping (map_get cm t))))"


section \<open>Requests that only read\<close>

lemma quiet_cluster [quiet_rules]:
  "quiet (GetClusterInfrastructure k)" "quiet (GetClusterID k)" "quiet (GetAWSRegion k)" "quiet (GetGCPProject k)"
  "quiet (GetGCPRegion k)" "quiet (GetPlatformType k)" "quiet (BuildInfraName k post n)" "quiet (BuildInfraNameFromObject k om n)"
  "quiet (BuildTimestampedInfraNameFromObject k now om n)" "quiet (BuildTimestampedInfraNameFromObjectCreation k om n)"
  "quiet (GetUserInfraTags k)" "quiet (GetDefaultResourceTags k st name prd)" "quiet (IsLastResource k)"
  "quiet (VerifyMaintenanceWindow k kind ns name)" "quiet (GetConfigMapOrDefault k nm def)"
  "quiet (GetStrategyMappingForDeploymentType k m t)"
  unfolding GetClusterInfrastructure_def GetClusterID_def GetAWSRegion_def GetGCPProject_def GetGCPRegion_def
    GetPlatformType_def BuildInfraName_def BuildInfraNameFromObject_def BuildTimestampedInfraNameFromObject_def
    BuildTimestampedInfraNameFromObjectCreation_def GetUserInfraTags_def GetDefaultResourceTags_def IsLastResource_def
    VerifyMaintenanceWindow_def GetConfigMapOrDefault_def GetStrategyMappingForDeploymentType_def Let_def
  by (intro quiet_rules)+

section \<open>What the writing helpers add to the trace\<close>

text \<open>\<open>UpdatePhase\<close> writes one status with the given phase, or nothing for an empty message.\<close>

lemma emits_UpdatePhase:
  "emits (UpdatePhase k kind inst phase msg) (\<lambda>es r.
     (msg = '''' \<and> es = [] \<and> r = Val inst) \<or>
     (msg \<noteq> '''' \<and> ((\<exists>i. r = Val i \<and> es = [EvStatus kind (with_phase phase msg inst) True]) \<or>
        (\<exists>e m. r = Fail (ErrWrap e m) \<and> es = [EvStatus kind (with_phase phase msg inst) False]))))"
proof (cases "msg = ''''")
  case False
  then show ?thesis unfolding UpdatePhase_def Let_def
    by (simp, intro emits_wrapping [OF emits_request]) auto
qed (simp add: UpdatePhase_def emits_ret)

lemma emits_UpdateSnapshotPhase:
  "emits (UpdateSnapshotPhase k kind inst phase msg) (\<lambda>es r.
     (msg = '''' \<and> es = [] \<and> r = Val inst) \<or>
     (msg \<noteq> '''' \<and> (\<exists>i. ss_Phase (sn_status i) = phase \<and> ss_Message (sn_status i) = msg \<and>
        ((\<exists>j. r = Val j \<and> es = [EvSnapshotStatus kind i True]) \<or>
         (\<exists>e m. r = Fail (ErrWrap e m) \<and> es = [EvSnapshotStatus kind i False])))))"
proof (cases "msg = ''''")
  case False
  then show ?thesis unfolding UpdateSnapshotPhase_def Let_def
    by (simp, intro emits_wrapping [OF emits_request]) auto
qed (simp add: UpdateSnapshotPhase_def emits_ret)

text \<open>\<open>CreateFinalizer\<close> writes the instance with the finalizer, and nothing to one that is being deleted.\<close>

lemma emits_CreateFinalizer:
  "emits (CreateFinalizer k kind inst df) (\<lambda>es r.
     (om_DeletionTimestamp (cr_meta inst) \<noteq> None \<and> es = [] \<and> r = Val inst) \<or>
     (om_DeletionTimestamp (cr_meta inst) = None \<and> (\<exists>i b. es = [EvUpdate kind i b] \<and> HasFinalizer (cr_meta i) df \<and>
        cr_spec i = cr_spec inst \<and> (case r of Val _ \<Rightarrow> b | Fail _ \<Rightarrow> \<not> b | Abort _ \<Rightarrow> False))))"
proof (cases "om_DeletionTimestamp (cr_meta inst)")
  case None
  have "HasFinalizer (addFinalizer (cr_meta inst) df) df"
    by (simp add: addFinalizer_def HasFinalizer_def Contains_def)
  then show ?thesis using None unfolding CreateFinalizer_def Let_def
    by (simp, intro emits_wrapping [OF emits_request]) auto
qed (simp add: CreateFinalizer_def emits_ret)

definition is_secret_write :: "'c event \<Rightarrow> bool" where
  "is_secret_write e = (case e of EvCreateSecret _ _ \<Rightarrow> True | EvUpdateSecret _ _ \<Rightarrow> True | _ \<Rightarrow> False)"

definition secret_written :: "labels \<Rightarrow> 'c event list \<Rightarrow> bool" where
  "secret_written d es \<longleftrightarrow> es = [] \<or>
     (\<exists>sec. sec_Data sec = Some d \<and> (es = [EvCreateSecret sec True] \<or> es = [EvUpdateSecret sec True]))"

text \<open>Events of a secret that could not be written: no success, and only the failed phase is reported.\<close>

definition secret_failed :: "kind \<Rightarrow> 'c event list \<Rightarrow> bool" where
  "secret_failed kind es \<longleftrightarrow> (\<forall>e \<in> set es.
     (\<exists>sec. e = EvCreateSecret sec False \<or> e = EvUpdateSecret sec False) \<or>
     (\<exists>i b. e = EvStatus kind i b \<and> st_Phase (cr_status i) = PhaseFailed))"

lemma secret_failed_simps [simp]:
  "secret_failed kind []" "secret_failed kind (es @ fs) \<longleftrightarrow> secret_failed kind es \<and> secret_failed kind fs"
  "secret_failed kind [EvStatus kind i b] \<longleftrightarrow> st_Phase (cr_status i) = PhaseFailed"
  "secret_failed kind [EvCreateSecret sec False]" "secret_failed kind [EvUpdateSecret sec False]"
  by (auto simp: secret_failed_def)

lemma emits_mutate_secret:
  "emits (mutate_secret k kind inst d sec) (\<lambda>es r.
     (\<exists>e i. r = Val (Inl e, i) \<and> secret_failed kind es) \<or>
     (\<exists>new. r = Val (Inr new, inst) \<and> es = [] \<and> sec_Data new = Some d))" (is "emits _ ?S")
proof (cases "kube_SetControllerReference k kind inst sec")
  case (Inl e)
  have up: "emits (attempt (UpdatePhase k kind inst PhaseFailed ''setting secret data'')) (\<lambda>es r. (\<exists>x. r = Val x) \<and> secret_failed kind es)"
    by (rule emits_attempt [OF emits_UpdatePhase]) auto
  show ?thesis unfolding mutate_secret_def Inl sum.case
    by (rule emits_andThen [OF up]) (auto intro!: emits_sum emits_ret)
qed (simp add: mutate_secret_def emits_ret)

text \<open>The request of \<^verbatim>\<open>CreateOrUpdate\<close> that writes the secret.\<close>

definition secret_outcome :: "kind \<Rightarrow> cr \<Rightarrow> labels \<Rightarrow> 'c event list \<Rightarrow> (error option \<times> cr) res \<Rightarrow> bool" where
  "secret_outcome kind inst d es r \<longleftrightarrow>
     (r = Val (None, inst) \<and> secret_written d es) \<or> (\<exists>e i. r = Val (Some e, i) \<and> secret_failed kind es)"

lemma secret_outcomeI:
  "secret_failed kind es \<Longrightarrow> secret_outcome kind inst d es (Val (Some e, i))"
  "secret_written d es \<Longrightarrow> secret_outcome kind inst d es (Val (None, inst))"
  by (simp_all add: secret_outcome_def)

lemma secret_written_simps [simp]:
  "secret_written d []" "sec_Data new = Some d \<Longrightarrow> secret_written d [EvCreateSecret new True]"
  "sec_Data new = Some d \<Longrightarrow> secret_written d [EvUpdateSecret new True]"
  by (auto simp: secret_written_def)

lemma emits_write_secret:
  assumes "sec_Data new = Some d" and "ev = EvCreateSecret \<or> ev = EvUpdateSecret"
  shows "emits (andThen (attempt (request f (\<lambda>r. ev new (ok r)))) (\<lambda>r. case r of Inl e \<Rightarrow> ret (Some e, i) | Inr _ \<Rightarrow> ret (None, i)))
    (secret_outcome kind i d)"
proof -
  have req: "emits (attempt (request f (\<lambda>r. ev new (ok r)))) (\<lambda>es r.
        (\<exists>x. r = Val (Inr x) \<and> es = [ev new True]) \<or> (\<exists>e. r = Val (Inl e) \<and> es = [ev new False]))"
    by (rule emits_attempt [OF emits_request]) auto
  show ?thesis
    by (rule emits_andThen [OF req]) (use assms in \<open>auto intro!: emits_ret secret_outcomeI\<close>)
qed

lemma emits_after_mutate:
  assumes "\<And>new. sec_Data new = Some d \<Longrightarrow> emits (f (Inr new) inst) (secret_outcome kind inst d)"
    and "\<And>e i. f (Inl e) i = ret (Some e, i)"
  shows "emits (andThen (mutate_secret k kind inst d sec) (\<lambda>(m, i). f m i)) (secret_outcome kind inst d)"
  by (rule emits_andThen [OF emits_mutate_secret]) (use assms in \<open>auto intro!: emits_ret secret_outcomeI\<close>)

lemma emits_CreateOrUpdate_secret: "emits (CreateOrUpdate_secret k kind inst d sec) (secret_outcome kind inst d)"
proof -
  have get: "emits (attempt (query (kube_GetSecret k (sec_Name sec, sec_Namespace sec)))) (\<lambda>es r. es = [] \<and> (\<exists>x. r = Val x))"
    by (rule emits_attempt [OF emits_query]) auto
  show ?thesis unfolding CreateOrUpdate_secret_def
    by (rule emits_andThen [OF get])
      (auto intro!: emits_sum emits_if emits_after_mutate emits_write_secret emits_ret secret_outcomeI)
qed

definition secret_reconciled :: "kind \<Rightarrow> cr \<Rightarrow> labels \<Rightarrow> 'c event list \<Rightarrow> cr res \<Rightarrow> bool" where
  "secret_reconciled kind inst d es r \<longleftrightarrow>
     (spec_SecretRef (cr_spec inst) \<noteq> None \<and> r = Val inst \<and> secret_written d es) \<or>
     ((\<exists>e. r = Fail e) \<and> secret_failed kind es) \<or> (r = Abort Panics \<and> spec_SecretRef (cr_spec inst) = None \<and> es = [])"

lemma emits_secret_report:
  assumes "secret_failed kind es"
  shows "emits (andThen (UpdatePhase k kind i PhaseFailed msg) (\<lambda>_. throw e)) (\<lambda>fs. secret_reconciled kind inst d (es @ fs))"
  by (rule emits_andThen [OF emits_UpdatePhase]) (use assms in \<open>auto intro!: emits_throw simp: secret_reconciled_def\<close>)

lemma emits_ReconcileResultSecret: "emits (ReconcileResultSecret k kind inst d) (secret_reconciled kind inst d)"
proof (cases "spec_SecretRef (cr_spec inst)")
  case None
  then show ?thesis by (simp add: ReconcileResultSecret_def emits_crash secret_reconciled_def)
next
  case (Some ref)
  show ?thesis unfolding ReconcileResultSecret_def Let_def Some deref_simps andThen_ret
  proof (rule emits_andThen [OF emits_CreateOrUpdate_secret])
    fix es x assume "secret_outcome kind inst d es (Val x)"
    then show "emits (case x of (e, inst') \<Rightarrow> (case e of None \<Rightarrow> ret inst'
       | Some err \<Rightarrow> andThen (UpdatePhase k kind inst' PhaseFailed ''failed to reconcile instance secret'')
            (\<lambda>_. throw (ErrWrap err (''failed to reconcile smtp credential set instance secret '' @
              sec_Name \<lparr>sec_Name = ref_Name ref, sec_Namespace = if ref_Namespace ref \<noteq> [] then ref_Namespace ref else om_Namespace (cr_meta inst),
                 sec_Data = None, sec_Type = [], sec_Owners = []\<rparr>)))))
      (\<lambda>fs. secret_reconciled kind inst d (es @ fs))"
      by (cases x) (auto intro!: emits_option emits_secret_report emits_ret simp: secret_outcome_def Some secret_reconciled_def [of _ _ _ _ "Val _"])
  qed (auto simp: secret_outcome_def)
qed

section \<open>The default mapping\<close>

lemma UnmarshalMapping_default:
  "UnmarshalMapping (mapping_json ''openshift'') = Inr \<lparr>dsm_BlobStorage = ''openshift'', dsm_Redis = ''openshift'', dsm_Postgres = ''openshift''\<rparr>"
  "UnmarshalMapping (mapping_json ''aws'') = Inr \<lparr>dsm_BlobStorage = ''aws'', dsm_Redis = ''aws'', dsm_Postgres = ''aws''\<rparr>"
  "UnmarshalMapping (mapping_json ''gcp'') = Inr \<lparr>dsm_BlobStorage = ''gcp'', dsm_Redis = ''gcp'', dsm_Postgres = ''gcp''\<rparr>"
  by code_simp+

section \<open>Properties\<close>

text \<open>
  Without a config map the strategy mapping is the built-in one: for the deployment types
  openshift, aws and gcp every kind of resource uses the strategy of that name; any other type is an
  error, since its entry is the empty string, which is not JSON.
\<close>

theorem default_strategy_mapping:
  assumes "kube_GetConfigMap k (cfg_Name m, cfg_Namespace m) (world s) = (Inl err, w)" and "k8s_IsNotFound err"
  shows "(t \<in> {''openshift'', ''aws'', ''gcp''} \<longrightarrow>
      GetStrategyMappingForDeploymentType k m t s =
        (Val \<lparr>dsm_BlobStorage = t, dsm_Redis = t, dsm_Postgres = t\<rparr>, s\<lparr>world := w\<rparr>)) \<and>
    (t \<notin> {''openshift'', ''aws'', ''gcp''} \<longrightarrow>
      GetStrategyMappingForDeploymentType k m t s =
        (Fail (ErrWrap (ErrNew ''unexpected end of JSON input'') (''failed to unmarshal config for deployment type '' @ t)), s\<lparr>world := w\<rparr>))"
proof -
  have run: "GetStrategyMappingForDeploymentType k m t s =
      wrapping (''failed to unmarshal config for deployment type '' @ t)
        (lift_sum (UnmarshalMapping (map_get (Some buildDefaultConfigMap) t))) (s\<lparr>world := w\<rparr>)"
    using assms by (simp add: GetStrategyMappingForDeploymentType_def GetConfigMapOrDefault_def query_def op_simps)
  have none: "UnmarshalMapping '''' = Inl (ErrNew ''unexpected end of JSON input'')" by code_simp
  have get: "map_get (Some buildDefaultConfigMap) t = (if t \<in> {''openshift'', ''aws'', ''gcp''} then mapping_json t else '''')"
    by (auto simp: buildDefaultConfigMap_def map_get_def)
  show ?thesis unfolding run get by (auto simp: none UnmarshalMapping_default op_simps)
qed

text \<open>
  The default tags of a cloud resource: the cluster, type, name and managed tags are present, but a
  user tag of the cluster's infrastructure with the same key takes their place, so an owner tag of the
  operator can be overridden (the comment in the code says the opposite).
\<close>

theorem default_tags_user_wins:
  assumes "\<And>w. kube_GetInfrastructure k ''cluster'' w = (Inr infra, w)"
    and "infra_PlatformStatus infra = Some ps" and "pf_AWS ps = Some a"
    and "user = map (\<lambda>(key, v). \<lparr>tag_Key = key, tag_Value = v\<rparr>) (aws_ResourceTags a)"
  shows "\<exists>tags. GetDefaultResourceTags k st name prd s = (Val (tags, infra_InfrastructureName infra), s) \<and>
    (\<forall>key v. tag_lookup user key = Some v \<longrightarrow> tag_lookup tags key = Some v) \<and>
    (let key = GetOrganizationTag (kube_env k) @ ''clusterID'' in
       tag_lookup user key = None \<longrightarrow> tag_lookup tags key = Some (infra_InfrastructureName infra))"
proof -
  let ?org = "GetOrganizationTag (kube_env k)"
  let ?tags = "[\<lparr>tag_Key = ?org @ ''clusterID'', tag_Value = infra_InfrastructureName infra\<rparr>,
                \<lparr>tag_Key = ?org @ ''resource-type'', tag_Value = st\<rparr>,
                \<lparr>tag_Key = ?org @ ''resource-name'', tag_Value = name\<rparr>, BuildManagedTag] @
               (if prd \<noteq> '''' then [\<lparr>tag_Key = ?org @ ''product-name'', tag_Value = prd\<rparr>] else [])"
  have q: "query (kube_GetInfrastructure k ''cluster'') s = (Val infra, s)" for s :: "('a, 'b event) sys"
    by (simp add: query_def assms(1))
  have run: "GetDefaultResourceTags k st name prd s =
      (Val (if user \<noteq> [] then MergeTags user ?tags else ?tags, infra_InfrastructureName infra), s)"
    using assms(2-4)
    by (simp add: GetDefaultResourceTags_def GetUserInfraTags_def GetClusterID_def GetClusterInfrastructure_def op_simps q Let_def)
  have first: "tag_lookup ?tags (?org @ ''clusterID'') = Some (infra_InfrastructureName infra)"
    by (simp add: tag_lookup_def)
  have look: "tag_lookup (if user \<noteq> [] then MergeTags user ?tags else ?tags) key =
      (case tag_lookup user key of Some v \<Rightarrow> Some v | None \<Rightarrow> tag_lookup ?tags key)" for key
    by (cases "user = []") (simp_all only: tag_lookup_MergeTags tag_lookup_Nil if_True if_False simp_thms option.case)
  show ?thesis unfolding run using look first by auto
qed

text \<open>
  \<^verbatim>\<open>CreateFinalizer\<close> on an instance that is not being deleted sends it with the finalizer, but an
  instance that has only finalizers of others loses them all: the list is replaced, not extended.
\<close>

theorem CreateFinalizer_replaces:
  assumes "om_DeletionTimestamp (cr_meta inst) = None" and "df \<notin> set (om_Finalizers (cr_meta inst))"
  shows "\<exists>i b. trace (snd (CreateFinalizer k kind inst df s)) = trace s @ [EvUpdate kind i b] \<and>
    om_Finalizers (cr_meta i) = [df] \<and> cr_spec i = cr_spec inst \<and> cr_status i = cr_status inst"
proof -
  have "addFinalizer (cr_meta inst) df = (cr_meta inst)\<lparr>om_Finalizers := [df]\<rparr>"
    using assms(2) by (auto simp: addFinalizer_def HasFinalizer_def Contains_def)
  then show ?thesis using assms(1)
    by (auto simp: CreateFinalizer_def Let_def op_simps request_def split: prod.splits sum.splits)
qed

text \<open>
  \<^verbatim>\<open>IsLastResource\<close> is true exactly when there is one Postgres and no Redis or one Redis and no
  Postgres in the cluster, and it changes nothing.
\<close>

theorem IsLastResource_exact:
  assumes "\<And>w. kube_List k Postgres w = (Inr ps, w)" and "\<And>w. kube_List k Redis w = (Inr rs, w)"
  shows "IsLastResource k s = (Val (length ps + length rs = 1), s)"
proof -
  have "query (kube_List k Postgres) s = (Val ps, s)" "query (kube_List k Redis) s = (Val rs, s)"
    by (simp_all add: query_def assms)
  then show ?thesis by (auto simp: IsLastResource_def op_simps)
qed

section \<open>A sample API server\<close>

text \<open>An API server with an empty store, as the concrete instance of the witnesses.\<close>

definition sample_meta :: objectMeta where
  "sample_meta = \<lparr>om_Name = ''db'', om_Namespace = ''ns'', om_Labels = None, om_Annotations = None, om_Finalizers = [],
     om_DeletionTimestamp = None, om_CreationTimestamp = ''''\<rparr>"

definition sample_cr :: cr where
  "sample_cr = \<lparr>cr_meta = sample_meta,
     cr_spec = \<lparr>spec_Type = ''aws'', spec_Tier = ''production'', spec_SkipCreate = False, spec_ApplyImmediately = False,
       spec_MaintenanceWindow = False, spec_SecretRef = Some \<lparr>ref_Name = ''sec'', ref_Namespace = ''''\<rparr>, spec_Size = '''',
       spec_SnapshotFrequency = '''', spec_SnapshotRetention = ''''\<rparr>,
     cr_status = \<lparr>st_Strategy = '''', st_Provider = '''', st_Version = '''', st_SecretRef = None, st_Phase = '''', st_Message = ''''\<rparr>\<rparr>"

definition sample_infra :: infrastructure where
  "sample_infra = \<lparr>infra_InfrastructureName = ''cluster-x'',
     infra_PlatformStatus = Some \<lparr>pf_Type = ''AWS'',
       pf_AWS = Some \<lparr>aws_Region = ''eu-west-1'', aws_ResourceTags = [(''integreatly.org/clusterID'', ''other'')]\<rparr>, pf_GCP = None\<rparr>\<rparr>"

definition not_found :: error where
  "not_found = ErrK8s 404 ''not found''"

definition sample_kube :: "cr \<Rightarrow> 'w kube" where
  "sample_kube inst = \<lparr>kube_env = Map.empty,
     kube_Get = (\<lambda>_ _ w. (Inr inst, w)), kube_List = (\<lambda>kd w. (Inr (if kd = Postgres then [inst] else []), w)),
     kube_Update = (\<lambda>_ i w. (Inr i, w)), kube_Create = (\<lambda>_ i w. (Inr i, w)), kube_StatusUpdate = (\<lambda>_ i w. (Inr i, w)),
     kube_GetSnapshot = (\<lambda>_ _ w. (Inl not_found, w)), kube_StatusUpdateSnapshot = (\<lambda>_ i w. (Inr i, w)),
     kube_ListSnapshots = (\<lambda>_ _ w. (Inr [], w)), kube_CreateSnapshot = (\<lambda>_ _ _ _ w. (Inl not_found, w)),
     kube_DeleteSnapshot = (\<lambda>_ _ w. (Inr (), w)), kube_UpdateSnapshot = (\<lambda>_ i w. (Inr i, w)),
     kube_GetConfigMap = (\<lambda>_ w. (Inl not_found, w)), kube_GetInfrastructure = (\<lambda>_ w. (Inr sample_infra, w)),
     kube_GetNetwork = (\<lambda>_ w. (Inl not_found, w)), kube_GetSecret = (\<lambda>_ w. (Inl not_found, w)),
     kube_CreateSecret = (\<lambda>s w. (Inr s, w)), kube_UpdateSecret = (\<lambda>s w. (Inr s, w)),
     kube_DeleteSecret = (\<lambda>_ w. (Inr (), w)), kube_GetCredentialsRequest = (\<lambda>_ w. (Inl not_found, w)),
     kube_CreateCredentialsRequest = (\<lambda>c w. (Inr c, w)), kube_UpdateCredentialsRequest = (\<lambda>c w. (Inr c, w)),
     kube_DeleteCredentialsRequest = (\<lambda>_ w. (Inr (), w)),
     kube_SetControllerReference = (\<lambda>_ _ s. Inr s)\<rparr>"

definition sample_sys :: "(unit, 'e) sys" where
  "sample_sys = \<lparr>world = (), trace = []\<rparr>"

theorem default_strategy_mapping_witness:
  "GetStrategyMappingForDeploymentType (sample_kube sample_cr) (NewConfigManager Map.empty '''' ''ns'') ''aws'' (sample_sys :: (unit, unit event) sys) =
     (Val \<lparr>dsm_BlobStorage = ''aws'', dsm_Redis = ''aws'', dsm_Postgres = ''aws''\<rparr>, sample_sys)"
  using default_strategy_mapping [of "sample_kube sample_cr" "NewConfigManager Map.empty '''' ''ns''" "sample_sys :: (unit, unit event) sys" not_found "()" "''aws''"]
  by (simp add: sample_kube_def not_found_def k8s_IsNotFound_def sample_sys_def)

theorem default_tags_user_wins_witness:
  "\<exists>tags. GetDefaultResourceTags (sample_kube sample_cr) ''t'' ''n'' '''' (sample_sys :: (unit, unit event) sys) =
      (Val (tags, ''cluster-x''), sample_sys) \<and> tag_lookup tags ''integreatly.org/clusterID'' = Some ''other''"
proof -
  let ?user = "[\<lparr>tag_Key = ''integreatly.org/clusterID'', tag_Value = ''other''\<rparr>]"
  obtain ps a where ps: "infra_PlatformStatus sample_infra = Some ps" "pf_AWS ps = Some a"
    "aws_ResourceTags a = [(''integreatly.org/clusterID'', ''other'')]" by (simp add: sample_infra_def)
  have "kube_GetInfrastructure (sample_kube sample_cr) ''cluster'' w = (Inr sample_infra, w)" for w :: unit by (simp add: sample_kube_def)
  moreover have "tag_lookup ?user ''integreatly.org/clusterID'' = Some ''other''" by (simp add: tag_lookup_def)
  moreover have "infra_InfrastructureName sample_infra = ''cluster-x''" by (simp add: sample_infra_def)
  ultimately show ?thesis
    using default_tags_user_wins [of "sample_kube sample_cr" sample_infra ps a ?user "''t''" "''n''" "''''" "sample_sys :: (unit, unit event) sys"] ps
    by auto
qed

theorem CreateFinalizer_replaces_witness:
  "\<exists>i b. trace (snd (CreateFinalizer (sample_kube sample_cr) Postgres
       (sample_cr\<lparr>cr_meta := sample_meta\<lparr>om_Finalizers := [''other'']\<rparr>\<rparr>) ''f'' (sample_sys :: (unit, unit event) sys))) =
     [EvUpdate Postgres i b] \<and> om_Finalizers (cr_meta i) = [''f'']"
  using CreateFinalizer_replaces [of "sample_cr\<lparr>cr_meta := sample_meta\<lparr>om_Finalizers := [''other'']\<rparr>\<rparr>" "''f''"
      "sample_kube sample_cr" Postgres "sample_sys :: (unit, unit event) sys"]
  by (auto simp: sample_meta_def sample_sys_def)

theorem IsLastResource_exact_witness:
  "IsLastResource (sample_kube sample_cr) (sample_sys :: (unit, unit event) sys) = (Val True, sample_sys)"
  using IsLastResource_exact [of "sample_kube sample_cr" "[sample_cr]" "[]" "sample_sys :: (unit, unit event) sys"]
  by (simp add: sample_kube_def)

end
