(* ===== verification/Go_Net.thy ===== *)
theory Go_Net
  imports CRO_Prelude
begin

text \<open>
  IP addresses, masks and networks as Go's standard package \<^verbatim>\<open>net\<close> represents them (byte slices),
  with the operations the operator uses: \<^verbatim>\<open>To4\<close>, \<^verbatim>\<open>Mask\<close>, \<^verbatim>\<open>Contains\<close>, \<^verbatim>\<open>Size\<close>, \<^verbatim>\<open>String\<close> and
  \<^verbatim>\<open>ParseCIDR\<close>. The second half relates the byte-wise operations to numbers: an address is a
  natural number, a well-formed network is an aligned block of addresses, and \<^verbatim>\<open>Contains\<close> decides
  membership in the block.
\<close>

unbundle bit_operations_syntax

section \<open>Addresses and masks\<close>

text \<open>A nil slice is the empty list; \<^verbatim>\<open>To4\<close> returns nil for what is not an IPv4 address.\<close>

type_synonym bytes = "8 word list"

definition v4InV6Prefix :: bytes where
  "v4InV6Prefix = [0, 0, 0, 0, 0, 0, 0, 0, 0, 0, 255, 255]"

definition IPv4 :: "8 word \<Rightarrow> 8 word \<Rightarrow> 8 word \<Rightarrow> 8 word \<Rightarrow> bytes" where
  "IPv4 a b c d = v4InV6Prefix @ [a, b, c, d]"

definition To4 :: "bytes \<Rightarrow> bytes" where
  "To4 ip = (if length ip = 4 then ip
             else if length ip = 16 \<and> take 12 ip = v4InV6Prefix then drop 12 ip
             else [])"

text \<open>The loop of \<^verbatim>\<open>CIDRMask\<close>: \<open>l\<close> bytes, of which the first \<open>n\<close> bits are set.\<close>

fun mask_bytes :: "nat \<Rightarrow> nat \<Rightarrow> bytes" where
  "mask_bytes 0 n = []"
| "mask_bytes (Suc l) n =
     (if n \<ge> 8 then 255 # mask_bytes l (n - 8) else NOT (drop_bit n 255) # mask_bytes l 0)"

definition CIDRMask :: "nat \<Rightarrow> nat \<Rightarrow> bytes" where
  "CIDRMask ones bits = (if (bits = 32 \<or> bits = 128) \<and> ones \<le> bits then mask_bytes (bits div 8) ones else [])"

text \<open>\<^verbatim>\<open>simpleMaskLength\<close>: the number of leading ones when all other bits are zero, else None.\<close>

fun byte_ones :: "nat \<Rightarrow> 8 word \<Rightarrow> nat option" where
  "byte_ones 0 v = (if v = 0 then Some 0 else None)"
| "byte_ones (Suc k) v =
     (if v AND 128 \<noteq> 0 then map_option Suc (byte_ones k (push_bit 1 v))
      else if v \<noteq> 0 then None else Some 0)"

fun simpleMaskLength :: "bytes \<Rightarrow> nat option" where
  "simpleMaskLength [] = Some 0"
| "simpleMaskLength (v # vs) =
     (if v = 255 then map_option (\<lambda>n. n + 8) (simpleMaskLength vs)
      else case byte_ones 8 v of None \<Rightarrow> None
           | Some n \<Rightarrow> if \<forall>x \<in> set vs. x = 0 then Some n else None)"

definition mask_Size :: "bytes \<Rightarrow> nat" where
  "mask_Size m = (case simpleMaskLength m of None \<Rightarrow> 0 | Some n \<Rightarrow> n)"

definition bytes_and :: "bytes \<Rightarrow> bytes \<Rightarrow> bytes" where
  "bytes_and xs ys = map2 (\<lambda>x y. x AND y) xs ys"

definition ip_Mask :: "bytes \<Rightarrow> bytes \<Rightarrow> bytes" where
  "ip_Mask ip msk =
     (let m = (if length msk = 16 \<and> length ip = 4 \<and> (\<forall>b \<in> set (take 12 msk). b = 255)
               then drop 12 msk else msk);
          i = (if length m = 4 \<and> length ip = 16 \<and> take 12 ip = v4InV6Prefix then drop 12 ip else ip)
      in if length i \<noteq> length m then [] else bytes_and i m)"

definition ip_Equal :: "bytes \<Rightarrow> bytes \<Rightarrow> bool" where
  "ip_Equal ip x =
     (if length ip = length x then ip = x
      else if length ip = 4 \<and> length x = 16 then take 12 x = v4InV6Prefix \<and> ip = drop 12 x
      else if length ip = 16 \<and> length x = 4 then take 12 ip = v4InV6Prefix \<and> drop 12 ip = x
      else False)"

section \<open>Networks\<close>

record ipnet =
  net_IP :: bytes
  net_Mask :: bytes

definition networkNumberAndMask :: "ipnet \<Rightarrow> bytes \<times> bytes" where
  "networkNumberAndMask n =
     (let ip = (if To4 (net_IP n) \<noteq> [] then To4 (net_IP n) else net_IP n); m = net_Mask n
      in if To4 (net_IP n) = [] \<and> length ip \<noteq> 16 then ([], [])
         else if length m = 4 then (if length ip \<noteq> 4 then ([], []) else (ip, m))
         else if length m = 16 then (if length ip = 4 then (ip, drop 12 m) else (ip, m))
         else ([], []))"

definition net_Contains :: "ipnet \<Rightarrow> bytes \<Rightarrow> bool" where
  "net_Contains n addr =
     (let (nn, m) = networkNumberAndMask n; ip = (if To4 addr \<noteq> [] then To4 addr else addr)
      in if length ip \<noteq> length nn then False
         else bytes_and nn m = bytes_and ip m)"

section \<open>Text\<close>

definition hex_digit :: "nat \<Rightarrow> char" where
  "hex_digit d = (if d < 10 then char_of (48 + d) else char_of (87 + d))"

fun hex_nat :: "nat \<Rightarrow> string" where
  "hex_nat n = (if n < 16 then [hex_digit n] else hex_nat (n div 16) @ [hex_digit (n mod 16)])"

declare hex_nat.simps [simp del]

fun v6_groups :: "bytes \<Rightarrow> nat list" where
  "v6_groups (a # b # r) = (unat a * 256 + unat b) # v6_groups r"
| "v6_groups _ = []"

text \<open>The first longest run of at least two zero groups, as its start and end (RFC 5952).\<close>

definition zero_run :: "nat list \<Rightarrow> nat \<Rightarrow> nat" where
  "zero_run gs i = length (takeWhile (\<lambda>g. g = 0) (drop i gs))"

definition best_run :: "nat list \<Rightarrow> (nat \<times> nat) option" where
  "best_run gs = foldl (\<lambda>best i. let l = zero_run gs i in
      if l \<ge> 2 \<and> (case best of None \<Rightarrow> True | Some (a, b) \<Rightarrow> l > b - a) then Some (i, i + l) else best)
    None [0..<8]"

fun join_colon :: "string list \<Rightarrow> string" where
  "join_colon [] = ''''"
| "join_colon [x] = x"
| "join_colon (x # xs) = x @ '':'' @ join_colon xs"

definition v6_String :: "bytes \<Rightarrow> string" where
  "v6_String ip =
     (let gs = v6_groups ip in
      case best_run gs of
        None \<Rightarrow> join_colon (map hex_nat gs)
      | Some (a, b) \<Rightarrow> join_colon (map hex_nat (take a gs)) @ ''::'' @ join_colon (map hex_nat (drop b gs)))"

fun v4_String :: "bytes \<Rightarrow> string" where
  "v4_String [a, b, c, d] = itoa_nat (unat a) @ ''.'' @ itoa_nat (unat b) @ ''.'' @
     itoa_nat (unat c) @ ''.'' @ itoa_nat (unat d)"
| "v4_String _ = ''''"

definition hex_byte :: "8 word \<Rightarrow> string" where
  "hex_byte b = [hex_digit (unat b div 16), hex_digit (unat b mod 16)]"

definition ip_String :: "bytes \<Rightarrow> string" where
  "ip_String ip =
     (if length ip = 0 then ''<nil>''
      else if length ip \<noteq> 4 \<and> length ip \<noteq> 16 then ''?'' @ concat (map hex_byte ip)
      else if To4 ip \<noteq> [] then v4_String (To4 ip)
      else v6_String ip)"

definition net_String :: "ipnet \<Rightarrow> string" where
  "net_String n =
     (let (nn, m) = networkNumberAndMask n in
      if nn = [] \<or> m = [] then ''<nil>''
      else case simpleMaskLength m of
             None \<Rightarrow> ip_String nn @ ''/'' @ concat (map hex_byte m)
           | Some l \<Rightarrow> ip_String nn @ ''/'' @ itoa_nat l)"

text \<open>
  \<^verbatim>\<open>netip.parseIPv4\<close>: \<open>octs\<close> holds the octets already read, \<open>val\<close> and \<open>digLen\<close> the value and the
  number of digits of the current one.
\<close>

fun parseIPv4 :: "nat list \<Rightarrow> nat \<Rightarrow> nat \<Rightarrow> string \<Rightarrow> nat list option" where
  "parseIPv4 octs val digLen [] = (if length octs < 3 then None else Some (octs @ [val]))"
| "parseIPv4 octs val digLen (c # cs) =
     (if is_digit c then
        (if digLen = 1 \<and> val = 0 then None
         else if val * 10 + digit_val c > 255 then None
         else parseIPv4 octs (val * 10 + digit_val c) (Suc digLen) cs)
      else if c = CHR ''.'' then
        (if digLen = 0 \<or> cs = [] then None
         else if length octs = 3 then None
         else parseIPv4 (octs @ [val]) 0 0 cs)
      else None)"

definition hex_val :: "char \<Rightarrow> nat option" where
  "hex_val c = (let v = of_char c in
     if 48 \<le> v \<and> v \<le> 57 then Some (v - 48)
     else if 97 \<le> v \<and> v \<le> 102 then Some (v - 87)
     else if 65 \<le> v \<and> v \<le> 70 then Some (v - 55)
     else None)"

text \<open>The hexadecimal digits at the start of a string: their value, their number and the rest.\<close>

fun hex_group :: "nat \<Rightarrow> nat \<Rightarrow> string \<Rightarrow> nat \<times> nat \<times> string" where
  "hex_group acc off [] = (acc, off, [])"
| "hex_group acc off (c # cs) = (case hex_val c of None \<Rightarrow> (acc, off, c # cs)
     | Some d \<Rightarrow> hex_group (acc * 16 + d) (Suc off) cs)"

lemma hex_group_length: "hex_group acc off s = (a, n, r) \<Longrightarrow> length r + n = length s + off"
  by (induction acc off s arbitrary: a n r rule: hex_group.induct) (auto split: option.splits)

text \<open>
  The loop of \<^verbatim>\<open>netip.parseIPv6\<close>: \<open>out\<close> the bytes already read, \<open>ell\<close> the position of the ellipsis.
\<close>

function (sequential) parseIPv6_loop :: "bytes \<Rightarrow> nat option \<Rightarrow> string \<Rightarrow> (bytes \<times> nat option) option" where
  "parseIPv6_loop out ell s =
     (if length out \<ge> 16 then (if s = [] then Some (out, ell) else None)
      else case hex_group 0 0 s of (acc, off, r) \<Rightarrow>
        if off = 0 \<or> off > 4 then None
        else case r of
          [] \<Rightarrow> Some (out @ [of_nat (acc div 256), of_nat acc], ell)
        | c # r' \<Rightarrow>
            if c = CHR ''.'' then
              (if (ell = None \<and> length out \<noteq> 12) \<or> length out + 4 > 16 then None
               else map_option (\<lambda>f. (out @ map of_nat f, ell)) (parseIPv4 [] 0 0 s))
            else if c \<noteq> CHR '':'' \<or> r' = [] then None
            else (let out' = out @ [of_nat (acc div 256), of_nat acc] in
              if hd r' = CHR '':'' then
                (if ell \<noteq> None then None
                 else if tl r' = [] then Some (out', Some (length out'))
                 else parseIPv6_loop out' (Some (length out')) (tl r'))
              else parseIPv6_loop out' ell r'))"
  by pat_completeness auto
termination
  by (relation "measure (\<lambda>(out, ell, s). 16 - length out)") auto

declare parseIPv6_loop.simps [simp del]

definition parseIPv6 :: "string \<Rightarrow> bytes option" where
  "parseIPv6 s =
     (let lead = (take 2 s = ''::''); s' = (if lead then drop 2 s else s) in
      if lead \<and> s' = [] then Some (replicate 16 0)
      else case parseIPv6_loop [] (if lead then Some 0 else None) s' of
             None \<Rightarrow> None
           | Some (out, None) \<Rightarrow> if length out = 16 then Some out else None
           | Some (out, Some e) \<Rightarrow>
               if length out < 16 then Some (take e out @ replicate (16 - length out) 0 @ drop e out) else None)"

text \<open>
  \<^verbatim>\<open>netip.ParseAddr\<close> dispatches on the first dot, colon or percent sign; an address with a zone is
  refused by \<^verbatim>\<open>ParseCIDR\<close>, so a percent sign is always an error here.
\<close>

definition ParseAddr :: "string \<Rightarrow> (nat \<times> bytes) option" where
  "ParseAddr s = (case find (\<lambda>c. c = CHR ''.'' \<or> c = CHR '':'' \<or> c = CHR ''%'') s of
     None \<Rightarrow> None
   | Some c \<Rightarrow>
       if c = CHR ''.'' then map_option (\<lambda>f. (32, v4InV6Prefix @ map of_nat f)) (parseIPv4 [] 0 0 s)
       else if c = CHR '':'' \<and> CHR ''%'' \<notin> set s then map_option (\<lambda>b. (128, b)) (parseIPv6 s)
       else None)"

text \<open>\<^verbatim>\<open>dtoi\<close> applied to the whole rest of the string: digits only, below \<^verbatim>\<open>0xFFFFFF\<close>.\<close>

fun dtoi_loop :: "nat \<Rightarrow> string \<Rightarrow> nat option" where
  "dtoi_loop n [] = Some n"
| "dtoi_loop n (c # cs) =
     (if is_digit c then
        (if n * 10 + digit_val c \<ge> 16777215 then None else dtoi_loop (n * 10 + digit_val c) cs)
      else None)"

definition dtoi :: "string \<Rightarrow> nat option" where
  "dtoi s = (if s = [] then None else dtoi_loop 0 s)"

definition ParseCIDR :: "string \<Rightarrow> error + (bytes \<times> ipnet)" where
  "ParseCIDR s =
     (let err = Inl (ErrNew (''invalid CIDR address: '' @ s));
          addr = takeWhile (\<lambda>c. c \<noteq> CHR ''/'') s; rest = dropWhile (\<lambda>c. c \<noteq> CHR ''/'') s
      in if rest = [] then err
         else case ParseAddr addr of None \<Rightarrow> err
         | Some (bits, ip16) \<Rightarrow>
             (case dtoi (tl rest) of None \<Rightarrow> err
              | Some n \<Rightarrow> if n > bits then err
                  else Inr (ip16, \<lparr>net_IP = ip_Mask ip16 (CIDRMask n bits), net_Mask = CIDRMask n bits\<rparr>)))"

section \<open>Addresses as numbers\<close>

primrec bytes_val :: "bytes \<Rightarrow> nat" where
  "bytes_val [] = 0"
| "bytes_val (b # bs) = unat b * 256 ^ length bs + bytes_val bs"

lemma unat_byte_less: "unat (b :: 8 word) < 256"
  using unsigned_less [of b] by simp

lemma bytes_val_less: "bytes_val bs < 256 ^ length bs"
proof (induction bs)
  case (Cons b bs)
  have "unat b \<le> 255" using unat_byte_less [of b] by simp
  then have "unat b * 256 ^ length bs \<le> 255 * 256 ^ length bs" by (rule mult_le_mono1)
  with Cons have "unat b * 256 ^ length bs + bytes_val bs < 255 * 256 ^ length bs + 256 ^ length bs"
    by linarith
  then show ?case by simp
qed simp

lemma bytes_val_inj: "length xs = length ys \<Longrightarrow> bytes_val xs = bytes_val ys \<longleftrightarrow> xs = ys"
proof (induction xs ys rule: list_induct2)
  case (Cons x xs y ys)
  have eq: "bytes_val (z # zs) div 256 ^ length zs = unat z" "bytes_val (z # zs) mod 256 ^ length zs = bytes_val zs" for z zs
    using bytes_val_less [of zs] by (simp_all add: div_mult_self3)
  show ?case using Cons eq [of x xs] eq [of y ys] by (metis word_unat_eq_iff)
qed simp

lemma length_mask_bytes [simp]: "length (mask_bytes l n) = l"
  by (induction l n rule: mask_bytes.induct) auto

lemma length_bytes_and [simp]: "length (bytes_and xs ys) = min (length xs) (length ys)"
  by (simp add: bytes_and_def)

lemma bytes_and_Cons [simp]: "bytes_and (x # xs) (y # ys) = (x AND y) # bytes_and xs ys"
  by (simp add: bytes_and_def)

lemma bytes_and_Nil [simp]: "bytes_and [] ys = []" "bytes_and xs [] = []"
  by (simp_all add: bytes_and_def)

lemma mask_byte: "n \<le> 8 \<Longrightarrow> NOT (drop_bit n (255 :: 8 word)) = NOT (mask (8 - n))"
proof -
  assume "n \<le> 8"
  have "(255 :: 8 word) = mask 8" by (simp add: mask_eq_exp_minus_1)
  then show ?thesis using \<open>n \<le> 8\<close> by (auto simp: bit_eq_iff bit_simps)
qed

lemma unat_and_not_mask: "unat (a AND NOT (mask j)) = unat a div 2 ^ j * 2 ^ j" for a :: "8 word"
proof -
  have "a AND NOT (mask j) = push_bit j (drop_bit j a)" by (auto simp: bit_eq_iff bit_simps)
  moreover have "unat a div 2 ^ j * 2 ^ j < 256"
    using unat_byte_less [of a] by (meson le_less_trans div_times_less_eq_dividend)
  moreover have "unat (push_bit j (drop_bit j a)) = take_bit 8 (push_bit j (drop_bit j (unat a)))"
    using unat_byte_less [of a]
    by (simp only: unsigned_push_bit_eq unsigned_drop_bit_eq) (simp add: take_bit_push_bit take_bit_nat_eq_self)
  ultimately show ?thesis
    by (simp add: push_bit_eq_mult drop_bit_eq_div take_bit_eq_mod)
qed

lemma and_255 [simp]: "(a :: 8 word) AND 255 = a"
proof -
  have "(255 :: 8 word) = - 1" by simp
  then show ?thesis by (metis and.right_neutral)
qed

lemma and_minus_256 [simp]: "(a :: 8 word) AND (- 256) = 0"
proof -
  have "(- 256 :: 8 word) = 0" by simp
  then show ?thesis by (metis and_zero_eq)
qed

lemma bytes_and_mask_zero: "bytes_and xs (mask_bytes l 0) = replicate (min (length xs) l) 0"
proof (induction l arbitrary: xs)
  case (Suc l)
  then show ?case by (cases xs) auto
qed simp

text \<open>Masking byte by byte rounds the number down to a multiple of the block size.\<close>

lemma bytes_val_and_mask:
  "length xs = l \<Longrightarrow> n \<le> 8 * l \<Longrightarrow>
   bytes_val (bytes_and xs (mask_bytes l n)) = bytes_val xs div 2 ^ (8 * l - n) * 2 ^ (8 * l - n)"
proof (induction l arbitrary: xs n)
  case 0
  then show ?case by simp
next
  case (Suc l)
  from Suc.prems obtain x xs' where xs: "xs = x # xs'" "length xs' = l"
    by (metis length_Suc_conv)
  show ?case
  proof (cases "n \<ge> 8")
    case True
    define k where "k = 8 * l - (n - 8)"
    have k: "8 * Suc l - n = k" "n - 8 \<le> 8 * l" using True Suc.prems by (auto simp: k_def)
    have "(256::nat) ^ l = 2 ^ (8 * l)" by (simp add: power_mult)
    also have "8 * l = (n - 8) + k" using True Suc.prems by (simp add: k_def)
    finally have pow: "(256::nat) ^ l = 2 ^ (n - 8) * 2 ^ k" by (simp add: power_add)
    have "bytes_val xs div 2 ^ k = unat x * 2 ^ (n - 8) + bytes_val xs' div 2 ^ k"
      using xs pow by (simp add: mult.assoc [symmetric])
    then show ?thesis using Suc.IH [of xs' "n - 8"] True k xs pow
      by (simp add: k_def algebra_simps)
  next
    case False
    have "8 * Suc l - n = 8 * l + (8 - n)" using False by simp
    then have pow: "(2::nat) ^ (8 * Suc l - n) = 256 ^ l * 2 ^ (8 - n)"
      by (simp add: power_add power_mult)
    have val: "bytes_val xs div 2 ^ (8 * Suc l - n) = unat x div 2 ^ (8 - n)"
      using bytes_val_less [of xs'] xs unfolding pow by (simp add: div_mult2_eq)
    have zeros: "bytes_val (replicate i 0) = 0" for i by (induction i) auto
    show ?thesis using False xs val pow
      by (simp add: bytes_and_mask_zero mask_byte unat_and_not_mask zeros)
  qed
qed

lemma bytes_and_mask_eq_iff:
  assumes "length xs = l" and "length ys = l" and "n \<le> 8 * l"
  shows "bytes_and xs (mask_bytes l n) = bytes_and ys (mask_bytes l n) \<longleftrightarrow>
         bytes_val xs div 2 ^ (8 * l - n) = bytes_val ys div 2 ^ (8 * l - n)"
  using assms bytes_val_inj [of "bytes_and xs (mask_bytes l n)" "bytes_and ys (mask_bytes l n)"]
  by (simp add: bytes_val_and_mask)

section \<open>Well-formed IPv4 networks\<close>

text \<open>
  An IPv4 network as \<^verbatim>\<open>ParseCIDR\<close> returns it: four bytes, a mask of \<open>k\<close> leading ones, and no address
  bit outside the mask. It stands for the block of \<open>2 ^ (32 - k)\<close> addresses from its base.
\<close>

definition wf_net :: "ipnet \<Rightarrow> bool" where
  "wf_net n \<longleftrightarrow> length (net_IP n) = 4 \<and> mask_Size (net_Mask n) \<le> 32 \<and>
     net_Mask n = mask_bytes 4 (mask_Size (net_Mask n)) \<and> bytes_and (net_IP n) (net_Mask n) = net_IP n"

definition net_base :: "ipnet \<Rightarrow> nat" where
  "net_base n = bytes_val (net_IP n)"

definition net_size :: "ipnet \<Rightarrow> nat" where
  "net_size n = 2 ^ (32 - mask_Size (net_Mask n))"

definition addresses :: "ipnet \<Rightarrow> nat set" where
  "addresses n = {net_base n ..< net_base n + net_size n}"

lemma simpleMaskLength_mask_bytes [simp]: "k \<le> 32 \<Longrightarrow> simpleMaskLength (mask_bytes 4 k) = Some k"
proof -
  have "list_all (\<lambda>k. simpleMaskLength (mask_bytes 4 k) = Some k) [0..<33]" by code_simp
  then have "\<forall>k \<in> set [0..<33]. simpleMaskLength (mask_bytes 4 k) = Some k" by (simp only: list_all_iff)
  then show "k \<le> 32 \<Longrightarrow> simpleMaskLength (mask_bytes 4 k) = Some k" by auto
qed

lemma mask_Size_mask_bytes [simp]: "k \<le> 32 \<Longrightarrow> mask_Size (mask_bytes 4 k) = k"
  by (simp add: mask_Size_def)

lemma bytes_and_idem [simp]: "bytes_and (bytes_and xs m) m = bytes_and xs m"
proof (induction xs arbitrary: m)
  case (Cons x xs)
  then show ?case by (cases m) (simp_all add: and.assoc)
qed simp

lemma wf_netI:
  "length ip = 4 \<Longrightarrow> k \<le> 32 \<Longrightarrow> wf_net \<lparr>net_IP = bytes_and ip (mask_bytes 4 k), net_Mask = mask_bytes 4 k\<rparr>"
  by (simp add: wf_net_def)

lemma net_size_pos [simp]: "0 < net_size n"
  by (simp add: net_size_def)

lemma base_in_addresses [simp]: "net_base n \<in> addresses n"
  by (simp add: addresses_def)

text \<open>The base of a well-formed network is a multiple of its size.\<close>

lemma wf_net_aligned: "wf_net n \<Longrightarrow> net_size n dvd net_base n"
  using bytes_val_and_mask [of "net_IP n" 4 "mask_Size (net_Mask n)"]
  by (simp add: wf_net_def net_base_def net_size_def) (metis dvd_triv_right)

lemma block_member_iff:
  fixes m b v :: nat
  assumes "m dvd b" and "0 < m"
  shows "v div m = b div m \<longleftrightarrow> v \<in> {b ..< b + m}"
proof -
  from assms obtain q where b: "b = m * q" by (auto elim: dvdE)
  have "v div m = q \<longleftrightarrow> m * q \<le> v \<and> v < m * q + m"
    using assms(2) by (metis div_nat_eqI dividend_less_times_div le_add1 mult.commute mult_Suc_right
        times_div_less_eq_dividend add.commute)
  then show ?thesis using assms b by auto
qed

definition is_v4 :: "bytes \<Rightarrow> bool" where
  "is_v4 ip \<longleftrightarrow> length (To4 ip) = 4"

definition addr_of :: "bytes \<Rightarrow> nat" where
  "addr_of ip = bytes_val (To4 ip)"

lemma To4_4 [simp]: "length ip = 4 \<Longrightarrow> To4 ip = ip"
  by (simp add: To4_def)

lemma To4_IPv4 [simp]: "To4 (v4InV6Prefix @ ip) = ip" if "length ip = 4"
  using that by (simp add: To4_def v4InV6Prefix_def)

lemma is_v4_4 [simp]: "length ip = 4 \<Longrightarrow> is_v4 ip"
  by (simp add: is_v4_def)

lemma length_wf [simp]: "wf_net n \<Longrightarrow> length (net_IP n) = 4" "wf_net n \<Longrightarrow> length (net_Mask n) = 4"
  by (auto simp: wf_net_def) (metis length_mask_bytes)

lemma networkNumberAndMask_wf: "wf_net n \<Longrightarrow> networkNumberAndMask n = (net_IP n, net_Mask n)"
  by (cases "net_IP n = []") (auto simp: networkNumberAndMask_def Let_def dest: length_wf(1))

text \<open>\<^verbatim>\<open>Contains\<close> decides membership in the block.\<close>

lemma net_Contains_iff:
  assumes "wf_net n" and "is_v4 ip"
  shows "net_Contains n ip \<longleftrightarrow> addr_of ip \<in> addresses n"
proof -
  let ?k = "mask_Size (net_Mask n)"
  have 4: "length (To4 ip) = 4" using assms by (simp add: is_v4_def)
  then have ne: "To4 ip \<noteq> []" by auto
  have m: "net_Mask n = mask_bytes 4 ?k" and k: "?k \<le> 32" using assms by (auto simp: wf_net_def)
  have "net_Contains n ip \<longleftrightarrow> bytes_and (net_IP n) (mask_bytes 4 ?k) = bytes_and (To4 ip) (mask_bytes 4 ?k)"
    using assms ne 4 m by (simp add: net_Contains_def networkNumberAndMask_wf)
  also have "\<dots> \<longleftrightarrow> addr_of ip div net_size n = net_base n div net_size n"
    using assms 4 k by (auto simp: bytes_and_mask_eq_iff net_size_def net_base_def addr_of_def)
  also have "\<dots> \<longleftrightarrow> addr_of ip \<in> addresses n"
    using assms block_member_iff [OF wf_net_aligned] by (simp add: addresses_def)
  finally show ?thesis .
qed

text \<open>Two aligned blocks are disjoint or nested, so testing the two bases decides overlap.\<close>

lemma aligned_blocks:
  fixes a b :: nat
  assumes "2 ^ i dvd a" and "2 ^ j dvd b" and "i \<le> j"
  shows "{a ..< a + 2 ^ i} \<inter> {b ..< b + 2 ^ j} \<noteq> {} \<longleftrightarrow> a \<in> {b ..< b + 2 ^ j}"
proof
  assume "{a ..< a + 2 ^ i} \<inter> {b ..< b + 2 ^ j} \<noteq> {}"
  then obtain v where v: "v \<in> {a ..< a + 2 ^ i}" "v \<in> {b ..< b + 2 ^ j}" by blast
  have vi: "v div 2 ^ i = a div 2 ^ i" using block_member_iff [OF assms(1)] v by simp
  have vj: "v div 2 ^ j = b div 2 ^ j" using block_member_iff [OF assms(2)] v by simp
  have "(2::nat) ^ j = 2 ^ i * 2 ^ (j - i)" using assms(3) by (simp flip: power_add)
  then have "a div 2 ^ j = v div 2 ^ j" using vi by (simp add: div_mult2_eq)
  then show "a \<in> {b ..< b + 2 ^ j}" using vj block_member_iff [OF assms(2)] by simp
next
  assume "a \<in> {b ..< b + 2 ^ j}"
  then show "{a ..< a + 2 ^ i} \<inter> {b ..< b + 2 ^ j} \<noteq> {}" by fastforce
qed

lemma net_overlap_iff:
  assumes "wf_net m" and "wf_net n"
  shows "net_Contains m (net_IP n) \<or> net_Contains n (net_IP m) \<longleftrightarrow> addresses m \<inter> addresses n \<noteq> {}"
proof -
  have c: "net_Contains m (net_IP n) \<longleftrightarrow> net_base n \<in> addresses m" "net_Contains n (net_IP m) \<longleftrightarrow> net_base m \<in> addresses n"
    using assms by (simp_all add: net_Contains_iff addr_of_def net_base_def)
  obtain i j where ij: "net_size m = 2 ^ i" "net_size n = 2 ^ j" by (auto simp: net_size_def)
  have d: "2 ^ i dvd net_base m" "2 ^ j dvd net_base n" using assms wf_net_aligned ij by metis+
  show ?thesis
  proof (cases "i \<le> j")
    case True
    have "addresses m \<inter> addresses n \<noteq> {} \<longleftrightarrow> net_base m \<in> addresses n"
      using aligned_blocks [OF d(1,2) True] by (simp add: addresses_def ij)
    then show ?thesis using c base_in_addresses [of n] by blast
  next
    case False
    have "addresses n \<inter> addresses m \<noteq> {} \<longleftrightarrow> net_base n \<in> addresses m"
      using aligned_blocks [OF d(2,1)] False by (simp add: addresses_def ij)
    then show ?thesis using c base_in_addresses [of m] by blast
  qed
qed

section \<open>Reading back what is printed\<close>

lemma is_digit_not [simp]: "is_digit c \<Longrightarrow> c \<noteq> CHR ''.''" "is_digit c \<Longrightarrow> c \<noteq> CHR ''/''" "is_digit c \<Longrightarrow> c \<noteq> CHR '':''"
  "is_digit c \<Longrightarrow> c \<noteq> CHR ''%''"
  by (auto simp: is_digit_def)

lemma is_digit_sep [simp]: "\<not> is_digit (CHR ''.'')" "\<not> is_digit (CHR ''/'')"
  by (auto simp: is_digit_def)

lemma itoa_nat_small:
  "n < 10 \<Longrightarrow> itoa_nat n = [digit_char n]"
  "10 \<le> n \<Longrightarrow> n < 100 \<Longrightarrow> itoa_nat n = [digit_char (n div 10), digit_char (n mod 10)]"
  "100 \<le> n \<Longrightarrow> n < 1000 \<Longrightarrow>
     itoa_nat n = [digit_char (n div 100), digit_char (n div 10 mod 10), digit_char (n mod 10)]"
proof -
  show 1: "n < 10 \<Longrightarrow> itoa_nat n = [digit_char n]" for n
    by (subst itoa_nat.simps) simp
  show 2: "10 \<le> n \<Longrightarrow> n < 100 \<Longrightarrow> itoa_nat n = [digit_char (n div 10), digit_char (n mod 10)]" for n
    by (subst itoa_nat.simps) (simp add: 1)
  show "100 \<le> n \<Longrightarrow> n < 1000 \<Longrightarrow>
     itoa_nat n = [digit_char (n div 100), digit_char (n div 10 mod 10), digit_char (n mod 10)]"
    by (subst itoa_nat.simps) (simp add: 2 div_mult2_eq [symmetric])
qed

lemma parseIPv4_itoa:
  assumes "n < 256"
  shows "parseIPv4 octs 0 0 (itoa_nat n @ r) = parseIPv4 octs n (length (itoa_nat n)) r"
proof -
  consider "n < 10" | "10 \<le> n" "n < 100" | "100 \<le> n" "n < 1000" using assms by linarith
  then show ?thesis
  proof cases
    case 1
    then show ?thesis by (simp add: itoa_nat_small)
  next
    case 2
    then have "n div 10 \<noteq> 0" "n div 10 < 10" by simp_all
    with 2 show ?thesis by (simp add: itoa_nat_small)
  next
    case 3
    have "n div 100 = n div 10 div 10" by (simp add: div_mult2_eq [symmetric])
    then have eq: "(n div 100 * 10 + n div 10 mod 10) = n div 10" by simp
    from 3 have "n div 100 \<noteq> 0" "n div 10 < 100" by simp_all
    with 3 assms eq show ?thesis by (simp add: itoa_nat_small)
  qed
qed

lemma length_4_conv: "length ip = 4 \<Longrightarrow> \<exists>a b c d. ip = [a, b, c, d]"
  by (auto simp: numeral_eq_Suc length_Suc_conv)

lemma parseIPv4_v4_String:
  assumes "length ip = 4" shows "parseIPv4 [] 0 0 (v4_String ip) = Some (map unat ip)"
proof -
  obtain a b c d where ip: "ip = [a, b, c, d]" using length_4_conv [OF assms] by blast
  have last: "parseIPv4 octs 0 0 (itoa_nat (unat x)) = parseIPv4 octs (unat x) (length (itoa_nat (unat x))) []" for octs and x :: "8 word"
    using parseIPv4_itoa [of "unat x" octs "[]"] unat_byte_less by simp
  show ?thesis unfolding ip by (simp add: parseIPv4_itoa unat_byte_less last)
qed

lemma v4_String_chars: "length ip = 4 \<Longrightarrow> c \<in> set (v4_String ip) \<Longrightarrow> is_digit c \<or> c = CHR ''.''"
  using length_4_conv [of ip] itoa_nat_digits by auto

lemma find_dot:
  assumes "\<forall>c \<in> set xs. is_digit c"
  shows "find (\<lambda>c. c = CHR ''.'' \<or> c = CHR '':'' \<or> c = CHR ''%'') (xs @ CHR ''.'' # ys) = Some (CHR ''.'')"
  using assms by (induction xs) auto

lemma ParseAddr_v4_String:
  assumes "length ip = 4" shows "ParseAddr (v4_String ip) = Some (32, v4InV6Prefix @ ip)"
proof -
  obtain a b c d where ip: "ip = [a, b, c, d]" using length_4_conv [OF assms] by blast
  have "find (\<lambda>c. c = CHR ''.'' \<or> c = CHR '':'' \<or> c = CHR ''%'') (v4_String ip) = Some (CHR ''.'')"
    unfolding ip by (simp add: find_dot itoa_nat_digits)
  then show ?thesis using parseIPv4_v4_String [OF assms] by (simp add: ParseAddr_def comp_def)
qed

lemma dtoi_itoa: "k \<le> 32 \<Longrightarrow> dtoi (itoa_nat k) = Some k"
  by (cases "k < 10") (simp_all add: dtoi_def itoa_nat_small)

lemma ParseCIDR_text:
  assumes "length ip = 4" and "k \<le> 32"
  shows "ParseCIDR (v4_String ip @ ''/'' @ itoa_nat k) =
    Inr (v4InV6Prefix @ ip, \<lparr>net_IP = bytes_and ip (mask_bytes 4 k), net_Mask = mask_bytes 4 k\<rparr>)"
proof -
  have pre: "\<forall>c \<in> set (v4_String ip). c \<noteq> CHR ''/''" by (auto dest!: v4_String_chars [OF assms(1)])
  have "takeWhile (\<lambda>c. c \<noteq> CHR ''/'') (v4_String ip @ CHR ''/'' # r) = v4_String ip"
       "dropWhile (\<lambda>c. c \<noteq> CHR ''/'') (v4_String ip @ CHR ''/'' # r) = CHR ''/'' # r" for r
    using pre by (simp_all add: takeWhile_append2 dropWhile_append2)
  then show ?thesis using assms
    by (simp add: ParseCIDR_def ParseAddr_v4_String dtoi_itoa CIDRMask_def ip_Mask_def v4InV6Prefix_def Let_def)
qed

lemma net_String_wf: "wf_net n \<Longrightarrow> net_String n = v4_String (net_IP n) @ ''/'' @ itoa_nat (mask_Size (net_Mask n))"
proof -
  assume wf: "wf_net n"
  have ne: "net_IP n \<noteq> []" "net_Mask n \<noteq> []" using length_wf [OF wf] by auto
  have "simpleMaskLength (net_Mask n) = Some (mask_Size (net_Mask n))"
    using wf by (metis simpleMaskLength_mask_bytes wf_net_def)
  then show ?thesis using wf ne by (simp add: net_String_def networkNumberAndMask_wf ip_String_def)
qed

lemma ParseCIDR_net_String:
  assumes "wf_net n" shows "ParseCIDR (net_String n) = Inr (v4InV6Prefix @ net_IP n, n)"
  using assms ParseCIDR_text [of "net_IP n" "mask_Size (net_Mask n)"]
  by (auto simp: net_String_wf wf_net_def)

end
