(* ===== verification/VPC_Subnets.thy ===== *)
theory VPC_Subnets
  imports Go_Net
begin

text \<open>
  The address arithmetic of the AWS network code: walking through the addresses of a VPC
  (\<^verbatim>\<open>incrementIP\<close>), enumerating its subnets (\<^verbatim>\<open>generateAvailableSubnets\<close>, \<^verbatim>\<open>buildSubnetAddress\<close>),
  validating the block of the standalone VPC (\<^verbatim>\<open>validateStandaloneCidrBlock\<close>) and choosing a default
  one (\<^verbatim>\<open>getNonOverlappingDefaultCIDR\<close>); from \<^verbatim>\<open>pkg/providers/aws/cluster_vpc.go\<close> and
  \<^verbatim>\<open>pkg/providers/aws/cluster_network_provider.go\<close>.
\<close>

section \<open>Definitions\<close>

text \<open>
  \<^verbatim>\<open>incrementIP\<close> joins the four bytes in a 64-bit \<^verbatim>\<open>uint\<close>, adds, and takes the low four bytes apart
  again. Indexing the nil result of \<^verbatim>\<open>To4\<close> panics (None).
\<close>

definition incrementIP :: "bytes \<Rightarrow> nat \<Rightarrow> bytes option" where
  "incrementIP ip inc = (case To4 ip of
     [a, b, c, d] \<Rightarrow>
       let joinedBytes = push_bit 24 (ucast a) + push_bit 16 (ucast b) + push_bit 8 (ucast c) + ucast d
                         + (of_nat inc :: 64 word)
       in Some (IPv4 (ucast (drop_bit 24 joinedBytes AND 255)) (ucast (drop_bit 16 joinedBytes AND 255))
                     (ucast (drop_bit 8 joinedBytes AND 255)) (ucast (joinedBytes AND 255)))
   | _ \<Rightarrow> None)"

definition containsNetwork :: "ipnet list \<Rightarrow> bytes \<Rightarrow> bool" where
  "containsNetwork networks toFind \<longleftrightarrow> (\<exists>n \<in> set networks. ip_Equal (net_IP n) toFind)"

text \<open>The loop of \<^verbatim>\<open>generateAvailableSubnets\<close>; it is not bounded, so not returning is None.\<close>

partial_function (option) subnets_loop ::
  "ipnet \<Rightarrow> bytes \<Rightarrow> bytes \<Rightarrow> nat \<Rightarrow> ipnet list \<Rightarrow> ipnet list res option" where
  "subnets_loop fromCIDR toIPv4 toMask i networks =
     (case incrementIP toIPv4 i of None \<Rightarrow> Some (Abort Panics)
      | Some nextIP \<Rightarrow>
          if \<not> net_Contains fromCIDR nextIP then Some (Val networks)
          else let masked = ip_Mask nextIP toMask in
            if containsNetwork networks masked then subnets_loop fromCIDR toIPv4 toMask (Suc i) networks
            else subnets_loop fromCIDR toIPv4 toMask (Suc i)
                   (networks @ [\<lparr>net_IP = masked, net_Mask = toMask\<rparr>]))"

definition generateAvailableSubnets :: "ipnet \<Rightarrow> ipnet \<Rightarrow> ipnet list res" where
  "generateAvailableSubnets fromCIDR toCIDR =
     (let toIPv4 = To4 (net_IP toCIDR) in
      case subnets_loop fromCIDR toIPv4 (net_Mask toCIDR) 0 [\<lparr>net_IP = toIPv4, net_Mask = net_Mask toCIDR\<rparr>] of
        None \<Rightarrow> Abort Hangs
      | Some r \<Rightarrow> r)"

definition defaultSubnetMask :: nat where
  "defaultSubnetMask = 27"

definition defaultNumberOfExpectedSubnets :: nat where
  "defaultNumberOfExpectedSubnets = 2"

text \<open>\<^verbatim>\<open>buildSubnetAddress\<close>, on the CIDR text of the VPC (None is a nil pointer).\<close>

definition buildSubnetAddress :: "string option \<Rightarrow> ipnet list res" where
  "buildSubnetAddress cidrBlock = (case cidrBlock of None \<Rightarrow> Abort Panics | Some block \<Rightarrow>
     if block = '''' then Fail (ErrNew ''vpc cidr block can't be empty'')
     else case ParseCIDR block of
       Inl e \<Rightarrow> Fail (ErrWrap e (''failed to parse vpc cidr block '' @ block))
     | Inr (_, awsCIDR) \<Rightarrow>
         let maskSize = mask_Size (net_Mask awsCIDR) in
         if maskSize \<ge> defaultSubnetMask
         then Fail (ErrNew (''vpc cidr block '' @ block @ '' cannot contain generated subnet mask /'' @ itoa_nat defaultSubnetMask))
         else let croCIDRStr = ip_String (net_IP awsCIDR) @ ''/'' @ itoa_nat defaultSubnetMask in
           case ParseCIDR croCIDRStr of
             Inl e \<Rightarrow> Fail (ErrWrap e (''failed to parse cro cidr block '' @ croCIDRStr))
           | Inr (_, croCIDR) \<Rightarrow>
               (case generateAvailableSubnets awsCIDR croCIDR of
                  Val networks \<Rightarrow> Val (rev networks)
                | Fail e \<Rightarrow> Fail e
                | Abort a \<Rightarrow> Abort a))"

definition isValidCIDRRange :: "ipnet \<Rightarrow> bool" where
  "isValidCIDRRange CIDR \<longleftrightarrow> mask_Size (net_Mask CIDR) > 15 \<and> mask_Size (net_Mask CIDR) < 27"

text \<open>\<^verbatim>\<open>validateStandaloneCidrBlock\<close>: the error, or None for a nil error.\<close>

definition validateStandaloneCidrBlock :: "ipnet \<Rightarrow> ipnet \<Rightarrow> error option" where
  "validateStandaloneCidrBlock validateCIDR clusterCIDR =
     (if \<not> isValidCIDRRange validateCIDR
      then Some (ErrNew (net_String validateCIDR @
        '' is out of range, block sizes must be between `/16` and `/26`, please update `_network` strategy''))
      else if net_Contains clusterCIDR (net_IP validateCIDR) \<or> net_Contains validateCIDR (net_IP clusterCIDR)
      then Some (ErrNew (''standalone vpc creation failed: standalone cidr block '' @ net_String validateCIDR @
        '' overlaps with cluster vpc cidr block '' @ ip_String (net_IP clusterCIDR) @
        '', update _network strategy to continue vpc creation''))
      else None)"

definition incrementIPForDefaultCIDR :: "bytes \<Rightarrow> bytes option" where
  "incrementIPForDefaultCIDR ip = (case To4 ip of
     [a, b, c, d] \<Rightarrow> Some (if b < 255 then [a, b + 1, c, d] else [a + 1, 0, c, d])
   | _ \<Rightarrow> None)"

text \<open>
  \<^verbatim>\<open>getPodCIDR\<close> and \<^verbatim>\<open>getServiceCIDR\<close> run over the entries of the Network resource and keep the last
  parsed one; a nil network (no entries) is \<open>Inr None\<close>.
\<close>

fun parse_last :: "string \<Rightarrow> ipnet option \<Rightarrow> string list \<Rightarrow> error + ipnet option" where
  "parse_last msg acc [] = Inr acc"
| "parse_last msg acc (e # es) = (case ParseCIDR e of
     Inl err \<Rightarrow> Inl (ErrWrap err msg)
   | Inr (_, n) \<Rightarrow> parse_last msg (Some n) es)"

definition getPodCIDR :: "string list \<Rightarrow> error + ipnet option" where
  "getPodCIDR clusterNetwork = parse_last ''error parsing pod cidr'' None clusterNetwork"

definition getServiceCIDR :: "string list \<Rightarrow> error + ipnet option" where
  "getServiceCIDR serviceNetwork = parse_last ''error parsing service cidr'' None serviceNetwork"

text \<open>The three overlap tests of the search: cluster VPC, pod network, service network.\<close>

definition candidate_overlaps :: "ipnet \<Rightarrow> ipnet option \<Rightarrow> ipnet option \<Rightarrow> ipnet \<Rightarrow> bool" where
  "candidate_overlaps clusterNet podCIDR serviceCIDR defaultNet \<longleftrightarrow>
     net_Contains clusterNet (net_IP defaultNet) \<or> net_Contains defaultNet (net_IP clusterNet) \<or>
     (case podCIDR of None \<Rightarrow> False
      | Some p \<Rightarrow> net_Contains p (net_IP defaultNet) \<or> net_Contains defaultNet (net_IP p)) \<or>
     (case serviceCIDR of None \<Rightarrow> False
      | Some p \<Rightarrow> net_Contains p (net_IP defaultNet) \<or> net_Contains defaultNet (net_IP p))"

text \<open>The inner loop over one private range; a parse error would make it spin on the same address.\<close>

partial_function (option) default_loop ::
  "ipnet \<Rightarrow> (ipnet \<Rightarrow> bool) \<Rightarrow> bytes \<Rightarrow> ipnet option res option" where
  "default_loop cidrRangeNet overlaps potentialDefaultIP =
     (if \<not> net_Contains cidrRangeNet potentialDefaultIP then Some (Val None)
      else case ParseCIDR (ip_String potentialDefaultIP @ ''/26'') of
        Inl _ \<Rightarrow> default_loop cidrRangeNet overlaps potentialDefaultIP
      | Inr (_, defaultNet) \<Rightarrow>
          (case incrementIPForDefaultCIDR potentialDefaultIP of
             None \<Rightarrow> Some (Abort Panics)
           | Some nextIP \<Rightarrow>
               if overlaps defaultNet then default_loop cidrRangeNet overlaps nextIP
               else Some (Val (Some defaultNet))))"

text \<open>The outer loop over the private ranges (a text that does not parse would be a nil dereference).\<close>

fun default_ranges :: "(ipnet \<Rightarrow> bool) \<Rightarrow> (string \<times> string) list \<Rightarrow> ipnet res" where
  "default_ranges overlaps [] = Fail (ErrNew ''could not find a default cidr block'')"
| "default_ranges overlaps ((cidr, defaultVal) # rs) =
     (case (ParseCIDR cidr, ParseCIDR defaultVal) of
        (Inr (_, cidrRangeNet), Inr (potentialDefaultIP, _)) \<Rightarrow>
          (case default_loop cidrRangeNet overlaps potentialDefaultIP of
             None \<Rightarrow> Abort Hangs
           | Some (Val None) \<Rightarrow> default_ranges overlaps rs
           | Some (Val (Some n)) \<Rightarrow> Val n
           | Some (Fail e) \<Rightarrow> Fail e
           | Some (Abort a) \<Rightarrow> Abort a)
      | _ \<Rightarrow> Abort Panics)"

definition defaultCIDRMask :: string where
  "defaultCIDRMask = ''26''"

definition cidrRanges :: "(string \<times> string) list" where
  "cidrRanges = [(''10.255.255.255/8'', ''10.0.0.0/'' @ defaultCIDRMask),
                 (''172.31.255.255/12'', ''172.16.0.0/'' @ defaultCIDRMask)]"

definition findDefaultCIDR :: "ipnet \<Rightarrow> ipnet option \<Rightarrow> ipnet option \<Rightarrow> ipnet res" where
  "findDefaultCIDR clusterNet podCIDR serviceCIDR =
     default_ranges (candidate_overlaps clusterNet podCIDR serviceCIDR) cidrRanges"

section \<open>Stepping through addresses\<close>

definition v4_bytes :: "nat \<Rightarrow> bytes" where
  "v4_bytes v = [of_nat (v div 16777216), of_nat (v div 65536), of_nat (v div 256), of_nat v]"

lemma length_v4_bytes [simp]: "length (v4_bytes v) = 4"
  by (simp add: v4_bytes_def)

lemma unat_of_nat_byte: "unat (of_nat v :: 8 word) = v mod 256"
  by (simp add: unsigned_of_nat take_bit_eq_mod)

lemma bytes_val_4: "bytes_val [a, b, c, d] = unat a * 16777216 + unat b * 65536 + unat c * 256 + unat d"
  by simp

lemma base_256_digits:
  fixes v :: nat
  assumes "v < 2 ^ 32"
  shows "v div 16777216 mod 256 * 16777216 + v div 65536 mod 256 * 65536 + v div 256 mod 256 * 256 + v mod 256 = v"
proof -
  have "v = v div 256 * 256 + v mod 256" by simp
  moreover have "v div 256 = v div 65536 * 256 + v div 256 mod 256"
    using div_mult_mod_eq [of "v div 256" 256] by (simp add: div_mult2_eq [symmetric])
  moreover have "v div 65536 = v div 16777216 * 256 + v div 65536 mod 256"
    using div_mult_mod_eq [of "v div 65536" 256] by (simp add: div_mult2_eq [symmetric])
  moreover have "v div 16777216 mod 256 = v div 16777216" using assms by simp
  ultimately show ?thesis by linarith
qed

lemma bytes_val_v4_bytes [simp]: "v < 2 ^ 32 \<Longrightarrow> bytes_val (v4_bytes v) = v"
  using base_256_digits [of v] by (simp only: v4_bytes_def bytes_val_4 unat_of_nat_byte)

lemma v4_bytes_bytes_val: "length ip = 4 \<Longrightarrow> v4_bytes (bytes_val ip) = ip"
proof -
  assume 4: "length ip = 4"
  have "bytes_val ip < 2 ^ 32" using bytes_val_less [of ip] 4 by simp
  then show ?thesis using bytes_val_inj [of "v4_bytes (bytes_val ip)" ip] 4 by simp
qed

lemma low_byte_of_nat:
  "k \<le> 24 \<Longrightarrow> ucast (drop_bit k (of_nat x :: 64 word) AND 255) = (of_nat (x mod 2 ^ 32 div 2 ^ k) :: 8 word)"
proof -
  assume k: "k \<le> 24"
  have m: "(255 :: 64 word) = mask 8" by (simp add: mask_eq_exp_minus_1)
  have "x mod 2 ^ 32 div 2 ^ k = drop_bit k (take_bit 32 x)" by (simp add: take_bit_eq_mod drop_bit_eq_div)
  then show ?thesis using k unfolding m by (auto simp: bit_eq_iff bit_simps)
qed

lemma incrementIP_val:
  assumes "length ip = 4"
  shows "incrementIP ip i = Some (v4InV6Prefix @ v4_bytes ((bytes_val ip + i) mod 2 ^ 32))"
proof -
  obtain a b c d where ip: "ip = [a, b, c, d]" using length_4_conv [OF assms] by blast
  define j where "j = push_bit 24 (ucast a) + push_bit 16 (ucast b) + push_bit 8 (ucast c) + ucast d + (of_nat i :: 64 word)"
  define x where "x = bytes_val ip + i"
  have u: "(ucast z :: 64 word) = of_nat (unat z)" for z :: "8 word" by simp
  have j: "j = of_nat x"
    by (simp add: j_def x_def ip bytes_val_4 push_bit_eq_mult u algebra_simps del: of_nat_unat)
  have byte: "ucast (drop_bit k j AND 255) = (of_nat ((x mod 2 ^ 32) div 2 ^ k) :: 8 word)" if "k \<le> 24" for k
    unfolding j using low_byte_of_nat that by simp
  have "incrementIP ip i = Some (IPv4 (ucast (drop_bit 24 j AND 255)) (ucast (drop_bit 16 j AND 255))
                     (ucast (drop_bit 8 j AND 255)) (ucast (drop_bit 0 j AND 255)))"
    using assms by (simp add: incrementIP_def ip j_def Let_def)
  also have "\<dots> = Some (v4InV6Prefix @ v4_bytes (x mod 2 ^ 32))"
    by (simp only: byte le_refl) (simp add: byte IPv4_def v4_bytes_def)
  finally show ?thesis by (simp add: x_def)
qed

section \<open>Enumerating the subnets\<close>

text \<open>The first \<open>m\<close> blocks of prefix length \<open>k\<close> from the address \<open>b\<close>.\<close>

definition subnets_of :: "nat \<Rightarrow> nat \<Rightarrow> nat \<Rightarrow> ipnet list" where
  "subnets_of b k m = map (\<lambda>t. \<lparr>net_IP = v4_bytes (b + t * 2 ^ (32 - k)), net_Mask = mask_bytes 4 k\<rparr>) [0..<m]"

lemma length_subnets_of [simp]: "length (subnets_of b k m) = m"
  by (simp add: subnets_of_def)

lemma subnets_of_Suc: "subnets_of b k (Suc m) =
    subnets_of b k m @ [\<lparr>net_IP = v4_bytes (b + m * 2 ^ (32 - k)), net_Mask = mask_bytes 4 k\<rparr>]"
  by (simp add: subnets_of_def)

lemma block_end_le:
  fixes b :: nat
  assumes "b < 2 ^ 32" and "2 ^ j dvd b" and "j \<le> 32" shows "b + 2 ^ j \<le> 2 ^ 32"
proof -
  from assms(2) obtain q where b: "b = 2 ^ j * q" by (auto elim: dvdE)
  have p: "(2::nat) ^ 32 = 2 ^ j * 2 ^ (32 - j)" using assms(3) by (simp flip: power_add)
  with assms(1) b have "2 ^ j * q < 2 ^ j * 2 ^ (32 - j)" by metis
  then have "q < 2 ^ (32 - j)" by simp
  then have "2 ^ j * Suc q \<le> 2 ^ j * 2 ^ (32 - j)" by (intro mult_le_mono2) simp
  then show ?thesis unfolding p b by simp
qed

lemma net_base_less: "wf_net n \<Longrightarrow> net_base n < 2 ^ 32"
  using bytes_val_less [of "net_IP n"] by (simp add: net_base_def)

lemma net_end_le: "wf_net n \<Longrightarrow> net_base n + net_size n \<le> 2 ^ 32"
  using block_end_le [OF net_base_less wf_net_aligned [unfolded net_size_def]] by (simp add: net_size_def)

lemma ip_Mask_v4:
  assumes "v < 2 ^ 32" and "k \<le> 32"
  shows "ip_Mask (v4InV6Prefix @ v4_bytes v) (mask_bytes 4 k) = v4_bytes (v div 2 ^ (32 - k) * 2 ^ (32 - k))"
proof -
  have "v div 2 ^ (32 - k) * 2 ^ (32 - k) < 2 ^ 32"
    using assms(1) by (meson le_less_trans div_times_less_eq_dividend)
  moreover have "ip_Mask (v4InV6Prefix @ v4_bytes v) (mask_bytes 4 k) = bytes_and (v4_bytes v) (mask_bytes 4 k)"
    by (simp add: ip_Mask_def v4InV6Prefix_def Let_def)
  ultimately show ?thesis using assms
      bytes_val_inj [of "bytes_and (v4_bytes v) (mask_bytes 4 k)" "v4_bytes (v div 2 ^ (32 - k) * 2 ^ (32 - k))"]
    by (simp add: bytes_val_and_mask)
qed

lemma containsNetwork_subnets:
  assumes "b + q * 2 ^ (32 - k) < 2 ^ 32" and "b + m * 2 ^ (32 - k) \<le> 2 ^ 32"
  shows "containsNetwork (subnets_of b k m) (v4_bytes (b + q * 2 ^ (32 - k))) \<longleftrightarrow> q < m"
proof -
  let ?T = "2 ^ (32 - k) :: nat"
  have less: "b + t * ?T < 2 ^ 32" if "t < m" for t
  proof -
    have "Suc t * ?T \<le> m * ?T" using that by (intro mult_le_mono1) simp
    then have "t * ?T + ?T \<le> m * ?T" by simp
    moreover have "0 < ?T" by simp
    ultimately show ?thesis using assms(2) by linarith
  qed
  have "v4_bytes (b + t * ?T) = v4_bytes (b + q * ?T) \<longleftrightarrow> t = q" if "t < m" for t
    using bytes_val_v4_bytes [OF less [OF that]] bytes_val_v4_bytes [OF assms(1)]
    by (metis add_left_cancel mult_cancel2 power_not_zero zero_neq_numeral)
  then show ?thesis
    by (auto simp: containsNetwork_def subnets_of_def ip_Equal_def)
qed

text \<open>How many blocks the loop has found before it looks at address \<open>i\<close>.\<close>

definition covered :: "nat \<Rightarrow> nat \<Rightarrow> nat" where
  "covered T i = (if i = 0 then 1 else Suc ((i - 1) div T))"

lemma covered_step:
  "0 < T \<Longrightarrow> covered T (Suc i) = (if i div T < covered T i then covered T i else Suc (covered T i))"
  "0 < T \<Longrightarrow> i div T \<le> covered T i"
proof -
  assume T: "0 < T"
  have le: "(i - 1) div T \<le> i div T" by (rule div_le_mono) simp
  have up: "i div T \<le> Suc ((i - 1) div T)"
    by (cases i) (auto simp: div_Suc)
  show "covered T (Suc i) = (if i div T < covered T i then covered T i else Suc (covered T i))"
    using le up by (auto simp: covered_def)
  show "i div T \<le> covered T i" using up by (auto simp: covered_def)
qed

lemma pred_mult_div: "0 < c \<Longrightarrow> 0 < T \<Longrightarrow> (c * T - 1) div T = c - 1" for c T :: nat
  by (cases c) (auto intro!: div_nat_eqI simp: mult.commute)

lemma subnets_loop_result:
  assumes wf: "wf_net from" and k: "mask_Size (net_Mask from) \<le> k" "k \<le> 32" and k1: "1 \<le> mask_Size (net_Mask from)"
  defines "b \<equiv> net_base from" and "T \<equiv> 2 ^ (32 - k) :: nat" and "c \<equiv> 2 ^ (k - mask_Size (net_Mask from)) :: nat"
  shows "i \<le> net_size from \<Longrightarrow>
    subnets_loop from (v4_bytes b) (mask_bytes 4 k) i (subnets_of b k (covered T i)) = Some (Val (subnets_of b k c))"
proof (induction "net_size from - i" arbitrary: i rule: less_induct)
  case less
  have size: "net_size from = c * T" using k by (simp add: c_def T_def net_size_def flip: power_add)
  have T: "0 < T" by (simp add: T_def)
  have "T dvd net_size from" by (simp add: size)
  then have Tb: "T dvd b" using wf_net_aligned [OF wf] by (auto simp: b_def intro: dvd_trans)
  have "net_size from < 2 ^ 32"
    using k1 power_strict_increasing [of "32 - mask_Size (net_Mask from)" 32 "2::nat"] by (simp add: net_size_def)
  have b: "b < 2 ^ 32" "b + net_size from \<le> 2 ^ 32" using net_base_less net_end_le wf by (auto simp: b_def)
  have inc: "incrementIP (v4_bytes b) i = Some (v4InV6Prefix @ v4_bytes ((b + i) mod 2 ^ 32))"
    using incrementIP_val [of "v4_bytes b" i] b by simp
  have con: "net_Contains from (v4InV6Prefix @ v4_bytes v) \<longleftrightarrow> v \<in> addresses from" if "v < 2 ^ 32" for v
    using net_Contains_iff [OF wf, of "v4InV6Prefix @ v4_bytes v"] that by (simp add: is_v4_def addr_of_def)
  show ?case
  proof (cases "i = net_size from")
    case True
    have "(b + i) mod 2 ^ 32 \<notin> addresses from"
      using b True \<open>net_size from < 2 ^ 32\<close> by (cases "b + i = 2 ^ 32") (auto simp: addresses_def b_def)
    moreover have "covered T i = c"
    proof -
      have "(c * T - 1) div T = c - 1" using pred_mult_div T by (simp add: c_def)
      moreover have "0 < c" by (simp add: c_def)
      ultimately show ?thesis using T by (simp add: covered_def True size)
    qed
    ultimately show ?thesis using con [of "(b + i) mod 2 ^ 32"]
      by (subst subnets_loop.simps) (simp add: inc)
  next
    case False
    then have i: "i < net_size from" using less.prems by simp
    then have bi: "b + i < 2 ^ 32" using b by simp
    have inr: "b + i \<in> addresses from" using i by (simp add: addresses_def b_def)
    have "(b + i) div T * T = b + i div T * T"
      using Tb T by (metis div_mult_self1 div_plus_div_distrib_dvd_left dvd_div_mult_self distrib_right)
    then have msk: "ip_Mask (v4InV6Prefix @ v4_bytes (b + i)) (mask_bytes 4 k) = v4_bytes (b + i div T * T)"
      using ip_Mask_v4 [OF bi k(2)] by (simp add: T_def)
    have "i div T < c" using i size T by (simp add: less_mult_imp_div_less)
    have cov: "covered T i \<le> c"
    proof (cases "i = 0")
      case False
      then have "(i - 1) div T < c" using i size by (intro less_mult_imp_div_less) simp
      then show ?thesis using False by (simp add: covered_def)
    qed (simp add: covered_def c_def)
    have "covered T i * T \<le> c * T" using cov by (rule mult_le_mono1)
    then have lim: "b + covered T i * T \<le> 2 ^ 32" using b size by linarith
    have q: "b + i div T * T < 2 ^ 32" using bi by (meson add_le_cancel_left div_times_less_eq_dividend le_less_trans)
    have cn: "containsNetwork (subnets_of b k (covered T i)) (v4_bytes (b + i div T * T)) \<longleftrightarrow> i div T < covered T i"
      using containsNetwork_subnets [of b "i div T" k] lim q by (simp add: T_def)
    have IH: "subnets_loop from (v4_bytes b) (mask_bytes 4 k) (Suc i) (subnets_of b k (covered T (Suc i))) =
        Some (Val (subnets_of b k c))"
      using less.hyps [of "Suc i"] i by simp
    show ?thesis
    proof (cases "i div T < covered T i")
      case True
      then show ?thesis using IH cn msk con [OF bi] inr bi
        by (subst subnets_loop.simps) (simp add: inc covered_step [OF T] Let_def)
    next
      case False
      then have eq: "i div T = covered T i" using covered_step(2) [OF T, of i] by simp
      have "covered T (Suc i) = Suc (covered T i)" using False by (simp add: covered_step [OF T])
      then show ?thesis using IH cn msk con [OF bi] inr bi False eq subnets_of_Suc [of b k, folded T_def]
        by (subst subnets_loop.simps) (simp add: inc Let_def)
    qed
  qed
qed


lemma wf_net_subnets_of:
  assumes "2 ^ (32 - k) dvd b" and "k \<le> 32" and "b + t * 2 ^ (32 - k) < 2 ^ 32"
  defines "n \<equiv> \<lparr>net_IP = v4_bytes (b + t * 2 ^ (32 - k)), net_Mask = mask_bytes 4 k\<rparr>"
  shows "wf_net n" and "net_base n = b + t * 2 ^ (32 - k)" and "net_size n = 2 ^ (32 - k)"
proof -
  let ?v = "b + t * 2 ^ (32 - k)"
  have "2 ^ (32 - k) dvd ?v" using assms(1) by simp
  then have "?v div 2 ^ (32 - k) * 2 ^ (32 - k) = ?v" by (rule dvd_div_mult_self)
  then have "bytes_and (v4_bytes ?v) (mask_bytes 4 k) = v4_bytes ?v"
    using bytes_val_inj [of "bytes_and (v4_bytes ?v) (mask_bytes 4 k)" "v4_bytes ?v"] assms(2,3)
    by (simp add: bytes_val_and_mask)
  then show "wf_net n" using assms(2) by (simp add: wf_net_def n_def)
  show "net_base n = ?v" using assms(3) by (simp add: net_base_def n_def)
  show "net_size n = 2 ^ (32 - k)" using assms(2) by (simp add: net_size_def n_def)
qed

lemma wf_net_eq:
  assumes "wf_net n" shows "n = \<lparr>net_IP = v4_bytes (net_base n), net_Mask = mask_bytes 4 (mask_Size (net_Mask n))\<rparr>"
  using assms by (cases n) (auto simp: wf_net_def net_base_def v4_bytes_bytes_val)

lemma generateAvailableSubnets_eq:
  assumes "wf_net from" and "wf_net to" and "net_base to = net_base from"
    and "1 \<le> mask_Size (net_Mask from)" and "mask_Size (net_Mask from) \<le> mask_Size (net_Mask to)"
  shows "generateAvailableSubnets from to =
    Val (subnets_of (net_base from) (mask_Size (net_Mask to)) (2 ^ (mask_Size (net_Mask to) - mask_Size (net_Mask from))))"
proof -
  let ?k = "mask_Size (net_Mask to)"
  have to: "net_Mask to = mask_bytes 4 ?k" "?k \<le> 32" using assms(2) by (auto simp: wf_net_def)
  have ip: "To4 (net_IP to) = v4_bytes (net_base from)"
    using assms(2,3) by (metis To4_4 length_wf(1) net_base_def v4_bytes_bytes_val)
  have start: "[\<lparr>net_IP = v4_bytes (net_base from), net_Mask = mask_bytes 4 ?k\<rparr>] =
      subnets_of (net_base from) ?k (covered (2 ^ (32 - ?k)) 0)"
    by (simp add: subnets_of_def covered_def)
  show ?thesis
    using subnets_loop_result [OF assms(1,5) to(2) assms(4), of 0]
    unfolding generateAvailableSubnets_def Let_def ip
    by (subst (2) to(1), subst to(1)) (simp add: start)
qed

text \<open>The blocks partition the address range.\<close>

lemma subnets_of_partition:
  assumes "2 ^ (32 - k) dvd b" and "k \<le> 32" and "b + m * 2 ^ (32 - k) \<le> 2 ^ 32"
  shows "\<forall>n \<in> set (subnets_of b k m). wf_net n \<and> mask_Size (net_Mask n) = k"
    and "(\<Union>n \<in> set (subnets_of b k m). addresses n) = {b ..< b + m * 2 ^ (32 - k)}"
    and "i < m \<Longrightarrow> j < m \<Longrightarrow> i \<noteq> j \<Longrightarrow> addresses (subnets_of b k m ! i) \<inter> addresses (subnets_of b k m ! j) = {}"
proof -
  let ?T = "2 ^ (32 - k) :: nat"
  have lt: "b + t * ?T < 2 ^ 32" if "t < m" for t
  proof -
    have "Suc t * ?T \<le> m * ?T" using that by (intro mult_le_mono1) simp
    then have "t * ?T + ?T \<le> m * ?T" by simp
    moreover have "0 < ?T" by simp
    ultimately show ?thesis using assms(3) by linarith
  qed
  note wf = wf_net_subnets_of [OF assms(1,2) lt]
  show "\<forall>n \<in> set (subnets_of b k m). wf_net n \<and> mask_Size (net_Mask n) = k"
    using wf(1) assms(2) by (auto simp: subnets_of_def)
  have ad: "addresses (subnets_of b k m ! t) = {b + t * ?T ..< b + t * ?T + ?T}" if "t < m" for t
    using wf(2,3) [OF that] that by (simp add: addresses_def subnets_of_def)
  have div: "v \<in> {b + t * ?T ..< b + t * ?T + ?T} \<longleftrightarrow> b \<le> v \<and> (v - b) div ?T = t" for v t
  proof -
    have "v \<in> {b + t * ?T ..< b + t * ?T + ?T} \<longleftrightarrow> b \<le> v \<and> v - b \<in> {t * ?T ..< t * ?T + ?T}" by auto
    then show ?thesis using block_member_iff [of ?T "t * ?T" "v - b"] by simp
  qed
  show "(\<Union>n \<in> set (subnets_of b k m). addresses n) = {b ..< b + m * ?T}" (is "?L = ?R")
  proof -
    have "?L = (\<Union>t \<in> {..<m}. addresses (subnets_of b k m ! t))"
      by (force simp: set_conv_nth)
    also have "\<dots> = {v. b \<le> v \<and> (v - b) div ?T < m}"
      by (auto simp: ad div simp del: atLeastLessThan_iff)
    also have "\<dots> = ?R" by (auto simp: div_less_iff_less_mult)
    finally show ?thesis .
  qed
  show "i < m \<Longrightarrow> j < m \<Longrightarrow> i \<noteq> j \<Longrightarrow> addresses (subnets_of b k m ! i) \<inter> addresses (subnets_of b k m ! j) = {}"
    by (simp only: ad div disjoint_iff) blast
qed

section \<open>The search for a default block\<close>

text \<open>
  The specification: the blocks \<^verbatim>\<open>10.b.0.0/26\<close> and \<^verbatim>\<open>172.b.0.0/26\<close> with \<open>16 \<le> b < 32\<close>, in this order.
\<close>

definition default_candidate :: "8 word \<Rightarrow> nat \<Rightarrow> ipnet" where
  "default_candidate a b = \<lparr>net_IP = [a, of_nat b, 0, 0], net_Mask = mask_bytes 4 26\<rparr>"

definition default_candidates :: "ipnet list" where
  "default_candidates = map (default_candidate 10) [0..<256] @ map (default_candidate 172) [16..<32]"

definition host_forms :: "8 word \<Rightarrow> nat \<Rightarrow> bytes set" where
  "host_forms a b = {[a, of_nat b, 0, 0], v4InV6Prefix @ [a, of_nat b, 0, 0]}"

lemma host_forms_To4: "ip \<in> host_forms a b \<Longrightarrow> To4 ip = [a, of_nat b, 0, 0]"
  by (auto simp: host_forms_def)

lemma mask_bytes_26: "mask_bytes 4 26 = [255, 255, 255, 192]"
  by code_simp

lemma bytes_and_26: "bytes_and [a, b, 0, 0] (mask_bytes 4 26) = [a, b, 0, 0]"
  unfolding mask_bytes_26 by simp

lemma ParseCIDR_candidate:
  assumes "ip \<in> host_forms a b"
  shows "ParseCIDR (ip_String ip @ ''/26'') = Inr (v4InV6Prefix @ To4 ip, default_candidate a b)"
proof -
  have len: "length ip \<noteq> 0" "length ip = 4 \<or> length ip = 16" "To4 ip \<noteq> []"
    using assms host_forms_To4 [OF assms] by (auto simp: host_forms_def v4InV6Prefix_def)
  have "ip_String ip = v4_String (To4 ip)" using len by (auto simp: ip_String_def)
  moreover have "itoa_nat 26 = ''26''" by code_simp
  ultimately show ?thesis
    using ParseCIDR_text [of "To4 ip" 26] host_forms_To4 [OF assms]
    by (simp add: default_candidate_def bytes_and_26)
qed

lemma wf_candidate: "wf_net (default_candidate a b)"
  by (simp add: default_candidate_def wf_net_def bytes_and_26)

lemma byte_less_255: "b < 256 \<Longrightarrow> (of_nat b :: 8 word) < 255 \<longleftrightarrow> b < 255"
  by (simp add: word_less_nat_alt unat_of_nat_byte)

lemma default_loop_find:
  assumes inside: "\<And>b ip. lo \<le> b \<Longrightarrow> b < hi \<Longrightarrow> ip \<in> host_forms a b \<Longrightarrow> net_Contains R ip"
    and stop: "\<not> net_Contains R (if hi < 256 then [a, of_nat hi, 0, 0] else [a + 1, 0, 0, 0])"
    and hi: "hi \<le> 256"
  shows "lo \<le> b \<Longrightarrow> b < hi \<Longrightarrow> ip \<in> host_forms a b \<Longrightarrow>
    default_loop R ov ip = Some (Val (find (\<lambda>n. \<not> ov n) (map (default_candidate a) [b..<hi])))"
proof (induction "hi - b" arbitrary: b ip rule: less_induct)
  case less
  let ?next = "if b < 255 then [a, of_nat (Suc b), 0, 0] else [a + 1, 0, 0, 0]"
  have b: "b < 256" using less.prems hi by simp
  have inc: "incrementIPForDefaultCIDR ip = Some ?next"
    using host_forms_To4 [OF less.prems(3)] b by (simp add: incrementIPForDefaultCIDR_def byte_less_255 add.commute)
  have upt: "[b..<hi] = b # [Suc b..<hi]" using less.prems by (simp add: upt_conv_Cons)
  have "default_loop R ov ?next = Some (Val (find (\<lambda>n. \<not> ov n) (map (default_candidate a) [Suc b..<hi])))"
  proof (cases "Suc b < hi")
    case True
    moreover have "?next \<in> host_forms a (Suc b)" using True hi by (simp add: host_forms_def)
    ultimately show ?thesis using less.hyps [of "Suc b" ?next] less.prems by simp
  next
    case False
    then have "hi = Suc b" using less.prems by simp
    then have "\<not> net_Contains R ?next" using stop hi by (auto split: if_splits)
    then show ?thesis using \<open>hi = Suc b\<close> by (subst default_loop.simps) simp
  qed
  moreover have "net_Contains R ip" using inside less.prems by blast
  ultimately show ?case
    using less.prems(3) by (subst default_loop.simps) (simp add: ParseCIDR_candidate inc upt)
qed

lemma range_texts:
  "''10.255.255.255/8'' = v4_String [10, 255, 255, 255] @ ''/'' @ itoa_nat 8"
  "''172.31.255.255/12'' = v4_String [172, 31, 255, 255] @ ''/'' @ itoa_nat 12"
  "''10.0.0.0/26'' = v4_String [10, 0, 0, 0] @ ''/'' @ itoa_nat 26"
  "''172.16.0.0/26'' = v4_String [172, 16, 0, 0] @ ''/'' @ itoa_nat 26"
  by (simp_all add: itoa_nat_small)

lemma parsed_ranges:
  "ParseCIDR ''10.255.255.255/8'' = Inr (v4InV6Prefix @ [10, 255, 255, 255], \<lparr>net_IP = [10, 0, 0, 0], net_Mask = mask_bytes 4 8\<rparr>)"
  "ParseCIDR ''172.31.255.255/12'' = Inr (v4InV6Prefix @ [172, 31, 255, 255], \<lparr>net_IP = [172, 16, 0, 0], net_Mask = mask_bytes 4 12\<rparr>)"
  "ParseCIDR ''10.0.0.0/26'' = Inr (v4InV6Prefix @ [10, 0, 0, 0], default_candidate 10 0)"
  "ParseCIDR ''172.16.0.0/26'' = Inr (v4InV6Prefix @ [172, 16, 0, 0], default_candidate 172 16)"
proof -
  have m: "bytes_and [10, 255, 255, 255] (mask_bytes 4 8) = [10, 0, 0, 0]"
    "bytes_and [172, 31, 255, 255] (mask_bytes 4 12) = [172, 16, 0, 0]" by code_simp+
  show "ParseCIDR ''10.255.255.255/8'' = Inr (v4InV6Prefix @ [10, 255, 255, 255], \<lparr>net_IP = [10, 0, 0, 0], net_Mask = mask_bytes 4 8\<rparr>)"
    unfolding range_texts(1) using ParseCIDR_text [of "[10, 255, 255, 255]" 8] by (simp add: m)
  show "ParseCIDR ''172.31.255.255/12'' = Inr (v4InV6Prefix @ [172, 31, 255, 255], \<lparr>net_IP = [172, 16, 0, 0], net_Mask = mask_bytes 4 12\<rparr>)"
    unfolding range_texts(2) using ParseCIDR_text [of "[172, 31, 255, 255]" 12] by (simp add: m)
  show "ParseCIDR ''10.0.0.0/26'' = Inr (v4InV6Prefix @ [10, 0, 0, 0], default_candidate 10 0)"
    unfolding range_texts(3) using ParseCIDR_text [of "[10, 0, 0, 0]" 26] by (simp add: bytes_and_26 default_candidate_def)
  show "ParseCIDR ''172.16.0.0/26'' = Inr (v4InV6Prefix @ [172, 16, 0, 0], default_candidate 172 16)"
    unfolding range_texts(4) using ParseCIDR_text [of "[172, 16, 0, 0]" 26] by (simp add: bytes_and_26 default_candidate_def)
qed


lemma contains_host:
  assumes "ip \<in> host_forms a b" and "wf_net R" and "b < 256"
  shows "net_Contains R ip \<longleftrightarrow> unat a * 16777216 + b * 65536 \<in> addresses R"
  using assms host_forms_To4 [OF assms(1)]
  by (simp add: net_Contains_iff is_v4_def addr_of_def unat_of_nat_byte)

lemma contains_10:
  "ip \<in> host_forms a b \<Longrightarrow> b < 256 \<Longrightarrow>
   net_Contains \<lparr>net_IP = [10, 0, 0, 0], net_Mask = mask_bytes 4 8\<rparr> ip \<longleftrightarrow> a = 10"
proof -
  let ?R = "\<lparr>net_IP = [10, 0, 0, 0], net_Mask = mask_bytes 4 8\<rparr>"
  assume ip: "ip \<in> host_forms a b" "b < 256"
  have "bytes_and [10, 0, 0, 0] (mask_bytes 4 8) = [10, 0, 0, 0]" by code_simp
  then have "wf_net ?R" by (simp add: wf_net_def)
  moreover have "addresses ?R = {10 * 16777216 ..< 11 * 16777216}"
    by (simp add: addresses_def net_base_def net_size_def)
  moreover have "unat a = 10 \<longleftrightarrow> a = 10" by (simp add: word_unat_eq_iff)
  ultimately show ?thesis using contains_host [OF ip(1)] ip(2) by auto
qed

lemma contains_172:
  "ip \<in> host_forms 172 b \<Longrightarrow> b < 256 \<Longrightarrow>
   net_Contains \<lparr>net_IP = [172, 16, 0, 0], net_Mask = mask_bytes 4 12\<rparr> ip \<longleftrightarrow> 16 \<le> b \<and> b < 32"
proof -
  let ?R = "\<lparr>net_IP = [172, 16, 0, 0], net_Mask = mask_bytes 4 12\<rparr>"
  assume ip: "ip \<in> host_forms 172 b" "b < 256"
  have "bytes_and [172, 16, 0, 0] (mask_bytes 4 12) = [172, 16, 0, 0]" by code_simp
  then have "wf_net ?R" by (simp add: wf_net_def)
  moreover have "addresses ?R = {172 * 16777216 + 16 * 65536 ..< 172 * 16777216 + 32 * 65536}"
    by (simp add: addresses_def net_base_def net_size_def)
  ultimately show ?thesis using contains_host [OF ip(1)] ip(2) by auto
qed

lemma default_ranges_find:
  "default_ranges ov cidrRanges =
   (case find (\<lambda>n. \<not> ov n) default_candidates of
      None \<Rightarrow> Fail (ErrNew ''could not find a default cidr block'') | Some n \<Rightarrow> Val n)"
proof -
  let ?find = "\<lambda>xs. find (\<lambda>n. \<not> ov n) xs"
  have 1: "default_loop \<lparr>net_IP = [10, 0, 0, 0], net_Mask = mask_bytes 4 8\<rparr> ov (v4InV6Prefix @ [10, 0, 0, 0]) =
      Some (Val (?find (map (default_candidate 10) [0..<256])))"
  proof (rule default_loop_find [where lo = 0])
    show "\<not> net_Contains \<lparr>net_IP = [10, 0, 0, 0], net_Mask = mask_bytes 4 8\<rparr>
        (if 256 < (256::nat) then [10, of_nat 256, 0, 0] else [10 + 1, 0, 0, 0])"
      using contains_10 [of "[11, 0, 0, 0]" 11 0] by (simp add: host_forms_def)
  qed (auto simp: contains_10 host_forms_def)
  have 2: "default_loop \<lparr>net_IP = [172, 16, 0, 0], net_Mask = mask_bytes 4 12\<rparr> ov (v4InV6Prefix @ [172, 16, 0, 0]) =
      Some (Val (?find (map (default_candidate 172) [16..<32])))"
  proof (rule default_loop_find [where lo = 16])
    show "\<not> net_Contains \<lparr>net_IP = [172, 16, 0, 0], net_Mask = mask_bytes 4 12\<rparr>
        (if 32 < (256::nat) then [172, of_nat 32, 0, 0] else [172 + 1, 0, 0, 0])"
      using contains_172 [of "[172, 32, 0, 0]" 32] by (simp add: host_forms_def)
  qed (auto simp: contains_172 host_forms_def)
  have app: "?find (xs @ ys) = (case ?find xs of None \<Rightarrow> ?find ys | Some n \<Rightarrow> Some n)" for xs ys
    by (induction xs) auto
  show ?thesis
    by (simp add: cidrRanges_def defaultCIDRMask_def parsed_ranges 1 2 default_candidates_def app split: option.splits)
qed


text \<open>\<^verbatim>\<open>buildSubnetAddress\<close> on the text of a block enumerates its /27 blocks, in reverse.\<close>

lemma ip_String_wf: "wf_net n \<Longrightarrow> ip_String (net_IP n) = v4_String (net_IP n)"
  using length_wf(1) [of n] by (auto simp: ip_String_def simp flip: length_greater_0_conv)

lemma net_String_nonempty: "wf_net n \<Longrightarrow> net_String n \<noteq> ''''"
  by (simp add: net_String_wf)

lemma mask_finer:
  assumes "wf_net n" and "mask_Size (net_Mask n) \<le> k" and "k \<le> 32"
  shows "bytes_and (net_IP n) (mask_bytes 4 k) = net_IP n"
proof -
  have "2 ^ (32 - k) dvd net_size n" using assms(2) by (simp add: net_size_def le_imp_power_dvd)
  then have "2 ^ (32 - k) dvd bytes_val (net_IP n)"
    using wf_net_aligned [OF assms(1)] by (simp add: net_base_def) (metis dvd_trans)
  then show ?thesis
    using bytes_val_inj [of "bytes_and (net_IP n) (mask_bytes 4 k)" "net_IP n"] assms
    by (simp add: bytes_val_and_mask)
qed

lemma buildSubnetAddress_eq:
  assumes "wf_net vpc" and "1 \<le> mask_Size (net_Mask vpc)" and "mask_Size (net_Mask vpc) < 27"
  shows "buildSubnetAddress (Some (net_String vpc)) =
    Val (rev (subnets_of (net_base vpc) 27 (2 ^ (27 - mask_Size (net_Mask vpc)))))"
proof -
  let ?to = "\<lparr>net_IP = net_IP vpc, net_Mask = mask_bytes 4 27\<rparr>"
  have to: "wf_net ?to" "net_base ?to = net_base vpc" "mask_Size (net_Mask ?to) = 27"
    using assms mask_finer [of vpc 27] by (simp_all add: wf_net_def net_base_def)
  have "ParseCIDR (ip_String (net_IP vpc) @ ''/'' @ itoa_nat 27) = Inr (v4InV6Prefix @ net_IP vpc, ?to)"
    using ParseCIDR_text [of "net_IP vpc" 27] assms mask_finer [of vpc 27] by (simp add: ip_String_wf)
  then show ?thesis
    using assms to generateAvailableSubnets_eq [OF assms(1) to(1,2)]
    by (simp add: buildSubnetAddress_def net_String_nonempty ParseCIDR_net_String defaultSubnetMask_def)
qed

lemma candidate_overlaps_iff:
  assumes "wf_net clusterNet" and "\<forall>p \<in> set_option pod. wf_net p" and "\<forall>p \<in> set_option svc. wf_net p" and "wf_net n"
  shows "candidate_overlaps clusterNet pod svc n \<longleftrightarrow>
    (\<exists>m \<in> {clusterNet} \<union> set_option pod \<union> set_option svc. addresses m \<inter> addresses n \<noteq> {})"
proof -
  have o: "(net_Contains m (net_IP n) \<or> net_Contains n (net_IP m)) = (addresses m \<inter> addresses n \<noteq> {})" if "wf_net m" for m
    using net_overlap_iff [OF that assms(4)] .
  show ?thesis
    using assms(1-3) o by (cases pod; cases svc) (auto simp: candidate_overlaps_def)
qed

lemma default_candidates_wf: "n \<in> set default_candidates \<Longrightarrow> wf_net n \<and> mask_Size (net_Mask n) = 26"
  by (auto simp: default_candidates_def wf_candidate) (simp_all add: default_candidate_def)

lemma parse_last_Inr: "parse_last msg acc es = Inr r \<Longrightarrow>
   r = (if es = [] then acc else case ParseCIDR (last es) of Inl _ \<Rightarrow> None | Inr (_, n) \<Rightarrow> Some n)"
  by (induction es arbitrary: acc) (auto split: sum.splits if_splits)

lemma validateStandaloneCidrBlock_disjoint:
  assumes "validateStandaloneCidrBlock block cluster = None" and "wf_net block" and "wf_net cluster"
  shows "addresses block \<inter> addresses cluster = {}"
  using assms(1) net_overlap_iff [OF assms(3,2)]
  by (auto simp: validateStandaloneCidrBlock_def Int_commute split: if_splits)

text \<open>The first two candidates.\<close>

lemma addresses_candidates_01:
  "addresses (default_candidate 10 0) = {167772160 ..< 167772224}"
  "addresses (default_candidate 10 (Suc 0)) = {167837696 ..< 167837760}"
  by (simp_all add: addresses_def net_base_def net_size_def default_candidate_def)

lemma default_candidates_01: "\<exists>r. default_candidates = default_candidate 10 0 # default_candidate 10 (Suc 0) # r"
proof -
  have "[0..<256] = 0 # Suc 0 # [2..<256]" by (simp add: upt_conv_Cons)
  then show ?thesis by (simp only: default_candidates_def list.map append_Cons) blast
qed

section \<open>Properties\<close>

text \<open>
  C2. \<^verbatim>\<open>buildSubnetAddress\<close> terminates on every VPC block from /1 to /26 and returns exactly the /27
  networks of the block: they are well formed, pairwise disjoint, cover the block and nothing else,
  and come from the highest address down.
\<close>

theorem buildSubnetAddress_partition:
  assumes "wf_net vpc" and "1 \<le> mask_Size (net_Mask vpc)" and "mask_Size (net_Mask vpc) < 27"
  shows "\<exists>ns. buildSubnetAddress (Some (net_String vpc)) = Val ns \<and>
    length ns = 2 ^ (27 - mask_Size (net_Mask vpc)) \<and>
    (\<forall>n \<in> set ns. wf_net n \<and> mask_Size (net_Mask n) = 27) \<and>
    (\<Union>n \<in> set ns. addresses n) = addresses vpc \<and>
    (\<forall>i < length ns. \<forall>j < length ns. i \<noteq> j \<longrightarrow> addresses (ns ! i) \<inter> addresses (ns ! j) = {}) \<and>
    (\<forall>i < length ns. net_base (ns ! i) = net_base vpc + (length ns - 1 - i) * 32)"
proof -
  let ?k = "mask_Size (net_Mask vpc)" and ?b = "net_base vpc"
  let ?m = "2 ^ (27 - ?k) :: nat"
  define xs where "xs = subnets_of ?b 27 ?m"
  have size: "net_size vpc = ?m * 32" using assms(3) power_add [of "2::nat" "27 - ?k" 5] by (simp add: net_size_def)
  have al: "2 ^ (32 - 27) dvd ?b"
    using wf_net_aligned [OF assms(1)] unfolding size by simp (meson dvd_mult_right)
  have lim: "?b + ?m * 2 ^ (32 - 27) \<le> 2 ^ 32" using net_end_le [OF assms(1)] size by simp
  have run: "buildSubnetAddress (Some (net_String vpc)) = Val (rev xs)"
    using buildSubnetAddress_eq [OF assms] by (simp add: xs_def)
  note part = subnets_of_partition [OF al _ lim, folded xs_def, simplified]
  have len: "length xs = ?m" by (simp add: xs_def)
  have nth: "rev xs ! i = xs ! (?m - 1 - i)" if "i < ?m" for i using that by (simp add: rev_nth len)
  have base: "net_base (xs ! t) = ?b + t * 32" if "t < ?m" for t
  proof -
    have "Suc t * 32 \<le> ?m * 32" using that by (intro mult_le_mono1) simp
    then have "?b + t * 2 ^ (32 - 27) < 2 ^ 32" using lim by simp
    then show ?thesis using wf_net_subnets_of(2) [OF al, of t] that by (simp add: xs_def subnets_of_def)
  qed
  have dis: "addresses (rev xs ! i) \<inter> addresses (rev xs ! j) = {}" if "i < ?m" "j < ?m" "i \<noteq> j" for i j
  proof -
    have "?m - 1 - i < ?m" "?m - 1 - j < ?m" "?m - 1 - i \<noteq> ?m - 1 - j" using that by linarith+
    then show ?thesis unfolding nth [OF that(1)] nth [OF that(2)] by (rule part(3))
  qed
  have rbase: "net_base (rev xs ! i) = ?b + (?m - 1 - i) * 32" if "i < ?m" for i
    unfolding nth [OF that] by (rule base) (use that in linarith)
  have cover: "(\<Union>n \<in> set (rev xs). addresses n) = addresses vpc"
  proof -
    have "addresses vpc = {?b ..< ?b + ?m * 2 ^ (32 - 27)}" by (simp add: addresses_def size)
    then show ?thesis unfolding set_rev xs_def by (subst subnets_of_partition(2) [OF al _ lim]) simp_all
  qed
  have wf: "\<forall>n \<in> set (rev xs). wf_net n \<and> mask_Size (net_Mask n) = 27" unfolding set_rev by (rule part(1))
  have len': "length (rev xs) = ?m" by (simp only: length_rev len)
  show ?thesis
    by (rule exI [of _ "rev xs"]) (use run len' wf cover dis rbase in \<open>simp only: simp_thms, blast\<close>)
qed


theorem buildSubnetAddress_partition_witness:
  "\<exists>ns. buildSubnetAddress (Some (net_String \<lparr>net_IP = [10, 0, 0, 0], net_Mask = [255, 255, 255, 192]\<rparr>)) = Val ns \<and>
    length ns = 2"
proof -
  let ?n = "\<lparr>net_IP = [10, 0, 0, 0], net_Mask = [255, 255, 255, 192]\<rparr>"
  have m: "[255, 255, 255, 192] = mask_bytes 4 26" by (simp only: mask_bytes_26)
  have "wf_net ?n" "mask_Size (net_Mask ?n) = 26" unfolding m by (simp_all add: wf_net_def bytes_and_26)
  then show ?thesis using buildSubnetAddress_partition [of ?n] by auto
qed

text \<open>
  The error returns of \<^verbatim>\<open>buildSubnetAddress\<close>: an empty block, a text that is not a CIDR block, and
  a block that is too small to hold a /27 network are refused, and a nil block panics.
\<close>

theorem buildSubnetAddress_errors:
  "buildSubnetAddress None = Abort Panics \<and>
   buildSubnetAddress (Some '''') = Fail (ErrNew ''vpc cidr block can't be empty'') \<and>
   (\<forall>block e. block \<noteq> '''' \<and> ParseCIDR block = Inl e \<longrightarrow>
     buildSubnetAddress (Some block) = Fail (ErrWrap e (''failed to parse vpc cidr block '' @ block))) \<and>
   (\<forall>vpc. wf_net vpc \<and> 27 \<le> mask_Size (net_Mask vpc) \<longrightarrow>
     (\<exists>msg. buildSubnetAddress (Some (net_String vpc)) = Fail (ErrNew msg)))"
  by (auto simp: buildSubnetAddress_def ParseCIDR_net_String net_String_nonempty defaultSubnetMask_def)

theorem buildSubnetAddress_errors_witness:
  "buildSubnetAddress (Some ''x'') = Fail (ErrWrap (ErrNew ''invalid CIDR address: x'') ''failed to parse vpc cidr block x'')"
proof -
  have "ParseCIDR ''x'' = Inl (ErrNew ''invalid CIDR address: x'')" by code_simp
  then show ?thesis using buildSubnetAddress_errors by auto
qed

text \<open>
  \<^verbatim>\<open>validateStandaloneCidrBlock\<close> accepts a block exactly when its mask lies between /16 and /26 and
  it shares no address with the block of the cluster VPC.
\<close>

theorem validateStandaloneCidrBlock_exact:
  assumes "wf_net block" and "wf_net cluster"
  shows "validateStandaloneCidrBlock block cluster = None \<longleftrightarrow>
    16 \<le> mask_Size (net_Mask block) \<and> mask_Size (net_Mask block) \<le> 26 \<and> addresses block \<inter> addresses cluster = {}"
  using net_overlap_iff [OF assms(2,1)]
  by (auto simp: validateStandaloneCidrBlock_def isValidCIDRRange_def Int_commute)

theorem validateStandaloneCidrBlock_exact_witness:
  "validateStandaloneCidrBlock (default_candidate 10 0) (default_candidate 10 1) = None \<and>
   validateStandaloneCidrBlock (default_candidate 10 0) (default_candidate 10 0) \<noteq> None"
proof -
  have 26: "mask_Size (net_Mask (default_candidate a b)) = 26" for a b by (simp add: default_candidate_def)
  show ?thesis
    using validateStandaloneCidrBlock_exact [OF wf_candidate [of 10 0] wf_candidate [of 10 1]]
      validateStandaloneCidrBlock_exact [OF wf_candidate [of 10 0] wf_candidate [of 10 0]]
    by (simp add: 26 addresses_candidates_01)
qed

text \<open>
  \<^verbatim>\<open>incrementIP\<close> is addition modulo \<open>2 ^ 32\<close> on the 32-bit number of an address, in its 4-byte and
  in its 16-byte form: carries pass the byte boundaries and the address space wraps around.
\<close>

theorem incrementIP_adds:
  assumes "is_v4 ip"
  shows "\<exists>next. incrementIP ip inc = Some next \<and> is_v4 next \<and> length next = 16 \<and>
    addr_of next = (addr_of ip + inc) mod 2 ^ 32"
proof -
  have 4: "length (To4 ip) = 4" using assms by (simp add: is_v4_def)
  have "incrementIP ip inc = incrementIP (To4 ip) inc" using 4 by (simp add: incrementIP_def)
  moreover have "length v4InV6Prefix = 12" by (simp add: v4InV6Prefix_def)
  ultimately show ?thesis using incrementIP_val [OF 4, of inc] by (simp add: addr_of_def is_v4_def)
qed

theorem incrementIP_adds_witness:
  "\<exists>next. incrementIP [10, 0, 255, 255] 1 = Some next \<and> addr_of next = 10 * 16777216 + 65536"
proof -
  have "is_v4 [10, 0, 255, 255]" "addr_of [10, 0, 255, 255] = 10 * 16777216 + 65535"
    by (simp_all add: is_v4_def addr_of_def)
  then show ?thesis using incrementIP_adds [of "[10, 0, 255, 255]" 1] by auto
qed

text \<open>
  C27. The search for a default block is the reference search: it returns the first of the 272
  candidate /26 blocks that shares no address with the cluster VPC, the pod network and the service
  network, and fails exactly when every candidate shares one. It neither panics nor spins.
\<close>

theorem findDefaultCIDR_first_free:
  assumes "wf_net cluster" and "\<forall>p \<in> set_option pod \<union> set_option svc. wf_net p"
  shows "findDefaultCIDR cluster pod svc =
    (case find (\<lambda>n. \<forall>m \<in> {cluster} \<union> set_option pod \<union> set_option svc. addresses m \<inter> addresses n = {}) default_candidates of
       None \<Rightarrow> Fail (ErrNew ''could not find a default cidr block'') | Some n \<Rightarrow> Val n)"
proof -
  have "find (\<lambda>n. \<not> candidate_overlaps cluster pod svc n) default_candidates =
     find (\<lambda>n. \<forall>m \<in> {cluster} \<union> set_option pod \<union> set_option svc. addresses m \<inter> addresses n = {}) default_candidates"
  proof (rule find_cong)
    fix n assume "n \<in> set default_candidates"
    then have "wf_net n" using default_candidates_wf by blast
    then show "(\<not> candidate_overlaps cluster pod svc n) =
        (\<forall>m \<in> {cluster} \<union> set_option pod \<union> set_option svc. addresses m \<inter> addresses n = {})"
      using candidate_overlaps_iff [OF assms(1), of pod svc n] assms(2) by blast
  qed simp
  then show ?thesis by (simp add: findDefaultCIDR_def default_ranges_find)
qed

theorem findDefaultCIDR_first_free_witness:
  "findDefaultCIDR (default_candidate 10 0) None None = Val (default_candidate 10 1)"
proof -
  obtain r where r: "default_candidates = default_candidate 10 0 # default_candidate 10 (Suc 0) # r"
    using default_candidates_01 by blast
  show ?thesis
    using findDefaultCIDR_first_free [OF wf_candidate [of 10 0], of None None]
    unfolding r by (simp add: addresses_candidates_01)
qed

text \<open>
  A default block that the search returns passes \<^verbatim>\<open>validateStandaloneCidrBlock\<close> against the cluster
  VPC, is disjoint from the pod and service networks, and yields exactly two /27 subnets.
\<close>

theorem findDefaultCIDR_usable:
  assumes "wf_net cluster" and "\<forall>p \<in> set_option pod \<union> set_option svc. wf_net p"
    and "findDefaultCIDR cluster pod svc = Val n"
  shows "validateStandaloneCidrBlock n cluster = None \<and>
    (\<forall>p \<in> set_option pod \<union> set_option svc. addresses p \<inter> addresses n = {}) \<and>
    (\<exists>a b. buildSubnetAddress (Some (net_String n)) = Val [a, b])"
proof -
  have f: "find (\<lambda>n. \<not> candidate_overlaps cluster pod svc n) default_candidates = Some n"
    using assms(3) by (simp add: findDefaultCIDR_def default_ranges_find split: option.splits)
  note found = find_Some_set [OF f]
  have n: "wf_net n" "mask_Size (net_Mask n) = 26" using default_candidates_wf found by blast+
  have free: "\<forall>m \<in> {cluster} \<union> set_option pod \<union> set_option svc. addresses m \<inter> addresses n = {}"
    using candidate_overlaps_iff [OF assms(1) _ _ n(1), of pod svc] assms(2) found by blast
  have "validateStandaloneCidrBlock n cluster = None"
    using n free net_overlap_iff [OF assms(1) n(1)]
    by (simp add: validateStandaloneCidrBlock_def isValidCIDRRange_def)
  moreover have "\<exists>a b. buildSubnetAddress (Some (net_String n)) = Val [a, b]"
    using buildSubnetAddress_eq [OF n(1)] n(2) by (simp add: subnets_of_def numeral_2_eq_2)
  ultimately show ?thesis using free by blast
qed

theorem findDefaultCIDR_usable_witness:
  "validateStandaloneCidrBlock (default_candidate 10 1) (default_candidate 10 0) = None"
proof -
  have c: "candidate_overlaps (default_candidate 10 0) None None (default_candidate 10 0)"
    "\<not> candidate_overlaps (default_candidate 10 0) None None (default_candidate 10 (Suc 0))"
    using candidate_overlaps_iff [OF wf_candidate [of 10 0] _ _ wf_candidate, of None None]
    by (simp_all add: addresses_candidates_01)
  obtain r where r: "default_candidates = default_candidate 10 0 # default_candidate 10 (Suc 0) # r"
    using default_candidates_01 by blast
  have "find (\<lambda>n. \<not> candidate_overlaps (default_candidate 10 0) None None n) default_candidates = Some (default_candidate 10 1)"
    unfolding r using c by simp
  then have "findDefaultCIDR (default_candidate 10 0) None None = Val (default_candidate 10 1)"
    by (simp add: findDefaultCIDR_def default_ranges_find)
  then show ?thesis using findDefaultCIDR_usable [OF wf_candidate [of 10 0], of None None] by simp
qed

end
