(* ===== verification/AWS_API.thy ===== *)
theory AWS_API
  imports Kubernetes VPC_Subnets "HOL-Library.List_Lexorder" "HOL-Library.Char_ord"
begin

text \<open>
  The AWS services as the operator sees them: the objects of the EC2, RDS and ElastiCache clients with
  the fields the operator reads (a pointer of the SDK is an option, and reading through nil panics), the
  requests that change something, and the services themselves as a record of functions over the world.
  The elements of a returned list and the object in the response to a successful creation are not nil.
  Also the conversions of \<^verbatim>\<open>pkg/providers/aws/tags.go\<close> and the order of zones of \<^verbatim>\<open>sort.go\<close>.
\<close>

section \<open>Objects\<close>

record awsTag =
  at_Key :: "string option"
  at_Value :: "string option"

record vpc =
  vpc_VpcId :: "string option"
  vpc_CidrBlock :: "string option"
  vpc_State :: "string option"
  vpc_Tags :: "awsTag list"

record subnet =
  sub_SubnetId :: "string option"
  sub_VpcId :: "string option"
  sub_CidrBlock :: "string option"
  sub_AvailabilityZone :: "string option"
  sub_Tags :: "awsTag list"

record availabilityZone =
  az_ZoneName :: "string option"
  az_State :: "string option"

record ipRange =
  ipr_CidrIp :: "string option"
  ipr_Description :: "string option"

text \<open>
  A permission is compared with \<^verbatim>\<open>reflect.DeepEqual\<close>, which tells a nil slice from an empty one. The
  elements of the last three slices are given by the list of their string fields.
\<close>

record ipPermission =
  ipp_FromPort :: "int option"
  ipp_ToPort :: "int option"
  ipp_IpProtocol :: "string option"
  ipp_IpRanges :: "ipRange list option"
  ipp_Ipv6Ranges :: "string option list list option"
  ipp_PrefixListIds :: "string option list list option"
  ipp_UserIdGroupPairs :: "string option list list option"

record securityGroup =
  sg_GroupId :: "string option"
  sg_GroupName :: "string option"
  sg_VpcId :: "string option"
  sg_Tags :: "awsTag list"
  sg_IpPermissions :: "ipPermission list"

record route =
  route_DestinationCidrBlock :: "string option"
  route_VpcPeeringConnectionId :: "string option"

record routeTable =
  rtb_RouteTableId :: "string option"
  rtb_VpcId :: "string option"
  rtb_Routes :: "route list"
  rtb_Tags :: "awsTag list"

record peeringStatus =
  ps_Code :: "string option"
  ps_Message :: "string option"

record vpcPeeringConnection =
  pc_VpcPeeringConnectionId :: "string option"
  pc_Status :: "peeringStatus option"
  pc_Tags :: "awsTag list"

record dbSubnetGroup =
  dsg_DBSubnetGroupName :: "string option"
  dsg_DBSubnetGroupArn :: "string option"
  dsg_DBSubnetGroupDescription :: "string option"
  dsg_VpcId :: "string option"
  dsg_SubnetIdentifiers :: "string option list"

record cacheSubnetGroup =
  csg_CacheSubnetGroupName :: "string option"
  csg_CacheSubnetGroupDescription :: "string option"
  csg_SubnetIdentifiers :: "string option list"

type_synonym tagSpecs = "(string \<times> awsTag list) list"

text \<open>
  RDS: a database instance with its endpoint and pending changes, its snapshots and maintenance actions, and
  the inputs that create, modify and delete one, each with the fields the operator reads or writes. Times are
  in seconds since 1970.
\<close>

record endpoint =
  ep_Address :: "string option"
  ep_Port :: "int option"

record pendingModifiedValues =
  pmv_Port :: "int option"
  pmv_BackupRetentionPeriod :: "int option"
  pmv_DBInstanceClass :: "string option"
  pmv_EngineVersion :: "string option"
  pmv_MultiAZ :: "bool option"

record dbInstance =
  dbi_DBInstanceIdentifier :: "string option"
  dbi_DBInstanceArn :: "string option"
  dbi_DBInstanceStatus :: "string option"
  dbi_DBInstanceClass :: "string option"
  dbi_DBName :: "string option"
  dbi_MasterUsername :: "string option"
  dbi_Endpoint :: "endpoint option"
  dbi_EngineVersion :: "string option"
  dbi_CACertificateIdentifier :: "string option"
  dbi_DeletionProtection :: "bool option"
  dbi_BackupRetentionPeriod :: "int option"
  dbi_PubliclyAccessible :: "bool option"
  dbi_AllocatedStorage :: "int option"
  dbi_MaxAllocatedStorage :: "int option"
  dbi_MultiAZ :: "bool option"
  dbi_AutoMinorVersionUpgrade :: "bool option"
  dbi_PreferredBackupWindow :: "string option"
  dbi_PreferredMaintenanceWindow :: "string option"
  dbi_PendingModifiedValues :: "pendingModifiedValues option"

record createDBInstanceInput =
  cdi_DBInstanceIdentifier :: "string option"
  cdi_DBInstanceClass :: "string option"
  cdi_DBName :: "string option"
  cdi_MasterUsername :: "string option"
  cdi_MasterUserPassword :: "string option"
  cdi_Port :: "int option"
  cdi_Engine :: "string option"
  cdi_EngineVersion :: "string option"
  cdi_DeletionProtection :: "bool option"
  cdi_AutoMinorVersionUpgrade :: "bool option"
  cdi_BackupRetentionPeriod :: "int option"
  cdi_PubliclyAccessible :: "bool option"
  cdi_AllocatedStorage :: "int option"
  cdi_MaxAllocatedStorage :: "int option"
  cdi_StorageEncrypted :: "bool option"
  cdi_MultiAZ :: "bool option"
  cdi_AvailabilityZone :: "string option"
  cdi_DBSubnetGroupName :: "string option"
  cdi_VpcSecurityGroupIds :: "string option list option"
  cdi_CopyTagsToSnapshot :: "bool option"
  cdi_PreferredBackupWindow :: "string option"
  cdi_PreferredMaintenanceWindow :: "string option"
  cdi_Tags :: "awsTag list"

record modifyDBInstanceInput =
  mdi_DBInstanceIdentifier :: "string option"
  mdi_CACertificateIdentifier :: "string option"
  mdi_DeletionProtection :: "bool option"
  mdi_DBPortNumber :: "int option"
  mdi_BackupRetentionPeriod :: "int option"
  mdi_DBInstanceClass :: "string option"
  mdi_PubliclyAccessible :: "bool option"
  mdi_MaxAllocatedStorage :: "int option"
  mdi_MultiAZ :: "bool option"
  mdi_AutoMinorVersionUpgrade :: "bool option"
  mdi_PreferredBackupWindow :: "string option"
  mdi_PreferredMaintenanceWindow :: "string option"
  mdi_EngineVersion :: "string option"
  mdi_AllowMajorVersionUpgrade :: "bool option"
  mdi_ApplyImmediately :: "bool option"

record deleteDBInstanceInput =
  ddi_DBInstanceIdentifier :: "string option"
  ddi_DeleteAutomatedBackups :: "bool option"
  ddi_SkipFinalSnapshot :: "bool option"
  ddi_FinalDBSnapshotIdentifier :: "string option"

record dbSnapshot =
  dbs_DBSnapshotIdentifier :: "string option"
  dbs_DBSnapshotArn :: "string option"
  dbs_Status :: "string option"

record pendingMaintenanceAction =
  pma_Action :: "string option"
  pma_Description :: "string option"
  pma_AutoAppliedAfterDate :: "int option"
  pma_CurrentApplyDate :: "int option"

record resourcePendingMaintenanceActions =
  rpma_ResourceIdentifier :: "string option"
  rpma_Details :: "pendingMaintenanceAction list"

text \<open>ElastiCache: replication groups with their nodes, cache clusters, update actions and the inputs.\<close>

record nodeGroupMember =
  ngm_CacheClusterId :: "string option"
  ngm_PreferredAvailabilityZone :: "string option"
  ngm_CurrentRole :: "string option"

record nodeGroup =
  ng_NodeGroupId :: "string option"
  ng_Status :: "string option"
  ng_PrimaryEndpoint :: "endpoint option"
  ng_NodeGroupMembers :: "nodeGroupMember list"

record replicationGroup =
  rg_ReplicationGroupId :: "string option"
  rg_Status :: "string option"
  rg_CacheNodeType :: "string option"
  rg_SnapshotRetentionLimit :: "int option"
  rg_NodeGroups :: "nodeGroup list"

record cacheCluster =
  cc_ReplicationGroupId :: "string option"
  cc_CacheClusterStatus :: "string option"
  cc_EngineVersion :: "string option"
  cc_PreferredAvailabilityZone :: "string option"
  cc_PreferredMaintenanceWindow :: "string option"
  cc_SnapshotWindow :: "string option"

record createReplicationGroupInput =
  crg_ReplicationGroupId :: "string option"
  crg_ReplicationGroupDescription :: "string option"
  crg_CacheNodeType :: "string option"
  crg_Engine :: "string option"
  crg_EngineVersion :: "string option"
  crg_NumCacheClusters :: "int option"
  crg_SnapshotRetentionLimit :: "int option"
  crg_AtRestEncryptionEnabled :: "bool option"
  crg_TransitEncryptionEnabled :: "bool option"
  crg_AutomaticFailoverEnabled :: "bool option"
  crg_CacheSubnetGroupName :: "string option"
  crg_SecurityGroupIds :: "string option list option"
  crg_PreferredMaintenanceWindow :: "string option"
  crg_SnapshotWindow :: "string option"
  crg_Tags :: "awsTag list"

record modifyReplicationGroupInput =
  mrg_ReplicationGroupId :: "string option"
  mrg_CacheNodeType :: "string option"
  mrg_ApplyImmediately :: "bool option"
  mrg_SnapshotRetentionLimit :: "int option"
  mrg_EngineVersion :: "string option"
  mrg_PreferredMaintenanceWindow :: "string option"
  mrg_SnapshotWindow :: "string option"

record deleteReplicationGroupInput =
  drg_ReplicationGroupId :: "string option"
  drg_RetainPrimaryCluster :: "bool option"
  drg_FinalSnapshotIdentifier :: "string option"

record cacheSnapshot =
  cs_SnapshotName :: "string option"
  cs_SnapshotStatus :: "string option"

record updateAction =
  ua_ReplicationGroupId :: "string option"
  ua_CacheClusterId :: "string option"
  ua_Engine :: "string option"
  ua_EstimatedUpdateTime :: "string option"
  ua_NodesUpdated :: "string option"
  ua_ServiceUpdateName :: "string option"
  ua_ServiceUpdateRecommendedApplyByDate :: "int option"
  ua_ServiceUpdateReleaseDate :: "int option"
  ua_ServiceUpdateSeverity :: "string option"
  ua_ServiceUpdateStatus :: "string option"
  ua_ServiceUpdateType :: "string option"
  ua_SlaMet :: "string option"
  ua_UpdateActionAvailableDate :: "int option"
  ua_UpdateActionStatus :: "string option"
  ua_UpdateActionStatusModifiedDate :: "int option"

section \<open>Requests\<close>

text \<open>
  The requests that change something, with their inputs. The last two are the local gauge
  \<^verbatim>\<open>cro_vpc_action\<close>, which is set and reset between the requests.
\<close>

datatype cloud_req =
    ReqCreateVpc string tagSpecs
  | ReqDeleteVpc string
  | ReqCreateSubnet string string string tagSpecs
  | ReqDeleteSubnet string
  | ReqCreateTags "string option" "awsTag list"
  | ReqCreateSecurityGroup string string "string option" tagSpecs
  | ReqDeleteSecurityGroup "string option"
  | ReqAuthorizeSecurityGroupIngress string ipPermission
  | ReqCreateVpcPeeringConnection "string option" "string option" tagSpecs
  | ReqAcceptVpcPeeringConnection "string option"
  | ReqDeleteVpcPeeringConnection "string option"
  | ReqCreateRoute "string option" "string option" "string option"
  | ReqDeleteRoute "string option" "string option"
  | ReqCreateDBSubnetGroup string string "string option list" "awsTag list"
  | ReqModifyDBSubnetGroup string "string option" "string option list"
  | ReqDeleteDBSubnetGroup "string option"
  | ReqRemoveTagsFromResource "string option" "string option list"
  | ReqAddTagsToResource "string option" "awsTag list"
  | ReqCreateCacheSubnetGroup string string "string option list" "awsTag list"
  | ReqModifyCacheSubnetGroup string "string option" "string option list"
  | ReqDeleteCacheSubnetGroup string
  | ReqCreateDBInstance createDBInstanceInput
  | ReqModifyDBInstance modifyDBInstanceInput
  | ReqDeleteDBInstance deleteDBInstanceInput
  | ReqApplyPendingMaintenanceAction string string
  | ReqCreateDBSnapshot string string "awsTag list"
  | ReqDeleteDBSnapshot "string option"
  | ReqCreateReplicationGroup createReplicationGroupInput
  | ReqModifyReplicationGroup modifyReplicationGroupInput
  | ReqDeleteReplicationGroup deleteReplicationGroupInput
  | ReqBatchApplyUpdateAction "string option" "string option"
  | ReqAddTagsToCacheResource string "awsTag list"
  | ReqCreateSnapshot string string "awsTag list"
  | ReqDeleteSnapshot string
  | ReqCreateBucket "string option"
  | ReqDeleteBucket "string option"
  | ReqDeleteObjects string
  | ReqPutBucketTagging string "awsTag list"
  | ReqPutPublicAccessBlock string "bool list"
  | ReqPutBucketEncryption string string
  | ReqSetVpcAction string string string
  | ReqResetVpcAction

text \<open>The filter of a request for peering connections: by identifier, or by requester and accepter.\<close>

datatype peering_filter = ByPeeringId "string option" | ByVpcs "string option" "string option"

text \<open>
  The services. \<open>aws_Exec\<close> is every request whose response is not read. \<open>aws_polls\<close> is how often the
  five minutes of \<^verbatim>\<open>PollUntilContextTimeout\<close> allow another attempt after the first, and the \<open>aws_show\<close>
  functions render values of the SDK in error messages.
\<close>

record 'w aws =
  aws_DescribeVpcs :: "string list \<Rightarrow> 'w \<Rightarrow> (error + vpc list) \<times> 'w"
  aws_CreateVpc :: "string \<Rightarrow> tagSpecs \<Rightarrow> 'w \<Rightarrow> (error + vpc) \<times> 'w"
  aws_WaitUntilVpcExists :: "string \<Rightarrow> 'w \<Rightarrow> (error + unit) \<times> 'w"
  aws_DescribeSubnets :: "'w \<Rightarrow> (error + subnet list) \<times> 'w"
  aws_CreateSubnet :: "string \<Rightarrow> string \<Rightarrow> string \<Rightarrow> tagSpecs \<Rightarrow> 'w \<Rightarrow> (error + subnet) \<times> 'w"
  aws_DescribeAvailabilityZones :: "'w \<Rightarrow> (error + availabilityZone list) \<times> 'w"
  aws_DescribeInstanceTypeOfferings :: "string list \<Rightarrow> 'w \<Rightarrow> (error + string option list) \<times> 'w"
  aws_DescribeSecurityGroups :: "string option list \<Rightarrow> 'w \<Rightarrow> (error + securityGroup list) \<times> 'w"
  aws_CreateSecurityGroup :: "string \<Rightarrow> string \<Rightarrow> string option \<Rightarrow> tagSpecs \<Rightarrow> 'w \<Rightarrow> (error + string option) \<times> 'w"
  aws_DescribeRouteTables :: "string option option \<Rightarrow> 'w \<Rightarrow> (error + routeTable list) \<times> 'w"
  aws_DescribeVpcPeeringConnections :: "peering_filter \<Rightarrow> 'w \<Rightarrow> (error + vpcPeeringConnection list) \<times> 'w"
  aws_CreateVpcPeeringConnection :: "string option \<Rightarrow> string option \<Rightarrow> tagSpecs \<Rightarrow> 'w \<Rightarrow> (error + vpcPeeringConnection) \<times> 'w"
  aws_DescribeDBSubnetGroups :: "'w \<Rightarrow> (error + dbSubnetGroup list) \<times> 'w"
  aws_ListTagsForResource :: "string option \<Rightarrow> 'w \<Rightarrow> (error + awsTag list) \<times> 'w"
  aws_DescribeCacheSubnetGroups :: "'w \<Rightarrow> (error + cacheSubnetGroup list) \<times> 'w"
  aws_Exec :: "cloud_req \<Rightarrow> 'w \<Rightarrow> (error + unit) \<times> 'w"
  aws_polls :: nat
  aws_show_azs :: "availabilityZone list \<Rightarrow> string"
  aws_show_nets :: "ipnet list \<Rightarrow> string"
  aws_show_pointer :: "string option \<Rightarrow> string"

type_synonym ('w, 'a) aop = "('w, cloud_req, 'a) kop"

definition exec :: "'w aws \<Rightarrow> cloud_req \<Rightarrow> ('w, unit) aop" where
  "exec a req = request (aws_Exec a req) (\<lambda>r. EvCloud req (ok r))"

definition create :: "('w \<Rightarrow> (error + 'r) \<times> 'w) \<Rightarrow> cloud_req \<Rightarrow> ('w, 'r) aop" where
  "create f req = request f (\<lambda>r. EvCloud req (ok r))"

text \<open>A local effect between the requests.\<close>

definition observe :: "cloud_req \<Rightarrow> ('w, unit) aop" where
  "observe req = (\<lambda>s. (Val (), s\<lparr>trace := trace s @ [EvCloud req True]\<rparr>))"

text \<open>\<^verbatim>\<open>aws.StringValue\<close>.\<close>

definition StringValue :: "string option \<Rightarrow> string" where
  "StringValue p = (case p of None \<Rightarrow> '''' | Some s \<Rightarrow> s)"

lemma StringValue_simps [simp]: "StringValue None = ''''" "StringValue (Some s) = s"
  by (simp_all add: StringValue_def)

text \<open>The type assertion \<^verbatim>\<open>err.(awserr.Error)\<close> followed by \<^verbatim>\<open>Code()\<close>.\<close>

definition aws_code :: "error \<Rightarrow> string option" where
  "aws_code e = (case e of ErrAws c m \<Rightarrow> Some c | _ \<Rightarrow> None)"

section \<open>Tags and zones\<close>

definition ec2TagToGeneric :: "awsTag \<Rightarrow> tag" where
  "ec2TagToGeneric t = \<lparr>tag_Key = StringValue (at_Key t), tag_Value = StringValue (at_Value t)\<rparr>"

definition ec2TagListToGenericList :: "awsTag list \<Rightarrow> tag list" where
  "ec2TagListToGenericList ts = map ec2TagToGeneric ts"

definition rdsTagListToGenericList :: "awsTag list \<Rightarrow> tag list" where
  "rdsTagListToGenericList ts = map ec2TagToGeneric ts"

definition genericToEc2Tag :: "tag \<Rightarrow> awsTag" where
  "genericToEc2Tag t = \<lparr>at_Key = Some (tag_Key t), at_Value = Some (tag_Value t)\<rparr>"

definition genericListToEc2TagList :: "tag list \<Rightarrow> awsTag list" where
  "genericListToEc2TagList ts = map genericToEc2Tag ts"

definition genericToRdsTags :: "tag list \<Rightarrow> awsTag list" where
  "genericToRdsTags ts = map genericToEc2Tag ts"

definition genericListToElasticacheTagList :: "tag list \<Rightarrow> awsTag list" where
  "genericListToElasticacheTagList ts = map genericToEc2Tag ts"

lemma generic_ec2_roundtrip [simp]:
  "ec2TagToGeneric (genericToEc2Tag t) = t"
  "ec2TagListToGenericList (genericListToEc2TagList ts) = ts"
  by (simp_all add: ec2TagToGeneric_def genericToEc2Tag_def ec2TagListToGenericList_def genericListToEc2TagList_def comp_def map_idI)

text \<open>
  \<^verbatim>\<open>sort.Sort(azByZoneName(zones))\<close>: comparing reads the names, so a zone without a name panics when there
  is another zone. (\<^verbatim>\<open>sort.Sort\<close> is insertion sort up to twelve elements, hence stable for the zones of a
  region.)
\<close>

definition sort_azs :: "availabilityZone list \<Rightarrow> ('s, availabilityZone list) op" where
  "sort_azs zs = (if length zs \<ge> 2 \<and> (\<exists>z \<in> set zs. az_ZoneName z = None) then crash
                  else ret (sort_key (\<lambda>z. StringValue (az_ZoneName z)) zs))"

section \<open>Requests in the trace\<close>

lemma emits_exec:
  "emits (exec a req) (\<lambda>es r. (r = Val () \<and> es = [EvCloud req True]) \<or> (\<exists>e. r = Fail e \<and> es = [EvCloud req False]))"
  unfolding exec_def by (rule emits_weaken [OF emits_request]) auto

lemma emits_create:
  "emits (create f req) (\<lambda>es r. (\<exists>x. r = Val x \<and> es = [EvCloud req True]) \<or> (\<exists>e. r = Fail e \<and> es = [EvCloud req False]))"
  unfolding create_def by (rule emits_weaken [OF emits_request]) auto

lemma emits_observe: "emits (observe req) (\<lambda>es r. r = Val () \<and> es = [EvCloud req True])"
  by (simp add: emits_def observe_def)

lemma quiet_sort_azs [quiet_rules]: "quiet (sort_azs zs)"
  by (auto simp: sort_azs_def intro: quiet_rules)


section \<open>The first object with a name\<close>

text \<open>
  Several services are asked for everything and searched for the first object with a name; the name is
  read through a pointer, so a nameless object before it panics.
\<close>

locale named_lookup =
  fixes name_of :: "'x \<Rightarrow> string option" and lookup :: "string \<Rightarrow> 'x list \<Rightarrow> ('s, 'x option) op"
  assumes lookup_Nil: "lookup n [] = ret None"
    and lookup_Cons: "lookup n (x # xs) = andThen (deref (name_of x)) (\<lambda>m. if m = n then ret (Some x) else lookup n xs)"
begin

lemma lookup_find: "\<forall>x \<in> set xs. name_of x \<noteq> None \<Longrightarrow> lookup n xs = ret (find (\<lambda>x. name_of x = Some n) xs)"
  by (induction xs) (auto simp: lookup_Nil lookup_Cons)

lemma lookup_Some: "lookup n xs s = (Val (Some x), t) \<Longrightarrow> x \<in> set xs \<and> name_of x = Some n \<and> t = s"
  by (induction xs) (auto simp: lookup_Nil lookup_Cons op_simps deref_def split: option.splits if_splits)

lemma lookup_no_fail: "lookup n xs s \<noteq> (Fail e, t)"
  by (induction xs) (auto simp: lookup_Nil lookup_Cons op_simps deref_def split: option.splits if_splits)

end

end
