(* ===== verification/Cluster_VPC.thy ===== *)
theory Cluster_VPC
  imports AWS_API
begin

text \<open>
  The VPC of the cluster (\<^verbatim>\<open>pkg/providers/aws/cluster_vpc.go\<close>): finding it by the tags of its subnets, its
  subnets and security group, and the private subnets that the operator adds to it for resources that are
  bundled with the cluster.
\<close>

section \<open>Finding the cluster VPC\<close>

definition getOSDClusterTagKey :: "string \<Rightarrow> string" where
  "getOSDClusterTagKey clusterID = ''kubernetes.io/cluster/'' @ clusterID"

text \<open>The two loops of \<^verbatim>\<open>getVPCIDByClusterSubnets\<close>.\<close>

fun cluster_tagged :: "string \<Rightarrow> awsTag list \<Rightarrow> ('s, bool) op" where
  "cluster_tagged key [] = ret False"
| "cluster_tagged key (t # ts) =
     andThen (deref (at_Value t)) (\<lambda>v.
       if v = ''owned'' \<or> v = ''shared''
       then andThen (deref (at_Key t)) (\<lambda>ky. if ky = key then ret True else cluster_tagged key ts)
       else cluster_tagged key ts)"

fun first_cluster_subnet :: "string \<Rightarrow> subnet list \<Rightarrow> ('s, string) op" where
  "first_cluster_subnet clusterID [] =
     throw (ErrNew (''failed to get cluster vpc id, no vpc found with osd cluster tag: could not find cluster associated subnets with clusterID '' @ clusterID))"
| "first_cluster_subnet clusterID (sub # subs) =
     andThen (cluster_tagged (getOSDClusterTagKey clusterID) (sub_Tags sub)) (\<lambda>found.
       if found then deref (sub_VpcId sub) else first_cluster_subnet clusterID subs)"

definition getVPCIDByClusterSubnets :: "'w aws \<Rightarrow> string \<Rightarrow> ('w, string) aop" where
  "getVPCIDByClusterSubnets a clusterID = andThen (query (aws_DescribeSubnets a)) (first_cluster_subnet clusterID)"

definition getClusterVpc :: "'w kube \<Rightarrow> 'w aws \<Rightarrow> ('w, vpc) aop" where
  "getClusterVpc k a =
     andThen (wrapping ''error getting clusterID'' (GetClusterID k)) (\<lambda>clusterID.
     andThen (wrapping ''error getting vpc id from associated subnets'' (getVPCIDByClusterSubnets a clusterID)) (\<lambda>vpcId.
     andThen (wrapping (''error getting vpc with id '' @ vpcId) (query (aws_DescribeVpcs a [vpcId]))) (\<lambda>vpcs.
     case vpcs of
       [] \<Rightarrow> throw (ErrNew ''error, no vpc found'')
     | [v] \<Rightarrow> andThen (deref (vpc_VpcId v)) (\<lambda>_. ret v)
     | _ \<Rightarrow> throw (ErrNew ''error, more than one vpc found associated with cluster subnets''))))"

definition GetCidr :: "'w kube \<Rightarrow> 'w aws \<Rightarrow> ('w, string \<times> string) aop" where
  "GetCidr k a =
     andThen (wrapping ''error getting vpcs'' (getClusterVpc k a)) (\<lambda>v.
     andThen (deref (vpc_VpcId v)) (\<lambda>vpcId. andThen (deref (vpc_CidrBlock v)) (\<lambda>cidr. ret (vpcId, cidr))))"

section \<open>Subnets, zones and security groups\<close>

text \<open>
  \<^verbatim>\<open>getSubnets\<close> asks once and then every five seconds until it gets an answer or five minutes have passed;
  its own errors are swallowed.
\<close>

fun poll_subnets :: "'w aws \<Rightarrow> nat \<Rightarrow> ('w, subnet list) aop" where
  "poll_subnets a n = andThen (attempt (query (aws_DescribeSubnets a))) (\<lambda>r. case r of
     Inr subs \<Rightarrow> ret subs
   | Inl _ \<Rightarrow> (case n of 0 \<Rightarrow> throw (ErrNew ''context deadline exceeded'') | Suc m \<Rightarrow> poll_subnets a m))"

declare poll_subnets.simps [simp del]

definition getSubnets :: "'w aws \<Rightarrow> ('w, subnet list) aop" where
  "getSubnets a = poll_subnets a (aws_polls a)"

definition getAZs :: "'w aws \<Rightarrow> ('w, availabilityZone list) aop" where
  "getAZs a = wrapping ''error getting availability zones'' (query (aws_DescribeAvailabilityZones a))"

text \<open>The subnets whose VPC identifier is that of the VPC; both are read through pointers.\<close>

fun associated :: "vpc \<Rightarrow> subnet list \<Rightarrow> ('s, subnet list) op" where
  "associated v [] = ret []"
| "associated v (sub # subs) =
     andThen (deref (sub_VpcId sub)) (\<lambda>i. andThen (deref (vpc_VpcId v)) (\<lambda>j.
       if i = j then andThen (associated v subs) (\<lambda>rest. ret (sub # rest)) else associated v subs))"

text \<open>
  With a nil VPC the error that is returned is \<^verbatim>\<open>errors.Wrap(nil, ...)\<close>, which is nil: the result is an
  empty list and no error.
\<close>

definition GetVPCSubnets :: "'w aws \<Rightarrow> vpc option \<Rightarrow> ('w, subnet list) aop" where
  "GetVPCSubnets a vpc =
     andThen (wrapping ''error getting subnets'' (getSubnets a)) (\<lambda>subs. case vpc of
       None \<Rightarrow> ret []
     | Some v \<Rightarrow> andThen (associated v subs) (\<lambda>associatedSubs.
         if associatedSubs = [] then throw (ErrNew ''error, unable to find subnets associated with cluster vpc'')
         else ret associatedSubs))"

fun first_group :: "string \<Rightarrow> securityGroup list \<Rightarrow> ('s, securityGroup option) op" where
  "first_group secName [] = ret None"
| "first_group secName (sec # secs) =
     andThen (deref (sg_GroupName sec)) (\<lambda>name. if name = secName then ret (Some sec) else first_group secName secs)"

interpretation security_group: named_lookup sg_GroupName first_group
  by unfold_locales simp_all

definition getSecurityGroup :: "'w aws \<Rightarrow> string \<Rightarrow> ('w, securityGroup option) aop" where
  "getSecurityGroup a secName =
     andThen (wrapping ''failed to return information about security groups'' (query (aws_DescribeSecurityGroups a [])))
       (first_group secName)"

section \<open>The bundled security group\<close>

definition defaultSecurityGroupPostfix :: string where "defaultSecurityGroupPostfix = ''security-group''"

definition defaultSubnetPostfix :: string where "defaultSubnetPostfix = ''subnet-group''"

definition defaultAwsIdentifierLength :: int where "defaultAwsIdentifierLength = 40"

definition defaultSubnetGroupDesc :: string where
  "defaultSubnetGroupDesc = ''Subnet group created and managed by the Cloud Resource Operator''"

text \<open>The permission for all traffic from a block.\<close>

definition ingress_permission :: "string option \<Rightarrow> ipPermission" where
  "ingress_permission cidr = \<lparr>ipp_FromPort = None, ipp_ToPort = None, ipp_IpProtocol = Some ''-1'',
     ipp_IpRanges = Some [\<lparr>ipr_CidrIp = cidr, ipr_Description = None\<rparr>], ipp_Ipv6Ranges = None, ipp_PrefixListIds = None,
     ipp_UserIdGroupPairs = None\<rparr>"

definition configureSecurityGroup :: "'w kube \<Rightarrow> 'w aws \<Rightarrow> ('w, unit) aop" where
  "configureSecurityGroup k a =
     andThen (wrapping ''error getting cluster id'' (GetClusterID k)) (\<lambda>clusterID.
     andThen (wrapping ''error building subnet group name'' (BuildInfraName k defaultSecurityGroupPostfix defaultAwsIdentifierLength)) (\<lambda>secName.
     andThen (wrapping ''error finding cidr block'' (GetCidr k a)) (\<lambda>(vpcID, cidr).
     andThen (wrapping ''error get security group'' (getSecurityGroup a secName)) (\<lambda>foundSecGroup. case foundSecGroup of
       None \<Rightarrow>
         wrapping ''error creating security group''
           (andThen (create (aws_CreateSecurityGroup a (''security group for cluster '' @ clusterID) secName (Some vpcID) [])
              (ReqCreateSecurityGroup (''security group for cluster '' @ clusterID) secName (Some vpcID) [])) (\<lambda>_. ret ()))
     | Some sg \<Rightarrow>
         andThen (deref (sg_GroupId sg)) (\<lambda>groupId.
         let ipPermission = ingress_permission (Some cidr) in
         if ipPermission \<in> set (sg_IpPermissions sg) then andThen (deref (sg_GroupName sg)) (\<lambda>_. ret ())
         else andThen (deref (sg_GroupName sg)) (\<lambda>_.
           wrapping ''error authorizing security group ingress'' (exec a (ReqAuthorizeSecurityGroupIngress groupId ipPermission))))))))"

section \<open>Private subnets of the cluster VPC\<close>

definition defaultAWSPrivateSubnetTagKey :: string where
  "defaultAWSPrivateSubnetTagKey = ''kubernetes.io/role/internal-elb''"

definition defaultSubnetNameTagValue :: string where "defaultSubnetNameTagValue = ''Cloud Resource Subnet''"

definition getDefaultSubnetTags :: "'w kube \<Rightarrow> ('w, awsTag list) aop" where
  "getDefaultSubnetTags k =
     andThen (wrapping ''error getting clusterID'' (GetClusterID k)) (\<lambda>clusterID.
     let tags = [\<lparr>tag_Key = defaultAWSPrivateSubnetTagKey, tag_Value = ''1''\<rparr>,
                 \<lparr>tag_Key = GetOrganizationTag (kube_env k) @ ''clusterID'', tag_Value = clusterID\<rparr>,
                 \<lparr>tag_Key = TagDisplayName, tag_Value = defaultSubnetNameTagValue\<rparr>, BuildManagedTag]
     in andThen (wrapping ''Failed to get user infrastructure tags'' (GetUserInfraTags k)) (\<lambda>infraTags.
          ret (genericListToEc2TagList (if infraTags \<noteq> [] then MergeTags tags infraTags else tags))))"

definition tagPrivateSubnet :: "'w kube \<Rightarrow> 'w aws \<Rightarrow> subnet \<Rightarrow> ('w, unit) aop" where
  "tagPrivateSubnet k a sub =
     andThen (deref (sub_SubnetId sub)) (\<lambda>subnetId.
     andThen (getDefaultSubnetTags k) (\<lambda>tags.
       wrapping ''failed to tag subnet'' (exec a (ReqCreateTags (Some subnetId) tags))))"

fun privateSubnetExists :: "subnet list \<Rightarrow> availabilityZone \<Rightarrow> ('s, bool) op" where
  "privateSubnetExists [] zone = ret False"
| "privateSubnetExists (sub # subs) zone =
     andThen (deref (sub_AvailabilityZone sub)) (\<lambda>z. andThen (deref (az_ZoneName zone)) (\<lambda>n.
       if z = n then andThen (deref (az_State zone)) (\<lambda>st. if st = ''available'' then ret True else privateSubnetExists subs zone)
       else privateSubnetExists subs zone))"

text \<open>The loop of \<^verbatim>\<open>createPrivateSubnet\<close> over the potential blocks: a conflict tries the next one.\<close>

fun try_subnets :: "'w kube \<Rightarrow> 'w aws \<Rightarrow> string \<Rightarrow> string \<Rightarrow> ipnet list \<Rightarrow> ('w, subnet) aop" where
  "try_subnets k a vpcId zone [] = throw (ErrNew ''failed to create subnet'')"
| "try_subnets k a vpcId zone (ip # ips) =
     andThen (attempt (create (aws_CreateSubnet a zone (net_String ip) vpcId []) (ReqCreateSubnet zone (net_String ip) vpcId []))) (\<lambda>r.
     case r of
       Inl err \<Rightarrow> (if aws_code err = Some ''InvalidSubnet.Conflict'' then try_subnets k a vpcId zone ips
                   else throw (ErrWrap err ''error creating new subnet''))
     | Inr sub \<Rightarrow> andThen (tagPrivateSubnet k a sub) (\<lambda>_. ret sub))"

definition createPrivateSubnet :: "'w kube \<Rightarrow> 'w aws \<Rightarrow> vpc \<Rightarrow> string \<Rightarrow> ('w, subnet) aop" where
  "createPrivateSubnet k a v zone =
     andThen (deref (vpc_VpcId v)) (\<lambda>vpcId.
     andThen (wrapping ''failed to build subnets'' (lift (buildSubnetAddress (vpc_CidrBlock v)))) (\<lambda>subs.
       try_subnets k a vpcId zone subs))"

text \<open>The subnets with the private tag, once for every such tag.\<close>

fun private_tags :: "awsTag list \<Rightarrow> subnet \<Rightarrow> ('s, subnet list) op" where
  "private_tags [] sub = ret []"
| "private_tags (t # ts) sub = andThen (deref (at_Key t)) (\<lambda>ky. andThen (private_tags ts sub) (\<lambda>rest.
     ret (if ky = defaultAWSPrivateSubnetTagKey then sub # rest else rest)))"

definition ensure_zone :: "'w kube \<Rightarrow> 'w aws \<Rightarrow> vpc \<Rightarrow> subnet list \<Rightarrow> availabilityZone \<Rightarrow> ('w, subnet list) aop" where
  "ensure_zone k a v privSubs az =
     andThen (deref (az_ZoneName az)) (\<lambda>zoneName.
     andThen (privateSubnetExists privSubs az) (\<lambda>found.
       if found then ret privSubs
       else andThen (wrapping ''failed to created private subnet'' (createPrivateSubnet k a v zoneName)) (\<lambda>sub. ret (privSubs @ [sub]))))"

definition GetPrivateSubnetIDS :: "'w kube \<Rightarrow> 'w aws \<Rightarrow> ('w, string option list) aop" where
  "GetPrivateSubnetIDS k a =
     andThen (wrapping ''error getting vpcs'' (getClusterVpc k a)) (\<lambda>foundVPC.
     andThen (wrapping ''error getting vpc subnets'' (GetVPCSubnets a (Some foundVPC))) (\<lambda>subs.
     andThen (wrapping ''error getting availability zones'' (getAZs a)) (\<lambda>azs.
     andThen (for_fold (\<lambda>acc sub. andThen (private_tags (sub_Tags sub) sub) (\<lambda>xs. ret (acc @ xs))) [] subs) (\<lambda>privSubs.
     andThen (for_fold (ensure_zone k a foundVPC) privSubs azs) (\<lambda>privSubs.
       if privSubs = [] then throw (ErrNew ''failed to get list of private subnet ids'')
       else ret (map sub_SubnetId privSubs))))))"

end
