(* ===== verification/AWS_Network.thy ===== *)
theory AWS_Network
  imports Cluster_VPC
begin

text \<open>
  The standalone network of the cloud resources (\<^verbatim>\<open>pkg/providers/aws/cluster_network_provider.go\<close>): a VPC of
  its own with two private subnets, subnet groups, a security group, and a peering with routes to the
  cluster VPC; and the bundled resources it replaces.
\<close>

section \<open>Provider, networks and tags\<close>

record 'w NetworkProvider =
  np_Client :: "'w kube"
  np_Api :: "'w aws"
  np_IsSTSCluster :: bool

record Network =
  nw_Vpc :: "vpc option"
  nw_Subnets :: "subnet list"

record NetworkAZSubnet =
  nas_IP :: ipnet
  nas_AZ :: availabilityZone

record NetworkPeering =
  np_PeeringConnection :: "vpcPeeringConnection option"

record NetworkConnection =
  nc_StandaloneSecurityGroup :: securityGroup

text \<open>The values of the name tags.\<close>

definition defaultRouteTableNameTagValue :: string where "defaultRouteTableNameTagValue = ''Cloud Resource Route Table''"

definition defaultSecurityGroupNameTagValue :: string where "defaultSecurityGroupNameTagValue = ''Cloud Resource Security Group''"

definition defaultVpcNameTagValue :: string where "defaultVpcNameTagValue = ''Cloud Resource VPC''"

definition defaultVpcPeeringConnectionNameTagValue :: string where
  "defaultVpcPeeringConnectionNameTagValue = ''Cloud Resource VPC Peering Connection''"

definition display_tag :: "string \<Rightarrow> tag" where
  "display_tag v = \<lparr>tag_Key = TagDisplayName, tag_Value = v\<rparr>"

definition getCloudResourceOperatorOwnerTag :: "'w kube \<Rightarrow> ('w, tag) aop" where
  "getCloudResourceOperatorOwnerTag k =
     andThen (wrapping ''error getting clusterID'' (GetClusterID k)) (\<lambda>clusterID.
       ret (ec2TagToGeneric \<lparr>at_Key = Some (GetOrganizationTag (kube_env k) @ ''clusterID''), at_Value = Some clusterID\<rparr>))"

definition getDefaultNetworkTags :: "'w kube \<Rightarrow> tag option \<Rightarrow> ('w, tag list) aop" where
  "getDefaultNetworkTags k customTag =
     andThen (wrapping ''failed to build default tags'' (getCloudResourceOperatorOwnerTag k)) (\<lambda>croTag.
     let tags = [croTag, BuildManagedTag] @ (case customTag of None \<Rightarrow> [] | Some t \<Rightarrow> [t])
     in andThen (wrapping ''Failed to get user infrastructure tags'' (GetUserInfraTags k)) (\<lambda>infraTags.
          ret (if infraTags \<noteq> [] then MergeTags tags infraTags else tags)))"

definition getDefaultTagSpec :: "'w kube \<Rightarrow> tag \<Rightarrow> string \<Rightarrow> ('w, tagSpecs) aop" where
  "getDefaultTagSpec k customTag resourceType =
     andThen (getDefaultNetworkTags k (Some customTag)) (\<lambda>tags. ret [(resourceType, genericListToEc2TagList tags)])"

text \<open>Tag a resource that lacks one of the expected tags; the message wraps an error of the request.\<close>

definition ensure_tags :: "'w aws \<Rightarrow> string \<Rightarrow> string option \<Rightarrow> tag list \<Rightarrow> awsTag list \<Rightarrow> ('w, unit) aop" where
  "ensure_tags a msg resource expected actual =
     (if TagsContainsAll expected (ec2TagListToGenericList actual) then ret ()
      else wrapping msg (exec a (ReqCreateTags resource (genericListToEc2TagList expected))))"

section \<open>Finding what exists\<close>

text \<open>
  \<^verbatim>\<open>getStandaloneVpc\<close> runs through all tags of all VPCs and keeps the last VPC with the owner tag; the
  log message reads its identifier.
\<close>

fun owner_tagged :: "tag \<Rightarrow> vpc \<Rightarrow> vpc option \<Rightarrow> awsTag list \<Rightarrow> ('s, vpc option) op" where
  "owner_tagged owner v found [] = ret found"
| "owner_tagged owner v found (t # ts) =
     andThen (deref (at_Key t)) (\<lambda>ky.
       if ky = tag_Key owner
       then andThen (deref (at_Value t)) (\<lambda>vl.
         if vl = tag_Value owner then andThen (deref (vpc_VpcId v)) (\<lambda>_. owner_tagged owner v (Some v) ts)
         else owner_tagged owner v found ts)
       else owner_tagged owner v found ts)"

definition getStandaloneVpc :: "'w kube \<Rightarrow> 'w aws \<Rightarrow> ('w, vpc option) aop" where
  "getStandaloneVpc k a =
     andThen (wrapping ''error getting vpcs'' (query (aws_DescribeVpcs a []))) (\<lambda>vpcs.
     andThen (wrapping ''failed to build cro owner tag'' (getCloudResourceOperatorOwnerTag k)) (\<lambda>croOwnerTag.
       for_fold (\<lambda>found v. owner_tagged croOwnerTag v found (vpc_Tags v)) None vpcs))"

text \<open>Unlike \<open>associated\<close>, the log message reads the identifier of every subnet found.\<close>

fun associated_logged :: "vpc \<Rightarrow> subnet list \<Rightarrow> ('s, subnet list) op" where
  "associated_logged v [] = ret []"
| "associated_logged v (sub # subs) =
     andThen (deref (sub_VpcId sub)) (\<lambda>i. andThen (deref (vpc_VpcId v)) (\<lambda>j.
       if i = j then andThen (deref (sub_SubnetId sub)) (\<lambda>_. andThen (associated_logged v subs) (\<lambda>rest. ret (sub # rest)))
       else associated_logged v subs))"

definition getVPCAssociatedSubnets :: "'w aws \<Rightarrow> vpc option \<Rightarrow> ('w, subnet list) aop" where
  "getVPCAssociatedSubnets a vpc =
     andThen (wrapping ''error getting subnets'' (getSubnets a)) (\<lambda>subs. case vpc of
       None \<Rightarrow> ret []
     | Some v \<Rightarrow> associated_logged v subs)"

fun first_db_group :: "string \<Rightarrow> dbSubnetGroup list \<Rightarrow> ('s, dbSubnetGroup option) op" where
  "first_db_group name [] = ret None"
| "first_db_group name (g # gs) =
     andThen (deref (dsg_DBSubnetGroupName g)) (\<lambda>n. if n = name then ret (Some g) else first_db_group name gs)"

interpretation db_group: named_lookup dsg_DBSubnetGroupName first_db_group
  by unfold_locales simp_all

definition getRDSSubnetGroup :: "'w aws \<Rightarrow> string \<Rightarrow> ('w, dbSubnetGroup option) aop" where
  "getRDSSubnetGroup a subnetGroupName =
     andThen (wrapping ''error describing subnet groups'' (query (aws_DescribeDBSubnetGroups a))) (first_db_group subnetGroupName)"

fun first_cache_group :: "string \<Rightarrow> cacheSubnetGroup list \<Rightarrow> ('s, cacheSubnetGroup option) op" where
  "first_cache_group name [] = ret None"
| "first_cache_group name (g # gs) =
     andThen (deref (csg_CacheSubnetGroupName g)) (\<lambda>n. if n = name then ret (Some g) else first_cache_group name gs)"

interpretation cache_group: named_lookup csg_CacheSubnetGroupName first_cache_group
  by unfold_locales simp_all

definition getElasticacheSubnetByGroup :: "'w aws \<Rightarrow> string \<Rightarrow> ('w, cacheSubnetGroup option) aop" where
  "getElasticacheSubnetByGroup a subnetGroupName =
     andThen (wrapping ''error describing subnet groups'' (query (aws_DescribeCacheSubnetGroups a))) (first_cache_group subnetGroupName)"

fun subnetExists :: "subnet list \<Rightarrow> string \<Rightarrow> ('s, bool) op" where
  "subnetExists [] cidr = ret False"
| "subnetExists (sub # subs) cidr =
     andThen (deref (sub_CidrBlock sub)) (\<lambda>c. if c = cidr then ret True else subnetExists subs cidr)"

definition routeExists :: "route list \<Rightarrow> route \<Rightarrow> bool" where
  "routeExists routes checkRoute \<longleftrightarrow> (\<exists>r \<in> set routes.
     route_DestinationCidrBlock r \<noteq> None \<and> route_VpcPeeringConnectionId r \<noteq> None \<and>
     StringValue (route_DestinationCidrBlock r) = StringValue (route_DestinationCidrBlock checkRoute) \<and>
     StringValue (route_VpcPeeringConnectionId r) = StringValue (route_VpcPeeringConnectionId checkRoute))"

definition contains :: "string option list \<Rightarrow> string option \<Rightarrow> bool" where
  "contains strs str \<longleftrightarrow> (\<exists>s \<in> set strs. StringValue str = StringValue s)"

text \<open>The route tables of the cluster VPC, and those with the owner tag.\<close>

fun vpc_route_tables :: "vpc \<Rightarrow> routeTable list \<Rightarrow> ('s, routeTable list) op" where
  "vpc_route_tables v [] = ret []"
| "vpc_route_tables v (t # ts) =
     andThen (deref (rtb_VpcId t)) (\<lambda>i. andThen (deref (vpc_VpcId v)) (\<lambda>j.
       andThen (vpc_route_tables v ts) (\<lambda>rest. ret (if i = j then t # rest else rest))))"

definition getClusterRouteTables :: "'w kube \<Rightarrow> 'w aws \<Rightarrow> ('w, routeTable list) aop" where
  "getClusterRouteTables k a =
     andThen (wrapping ''failed to get route tables'' (query (aws_DescribeRouteTables a None))) (\<lambda>routeTables.
     andThen (wrapping ''failed to get cluster vpc'' (getClusterVpc k a)) (\<lambda>clusterVPC.
     andThen (vpc_route_tables clusterVPC routeTables) (\<lambda>found.
       if found = [] then throw (ErrNew (''could not find any route table with the associated vpc id '' @ StringValue (vpc_VpcId clusterVPC)))
       else ret found)))"

definition getCRORouteTables :: "'w kube \<Rightarrow> 'w aws \<Rightarrow> ('w, routeTable list) aop" where
  "getCRORouteTables k a =
     andThen (wrapping ''error generating cloud resource owner tag'' (getCloudResourceOperatorOwnerTag k)) (\<lambda>croOwnerTag.
     andThen (wrapping ''failed to get route tables'' (query (aws_DescribeRouteTables a None))) (\<lambda>routeTables.
       let found = filter (\<lambda>t. TagsContains (ec2TagListToGenericList (rtb_Tags t)) (tag_Key croOwnerTag) (tag_Value croOwnerTag)) routeTables
       in if found = [] then throw (ErrNew (''could not find any route table with the tag key: '' @ tag_Key croOwnerTag @ '' and value: '' @ tag_Value croOwnerTag))
          else ret found))"

text \<open>The first peering connection that is neither deleted nor being deleted.\<close>

fun first_live_peering :: "vpcPeeringConnection list \<Rightarrow> ('s, vpcPeeringConnection option) op" where
  "first_live_peering [] = ret None"
| "first_live_peering (pc # pcs) =
     andThen (deref (pc_Status pc)) (\<lambda>st.
       if StringValue (ps_Code st) \<notin> {''deleted'', ''deleting''} then ret (Some pc) else first_live_peering pcs)"

definition getNetworkPeering :: "'w kube \<Rightarrow> 'w aws \<Rightarrow> Network \<Rightarrow> ('w, vpcPeeringConnection option) aop" where
  "getNetworkPeering k a network =
     andThen (wrapping ''failed to get cluster vpc'' (getClusterVpc k a)) (\<lambda>clusterVpc.
     andThen (deref (nw_Vpc network)) (\<lambda>v.
     andThen (wrapping ''failed to describe peering connections''
         (query (aws_DescribeVpcPeeringConnections a (ByVpcs (vpc_VpcId v) (vpc_VpcId clusterVpc)))))
       first_live_peering))"


section \<open>The parts of the standalone VPC\<close>

definition reconcileStandaloneRouteTableTags :: "'w NetworkProvider \<Rightarrow> vpc \<Rightarrow> ('w, unit) aop" where
  "reconcileStandaloneRouteTableTags n v =
     andThen (wrapping ''unexpected error on getting route tables'' (query (aws_DescribeRouteTables (np_Api n) (Some (vpc_VpcId v))))) (\<lambda>routeTables.
     if routeTables = [] then throw (ErrNew (''did not find any route associated with vpc %'' @ aws_show_pointer (np_Api n) (vpc_VpcId v)))
     else andThen (wrapping ''failed to get default tags for route table''
            (getDefaultNetworkTags (np_Client n) (Some (display_tag defaultRouteTableNameTagValue)))) (\<lambda>defaultTags.
       for_each (\<lambda>t.
         if TagsContainsAll defaultTags (ec2TagListToGenericList (rtb_Tags t)) then ret ()
         else andThen (deref (rtb_RouteTableId t)) (\<lambda>i.
           wrapping ''unable to tag route table'' (exec (np_Api n) (ReqCreateTags (Some i) (genericListToEc2TagList defaultTags))))) routeTables))"

definition reconcileVPCTags :: "'w NetworkProvider \<Rightarrow> vpc \<Rightarrow> ('w, unit) aop" where
  "reconcileVPCTags n v =
     andThen (wrapping ''failed to get default tags for vpc''
       (getDefaultNetworkTags (np_Client n) (Some (display_tag defaultVpcNameTagValue)))) (\<lambda>defaultTags.
     if TagsContainsAll defaultTags (ec2TagListToGenericList (vpc_Tags v)) then ret ()
     else andThen (deref (vpc_VpcId v)) (\<lambda>vpcId.
       andThen (attempt (exec (np_Api n) (ReqCreateTags (Some vpcId) (genericListToEc2TagList defaultTags)))) (\<lambda>r.
       andThen (deref (vpc_State v)) (\<lambda>st. case r of
         Inl err \<Rightarrow> throw (ErrWrap err (''unable to tag vpc '' @ vpcId @ '' with state '' @ st))
       | Inr _ \<Rightarrow> ret ()))))"

text \<open>
  The two halves of the VPC block. The second parse cannot be reached with a text that does not parse, but
  it is written as in the code.
\<close>

definition half_subnets :: "'w aws \<Rightarrow> vpc \<Rightarrow> ('s, ipnet list) op" where
  "half_subnets a v =
     andThen (deref (vpc_CidrBlock v)) (\<lambda>block.
     if block = '''' then throw (ErrNew ''standalone vpc cidr block can't be empty'')
     else andThen (wrapping (''failed to parse vpc cidr block '' @ block) (lift_sum (ParseCIDR block))) (\<lambda>(_, awsCIDR).
       let maskSize = mask_Size (net_Mask awsCIDR) in
       if maskSize \<ge> defaultSubnetMask
       then throw (ErrNew (''vpc cidr block '' @ block @ '' cannot contain generated subnet mask /'' @ itoa_nat defaultSubnetMask))
       else let halfMaskStr = ip_String (net_IP awsCIDR) @ ''/'' @ itoa_nat (maskSize + 1) in
         andThen (wrapping (''failed to parse half mask cidr block '' @ halfMaskStr) (lift_sum (ParseCIDR halfMaskStr))) (\<lambda>(_, halfMaskCidr).
         andThen (lift (generateAvailableSubnets awsCIDR halfMaskCidr)) (\<lambda>validSubnets.
           if length validSubnets \<noteq> defaultNumberOfExpectedSubnets
           then throw (ErrNew (''expected at least two subnet ranges, found '' @ aws_show_nets a validSubnets))
           else ret validSubnets))))"

definition supported_zones :: "availabilityZone list \<Rightarrow> string option list \<Rightarrow> availabilityZone list" where
  "supported_zones azs locations = filter (\<lambda>az. \<exists>l \<in> set locations. StringValue l = StringValue (az_ZoneName az)) azs"

text \<open>The first two zones, by name, that offer the default instance types.\<close>

definition valid_zones :: "'w aws \<Rightarrow> ('w, availabilityZone list) aop" where
  "valid_zones a =
     andThen (wrapping ''error getting availability zones'' (query (aws_DescribeAvailabilityZones a))) (\<lambda>azs.
     andThen (wrapping ''failed to list '' (query (aws_DescribeInstanceTypeOfferings a [''t3.micro'', ''t3.small'']))) (\<lambda>locations.
     andThen (sort_azs (supported_zones azs locations)) (\<lambda>supportedAzs.
       let validAzs = take 2 supportedAzs in
       if length validAzs \<noteq> defaultNumberOfExpectedSubnets
       then throw (ErrNew (''expected 2 availability zones, found '' @ aws_show_azs a validAzs))
       else ret validAzs)))"

definition expected_subnets :: "ipnet list \<Rightarrow> availabilityZone list \<Rightarrow> NetworkAZSubnet list" where
  "expected_subnets validSubnets validAzs = map (\<lambda>(ip, az). \<lparr>nas_IP = ip, nas_AZ = az\<rparr>) (zip validSubnets validAzs)"

text \<open>Create the expected subnet unless one with its block exists.\<close>

definition ensure_subnet :: "'w NetworkProvider \<Rightarrow> vpc \<Rightarrow> tagSpecs \<Rightarrow> subnet list \<Rightarrow> NetworkAZSubnet \<Rightarrow> ('w, subnet list) aop" where
  "ensure_subnet n v tagSpec subs expected =
     (let a = np_Api n; cidr = net_String (nas_IP expected) in
      andThen (subnetExists subs cidr) (\<lambda>found.
      if found then ret subs
      else andThen (deref (vpc_VpcId v)) (\<lambda>vpcId. andThen (deref (az_ZoneName (nas_AZ expected))) (\<lambda>zoneName.
        andThen (wrapping ''error creating new subnet''
          (create (aws_CreateSubnet a zoneName cidr vpcId tagSpec) (ReqCreateSubnet zoneName cidr vpcId tagSpec))) (\<lambda>sub.
        andThen (if np_IsSTSCluster n then ret () else tagPrivateSubnet (np_Client n) a sub) (\<lambda>_.
          ret (subs @ [sub])))))))"

definition ensure_subnet_tags :: "'w NetworkProvider \<Rightarrow> subnet list \<Rightarrow> ('w, unit) aop" where
  "ensure_subnet_tags n subs =
     andThen (wrapping ''failed to get default tags for subnet'' (getDefaultSubnetTags (np_Client n))) (\<lambda>subnetTags.
       for_each (\<lambda>sub. andThen (deref (sub_SubnetId sub)) (\<lambda>_.
         if TagsContainsAll (ec2TagListToGenericList subnetTags) (ec2TagListToGenericList (sub_Tags sub)) then ret ()
         else wrapping ''failed to tag subnet'' (tagPrivateSubnet (np_Client n) (np_Api n) sub))) subs)"

definition reconcileStandaloneVPCSubnets :: "'w NetworkProvider \<Rightarrow> vpc \<Rightarrow> ('w, subnet list) aop" where
  "reconcileStandaloneVPCSubnets n v =
     andThen (half_subnets (np_Api n) v) (\<lambda>validSubnets.
     andThen (valid_zones (np_Api n)) (\<lambda>validAzs.
     andThen (wrapping ''error getting vpc subnets'' (getVPCAssociatedSubnets (np_Api n) (Some v))) (\<lambda>subs.
     andThen (if np_IsSTSCluster n
              then andThen (wrapping ''failed to get default tags for subnet'' (getDefaultSubnetTags (np_Client n)))
                     (\<lambda>subnetTags. ret [(''subnet'', subnetTags)])
              else ret []) (\<lambda>tagSpec.
     andThen (for_fold (ensure_subnet n v tagSpec) subs (expected_subnets validSubnets validAzs)) (\<lambda>subs.
     andThen (if np_IsSTSCluster n then ret () else ensure_subnet_tags n subs) (\<lambda>_. ret subs))))))"

text \<open>Every subnet of the group is one of the given subnets.\<close>

definition group_matches :: "string option list \<Rightarrow> string option list \<Rightarrow> bool" where
  "group_matches subnetIds groupSubnets \<longleftrightarrow> (\<forall>s \<in> set groupSubnets. contains subnetIds s)"

definition updateRdsSubnetGroupTags :: "'w NetworkProvider \<Rightarrow> dbSubnetGroup \<Rightarrow> awsTag list \<Rightarrow> ('w, unit) aop" where
  "updateRdsSubnetGroupTags n g rdsTags =
     andThen (wrapping ''error updating db subnet group tags''
       (exec (np_Api n) (ReqRemoveTagsFromResource (dsg_DBSubnetGroupArn g) (map at_Key rdsTags)))) (\<lambda>_.
       wrapping ''error updating db subnet group tags'' (exec (np_Api n) (ReqAddTagsToResource (dsg_DBSubnetGroupArn g) rdsTags)))"

text \<open>An RDS subnet group that exists: its subnets and description, then its tags.\<close>

definition verify_rds_group :: "'w NetworkProvider \<Rightarrow> string option list \<Rightarrow> tag list \<Rightarrow> dbSubnetGroup \<Rightarrow> ('w, unit) aop" where
  "verify_rds_group n subnetIds defaultTags g =
     andThen (deref (dsg_DBSubnetGroupName g)) (\<lambda>_.
     andThen (if \<not> group_matches subnetIds (dsg_SubnetIdentifiers g) \<or> StringValue (dsg_DBSubnetGroupDescription g) \<noteq> defaultSubnetGroupDesc
              then wrapping ''error updating db subnet group description''
                (exec (np_Api n) (ReqModifyDBSubnetGroup defaultSubnetGroupDesc (dsg_DBSubnetGroupName g) subnetIds))
              else ret ()) (\<lambda>_.
     if np_IsSTSCluster n then ret ()
     else andThen (wrapping ''error getting subnet group tags'' (query (aws_ListTagsForResource (np_Api n) (dsg_DBSubnetGroupArn g)))) (\<lambda>tags.
       if TagsContainsAll defaultTags (rdsTagListToGenericList tags) then ret ()
       else wrapping ''error updating subnet group tags'' (updateRdsSubnetGroupTags n g (genericToRdsTags defaultTags)))))"

definition reconcileRDSVpcConfiguration :: "'w NetworkProvider \<Rightarrow> subnet list \<Rightarrow> ('w, unit) aop" where
  "reconcileRDSVpcConfiguration n privateVPCSubnets =
     andThen (wrapping ''error building subnet group name'' (BuildInfraName (np_Client n) defaultSubnetPostfix defaultAwsIdentifierLength)) (\<lambda>subnetGroupName.
     if privateVPCSubnets = [] then throw (ErrNew ''no private subnets found, can not create subnet group for rds'')
     else andThen (wrapping ''failed to get default tags for rds subnet group'' (getDefaultNetworkTags (np_Client n) None)) (\<lambda>defaultTags.
       andThen (wrapping ''failed getting rds subnet group'' (getRDSSubnetGroup (np_Api n) subnetGroupName)) (\<lambda>foundSubnetGroup.
       let subnetIds = map sub_SubnetId privateVPCSubnets in
       case foundSubnetGroup of
         Some g \<Rightarrow> verify_rds_group n subnetIds defaultTags g
       | None \<Rightarrow> wrapping ''unable to create db subnet group''
           (exec (np_Api n) (ReqCreateDBSubnetGroup defaultSubnetGroupDesc subnetGroupName subnetIds (genericToRdsTags defaultTags))))))"

definition verify_cache_group :: "'w NetworkProvider \<Rightarrow> string option list \<Rightarrow> cacheSubnetGroup \<Rightarrow> ('w, unit) aop" where
  "verify_cache_group n subnetIDs g =
     andThen (deref (csg_CacheSubnetGroupName g)) (\<lambda>_.
       if \<not> group_matches subnetIDs (csg_SubnetIdentifiers g) \<or> StringValue (csg_CacheSubnetGroupDescription g) \<noteq> defaultSubnetGroupDesc
       then wrapping ''error updating elasticache subnet group description''
         (exec (np_Api n) (ReqModifyCacheSubnetGroup defaultSubnetGroupDesc (csg_CacheSubnetGroupName g) subnetIDs))
       else ret ())"

definition reconcileElasticacheVPCConfiguration :: "'w NetworkProvider \<Rightarrow> subnet list \<Rightarrow> ('w, unit) aop" where
  "reconcileElasticacheVPCConfiguration n privateVPCSubnets =
     andThen (wrapping ''error building subnet group name'' (BuildInfraName (np_Client n) defaultSubnetPostfix defaultAwsIdentifierLength)) (\<lambda>subnetGroupName.
     andThen (wrapping ''error getting elasticache subnet group on reconcile'' (getElasticacheSubnetByGroup (np_Api n) subnetGroupName)) (\<lambda>foundSubnetGroup.
     let subnetIDs = map sub_SubnetId privateVPCSubnets in
     case foundSubnetGroup of
       Some g \<Rightarrow> verify_cache_group n subnetIDs g
     | None \<Rightarrow>
         if privateVPCSubnets = [] then throw (ErrNew ''no private subnets found, can not create subnet group for rds'')
         else andThen (wrapping ''failed to get default tags for elasticache subnet group'' (getDefaultNetworkTags (np_Client n) None)) (\<lambda>defaultTags.
           wrapping ''unable to create cache subnet group''
             (exec (np_Api n) (ReqCreateCacheSubnetGroup defaultSubnetGroupDesc subnetGroupName subnetIDs (genericListToElasticacheTagList defaultTags))))))"

section \<open>Creating and deleting the network\<close>

text \<open>
  The creation of a VPC. The block is validated against the cluster VPC first; a VPC that does not appear
  is deleted again and the network that is returned is empty.
\<close>

definition await_vpc :: "'w aws \<Rightarrow> vpc \<Rightarrow> ('w, Network) aop" where
  "await_vpc a v =
     andThen (deref (vpc_VpcId v)) (\<lambda>vpcId.
     andThen (attempt (query (aws_WaitUntilVpcExists a vpcId))) (\<lambda>r.
     andThen (deref (vpc_State v)) (\<lambda>_. case r of
       Inl _ \<Rightarrow> andThen (attempt (exec a (ReqDeleteVpc vpcId))) (\<lambda>_. ret \<lparr>nw_Vpc = None, nw_Subnets = []\<rparr>)
     | Inr _ \<Rightarrow> andThen (observe ReqResetVpcAction) (\<lambda>_. ret \<lparr>nw_Vpc = Some v, nw_Subnets = []\<rparr>))))"

definition create_vpc_error :: "ipnet \<Rightarrow> error \<Rightarrow> ('w, 'a) aop" where
  "create_vpc_error vpcCidrBlock err = (case aws_code err of
     None \<Rightarrow> throw (ErrWrap err ''unexpected error creating vpc'')
   | Some code \<Rightarrow> andThen (observe (ReqSetVpcAction ''create'' ''failed'' code)) (\<lambda>_.
       if code = ''InvalidVpcRange''
       then throw (ErrNew (net_String vpcCidrBlock @ '' is out of range, block sizes must be between `/16` and `/26`, please update `_network` strategy''))
       else if code = ''VpcLimitExceeded'' then throw (ErrNew ''cannot create vpc - vpc limit exceeded'')
       else throw (ErrWrap err ''unexpected error creating vpc'')))"

definition create_standalone_vpc :: "'w NetworkProvider \<Rightarrow> ipnet \<Rightarrow> ('w, Network) aop" where
  "create_standalone_vpc n vpcCidrBlock =
     andThen (wrapping ''failed to get cluster vpc'' (getClusterVpc (np_Client n) (np_Api n))) (\<lambda>clusterVPC.
     andThen (deref (vpc_CidrBlock clusterVPC)) (\<lambda>block.
     andThen (wrapping ''failed to parse cluster vpc cidr block'' (lift_sum (ParseCIDR block))) (\<lambda>(_, clusterVPCCidr).
     case validateStandaloneCidrBlock vpcCidrBlock clusterVPCCidr of
       Some err \<Rightarrow> throw (ErrWrap err ''vpc validation failure'')
     | None \<Rightarrow>
         andThen (wrapping ''failed to get default tag spec'' (getDefaultTagSpec (np_Client n) (display_tag defaultVpcNameTagValue) ''vpc'')) (\<lambda>tagSpec.
         andThen (attempt (create (aws_CreateVpc (np_Api n) (net_String vpcCidrBlock) tagSpec) (ReqCreateVpc (net_String vpcCidrBlock) tagSpec))) (\<lambda>r.
         case r of
           Inl err \<Rightarrow> create_vpc_error vpcCidrBlock err
         | Inr v \<Rightarrow> await_vpc (np_Api n) v)))))"

definition reconcile_standalone_vpc :: "'w NetworkProvider \<Rightarrow> vpc \<Rightarrow> ('w, Network) aop" where
  "reconcile_standalone_vpc n v =
     andThen (wrapping ''unexpected error tagging standalone vpc route table'' (reconcileStandaloneRouteTableTags n v)) (\<lambda>_.
     andThen (wrapping ''unexpected error creating vpc subnets'' (reconcileStandaloneVPCSubnets n v)) (\<lambda>privateSubnets.
     andThen (wrapping ''unexpected error reconciling standalone rds vpc networking'' (reconcileRDSVpcConfiguration n privateSubnets)) (\<lambda>_.
     andThen (wrapping ''unexpected error reconciling standalone elasticache vpc networking'' (reconcileElasticacheVPCConfiguration n privateSubnets)) (\<lambda>_.
     andThen (if np_IsSTSCluster n then ret () else wrapping ''unexpected error while reconciling vpc tags'' (reconcileVPCTags n v)) (\<lambda>_.
       ret \<lparr>nw_Vpc = Some v, nw_Subnets = privateSubnets\<rparr>)))))"

definition CreateNetwork :: "'w NetworkProvider \<Rightarrow> ipnet \<Rightarrow> ('w, Network) aop" where
  "CreateNetwork n vpcCidrBlock =
     andThen (wrapping ''unable to get vpc'' (getStandaloneVpc (np_Client n) (np_Api n))) (\<lambda>foundVpc. case foundVpc of
       None \<Rightarrow> create_standalone_vpc n vpcCidrBlock
     | Some v \<Rightarrow> reconcile_standalone_vpc n v)"

definition delete_subnet :: "'w aws \<Rightarrow> subnet \<Rightarrow> ('w, unit) aop" where
  "delete_subnet a sub = andThen (deref (sub_SubnetId sub)) (\<lambda>i.
     wrapping (''failed to delete subnet with id: '' @ i) (exec a (ReqDeleteSubnet i)))"

definition delete_subnet_groups :: "'w NetworkProvider \<Rightarrow> ('w, unit) aop" where
  "delete_subnet_groups n =
     andThen (wrapping ''error building subnet group name'' (BuildInfraName (np_Client n) defaultSubnetPostfix defaultAwsIdentifierLength)) (\<lambda>subnetGroupName.
     andThen (wrapping ''error getting subnet group on delete'' (getRDSSubnetGroup (np_Api n) subnetGroupName)) (\<lambda>rdsSubnetGroup.
     andThen (case rdsSubnetGroup of None \<Rightarrow> ret ()
         | Some g \<Rightarrow> andThen (deref (dsg_DBSubnetGroupName g)) (\<lambda>_. andThen (deref (dsg_VpcId g)) (\<lambda>_.
             wrapping ''error deleting subnet group'' (exec (np_Api n) (ReqDeleteDBSubnetGroup (dsg_DBSubnetGroupName g)))))) (\<lambda>_.
     andThen (wrapping ''error getting subnet group on delete'' (getElasticacheSubnetByGroup (np_Api n) subnetGroupName)) (\<lambda>elasticacheSubnetGroup.
     case elasticacheSubnetGroup of None \<Rightarrow> ret ()
       | Some g \<Rightarrow> andThen (deref (csg_CacheSubnetGroupName g)) (\<lambda>name.
           wrapping ''error deleting subnet group'' (exec (np_Api n) (ReqDeleteCacheSubnetGroup name)))))))"

definition DeleteNetwork :: "'w NetworkProvider \<Rightarrow> ('w, unit) aop" where
  "DeleteNetwork n =
     andThen (wrapping ''unable to get vpc'' (getStandaloneVpc (np_Client n) (np_Api n))) (\<lambda>foundVpc. case foundVpc of
       None \<Rightarrow> ret ()
     | Some v \<Rightarrow>
         andThen (wrapping ''failed to get standalone vpc subnets'' (getVPCAssociatedSubnets (np_Api n) (Some v))) (\<lambda>vpcSubs.
         andThen (for_each (delete_subnet (np_Api n)) vpcSubs) (\<lambda>_.
         andThen (delete_subnet_groups n) (\<lambda>_.
         andThen (deref (vpc_VpcId v)) (\<lambda>vpcId.
           wrapping ''unable to delete vpc'' (exec (np_Api n) (ReqDeleteVpc vpcId)))))))"


section \<open>The security group and the routes\<close>

definition create_standalone_group :: "'w NetworkProvider \<Rightarrow> string \<Rightarrow> vpc \<Rightarrow> ('w, securityGroup) aop" where
  "create_standalone_group n name standaloneVpc =
     (let a = np_Api n; desc = ''rhmi cro security group for cro standalone vpc'' in
      andThen (if np_IsSTSCluster n
               then wrapping ''failed to get default tag spec'' (getDefaultTagSpec (np_Client n) (display_tag defaultSecurityGroupNameTagValue) ''security-group'')
               else ret []) (\<lambda>tagSpec.
      andThen (wrapping ''error creating security group''
        (create (aws_CreateSecurityGroup a desc name (vpc_VpcId standaloneVpc) tagSpec) (ReqCreateSecurityGroup desc name (vpc_VpcId standaloneVpc) tagSpec))) (\<lambda>groupId.
      andThen (wrapping ''error getting created security group'' (query (aws_DescribeSecurityGroups a [groupId]))) (\<lambda>groups.
      case groups of [] \<Rightarrow> throw (ErrNew (''expected to find created security group '' @ name)) | g # _ \<Rightarrow> ret g))))"

text \<open>The tags of the group, unless the cluster uses STS; the log of a success reads two identifiers.\<close>

definition tag_standalone_group :: "'w NetworkProvider \<Rightarrow> securityGroup \<Rightarrow> ('w, unit) aop" where
  "tag_standalone_group n g =
     (if np_IsSTSCluster n then ret ()
      else andThen (wrapping ''failed to get default tags for security group''
          (getDefaultNetworkTags (np_Client n) (Some (display_tag defaultSecurityGroupNameTagValue)))) (\<lambda>defaultTags.
        if TagsContainsAll defaultTags (ec2TagListToGenericList (sg_Tags g)) then ret ()
        else andThen (wrapping ''unable to tag security group'' (exec (np_Api n) (ReqCreateTags (sg_GroupId g) (genericListToEc2TagList defaultTags)))) (\<lambda>_.
          andThen (deref (sg_GroupId g)) (\<lambda>_. andThen (deref (sg_VpcId g)) (\<lambda>_. ret ())))))"

definition reconcileStandaloneSecurityGroup :: "'w NetworkProvider \<Rightarrow> ('w, securityGroup) aop" where
  "reconcileStandaloneSecurityGroup n =
     (let k = np_Client n; a = np_Api n in
      andThen (wrapping ''error building subnet group name'' (BuildInfraName k defaultSecurityGroupPostfix defaultAwsIdentifierLength)) (\<lambda>name.
      andThen (wrapping ''failed to find standalone security group'' (getSecurityGroup a name)) (\<lambda>found.
      andThen (wrapping ''failed to get standalone vpc'' (getStandaloneVpc k a)) (\<lambda>standalone. case standalone of
        None \<Rightarrow> throw (ErrNew ''standalone vpc can not be nil'')
      | Some standaloneVpc \<Rightarrow>
          andThen (wrapping ''failed to get cluster vpc'' (getClusterVpc k a)) (\<lambda>clusterVpc.
          andThen (case found of Some g \<Rightarrow> ret g | None \<Rightarrow> create_standalone_group n name standaloneVpc) (\<lambda>g.
          andThen (deref (sg_GroupId g)) (\<lambda>groupId.
          andThen (tag_standalone_group n g) (\<lambda>_.
          let ipPermission = ingress_permission (vpc_CidrBlock clusterVpc) in
          andThen (if ipPermission \<in> set (sg_IpPermissions g) then ret ()
                   else wrapping ''error authorizing security group ingress'' (exec a (ReqAuthorizeSecurityGroupIngress groupId ipPermission))) (\<lambda>_.
          andThen (deref (sg_GroupName g)) (\<lambda>_. ret g)))))))))) "

text \<open>
  A route is added to every table that does not have it. For the cluster tables the error
  \<^verbatim>\<open>RouteNotSupported\<close> skips the table; for the standalone tables every error ends the loop.
\<close>

definition ensure_route :: "'w aws \<Rightarrow> bool \<Rightarrow> route \<Rightarrow> routeTable \<Rightarrow> ('w, unit) aop" where
  "ensure_route a skip_unsupported r t =
     (if routeExists (rtb_Routes t) r then ret ()
      else andThen (attempt (exec a (ReqCreateRoute (route_VpcPeeringConnectionId r) (route_DestinationCidrBlock r) (rtb_RouteTableId t)))) (\<lambda>out.
        case out of
          Inr _ \<Rightarrow> ret ()
        | Inl err \<Rightarrow> if skip_unsupported \<and> aws_code err = Some ''RouteNotSupported'' then ret ()
                     else throw (ErrWrap err ''failure while adding route to route table'')))"

definition CreateNetworkConnection :: "'w NetworkProvider \<Rightarrow> Network \<Rightarrow> ('w, NetworkConnection) aop" where
  "CreateNetworkConnection n network =
     (let k = np_Client n; a = np_Api n in
      andThen (wrapping ''failure while reconciling standalone security group'' (reconcileStandaloneSecurityGroup n)) (\<lambda>securityGroup.
      andThen (wrapping ''failure while getting vpc route tables'' (getClusterRouteTables k a)) (\<lambda>clusterVpcRouteTables.
      andThen (wrapping ''failure while getting peering connection'' (getNetworkPeering k a network)) (\<lambda>peering. case peering of
        None \<Rightarrow> throw (ErrNew ''active peering connection expected and not found, can't create routes'')
      | Some pc \<Rightarrow>
          andThen (deref (nw_Vpc network)) (\<lambda>v.
          andThen (for_each (ensure_route a True \<lparr>route_DestinationCidrBlock = vpc_CidrBlock v,
                      route_VpcPeeringConnectionId = pc_VpcPeeringConnectionId pc\<rparr>) clusterVpcRouteTables) (\<lambda>_.
          andThen (wrapping ''error getting standalone vpc route tables'' (getCRORouteTables k a)) (\<lambda>standAloneVpcRouteTables.
          andThen (wrapping ''error getting standalone vpc route tables'' (getClusterVpc k a)) (\<lambda>clusterVpc.
          andThen (for_each (ensure_route a False \<lparr>route_DestinationCidrBlock = vpc_CidrBlock clusterVpc,
                      route_VpcPeeringConnectionId = pc_VpcPeeringConnectionId pc\<rparr>) standAloneVpcRouteTables) (\<lambda>_.
            ret \<lparr>nc_StandaloneSecurityGroup = securityGroup\<rparr>)))))))))"

text \<open>The standalone VPC is read through a pointer that is nil when there is no such VPC.\<close>

definition remove_route :: "'w aws \<Rightarrow> vpc option \<Rightarrow> vpcPeeringConnection \<Rightarrow> routeTable \<Rightarrow> ('w, unit) aop" where
  "remove_route a standaloneVpc pc t =
     andThen (deref standaloneVpc) (\<lambda>v.
     if routeExists (rtb_Routes t) \<lparr>route_DestinationCidrBlock = vpc_CidrBlock v, route_VpcPeeringConnectionId = pc_VpcPeeringConnectionId pc\<rparr>
     then wrapping ''failure while deleting route from route table'' (exec a (ReqDeleteRoute (vpc_CidrBlock v) (rtb_RouteTableId t)))
     else ret ())"

definition DeleteNetworkConnection :: "'w NetworkProvider \<Rightarrow> NetworkPeering \<Rightarrow> ('w, unit) aop" where
  "DeleteNetworkConnection n networkPeering =
     (let k = np_Client n; a = np_Api n in
      andThen (wrapping ''error building subnet group name'' (BuildInfraName k defaultSecurityGroupPostfix defaultAwsIdentifierLength)) (\<lambda>name.
      andThen (wrapping ''failed to find standalone security group'' (getSecurityGroup a name)) (\<lambda>found.
      andThen (case found of None \<Rightarrow> ret ()
          | Some g \<Rightarrow> wrapping ''failed to delete standalone security group'' (exec a (ReqDeleteSecurityGroup (sg_GroupId g)))) (\<lambda>_.
      andThen (wrapping ''failure while getting vpc route table'' (getClusterRouteTables k a)) (\<lambda>clusterVpcRouteTables.
      andThen (wrapping ''could not find standalone vpc'' (getStandaloneVpc k a)) (\<lambda>standaloneVpc.
      case np_PeeringConnection networkPeering of
        None \<Rightarrow> throw (ErrNew ''peering connection expected and not found, can't delete routes'')
      | Some pc \<Rightarrow> for_each (remove_route a standaloneVpc pc) clusterVpcRouteTables))))))"

section \<open>The peering\<close>

definition peering_code :: "vpcPeeringConnection \<Rightarrow> ('s, string \<times> string) op" where
  "peering_code pc = andThen (deref (pc_Status pc)) (\<lambda>st. ret (StringValue (ps_Code st), StringValue (ps_Message st)))"

definition IsReady :: "NetworkPeering \<Rightarrow> ('s, bool) op" where
  "IsReady np = andThen (deref (np_PeeringConnection np)) (\<lambda>pc. andThen (peering_code pc) (\<lambda>(code, _). ret (code = ''active'')))"

definition create_peering :: "'w NetworkProvider \<Rightarrow> Network \<Rightarrow> vpc \<Rightarrow> ('w, vpcPeeringConnection) aop" where
  "create_peering n network clusterVpc =
     andThen (deref (nw_Vpc network)) (\<lambda>v.
     andThen (if np_IsSTSCluster n
              then wrapping ''failed to get default tag spec'' (getDefaultTagSpec (np_Client n) (display_tag defaultVpcPeeringConnectionNameTagValue) ''vpc-peering-connection'')
              else ret []) (\<lambda>tagSpec.
       wrapping ''failed to create vpc peering connection''
         (create (aws_CreateVpcPeeringConnection (np_Api n) (vpc_VpcId clusterVpc) (vpc_VpcId v) tagSpec)
            (ReqCreateVpcPeeringConnection (vpc_VpcId clusterVpc) (vpc_VpcId v) tagSpec))))"

definition accept_peering :: "'w aws \<Rightarrow> vpcPeeringConnection \<Rightarrow> ('w, unit) aop" where
  "accept_peering a pc =
     andThen (peering_code pc) (\<lambda>(code, msg).
     if code = ''pending-acceptance''
     then wrapping ''failed to accept vpc peering connection'' (exec a (ReqAcceptVpcPeeringConnection (pc_VpcPeeringConnectionId pc)))
     else if code \<in> {''active'', ''provisioning'', ''initiating-request''} then ret ()
     else throw (ErrNew (''vpc peering connection '' @ StringValue (pc_VpcPeeringConnectionId pc) @ '' is in an invalid state '' @ [CHR 0x27] @ code @
            [CHR 0x27] @ '' with message '' @ [CHR 0x27] @ msg @ [CHR 0x27])))"

definition CreateNetworkPeering :: "'w NetworkProvider \<Rightarrow> Network \<Rightarrow> ('w, NetworkPeering) aop" where
  "CreateNetworkPeering n network =
     (let k = np_Client n; a = np_Api n in
      andThen (wrapping ''failed to get cluster vpc, no vpc found'' (getClusterVpc k a)) (\<lambda>clusterVpc.
      andThen (wrapping ''failed to get peering connection'' (getNetworkPeering k a network)) (\<lambda>found.
      andThen (case found of Some pc \<Rightarrow> ret pc | None \<Rightarrow> create_peering n network clusterVpc) (\<lambda>pc.
      andThen (if np_IsSTSCluster n then ret ()
               else andThen (wrapping ''failed to get default tags for peering connection''
                   (getDefaultNetworkTags k (Some (display_tag defaultVpcPeeringConnectionNameTagValue)))) (\<lambda>defaultTags.
                 ensure_tags a ''failed to tag peering connection'' (pc_VpcPeeringConnectionId pc) defaultTags (pc_Tags pc))) (\<lambda>_.
      andThen (accept_peering a pc) (\<lambda>_. ret \<lparr>np_PeeringConnection = Some pc\<rparr>))))))"

definition GetClusterNetworkPeering :: "'w NetworkProvider \<Rightarrow> ('w, NetworkPeering) aop" where
  "GetClusterNetworkPeering n =
     andThen (wrapping ''failed to get standalone vpc'' (getStandaloneVpc (np_Client n) (np_Api n))) (\<lambda>vpc.
     andThen (wrapping ''failed to get network peering'' (getNetworkPeering (np_Client n) (np_Api n) \<lparr>nw_Vpc = vpc, nw_Subnets = []\<rparr>)) (\<lambda>pc.
       ret \<lparr>np_PeeringConnection = pc\<rparr>))"

definition DeleteNetworkPeering :: "'w NetworkProvider \<Rightarrow> NetworkPeering \<Rightarrow> ('w, unit) aop" where
  "DeleteNetworkPeering n peering = (case np_PeeringConnection peering of
     None \<Rightarrow> ret ()
   | Some pc \<Rightarrow>
       andThen (wrapping ''failed to get vpc''
         (query (aws_DescribeVpcPeeringConnections (np_Api n) (ByPeeringId (pc_VpcPeeringConnectionId pc))))) (\<lambda>pcs. case pcs of
         [] \<Rightarrow> ret ()
       | toDelete # _ \<Rightarrow> andThen (peering_code toDelete) (\<lambda>(code, _).
           if code \<in> {''deleting'', ''deleted''} then ret ()
           else wrapping ''failed to delete vpc peering connection'' (exec (np_Api n) (ReqDeleteVpcPeeringConnection (pc_VpcPeeringConnectionId toDelete))))))"

section \<open>Bundled resources and the choice of a block\<close>

text \<open>The subnets with the owner tag, once for every such tag; the log reads two identifiers.\<close>

fun bundled_tags :: "string \<Rightarrow> string \<Rightarrow> subnet \<Rightarrow> awsTag list \<Rightarrow> ('s, nat) op" where
  "bundled_tags key clusterID sub [] = ret 0"
| "bundled_tags key clusterID sub (t # ts) =
     (if StringValue (at_Key t) = key \<and> StringValue (at_Value t) = clusterID
      then andThen (deref (sub_SubnetId sub)) (\<lambda>_. andThen (deref (sub_VpcId sub)) (\<lambda>_.
        andThen (bundled_tags key clusterID sub ts) (\<lambda>c. ret (Suc c))))
      else bundled_tags key clusterID sub ts)"

definition IsEnabled :: "'w NetworkProvider \<Rightarrow> ('w, bool) aop" where
  "IsEnabled n =
     (let k = np_Client n; a = np_Api n in
      andThen (wrapping ''unable to get vpc'' (getClusterVpc k a)) (\<lambda>foundVpc.
      andThen (wrapping ''unable to get cluster id'' (GetClusterID k)) (\<lambda>clusterID.
      andThen (wrapping ''error happened while returning vpc subnets'' (GetVPCSubnets a (Some foundVpc))) (\<lambda>vpcSubnets.
      andThen (for_fold (\<lambda>c sub. andThen (bundled_tags (GetOrganizationTag (kube_env k) @ ''clusterID'') clusterID sub (sub_Tags sub)) (\<lambda>d. ret (c + d)))
                 (0::nat) vpcSubnets) (\<lambda>validBundledVPCSubnets.
        ret (validBundledVPCSubnets = 0))))))"

text \<open>
  A request whose error is returned only when it is an AWS error with another code: errors that are not
  AWS errors are ignored as well.
\<close>

definition tolerating :: "string \<Rightarrow> string \<Rightarrow> ('w, unit) aop \<Rightarrow> ('w, unit) aop" where
  "tolerating code msg m = andThen (attempt m) (\<lambda>r. case r of
     Inr _ \<Rightarrow> ret ()
   | Inl err \<Rightarrow> (case aws_code err of None \<Rightarrow> ret ()
       | Some c \<Rightarrow> if c \<noteq> code then throw (ErrWrap err msg) else ret ()))"

definition DeleteBundledCloudResources :: "'w NetworkProvider \<Rightarrow> ('w, unit) aop" where
  "DeleteBundledCloudResources n =
     (let k = np_Client n; a = np_Api n in
      andThen (wrapping ''error building bundle subnet group resource name on deletion'' (BuildInfraName k ''subnetgroup'' defaultAwsIdentifierLength)) (\<lambda>subnetGroupName.
      andThen (tolerating ''CacheSubnetGroupNotFoundFault'' ''error deleting elasticache subnet group'' (exec a (ReqDeleteCacheSubnetGroup subnetGroupName))) (\<lambda>_.
      andThen (tolerating ''DBSubnetGroupNotFoundFault'' ''error deleting rds subnet group'' (exec a (ReqDeleteDBSubnetGroup (Some subnetGroupName)))) (\<lambda>_.
      andThen (wrapping ''error building bundle security group resource name on deletion'' (BuildInfraName k ''securitygroup'' defaultAwsIdentifierLength)) (\<lambda>securityGroupName.
      andThen (wrapping ''error getting ec2 security group'' (getSecurityGroup a securityGroupName)) (\<lambda>found. case found of
        None \<Rightarrow> ret ()
      | Some g \<Rightarrow>
          andThen (wrapping ''error getting cluster vpc'' (getClusterVpc k a)) (\<lambda>vpc.
          if sg_VpcId g \<noteq> None \<and> vpc_VpcId vpc \<noteq> None \<and> StringValue (sg_VpcId g) = StringValue (vpc_VpcId vpc)
          then wrapping ''error deleting bundled security group'' (exec a (ReqDeleteSecurityGroup (sg_GroupId g)))
          else ret ())))))))"

definition getNonOverlappingDefaultCIDR :: "'w NetworkProvider \<Rightarrow> ('w, ipnet) aop" where
  "getNonOverlappingDefaultCIDR n =
     andThen (wrapping ''failed to get cluster vpc for cidr block'' (getClusterVpc (np_Client n) (np_Api n))) (\<lambda>clusterVpc.
     andThen (wrapping ''error parsing cluster cidr block'' (lift_sum (ParseCIDR (StringValue (vpc_CidrBlock clusterVpc))))) (\<lambda>(_, clusterNet).
     andThen (wrapping ''failed to get network kind'' (query (kube_GetNetwork (np_Client n) ''cluster''))) (\<lambda>networkConf.
     andThen (wrapping ''failed to get pod CIDR'' (lift_sum (getPodCIDR (nc_ClusterNetwork networkConf)))) (\<lambda>podCIDR.
     andThen (wrapping ''failed to get service CIDR'' (lift_sum (getServiceCIDR (nc_ServiceNetwork networkConf)))) (\<lambda>serviceCIDR.
       lift (findDefaultCIDR clusterNet podCIDR serviceCIDR))))))"

text \<open>
  \<^verbatim>\<open>ReadStorageStrategy\<close> of the config manager is a parameter that gives the create strategy of the
  \<^verbatim>\<open>_network\<close> resource type, and \<open>unmarshal\<close> is \<^verbatim>\<open>json.Unmarshal\<close> into the SDK's input structure, reduced
  to its CIDR block.
\<close>

definition ReconcileNetworkProviderConfig ::
  "'w NetworkProvider \<Rightarrow> (string \<Rightarrow> string \<Rightarrow> ('w, json option) aop) \<Rightarrow> (json option \<Rightarrow> error + string option) \<Rightarrow> string \<Rightarrow> ('w, ipnet) aop" where
  "ReconcileNetworkProviderConfig n ReadStorageStrategy unmarshal tier =
     andThen (wrapping ''failed to read _network strategy config'' (ReadStorageStrategy ''_network'' tier)) (\<lambda>createStrategy.
     andThen (wrapping ''failed to unmarshal aws vpc create config'' (lift_sum (unmarshal createStrategy))) (\<lambda>cidrBlock.
     if StringValue cidrBlock \<noteq> ''''
     then andThen (wrapping ''failed to parse cidr block from _network strategy'' (lift_sum (ParseCIDR (StringValue cidrBlock)))) (\<lambda>(_, vpcCidr). ret vpcCidr)
     else wrapping ''failed to generate default CIDR'' (getNonOverlappingDefaultCIDR n)))"


section \<open>Operations that only read\<close>

lemma quiet_cluster_tagged [quiet_rules]: "quiet (cluster_tagged key ts)"
  by (induction ts) (auto intro!: quiet_rules)

lemma quiet_first_cluster_subnet [quiet_rules]: "quiet (first_cluster_subnet c subs)"
  by (induction subs) (auto intro!: quiet_rules)

lemma quiet_poll_subnets [quiet_rules]: "quiet (poll_subnets a n)"
proof (induction n)
  case 0
  show ?case by (subst poll_subnets.simps) (auto intro!: quiet_rules)
next
  case (Suc n)
  then show ?case by (subst poll_subnets.simps) (auto intro!: quiet_rules)
qed

lemma quiet_associated [quiet_rules]: "quiet (associated v subs)" "quiet (associated_logged v subs)"
  by (induction subs) (auto intro!: quiet_rules)

lemma quiet_getClusterVpc [quiet_rules]: "quiet (getClusterVpc k a)"
  unfolding getClusterVpc_def getVPCIDByClusterSubnets_def
  by (intro quiet_rules)

lemma quiet_cluster_reads [quiet_rules]:
  "quiet (GetCidr k a)" "quiet (getSubnets a)" "quiet (getAZs a)" "quiet (GetVPCSubnets a v)"
  unfolding GetCidr_def getSubnets_def getAZs_def GetVPCSubnets_def by (intro quiet_rules)+

lemma quiet_first_group [quiet_rules]: "quiet (first_group name gs)" "quiet (first_db_group name ds)" "quiet (first_cache_group name cs)"
  by (induction gs, auto intro!: quiet_rules, induction ds, auto intro!: quiet_rules, induction cs, auto intro!: quiet_rules)

lemma quiet_groups [quiet_rules]:
  "quiet (getSecurityGroup a name)" "quiet (getRDSSubnetGroup a name)" "quiet (getElasticacheSubnetByGroup a name)"
  unfolding getSecurityGroup_def getRDSSubnetGroup_def getElasticacheSubnetByGroup_def by (intro quiet_rules)+

lemma quiet_network_tags [quiet_rules]:
  "quiet (getDefaultSubnetTags k)" "quiet (getCloudResourceOperatorOwnerTag k)" "quiet (getDefaultNetworkTags k t)"
  "quiet (getDefaultTagSpec k t' ty)"
  unfolding getDefaultSubnetTags_def getCloudResourceOperatorOwnerTag_def getDefaultNetworkTags_def getDefaultTagSpec_def Let_def
  by (intro quiet_rules)+

lemma quiet_owner_tagged [quiet_rules]: "quiet (owner_tagged owner v found ts)"
  by (induction ts arbitrary: found) (auto intro!: quiet_rules)

lemma quiet_vpc_route_tables [quiet_rules]: "quiet (vpc_route_tables v ts)"
  by (induction ts) (auto intro!: quiet_rules)

lemma quiet_first_live_peering [quiet_rules]: "quiet (first_live_peering pcs)"
  by (induction pcs) (auto intro!: quiet_rules)

lemma quiet_subnetExists [quiet_rules]: "quiet (subnetExists subs cidr)" "quiet (privateSubnetExists subs zone)"
  by (induction subs) (auto intro!: quiet_rules)

lemma quiet_bundled_tags [quiet_rules]: "quiet (bundled_tags key c sub ts)"
  by (induction ts) (auto intro!: quiet_rules)

lemma quiet_private_tags [quiet_rules]: "quiet (private_tags ts sub)"
  by (induction ts) (auto intro!: quiet_rules)

lemma quiet_network_reads [quiet_rules]:
  "quiet (getStandaloneVpc k a)" "quiet (getVPCAssociatedSubnets a v)" "quiet (getClusterRouteTables k a)"
  "quiet (getCRORouteTables k a)" "quiet (getNetworkPeering k a nw)" "quiet (half_subnets a vpc)" "quiet (valid_zones a)"
  "quiet (peering_code pc)" "quiet (IsEnabled n)" "quiet (GetClusterNetworkPeering n)" "quiet (getNonOverlappingDefaultCIDR n)"
  unfolding getStandaloneVpc_def getVPCAssociatedSubnets_def getClusterRouteTables_def getCRORouteTables_def getNetworkPeering_def
    half_subnets_def valid_zones_def peering_code_def IsEnabled_def GetClusterNetworkPeering_def getNonOverlappingDefaultCIDR_def Let_def
  by (intro quiet_rules)+

end
