(* ===== verification/Credentials.thy ===== *)
theory Credentials
  imports Kubernetes
begin

text \<open>
  How the operator gets its cloud credentials: the run mode and namespace of the operator
  (\<^verbatim>\<open>internal/k8sutil\<close>), the AWS credential managers (\<^verbatim>\<open>pkg/providers/aws/credentials.go\<close> and
  \<^verbatim>\<open>credentials_sts_manager.go\<close>) and the GCP one (\<^verbatim>\<open>pkg/providers/gcp/credentials.go\<close>). The codec of the cloud
  credential operator, which turns provider specific parts of a request into text, is a parameter.
\<close>

section \<open>Run mode and namespaces\<close>

text \<open>The file system: \<open>Stat\<close> and the contents of files, with whether an error is \<^verbatim>\<open>os.IsNotExist\<close>.\<close>

record files =
  fs_Stat :: "string \<Rightarrow> error option"
  fs_ReadFile :: "string \<Rightarrow> error + string"
  fs_IsNotExist :: "error \<Rightarrow> bool"

definition isRunModeCluster :: "files \<Rightarrow> bool" where
  "isRunModeCluster fs = (case fs_Stat fs ''/var/run/secrets/kubernetes.io/serviceaccount'' of
     None \<Rightarrow> True | Some err \<Rightarrow> \<not> fs_IsNotExist fs err)"

definition IsRunModeLocal :: "files \<Rightarrow> bool" where
  "IsRunModeLocal fs \<longleftrightarrow> \<not> isRunModeCluster fs"

definition GetWatchNamespace :: "env \<Rightarrow> error + string" where
  "GetWatchNamespace env = (case env ''WATCH_NAMESPACE'' of
     None \<Rightarrow> Inl (ErrNew ''WATCH_NAMESPACE must be set'') | Some ns \<Rightarrow> Inr ns)"

definition ErrNoNamespace :: error where
  "ErrNoNamespace = ErrNew ''namespace not found for current environment''"

text \<open>\<^verbatim>\<open>strings.TrimSpace\<close> on ASCII text.\<close>

definition go_space :: "char \<Rightarrow> bool" where
  "go_space c \<longleftrightarrow> c \<in> set [CHR 0x20, CHR 0x09, CHR 0x0A, CHR 0x0B, CHR 0x0C, CHR 0x0D]"

definition TrimSpace :: "string \<Rightarrow> string" where
  "TrimSpace s = rev (dropWhile go_space (rev (dropWhile go_space s)))"

definition GetOperatorNamespace :: "env \<Rightarrow> files \<Rightarrow> error + string" where
  "GetOperatorNamespace env fs =
     (if IsRunModeLocal fs then GetWatchNamespace env
      else case fs_ReadFile fs ''/var/run/secrets/kubernetes.io/serviceaccount/namespace'' of
        Inl err \<Rightarrow> if fs_IsNotExist fs err then Inl ErrNoNamespace else Inl err
      | Inr nsBytes \<Rightarrow> Inr (TrimSpace nsBytes))"

section \<open>Credential requests\<close>

text \<open>
  \<^verbatim>\<open>reconcileCredentialRequest\<close> of both clouds after encoding: \<^verbatim>\<open>CreateOrUpdate\<close> with the given spec.
\<close>

definition requested :: "string \<Rightarrow> string \<Rightarrow> string \<Rightarrow> credentialsRequest \<Rightarrow> credentialsRequest" where
  "requested name ns spec q = q\<lparr>cq_ProviderSpec := Some spec, cq_SecretRef := (name, ns)\<rparr>"

definition CreateOrUpdate_request :: "'w kube \<Rightarrow> string \<Rightarrow> string \<Rightarrow> string \<Rightarrow> ('w, 'c, credentialsRequest) kop" where
  "CreateOrUpdate_request k name ns spec =
     andThen (attempt (query (kube_GetCredentialsRequest k (name, ns)))) (\<lambda>r. case r of
       Inl err \<Rightarrow>
         if \<not> k8s_IsNotFound err then throw err
         else let new = requested name ns spec \<lparr>cq_Name = name, cq_Namespace = ns, cq_ProviderSpec = None, cq_SecretRef = ('''', ''''),
                                     cq_Provisioned = False, cq_ProviderStatus = None\<rparr>
              in request (kube_CreateCredentialsRequest k new) (\<lambda>r. EvCreateCredentialsRequest new (ok r))
     | Inr existing \<Rightarrow>
         let new = requested name ns spec existing
         in if new = existing then ret existing
            else request (kube_UpdateCredentialsRequest k new) (\<lambda>r. EvUpdateCredentialsRequest new (ok r)))"

definition reconcileCredentialRequest ::
  "'w kube \<Rightarrow> ('spec \<Rightarrow> error + string) \<Rightarrow> string \<Rightarrow> string \<Rightarrow> 'spec \<Rightarrow> ('w, 'c, credentialsRequest) kop" where
  "reconcileCredentialRequest k encode name ns spec =
     andThen (wrapping ''failed to encode provider spec'' (lift_sum (encode spec))) (\<lambda>providerSpec.
       wrapping (''failed to reconcile credential request '' @ name @ '' in namespace '' @ ns) (CreateOrUpdate_request k name ns providerSpec))"

text \<open>
  The condition of the poll: a request that is not found is waited for, another error ends the wait. The
  object read last is the one used afterwards.
\<close>

definition provisioned :: "'w kube \<Rightarrow> credentialsRequest \<Rightarrow> ('w, 'c, credentialsRequest option) kop" where
  "provisioned k q = andThen (attempt (query (kube_GetCredentialsRequest k (cq_Name q, cq_Namespace q)))) (\<lambda>r. case r of
     Inl err \<Rightarrow> if k8s_IsNotFound err then ret None else throw err
   | Inr q' \<Rightarrow> ret (if cq_Provisioned q' then Some q' else None))"

section \<open>AWS\<close>

record statementEntry =
  se_Effect :: string
  se_Action :: "string list"
  se_Resource :: string

definition operatorEntries :: "statementEntry list" where
  "operatorEntries = [\<lparr>se_Effect = ''Allow'', se_Action = [
    ''s3:CreateBucket'', ''s3:DeleteBucket'', ''s3:ListBucket'', ''s3:ListAllMyBuckets'', ''s3:GetObject'',
    ''s3:DeleteObject'', ''s3:PutBucketTagging'', ''s3:PutBucketPublicAccessBlock'',
    ''s3:PutEncryptionConfiguration'', ''ec2:DescribeVpcs'', ''ec2:DescribeSubnets'',
    ''ec2:DescribeSecurityGroups'', ''ec2:DescribeInstanceTypes'', ''ec2:CreateSecurityGroup'',
    ''ec2:DeleteSecurityGroup'', ''ec2:AuthorizeSecurityGroupIngress'', ''ec2:AuthorizeSecurityGroupEgress'',
    ''ec2:DescribeAvailabilityZones'', ''ec2:CreateSubnet'', ''ec2:CreateTags'', ''ec2:CreateVpc'',
    ''ec2:DeleteVpc'', ''ec2:DeleteSubnet'', ''ec2:CreateVpcPeeringConnection'',
    ''ec2:DescribeVpcPeeringConnections'', ''ec2:AcceptVpcPeeringConnection'', ''ec2:DeleteVpcPeeringConnection'',
    ''ec2:DescribeRouteTables'', ''ec2:CreateRoute'', ''ec2:DeleteRoute'', ''ec2:DescribeInstanceTypeOfferings'',
    ''elasticache:CreateReplicationGroup'', ''elasticache:DeleteReplicationGroup'',
    ''elasticache:DescribeReplicationGroups'', ''elasticache:DescribeUpdateActions'',
    ''elasticache:BatchApplyUpdateAction'', ''elasticache:AddTagsToResource'', ''elasticache:DescribeSnapshots'',
    ''elasticache:CreateSnapshot'', ''elasticache:DeleteSnapshot'', ''elasticache:DescribeCacheClusters'',
    ''elasticache:DescribeCacheSubnetGroups'', ''elasticache:CreateCacheSubnetGroup'',
    ''elasticache:ModifyCacheSubnetGroup'', ''elasticache:DeleteCacheSubnetGroup'',
    ''elasticache:ModifyReplicationGroup'', ''rds:DescribeDBInstances'', ''rds:CreateDBInstance'',
    ''rds:DeleteDBInstance'', ''rds:ModifyDBInstance'', ''rds:AddTagsToResource'', ''rds:DescribeDBSnapshots'',
    ''rds:CreateDBSnapshot'', ''rds:DeleteDBSnapshot'', ''rds:DescribePendingMaintenanceActions'',
    ''rds:CreateDBSubnetGroup'', ''rds:DescribeDBSubnetGroups'', ''rds:DeleteDBSubnetGroup'',
    ''rds:ModifyDBSubnetGroup'', ''rds:ListTagsForResource'', ''rds:RemoveTagsFromResource'',
    ''rds:ApplyPendingMaintenanceAction'', ''iam:CreateServiceLinkedRole'', ''cloudwatch:ListMetrics'',
    ''cloudwatch:GetMetricData''],
     se_Resource = ''*''\<rparr>]"

definition buildPutBucketObjectEntries :: "string \<Rightarrow> statementEntry list" where
  "buildPutBucketObjectEntries bucket =
     [\<lparr>se_Effect = ''Allow'', se_Action = [''s3:*''], se_Resource = ''arn:aws:s3:::'' @ bucket\<rparr>,
      \<lparr>se_Effect = ''Allow'', se_Action = [''s3:*''], se_Resource = ''arn:aws:s3:::'' @ bucket @ ''/*''\<rparr>]"

record aws_credentials =
  cred_Username :: string
  cred_PolicyName :: string
  cred_AccessKeyID :: string
  cred_SecretAccessKey :: string
  cred_RoleArn :: string
  cred_TokenFilePath :: string

text \<open>The two managers, with the fields they are created with.\<close>

datatype aws_credential_manager = Minter string | STS string

text \<open>\<open>Encode\<close> and \<open>Decode\<close> of the codec, and how many attempts a poll has after the first.\<close>

record aws_codec =
  EncodeProviderSpec :: "statementEntry list \<Rightarrow> error + string"
  DecodeProviderSpec :: "string option \<Rightarrow> error + string \<times> string"
  codec_polls :: nat

definition defaultProviderCredentialName :: string where "defaultProviderCredentialName = ''cloud-resources-aws-credentials''"

definition defaultSTSCredentialSecretName :: string where "defaultSTSCredentialSecretName = ''sts-credentials''"

definition defaultTokenPath :: string where "defaultTokenPath = ''/var/run/secrets/openshift/serviceaccount/token''"

definition getSTSCredentialsSecret :: "'w kube \<Rightarrow> string \<Rightarrow> ('w, 'c, secret) kop" where
  "getSTSCredentialsSecret k ns = query (kube_GetSecret k (defaultSTSCredentialSecretName, ns))"

text \<open>A failing lookup of the STS secret exposes a gauge unless there is no such secret.\<close>

definition NewCredentialManager :: "'w kube \<Rightarrow> files \<Rightarrow> ('w, 'c, aws_credential_manager) kop" where
  "NewCredentialManager k fs =
     andThen (lift_sum (GetOperatorNamespace (kube_env k) fs)) (\<lambda>ns.
     andThen (attempt (getSTSCredentialsSecret k ns)) (\<lambda>r. case r of
       Inl err \<Rightarrow>
         if k8s_IsNotFound err then ret (Minter defaultProviderCredentialName)
         else andThen (set_metric ''cro_sts_credentials_secret'' [''namespace'' \<mapsto> ns, ''error'' \<mapsto> error_text err] 1) (\<lambda>_. throw err)
     | Inr sec \<Rightarrow>
         andThen (reset_metric ''cro_sts_credentials_secret'') (\<lambda>_.
         if sec_Data sec \<noteq> None then ret (STS ns) else throw (ErrNew ''could not instantiate aws credential manager''))))"

definition isSTSCluster :: "'w kube \<Rightarrow> files \<Rightarrow> ('w, 'c, bool) kop" where
  "isSTSCluster k fs = (case GetOperatorNamespace (kube_env k) fs of
     Inl _ \<Rightarrow> ret False
   | Inr ns \<Rightarrow> andThen (attempt (getSTSCredentialsSecret k ns)) (\<lambda>r. ret (case r of Inl _ \<Rightarrow> False | Inr _ \<Rightarrow> True)))"

definition reconcileAWSCredentials :: "'w kube \<Rightarrow> credentialsRequest \<Rightarrow> ('w, 'c, string \<times> string) kop" where
  "reconcileAWSCredentials k q =
     andThen (wrapping (''failed to get aws credentials secret '' @ fst (cq_SecretRef q)) (query (kube_GetSecret k (cq_SecretRef q)))) (\<lambda>sec.
     let awsAccessKeyID = map_get (sec_Data sec) ''aws_access_key_id'';
         awsSecretAccessKey = map_get (sec_Data sec) ''aws_secret_access_key''
     in if awsAccessKeyID = '''' then throw (ErrNew (''aws access key id is undefined in secret '' @ sec_Name sec))
        else if awsSecretAccessKey = '''' then throw (ErrNew (''aws secret access key is undefined in secret '' @ sec_Name sec))
        else ret (awsAccessKeyID, awsSecretAccessKey))"

definition reconcileCredentials ::
  "'w kube \<Rightarrow> aws_codec \<Rightarrow> string \<Rightarrow> string \<Rightarrow> statementEntry list \<Rightarrow> ('w, 'c, aws_credentials) kop" where
  "reconcileCredentials k c name ns entries =
     andThen (wrapping (''failed to reconcile aws credential request '' @ name) (reconcileCredentialRequest k (EncodeProviderSpec c) name ns entries)) (\<lambda>q0.
     andThen (wrapping ''timed out waiting for credential request to provision'' (poll (provisioned k q0) (codec_polls c))) (\<lambda>q.
     andThen (wrapping (''failed to decode credentials request '' @ cq_Name q) (lift_sum (DecodeProviderSpec c (cq_ProviderStatus q)))) (\<lambda>(user, policy).
     andThen (wrapping (''failed to reconcile aws credentials from credential request '' @ cq_Name q) (reconcileAWSCredentials k q)) (\<lambda>(accessKeyID, secAccessKey).
       ret \<lparr>cred_Username = user, cred_PolicyName = policy, cred_AccessKeyID = accessKeyID, cred_SecretAccessKey = secAccessKey,
            cred_RoleArn = '''', cred_TokenFilePath = ''''\<rparr>))))"

definition ReconcileSTSCredentials :: "'w kube \<Rightarrow> string \<Rightarrow> ('w, 'c, aws_credentials) kop" where
  "ReconcileSTSCredentials k ns =
     andThen (wrapping (''failed to get aws sts credentials secret '' @ defaultSTSCredentialSecretName) (getSTSCredentialsSecret k ns)) (\<lambda>sec.
     let roleArn = map_get (sec_Data sec) ''role_arn''
     in if roleArn = '''' then throw (ErrNew (''role_arn key is undefined in secret '' @ sec_Name sec))
        else ret \<lparr>cred_Username = '''', cred_PolicyName = '''', cred_AccessKeyID = '''', cred_SecretAccessKey = '''',
                  cred_RoleArn = roleArn, cred_TokenFilePath = defaultTokenPath\<rparr>)"

definition ReconcileProviderCredentials ::
  "'w kube \<Rightarrow> aws_codec \<Rightarrow> aws_credential_manager \<Rightarrow> string \<Rightarrow> ('w, 'c, aws_credentials) kop" where
  "ReconcileProviderCredentials k c cm ns = (case cm of
     Minter name \<Rightarrow> reconcileCredentials k c name ns operatorEntries
   | STS operatorNs \<Rightarrow> ReconcileSTSCredentials k operatorNs)"

text \<open>With STS there are no bucket owner credentials: the result is a nil pointer.\<close>

definition ReconcileBucketOwnerCredentials ::
  "'w kube \<Rightarrow> aws_codec \<Rightarrow> aws_credential_manager \<Rightarrow> string \<Rightarrow> string \<Rightarrow> string \<Rightarrow> ('w, 'c, aws_credentials option) kop" where
  "ReconcileBucketOwnerCredentials k c cm name ns bucket = (case cm of
     Minter _ \<Rightarrow> andThen (reconcileCredentials k c name ns (buildPutBucketObjectEntries bucket)) (\<lambda>creds. ret (Some creds))
   | STS _ \<Rightarrow> ret None)"

section \<open>GCP\<close>

definition operatorRoles :: "string list" where
  "operatorRoles = [''roles/compute.networkAdmin'', ''roles/storage.admin'', ''roles/redis.admin'', ''roles/cloudsql.admin'',
     ''roles/servicenetworking.networksAdmin'', ''roles/monitoring.viewer'']"

record gcp_credentials =
  gcred_ServiceAccountID :: string
  gcred_ServiceAccountJson :: string

record gcp_codec =
  gcp_EncodeProviderSpec :: "string list \<Rightarrow> error + string"
  gcp_DecodeProviderSpec :: "string option \<Rightarrow> error + string"
  gcp_codec_polls :: nat

definition reconcileGCPCredentials :: "'w kube \<Rightarrow> credentialsRequest \<Rightarrow> ('w, 'c, string) kop" where
  "reconcileGCPCredentials k q =
     andThen (wrapping (''failed to get gcp credentials secret '' @ fst (cq_SecretRef q)) (query (kube_GetSecret k (cq_SecretRef q)))) (\<lambda>sec.
     let gcpServiceAccount = map_get (sec_Data sec) ''service_account.json''
     in if gcpServiceAccount = '''' then throw (ErrNew (''gcp service account is undefined in secret '' @ sec_Name sec))
        else ret gcpServiceAccount)"

definition gcp_ReconcileCredentials ::
  "'w kube \<Rightarrow> gcp_codec \<Rightarrow> string \<Rightarrow> string \<Rightarrow> string list \<Rightarrow> ('w, 'c, credentialsRequest \<times> gcp_credentials) kop" where
  "gcp_ReconcileCredentials k c name ns roles =
     andThen (wrapping (''failed to reconcile gcp credential request '' @ name) (reconcileCredentialRequest k (gcp_EncodeProviderSpec c) name ns roles)) (\<lambda>q0.
     andThen (wrapping ''timed out waiting for credential request to become provisioned'' (poll (provisioned k q0) (gcp_codec_polls c))) (\<lambda>q.
     andThen (wrapping (''failed to decode credentials request '' @ cq_Name q) (lift_sum (gcp_DecodeProviderSpec c (cq_ProviderStatus q)))) (\<lambda>account.
     andThen (wrapping (''failed to reconcile gcp credentials from credential request '' @ cq_Name q) (reconcileGCPCredentials k q)) (\<lambda>json.
       ret (q, \<lparr>gcred_ServiceAccountID = account, gcred_ServiceAccountJson = json\<rparr>)))))"

definition gcp_ReconcileProviderCredentials :: "'w kube \<Rightarrow> gcp_codec \<Rightarrow> string \<Rightarrow> ('w, 'c, gcp_credentials) kop" where
  "gcp_ReconcileProviderCredentials k c ns =
     andThen (gcp_ReconcileCredentials k c ''cloud-resource-gcp-credentials'' ns operatorRoles) (\<lambda>(_, creds). ret creds)"

end
