(* ===== verification/Strategy_Config.thy ===== *)
theory Strategy_Config
  imports Credentials
begin

text \<open>
  The strategy config maps of AWS and GCP (\<^verbatim>\<open>pkg/providers/aws/config.go\<close>, \<^verbatim>\<open>pkg/providers/gcp/config.go\<close>):
  the default config maps, the decoding of a tier's strategy with the JSON model of \<open>Go_JSON\<close>, the choice
  of region and project, and the AWS session. A \<^verbatim>\<open>json.RawMessage\<close> is the JSON value it holds; None is a
  message that is not set.
\<close>

section \<open>Decoding a map of strategies\<close>

record strategyConfig =
  sc_Region :: string
  sc_ProjectID :: string
  sc_CreateStrategy :: "json option"
  sc_DeleteStrategy :: "json option"
  sc_ServiceUpdates :: "json option"

definition empty_strategy :: strategyConfig where
  "empty_strategy = \<lparr>sc_Region = '''', sc_ProjectID = '''', sc_CreateStrategy = None, sc_DeleteStrategy = None, sc_ServiceUpdates = None\<rparr>"

text \<open>The first error is kept, the decoding goes on.\<close>

definition first_error :: "error option \<Rightarrow> error \<Rightarrow> error option" where
  "first_error err e = (case err of None \<Rightarrow> Some e | Some _ \<Rightarrow> err)"

text \<open>\<open>set_text\<close>: decode a value into a string field.\<close>

definition set_text :: "string \<Rightarrow> (string \<Rightarrow> strategyConfig \<Rightarrow> strategyConfig) \<Rightarrow> json \<Rightarrow> strategyConfig \<times> error option \<Rightarrow> strategyConfig \<times> error option" where
  "set_text f upd v acc = (case v of
     JString x \<Rightarrow> (upd x (fst acc), snd acc)
   | JNull \<Rightarrow> acc
   | _ \<Rightarrow> (fst acc, first_error (snd acc) (type_error ''StrategyConfig'' v f)))"

text \<open>One member of a strategy: \<open>fs\<close> are the fields the structure has.\<close>

definition decode_field :: "string list \<Rightarrow> string \<times> json \<Rightarrow> strategyConfig \<times> error option \<Rightarrow> strategyConfig \<times> error option" where
  "decode_field fs m acc = (case field_of fs (fst m) of
     None \<Rightarrow> acc
   | Some f \<Rightarrow>
       if f = ''region'' then set_text f (\<lambda>x c. c\<lparr>sc_Region := x\<rparr>) (snd m) acc
       else if f = ''projectID'' then set_text f (\<lambda>x c. c\<lparr>sc_ProjectID := x\<rparr>) (snd m) acc
       else if f = ''createStrategy'' then ((fst acc)\<lparr>sc_CreateStrategy := Some (snd m)\<rparr>, snd acc)
       else if f = ''deleteStrategy'' then ((fst acc)\<lparr>sc_DeleteStrategy := Some (snd m)\<rparr>, snd acc)
       else ((fst acc)\<lparr>sc_ServiceUpdates := Some (snd m)\<rparr>, snd acc))"

text \<open>
  A value of the map, a pointer to a structure: null is nil, and an error leaves what was decoded before it.
\<close>

definition decode_strategy :: "string \<Rightarrow> string list \<Rightarrow> json \<Rightarrow> error option \<Rightarrow> strategyConfig option \<times> error option" where
  "decode_strategy type_name fs v err = (case v of
     JNull \<Rightarrow> (None, err)
   | JObject ms \<Rightarrow> (case fold (decode_field fs) ms (empty_strategy, err) of (c, err') \<Rightarrow> (Some c, err'))
   | _ \<Rightarrow> (Some empty_strategy, first_error err (ErrNew (''json: cannot unmarshal '' @ json_kind v @ '' into Go value of type '' @ type_name))))"

fun decode_strategies :: "string \<Rightarrow> string list \<Rightarrow> (string \<times> json) list \<Rightarrow> (string \<rightharpoonup> strategyConfig) \<Rightarrow> error option \<Rightarrow> error + (string \<rightharpoonup> strategyConfig)" where
  "decode_strategies ty fs [] m err = (case err of None \<Rightarrow> Inr m | Some e \<Rightarrow> Inl e)"
| "decode_strategies ty fs ((tier, v) # ms) m err = (case decode_strategy ty fs v err of
     (c, err') \<Rightarrow> decode_strategies ty fs ms (m(tier := c)) err')"

text \<open>
  \<^verbatim>\<open>json.Unmarshal\<close> into \<^verbatim>\<open>map[string]*StrategyConfig\<close>; a nil entry and a missing one are the same to the
  caller, so both are None.
\<close>

definition UnmarshalStrategies :: "string \<Rightarrow> string list \<Rightarrow> string \<Rightarrow> error + (string \<rightharpoonup> strategyConfig)" where
  "UnmarshalStrategies type_name fs s = (case json_document s of Inl e \<Rightarrow> Inl e
     | Inr (JObject ms) \<Rightarrow> decode_strategies type_name fs ms Map.empty None
     | Inr JNull \<Rightarrow> Inr Map.empty
     | Inr v \<Rightarrow> Inl (ErrNew (''json: cannot unmarshal '' @ json_kind v @ '' into Go value of type map[string]*'' @ type_name)))"

section \<open>AWS\<close>

definition aws_strategy_fields :: "string list" where
  "aws_strategy_fields = [''region'', ''createStrategy'', ''deleteStrategy'', ''serviceUpdates'']"

definition DefaultFinalizer :: string where
  "DefaultFinalizer = ''cloud-resources-operator.integreatly.org/finalizers''"

definition ResourceIdentifierAnnotation :: string where
  "ResourceIdentifierAnnotation = ''resourceIdentifier''"

definition NewConfigMapConfigManager :: "string \<Rightarrow> env \<Rightarrow> string \<Rightarrow> string \<Rightarrow> configMapConfigManager" where
  "NewConfigMapConfigManager def env cm namespace =
     \<lparr>cfg_Name = (if cm = '''' then def else cm),
      cfg_Namespace = (if namespace = '''' then (case GetWatchNamespace env of Inl _ \<Rightarrow> '''' | Inr ns \<Rightarrow> ns) else namespace)\<rparr>"

definition NewDefaultConfigMapConfigManager :: "env \<Rightarrow> configMapConfigManager" where
  "NewDefaultConfigMapConfigManager env = NewConfigMapConfigManager ''cloud-resources-aws-strategies'' env ''cloud-resources-aws-strategies''
     (case GetWatchNamespace env of Inl _ \<Rightarrow> '''' | Inr ns \<Rightarrow> ns)"

text \<open>The texts of the default config map; the tiers differ in a space after a comma.\<close>

definition tier_json :: "string \<Rightarrow> string" where
  "tier_json sep = ''{ '' @ quoted ''region'' @ '': '' @ quoted '''' @ '', '' @ quoted ''_network'' @ '': '' @ quoted '''' @ '','' @ sep @
     quoted ''createStrategy'' @ '': {}, '' @ quoted ''deleteStrategy'' @ '': {} }''"

definition strategies_json :: "string \<Rightarrow> string" where
  "strategies_json sep = ''{'' @ quoted ''development'' @ '': '' @ tier_json '' '' @ '', '' @ quoted ''production'' @ '': '' @ tier_json sep @ ''}''"

definition aws_BuildDefaultConfigMap :: labels where
  "aws_BuildDefaultConfigMap = [''blobstorage'' \<mapsto> strategies_json '' '', ''redis'' \<mapsto> strategies_json '''',
     ''postgres'' \<mapsto> strategies_json '''', ''_network'' \<mapsto> strategies_json '''']"

definition getTierStrategyForProvider :: "'w kube \<Rightarrow> configMapConfigManager \<Rightarrow> string \<Rightarrow> string \<Rightarrow> ('w, 'c, strategyConfig) kop" where
  "getTierStrategyForProvider k m rt tier =
     andThen (wrapping (''failed to get aws strategy config map '' @ cfg_Name m @ '' in namespace '' @ cfg_Namespace m)
       (GetConfigMapOrDefault k (cfg_Name m, cfg_Namespace m) (Some aws_BuildDefaultConfigMap))) (\<lambda>cm.
     let rawStrategyMapping = map_get cm rt in
     if rawStrategyMapping = '''' then throw (ErrNew (''aws strategy for resource type '' @ rt @ '' is not defined''))
     else andThen (wrapping (''failed to unmarshal strategy mapping for resource type '' @ rt)
                    (lift_sum (UnmarshalStrategies ''aws.StrategyConfig'' aws_strategy_fields rawStrategyMapping))) (\<lambda>strategyMapping.
       case strategyMapping tier of
         None \<Rightarrow> throw (ErrNew (''no strategy found for deployment type '' @ rt @ '' and deployment tier '' @ tier))
       | Some c \<Rightarrow> ret c))"

definition ReadStorageStrategy :: "'w kube \<Rightarrow> configMapConfigManager \<Rightarrow> string \<Rightarrow> string \<Rightarrow> ('w, 'c, strategyConfig) kop" where
  "ReadStorageStrategy k m rt tier =
     wrapping (''failed to get tier to strategy mapping for resource type '' @ rt) (getTierStrategyForProvider k m rt tier)"

definition getDefaultRegion :: "'w kube \<Rightarrow> ('w, 'c, string) kop" where
  "getDefaultRegion k =
     andThen (wrapping ''failed to retrieve region from cluster'' (GetAWSRegion k)) (\<lambda>region.
       if region = '''' then throw (ErrNew ''failed to retrieve region from cluster, region is not defined'') else ret region)"

definition GetRegionFromStrategyOrDefault :: "'w kube \<Rightarrow> strategyConfig \<Rightarrow> ('w, 'c, string) kop" where
  "GetRegionFromStrategyOrDefault k strategy =
     andThen (wrapping ''failed to get default region'' (getDefaultRegion k)) (\<lambda>defaultRegion.
       ret (if sc_Region strategy = '''' then defaultRegion else sc_Region strategy))"

text \<open>
  The credentials of a session. Creating the session itself (\<^verbatim>\<open>session.Must\<close>) reads local SDK settings;
  \<open>must\<close> is whether that succeeds, and it panics otherwise.
\<close>

datatype session_credentials =
    StaticCredentials string string
  | AssumeRole string
  | WebIdentityRole string string

record session =
  ses_Region :: string
  ses_Credentials :: session_credentials

definition CreateSessionFromStrategy ::
  "'w kube \<Rightarrow> files \<Rightarrow> (string \<Rightarrow> bool) \<Rightarrow> aws_credentials \<Rightarrow> strategyConfig \<Rightarrow> ('w, 'c, session) kop" where
  "CreateSessionFromStrategy k fs must creds strategy =
     andThen (wrapping ''failed to get region from strategy while creating aws session'' (GetRegionFromStrategyOrDefault k strategy)) (\<lambda>region.
     if \<not> must region then crash
     else ret \<lparr>ses_Region = region, ses_Credentials =
       (if cred_RoleArn creds \<noteq> ''''
        then (if IsRunModeLocal fs then AssumeRole (cred_RoleArn creds) else WebIdentityRole (cred_RoleArn creds) (cred_TokenFilePath creds))
        else StaticCredentials (cred_AccessKeyID creds) (cred_SecretAccessKey creds))\<rparr>)"

section \<open>GCP\<close>

definition gcp_strategy_fields :: "string list" where
  "gcp_strategy_fields = [''region'', ''projectID'', ''createStrategy'', ''deleteStrategy'']"

definition gcp_tier_json :: string where
  "gcp_tier_json = ''{ '' @ quoted ''region'' @ '': '' @ quoted '''' @ '', '' @ quoted ''projectID'' @ '': '' @ quoted '''' @ '', '' @
     quoted ''createStrategy'' @ '': {}, '' @ quoted ''deleteStrategy'' @ '': {} }''"

definition gcp_strategies_json :: string where
  "gcp_strategies_json = ''{'' @ quoted ''development'' @ '': '' @ gcp_tier_json @ '', '' @ quoted ''production'' @ '': '' @ gcp_tier_json @ ''}''"

definition gcp_BuildDefaultConfigMap :: labels where
  "gcp_BuildDefaultConfigMap = [''blobstorage'' \<mapsto> gcp_strategies_json, ''redis'' \<mapsto> gcp_strategies_json,
     ''postgres'' \<mapsto> gcp_strategies_json, ''_network'' \<mapsto> gcp_strategies_json]"

definition gcp_getDefaultRegion :: "'w kube \<Rightarrow> ('w, 'c, string) kop" where
  "gcp_getDefaultRegion k =
     andThen (wrapping ''failed to retrieve region from cluster'' (GetGCPRegion k)) (\<lambda>region.
       if region = '''' then throw (ErrNew ''failed to retrieve region from cluster, region is not defined'') else ret region)"

definition gcp_GetRegionFromStrategyOrDefault :: "'w kube \<Rightarrow> strategyConfig \<Rightarrow> ('w, 'c, string) kop" where
  "gcp_GetRegionFromStrategyOrDefault k strategy =
     andThen (wrapping ''failed to get default region'' (gcp_getDefaultRegion k)) (\<lambda>defaultRegion.
       ret (if sc_Region strategy = '''' then defaultRegion else sc_Region strategy))"

definition getDefaultProject :: "'w kube \<Rightarrow> ('w, 'c, string) kop" where
  "getDefaultProject k =
     andThen (wrapping ''failed to retrieve project from cluster'' (GetGCPProject k)) (\<lambda>defaultProject.
       if defaultProject = '''' then throw (ErrNew ''failed to retrieve project from cluster, project ID is not defined'') else ret defaultProject)"

definition GetProjectFromStrategyOrDefault :: "'w kube \<Rightarrow> strategyConfig \<Rightarrow> ('w, 'c, string) kop" where
  "GetProjectFromStrategyOrDefault k strategy =
     andThen (wrapping ''failed to get default project'' (getDefaultProject k)) (\<lambda>defaultProject.
       ret (if sc_ProjectID strategy = '''' then defaultProject else sc_ProjectID strategy))"

definition gcp_getTierStrategyForProvider :: "'w kube \<Rightarrow> configMapConfigManager \<Rightarrow> string \<Rightarrow> string \<Rightarrow> ('w, 'c, strategyConfig) kop" where
  "gcp_getTierStrategyForProvider k m rt tier =
     andThen (wrapping (''failed to get gcp strategy config map '' @ cfg_Name m @ '' in namespace '' @ cfg_Namespace m)
       (GetConfigMapOrDefault k (cfg_Name m, cfg_Namespace m) (Some gcp_BuildDefaultConfigMap))) (\<lambda>cm.
     let rawStrategyMapping = map_get cm rt in
     if rawStrategyMapping = '''' then throw (ErrNew (''gcp strategy for resource type '' @ rt @ '' is not defined''))
     else andThen (wrapping (''failed to unmarshal strategy mapping for resource type '' @ rt)
                    (lift_sum (UnmarshalStrategies ''gcp.StrategyConfig'' gcp_strategy_fields rawStrategyMapping))) (\<lambda>strategyMapping.
       case strategyMapping tier of
         None \<Rightarrow> throw (ErrNew (''no strategy found for deployment type '' @ rt @ '' and deployment tier '' @ tier))
       | Some c \<Rightarrow>
           andThen (if sc_ProjectID c = ''''
                    then andThen (wrapping ''failed to get default gcp project'' (GetProjectFromStrategyOrDefault k c)) (\<lambda>p. ret (c\<lparr>sc_ProjectID := p\<rparr>))
                    else ret c) (\<lambda>c.
           if sc_Region c = ''''
           then andThen (wrapping ''failed to get default gcp region'' (gcp_GetRegionFromStrategyOrDefault k c)) (\<lambda>r. ret (c\<lparr>sc_Region := r\<rparr>))
           else ret c)))"

definition gcp_ReadStorageStrategy :: "'w kube \<Rightarrow> configMapConfigManager \<Rightarrow> string \<Rightarrow> string \<Rightarrow> ('w, 'c, strategyConfig) kop" where
  "gcp_ReadStorageStrategy k m rt tier =
     wrapping (''failed to get tier to strategy mapping for resource type '' @ rt) (gcp_getTierStrategyForProvider k m rt tier)"


section \<open>Operations that only read\<close>

lemma quiet_config [quiet_rules]:
  "quiet (getTierStrategyForProvider k m rt tier)" "quiet (ReadStorageStrategy k m rt tier)" "quiet (getDefaultRegion k)"
  "quiet (GetRegionFromStrategyOrDefault k c)" "quiet (CreateSessionFromStrategy k fs must creds c)"
  "quiet (gcp_getDefaultRegion k)" "quiet (gcp_GetRegionFromStrategyOrDefault k c)" "quiet (getDefaultProject k)"
  "quiet (GetProjectFromStrategyOrDefault k c)" "quiet (gcp_getTierStrategyForProvider k m rt tier)" "quiet (gcp_ReadStorageStrategy k m rt tier)"
  unfolding getTierStrategyForProvider_def ReadStorageStrategy_def getDefaultRegion_def GetRegionFromStrategyOrDefault_def CreateSessionFromStrategy_def
    gcp_getDefaultRegion_def gcp_GetRegionFromStrategyOrDefault_def getDefaultProject_def GetProjectFromStrategyOrDefault_def
    gcp_getTierStrategyForProvider_def gcp_ReadStorageStrategy_def Let_def
  by (intro quiet_rules)+

lemma quiet_credentials [quiet_rules]: "quiet (getSTSCredentialsSecret k ns)" "quiet (isSTSCluster k fs)" "quiet (provisioned k q)"
  "quiet (reconcileAWSCredentials k q)" "quiet (reconcileGCPCredentials k q)" "quiet (ReconcileSTSCredentials k ns)"
  unfolding getSTSCredentialsSecret_def isSTSCluster_def provisioned_def reconcileAWSCredentials_def reconcileGCPCredentials_def
    ReconcileSTSCredentials_def Let_def
  by (intro quiet_rules)+

section \<open>Properties\<close>

text \<open>The tiers of the default config maps, decoded.\<close>

definition default_strategy :: strategyConfig where
  "default_strategy = empty_strategy\<lparr>sc_CreateStrategy := Some (JObject []), sc_DeleteStrategy := Some (JObject [])\<rparr>"

definition default_members :: "string \<Rightarrow> (string \<times> json) list" where
  "default_members second = (let tier = JObject [(''region'', JString ''''), (second, JString ''''), (''createStrategy'', JObject []), (''deleteStrategy'', JObject [])]
     in [(''development'', tier), (''production'', tier)])"

lemma default_documents:
  "json_document (strategies_json '' '') = Inr (JObject (default_members ''_network''))"
  "json_document (strategies_json '''') = Inr (JObject (default_members ''_network''))"
  "json_document gcp_strategies_json = Inr (JObject (default_members ''projectID''))"
  by code_simp+

lemma default_strategies_decode:
  assumes "json_document s = Inr (JObject (default_members second))"
    and "(second, fs, ty) \<in> {(''_network'', aws_strategy_fields, ''aws.StrategyConfig''), (''projectID'', gcp_strategy_fields, ''gcp.StrategyConfig'')}"
  shows "UnmarshalStrategies ty fs s = Inr [''development'' \<mapsto> default_strategy, ''production'' \<mapsto> default_strategy]"
proof -
  have f: "field_of aws_strategy_fields ''_network'' = None" "field_of aws_strategy_fields ''region'' = Some ''region''"
    "field_of aws_strategy_fields ''createStrategy'' = Some ''createStrategy''" "field_of aws_strategy_fields ''deleteStrategy'' = Some ''deleteStrategy''"
    "field_of gcp_strategy_fields ''projectID'' = Some ''projectID''" "field_of gcp_strategy_fields ''region'' = Some ''region''"
    "field_of gcp_strategy_fields ''createStrategy'' = Some ''createStrategy''" "field_of gcp_strategy_fields ''deleteStrategy'' = Some ''deleteStrategy''"
    by code_simp+
  show ?thesis using assms f
    by (auto simp: Let_def UnmarshalStrategies_def default_members_def decode_strategy_def decode_field_def set_text_def default_strategy_def empty_strategy_def)
qed

text \<open>Reading a strategy when the config map's entry for the resource type decodes.\<close>

lemma ReadStorageStrategy_decoded:
  assumes "GetConfigMapOrDefault k (cfg_Name m, cfg_Namespace m) (Some aws_BuildDefaultConfigMap) s = (Val cm, t)"
    and "map_get cm rt \<noteq> ''''" and "UnmarshalStrategies ''aws.StrategyConfig'' aws_strategy_fields (map_get cm rt) = Inr tiers"
  shows "ReadStorageStrategy k m rt tier s = (case tiers tier of
      Some c \<Rightarrow> (Val c, t)
    | None \<Rightarrow> (Fail (ErrWrap (ErrNew (''no strategy found for deployment type '' @ rt @ '' and deployment tier '' @ tier))
                    (''failed to get tier to strategy mapping for resource type '' @ rt)), t))"
  using assms by (simp add: ReadStorageStrategy_def getTierStrategyForProvider_def op_simps Let_def split: option.splits)

text \<open>
  Without a strategy config map the AWS strategy of every resource type the operator knows is the
  built-in one, for the tiers development and production alike; any other resource type and any other tier
  is an error.
\<close>

theorem default_aws_strategy:
  assumes "\<And>w. kube_GetConfigMap k (cfg_Name m, cfg_Namespace m) w = (Inl e, w)" and "k8s_IsNotFound e"
  shows "ReadStorageStrategy k m rt tier s =
    (if rt \<notin> {''blobstorage'', ''redis'', ''postgres'', ''_network''}
     then (Fail (ErrWrap (ErrNew (''aws strategy for resource type '' @ rt @ '' is not defined'')) (''failed to get tier to strategy mapping for resource type '' @ rt)), s)
     else if tier \<in> {''development'', ''production''} then (Val default_strategy, s)
     else (Fail (ErrWrap (ErrNew (''no strategy found for deployment type '' @ rt @ '' and deployment tier '' @ tier))
                  (''failed to get tier to strategy mapping for resource type '' @ rt)), s))"
proof -
  have cm: "GetConfigMapOrDefault k (cfg_Name m, cfg_Namespace m) (Some aws_BuildDefaultConfigMap) s = (Val (Some aws_BuildDefaultConfigMap), s)"
    using assms by (simp add: GetConfigMapOrDefault_def query_def op_simps)
  show ?thesis
  proof (cases "rt \<in> {''blobstorage'', ''redis'', ''postgres'', ''_network''}")
    case True
    define x where "x = (if rt = ''blobstorage'' then '' '' else '''')"
    have x: "x = '' '' \<or> x = ''''" "map_get (Some aws_BuildDefaultConfigMap) rt = strategies_json x"
      using True by (simp_all add: x_def map_get_def aws_BuildDefaultConfigMap_def) blast
    have doc: "json_document (strategies_json x) = Inr (JObject (default_members ''_network''))" using x(1) default_documents by auto
    let ?tiers = "[''development'' \<mapsto> default_strategy, ''production'' \<mapsto> default_strategy]"
    have dec: "UnmarshalStrategies ''aws.StrategyConfig'' aws_strategy_fields (map_get (Some aws_BuildDefaultConfigMap) rt) = Inr ?tiers"
      unfolding x(2) using default_strategies_decode [OF doc, of aws_strategy_fields "''aws.StrategyConfig''"] by simp
    have ne: "map_get (Some aws_BuildDefaultConfigMap) rt \<noteq> ''''" unfolding x(2) by (simp add: strategies_json_def)
    have tiers: "?tiers tier = (if tier \<in> {''development'', ''production''} then Some default_strategy else None)" by simp
    show ?thesis unfolding ReadStorageStrategy_decoded [OF cm ne dec] tiers using True by (simp only: if_False not_True_eq_False split: if_splits) simp
  next
    case False
    then have "map_get (Some aws_BuildDefaultConfigMap) rt = ''''" by (simp add: map_get_def aws_BuildDefaultConfigMap_def)
    with False show ?thesis by (simp add: ReadStorageStrategy_def getTierStrategyForProvider_def cm op_simps Let_def)
  qed
qed

text \<open>What a write of a credential request looks like: the operator's spec under the operator's name, at most once.\<close>

definition request_event :: "string \<Rightarrow> string \<Rightarrow> string \<Rightarrow> 'c event \<Rightarrow> bool" where
  "request_event name ns spec e = (case e of
     EvCreateCredentialsRequest q _ \<Rightarrow> cq_ProviderSpec q = Some spec \<and> cq_SecretRef q = (name, ns)
   | EvUpdateCredentialsRequest q _ \<Rightarrow> cq_ProviderSpec q = Some spec \<and> cq_SecretRef q = (name, ns)
   | _ \<Rightarrow> False)"

lemma emits_CreateOrUpdate_request:
  "emits (CreateOrUpdate_request k name ns spec) (\<lambda>es r. es = [] \<or> (\<exists>e. es = [e] \<and> request_event name ns spec e))"
proof -
  let ?S = "\<lambda>es r. es = [] \<or> (\<exists>e. es = [e] \<and> request_event name ns spec e)"
  have wr: "emits (request (kube_CreateCredentialsRequest k q) (\<lambda>r. EvCreateCredentialsRequest q (ok r))) ?S"
    "emits (request (kube_UpdateCredentialsRequest k q) (\<lambda>r. EvUpdateCredentialsRequest q (ok r))) ?S"
    if "cq_ProviderSpec q = Some spec" "cq_SecretRef q = (name, ns)" for q
    by (rule emits_weaken [OF emits_request]; use that in \<open>auto simp: request_event_def\<close>)+
  show ?thesis unfolding CreateOrUpdate_request_def Let_def
    by (intro emits_andThen_quiet quiet_attempt quiet_query emits_sum emits_if wr emits_throw emits_ret) (simp_all add: requested_def)
qed

lemma emits_reconcileCredentials:
  "emits (reconcileCredentials k c name ns entries) (\<lambda>es r.
     (es = [] \<or> (\<exists>e spec. es = [e] \<and> EncodeProviderSpec c entries = Inr spec \<and> request_event name ns spec e)) \<and>
     (\<forall>creds. r = Val creds \<longrightarrow> cred_RoleArn creds = '''' \<and> cred_AccessKeyID creds \<noteq> '''' \<and> cred_SecretAccessKey creds \<noteq> ''''))"
proof -
  let ?R = "\<lambda>es (r :: credentialsRequest res). es = [] \<or> (\<exists>e spec. es = [e] \<and> EncodeProviderSpec c entries = Inr spec \<and> request_event name ns spec e)"
  have req: "emits (reconcileCredentialRequest k (EncodeProviderSpec c) name ns entries) ?R"
  proof (cases "EncodeProviderSpec c entries")
    case (Inr spec)
    then show ?thesis
      by (simp add: reconcileCredentialRequest_def) (rule emits_wrapping [OF emits_CreateOrUpdate_request], auto)
  qed (simp add: reconcileCredentialRequest_def emits_throw)
  have keys: "keys = (a, b) \<Longrightarrow> a \<noteq> '''' \<and> b \<noteq> ''''" if "reconcileAWSCredentials k q s = (Val keys, t)" for q s t keys a b
    using that by (auto simp: reconcileAWSCredentials_def Let_def op_simps split: prod.splits res.splits if_splits)
  have rest: "emits (andThen (wrapping m1 (poll (provisioned k q0) (codec_polls c))) (\<lambda>q.
      andThen (wrapping (m2 q) (lift_sum (DecodeProviderSpec c (cq_ProviderStatus q)))) (\<lambda>(user, policy).
      andThen (wrapping (m3 q) (reconcileAWSCredentials k q)) (\<lambda>(ak, sk).
        ret \<lparr>cred_Username = user, cred_PolicyName = policy, cred_AccessKeyID = ak, cred_SecretAccessKey = sk, cred_RoleArn = '''', cred_TokenFilePath = ''''\<rparr>))))
     (\<lambda>es r. es = [] \<and> (\<forall>creds. r = Val creds \<longrightarrow> cred_RoleArn creds = '''' \<and> cred_AccessKeyID creds \<noteq> '''' \<and> cred_SecretAccessKey creds \<noteq> ''''))"
    (is "emits ?m _") for q0 m1 m2 m3
  proof (rule emitsI)
    fix s r t assume run: "?m s = (r, t)"
    have "quiet ?m" by (intro quiet_rules)
    from quietD [OF this run] have "trace t = trace s" .
    moreover have "\<forall>creds. r = Val creds \<longrightarrow> cred_RoleArn creds = '''' \<and> cred_AccessKeyID creds \<noteq> '''' \<and> cred_SecretAccessKey creds \<noteq> ''''"
      using run by (auto simp: op_simps dest!: keys split: prod.splits res.splits)
    ultimately show "\<exists>es. trace t = trace s @ es \<and> es = [] \<and>
        (\<forall>creds. r = Val creds \<longrightarrow> cred_RoleArn creds = '''' \<and> cred_AccessKeyID creds \<noteq> '''' \<and> cred_SecretAccessKey creds \<noteq> '''')" by simp
  qed
  show ?thesis unfolding reconcileCredentials_def
    by (rule emits_andThen [OF emits_wrapping [OF req]]) (auto intro: emits_weaken [OF rest])
qed

text \<open>
  The credentials an AWS session is created with are never incomplete. With the credential minter they
  are two non-empty keys, and at most one request is written for them, with the operator's own policy; with
  STS they are a non-empty role, nothing is written, and the session takes the role (through the web
  identity token in a cluster).
\<close>

theorem credentials_complete:
  assumes "ReconcileProviderCredentials k c cm ns s = (Val creds, t)" and "CreateSessionFromStrategy k fs must creds strategy t = (Val ses, u)"
  shows "case cm of
      Minter name \<Rightarrow> (\<exists>i sk. i \<noteq> '''' \<and> sk \<noteq> '''' \<and> ses_Credentials ses = StaticCredentials i sk) \<and>
        (trace u = trace s \<or> (\<exists>e spec. trace u = trace s @ [e] \<and> EncodeProviderSpec c operatorEntries = Inr spec \<and> request_event name ns spec e))
    | STS _ \<Rightarrow> trace u = trace s \<and> (\<exists>arn. arn \<noteq> '''' \<and>
        ses_Credentials ses = (if IsRunModeLocal fs then AssumeRole arn else WebIdentityRole arn defaultTokenPath))"
proof -
  have tr: "trace u = trace t" using quietD [OF quiet_config(5) assms(2)] .
  have ses: "ses_Credentials ses = (if cred_RoleArn creds \<noteq> ''''
        then (if IsRunModeLocal fs then AssumeRole (cred_RoleArn creds) else WebIdentityRole (cred_RoleArn creds) (cred_TokenFilePath creds))
        else StaticCredentials (cred_AccessKeyID creds) (cred_SecretAccessKey creds))"
    using assms(2) by (auto simp: CreateSessionFromStrategy_def op_simps split: prod.splits res.splits if_splits)
  show ?thesis
  proof (cases cm)
    case (Minter name)
    then have "reconcileCredentials k c name ns operatorEntries s = (Val creds, t)" using assms(1) by (simp add: ReconcileProviderCredentials_def)
    from emitsD [OF emits_reconcileCredentials this] ses tr Minter show ?thesis by auto
  next
    case (STS operatorNs)
    then have run: "ReconcileSTSCredentials k operatorNs s = (Val creds, t)" using assms(1) by (simp add: ReconcileProviderCredentials_def)
    have "cred_RoleArn creds \<noteq> '''' \<and> cred_TokenFilePath creds = defaultTokenPath"
      using run by (auto simp: ReconcileSTSCredentials_def Let_def op_simps split: prod.splits res.splits if_splits)
    with STS ses tr quietD [OF quiet_credentials(6) run] show ?thesis by auto
  qed
qed

section \<open>The properties at a sample cluster\<close>

theorem default_aws_strategy_witness:
  "ReadStorageStrategy (sample_kube sample_cr) (NewDefaultConfigMapConfigManager Map.empty) ''postgres'' ''production'' (sample_sys :: (unit, unit event) sys) =
     (Val default_strategy, sample_sys)"
  using default_aws_strategy [of "sample_kube sample_cr" "NewDefaultConfigMapConfigManager Map.empty" not_found "''postgres''" "''production''"
      "sample_sys :: (unit, unit event) sys"]
  by (simp add: sample_kube_def not_found_def k8s_IsNotFound_def)

definition sts_kube :: "unit kube" where
  "sts_kube = (sample_kube sample_cr)\<lparr>kube_GetSecret := (\<lambda>_ w. (Inr \<lparr>sec_Name = ''sts-credentials'', sec_Namespace = ''ns'',
     sec_Data = Some [''role_arn'' \<mapsto> ''arn:role''], sec_Type = ''Opaque'', sec_Owners = []\<rparr>, w))\<rparr>"

definition cluster_files :: files where
  "cluster_files = \<lparr>fs_Stat = (\<lambda>_. None), fs_ReadFile = (\<lambda>_. Inr ''ns''), fs_IsNotExist = (\<lambda>_. False)\<rparr>"

definition sample_codec :: aws_codec where
  "sample_codec = \<lparr>EncodeProviderSpec = (\<lambda>_. Inr ''spec''), DecodeProviderSpec = (\<lambda>_. Inr (''user'', ''policy'')), codec_polls = 60\<rparr>"

theorem credentials_complete_witness:
  "\<exists>ses. (andThen (ReconcileProviderCredentials sts_kube sample_codec (STS ''ns'') ''app'') (\<lambda>creds.
       CreateSessionFromStrategy sts_kube cluster_files (\<lambda>_. True) creds default_strategy)) (sample_sys :: (unit, unit event) sys) = (Val ses, sample_sys) \<and>
     (\<exists>arn. arn \<noteq> '''' \<and> ses_Credentials ses = WebIdentityRole arn defaultTokenPath)"
proof -
  let ?s = "sample_sys :: (unit, unit event) sys"
  let ?creds = "\<lparr>cred_Username = '''', cred_PolicyName = '''', cred_AccessKeyID = '''', cred_SecretAccessKey = '''',
                  cred_RoleArn = ''arn:role'', cred_TokenFilePath = defaultTokenPath\<rparr>"
  have local: "\<not> IsRunModeLocal cluster_files" by (simp add: IsRunModeLocal_def isRunModeCluster_def cluster_files_def)
  have a: "ReconcileProviderCredentials sts_kube sample_codec (STS ''ns'') ''app'' ?s = (Val ?creds, ?s)"
    by (simp add: ReconcileProviderCredentials_def ReconcileSTSCredentials_def getSTSCredentialsSecret_def sts_kube_def map_get_def query_def
        sample_sys_def op_simps Let_def)
  obtain ses where b: "CreateSessionFromStrategy sts_kube cluster_files (\<lambda>_. True) ?creds default_strategy ?s = (Val ses, ?s)"
    by (simp add: CreateSessionFromStrategy_def GetRegionFromStrategyOrDefault_def getDefaultRegion_def GetAWSRegion_def GetClusterInfrastructure_def
        sts_kube_def sample_kube_def sample_infra_def query_def sample_sys_def op_simps)
  show ?thesis using credentials_complete [OF a b] local a b by (auto simp: op_simps)
qed

end
