(* ===== verification/Controllers.thy ===== *)
theory Controllers
  imports Kubernetes
begin

text \<open>
  The reconcilers of Postgres, Redis and BlobStorage (\<^verbatim>\<open>controllers/postgres\<close>, \<^verbatim>\<open>controllers/redis\<close>,
  \<^verbatim>\<open>controllers/blobstorage\<close>). The three \<^verbatim>\<open>Reconcile\<close> functions have one shape; where they differ is a
  record (\<open>flavour\<close>), so that what holds of the shape is proved once. Cloud providers are parameters
  behind the interface of \<^verbatim>\<open>pkg/providers/types.go\<close>.
\<close>

section \<open>Definitions\<close>

text \<open>
  A provider: \<^verbatim>\<open>CreateX\<close> (\<^verbatim>\<open>ReconcilePostgres\<close>) returns the connection data of a finished resource or
  nil, a message and an error; \<^verbatim>\<open>DeleteX\<close> a message and an error. Both get a pointer to the instance
  and may change it, so they return it as well; \<open>Inl\<close> is a call that panics or does not return.
\<close>

record 'w provider =
  GetName :: string
  SupportsStrategy :: "string \<Rightarrow> bool"
  GetReconcileTime :: "cr \<Rightarrow> int"
  prov_Create :: "cr \<Rightarrow> 'w \<Rightarrow> (abort + (labels option \<times> string \<times> error option) \<times> cr) \<times> 'w"
  prov_Delete :: "cr \<Rightarrow> 'w \<Rightarrow> (abort + (string \<times> error option) \<times> cr) \<times> 'w"

record ctrl_result =
  res_Requeue :: bool
  res_RequeueAfter :: int

record flavour =
  fl_kind :: kind
  fl_strategy :: "deploymentStrategyMapping \<Rightarrow> string"
  fl_config_error :: "cr \<Rightarrow> error \<Rightarrow> error"
  fl_delete_error :: string
  fl_skip_create :: bool
  fl_unsupported_phase :: string

text \<open>A call of a provider, recorded in the trace.\<close>

definition invoke :: "('w \<Rightarrow> (abort + 'a) \<times> 'w) \<Rightarrow> 'e \<Rightarrow> (('w, 'e) sys, 'a) op" where
  "invoke m ev = (\<lambda>s. case m (world s) of
     (Inr x, w) \<Rightarrow> (Val x, s\<lparr>world := w, trace := trace s @ [ev]\<rparr>)
   | (Inl a, w) \<Rightarrow> (Abort a, s\<lparr>world := w, trace := trace s @ [ev]\<rparr>))"

definition requeue_after :: "'w provider \<Rightarrow> cr \<Rightarrow> ctrl_result" where
  "requeue_after p inst = \<lparr>res_Requeue = True, res_RequeueAfter = GetReconcileTime p inst\<rparr>"

definition no_requeue :: ctrl_result where
  "no_requeue = \<lparr>res_Requeue = False, res_RequeueAfter = 0\<rparr>"

definition empty_ref :: secretRef where
  "empty_ref = \<lparr>ref_Name = '''', ref_Namespace = ''''\<rparr>"

definition reconcile_deletion :: "'w kube \<Rightarrow> flavour \<Rightarrow> 'w provider \<Rightarrow> cr \<Rightarrow> ('w, 'c, ctrl_result) kop" where
  "reconcile_deletion k fl p inst =
     andThen (invoke (prov_Delete p inst) (EvProviderDelete (fl_kind fl) (GetName p) inst)) (\<lambda>((msg, err), inst1).
     case err of
       Some e \<Rightarrow> andThen (UpdatePhase k (fl_kind fl) inst1 PhaseFailed (WrapError msg (Some e)))
                   (\<lambda>_. throw (ErrWrap e (fl_delete_error fl)))
     | None \<Rightarrow> andThen (UpdatePhase k (fl_kind fl) inst1 PhaseDeleteInProgress msg)
                 (\<lambda>inst2. ret (requeue_after p inst2)))"

definition reconcile_skip :: "'w kube \<Rightarrow> flavour \<Rightarrow> 'w provider \<Rightarrow> cr \<Rightarrow> ('w, 'c, ctrl_result) kop" where
  "reconcile_skip k fl p inst =
     andThen (UpdatePhase k (fl_kind fl) inst PhasePaused StatusSkipCreate) (\<lambda>inst1. ret (requeue_after p inst1))"

text \<open>The last status of a reconcile that finished, written directly.\<close>

definition complete_status :: "string \<Rightarrow> string \<Rightarrow> string \<Rightarrow> cr \<Rightarrow> cr" where
  "complete_status strategyToUse name msg inst =
     with_strategy strategyToUse name (with_secretRef (spec_SecretRef (cr_spec inst)) (with_phase PhaseComplete msg inst))"

definition status_update :: "'w kube \<Rightarrow> kind \<Rightarrow> cr \<Rightarrow> ('w, 'c, cr) kop" where
  "status_update k kind inst =
     wrapping (''failed to update instance '' @ om_Name (cr_meta inst) @ '' in namespace '' @ om_Namespace (cr_meta inst))
       (request (kube_StatusUpdate k kind inst) (\<lambda>r. EvStatus kind inst (ok r)))"

definition reconcile_creation :: "'w kube \<Rightarrow> flavour \<Rightarrow> 'w provider \<Rightarrow> string \<Rightarrow> cr \<Rightarrow> ('w, 'c, ctrl_result) kop" where
  "reconcile_creation k fl p strategyToUse inst =
     andThen (invoke (prov_Create p inst) (EvProviderCreate (fl_kind fl) (GetName p) inst)) (\<lambda>((details, msg, err), inst1).
     case err of
       Some e \<Rightarrow> andThen (UpdatePhase k (fl_kind fl) (with_secretRef (Some empty_ref) inst1) PhaseFailed (WrapError msg (Some e)))
                   (\<lambda>_. throw e)
     | None \<Rightarrow> (case details of
         None \<Rightarrow> andThen (UpdatePhase k (fl_kind fl) (with_secretRef (Some empty_ref) inst1) PhaseInProgress msg)
                   (\<lambda>inst2. ret (requeue_after p inst2))
       | Some d \<Rightarrow>
           andThen (wrapping ''failed to reconcile secret'' (ReconcileResultSecret k (fl_kind fl) inst1 d)) (\<lambda>inst2.
           andThen (status_update k (fl_kind fl) (complete_status strategyToUse (GetName p) msg inst2))
             (\<lambda>inst3. ret (requeue_after p inst3)))))"

text \<open>The body of the loop over the providers, for the first one that supports the strategy.\<close>

definition reconcile_with :: "'w kube \<Rightarrow> flavour \<Rightarrow> 'w provider \<Rightarrow> string \<Rightarrow> cr \<Rightarrow> ('w, 'c, ctrl_result) kop" where
  "reconcile_with k fl p strategyToUse inst0 =
     (let inst = with_strategy strategyToUse (GetName p) inst0 in
      andThen (if st_Strategy (cr_status inst) \<noteq> strategyToUse \<or> st_Provider (cr_status inst) \<noteq> GetName p
               then status_update k (fl_kind fl) inst else ret inst) (\<lambda>inst.
      if om_DeletionTimestamp (cr_meta inst) \<noteq> None then reconcile_deletion k fl p inst
      else if fl_skip_create fl \<and> spec_SkipCreate (cr_spec inst) then reconcile_skip k fl p inst
      else reconcile_creation k fl p strategyToUse inst))"

fun reconcile_loop ::
  "'w kube \<Rightarrow> flavour \<Rightarrow> string \<Rightarrow> string \<Rightarrow> cr \<Rightarrow> 'w provider list \<Rightarrow> ('w, 'c, ctrl_result) kop" where
  "reconcile_loop k fl mapped strategyToUse inst [] =
     andThen (UpdatePhase k (fl_kind fl) inst (fl_unsupported_phase fl) (WrapError StatusUnsupportedType None))
       (\<lambda>_. throw (ErrNew (''unsupported deployment strategy '' @ mapped)))"
| "reconcile_loop k fl mapped strategyToUse inst (p # ps) =
     (if \<not> SupportsStrategy p strategyToUse then reconcile_loop k fl mapped strategyToUse inst ps
      else reconcile_with k fl p strategyToUse inst)"

text \<open>An instance that already has a strategy keeps it, whatever the config map says.\<close>

definition strategy_to_use :: "flavour \<Rightarrow> deploymentStrategyMapping \<Rightarrow> cr \<Rightarrow> string" where
  "strategy_to_use fl stratMap inst =
     (if st_Strategy (cr_status inst) \<noteq> '''' then st_Strategy (cr_status inst) else fl_strategy fl stratMap)"

definition reconcile :: "'w kube \<Rightarrow> flavour \<Rightarrow> 'w provider list \<Rightarrow> nsName \<Rightarrow> ('w, 'c, ctrl_result) kop" where
  "reconcile k fl providerList req =
     (let cfgMgr = NewConfigManager (kube_env k) ''cloud-resource-config'' (snd req) in
      andThen (attempt (query (kube_Get k (fl_kind fl) req))) (\<lambda>r. case r of
        Inl err \<Rightarrow> if k8s_IsNotFound err then ret no_requeue else throw err
      | Inr inst \<Rightarrow>
          andThen (attempt (GetStrategyMappingForDeploymentType k cfgMgr (spec_Type (cr_spec inst)))) (\<lambda>r. case r of
            Inl err \<Rightarrow> andThen (UpdatePhase k (fl_kind fl) inst PhaseFailed (WrapError StatusDeploymentConfigNotFound (Some err)))
                          (\<lambda>_. throw (fl_config_error fl inst err))
          | Inr stratMap \<Rightarrow>
              reconcile_loop k fl (fl_strategy fl stratMap) (strategy_to_use fl stratMap inst) inst providerList)))"

section \<open>The three reconcilers\<close>

definition wrapped_config_error :: "cr \<Rightarrow> error \<Rightarrow> error" where
  "wrapped_config_error inst err = ErrWrap err (''failed to read deployment type config for deployment '' @ spec_Type (cr_spec inst))"

definition postgres_flavour :: flavour where
  "postgres_flavour = \<lparr>fl_kind = Postgres, fl_strategy = dsm_Postgres, fl_config_error = wrapped_config_error,
     fl_delete_error = ''failed to perform provider-specific storage deletion'', fl_skip_create = True,
     fl_unsupported_phase = PhaseFailed\<rparr>"

definition redis_flavour :: flavour where
  "redis_flavour = \<lparr>fl_kind = Redis, fl_strategy = dsm_Redis, fl_config_error = wrapped_config_error,
     fl_delete_error = ''failed to perform provider specific cluster deletion'', fl_skip_create = True,
     fl_unsupported_phase = PhaseInProgress\<rparr>"

definition blobstorage_flavour :: flavour where
  "blobstorage_flavour = \<lparr>fl_kind = BlobStorage, fl_strategy = dsm_BlobStorage, fl_config_error = (\<lambda>_ err. err),
     fl_delete_error = ''failed to perform provider-specific storage deletion'', fl_skip_create = False,
     fl_unsupported_phase = PhaseFailed\<rparr>"

definition PostgresReconcile :: "'w kube \<Rightarrow> 'w provider list \<Rightarrow> nsName \<Rightarrow> ('w, 'c, ctrl_result) kop" where
  "PostgresReconcile k providerList req = reconcile k postgres_flavour providerList req"

definition RedisReconcile :: "'w kube \<Rightarrow> 'w provider list \<Rightarrow> nsName \<Rightarrow> ('w, 'c, ctrl_result) kop" where
  "RedisReconcile k providerList req = reconcile k redis_flavour providerList req"

definition BlobStorageReconcile :: "'w kube \<Rightarrow> 'w provider list \<Rightarrow> nsName \<Rightarrow> ('w, 'c, ctrl_result) kop" where
  "BlobStorageReconcile k providerList req = reconcile k blobstorage_flavour providerList req"


section \<open>Specification: one decision per reconcile\<close>

text \<open>
  What a reconcile may do is decided by the instance and the strategy mapping alone. \<open>permitted\<close> gives,
  for every decision, the state-changing requests in their order and the outcomes they go with.
\<close>

datatype 'w decision = Unsupported | DeleteWith "'w provider" | PauseWith "'w provider" | CreateWith "'w provider"

definition decide :: "flavour \<Rightarrow> string \<Rightarrow> 'w provider list \<Rightarrow> cr \<Rightarrow> 'w decision" where
  "decide fl strat ps inst = (case find (\<lambda>p. SupportsStrategy p strat) ps of
     None \<Rightarrow> Unsupported
   | Some p \<Rightarrow> if om_DeletionTimestamp (cr_meta inst) \<noteq> None then DeleteWith p
              else if fl_skip_create fl \<and> spec_SkipCreate (cr_spec inst) then PauseWith p else CreateWith p)"

text \<open>One status write: its success decides between the continuation and an error.\<close>

definition reports :: "kind \<Rightarrow> (cr \<Rightarrow> bool) \<Rightarrow> ctrl_result res \<Rightarrow> 'c event list \<Rightarrow> bool" where
  "reports kind P r es \<longleftrightarrow> (\<exists>i b. es = [EvStatus kind i b] \<and> P i \<and> (\<not> b \<longrightarrow> (\<exists>e. r = Fail e)))"

definition is_fail :: "'a res \<Rightarrow> bool" where
  "is_fail r \<longleftrightarrow> (\<exists>e. r = Fail e)"

definition requeues :: "ctrl_result res \<Rightarrow> bool" where
  "requeues r \<longleftrightarrow> (\<exists>c. r = Val c \<and> res_Requeue c)"

definition has_phase :: "string \<Rightarrow> cr \<Rightarrow> bool" where
  "has_phase ph i \<longleftrightarrow> st_Phase (cr_status i) = ph"

definition clears_secret :: "cr \<Rightarrow> bool" where
  "clears_secret i \<longleftrightarrow> st_SecretRef (cr_status i) = Some empty_ref"

definition is_complete :: "string \<Rightarrow> string \<Rightarrow> cr \<Rightarrow> bool" where
  "is_complete strat name i \<longleftrightarrow> has_phase PhaseComplete i \<and> st_SecretRef (cr_status i) = spec_SecretRef (cr_spec i) \<and>
     spec_SecretRef (cr_spec i) \<noteq> None \<and> st_Strategy (cr_status i) = strat \<and> st_Provider (cr_status i) = name"

definition creation_permitted :: "kind \<Rightarrow> string \<Rightarrow> string \<Rightarrow> 'c event list \<Rightarrow> ctrl_result res \<Rightarrow> bool" where
  "creation_permitted kind strat name es r \<longleftrightarrow>
     (es = [] \<and> \<not> is_fail r) \<or>
     (is_fail r \<and> reports kind (\<lambda>i. has_phase PhaseFailed i \<and> clears_secret i) r es) \<or>
     ((requeues r \<or> is_fail r) \<and> reports kind (\<lambda>i. has_phase PhaseInProgress i \<and> clears_secret i) r es) \<or>
     (is_fail r \<and> secret_failed kind es) \<or>
     (\<exists>d ws st. es = ws @ st \<and> secret_written d ws \<and> reports kind (is_complete strat name) r st \<and> (requeues r \<or> is_fail r))"

definition deletion_permitted :: "kind \<Rightarrow> 'c event list \<Rightarrow> ctrl_result res \<Rightarrow> bool" where
  "deletion_permitted kind es r \<longleftrightarrow>
     (es = [] \<and> \<not> is_fail r) \<or>
     (is_fail r \<and> reports kind (has_phase PhaseFailed) r es) \<or>
     ((requeues r \<or> is_fail r) \<and> reports kind (has_phase PhaseDeleteInProgress) r es)"

fun permitted :: "flavour \<Rightarrow> string \<Rightarrow> cr \<Rightarrow> 'w decision \<Rightarrow> 'c event list \<Rightarrow> ctrl_result res \<Rightarrow> bool" where
  "permitted fl strat inst Unsupported es r \<longleftrightarrow>
     is_fail r \<and> reports (fl_kind fl) (\<lambda>i. has_phase (fl_unsupported_phase fl) i \<and> cr_spec i = cr_spec inst) r es"
| "permitted fl strat inst (PauseWith p) es r \<longleftrightarrow>
     reports (fl_kind fl) (\<lambda>i. has_phase PhasePaused i \<and> st_Strategy (cr_status i) = strat \<and> cr_spec i = cr_spec inst) r es \<and>
     (requeues r \<or> is_fail r)"
| "permitted fl strat inst (DeleteWith p) es r \<longleftrightarrow>
     (\<exists>rest. es = EvProviderDelete (fl_kind fl) (GetName p) (with_strategy strat (GetName p) inst) # rest \<and>
        deletion_permitted (fl_kind fl) rest r)"
| "permitted fl strat inst (CreateWith p) es r \<longleftrightarrow>
     (\<exists>rest. es = EvProviderCreate (fl_kind fl) (GetName p) (with_strategy strat (GetName p) inst) # rest \<and>
        creation_permitted (fl_kind fl) strat (GetName p) rest r)"


lemma emits_invoke: "emits (invoke m ev) (\<lambda>es r. es = [ev] \<and> (\<forall>e. r \<noteq> Fail e))"
  by (auto simp: emits_def invoke_def split: prod.splits sum.splits)

lemma outcome_simps [simp]:
  "is_fail (Fail e)" "\<not> is_fail (Val x)" "\<not> is_fail (Abort a)"
  "requeues (Val c) = res_Requeue c" "\<not> requeues (Fail e)" "\<not> requeues (Abort a)"
  "res_Requeue (requeue_after p inst)" "res_Requeue no_requeue = False"
  by (simp_all add: is_fail_def requeues_def requeue_after_def no_requeue_def)

text \<open>An update of the phase followed by an error, and one followed by a requeue.\<close>

lemma emits_report_fail:
  assumes "msg \<noteq> ''''" and "P (with_phase ph msg i)"
  shows "emits (andThen (UpdatePhase k kind i ph msg) (\<lambda>_. throw e)) (\<lambda>es r. is_fail r \<and> reports kind P r es)"
  by (rule emits_andThen [OF emits_UpdatePhase]) (use assms in \<open>auto intro!: emits_throw simp: reports_def\<close>)

lemma emits_report_requeue:
  assumes "P (with_phase ph msg i)"
  shows "emits (andThen (UpdatePhase k kind i ph msg) (\<lambda>j. ret (requeue_after p j)))
    (\<lambda>es r. (es = [] \<and> requeues r \<and> msg = '''') \<or> ((requeues r \<or> is_fail r) \<and> reports kind P r es))"
  by (rule emits_andThen [OF emits_UpdatePhase]) (use assms in \<open>auto intro!: emits_ret simp: reports_def\<close>)

lemma emits_status_update:
  assumes "P i"
  shows "emits (andThen (status_update k kind i) (\<lambda>j. ret (requeue_after p j)))
    (\<lambda>es r. (requeues r \<or> is_fail r) \<and> reports kind P r es)"
  unfolding status_update_def
  by (rule emits_andThen [OF emits_wrapping [OF emits_request, where S = "\<lambda>es r. (\<exists>j. r = Val j \<and> es = [EvStatus kind i True]) \<or>
        (is_fail r \<and> es = [EvStatus kind i False])"]])
    (use assms in \<open>auto intro!: emits_ret simp: reports_def is_fail_def\<close>)

lemma emits_invoke_then:
  assumes "\<And>x. emits (f x) P" and "\<And>a. P [] (Abort a)"
  shows "emits (andThen (invoke m ev) f) (\<lambda>es r. \<exists>rest. es = ev # rest \<and> P rest r)"
  by (rule emits_andThen [OF emits_invoke]) (use assms in auto)

lemma deletion_abort: "deletion_permitted kind [] (Abort a)"
  by (simp add: deletion_permitted_def)

lemma creation_abort: "creation_permitted kind strat name [] (Abort a)"
  by (simp add: creation_permitted_def)

lemma emits_reconcile_deletion:
  "emits (reconcile_deletion k fl p inst) (\<lambda>es r. \<exists>rest. es = EvProviderDelete (fl_kind fl) (GetName p) inst # rest \<and>
     deletion_permitted (fl_kind fl) rest r)"
proof -
  have fail: "emits (andThen (UpdatePhase k (fl_kind fl) i PhaseFailed (WrapError msg (Some e))) (\<lambda>_. throw x)) (deletion_permitted (fl_kind fl))" for i msg e x
    by (rule emits_weaken [OF emits_report_fail [where P = "has_phase PhaseFailed"]]) (auto simp: has_phase_def deletion_permitted_def)
  have deleted: "emits (andThen (UpdatePhase k (fl_kind fl) i PhaseDeleteInProgress msg) (\<lambda>j. ret (requeue_after p j))) (deletion_permitted (fl_kind fl))" for i msg
    by (rule emits_weaken [OF emits_report_requeue [where P = "has_phase PhaseDeleteInProgress"]])
      (auto simp: has_phase_def deletion_permitted_def requeues_def)
  show ?thesis unfolding reconcile_deletion_def
    by (rule emits_invoke_then) (auto intro!: emits_prod emits_option fail deleted deletion_abort)
qed

lemma emits_reconcile_skip:
  "emits (reconcile_skip k fl p inst) (\<lambda>es r.
     reports (fl_kind fl) (\<lambda>i. has_phase PhasePaused i \<and> st_Strategy (cr_status i) = st_Strategy (cr_status inst) \<and> cr_spec i = cr_spec inst) r es \<and>
     (requeues r \<or> is_fail r))"
  unfolding reconcile_skip_def
  by (rule emits_weaken [OF emits_report_requeue [where P = "\<lambda>i. has_phase PhasePaused i \<and> st_Strategy (cr_status i) = st_Strategy (cr_status inst) \<and> cr_spec i = cr_spec inst"]])
    (auto simp: has_phase_def)

lemma complete_status_is_complete:
  "spec_SecretRef (cr_spec j) \<noteq> None \<Longrightarrow> is_complete strat name (complete_status strat name msg j)"
  by (simp add: is_complete_def complete_status_def has_phase_def)

lemma emits_reconcile_secret:
  "emits (andThen (wrapping m (ReconcileResultSecret k kd i d)) (\<lambda>j.
      andThen (status_update k kd (complete_status strat (GetName p) msg j)) (\<lambda>j. ret (requeue_after p j))))
     (creation_permitted kd strat (GetName p))"
proof -
  have sec: "emits (wrapping m (ReconcileResultSecret k kd i d)) (\<lambda>es r.
        (\<exists>j. r = Val j \<and> spec_SecretRef (cr_spec j) \<noteq> None \<and> secret_written d es) \<or>
        (is_fail r \<and> secret_failed kd es) \<or> (r = Abort Panics \<and> es = []))"
    by (rule emits_wrapping [OF emits_ReconcileResultSecret]) (auto simp: secret_reconciled_def)
  have fin: "emits (andThen (status_update k kd (complete_status strat (GetName p) msg j)) (\<lambda>j. ret (requeue_after p j)))
      (\<lambda>fs. creation_permitted kd strat (GetName p) (es @ fs))"
    if "spec_SecretRef (cr_spec j) \<noteq> None" "secret_written d es" for j es
    by (rule emits_weaken [OF emits_status_update [where P = "is_complete strat (GetName p)"]])
      (use that in \<open>auto simp: complete_status_is_complete creation_permitted_def\<close>)
  show ?thesis
    by (rule emits_andThen [OF sec]) (auto intro!: fin simp: creation_permitted_def [of _ _ _ _ "Fail _"] creation_permitted_def [of _ _ _ _ "Abort _"])
qed

lemma emits_reconcile_creation:
  "emits (reconcile_creation k fl p strat inst) (\<lambda>es r. \<exists>rest. es = EvProviderCreate (fl_kind fl) (GetName p) inst # rest \<and>
     creation_permitted (fl_kind fl) strat (GetName p) rest r)"
proof -
  let ?kd = "fl_kind fl" and ?C = "creation_permitted (fl_kind fl) strat (GetName p)"
  have fail: "emits (andThen (UpdatePhase k ?kd (with_secretRef (Some empty_ref) i) PhaseFailed (WrapError msg (Some e))) (\<lambda>_. throw x)) ?C" for i msg e x
    by (rule emits_weaken [OF emits_report_fail [where P = "\<lambda>i. has_phase PhaseFailed i \<and> clears_secret i"]])
      (auto simp: has_phase_def clears_secret_def creation_permitted_def)
  have prog: "emits (andThen (UpdatePhase k ?kd (with_secretRef (Some empty_ref) i) PhaseInProgress msg) (\<lambda>j. ret (requeue_after p j))) ?C" for i msg
    by (rule emits_weaken [OF emits_report_requeue [where P = "\<lambda>i. has_phase PhaseInProgress i \<and> clears_secret i"]])
      (auto simp: has_phase_def clears_secret_def creation_permitted_def requeues_def)
  show ?thesis unfolding reconcile_creation_def
    by (rule emits_invoke_then)
      (auto intro!: emits_prod emits_option fail prog emits_reconcile_secret creation_abort)
qed

lemma emits_reconcile_loop:
  "emits (reconcile_loop k fl mapped strat inst ps) (permitted fl strat inst (decide fl strat ps inst))"
proof (induction ps)
  case Nil
  show ?case
    by (simp add: decide_def) (rule emits_weaken [OF emits_report_fail], auto simp: has_phase_def)
next
  case (Cons p ps)
  show ?case
  proof (cases "SupportsStrategy p strat")
    case True
    let ?inst = "with_strategy strat (GetName p) inst"
    have "emits (reconcile_deletion k fl p ?inst) (permitted fl strat inst (DeleteWith p))"
      "emits (reconcile_skip k fl p ?inst) (permitted fl strat inst (PauseWith p))"
      "emits (reconcile_creation k fl p strat ?inst) (permitted fl strat inst (CreateWith p))"
      by (auto intro: emits_weaken [OF emits_reconcile_deletion] emits_weaken [OF emits_reconcile_skip]
          emits_weaken [OF emits_reconcile_creation])
    then show ?thesis using True by (auto simp: reconcile_with_def decide_def Let_def simp del: permitted.simps)
  qed (use Cons in \<open>simp add: decide_def\<close>)
qed

text \<open>The configuration of an instance as a reconcile reads it.\<close>

definition read_mapping ::
  "'w kube \<Rightarrow> nsName \<Rightarrow> cr \<Rightarrow> ('w, 'c event) sys \<Rightarrow> deploymentStrategyMapping res \<times> ('w, 'c event) sys" where
  "read_mapping k req inst =
     GetStrategyMappingForDeploymentType k (NewConfigManager (kube_env k) ''cloud-resource-config'' (snd req)) (spec_Type (cr_spec inst))"

lemma mapping_no_abort: "emits (GetStrategyMappingForDeploymentType k m t) (\<lambda>es r. es = [] \<and> (\<forall>a. r \<noteq> Abort a))"
proof -
  have get: "emits (GetConfigMapOrDefault k nm def) (\<lambda>es r. es = [] \<and> (\<forall>a. r \<noteq> Abort a))" for nm def
    unfolding GetConfigMapOrDefault_def
    by (rule emits_andThen [OF emits_attempt [OF emits_query, where S = "\<lambda>es r. es = [] \<and> (\<forall>a. r \<noteq> Abort a)"]])
      (auto intro!: emits_sum emits_if emits_ret emits_throw)
  have lift: "emits (wrapping m (lift_sum x)) (\<lambda>es r. es = [] \<and> (\<forall>a. r \<noteq> Abort a))" for m x
    by (cases x) (auto intro!: emits_ret emits_throw)
  show ?thesis unfolding GetStrategyMappingForDeploymentType_def
    by (rule emits_andThen [OF emits_wrapping [OF get, where S = "\<lambda>es r. es = [] \<and> (\<forall>a. r \<noteq> Abort a)"]])
      (auto intro!: lift)
qed

lemma reconcile_eval:
  assumes "kube_Get k (fl_kind fl) req (world s) = (Inr inst, w)"
    and "read_mapping k req inst (s\<lparr>world := w\<rparr>) = (Val stratMap, s1)"
  shows "reconcile k fl ps req s = reconcile_loop k fl (fl_strategy fl stratMap) (strategy_to_use fl stratMap inst) inst ps s1"
  using assms unfolding reconcile_def read_mapping_def by (simp add: op_simps query_def Let_def)

lemma reconcile_run:
  assumes "reconcile k fl ps req s = (r, t)" and "kube_Get k (fl_kind fl) req (world s) = (Inr inst, w)"
    and "read_mapping k req inst (s\<lparr>world := w\<rparr>) = (m, s1)"
  shows "\<exists>es. trace t = trace s @ es \<and> (case m of
      Val stratMap \<Rightarrow> permitted fl (strategy_to_use fl stratMap inst) inst (decide fl (strategy_to_use fl stratMap inst) ps inst) es r
    | Fail e \<Rightarrow> is_fail r \<and> reports (fl_kind fl) (\<lambda>i. has_phase PhaseFailed i \<and>
                 st_Message (cr_status i) = WrapError StatusDeploymentConfigNotFound (Some e)) r es
    | Abort _ \<Rightarrow> False)"
proof -
  have s1: "trace s1 = trace s" and m: "\<forall>a. m \<noteq> Abort a"
    using emitsD [OF mapping_no_abort assms(3) [unfolded read_mapping_def]] by auto
  show ?thesis
  proof (cases m)
    case (Val stratMap)
    then have "reconcile_loop k fl (fl_strategy fl stratMap) (strategy_to_use fl stratMap inst) inst ps s1 = (r, t)"
      using assms reconcile_eval [OF assms(2)] by simp
    then show ?thesis using emitsD [OF emits_reconcile_loop] s1 Val by fastforce
  next
    case (Fail e)
    let ?msg = "WrapError StatusDeploymentConfigNotFound (Some e)"
    have "andThen (UpdatePhase k (fl_kind fl) inst PhaseFailed ?msg) (\<lambda>_. throw (fl_config_error fl inst e)) s1 = (r, t)"
      using assms Fail unfolding reconcile_def read_mapping_def by (simp add: op_simps query_def Let_def)
    then show ?thesis
      using emitsD [OF emits_report_fail [where P = "\<lambda>i. has_phase PhaseFailed i \<and> st_Message (cr_status i) = ?msg"]] s1 Fail
      by (fastforce simp: has_phase_def)
  qed (use m in auto)
qed

lemma reconcile_unread:
  assumes "reconcile k fl ps req s = (r, t)" and "kube_Get k (fl_kind fl) req (world s) = (Inl e, w)"
  shows "trace t = trace s \<and> r = (if k8s_IsNotFound e then Val no_requeue else Fail e)"
  using assms by (auto simp: reconcile_def op_simps query_def Let_def)

text \<open>Events by what they touch.\<close>

definition creates :: "'c event \<Rightarrow> bool" where
  "creates e \<longleftrightarrow> (\<exists>kd n i. e = EvProviderCreate kd n i) \<or> is_secret_write e"

definition provider_call :: "'c event \<Rightarrow> bool" where
  "provider_call e \<longleftrightarrow> (\<exists>kd n i. e = EvProviderCreate kd n i \<or> e = EvProviderDelete kd n i)"

lemma event_class_simps [simp]:
  "\<not> creates (EvStatus kd i b)" "\<not> provider_call (EvStatus kd i b)" "\<not> creates (EvProviderDelete kd n i)"
  "\<not> provider_call (EvCreateSecret sc b)" "\<not> provider_call (EvUpdateSecret sc b)"
  "provider_call (EvProviderCreate kd n i)" "provider_call (EvProviderDelete kd n i)"
  by (auto simp: creates_def provider_call_def is_secret_write_def)

lemma reports_status: "reports kind P r es \<Longrightarrow> e \<in> set es \<Longrightarrow> \<exists>i b. e = EvStatus kind i b \<and> P i"
  by (auto simp: reports_def)

lemma reports_single: "reports kind P r es \<Longrightarrow> \<exists>i b. es = [EvStatus kind i b] \<and> P i"
  unfolding reports_def by blast

lemma decide_deletion:
  "om_DeletionTimestamp (cr_meta inst) \<noteq> None \<Longrightarrow> decide fl strat ps inst = Unsupported \<or> (\<exists>p. decide fl strat ps inst = DeleteWith p)"
  by (auto simp: decide_def split: option.splits)

lemma deletion_events: "deletion_permitted kd es r \<Longrightarrow> e \<in> set es \<Longrightarrow> \<exists>i b. e = EvStatus kd i b \<and> \<not> has_phase PhaseComplete i"
  by (auto simp: deletion_permitted_def has_phase_def dest!: reports_status)

lemma secret_events:
  "secret_written d es \<Longrightarrow> e \<in> set es \<Longrightarrow> is_secret_write e"
  "secret_failed kd es \<Longrightarrow> e \<in> set es \<Longrightarrow> is_secret_write e \<or> (\<exists>i b. e = EvStatus kd i b \<and> \<not> has_phase PhaseComplete i)"
proof -
  show "secret_written d es \<Longrightarrow> e \<in> set es \<Longrightarrow> is_secret_write e"
    by (auto simp: secret_written_def is_secret_write_def)
  assume "secret_failed kd es" "e \<in> set es"
  then show "is_secret_write e \<or> (\<exists>i b. e = EvStatus kd i b \<and> \<not> has_phase PhaseComplete i)"
    by (auto simp: secret_failed_def is_secret_write_def has_phase_def)
qed

lemma creation_events:
  assumes "creation_permitted kd strat n es r" and "e \<in> set es"
  shows "is_secret_write e \<or> (\<exists>i b. e = EvStatus kd i b)"
  using assms unfolding creation_permitted_def
  by (elim disjE exE conjE) (auto, (blast dest: reports_status secret_events)+)

lemma secret_write_not_call: "is_secret_write e \<Longrightarrow> \<not> provider_call e"
  by (auto simp: is_secret_write_def provider_call_def)

lemma permitted_provider_calls:
  assumes "permitted fl strat inst (decide fl strat ps inst) es r" and "e \<in> set es" and "provider_call e"
  shows "\<exists>p. find (\<lambda>p. SupportsStrategy p strat) ps = Some p \<and>
     (e = EvProviderCreate (fl_kind fl) (GetName p) (with_strategy strat (GetName p) inst) \<or>
      e = EvProviderDelete (fl_kind fl) (GetName p) (with_strategy strat (GetName p) inst))"
proof (cases "find (\<lambda>p. SupportsStrategy p strat) ps")
  case None
  then show ?thesis using assms by (auto simp: decide_def dest!: reports_status)
next
  case (Some p)
  have "\<not> (\<exists>i b. e = EvStatus (fl_kind fl) i b)" "\<not> is_secret_write e"
    using assms(3) secret_write_not_call by auto
  then show ?thesis using Some assms(1,2)
    by (auto simp: decide_def split: if_splits) (blast dest: reports_status deletion_events creation_events)+
qed


lemma creation_complete:
  assumes "creation_permitted kd strat n es r" and "EvStatus kd i b \<in> set es" and "has_phase PhaseComplete i"
  shows "\<exists>d ws. es = ws @ [EvStatus kd i b] \<and> secret_written d ws \<and> is_complete strat n i"
proof -
  have "(\<exists>d ws st. es = ws @ st \<and> secret_written d ws \<and> reports kd (is_complete strat n) r st) \<or> secret_failed kd es \<or>
      reports kd (\<lambda>i. has_phase PhaseFailed i \<and> clears_secret i) r es \<or> reports kd (\<lambda>i. has_phase PhaseInProgress i \<and> clears_secret i) r es"
    using assms(1,2) unfolding creation_permitted_def by (elim disjE) auto
  then show ?thesis
  proof (elim disjE exE conjE)
    fix d ws st assume es: "es = ws @ st" "secret_written d ws" "reports kd (is_complete strat n) r st"
    have "EvStatus kd i b \<notin> set ws" using secret_events(1) [OF es(2), of "EvStatus kd i b"] by (auto simp: is_secret_write_def)
    then show ?thesis using es assms(2) by (auto simp: reports_def)
  next
    assume "secret_failed kd es"
    then show ?thesis using secret_events(2) [OF _ assms(2)] assms(3) by (auto simp: is_secret_write_def)
  qed (use assms(2,3) in \<open>auto dest!: reports_status simp: has_phase_def\<close>)
qed

lemma permitted_complete:
  assumes "permitted fl strat inst (decide fl strat ps inst) es r" and "EvStatus (fl_kind fl) i b \<in> set es" and "has_phase PhaseComplete i"
    and "fl_unsupported_phase fl \<noteq> PhaseComplete"
  shows "\<exists>p rest. find (\<lambda>p. SupportsStrategy p strat) ps = Some p \<and>
    es = EvProviderCreate (fl_kind fl) (GetName p) (with_strategy strat (GetName p) inst) # rest \<and>
    creation_permitted (fl_kind fl) strat (GetName p) rest r \<and> EvStatus (fl_kind fl) i b \<in> set rest"
proof (cases "find (\<lambda>p. SupportsStrategy p strat) ps")
  case None
  then show ?thesis using assms by (auto simp: decide_def has_phase_def dest!: reports_status)
next
  case (Some p)
  then show ?thesis using assms(1-3)
    by (auto simp: decide_def has_phase_def split: if_splits dest!: reports_status)
      (auto simp: has_phase_def dest: deletion_events)
qed

lemma reconcile_cases:
  assumes "reconcile k fl ps req s = (r, t)" and "kube_Get k (fl_kind fl) req (world s) = (Inr inst, w)"
  shows "\<exists>es. trace t = trace s @ es \<and>
    ((\<exists>sm. permitted fl (strategy_to_use fl sm inst) inst (decide fl (strategy_to_use fl sm inst) ps inst) es r) \<or>
     (is_fail r \<and> reports (fl_kind fl) (has_phase PhaseFailed) r es))"
proof -
  obtain m s1 where "read_mapping k req inst (s\<lparr>world := w\<rparr>) = (m, s1)" by force
  from reconcile_run [OF assms this] obtain es where "trace t = trace s @ es" and "case m of
      Val stratMap \<Rightarrow> permitted fl (strategy_to_use fl stratMap inst) inst (decide fl (strategy_to_use fl stratMap inst) ps inst) es r
    | Fail e \<Rightarrow> is_fail r \<and> reports (fl_kind fl) (\<lambda>i. has_phase PhaseFailed i \<and>
                 st_Message (cr_status i) = WrapError StatusDeploymentConfigNotFound (Some e)) r es
    | Abort _ \<Rightarrow> False" by blast
  then show ?thesis by (cases m) (auto simp: reports_def)
qed

section \<open>A sample provider\<close>

text \<open>A provider that is done at once, as the concrete instance of the witnesses.\<close>

definition sample_provider :: "unit provider" where
  "sample_provider = \<lparr>GetName = ''sample'', SupportsStrategy = (\<lambda>s. s = ''aws''), GetReconcileTime = (\<lambda>_. 30),
     prov_Create = (\<lambda>i w. (Inr ((Some [''host'' \<mapsto> ''h''], ''done'', None), i), w)),
     prov_Delete = (\<lambda>i w. (Inr ((''gone'', None), i), w))\<rparr>"

definition deleted_cr :: cr where
  "deleted_cr = sample_cr\<lparr>cr_meta := sample_meta\<lparr>om_DeletionTimestamp := Some 1\<rparr>\<rparr>"

definition skipped_cr :: cr where
  "skipped_cr = sample_cr\<lparr>cr_spec := (cr_spec sample_cr)\<lparr>spec_SkipCreate := True\<rparr>\<rparr>"

lemma sample_kube_simps [simp]:
  "kube_env (sample_kube inst) = Map.empty" "kube_Get (sample_kube inst) kd req w = (Inr inst, w)"
  "kube_StatusUpdate (sample_kube inst) kd i w = (Inr i, w)" "kube_GetSecret (sample_kube inst) nm w = (Inl not_found, w)"
  "kube_CreateSecret (sample_kube inst) sc w = (Inr sc, w)" "kube_SetControllerReference (sample_kube inst) kd i sc = Inr sc"
  "kube_GetConfigMap (sample_kube inst) nm w = (Inl not_found, w)" "k8s_IsNotFound not_found"
  by (simp_all add: sample_kube_def not_found_def k8s_IsNotFound_def)

lemma sample_provider_simps [simp]:
  "GetName sample_provider = ''sample''" "SupportsStrategy sample_provider s \<longleftrightarrow> s = ''aws''"
  "prov_Create sample_provider i w = (Inr ((Some [''host'' \<mapsto> ''h''], ''done'', None), i), w)"
  by (simp_all add: sample_provider_def)

lemma sample_mapping:
  "spec_Type (cr_spec inst) = ''aws'' \<Longrightarrow> read_mapping (sample_kube inst) req inst s =
     (Val \<lparr>dsm_BlobStorage = ''aws'', dsm_Redis = ''aws'', dsm_Postgres = ''aws''\<rparr>, s)"
  by (simp add: read_mapping_def GetStrategyMappingForDeploymentType_def GetConfigMapOrDefault_def query_def op_simps
      buildDefaultConfigMap_def map_get_def UnmarshalMapping_default)

lemma sample_get: "kube_Get (sample_kube inst) kd req (world s) = (Inr inst, ())"
  by (simp add: sample_kube_def)

text \<open>The run of the sample: provider, secret, complete status.\<close>

lemma sample_reconcile:
  "\<exists>r t. reconcile (sample_kube sample_cr) postgres_flavour [sample_provider] (''db'', ''ns'') (sample_sys :: (unit, unit event) sys) = (r, t) \<and>
     trace t = trace (sample_sys :: (unit, unit event) sys) @ [EvProviderCreate Postgres ''sample'' (with_strategy ''aws'' ''sample'' sample_cr),
     EvCreateSecret \<lparr>sec_Name = ''sec'', sec_Namespace = ''ns'', sec_Data = Some [''host'' \<mapsto> ''h''], sec_Type = ''Opaque'', sec_Owners = []\<rparr> True,
     EvStatus Postgres (complete_status ''aws'' ''sample'' ''done'' (with_strategy ''aws'' ''sample'' sample_cr)) True]"
proof -
  have m: "read_mapping (sample_kube sample_cr) (''db'', ''ns'') sample_cr s =
     (Val \<lparr>dsm_BlobStorage = ''aws'', dsm_Redis = ''aws'', dsm_Postgres = ''aws''\<rparr>, s)" for s :: "(unit, unit event) sys"
    by (rule sample_mapping) (simp add: sample_cr_def)
  have st: "strategy_to_use postgres_flavour \<lparr>dsm_BlobStorage = ''aws'', dsm_Redis = ''aws'', dsm_Postgres = ''aws''\<rparr> sample_cr = ''aws''"
    by (simp add: strategy_to_use_def postgres_flavour_def sample_cr_def)
  have nd: "om_DeletionTimestamp (cr_meta sample_cr) = None" "\<not> spec_SkipCreate (cr_spec sample_cr)"
    "spec_SecretRef (cr_spec sample_cr) = Some \<lparr>ref_Name = ''sec'', ref_Namespace = ''''\<rparr>" "om_Namespace (cr_meta sample_cr) = ''ns''"
    by (simp_all add: sample_cr_def sample_meta_def)
  have sp: "fl_kind postgres_flavour = Postgres" by (simp add: postgres_flavour_def)
  have "reconcile_loop (sample_kube sample_cr) postgres_flavour ''aws'' ''aws'' sample_cr [sample_provider] s =
      reconcile_creation (sample_kube sample_cr) postgres_flavour sample_provider ''aws'' (with_strategy ''aws'' ''sample'' sample_cr) s"
    for s :: "(unit, unit event) sys"
    using sp nd by (simp add: reconcile_with_def Let_def)
  moreover have "reconcile (sample_kube sample_cr) postgres_flavour [sample_provider] (''db'', ''ns'') (sample_sys :: (unit, unit event) sys) =
      reconcile_loop (sample_kube sample_cr) postgres_flavour ''aws'' ''aws'' sample_cr [sample_provider] sample_sys"
  proof -
    have same: "sample_sys\<lparr>world := ()\<rparr> = (sample_sys :: (unit, unit event) sys)" by (simp add: sample_sys_def)
    have strat: "fl_strategy postgres_flavour \<lparr>dsm_BlobStorage = ''aws'', dsm_Redis = ''aws'', dsm_Postgres = ''aws''\<rparr> = ''aws''"
      by (simp add: postgres_flavour_def)
    show ?thesis
      using reconcile_eval [OF sample_get m, of postgres_flavour "[sample_provider]" "sample_sys :: (unit, unit event) sys"] unfolding st strat same .
  qed
  ultimately have run: "reconcile (sample_kube sample_cr) postgres_flavour [sample_provider] (''db'', ''ns'') (sample_sys :: (unit, unit event) sys) =
      reconcile_creation (sample_kube sample_cr) postgres_flavour sample_provider ''aws'' (with_strategy ''aws'' ''sample'' sample_cr) sample_sys"
    by (simp only:)
  show ?thesis unfolding run
    by (simp add: reconcile_creation_def op_simps invoke_def sp ReconcileResultSecret_def CreateOrUpdate_secret_def
        mutate_secret_def status_update_def request_def query_def Let_def nd)
qed

section \<open>Properties\<close>

text \<open>
  C1. Refinement: whatever the API server, the config map and the providers answer, a reconcile makes
  exactly the requests that the decision of the specification permits, in that order: one call of one
  provider, then the connection secret, then one status. A resource that cannot be read changes
  nothing, and a deployment configuration that cannot be read is reported as failed.
\<close>

theorem reconcile_refines_decision:
  assumes "reconcile k fl ps req s = (r, t)"
  shows "case kube_Get k (fl_kind fl) req (world s) of
      (Inl e, _) \<Rightarrow> trace t = trace s \<and> r = (if k8s_IsNotFound e then Val no_requeue else Fail e)
    | (Inr inst, w) \<Rightarrow> \<exists>es. trace t = trace s @ es \<and> (case fst (read_mapping k req inst (s\<lparr>world := w\<rparr>)) of
        Val stratMap \<Rightarrow> permitted fl (strategy_to_use fl stratMap inst) inst (decide fl (strategy_to_use fl stratMap inst) ps inst) es r
      | Fail e \<Rightarrow> is_fail r \<and> reports (fl_kind fl) (\<lambda>i. has_phase PhaseFailed i \<and>
                   st_Message (cr_status i) = WrapError StatusDeploymentConfigNotFound (Some e)) r es
      | Abort _ \<Rightarrow> False)"
proof -
  obtain g w where g: "kube_Get k (fl_kind fl) req (world s) = (g, w)" by force
  show ?thesis
  proof (cases g)
    case (Inl e)
    then show ?thesis using reconcile_unread [OF assms] g by simp
  next
    case (Inr inst)
    obtain m s1 where "read_mapping k req inst (s\<lparr>world := w\<rparr>) = (m, s1)" by force
    then show ?thesis using reconcile_run [OF assms g [unfolded Inr]] g Inr by simp
  qed
qed

theorem reconcile_refines_decision_witness:
  "\<exists>r (t :: (unit, unit event) sys) es.
     reconcile (sample_kube sample_cr) postgres_flavour [sample_provider] (''db'', ''ns'') sample_sys = (r, t) \<and>
     trace t = trace sample_sys @ es \<and> permitted postgres_flavour ''aws'' sample_cr (CreateWith sample_provider) es r"
proof -
  let ?sm = "\<lparr>dsm_BlobStorage = ''aws'', dsm_Redis = ''aws'', dsm_Postgres = ''aws''\<rparr>"
  obtain r and t :: "(unit, unit event) sys" where
    run: "reconcile (sample_kube sample_cr) postgres_flavour [sample_provider] (''db'', ''ns'') sample_sys = (r, t)" by force
  have "spec_Type (cr_spec sample_cr) = ''aws''" "strategy_to_use postgres_flavour ?sm sample_cr = ''aws''"
    "decide postgres_flavour ''aws'' [sample_provider] sample_cr = CreateWith sample_provider"
    by (simp_all add: sample_cr_def sample_meta_def strategy_to_use_def postgres_flavour_def decide_def)
  moreover from this(1) have "read_mapping (sample_kube sample_cr) req sample_cr s = (Val ?sm, s)" for req and s :: "(unit, unit event) sys"
    by (rule sample_mapping)
  ultimately show ?thesis using reconcile_refines_decision [OF run] run by (simp add: sample_get del: permitted.simps)
qed



text \<open>
  Maintenance: a Postgres or Redis instance with skipCreate that is not being deleted makes a
  reconcile call no provider and write no secret; at most one status is written.
\<close>

theorem skip_create_pauses:
  assumes "reconcile k fl ps req s = (r, t)" and "kube_Get k (fl_kind fl) req (world s) = (Inr inst, w)"
    and "fl = postgres_flavour \<or> fl = redis_flavour"
    and "spec_SkipCreate (cr_spec inst)" and "om_DeletionTimestamp (cr_meta inst) = None"
  shows "\<exists>i b. trace t = trace s @ [EvStatus (fl_kind fl) i b] \<and>
    (r = Val c \<longrightarrow> has_phase PhasePaused i \<and> cr_spec i = cr_spec inst \<and> res_Requeue c)"
proof -
  from reconcile_cases [OF assms(1,2)] obtain es where es: "trace t = trace s @ es" and spec:
    "(\<exists>sm. permitted fl (strategy_to_use fl sm inst) inst (decide fl (strategy_to_use fl sm inst) ps inst) es r) \<or>
     (is_fail r \<and> reports (fl_kind fl) (has_phase PhaseFailed) r es)" by blast
  have sk: "fl_skip_create fl" using assms(3) by (auto simp: postgres_flavour_def redis_flavour_def)
  have skip: "decide fl strat ps inst = Unsupported \<or> (\<exists>p. decide fl strat ps inst = PauseWith p)" for strat
    using sk assms(4,5) by (auto simp: decide_def split: option.splits)
  have "\<exists>i b. es = [EvStatus (fl_kind fl) i b] \<and>
      (r = Val c \<longrightarrow> has_phase PhasePaused i \<and> cr_spec i = cr_spec inst \<and> res_Requeue c)"
    using spec
  proof (elim disjE exE conjE)
    fix sm assume "permitted fl (strategy_to_use fl sm inst) inst (decide fl (strategy_to_use fl sm inst) ps inst) es r"
    then consider (un) "is_fail r" "\<exists>P. reports (fl_kind fl) P r es"
      | (pause) "reports (fl_kind fl) (\<lambda>i. has_phase PhasePaused i \<and> st_Strategy (cr_status i) = strategy_to_use fl sm inst \<and> cr_spec i = cr_spec inst) r es"
          "requeues r \<or> is_fail r"
      using skip [of "strategy_to_use fl sm inst"] by fastforce
    then show ?thesis
    proof cases
      case un
      then have "r \<noteq> Val c" by auto
      then show ?thesis using un(2) reports_single by blast
    next
      case pause
      have "r = Val c \<Longrightarrow> res_Requeue c" using pause(2) by auto
      then show ?thesis using reports_single [OF pause(1)] by blast
    qed
  next
    assume "is_fail r" "reports (fl_kind fl) (has_phase PhaseFailed) r es"
    moreover from this have "r \<noteq> Val c" by auto
    ultimately show ?thesis using reports_single by blast
  qed
  then show ?thesis using es by blast
qed

theorem skip_create_pauses_witness:
  "\<exists>r (t :: (unit, unit event) sys) i b.
     reconcile (sample_kube skipped_cr) redis_flavour [sample_provider] (''db'', ''ns'') sample_sys = (r, t) \<and>
     trace t = trace sample_sys @ [EvStatus Redis i b]"
proof -
  obtain r and t :: "(unit, unit event) sys" where
    run: "reconcile (sample_kube skipped_cr) redis_flavour [sample_provider] (''db'', ''ns'') sample_sys = (r, t)" by force
  have "spec_SkipCreate (cr_spec skipped_cr)" "om_DeletionTimestamp (cr_meta skipped_cr) = None" "fl_kind redis_flavour = Redis"
    by (simp_all add: skipped_cr_def sample_cr_def sample_meta_def redis_flavour_def)
  then show ?thesis using skip_create_pauses [OF run sample_get, of undefined] run by auto
qed







text \<open>
  A strategy that no provider supports fails the reconcile after one status: failed for Postgres and
  BlobStorage, but in progress for Redis, although nothing is in progress.
\<close>

theorem unsupported_strategy_phase:
  assumes "\<forall>p \<in> set ps. \<not> SupportsStrategy p strat"
  shows "\<exists>i b r. reconcile_loop k fl mapped strat inst ps s = (Fail r, snd (reconcile_loop k fl mapped strat inst ps s)) \<and>
    trace (snd (reconcile_loop k fl mapped strat inst ps s)) = trace s @ [EvStatus (fl_kind fl) i b] \<and>
    st_Message (cr_status i) = StatusUnsupportedType \<and> st_Phase (cr_status i) = fl_unsupported_phase fl \<and>
    fl_unsupported_phase postgres_flavour = PhaseFailed \<and> fl_unsupported_phase blobstorage_flavour = PhaseFailed \<and>
    fl_unsupported_phase redis_flavour = PhaseInProgress"
proof -
  have loop: "reconcile_loop k fl mapped strat inst ps = reconcile_loop k fl mapped strat inst []"
    using assms by (induction ps) auto
  show ?thesis unfolding loop
    by (auto simp: UpdatePhase_def request_def op_simps Let_def postgres_flavour_def blobstorage_flavour_def redis_flavour_def
        split: prod.splits sum.splits)
qed

theorem unsupported_strategy_phase_witness:
  "\<exists>i b r. reconcile_loop (sample_kube sample_cr) redis_flavour ''x'' ''x'' sample_cr [sample_provider] (sample_sys :: (unit, unit event) sys) =
      (Fail r, snd (reconcile_loop (sample_kube sample_cr) redis_flavour ''x'' ''x'' sample_cr [sample_provider] sample_sys)) \<and>
    st_Phase (cr_status i) = PhaseInProgress \<and>
    trace (snd (reconcile_loop (sample_kube sample_cr) redis_flavour ''x'' ''x'' sample_cr [sample_provider] (sample_sys :: (unit, unit event) sys))) =
      trace (sample_sys :: (unit, unit event) sys) @ [EvStatus Redis i b]"
proof -
  have "\<forall>p \<in> set [sample_provider]. \<not> SupportsStrategy p ''x''" "fl_kind redis_flavour = Redis" by (simp_all add: redis_flavour_def)
  then show ?thesis
    using unsupported_strategy_phase [of "[sample_provider]" "''x''" "sample_kube sample_cr" redis_flavour "''x''" sample_cr "sample_sys :: (unit, unit event) sys"]
    by (metis (no_types, lifting))
qed

end
