(* ===== verification/Provider_Parts.thy ===== *)
theory Provider_Parts
  imports Strategy_Config Controllers
begin

text \<open>
  What the cloud providers of AWS and GCP have in common: replies with a status message, updates of a resource
  through its pointer, the annotation with the identifier of the cloud resource, the connection details, the
  credential secret and the gauges. The requests to the cloud are of any type \<open>'c\<close>.
\<close>

section \<open>Replies\<close>

text \<open>
  A create returns an instance or nil, a status message and an error, a delete a message and an error; both
  change the resource through its pointer.
\<close>

type_synonym 'a create_reply = "('a option \<times> string \<times> error option) \<times> cr"
type_synonym delete_reply = "(string \<times> error option) \<times> cr"

text \<open>\<^verbatim>\<open>return nil, msg, errors.Wrap(err, msg)\<close> and its variants.\<close>

definition failed :: "cr \<Rightarrow> string \<Rightarrow> error \<Rightarrow> 'a create_reply" where
  "failed inst msg e = ((None, msg, Some (ErrWrap e msg)), inst)"

definition failed_plain :: "cr \<Rightarrow> string \<Rightarrow> error \<Rightarrow> 'a create_reply" where
  "failed_plain inst msg e = ((None, msg, Some e), inst)"

definition in_progress :: "cr \<Rightarrow> string \<Rightarrow> 'a create_reply" where
  "in_progress inst msg = ((None, msg, None), inst)"

definition delete_failed :: "cr \<Rightarrow> string \<Rightarrow> error \<Rightarrow> delete_reply" where
  "delete_failed inst msg e = ((msg, Some (ErrWrap e msg)), inst)"

definition update_cr :: "'w kube \<Rightarrow> kind \<Rightarrow> cr \<Rightarrow> ('w, 'c, cr) kop" where
  "update_cr k kind inst = request (kube_Update k kind inst) (\<lambda>r. EvUpdate kind inst (ok r))"

definition with_annotation :: "string \<Rightarrow> cr \<Rightarrow> cr" where
  "with_annotation v inst = inst\<lparr>cr_meta := annotations_Add (cr_meta inst) ResourceIdentifierAnnotation v\<rparr>"

text \<open>\<open>CreateFinalizer\<close> keeps the finalizer it added in the local object when the update fails.\<close>

definition with_finalizer :: "cr \<Rightarrow> cr" where
  "with_finalizer inst = inst\<lparr>cr_meta := addFinalizer (cr_meta inst) DefaultFinalizer\<rparr>"

section \<open>Connection details and the credential secret\<close>

record postgresDeploymentDetails =
  pdd_Username :: string
  pdd_Password :: string
  pdd_Host :: string
  pdd_Database :: string
  pdd_Port :: int

definition postgres_Data :: "postgresDeploymentDetails \<Rightarrow> labels" where
  "postgres_Data d = [''username'' \<mapsto> pdd_Username d, ''password'' \<mapsto> pdd_Password d, ''host'' \<mapsto> pdd_Host d,
     ''database'' \<mapsto> pdd_Database d, ''port'' \<mapsto> itoa (pdd_Port d)]"

record redisDeploymentDetails =
  rdd_URI :: string
  rdd_Port :: int

definition redis_Data :: "redisDeploymentDetails \<Rightarrow> labels" where
  "redis_Data d = [''uri'' \<mapsto> rdd_URI d, ''port'' \<mapsto> itoa (rdd_Port d)]"

text \<open>The password of the credential secret; a secret made with \<^verbatim>\<open>StringData\<close> is read back as its data.\<close>

definition GeneratePassword :: "('w \<Rightarrow> (error + string) \<times> 'w) \<Rightarrow> ('w, 'c, string) kop" where
  "GeneratePassword newRandom = andThen (wrapping ''error generating password'' (query newRandom)) (\<lambda>u. ret (filter (\<lambda>ch. ch \<noteq> CHR ''-'') u))"

text \<open>\<^verbatim>\<open>CreateOrUpdate\<close> with a function that changes nothing: create the secret unless it exists; the result is the stored secret.\<close>

definition ensure_secret :: "'w kube \<Rightarrow> secret \<Rightarrow> ('w, 'c, secret) kop" where
  "ensure_secret k sec = andThen (attempt (query (kube_GetSecret k (sec_Name sec, sec_Namespace sec)))) (\<lambda>r. case r of
     Inr existing \<Rightarrow> ret existing
   | Inl err \<Rightarrow> if \<not> k8s_IsNotFound err then throw err
       else request (kube_CreateSecret k sec) (\<lambda>r. EvCreateSecret sec (ok r)))"

section \<open>Numbers\<close>

text \<open>The error of \<^verbatim>\<open>strconv.ParseInt\<close>, for texts without characters that need escaping.\<close>

definition parse_int_error :: "string \<Rightarrow> error" where
  "parse_int_error s = ErrNew (''strconv.ParseInt: parsing '' @ quoted s @ '': '' @
     (let d = (case s of c # cs \<Rightarrow> if c = CHR ''-'' \<or> c = CHR ''+'' then cs else s | [] \<Rightarrow> [])
      in if d \<noteq> [] \<and> (\<forall>c \<in> set d. is_digit c) then ''value out of range'' else ''invalid syntax''))"

section \<open>Snapshots\<close>

type_synonym snapshot_reply = "(string option \<times> string \<times> error option) \<times> snapshot"
type_synonym snapshot_delete_reply = "(string \<times> error option) \<times> snapshot"

definition sn_failed :: "snapshot \<Rightarrow> string \<Rightarrow> error \<Rightarrow> snapshot_reply" where
  "sn_failed sn msg e = ((None, msg, Some (ErrWrap e msg)), sn)"

definition sn_delete_failed :: "snapshot \<Rightarrow> string \<Rightarrow> error \<Rightarrow> snapshot_delete_reply" where
  "sn_delete_failed sn msg e = ((msg, Some (ErrWrap e msg)), sn)"

definition update_snapshot :: "'w kube \<Rightarrow> kind \<Rightarrow> snapshot \<Rightarrow> ('w, 'c, snapshot) kop" where
  "update_snapshot k kind sn = request (kube_UpdateSnapshot k kind sn) (\<lambda>r. EvSnapshotUpdate kind sn (ok r))"

definition status_update_snapshot :: "'w kube \<Rightarrow> kind \<Rightarrow> snapshot \<Rightarrow> ('w, 'c, snapshot) kop" where
  "status_update_snapshot k kind sn = request (kube_StatusUpdateSnapshot k kind sn) (\<lambda>r. EvSnapshotStatus kind sn (ok r))"

text \<open>\<^verbatim>\<open>CreateFinalizer\<close> on a snapshot; the local object keeps the finalizer when the update fails.\<close>

definition snapshot_finalizer :: "snapshot \<Rightarrow> snapshot" where
  "snapshot_finalizer sn = sn\<lparr>sn_meta := addFinalizer (sn_meta sn) DefaultFinalizer\<rparr>"

definition CreateFinalizer_snapshot :: "'w kube \<Rightarrow> kind \<Rightarrow> snapshot \<Rightarrow> ('w, 'c, snapshot) kop" where
  "CreateFinalizer_snapshot k kind sn =
     (if om_DeletionTimestamp (sn_meta sn) = None
      then wrapping ''failed to add finalizer to instance'' (update_snapshot k kind (snapshot_finalizer sn)) else ret sn)"

definition snapshot_GetReconcileTime :: "env \<Rightarrow> snapshot \<Rightarrow> int" where
  "snapshot_GetReconcileTime env sn =
     (if ss_Phase (sn_status sn) \<noteq> PhaseComplete then 60 * 1000000000 else GetForcedReconcileTimeOrDefault env (30 * 1000000000))"

section \<open>Gauges\<close>

definition SetMetricCurrentTime :: "('w \<Rightarrow> int \<times> 'w) \<Rightarrow> string \<Rightarrow> labels \<Rightarrow> ('w, 'c, unit) kop" where
  "SetMetricCurrentTime now name ls = andThen (ask now) (\<lambda>t. set_metric name ls (real_of_int t / 1000000000))"

text \<open>One gauge for each phase, 1 for the phase of the resource and 0 for the others.\<close>

definition expose_phases :: "string \<Rightarrow> (string \<Rightarrow> labels) \<Rightarrow> string \<Rightarrow> ('w, 'c, unit) kop" where
  "expose_phases name mk current = for_each (\<lambda>phase. set_metric name (mk phase) (if current = phase then 1 else 0))
     [PhaseFailed, PhaseDeleteInProgress, PhasePaused, PhaseComplete, PhaseInProgress]"

text \<open>The gauge of a resource that is being deleted; a zero timestamp counts as none.\<close>

definition zero_time :: int where
  "zero_time = - 62135596800"

section \<open>Reasoning about requests\<close>

fun metric_event :: "'c event \<Rightarrow> bool" where
  "metric_event (EvSetMetric _ _ _) = True"
| "metric_event _ = False"

lemma only_set_metric [only_rules]: "P (EvSetMetric name ls x) \<Longrightarrow> only P (set_metric name ls x)"
  by (auto simp: only_def emits_def set_metric_def)

lemma only_update_cr [only_rules]: "P (EvUpdate kind inst True) \<Longrightarrow> P (EvUpdate kind inst False) \<Longrightarrow> only P (update_cr k kind inst)"
  unfolding update_cr_def only_def by (rule emits_weaken [OF emits_request]) auto

lemma only_gauges [only_rules]:
  "only metric_event (SetMetricCurrentTime now name ls)" "only metric_event (expose_phases name mk cur)"
  unfolding SetMetricCurrentTime_def expose_phases_def by (intro only_rules; simp)+

lemma visible_otherwise_step:
  assumes "emits m (\<lambda>es r. (\<forall>e \<in> set es. \<not> L e) \<and> Q r)" and "\<And>x. Q (Val x) \<Longrightarrow> visible L (f x) S" and "S []"
  shows "visible L (otherwise m h f) S"
  unfolding otherwise_def
proof (rule visible_step)
  show "emits (attempt m) (\<lambda>es r. (\<forall>e \<in> set es. \<not> L e) \<and> (\<forall>x. r = Val (Inr x) \<longrightarrow> Q (Val x)))"
    by (rule emits_attempt [OF assms(1)]) auto
qed (use assms(2,3) in \<open>auto intro: visible_ret split: sum.split\<close>)

lemma visible_after_read:
  assumes "quiet m" and "m s = (Val x, s1)" and "otherwise m h f s = (r, t)" and "visible L (f x) S"
  shows "\<exists>es. trace t = trace s @ es \<and> S (filter L es)"
proof -
  have "f x s1 = (r, t)" using assms(2,3) by (simp add: otherwise_apply)
  then show ?thesis using visibleD [OF assms(4)] quietD [OF assms(1,2)] by metis
qed

lemma visible_deref: "(\<And>x. z = Some x \<Longrightarrow> visible L (f x) S) \<Longrightarrow> S [] \<Longrightarrow> visible L (andThen (deref z) f) S"
  by (cases z) (auto intro: visible_silent only_rules)

lemma visible_option:
  "(x = None \<Longrightarrow> visible L m S) \<Longrightarrow> (\<And>y. x = Some y \<Longrightarrow> visible L (f y) S) \<Longrightarrow> visible L (case x of None \<Rightarrow> m | Some y \<Rightarrow> f y) S"
  by (cases x) auto

lemma visible_if: "(b \<Longrightarrow> visible L m S) \<Longrightarrow> (\<not> b \<Longrightarrow> visible L n S) \<Longrightarrow> visible L (if b then m else n) S"
  by simp

lemma emits_otherwise_quiet:
  "quiet m \<Longrightarrow> (\<And>x. emits (f x) S) \<Longrightarrow> (\<And>e. S [] (Val (h e))) \<Longrightarrow> (\<And>a. S [] (Abort a)) \<Longrightarrow> emits (otherwise m h f) S"
  unfolding quiet_def by (erule emits_otherwise) auto

end
