(* ===== verification/AWS_Provider.thy ===== *)
theory AWS_Provider
  imports AWS_Network Provider_Parts
begin

text \<open>
  What the AWS providers of Postgres, Redis and BlobStorage have in common: the provider structure with its
  managers, the services of a session, replies with a status message, the reconcile of the standalone
  network before a resource is created and its removal with the last resource, and metric helpers.
\<close>

section \<open>The provider structure\<close>

text \<open>
  The questions the providers ask of RDS, ElastiCache, EC2, S3 and STS beside those of \<open>AWS_API\<close>. Decoding a
  strategy into an input structure of the SDK is \<^verbatim>\<open>json.Unmarshal\<close> on a third-party type, hence part of the
  services; a strategy that is not set (None) cannot be decoded.
\<close>

record 'w cloud =
  cl_Aws :: "'w aws"
  rds_DescribeDBInstances :: "'w \<Rightarrow> (error + dbInstance list) \<times> 'w"
  rds_DescribeDBSnapshots :: "string option \<Rightarrow> string option \<Rightarrow> 'w \<Rightarrow> (error + dbSnapshot list) \<times> 'w"
  rds_DescribePendingMaintenanceActions :: "string option \<Rightarrow> 'w \<Rightarrow> (error + resourcePendingMaintenanceActions list) \<times> 'w"
  ec2_DescribeInstanceTypes :: "string \<Rightarrow> 'w \<Rightarrow> (error + int option list) \<times> 'w"
  ec2_InstanceTypeLocations :: "string \<Rightarrow> 'w \<Rightarrow> (error + string option list) \<times> 'w"
  cache_DescribeReplicationGroups :: "string option \<Rightarrow> 'w \<Rightarrow> (error + replicationGroup list) \<times> 'w"
  cache_DescribeCacheClusters :: "string option \<Rightarrow> 'w \<Rightarrow> (error + cacheCluster list) \<times> 'w"
  cache_DescribeSnapshots :: "string option \<Rightarrow> string option \<Rightarrow> 'w \<Rightarrow> (error + cacheSnapshot list) \<times> 'w"
  cache_DescribeUpdateActions :: "string option \<Rightarrow> string option \<Rightarrow> 'w \<Rightarrow> (error + updateAction list) \<times> 'w"
  cache_BatchApplyUpdateAction :: "string option \<Rightarrow> string option \<Rightarrow> 'w \<Rightarrow> (error + nat) \<times> 'w"
  sts_GetCallerIdentity :: "'w \<Rightarrow> (error + string option) \<times> 'w"
  s3_ListBuckets :: "'w \<Rightarrow> (error + string option list) \<times> 'w"
  s3_ListObjectsV2 :: "string \<Rightarrow> 'w \<Rightarrow> (error + nat) \<times> 'w"

record decoders =
  dec_CreateDBInstance :: "json option \<Rightarrow> error + createDBInstanceInput"
  dec_DeleteDBInstance :: "json option \<Rightarrow> error + deleteDBInstanceInput"
  dec_CreateReplicationGroup :: "json option \<Rightarrow> error + createReplicationGroupInput"
  dec_DeleteReplicationGroup :: "json option \<Rightarrow> error + deleteReplicationGroupInput"
  dec_CreateVpc :: "json option \<Rightarrow> error + string option"
  dec_CreateBucket :: "json option \<Rightarrow> error + string option"

text \<open>
  The provider. \<open>ap_Services\<close> are the clients created from a session. The clock (in nanoseconds), the
  password generator, the test of a TCP connection and version numbers (\<^verbatim>\<open>hashicorp/go-version\<close>) are
  parameters; \<open>ver_LessThan\<close> compares two versions that parse.
\<close>

record 'w awsProvider =
  ap_Client :: "'w kube"
  ap_CredentialManager :: aws_credential_manager
  ap_ConfigManager :: configMapConfigManager
  ap_Codec :: aws_codec
  ap_Files :: files
  ap_Must :: "string \<Rightarrow> bool"
  ap_Services :: "session \<Rightarrow> 'w cloud"
  ap_Decoders :: decoders
  ap_TCPConnection :: "string \<Rightarrow> int \<Rightarrow> 'w \<Rightarrow> bool \<times> 'w"
  ap_Now :: "'w \<Rightarrow> int \<times> 'w"
  ap_NewRandom :: "'w \<Rightarrow> (error + string) \<times> 'w"
  ver_NewVersion :: "string \<Rightarrow> error option"
  ver_LessThan :: "string \<Rightarrow> string \<Rightarrow> bool"

definition aws_SupportsStrategy :: "string \<Rightarrow> bool" where
  "aws_SupportsStrategy d \<longleftrightarrow> d = ''aws''"

definition aws_GetReconcileTime :: "env \<Rightarrow> cr \<Rightarrow> int" where
  "aws_GetReconcileTime env inst =
     (if st_Phase (cr_status inst) \<noteq> PhaseComplete then 60 * 1000000000 else GetForcedReconcileTimeOrDefault env (30 * 1000000000))"

text \<open>\<^verbatim>\<open>_, isSTS := p.CredentialManager.(*STSCredentialManager)\<close>.\<close>

definition isSTS :: "'w awsProvider \<Rightarrow> bool" where
  "isSTS p = (case ap_CredentialManager p of STS _ \<Rightarrow> True | Minter _ \<Rightarrow> False)"

definition annotation_error :: "string \<Rightarrow> string \<Rightarrow> cr \<Rightarrow> string" where
  "annotation_error kind what inst = kind @ '' CR '' @ om_Name (cr_meta inst) @ '' in '' @ om_Namespace (cr_meta inst) @ '' namespace has '' @
     ResourceIdentifierAnnotation @ '' annotation with value '' @ map_get (om_Annotations (cr_meta inst)) ResourceIdentifierAnnotation @
     '', but no corresponding '' @ what @ '' was found''"

section \<open>Service updates and versions\<close>

text \<open>\<^verbatim>\<open>json.Unmarshal\<close> into a slice of strings.\<close>

fun decode_string_elements :: "json list \<Rightarrow> string list \<Rightarrow> error option \<Rightarrow> error + string list" where
  "decode_string_elements [] xs err = (case err of None \<Rightarrow> Inr xs | Some e \<Rightarrow> Inl e)"
| "decode_string_elements (v # vs) xs err = (case v of
     JString x \<Rightarrow> decode_string_elements vs (xs @ [x]) err
   | JNull \<Rightarrow> decode_string_elements vs (xs @ ['''']) err
   | _ \<Rightarrow> decode_string_elements vs (xs @ ['''']) (first_error err (ErrNew (''json: cannot unmarshal '' @ json_kind v @ '' into Go value of type string''))))"

definition decode_strings :: "json \<Rightarrow> error + string list" where
  "decode_strings v = (case v of
     JArray vs \<Rightarrow> decode_string_elements vs [] None
   | JNull \<Rightarrow> Inr []
   | _ \<Rightarrow> Inl (ErrNew (''json: cannot unmarshal '' @ json_kind v @ '' into Go value of type []string'')))"

definition VerifyVersionUpgradeNeeded :: "'w awsProvider \<Rightarrow> string \<Rightarrow> string \<Rightarrow> error + bool" where
  "VerifyVersionUpgradeNeeded p currentVersion desiredVersion = (case ver_NewVersion p currentVersion of
     Some e \<Rightarrow> Inl (ErrWrap e ''failed to parse current version'')
   | None \<Rightarrow> (case ver_NewVersion p desiredVersion of
       Some e \<Rightarrow> Inl (ErrWrap e ''failed to parse desired version'')
     | None \<Rightarrow> Inr (ver_LessThan p currentVersion desiredVersion)))"

section \<open>Configuration and sessions\<close>

definition network_of :: "'w awsProvider \<Rightarrow> 'w cloud \<Rightarrow> bool \<Rightarrow> 'w NetworkProvider" where
  "network_of p c sts = \<lparr>np_Client = ap_Client p, np_Api = cl_Aws c, np_IsSTSCluster = sts\<rparr>"

text \<open>\<^verbatim>\<open>ReadStorageStrategy\<close> with the region filled in, which both resource providers start with.\<close>

definition read_strategy :: "'w awsProvider \<Rightarrow> string \<Rightarrow> cr \<Rightarrow> ('w, strategyConfig) aop" where
  "read_strategy p rt inst =
     andThen (wrapping ''failed to read aws strategy config'' (ReadStorageStrategy (ap_Client p) (ap_ConfigManager p) rt (spec_Tier (cr_spec inst)))) (\<lambda>stratCfg.
     andThen (wrapping ''failed to get default region'' (GetRegionFromStrategyOrDefault (ap_Client p) stratCfg)) (\<lambda>defRegion.
       ret (if sc_Region stratCfg = '''' then stratCfg\<lparr>sc_Region := defRegion\<rparr> else stratCfg)))"

definition decode_updates :: "string \<Rightarrow> strategyConfig \<Rightarrow> ('w, string list) aop" where
  "decode_updates msg stratCfg = (case sc_ServiceUpdates stratCfg of
     None \<Rightarrow> ret []
   | Some v \<Rightarrow> wrapping msg (lift_sum (decode_strings v)))"

section \<open>The standalone network around a resource\<close>

text \<open>
  Before a resource is created: the block of the network, the VPC, the peering and the connection. The
  messages differ in the first step only.
\<close>

definition reconcile_network :: "'w awsProvider \<Rightarrow> 'w NetworkProvider \<Rightarrow> string \<Rightarrow> cr \<Rightarrow> ('w, 'b create_reply option) aop" where
  "reconcile_network p n configMsg inst =
     otherwise (ReconcileNetworkProviderConfig n
         (\<lambda>rt tier. andThen (ReadStorageStrategy (ap_Client p) (ap_ConfigManager p) rt tier) (\<lambda>c. ret (sc_CreateStrategy c)))
         (dec_CreateVpc (ap_Decoders p)) (spec_Tier (cr_spec inst))) (\<lambda>e. Some (failed inst configMsg e)) (\<lambda>vpcCidrBlock.
     otherwise (CreateNetwork n vpcCidrBlock) (\<lambda>e. Some (failed inst ''failed to create resource network'' e)) (\<lambda>network.
     otherwise (CreateNetworkPeering n network) (\<lambda>e. Some (failed inst ''failed to peer standalone network'' e)) (\<lambda>peering.
     andThen (deref (np_PeeringConnection peering)) (\<lambda>_.
     otherwise (CreateNetworkConnection n network) (\<lambda>e. Some (failed inst ''failed to create standalone network'' e)) (\<lambda>_.
       ret None)))))"

text \<open>
  When the last Postgres or Redis is gone: the standalone network is taken down, or the bundled resources of
  an old cluster. None means to go on.
\<close>

definition remove_network :: "'w awsProvider \<Rightarrow> 'w NetworkProvider \<Rightarrow> bool \<Rightarrow> bool \<Rightarrow> cr \<Rightarrow> ('w, delete_reply option) aop" where
  "remove_network p n isEnabled isLastResource inst =
     (if isEnabled \<and> isLastResource
      then otherwise (getStandaloneVpc (ap_Client p) (np_Api n)) (\<lambda>e. Some (delete_failed inst ''failed to get standalone VPC'' e)) (\<lambda>saVPC.
        if saVPC = None then ret None
        else otherwise (GetClusterNetworkPeering n) (\<lambda>e. Some (delete_failed inst ''failed to get cluster network peering'' e)) (\<lambda>networkPeering.
          otherwise (DeleteNetworkConnection n networkPeering) (\<lambda>e. Some (delete_failed inst ''failed to delete network connection'' e)) (\<lambda>_.
          otherwise (DeleteNetworkPeering n networkPeering) (\<lambda>e. Some (delete_failed inst ''failed to delete cluster network peering'' e)) (\<lambda>_.
          otherwise (DeleteNetwork n) (\<lambda>e. Some (delete_failed inst ''failed to delete aws networking'' e)) (\<lambda>_.
            ret None)))))
      else if \<not> isEnabled \<and> isLastResource
      then otherwise (DeleteBundledCloudResources n) (\<lambda>e. Some (delete_failed inst ''failed to delete bundled networking resources'' e)) (\<lambda>_. ret None)
      else ret None)"

text \<open>The last step of a deletion: the finalizer of the operator is removed.\<close>

definition remove_finalizer :: "'w awsProvider \<Rightarrow> kind \<Rightarrow> cr \<Rightarrow> ('w, delete_reply) aop" where
  "remove_finalizer p kind inst =
     andThen (deref (RemoveFinalizer (cr_meta inst) DefaultFinalizer)) (\<lambda>om.
     let inst' = inst\<lparr>cr_meta := om\<rparr> in
     otherwise (update_cr (ap_Client p) kind inst') (\<lambda>e. delete_failed inst' ''failed to update instance as part of finalizer reconcile'' e) (\<lambda>stored.
       ret (('''', None), stored)))"

section \<open>Metrics\<close>

definition buildInstanceName :: "'w awsProvider \<Rightarrow> string \<Rightarrow> cr \<Rightarrow> ('w, string) aop" where
  "buildInstanceName p msg inst =
     andThen (attempt (BuildInfraNameFromObject (ap_Client p) (cr_meta inst) defaultAwsIdentifierLength)) (\<lambda>r. case r of
       Inl e \<Rightarrow> throw (ErrNew (msg @ error_text e)) | Inr x \<Rightarrow> ret x)"

text \<open>An error of the name is logged and the name is empty.\<close>

definition metric_name_of :: "'w awsProvider \<Rightarrow> cr \<Rightarrow> ('w, string) aop" where
  "metric_name_of p inst = andThen (attempt (buildInstanceName p '''' inst)) (\<lambda>r. ret (case r of Inl _ \<Rightarrow> '''' | Inr x \<Rightarrow> x))"

definition set_deletion_metric :: "'w awsProvider \<Rightarrow> string \<Rightarrow> string \<Rightarrow> cr \<Rightarrow> ('w, unit) aop" where
  "set_deletion_metric p metric providerName inst = (case om_DeletionTimestamp (cr_meta inst) of
     None \<Rightarrow> ret ()
   | Some ts \<Rightarrow> if ts = zero_time then ret ()
       else andThen (metric_name_of p inst) (\<lambda>name.
         otherwise (GetClusterID (ap_Client p)) (\<lambda>_. ()) (\<lambda>clusterID.
           set_metric metric (BuildStatusMetricsLabels (cr_meta inst) clusterID name providerName (st_Phase (cr_status inst))) (real_of_int ts))))"

end
