(* ===== verification/AWS_RDS.thy ===== *)
theory AWS_RDS
  imports AWS_Provider
begin

text \<open>
  The Postgres provider for AWS RDS (\<^verbatim>\<open>pkg/providers/aws/provider_postgres.go\<close>), operation by operation.
  \<^verbatim>\<open>defer\<close>red metric calls run after the body and are given what it returned; a panic of the body ends the
  operation (the deferred calls of a panicking body are not modelled).
\<close>

section \<open>Defaults and the configuration\<close>

definition defaultAwsEngineVersion :: string where "defaultAwsEngineVersion = ''13.13''"

definition defaultSupportedEngineVersions :: "string list" where
  "defaultSupportedEngineVersions = [''13.13'', ''13.12'', ''13.11'']"

definition healthyAWSDBInstanceStatuses :: "string list" where
  "healthyAWSDBInstanceStatuses = [''backtracking'', ''available'', ''backing-up'', ''configuring-enhanced-monitoring'',
     ''configuring-iam-database-auth'', ''configuring-log-exports'', ''converting-to-vpc'', ''creating'', ''deleting'', ''maintenance'',
     ''modifying'', ''moving-to-vpc'', ''renaming'', ''resetting-master-credentials'', ''starting'', ''storage-optimization'', ''upgrading'']"

definition defaultCredSecSuffix :: string where "defaultCredSecSuffix = ''-aws-rds-credentials''"

definition postgresProviderName :: string where "postgresProviderName = ''aws-rds''"

definition or_default :: "'a option \<Rightarrow> 'a \<Rightarrow> 'a option" where
  "or_default x d = (case x of None \<Rightarrow> Some d | Some _ \<Rightarrow> x)"

definition getRDSConfig ::
  "'w awsProvider \<Rightarrow> cr \<Rightarrow> ('w, createDBInstanceInput \<times> deleteDBInstanceInput \<times> string list \<times> strategyConfig) aop" where
  "getRDSConfig p r =
     andThen (read_strategy p ''postgres'' r) (\<lambda>stratCfg.
     andThen (wrapping ''failed to unmarshal aws rds cluster configuration'' (lift_sum (dec_CreateDBInstance (ap_Decoders p) (sc_CreateStrategy stratCfg)))) (\<lambda>createConfig.
     andThen (wrapping ''failed to unmarshal aws rds cluster configuration'' (lift_sum (dec_DeleteDBInstance (ap_Decoders p) (sc_DeleteStrategy stratCfg)))) (\<lambda>deleteConfig.
     andThen (decode_updates ''failed to unmarshal aws rds cluster configuration (serviceUpdates field)'' stratCfg) (\<lambda>updates.
       ret (createConfig, deleteConfig, updates, stratCfg)))))"

text \<open>The part of \<^verbatim>\<open>buildRDSCreateStrategy\<close> before the first name is built.\<close>

definition fill_rds_defaults :: "string \<Rightarrow> createDBInstanceInput \<Rightarrow> createDBInstanceInput" where
  "fill_rds_defaults postgresPassword c = c\<lparr>
     cdi_DeletionProtection := or_default (cdi_DeletionProtection c) True,
     cdi_MasterUsername := or_default (cdi_MasterUsername c) ''postgres'',
     cdi_MasterUserPassword := or_default (cdi_MasterUserPassword c) postgresPassword,
     cdi_Port := or_default (cdi_Port c) 5432,
     cdi_AutoMinorVersionUpgrade := or_default (cdi_AutoMinorVersionUpgrade c) False,
     cdi_DBName := or_default (cdi_DBName c) ''postgres'',
     cdi_BackupRetentionPeriod := or_default (cdi_BackupRetentionPeriod c) 31,
     cdi_DBInstanceClass := or_default (cdi_DBInstanceClass c) ''db.t3.small'',
     cdi_PubliclyAccessible := or_default (cdi_PubliclyAccessible c) False,
     cdi_AllocatedStorage := or_default (cdi_AllocatedStorage c) 20,
     cdi_MaxAllocatedStorage := or_default (cdi_MaxAllocatedStorage c) 100,
     cdi_EngineVersion := (case cdi_EngineVersion c of
         Some v \<Rightarrow> if Contains defaultSupportedEngineVersions v then Some v else Some defaultAwsEngineVersion
       | None \<Rightarrow> Some defaultAwsEngineVersion),
     cdi_StorageEncrypted := or_default (cdi_StorageEncrypted c) True\<rparr>"

definition buildRDSCreateStrategy :: "'w awsProvider \<Rightarrow> 'w cloud \<Rightarrow> cr \<Rightarrow> createDBInstanceInput \<Rightarrow> string \<Rightarrow> ('w, createDBInstanceInput) aop" where
  "buildRDSCreateStrategy p c pg cfg0 postgresPassword =
     (let cfg1 = fill_rds_defaults postgresPassword cfg0 in
      andThen (wrapping ''failed to retrieve rds config'' (buildInstanceName p ''error occurred building instance name: '' pg)) (\<lambda>instanceName.
      let cfg2 = cfg1\<lparr>cdi_DBInstanceIdentifier := or_default (cdi_DBInstanceIdentifier cfg1) instanceName, cdi_MultiAZ := or_default (cdi_MultiAZ cfg1) True\<rparr>;
          cfg3 = cfg2\<lparr>cdi_AvailabilityZone := (if cdi_MultiAZ cfg2 = Some True then None else cdi_AvailabilityZone cfg2), cdi_Engine := Some ''postgres''\<rparr>
      in andThen (wrapping ''failed to build subnet group name'' (BuildInfraName (ap_Client p) defaultSubnetPostfix defaultAwsIdentifierLength)) (\<lambda>subGroup.
         let cfg4 = cfg3\<lparr>cdi_DBSubnetGroupName := or_default (cdi_DBSubnetGroupName cfg3) subGroup\<rparr> in
         andThen (wrapping ''error building subnet group name'' (BuildInfraName (ap_Client p) defaultSecurityGroupPostfix defaultAwsIdentifierLength)) (\<lambda>secName.
         andThen (wrapping '''' (getSecurityGroup (cl_Aws c) secName)) (\<lambda>foundSecGroup.
         andThen (case foundSecGroup of
             Some g \<Rightarrow> if cdi_VpcSecurityGroupIds cfg4 = None
                        then andThen (deref (sg_GroupId g)) (\<lambda>i. ret (cfg4\<lparr>cdi_VpcSecurityGroupIds := Some [Some i]\<rparr>)) else ret cfg4
           | None \<Rightarrow> ret cfg4) (\<lambda>cfg5.
           ret (cfg5\<lparr>cdi_CopyTagsToSnapshot := or_default (cdi_CopyTagsToSnapshot cfg5) True\<rparr>)))))))"

text \<open>\<open>curTime\<close> of the snapshot name comes from the clock.\<close>

definition timestamped_name :: "'w awsProvider \<Rightarrow> cr \<Rightarrow> ('w, string) aop" where
  "timestamped_name p inst = andThen (ask (ap_Now p)) (\<lambda>t.
     BuildTimestampedInfraNameFromObject (ap_Client p) (t div 1000000000) (cr_meta inst) defaultAwsIdentifierLength)"

definition buildRDSDeleteConfig ::
  "'w awsProvider \<Rightarrow> cr \<Rightarrow> createDBInstanceInput \<Rightarrow> deleteDBInstanceInput \<Rightarrow> ('w, deleteDBInstanceInput) aop" where
  "buildRDSDeleteConfig p pg createConfig deleteConfig =
     andThen (wrapping ''failed to retrieve rds config'' (BuildInfraNameFromObject (ap_Client p) (cr_meta pg) defaultAwsIdentifierLength)) (\<lambda>instanceIdentifier.
     let d1 = (if ddi_DBInstanceIdentifier deleteConfig = None
               then deleteConfig\<lparr>ddi_DBInstanceIdentifier := or_default (cdi_DBInstanceIdentifier createConfig) instanceIdentifier\<rparr> else deleteConfig);
         d2 = d1\<lparr>ddi_DeleteAutomatedBackups := or_default (ddi_DeleteAutomatedBackups d1) True,
                 ddi_SkipFinalSnapshot := or_default (ddi_SkipFinalSnapshot d1) False\<rparr>
     in andThen (wrapping ''failed to retrieve timestamped rds config'' (timestamped_name p pg)) (\<lambda>snapshotIdentifier.
          ret (if ddi_FinalDBSnapshotIdentifier d2 = None \<and> ddi_SkipFinalSnapshot d2 = Some False
               then d2\<lparr>ddi_FinalDBSnapshotIdentifier := Some snapshotIdentifier\<rparr> else d2)))"

section \<open>What has to change on an existing instance\<close>

text \<open>\<^verbatim>\<open>returns true if modify input is not pending\<close>.\<close>

definition is_pending :: "'a option \<Rightarrow> 'a option \<Rightarrow> bool" where
  "is_pending wanted pending \<longleftrightarrow> wanted \<noteq> None \<and> pending \<noteq> None \<and> wanted = pending"

definition verifyPendingModification :: "modifyDBInstanceInput \<Rightarrow> pendingModifiedValues option \<Rightarrow> bool" where
  "verifyPendingModification mi pm = (case pm of None \<Rightarrow> True | Some v \<Rightarrow>
     \<not> (is_pending (mdi_DBPortNumber mi) (pmv_Port v) \<or> is_pending (mdi_BackupRetentionPeriod mi) (pmv_BackupRetentionPeriod v) \<or>
        is_pending (mdi_DBInstanceClass mi) (pmv_DBInstanceClass v) \<or> is_pending (mdi_EngineVersion mi) (pmv_EngineVersion v) \<or>
        is_pending (mdi_MultiAZ mi) (pmv_MultiAZ v)))"

definition no_modification :: "string option \<Rightarrow> modifyDBInstanceInput" where
  "no_modification i = \<lparr>mdi_DBInstanceIdentifier = i, mdi_CACertificateIdentifier = None, mdi_DeletionProtection = None, mdi_DBPortNumber = None,
     mdi_BackupRetentionPeriod = None, mdi_DBInstanceClass = None, mdi_PubliclyAccessible = None, mdi_MaxAllocatedStorage = None, mdi_MultiAZ = None,
     mdi_AutoMinorVersionUpgrade = None, mdi_PreferredBackupWindow = None, mdi_PreferredMaintenanceWindow = None, mdi_EngineVersion = None,
     mdi_AllowMajorVersionUpgrade = None, mdi_ApplyImmediately = None\<rparr>"

text \<open>
  \<open>wanted_change w f\<close>: both sides are dereferenced and compared; the new value when they differ. The second
  form skips a wanted value that is nil.
\<close>

definition wanted_change :: "'a option \<Rightarrow> 'a option \<Rightarrow> ('s, 'a option) op" where
  "wanted_change wanted found = andThen (deref wanted) (\<lambda>w. andThen (deref found) (\<lambda>f. ret (if w \<noteq> f then Some w else None)))"

definition optional_change :: "'a option \<Rightarrow> 'a option \<Rightarrow> ('s, 'a option) op" where
  "optional_change wanted found = (case wanted of None \<Rightarrow> ret None | Some w \<Rightarrow> wanted_change wanted found)"

definition buildRDSUpdateStrategy ::
  "'w awsProvider \<Rightarrow> createDBInstanceInput \<Rightarrow> dbInstance \<Rightarrow> cr \<Rightarrow> ('s, modifyDBInstanceInput option) op" where
  "buildRDSUpdateStrategy p rdsConfig found inst =
     andThen (deref (dbi_DBInstanceIdentifier found)) (\<lambda>_.
     andThen (deref (dbi_CACertificateIdentifier found)) (\<lambda>cert.
     andThen (wanted_change (cdi_DeletionProtection rdsConfig) (dbi_DeletionProtection found)) (\<lambda>deletionProtection.
     andThen (case dbi_Endpoint found of None \<Rightarrow> ret None | Some ep \<Rightarrow> wanted_change (cdi_Port rdsConfig) (ep_Port ep)) (\<lambda>port.
     andThen (wanted_change (cdi_BackupRetentionPeriod rdsConfig) (dbi_BackupRetentionPeriod found)) (\<lambda>retention.
     andThen (wanted_change (cdi_DBInstanceClass rdsConfig) (dbi_DBInstanceClass found)) (\<lambda>instanceClass.
     andThen (wanted_change (cdi_PubliclyAccessible rdsConfig) (dbi_PubliclyAccessible found)) (\<lambda>public.
     andThen (wanted_change (cdi_MaxAllocatedStorage rdsConfig) (dbi_MaxAllocatedStorage found)) (\<lambda>maxStorage.
     andThen (wanted_change (cdi_MultiAZ rdsConfig) (dbi_MultiAZ found)) (\<lambda>multiAZ.
     andThen (optional_change (cdi_AutoMinorVersionUpgrade rdsConfig) (dbi_AutoMinorVersionUpgrade found)) (\<lambda>minor.
     andThen (optional_change (cdi_PreferredBackupWindow rdsConfig) (dbi_PreferredBackupWindow found)) (\<lambda>backup.
     andThen (optional_change (cdi_PreferredMaintenanceWindow rdsConfig) (dbi_PreferredMaintenanceWindow found)) (\<lambda>maintenance.
     andThen (case cdi_EngineVersion rdsConfig of None \<Rightarrow> ret False
       | Some desired \<Rightarrow> andThen (deref (dbi_EngineVersion found)) (\<lambda>current.
           wrapping ''invalid postgres version'' (lift_sum (VerifyVersionUpgradeNeeded p current desired)))) (\<lambda>upgrade.
     let certificate = (if cert = ''rds-ca-2019'' then Some ''rds-ca-rsa2048-g1'' else None);
         mi = \<lparr>mdi_DBInstanceIdentifier = dbi_DBInstanceIdentifier found, mdi_CACertificateIdentifier = certificate,
               mdi_DeletionProtection = deletionProtection, mdi_DBPortNumber = port, mdi_BackupRetentionPeriod = retention,
               mdi_DBInstanceClass = instanceClass, mdi_PubliclyAccessible = public, mdi_MaxAllocatedStorage = maxStorage, mdi_MultiAZ = multiAZ,
               mdi_AutoMinorVersionUpgrade = minor, mdi_PreferredBackupWindow = backup, mdi_PreferredMaintenanceWindow = maintenance,
               mdi_EngineVersion = (if upgrade then cdi_EngineVersion rdsConfig else None),
               mdi_AllowMajorVersionUpgrade = (if upgrade then Some True else None),
               mdi_ApplyImmediately = (if upgrade \<and> spec_ApplyImmediately (cr_spec inst) then Some True else None)\<rparr>;
         updateFound = (mi \<noteq> no_modification (dbi_DBInstanceIdentifier found))
     in ret (if (\<not> updateFound \<or> \<not> verifyPendingModification mi (dbi_PendingModifiedValues found)) \<and> mdi_ApplyImmediately mi \<noteq> Some True
             then None else Some mi))))))))))))))"

section \<open>Finding instances\<close>

definition getRDSInstances :: "'w cloud \<Rightarrow> ('w, dbInstance list) aop" where
  "getRDSInstances c = poll (andThen (attempt (query (rds_DescribeDBInstances c))) (\<lambda>r. ret (case r of Inl _ \<Rightarrow> None | Inr is \<Rightarrow> Some is)))
     (aws_polls (cl_Aws c))"

fun first_instance :: "string \<Rightarrow> dbInstance list \<Rightarrow> ('s, dbInstance option) op" where
  "first_instance n [] = ret None"
| "first_instance n (i # is) = andThen (deref (dbi_DBInstanceIdentifier i)) (\<lambda>m. if m = n then ret (Some i) else first_instance n is)"

text \<open>The identifier of the configuration is read in the loop, so it is not read for an empty list.\<close>

definition getFoundInstance :: "dbInstance list \<Rightarrow> string option \<Rightarrow> ('s, dbInstance option) op" where
  "getFoundInstance insts ident = (if insts = [] then ret None else andThen (deref ident) (\<lambda>n. first_instance n insts))"

section \<open>Metrics\<close>

definition rdsInstanceStatusIsHealthy :: "dbInstance \<Rightarrow> ('s, bool) op" where
  "rdsInstanceStatusIsHealthy i = andThen (deref (dbi_DBInstanceStatus i)) (\<lambda>st. ret (Contains healthyAWSDBInstanceStatuses st))"

text \<open>\<^verbatim>\<open>strings.TrimPrefix(s, "db.")\<close>.\<close>

definition trim_db :: "string \<Rightarrow> string" where
  "trim_db s = (if take 3 s = ''db.'' then drop 3 s else s)"

text \<open>The memory of the first returned type, in bytes.\<close>

definition setPostgresMaxMemoryMetric :: "int option list \<Rightarrow> labels \<Rightarrow> ('w, unit) aop" where
  "setPostgresMaxMemoryMetric types ls = (case types of
     Some mib # _ \<Rightarrow> set_metric ''cro_postgres_max_memory'' ls (real_of_int mib * (1024 * 1024))
   | _ \<Rightarrow> ret ())"

text \<open>The product of 64 bit integers wraps around before it is converted.\<close>

definition storage_bytes :: "int \<Rightarrow> real" where
  "storage_bytes gib = real_of_int (sint (word_of_int (gib * 1073741824) :: 64 word))"

definition exposePostgresMetrics :: "'w awsProvider \<Rightarrow> 'w cloud \<Rightarrow> cr \<Rightarrow> dbInstance option \<Rightarrow> ('w, unit) aop" where
  "exposePostgresMetrics p c inst found =
     andThen (metric_name_of p inst) (\<lambda>instanceName.
     otherwise (GetClusterID (ap_Client p)) (\<lambda>_. ()) (\<lambda>clusterID.
     let status = (case found of None \<Rightarrow> '''' | Some i \<Rightarrow> SafeStringDereference (dbi_DBInstanceStatus i));
         om = cr_meta inst;
         genericLabels = BuildGenericMetricLabels om clusterID instanceName postgresProviderName
     in andThen (SetMetricCurrentTime (ap_Now p) ''cro_postgres_info'' (BuildInfoMetricLabels om status clusterID instanceName postgresProviderName)) (\<lambda>_.
        andThen (expose_phases ''cro_postgres_status_phase'' (BuildStatusMetricsLabels om clusterID instanceName postgresProviderName) (st_Phase (cr_status inst))) (\<lambda>_.
        andThen (case found of None \<Rightarrow> ret False | Some i \<Rightarrow> rdsInstanceStatusIsHealthy i) (\<lambda>healthy.
        andThen (set_metric ''cro_postgres_available'' genericLabels (if healthy then 1 else 0)) (\<lambda>_.
        case found of None \<Rightarrow> ret ()
        | Some i \<Rightarrow>
            andThen (case dbi_AllocatedStorage i of None \<Rightarrow> ret ()
              | Some gib \<Rightarrow> set_metric ''cro_postgres_current_allocated_storage'' genericLabels (storage_bytes gib)) (\<lambda>_.
            andThen (deref (dbi_DBInstanceClass i)) (\<lambda>cls.
            otherwise (query (ec2_DescribeInstanceTypes c (trim_db cls))) (\<lambda>_. ()) (\<lambda>types.
              setPostgresMaxMemoryMetric types genericLabels)))))))))"

definition setPostgresDeletionTimestampMetric :: "'w awsProvider \<Rightarrow> cr \<Rightarrow> ('w, unit) aop" where
  "setPostgresDeletionTimestampMetric p inst = set_deletion_metric p ''cro_postgres_deletion_timestamp'' postgresProviderName inst"

text \<open>The date of an action as text and as value; a date that is nil or zero gives no text.\<close>

definition date_text :: "int option \<Rightarrow> string" where
  "date_text d = (case d of None \<Rightarrow> '''' | Some t \<Rightarrow> if t = zero_time then '''' else itoa t)"

definition date_or :: "int option \<Rightarrow> int \<Rightarrow> int" where
  "date_or d def = (case d of None \<Rightarrow> def | Some t \<Rightarrow> if t = zero_time then def else t)"

definition expose_maintenance_action :: "'w awsProvider \<Rightarrow> string \<Rightarrow> string \<Rightarrow> pendingMaintenanceAction \<Rightarrow> ('w, unit) aop" where
  "expose_maintenance_action p clusterID ident pma =
     andThen (ask (ap_Now p)) (\<lambda>now.
     andThen (deref (pma_Description pma)) (\<lambda>desc.
       set_metric ''cro_postgres_service_maintenance''
         [''clusterID'' \<mapsto> clusterID, ''ResourceIdentifier'' \<mapsto> ident, ''AutoAppliedAfterDate'' \<mapsto> date_text (pma_AutoAppliedAfterDate pma),
          ''CurrentApplyDate'' \<mapsto> date_text (pma_CurrentApplyDate pma), ''Description'' \<mapsto> desc]
         (real_of_int (date_or (pma_CurrentApplyDate pma) (date_or (pma_AutoAppliedAfterDate pma) (now div 1000000000))))))"

text \<open>The message that is logged for an error dereferences the identifier.\<close>

definition setPostgresServiceMaintenanceMetric :: "'w awsProvider \<Rightarrow> 'w cloud \<Rightarrow> dbInstance option \<Rightarrow> ('w, unit) aop" where
  "setPostgresServiceMaintenanceMetric p c found = (case found of None \<Rightarrow> ret ()
   | Some i \<Rightarrow>
       (let logged = andThen (deref (dbi_DBInstanceIdentifier i)) (\<lambda>_. ret ()) in
        andThen (attempt (GetClusterID (ap_Client p))) (\<lambda>r. case r of Inl _ \<Rightarrow> logged | Inr clusterID \<Rightarrow>
        andThen (attempt (query (rds_DescribePendingMaintenanceActions c None))) (\<lambda>r. case r of Inl _ \<Rightarrow> logged | Inr actions \<Rightarrow>
         for_each (\<lambda>su. andThen (deref (rpma_ResourceIdentifier su)) (\<lambda>ident.
           for_each (expose_maintenance_action p clusterID ident) (rpma_Details su))) actions))))"

text \<open>The connection is tested when there is an endpoint; an unknown cluster leaves its label empty.\<close>

definition createRDSConnectionMetric :: "'w awsProvider \<Rightarrow> cr \<Rightarrow> dbInstance option \<Rightarrow> ('w, unit) aop" where
  "createRDSConnectionMetric p inst found =
     andThen (metric_name_of p inst) (\<lambda>instanceName.
     andThen (attempt (GetClusterID (ap_Client p))) (\<lambda>r.
     let clusterID = (case r of Inl _ \<Rightarrow> '''' | Inr x \<Rightarrow> x);
         genericLabels = BuildGenericMetricLabels (cr_meta inst) clusterID instanceName postgresProviderName
     in case found of
          None \<Rightarrow> set_metric ''cro_postgres_connection'' genericLabels 0
        | Some i \<Rightarrow> (case dbi_Endpoint i of
            None \<Rightarrow> andThen (deref (dbi_DBInstanceIdentifier i)) (\<lambda>_. set_metric ''cro_postgres_connection'' genericLabels 0)
          | Some ep \<Rightarrow>
              andThen (deref (ep_Address ep)) (\<lambda>host. andThen (deref (ep_Port ep)) (\<lambda>port.
              andThen (ask (ap_TCPConnection p host port)) (\<lambda>conn.
                set_metric ''cro_postgres_connection'' genericLabels (if conn then 1 else 0)))))))"

section \<open>Tags, updates and the subnet group\<close>

definition getDefaultRdsTags :: "'w awsProvider \<Rightarrow> cr \<Rightarrow> ('w, awsTag list) aop" where
  "getDefaultRdsTags p inst =
     andThen (wrapping ''Failed to get default RDS tags'' (GetDefaultResourceTags (ap_Client p) (spec_Type (cr_spec inst)) (om_Name (cr_meta inst))
         (map_get (om_Labels (cr_meta inst)) ''productName''))) (\<lambda>(tags, _). ret (genericToRdsTags tags))"

definition addon_tag :: "cr \<Rightarrow> awsTag list" where
  "addon_tag inst = (if map_get (om_Labels (cr_meta inst)) ''addonName'' \<noteq> ''''
     then [\<lparr>at_Key = Some ''add-on-name'', at_Value = Some (map_get (om_Labels (cr_meta inst)) ''addonName'')\<rparr>] else [])"

definition buildRDSTagCreateStrategy :: "'w awsProvider \<Rightarrow> cr \<Rightarrow> createDBInstanceInput \<Rightarrow> ('w, createDBInstanceInput) aop" where
  "buildRDSTagCreateStrategy p inst cfg =
     andThen (wrapping ''Failed to build default tags'' (getDefaultRdsTags p inst)) (\<lambda>rdsTags.
       ret (cfg\<lparr>cdi_Tags := rdsTags @ addon_tag inst, cdi_CopyTagsToSnapshot := Some True\<rparr>))"

text \<open>Tag the instance and then its snapshots.\<close>

definition TagRDSPostgres :: "'w awsProvider \<Rightarrow> 'w cloud \<Rightarrow> cr \<Rightarrow> dbInstance \<Rightarrow> ('w, string \<times> error option) aop" where
  "TagRDSPostgres p c inst found =
     (let fail = (\<lambda>msg e. (msg, Some (ErrWrap e msg))) in
      andThen (deref (dbi_DBInstanceIdentifier found)) (\<lambda>ident.
      otherwise (getDefaultRdsTags p inst) (fail ''Failed to build default tags'') (\<lambda>rdsTag.
      andThen (deref (dbi_DBInstanceArn found)) (\<lambda>arn.
      otherwise (exec (cl_Aws c) (ReqAddTagsToResource (Some arn) rdsTag)) (fail ''Failed to add Tags to RDS instance'') (\<lambda>_.
      otherwise (query (rds_DescribeDBSnapshots c (Some ident) None)) (fail ''Can't get Snapshot info'') (\<lambda>snapshots.
      otherwise (for_each (\<lambda>sn. andThen (deref (dbs_DBSnapshotArn sn)) (\<lambda>snArn. exec (cl_Aws c) (ReqAddTagsToResource (Some snArn) rdsTag))) snapshots)
        (fail ''Failed to add Tags to RDS Snapshot'') (\<lambda>_. ret (''successfully created and tagged'', None))))))))"

text \<open>The maintenance actions that are due before one of the given dates are applied.\<close>

fun update_due :: "pendingMaintenanceAction \<Rightarrow> string list \<Rightarrow> bool \<Rightarrow> error + bool" where
  "update_due pmac [] due = Inr due"
| "update_due pmac (d # ds) due = (case ParseInt64 d of
     None \<Rightarrow> Inl (parse_int_error d)
   | Some t \<Rightarrow> update_due pmac ds (due \<or> (case pma_AutoAppliedAfterDate pmac of None \<Rightarrow> False | Some a \<Rightarrow> a < t)))"

definition apply_update ::
  "'w cloud \<Rightarrow> string list \<Rightarrow> resourcePendingMaintenanceActions \<Rightarrow> bool \<times> (string \<times> error) option \<Rightarrow> pendingMaintenanceAction \<Rightarrow> ('w, bool \<times> (string \<times> error) option) aop" where
  "apply_update c updates rpma acc pmac = (case acc of
     (_, Some _) \<Rightarrow> ret acc
   | (upgrading, None) \<Rightarrow> (case update_due pmac updates False of
       Inl e \<Rightarrow> ret (False, Some (''epoc timestamp requires string'', e))
     | Inr due \<Rightarrow>
         if \<not> due then ret acc
         else andThen (deref (pma_Action pmac)) (\<lambda>action. andThen (deref (rpma_ResourceIdentifier rpma)) (\<lambda>ident.
           otherwise (exec (cl_Aws c) (ReqApplyPendingMaintenanceAction action ident))
             (\<lambda>e. (False, Some (''failed to apply service update'', ErrWrap e ''failed to apply service update''))) (\<lambda>_. ret (True, None))))))"

definition rdsApplyServiceUpdates ::
  "'w cloud \<Rightarrow> string list \<Rightarrow> dbInstance option \<Rightarrow> ('w, bool \<times> string \<times> error option) aop" where
  "rdsApplyServiceUpdates c updates found =
     andThen (deref found) (\<lambda>i.
     andThen (attempt (query (rds_DescribePendingMaintenanceActions c (dbi_DBInstanceArn i)))) (\<lambda>r. case r of
       Inl e \<Rightarrow> andThen (deref (dbi_DBInstanceIdentifier i)) (\<lambda>ident.
         let errMsg = ''failed to get pending maintenance information for RDS with identifier : '' @ ident in ret (False, errMsg, Some (ErrWrap e errMsg)))
     | Inr actions \<Rightarrow>
         andThen (for_fold (\<lambda>acc rpma. for_fold (apply_update c updates rpma) acc (rpma_Details rpma)) (False, None) actions) (\<lambda>(upgrading, failure).
         case failure of
           Some (msg, e) \<Rightarrow> ret (False, msg, Some e)
         | None \<Rightarrow> ret (upgrading, ''completed check for service updates'', None))))"

text \<open>The subnet group of a cluster with bundled networking.\<close>

definition configureRDSVpc :: "'w awsProvider \<Rightarrow> 'w cloud \<Rightarrow> ('w, unit) aop" where
  "configureRDSVpc p c =
     (let k = ap_Client p; a = cl_Aws c in
      andThen (wrapping ''error building subnet group name'' (BuildInfraName k defaultSubnetPostfix defaultAwsIdentifierLength)) (\<lambda>sgID.
      andThen (getRDSSubnetGroup a sgID) (\<lambda>foundSubnet. case foundSubnet of
        Some _ \<Rightarrow> ret ()
      | None \<Rightarrow>
          andThen (wrapping ''error getting cluster id'' (GetClusterID k)) (\<lambda>clusterID.
          andThen (wrapping ''error getting vpc subnets'' (GetPrivateSubnetIDS k a)) (\<lambda>subIDs.
            wrapping ''unable to create db subnet group'' (exec a (ReqCreateDBSubnetGroup defaultSubnetGroupDesc sgID subIDs
              [\<lparr>at_Key = Some (GetOrganizationTag (kube_env k) @ ''clusterID''), at_Value = Some clusterID\<rparr>])))))))"

section \<open>Reconciling an instance\<close>

definition credential_secret_name :: "cr \<Rightarrow> nsName" where
  "credential_secret_name pg = (om_Name (cr_meta pg) @ defaultCredSecSuffix, om_Namespace (cr_meta pg))"

definition buildDefaultRDSSecret :: "'w awsProvider \<Rightarrow> cr \<Rightarrow> ('w, secret option) aop" where
  "buildDefaultRDSSecret p ps = otherwise (GeneratePassword (ap_NewRandom p)) (\<lambda>_. None) (\<lambda>password.
     ret (Some \<lparr>sec_Name = fst (credential_secret_name ps), sec_Namespace = snd (credential_secret_name ps),
       sec_Data = Some [''user'' \<mapsto> ''postgres'', ''password'' \<mapsto> password], sec_Type = ''Opaque'', sec_Owners = []\<rparr>))"

text \<open>\<^verbatim>\<open>addAnnotation\<close>: the resource keeps the annotation when the update fails.\<close>

definition addAnnotation :: "'w awsProvider \<Rightarrow> cr \<Rightarrow> string \<Rightarrow> ('w, cr) aop" where
  "addAnnotation p inst ident = update_cr (ap_Client p) Postgres (with_annotation ident inst)"

definition connection_details :: "dbInstance \<Rightarrow> string \<Rightarrow> ('s, postgresDeploymentDetails) op" where
  "connection_details i pass =
     andThen (deref (dbi_MasterUsername i)) (\<lambda>user.
     andThen (deref (dbi_Endpoint i)) (\<lambda>ep.
     andThen (deref (ep_Address ep)) (\<lambda>host.
     andThen (deref (dbi_DBName i)) (\<lambda>db.
     andThen (deref (ep_Port ep)) (\<lambda>port.
       ret \<lparr>pdd_Username = user, pdd_Password = pass, pdd_Host = host, pdd_Database = db, pdd_Port = port\<rparr>)))))"

text \<open>An instance that exists and is available: tag it, return its connection, annotate the resource.\<close>

definition rds_available :: "'w awsProvider \<Rightarrow> 'w cloud \<Rightarrow> cr \<Rightarrow> createDBInstanceInput \<Rightarrow> dbInstance \<Rightarrow> string \<Rightarrow> ('w, postgresDeploymentDetails create_reply) aop" where
  "rds_available p c inst cfg i pass =
     andThen (if isSTS p then ret ('''', None) else TagRDSPostgres p c inst i) (\<lambda>(croStatus, tagErr). case tagErr of
       Some e \<Rightarrow> ret (failed inst (''failed to add tags to rds: '' @ croStatus) e)
     | None \<Rightarrow>
         andThen (deref (dbi_DBInstanceIdentifier i)) (\<lambda>ident.
         andThen (connection_details i pass) (\<lambda>pdd.
         andThen (deref (dbi_DBInstanceStatus i)) (\<lambda>status.
         let msg = ''rds instance '' @ ident @ '' is as expected'';
             answer = (\<lambda>j. ((Some pdd, msg @ '', aws rds status is '' @ status, None), j))
         in if annotations_Has (cr_meta inst) ResourceIdentifierAnnotation then ret (answer inst)
            else andThen (deref (cdi_DBInstanceIdentifier cfg)) (\<lambda>cfgId.
              otherwise (addAnnotation p inst cfgId) (\<lambda>e. failed_plain (with_annotation cfgId inst) ''failed to add annotation'' e) (\<lambda>j. ret (answer j)))))))"

text \<open>The branch for an instance that was found.\<close>

definition rds_found ::
  "'w awsProvider \<Rightarrow> 'w cloud \<Rightarrow> cr \<Rightarrow> createDBInstanceInput \<Rightarrow> dbInstance \<Rightarrow> string \<Rightarrow> bool \<Rightarrow> ('w, postgresDeploymentDetails create_reply) aop" where
  "rds_found p c inst0 cfg i pass maintenanceWindow =
     andThen (deref (dbi_DBInstanceIdentifier i)) (\<lambda>ident.
     andThen (deref (dbi_DBInstanceStatus i)) (\<lambda>status.
     let msg = ''found instance '' @ ident @ '' current status '' @ status;
         inst = (case dbi_EngineVersion i of None \<Rightarrow> inst0 | Some v \<Rightarrow> inst0\<lparr>cr_status := (cr_status inst0)\<lparr>st_Version := v\<rparr>\<rparr>)
     in if status = ''failed'' then ret (failed_plain inst msg (ErrNew msg))
        else if status \<noteq> ''available'' then ret (in_progress inst (''reconcileRDSInstance() in progress, current aws rds resource status is '' @ status))
        else if maintenanceWindow
        then otherwise (buildRDSUpdateStrategy p cfg i inst) (\<lambda>e. failed inst (''error building update config for rds instance: '' @ ident) e) (\<lambda>mi. case mi of
               Some m \<Rightarrow> otherwise (exec (cl_Aws c) (ReqModifyDBInstance m)) (\<lambda>e. failed inst (''error experienced trying to modify db instance: '' @ ident) e)
                  (\<lambda>_. ret (in_progress inst (''set pending modifications for rds instance: '' @ ident)))
             | None \<Rightarrow> rds_available p c inst cfg i pass)
        else rds_available p c inst cfg i pass))"

text \<open>The branch without an instance; the configuration carries the tags afterwards.\<close>

definition rds_create :: "'w awsProvider \<Rightarrow> 'w cloud \<Rightarrow> cr \<Rightarrow> createDBInstanceInput \<Rightarrow> ('w, postgresDeploymentDetails create_reply) aop" where
  "rds_create p c inst cfg =
     (if annotations_Has (cr_meta inst) ResourceIdentifierAnnotation
      then (let errMsg = annotation_error ''Postgres'' ''RDS instance'' inst in ret (failed_plain inst errMsg (ErrNew errMsg)))
      else otherwise (if isSTS p then buildRDSTagCreateStrategy p inst cfg else ret cfg)
             (\<lambda>e. failed inst ''failed to add tags to rds: Failed to build default tags'' e) (\<lambda>cfg'.
        otherwise (exec (cl_Aws c) (ReqCreateDBInstance cfg')) (\<lambda>e. failed_plain inst (''error creating rds instance '' @ error_text e) e) (\<lambda>_.
        andThen (deref (cdi_DBInstanceIdentifier cfg')) (\<lambda>cfgId.
        otherwise (addAnnotation p inst cfgId) (\<lambda>e. failed_plain (with_annotation cfgId inst) ''failed to add annotation'' e) (\<lambda>j.
          ret (in_progress j ''started rds provision''))))))"

text \<open>
  \<^verbatim>\<open>reconcileRDSInstance\<close>: the listing comes first; the deferred metrics are set, in reverse order, once the
  instance has been looked up. The result carries the completed configuration, which the caller reads
  through its pointer.
\<close>

definition rds_metrics :: "'w awsProvider \<Rightarrow> 'w cloud \<Rightarrow> cr \<Rightarrow> dbInstance option \<Rightarrow> ('w, unit) aop" where
  "rds_metrics p c inst found =
     andThen (createRDSConnectionMetric p inst found) (\<lambda>_.
     andThen (exposePostgresMetrics p c inst found) (\<lambda>_.
       setPostgresServiceMaintenanceMetric p c found))"

definition reconcileRDSInstance ::
  "'w awsProvider \<Rightarrow> 'w cloud \<Rightarrow> cr \<Rightarrow> createDBInstanceInput \<Rightarrow> bool \<Rightarrow> bool \<Rightarrow> ('w, postgresDeploymentDetails create_reply \<times> createDBInstanceInput) aop" where
  "reconcileRDSInstance p c inst cfg0 standaloneNetworkExists maintenanceWindow =
     (let k = ap_Client p; stop = (\<lambda>msg e. (failed inst msg e, cfg0)) in
      otherwise (getRDSInstances c) (\<lambda>e. (failed_plain inst ''error getting replication groups'' e, cfg0)) (\<lambda>insts.
      otherwise (if standaloneNetworkExists then ret () else configureRDSVpc p c) (stop ''error setting up resource vpc'') (\<lambda>_.
      otherwise (if standaloneNetworkExists then ret () else configureSecurityGroup k (cl_Aws c)) (stop ''error setting up security group'') (\<lambda>_.
      otherwise (query (kube_GetSecret k (credential_secret_name inst))) (stop ''failed to retrieve rds credential secret'') (\<lambda>credSec.
      let postgresPass = map_get (sec_Data credSec) ''password'' in
      if postgresPass = '''' then ret (failed_plain inst ''unable to retrieve rds password'' (ErrNew ''unable to retrieve rds password''), cfg0)
      else otherwise (buildRDSCreateStrategy p c inst cfg0 postgresPass) (stop ''failed to build and verify aws rds instance configuration'') (\<lambda>cfg.
      andThen (getFoundInstance insts (cdi_DBInstanceIdentifier cfg)) (\<lambda>found.
      andThen (case found of Some i \<Rightarrow> rds_found p c inst cfg i postgresPass maintenanceWindow | None \<Rightarrow> rds_create p c inst cfg) (\<lambda>(answer, inst').
      andThen (rds_metrics p c inst' found) (\<lambda>_. ret ((answer, inst'), cfg))))))))))"

text \<open>After a successful reconcile in a maintenance window: service updates, then the window is closed.\<close>

definition finish_maintenance ::
  "'w awsProvider \<Rightarrow> 'w cloud \<Rightarrow> string list \<Rightarrow> createDBInstanceInput \<Rightarrow> postgresDeploymentDetails \<Rightarrow> string \<Rightarrow> cr \<Rightarrow> ('w, postgresDeploymentDetails create_reply) aop" where
  "finish_maintenance p c updates cfg pdd msg inst =
     (let close = (let inst' = inst\<lparr>cr_spec := (cr_spec inst)\<lparr>spec_MaintenanceWindow := False\<rparr>\<rparr> in
        otherwise (update_cr (ap_Client p) Postgres inst') (\<lambda>e. failed_plain inst' ''failed to set postgres maintenanceWindow to false'' e)
          (\<lambda>stored. ret ((Some pdd, msg, None), stored)))
      in if updates = [] then close
         else otherwise (getRDSInstances c) (\<lambda>e. failed_plain inst ''error getting replication groups'' e) (\<lambda>insts.
           andThen (getFoundInstance insts (cdi_DBInstanceIdentifier cfg)) (\<lambda>found.
           andThen (rdsApplyServiceUpdates c updates found) (\<lambda>(updating, message, err). case err of
             Some e \<Rightarrow> ret (failed_plain inst ''failed to service update rds instance'' e)
           | None \<Rightarrow> if updating then ret (in_progress inst message) else close))))"

definition ReconcilePostgres :: "'w awsProvider \<Rightarrow> cr \<Rightarrow> ('w, postgresDeploymentDetails create_reply) aop" where
  "ReconcilePostgres p pg0 =
     (let k = ap_Client p in
      otherwise (CreateFinalizer k Postgres pg0 DefaultFinalizer) (\<lambda>e. failed_plain (with_finalizer pg0) ''failed to set finalizer'' e) (\<lambda>pg.
      otherwise (getRDSConfig p pg) (failed pg ''failed to retrieve aws rds cluster config for instance'') (\<lambda>(rdsCfg, _, serviceUpdates, strategyConfig).
      otherwise (ReconcileProviderCredentials k (ap_Codec p) (ap_CredentialManager p) (om_Namespace (cr_meta pg))) (failed pg ''failed to reconcile rds credentials'') (\<lambda>creds.
      otherwise (VerifyMaintenanceWindow k Postgres (om_Namespace (cr_meta pg)) (om_Name (cr_meta pg))) (failed pg ''failed to verify if postgres updates are allowed'') (\<lambda>maintenanceWindow.
      andThen (buildDefaultRDSSecret p pg) (\<lambda>secret. andThen (deref secret) (\<lambda>sec.
      otherwise (ensure_secret k sec) (\<lambda>e. failed pg (''failed to create or update secret '' @ sec_Name sec @ '', action was unchanged'') e) (\<lambda>_.
      otherwise (CreateSessionFromStrategy k (ap_Files p) (ap_Must p) creds strategyConfig) (failed pg ''failed to create aws session to create rds db instance'') (\<lambda>sess.
      let c = ap_Services p sess in
      andThen (isSTSCluster k (ap_Files p)) (\<lambda>sts. let n = network_of p c sts in
      otherwise (IsEnabled n) (failed pg ''failed to check cluster vpc subnets'') (\<lambda>isEnabled.
      andThen (if isEnabled then reconcile_network p n ''failed to reconcile network provider config'' pg else ret None) (\<lambda>stopped. case stopped of
        Some answer \<Rightarrow> ret answer
      | None \<Rightarrow>
          andThen (reconcileRDSInstance p c pg rdsCfg isEnabled maintenanceWindow) (\<lambda>(((pdd, msg, err), inst), cfg). case err of
            Some e \<Rightarrow> ret ((None, msg, Some (ErrWrap e ''failed to reconcile rds instance'')), inst)
          | None \<Rightarrow> (case pdd of
              None \<Rightarrow> ret ((None, msg, None), inst)
            | Some d \<Rightarrow> if maintenanceWindow then finish_maintenance p c serviceUpdates cfg d msg inst else ret ((Some d, msg, None), inst)))))))))))))))"

section \<open>Deleting an instance\<close>

text \<open>
  An instance that is still there: it is deleted when it is available, after its protection has been lifted.
  A request to delete that finds nothing counts as a success.
\<close>

definition delete_found_instance :: "'w awsProvider \<Rightarrow> 'w cloud \<Rightarrow> cr \<Rightarrow> deleteDBInstanceInput \<Rightarrow> dbInstance \<Rightarrow> ('w, delete_reply) aop" where
  "delete_found_instance p c pg cfg i =
     andThen (exposePostgresMetrics p c pg (Some i)) (\<lambda>_.
     andThen (deref (dbi_DBInstanceStatus i)) (\<lambda>status.
     if status \<noteq> ''available''
     then ret ((''delete detected, deleteDBInstance() in progress, current aws rds status is '' @ status, None), pg)
     else andThen (deref (dbi_DeletionProtection i)) (\<lambda>protection.
       if \<not> protection
       then andThen (attempt (exec (cl_Aws c) (ReqDeleteDBInstance cfg))) (\<lambda>r. case r of
         Inl e \<Rightarrow> if aws_code e = Some ''DBInstanceNotFound'' then ret ((''delete detected, deleteDBInstance() started'', None), pg)
                    else ret (delete_failed pg (''failed to delete rds instance : '' @ error_text e) e)
       | Inr _ \<Rightarrow> ret ((''delete detected, deleteDBInstance() started'', None), pg))
       else otherwise (exec (cl_Aws c) (ReqModifyDBInstance ((no_modification (ddi_DBInstanceIdentifier cfg))\<lparr>mdi_DeletionProtection := Some False\<rparr>)))
         (delete_failed pg ''failed to remove deletion protection'') (\<lambda>_.
         ret ((''deletion protection detected, modifyDBInstance() in progress, current aws rds status is '' @ status, None), pg)))))"

text \<open>Once it is gone: the network, the credentials and the finalizer.\<close>

definition release_postgres :: "'w awsProvider \<Rightarrow> 'w NetworkProvider \<Rightarrow> bool \<Rightarrow> bool \<Rightarrow> cr \<Rightarrow> ('w, delete_reply) aop" where
  "release_postgres p n isEnabled isLastResource pg =
     andThen (remove_network p n isEnabled isLastResource pg) (\<lambda>stopped. case stopped of
       Some answer \<Rightarrow> ret answer
     | None \<Rightarrow>
         andThen (attempt (request (kube_DeleteSecret (ap_Client p) (credential_secret_name pg)) (\<lambda>r. EvDeleteSecret (credential_secret_name pg) (ok r)))) (\<lambda>r.
         case r of
           Inl e \<Rightarrow> if k8s_IsNotFound e then remove_finalizer p Postgres pg else ret (delete_failed pg ''failed to deleted rds secrets'' e)
         | Inr _ \<Rightarrow> remove_finalizer p Postgres pg))"

definition deleteRDSInstance ::
  "'w awsProvider \<Rightarrow> 'w cloud \<Rightarrow> 'w NetworkProvider \<Rightarrow> cr \<Rightarrow> createDBInstanceInput \<Rightarrow> deleteDBInstanceInput \<Rightarrow> bool \<Rightarrow> bool \<Rightarrow> ('w, delete_reply) aop" where
  "deleteRDSInstance p c n pg createConfig deleteConfig isEnabled isLastResource =
     otherwise (getRDSInstances c) (\<lambda>e. ((''error getting aws rds instances'', Some e), pg)) (\<lambda>insts.
     otherwise (buildRDSDeleteConfig p pg createConfig deleteConfig) (delete_failed pg ''failed to verify aws rds instance configuration'') (\<lambda>cfg.
     andThen (getFoundInstance insts (ddi_DBInstanceIdentifier cfg)) (\<lambda>found. case found of
       Some i \<Rightarrow> delete_found_instance p c pg cfg i
     | None \<Rightarrow> release_postgres p n isEnabled isLastResource pg)))"

definition DeletePostgres :: "'w awsProvider \<Rightarrow> cr \<Rightarrow> ('w, delete_reply) aop" where
  "DeletePostgres p r =
     (let k = ap_Client p in
      andThen (setPostgresDeletionTimestampMetric p r) (\<lambda>_.
      otherwise (getRDSConfig p r) (\<lambda>e. ((''failed to retrieve aws rds config'', Some e), r)) (\<lambda>(createConfig, deleteConfig, _, stratCfg).
      otherwise (ReconcileProviderCredentials k (ap_Codec p) (ap_CredentialManager p) (om_Namespace (cr_meta r))) (delete_failed r ''failed to reconcile aws provider credentials'') (\<lambda>creds.
      otherwise (CreateSessionFromStrategy k (ap_Files p) (ap_Must p) creds stratCfg) (delete_failed r ''failed to create aws session to delete rds db instance'') (\<lambda>sess.
      let c = ap_Services p sess in
      andThen (isSTSCluster k (ap_Files p)) (\<lambda>sts. let n = network_of p c sts in
      otherwise (IsEnabled n) (delete_failed r ''failed to check cluster vpc subnets'') (\<lambda>isEnabled.
      otherwise (IsLastResource k) (delete_failed r ''failed to check if this cr is the last cr of type postgres and redis'') (\<lambda>isLastResource.
        deleteRDSInstance p c n r createConfig deleteConfig isEnabled isLastResource))))))))"

end
