(* ===== verification/AWS_Snapshots.thy ===== *)
theory AWS_Snapshots
  imports AWS_RDS
begin

text \<open>
  The snapshot providers for AWS (\<^verbatim>\<open>pkg/providers/aws/provider_postgressnapshot.go\<close> and
  \<^verbatim>\<open>provider_redissnapshot.go\<close>), operation by operation. A snapshot resource is changed through its pointer, so it is
  part of the result. The SDK returns an empty output beside an error.
\<close>

section \<open>Shared parts\<close>

definition createSessionForResource :: "'w awsProvider \<Rightarrow> string \<Rightarrow> string \<Rightarrow> string \<Rightarrow> ('w, session) aop" where
  "createSessionForResource p ns resourceType tier =
     andThen (wrapping ''failed to reconcile aws credentials'' (ReconcileProviderCredentials (ap_Client p) (ap_Codec p) (ap_CredentialManager p) ns)) (\<lambda>creds.
     andThen (ReadStorageStrategy (ap_Client p) (ap_ConfigManager p) resourceType tier) (\<lambda>stratCfg.
       CreateSessionFromStrategy (ap_Client p) (ap_Files p) (ap_Must p) creds stratCfg))"

text \<open>The name is generated from the creation of the resource and stored in its status first.\<close>

definition name_snapshot :: "'w awsProvider \<Rightarrow> kind \<Rightarrow> snapshot \<Rightarrow> (string \<Rightarrow> snapshot \<Rightarrow> ('w, snapshot_reply) aop) \<Rightarrow> ('w, snapshot_reply) aop" where
  "name_snapshot p kind sn k =
     otherwise (BuildTimestampedInfraNameFromObjectCreation (ap_Client p) (sn_meta sn) defaultAwsIdentifierLength) (sn_failed sn ''failed to generate snapshot name'') (\<lambda>snapshotName.
     let sn1 = sn\<lparr>sn_status := (sn_status sn)\<lparr>ss_SnapshotID := snapshotName\<rparr>\<rparr> in
     otherwise (status_update_snapshot (ap_Client p) kind sn1)
       (sn_failed sn1 (''failed to update instance '' @ om_Name (sn_meta sn) @ '' in namespace '' @ om_Namespace (sn_meta sn))) (\<lambda>stored.
       k snapshotName stored))"

text \<open>The end of a deletion, once the snapshot is gone.\<close>

definition release_snapshot :: "'w awsProvider \<Rightarrow> kind \<Rightarrow> snapshot \<Rightarrow> ('w, snapshot_delete_reply) aop" where
  "release_snapshot p kind sn =
     andThen (deref (RemoveFinalizer (sn_meta sn) DefaultFinalizer)) (\<lambda>om.
     let sn1 = sn\<lparr>sn_meta := om\<rparr> in
     otherwise (update_snapshot (ap_Client p) kind sn1) (sn_delete_failed sn1 ''failed to update instance as part of finalizer reconcile'') (\<lambda>stored.
       ret ((''snapshot deleted'', None), stored)))"

section \<open>Postgres\<close>

fun first_db_snapshot :: "string \<Rightarrow> dbSnapshot list \<Rightarrow> ('s, dbSnapshot option) op" where
  "first_db_snapshot n [] = ret None"
| "first_db_snapshot n (x # xs) = andThen (deref (dbs_DBSnapshotIdentifier x)) (\<lambda>m. if m = n then ret (Some x) else first_db_snapshot n xs)"

definition find_db_snapshot :: "'w cloud \<Rightarrow> string \<Rightarrow> ('w, dbSnapshot option) aop" where
  "find_db_snapshot c snapshotName =
     andThen (attempt (query (rds_DescribeDBSnapshots c None (Some snapshotName)))) (\<lambda>r. case r of
       Inl e \<Rightarrow> if aws_code e = Some ''DBSnapshotNotFound'' then ret None else throw e
     | Inr xs \<Rightarrow> first_db_snapshot snapshotName xs)"

definition createPostgresSnapshot :: "'w awsProvider \<Rightarrow> 'w cloud \<Rightarrow> snapshot \<Rightarrow> cr \<Rightarrow> ('w, snapshot_reply) aop" where
  "createPostgresSnapshot p c sn0 pg = name_snapshot p Postgres sn0 (\<lambda>snapshotName sn.
     otherwise (BuildInfraNameFromObject (ap_Client p) (cr_meta pg) defaultAwsIdentifierLength) (sn_failed sn ''failed to get cluster name'') (\<lambda>instanceName.
     otherwise (find_db_snapshot c snapshotName) (sn_failed sn ''failed to describe snaphots in AWS'') (\<lambda>found. case found of
       None \<Rightarrow>
         if st_Phase (cr_status pg) = PhaseInProgress then ret ((None, ''waiting for postgres instance to be available'', None), sn)
         else if st_Phase (cr_status pg) = PhaseDeleteInProgress
         then (let errMsg = ''cannot create snapshot when instance deletion is in progress'' in ret ((None, errMsg, Some (ErrNew errMsg)), sn))
         else otherwise (GetDefaultResourceTags (ap_Client p) (spec_Type (cr_spec pg)) snapshotName (map_get (om_Labels (cr_meta pg)) ''productName''))
           (\<lambda>e. ((None, '''', Some (ErrWrap e ''failed to get default postgres tags'')), sn)) (\<lambda>(tags, _).
           otherwise (exec (cl_Aws c) (ReqCreateDBSnapshot instanceName snapshotName (genericToRdsTags tags))) (sn_failed sn ''error creating rds snapshot'') (\<lambda>_.
             ret ((None, ''snapshot started'', None), sn)))
     | Some x \<Rightarrow> andThen (deref (dbs_Status x)) (\<lambda>status.
         if status = ''available'' then andThen (deref (dbs_DBSnapshotIdentifier x)) (\<lambda>i. ret ((Some i, ''snapshot created'', None), sn))
         else ret ((None, ''current snapshot status : '' @ status, None), sn)))))"

definition CreatePostgresSnapshot :: "'w awsProvider \<Rightarrow> snapshot \<Rightarrow> cr \<Rightarrow> ('w, snapshot_reply) aop" where
  "CreatePostgresSnapshot p sn0 pg =
     otherwise (CreateFinalizer_snapshot (ap_Client p) Postgres sn0)
       (sn_failed (snapshot_finalizer sn0) (''failed to set finalizer for snapshot '' @ om_Name (sn_meta sn0))) (\<lambda>sn.
     otherwise (createSessionForResource p (om_Namespace (cr_meta pg)) ''postgres'' (spec_Tier (cr_spec pg))) (sn_failed sn ''failed to create AWS session'') (\<lambda>sess.
       createPostgresSnapshot p (ap_Services p sess) sn pg))"

definition deletePostgresSnapshot :: "'w awsProvider \<Rightarrow> 'w cloud \<Rightarrow> snapshot \<Rightarrow> ('w, snapshot_delete_reply) aop" where
  "deletePostgresSnapshot p c sn =
     (let snapshotName = ss_SnapshotID (sn_status sn) in
      otherwise (find_db_snapshot c snapshotName) (sn_delete_failed sn ''failed to describe snaphots in AWS'') (\<lambda>found. case found of
        None \<Rightarrow> release_snapshot p Postgres sn
      | Some x \<Rightarrow>
          otherwise (exec (cl_Aws c) (ReqDeleteDBSnapshot (dbs_DBSnapshotIdentifier x))) (sn_delete_failed sn (''failed to delete snapshot '' @ snapshotName @ '' in aws'')) (\<lambda>_.
            ret ((''snapshot deletion started'', None), sn))))"

definition DeletePostgresSnapshot :: "'w awsProvider \<Rightarrow> snapshot \<Rightarrow> cr \<Rightarrow> ('w, snapshot_delete_reply) aop" where
  "DeletePostgresSnapshot p sn pg =
     otherwise (createSessionForResource p (om_Namespace (cr_meta pg)) ''postgres'' (spec_Tier (cr_spec pg))) (sn_delete_failed sn ''failed to create AWS session'') (\<lambda>sess.
       deletePostgresSnapshot p (ap_Services p sess) sn)"

section \<open>Redis\<close>

fun first_cache_snapshot :: "string \<Rightarrow> cacheSnapshot list \<Rightarrow> ('s, cacheSnapshot option) op" where
  "first_cache_snapshot n [] = ret None"
| "first_cache_snapshot n (x # xs) = andThen (deref (cs_SnapshotName x)) (\<lambda>m. if m = n then ret (Some x) else first_cache_snapshot n xs)"

definition find_cache_snapshot :: "'w cloud \<Rightarrow> string \<Rightarrow> ('w, cacheSnapshot option) aop" where
  "find_cache_snapshot c snapshotName =
     andThen (attempt (query (cache_DescribeSnapshots c None (Some snapshotName)))) (\<lambda>r. case r of
       Inl e \<Rightarrow> if aws_code e = Some ''SnapshotNotFound'' then ret None else throw e
     | Inr xs \<Rightarrow> first_cache_snapshot snapshotName xs)"

text \<open>The first member of the first node group with the role of the primary; the empty name when there is none.\<close>

fun primary_node :: "nodeGroupMember list \<Rightarrow> ('s, string) op" where
  "primary_node [] = ret ''''"
| "primary_node (m # ms) = andThen (deref (ngm_CurrentRole m)) (\<lambda>role. if role = ''primary'' then deref (ngm_CacheClusterId m) else primary_node ms)"

definition createRedisSnapshot :: "'w awsProvider \<Rightarrow> 'w cloud \<Rightarrow> snapshot \<Rightarrow> cr \<Rightarrow> ('w, snapshot_reply) aop" where
  "createRedisSnapshot p c sn0 r = name_snapshot p Redis sn0 (\<lambda>snapshotName sn.
     otherwise (BuildInfraNameFromObject (ap_Client p) (cr_meta r) defaultAwsIdentifierLength) (sn_failed sn ''failed to get cluster name'') (\<lambda>clusterName.
     otherwise (find_cache_snapshot c snapshotName) (sn_failed sn ''failed to describe snaphots in AWS'') (\<lambda>found.
     andThen (attempt (query (cache_DescribeReplicationGroups c (Some clusterName)))) (\<lambda>out.
     case (case out of Inl _ \<Rightarrow> [] | Inr gs \<Rightarrow> gs) of
       [] \<Rightarrow> crash
     | g # _ \<Rightarrow> andThen (deref (rg_Status g)) (\<lambda>status.
         if status \<noteq> ''available'' then ret ((None, ''current replication group status is '' @ status, None), sn)
         else case rg_NodeGroups g of
           [] \<Rightarrow> crash
         | ng # _ \<Rightarrow> andThen (primary_node (ng_NodeGroupMembers ng)) (\<lambda>cacheName. case found of
             None \<Rightarrow>
               otherwise (GetDefaultResourceTags (ap_Client p) (spec_Type (cr_spec r)) snapshotName (map_get (om_Labels (cr_meta r)) ''productName''))
                 (\<lambda>e. ((None, '''', Some (ErrWrap e ''failed to get default redis tags'')), sn)) (\<lambda>(tags, _).
                 otherwise (exec (cl_Aws c) (ReqCreateSnapshot cacheName snapshotName (genericListToElasticacheTagList tags))) (sn_failed sn ''error creating elasticache snapshot'') (\<lambda>_.
                   ret ((None, ''snapshot started'', None), sn)))
           | Some x \<Rightarrow> andThen (deref (cs_SnapshotStatus x)) (\<lambda>st.
               if st = ''available'' then andThen (deref (cs_SnapshotName x)) (\<lambda>n. ret ((Some n, ''snapshot created'', None), sn))
               else ret ((None, ''current snapshot status : '' @ st, None), sn))))))))"

definition CreateRedisSnapshot :: "'w awsProvider \<Rightarrow> snapshot \<Rightarrow> cr \<Rightarrow> ('w, snapshot_reply) aop" where
  "CreateRedisSnapshot p sn0 r =
     otherwise (CreateFinalizer_snapshot (ap_Client p) Redis sn0)
       (sn_failed (snapshot_finalizer sn0) (''failed to set finalizer for snapshot '' @ om_Name (sn_meta sn0))) (\<lambda>sn.
     otherwise (createSessionForResource p (om_Namespace (cr_meta r)) ''redis'' (spec_Tier (cr_spec r))) (sn_failed sn ''failed to create AWS session'') (\<lambda>sess.
       createRedisSnapshot p (ap_Services p sess) sn r))"

definition deleteRedisSnapshot :: "'w awsProvider \<Rightarrow> 'w cloud \<Rightarrow> snapshot \<Rightarrow> ('w, snapshot_delete_reply) aop" where
  "deleteRedisSnapshot p c sn =
     (let snapshotName = ss_SnapshotID (sn_status sn) in
      otherwise (find_cache_snapshot c snapshotName) (sn_delete_failed sn ''failed to describe snaphots in AWS'') (\<lambda>found. case found of
        None \<Rightarrow> release_snapshot p Redis sn
      | Some _ \<Rightarrow>
          otherwise (exec (cl_Aws c) (ReqDeleteSnapshot snapshotName)) (sn_delete_failed sn (''failed to delete snapshot '' @ snapshotName @ '' in aws'')) (\<lambda>_.
            ret ((''snapshot deletion started'', None), sn))))"

definition DeleteRedisSnapshot :: "'w awsProvider \<Rightarrow> snapshot \<Rightarrow> cr \<Rightarrow> ('w, snapshot_delete_reply) aop" where
  "DeleteRedisSnapshot p sn r =
     otherwise (createSessionForResource p (om_Namespace (cr_meta r)) ''redis'' (spec_Tier (cr_spec r))) (sn_delete_failed sn ''failed to create AWS session'') (\<lambda>sess.
       deleteRedisSnapshot p (ap_Services p sess) sn)"

end
