(* ===== verification/AWS_S3.thy ===== *)
theory AWS_S3
  imports AWS_RDS
begin

text \<open>
  The BlobStorage provider for AWS S3 (\<^verbatim>\<open>pkg/providers/aws/provider_blobstorage.go\<close>), operation by operation. Of
  the input of a bucket only its name is kept; deleting all objects of a bucket with the batch deleter of the
  SDK is one request.
\<close>

section \<open>Configuration\<close>

definition blobstorageProviderName :: string where "blobstorageProviderName = ''aws-s3''"

definition defaultAwsBucketNameLength :: int where "defaultAwsBucketNameLength = 40"

record blobDeploymentDetails =
  bdd_BucketName :: string
  bdd_BucketRegion :: string
  bdd_CredentialKeyID :: string
  bdd_CredentialSecretKey :: string

definition blob_Data :: "blobDeploymentDetails \<Rightarrow> labels" where
  "blob_Data d = [''bucketName'' \<mapsto> bdd_BucketName d, ''bucketRegion'' \<mapsto> bdd_BucketRegion d,
     ''credentialKeyID'' \<mapsto> bdd_CredentialKeyID d, ''credentialSecretKey'' \<mapsto> bdd_CredentialSecretKey d]"

text \<open>\<^verbatim>\<open>json.Unmarshal\<close> into \<^verbatim>\<open>S3DeleteStrat\<close>: one field, a pointer to a bool; null resets it.\<close>

definition decode_force :: "string \<times> json \<Rightarrow> bool option \<times> error option \<Rightarrow> bool option \<times> error option" where
  "decode_force m acc = (case field_of [''forceBucketDeletion''] (fst m) of
     None \<Rightarrow> acc
   | Some f \<Rightarrow> (case snd m of
       JBool b \<Rightarrow> (Some b, snd acc)
     | JNull \<Rightarrow> (None, snd acc)
     | v \<Rightarrow> (fst acc, first_error (snd acc) (ErrNew (''json: cannot unmarshal '' @ json_kind v @ '' into Go struct field S3DeleteStrat.'' @ f @ '' of type bool'')))))"

definition Unmarshal_S3DeleteStrat :: "json option \<Rightarrow> error + bool option" where
  "Unmarshal_S3DeleteStrat raw = (case raw of
     None \<Rightarrow> Inl (ErrNew ''unexpected end of JSON input'')
   | Some JNull \<Rightarrow> Inr None
   | Some (JObject ms) \<Rightarrow> (case fold decode_force ms (None, None) of (b, None) \<Rightarrow> Inr b | (_, Some e) \<Rightarrow> Inl e)
   | Some v \<Rightarrow> Inl (ErrNew (''json: cannot unmarshal '' @ json_kind v @ '' into Go value of type aws.S3DeleteStrat'')))"

definition getS3BucketConfig :: "'w awsProvider \<Rightarrow> cr \<Rightarrow> ('w, string option \<times> bool option \<times> strategyConfig) aop" where
  "getS3BucketConfig p bs =
     andThen (read_strategy p ''blobstorage'' bs) (\<lambda>stratCfg.
     andThen (wrapping ''failed to unmarshal aws s3 create strat configuration'' (lift_sum (dec_CreateBucket (ap_Decoders p) (sc_CreateStrategy stratCfg)))) (\<lambda>createConfig.
     andThen (wrapping ''failed to unmarshal aws s3 delete strat configuration'' (lift_sum (Unmarshal_S3DeleteStrat (sc_DeleteStrategy stratCfg)))) (\<lambda>deleteConfig.
       ret (createConfig, deleteConfig, stratCfg))))"

text \<open>The name of the bucket and the force flag are filled in, so the results are not nil.\<close>

definition buildS3BucketConfig :: "'w awsProvider \<Rightarrow> cr \<Rightarrow> ('w, string \<times> bool \<times> strategyConfig) aop" where
  "buildS3BucketConfig p bs =
     (let msg = ''failed to retrieve aws s3 bucket config for blob storage instance '' @ om_Name (cr_meta bs) in
      andThen (wrapping msg (getS3BucketConfig p bs)) (\<lambda>(bucket, force, stratCfg).
      andThen (wrapping msg (BuildInfraNameFromObject (ap_Client p) (cr_meta bs) defaultAwsBucketNameLength)) (\<lambda>bucketName.
        ret (case bucket of Some b \<Rightarrow> b | None \<Rightarrow> bucketName, case force of Some f \<Rightarrow> f | None \<Rightarrow> False, stratCfg))))"

section \<open>Buckets\<close>

definition getS3buckets :: "'w cloud \<Rightarrow> ('w, string option list) aop" where
  "getS3buckets c = wrapping ''timed out waiting to list s3 buckets''
     (poll (andThen (attempt (query (s3_ListBuckets c))) (\<lambda>r. ret (case r of Inl _ \<Rightarrow> None | Inr bs \<Rightarrow> Some bs))) (aws_polls (cl_Aws c)))"

text \<open>The loop that looks for the bucket; a bucket without a name panics.\<close>

fun bucket_listed :: "string \<Rightarrow> string option list \<Rightarrow> ('s, bool) op" where
  "bucket_listed n [] = ret False"
| "bucket_listed n (b # bs) = andThen (deref b) (\<lambda>m. if m = n then ret True else bucket_listed n bs)"

definition reconcileS3BucketSettings :: "'w cloud \<Rightarrow> string \<Rightarrow> ('w, unit) aop" where
  "reconcileS3BucketSettings c bucket =
     andThen (wrapping (''failed to set client access settings on bucket '' @ bucket) (exec (cl_Aws c) (ReqPutPublicAccessBlock bucket [True, True, True, True]))) (\<lambda>_.
       wrapping (''failed to set encryption settings on bucket '' @ bucket) (exec (cl_Aws c) (ReqPutBucketEncryption bucket ''AES256'')))"

definition getBucketSize :: "'w cloud \<Rightarrow> string \<Rightarrow> ('w, nat) aop" where
  "getBucketSize c bucket = wrapping (''unable to list items in bucket '' @ quoted bucket) (query (s3_ListObjectsV2 c bucket))"

definition emptyBucket :: "'w cloud \<Rightarrow> string \<Rightarrow> ('w, unit) aop" where
  "emptyBucket c bucket = andThen (getBucketSize c bucket) (\<lambda>sz.
     if sz = 0 then ret () else wrapping ''unable to delete objects from bucket'' (exec (cl_Aws c) (ReqDeleteObjects bucket)))"

definition deleteBucket :: "'w cloud \<Rightarrow> string \<Rightarrow> ('w, unit) aop" where
  "deleteBucket c bucket = andThen (attempt (exec (cl_Aws c) (ReqDeleteBucket (Some bucket)))) (\<lambda>r. case r of
     Inr _ \<Rightarrow> ret ()
   | Inl e \<Rightarrow> if aws_code e = Some ''NoSuchBucket'' then ret () else throw (ErrWrap e (''failed to delete s3 bucket: '' @ error_text e)))"

section \<open>Metrics and tags\<close>

definition buildBlobStorageStatusMetricLabels :: "cr \<Rightarrow> string \<Rightarrow> string \<Rightarrow> string \<Rightarrow> labels" where
  "buildBlobStorageStatusMetricLabels inst clusterID bucketName phase =
     [''clusterID'' \<mapsto> clusterID, ''resourceID'' \<mapsto> om_Name (cr_meta inst), ''namespace'' \<mapsto> om_Namespace (cr_meta inst), ''instanceID'' \<mapsto> bucketName,
      ''productName'' \<mapsto> map_get (om_Labels (cr_meta inst)) ''productName'', ''strategy'' \<mapsto> blobstorageProviderName, ''statusPhase'' \<mapsto> phase]"

definition exposeBlobStorageMetrics :: "'w awsProvider \<Rightarrow> cr \<Rightarrow> ('w, unit) aop" where
  "exposeBlobStorageMetrics p inst =
     andThen (attempt (BuildInfraNameFromObject (ap_Client p) (cr_meta inst) defaultAwsBucketNameLength)) (\<lambda>x.
     otherwise (GetClusterID (ap_Client p)) (\<lambda>_. ()) (\<lambda>clusterID.
       expose_phases ''cro_blobstorage_status_phase'' (buildBlobStorageStatusMetricLabels inst clusterID (case x of Inl _ \<Rightarrow> '''' | Inr n \<Rightarrow> n)) (st_Phase (cr_status inst))))"

definition genericToS3Tags :: "tag list \<Rightarrow> awsTag list" where
  "genericToS3Tags ts = map genericToEc2Tag ts"

definition getDefaultS3Tags :: "'w awsProvider \<Rightarrow> cr \<Rightarrow> ('w, awsTag list) aop" where
  "getDefaultS3Tags p inst =
     andThen (wrapping ''Failed to get default s3 tags'' (GetDefaultResourceTags (ap_Client p) (spec_Type (cr_spec inst)) (om_Name (cr_meta inst))
         (map_get (om_Labels (cr_meta inst)) ''productName''))) (\<lambda>(tags, _). ret (genericToS3Tags tags))"

definition TagBlobStorage :: "'w awsProvider \<Rightarrow> 'w cloud \<Rightarrow> string \<Rightarrow> cr \<Rightarrow> ('w, string \<times> error option) aop" where
  "TagBlobStorage p c bucketName bs =
     otherwise (getDefaultS3Tags p bs) (\<lambda>e. (''Failed to build default tags'', Some (ErrWrap e ''Failed to build default tags''))) (\<lambda>bucketTags.
     otherwise (exec (cl_Aws c) (ReqPutBucketTagging bucketName bucketTags))
       (\<lambda>e. let errMsg = ''failed to add tags to S3 bucket: '' @ error_text e in (errMsg, Some (ErrWrap e errMsg))) (\<lambda>_.
       ret (''successfully created and tagged'', None)))"

section \<open>Creating a bucket\<close>

definition buildEndUserCredentialsNameFromBucket :: "string \<Rightarrow> string" where
  "buildEndUserCredentialsNameFromBucket b = ''cro-aws-s3-'' @ b @ ''-creds''"

text \<open>The body of \<^verbatim>\<open>reconcileBucketCreate\<close> after the bucket was looked up.\<close>

definition bucket_create :: "'w awsProvider \<Rightarrow> 'w cloud \<Rightarrow> cr \<Rightarrow> string \<Rightarrow> bool \<Rightarrow> ('w, delete_reply) aop" where
  "bucket_create p c bs bucket found =
     (if found
      then otherwise (reconcileS3BucketSettings c bucket) (delete_failed bs (''failed to set s3 bucket settings '' @ bucket)) (\<lambda>_. ret ((''using bucket '' @ bucket, None), bs))
      else if annotations_Has (cr_meta bs) ResourceIdentifierAnnotation
      then (let errMsg = annotation_error ''BlobStorage'' ''S3 Bucket'' bs in ret ((errMsg, Some (ErrNew errMsg)), bs))
      else otherwise (exec (cl_Aws c) (ReqCreateBucket (Some bucket))) (delete_failed bs (''failed to create s3 bucket '' @ bucket)) (\<lambda>_.
        let bs1 = with_annotation bucket bs in
        otherwise (update_cr (ap_Client p) BlobStorage bs1) (delete_failed bs1 ''failed to add annotation'') (\<lambda>stored.
        otherwise (reconcileS3BucketSettings c bucket) (delete_failed stored (''failed to set s3 bucket settings on bucket creation '' @ bucket)) (\<lambda>_.
          ret ((''successfully reconciled'', None), stored)))))"

definition reconcileBucketCreate :: "'w awsProvider \<Rightarrow> 'w cloud \<Rightarrow> cr \<Rightarrow> string \<Rightarrow> ('w, delete_reply) aop" where
  "reconcileBucketCreate p c bs bucket =
     otherwise (getS3buckets c) (delete_failed bs ''failed to list existing aws s3 buckets, credentials could be reconciling'') (\<lambda>buckets.
     andThen (bucket_listed bucket buckets) (\<lambda>found.
     andThen (bucket_create p c bs bucket found) (\<lambda>(answer, bs').
     andThen (exposeBlobStorageMetrics p bs') (\<lambda>_. ret (answer, bs')))))"

text \<open>The details of the bucket; with STS there are no keys.\<close>

definition bucket_details :: "'w awsProvider \<Rightarrow> string \<Rightarrow> string \<Rightarrow> aws_credentials option \<Rightarrow> ('s, blobDeploymentDetails) op" where
  "bucket_details p bucket region creds =
     (if isSTS p then ret \<lparr>bdd_BucketName = bucket, bdd_BucketRegion = region, bdd_CredentialKeyID = '''', bdd_CredentialSecretKey = ''''\<rparr>
      else andThen (deref creds) (\<lambda>k. ret \<lparr>bdd_BucketName = bucket, bdd_BucketRegion = region,
        bdd_CredentialKeyID = cred_AccessKeyID k, bdd_CredentialSecretKey = cred_SecretAccessKey k\<rparr>))"

definition CreateStorage :: "'w awsProvider \<Rightarrow> cr \<Rightarrow> ('w, blobDeploymentDetails create_reply) aop" where
  "CreateStorage p bs0 =
     (let k = ap_Client p in
      otherwise (CreateFinalizer k BlobStorage bs0 DefaultFinalizer) (\<lambda>e. failed_plain (with_finalizer bs0) ''failed to set finalizer'' e) (\<lambda>bs.
      let name = om_Name (cr_meta bs); ns = om_Namespace (cr_meta bs) in
      otherwise (buildS3BucketConfig p bs) (failed bs ''failed to build s3 bucket config'') (\<lambda>(bucket, _, stratCfg).
      otherwise (ReconcileProviderCredentials k (ap_Codec p) (ap_CredentialManager p) ns)
        (failed bs (''failed to reconcile aws blob storage provider credentials for blob storage instance '' @ name)) (\<lambda>creds.
      otherwise (CreateSessionFromStrategy k (ap_Files p) (ap_Must p) creds stratCfg) (failed bs ''failed to create aws session to create s3 bucket'') (\<lambda>sess.
      let c = ap_Services p sess in
      andThen (reconcileBucketCreate p c bs bucket) (\<lambda>((msg, err), bs'). case err of
        Some e \<Rightarrow> ret (failed bs' msg e)
      | None \<Rightarrow>
          otherwise (ReconcileBucketOwnerCredentials k (ap_Codec p) (ap_CredentialManager p) (buildEndUserCredentialsNameFromBucket bucket) (om_Namespace (cr_meta bs')) bucket)
            (failed bs' (''failed to reconcile s3 end-user credentials for blob storage instance '' @ om_Name (cr_meta bs'))) (\<lambda>endUserCreds.
          andThen (bucket_details p bucket (sc_Region stratCfg) endUserCreds) (\<lambda>bsi.
          andThen (TagBlobStorage p c bucket bs') (\<lambda>(msg, tagErr). case tagErr of
            Some e \<Rightarrow> ret (failed bs' (''failed to add tags to bucket: '' @ msg) e)
          | None \<Rightarrow> ret ((Some bsi, msg, None), bs'))))))))))"

section \<open>Deleting a bucket\<close>

text \<open>The resource is changed through its pointer, so the result is the changed resource and an error or none.\<close>

definition removeCredsAndFinalizer :: "'w awsProvider \<Rightarrow> cr \<Rightarrow> string \<Rightarrow> ('w, error option \<times> cr) aop" where
  "removeCredsAndFinalizer p bs bucket =
     (let k = ap_Client p; name = buildEndUserCredentialsNameFromBucket bucket; key = (name, om_Namespace (cr_meta bs)) in
      andThen (attempt (request (kube_DeleteCredentialsRequest k key) (\<lambda>r. EvDeleteCredentialsRequest key (ok r)))) (\<lambda>x.
      case (case x of Inl e \<Rightarrow> if k8s_IsNotFound e then None else Some e | Inr _ \<Rightarrow> None) of
        Some e \<Rightarrow> ret (Some (ErrWrap e (''failed to delete credential request '' @ name)), bs)
      | None \<Rightarrow>
          andThen (deref (RemoveFinalizer (cr_meta bs) DefaultFinalizer)) (\<lambda>om.
          let bs1 = bs\<lparr>cr_meta := om\<rparr> in
          otherwise (update_cr k BlobStorage bs1) (\<lambda>e. (Some (ErrWrap e ''failed to update blob storage cr as part of finalizer reconcile''), bs1)) (\<lambda>stored.
          andThen (exposeBlobStorageMetrics p stored) (\<lambda>_. ret (None, stored))))))"

text \<open>The end of \<^verbatim>\<open>reconcileBucketDelete\<close>: the bucket is deleted when it is empty or deletion is forced.\<close>

definition delete_and_release :: "'w awsProvider \<Rightarrow> 'w cloud \<Rightarrow> cr \<Rightarrow> string \<Rightarrow> bool \<Rightarrow> ('w, delete_reply) aop" where
  "delete_and_release p c bs bucket force =
     otherwise (getBucketSize c bucket) (delete_failed bs (''unable to get bucket size : '' @ bucket)) (\<lambda>bucketSize.
     otherwise (if force \<or> bucketSize = 0 then emptyBucket c bucket else ret ()) (delete_failed bs (''unable to empty bucket : '' @ quoted bucket)) (\<lambda>_.
     otherwise (if force \<or> bucketSize = 0 then deleteBucket c bucket else ret ()) (delete_failed bs (''unable to delete bucket : '' @ bucket)) (\<lambda>_.
     andThen (removeCredsAndFinalizer p bs bucket) (\<lambda>(err, bs'). case err of
       Some e \<Rightarrow> ret (delete_failed bs' (''unable to remove credential secrets and finalizer for '' @ bucket) e)
     | None \<Rightarrow> ret (('''', None), bs')))))"

definition reconcileBucketDelete :: "'w awsProvider \<Rightarrow> 'w cloud \<Rightarrow> cr \<Rightarrow> string \<Rightarrow> bool \<Rightarrow> ('w, delete_reply) aop" where
  "reconcileBucketDelete p c bs bucket force =
     otherwise (getS3buckets c) (\<lambda>e. ((''error getting s3 buckets'', Some e), bs)) (\<lambda>buckets.
     andThen (bucket_listed bucket buckets) (\<lambda>found.
     if found then delete_and_release p c bs bucket force
     else andThen (removeCredsAndFinalizer p bs bucket) (\<lambda>(err, bs'). case err of
       Some e \<Rightarrow> ret (delete_failed bs' (''unable to remove credential secrets and finalizer for '' @ bucket) e)
     | None \<Rightarrow> delete_and_release p c bs' bucket force)))"

definition DeleteStorage :: "'w awsProvider \<Rightarrow> cr \<Rightarrow> ('w, delete_reply) aop" where
  "DeleteStorage p bs =
     (let k = ap_Client p in
      otherwise (buildS3BucketConfig p bs) (delete_failed bs ''failed to build s3 bucket config'') (\<lambda>(bucket, force, stratCfg).
      otherwise (ReconcileProviderCredentials k (ap_Codec p) (ap_CredentialManager p) (om_Namespace (cr_meta bs)))
        (delete_failed bs (''failed to reconcile aws provider credentials for blob storage instance '' @ om_Name (cr_meta bs))) (\<lambda>creds.
      otherwise (CreateSessionFromStrategy k (ap_Files p) (ap_Must p) creds stratCfg) (delete_failed bs ''failed to create aws session to delete s3 bucket'') (\<lambda>sess.
        reconcileBucketDelete p (ap_Services p sess) bs bucket force))))"

end
