(* ===== verification/AWS_RDS_Config.thy ===== *)
theory AWS_RDS_Config
  imports AWS_RDS
begin

text \<open>
  The configuration of an RDS instance: what \<^verbatim>\<open>buildRDSCreateStrategy\<close> guarantees of it, and that the update
  computed from it by \<^verbatim>\<open>buildRDSUpdateStrategy\<close> neither panics nor repeats itself.
\<close>

section \<open>A complete configuration\<close>

text \<open>Every field the later steps dereference is set; the engine is a supported Postgres.\<close>

definition complete_config :: "createDBInstanceInput \<Rightarrow> bool" where
  "complete_config c \<longleftrightarrow>
     cdi_DeletionProtection c \<noteq> None \<and> cdi_MasterUsername c \<noteq> None \<and> cdi_MasterUserPassword c \<noteq> None \<and> cdi_Port c \<noteq> None \<and>
     cdi_AutoMinorVersionUpgrade c \<noteq> None \<and> cdi_DBName c \<noteq> None \<and> cdi_BackupRetentionPeriod c \<noteq> None \<and> cdi_DBInstanceClass c \<noteq> None \<and>
     cdi_PubliclyAccessible c \<noteq> None \<and> cdi_AllocatedStorage c \<noteq> None \<and> cdi_MaxAllocatedStorage c \<noteq> None \<and> cdi_StorageEncrypted c \<noteq> None \<and>
     cdi_DBInstanceIdentifier c \<noteq> None \<and> cdi_MultiAZ c \<noteq> None \<and> cdi_DBSubnetGroupName c \<noteq> None \<and> cdi_CopyTagsToSnapshot c \<noteq> None \<and>
     cdi_Engine c = Some ''postgres'' \<and> (\<exists>v \<in> set defaultSupportedEngineVersions. cdi_EngineVersion c = Some v) \<and>
     (cdi_MultiAZ c = Some True \<longrightarrow> cdi_AvailabilityZone c = None)"

text \<open>\<open>keeps a b\<close>: a value that was set is still the same.\<close>

definition keeps :: "'a option \<Rightarrow> 'a option \<Rightarrow> bool" where
  "keeps a b \<longleftrightarrow> a = None \<or> b = a"

lemma keeps_or_default [simp]: "keeps x (or_default x d)" "or_default x d \<noteq> None"
  by (auto simp: keeps_def or_default_def split: option.splits)

definition keeps_config :: "createDBInstanceInput \<Rightarrow> createDBInstanceInput \<Rightarrow> bool" where
  "keeps_config c d \<longleftrightarrow>
     keeps (cdi_DeletionProtection c) (cdi_DeletionProtection d) \<and> keeps (cdi_MasterUsername c) (cdi_MasterUsername d) \<and>
     keeps (cdi_MasterUserPassword c) (cdi_MasterUserPassword d) \<and> keeps (cdi_Port c) (cdi_Port d) \<and>
     keeps (cdi_AutoMinorVersionUpgrade c) (cdi_AutoMinorVersionUpgrade d) \<and> keeps (cdi_DBName c) (cdi_DBName d) \<and>
     keeps (cdi_BackupRetentionPeriod c) (cdi_BackupRetentionPeriod d) \<and> keeps (cdi_DBInstanceClass c) (cdi_DBInstanceClass d) \<and>
     keeps (cdi_PubliclyAccessible c) (cdi_PubliclyAccessible d) \<and> keeps (cdi_AllocatedStorage c) (cdi_AllocatedStorage d) \<and>
     keeps (cdi_MaxAllocatedStorage c) (cdi_MaxAllocatedStorage d) \<and> keeps (cdi_StorageEncrypted c) (cdi_StorageEncrypted d) \<and>
     keeps (cdi_DBInstanceIdentifier c) (cdi_DBInstanceIdentifier d) \<and> keeps (cdi_MultiAZ c) (cdi_MultiAZ d) \<and>
     keeps (cdi_DBSubnetGroupName c) (cdi_DBSubnetGroupName d) \<and> keeps (cdi_CopyTagsToSnapshot c) (cdi_CopyTagsToSnapshot d) \<and>
     keeps (cdi_VpcSecurityGroupIds c) (cdi_VpcSecurityGroupIds d) \<and>
     cdi_PreferredBackupWindow d = cdi_PreferredBackupWindow c \<and> cdi_PreferredMaintenanceWindow d = cdi_PreferredMaintenanceWindow c"

lemma supported_version: "\<exists>v \<in> set defaultSupportedEngineVersions. cdi_EngineVersion (fill_rds_defaults pw c) = Some v"
  by (auto simp: fill_rds_defaults_def defaultAwsEngineVersion_def defaultSupportedEngineVersions_def Contains_def split: option.splits)

lemma fill_rds_fields [simp]:
  "cdi_DBInstanceIdentifier (fill_rds_defaults pw c) = cdi_DBInstanceIdentifier c" "cdi_MultiAZ (fill_rds_defaults pw c) = cdi_MultiAZ c"
  "cdi_DBSubnetGroupName (fill_rds_defaults pw c) = cdi_DBSubnetGroupName c" "cdi_CopyTagsToSnapshot (fill_rds_defaults pw c) = cdi_CopyTagsToSnapshot c"
  "cdi_VpcSecurityGroupIds (fill_rds_defaults pw c) = cdi_VpcSecurityGroupIds c" "cdi_AvailabilityZone (fill_rds_defaults pw c) = cdi_AvailabilityZone c"
  "cdi_PreferredBackupWindow (fill_rds_defaults pw c) = cdi_PreferredBackupWindow c"
  "cdi_PreferredMaintenanceWindow (fill_rds_defaults pw c) = cdi_PreferredMaintenanceWindow c"
  "cdi_DeletionProtection (fill_rds_defaults pw c) = or_default (cdi_DeletionProtection c) True"
  "cdi_MasterUsername (fill_rds_defaults pw c) = or_default (cdi_MasterUsername c) ''postgres''"
  "cdi_MasterUserPassword (fill_rds_defaults pw c) = or_default (cdi_MasterUserPassword c) pw"
  "cdi_Port (fill_rds_defaults pw c) = or_default (cdi_Port c) 5432"
  "cdi_AutoMinorVersionUpgrade (fill_rds_defaults pw c) = or_default (cdi_AutoMinorVersionUpgrade c) False"
  "cdi_DBName (fill_rds_defaults pw c) = or_default (cdi_DBName c) ''postgres''"
  "cdi_BackupRetentionPeriod (fill_rds_defaults pw c) = or_default (cdi_BackupRetentionPeriod c) 31"
  "cdi_DBInstanceClass (fill_rds_defaults pw c) = or_default (cdi_DBInstanceClass c) ''db.t3.small''"
  "cdi_PubliclyAccessible (fill_rds_defaults pw c) = or_default (cdi_PubliclyAccessible c) False"
  "cdi_AllocatedStorage (fill_rds_defaults pw c) = or_default (cdi_AllocatedStorage c) 20"
  "cdi_MaxAllocatedStorage (fill_rds_defaults pw c) = or_default (cdi_MaxAllocatedStorage c) 100"
  "cdi_StorageEncrypted (fill_rds_defaults pw c) = or_default (cdi_StorageEncrypted c) True"
  by (simp_all add: fill_rds_defaults_def)

lemma quiet_buildRDSCreateStrategy [quiet_rules]: "quiet (buildRDSCreateStrategy p c pg cfg pw)"
  unfolding buildRDSCreateStrategy_def buildInstanceName_def Let_def by (intro quiet_rules)

text \<open>The configuration that \<^verbatim>\<open>buildRDSCreateStrategy\<close> returns, as a function of the names it builds.\<close>

definition base_config :: "string \<Rightarrow> string \<Rightarrow> string \<Rightarrow> createDBInstanceInput \<Rightarrow> createDBInstanceInput" where
  "base_config name subGroup pw c = (fill_rds_defaults pw c)\<lparr>
     cdi_DBInstanceIdentifier := or_default (cdi_DBInstanceIdentifier c) name, cdi_MultiAZ := or_default (cdi_MultiAZ c) True,
     cdi_AvailabilityZone := (if or_default (cdi_MultiAZ c) True = Some True then None else cdi_AvailabilityZone c), cdi_Engine := Some ''postgres'',
     cdi_DBSubnetGroupName := or_default (cdi_DBSubnetGroupName c) subGroup\<rparr>"

definition built_config :: "string \<Rightarrow> string \<Rightarrow> string option list option \<Rightarrow> string \<Rightarrow> createDBInstanceInput \<Rightarrow> createDBInstanceInput" where
  "built_config name subGroup groups pw c = (base_config name subGroup pw c)\<lparr>
     cdi_VpcSecurityGroupIds := groups, cdi_CopyTagsToSnapshot := or_default (cdi_CopyTagsToSnapshot c) True\<rparr>"

definition add_group :: "createDBInstanceInput \<Rightarrow> securityGroup option \<Rightarrow> ('s, createDBInstanceInput) op" where
  "add_group cfg g = (case g of
     Some g \<Rightarrow> if cdi_VpcSecurityGroupIds cfg = None then andThen (deref (sg_GroupId g)) (\<lambda>i. ret (cfg\<lparr>cdi_VpcSecurityGroupIds := Some [Some i]\<rparr>)) else ret cfg
   | None \<Rightarrow> ret cfg)"

lemma add_group_Val:
  "add_group cfg g s = (Val cfg', t) \<Longrightarrow> \<exists>groups. keeps (cdi_VpcSecurityGroupIds cfg) groups \<and> cfg' = cfg\<lparr>cdi_VpcSecurityGroupIds := groups\<rparr>"
  by (cases "cdi_VpcSecurityGroupIds cfg")
     (force simp: add_group_def val_simps keeps_def split: option.splits if_splits intro: exI [where x = "cdi_VpcSecurityGroupIds cfg"])+

lemma buildRDSCreateStrategy_steps:
  "buildRDSCreateStrategy p cl pg cfg0 pw =
     andThen (wrapping ''failed to retrieve rds config'' (buildInstanceName p ''error occurred building instance name: '' pg)) (\<lambda>name.
     andThen (wrapping ''failed to build subnet group name'' (BuildInfraName (ap_Client p) defaultSubnetPostfix defaultAwsIdentifierLength)) (\<lambda>subGroup.
     andThen (wrapping ''error building subnet group name'' (BuildInfraName (ap_Client p) defaultSecurityGroupPostfix defaultAwsIdentifierLength)) (\<lambda>secName.
     andThen (wrapping '''' (getSecurityGroup (cl_Aws cl) secName)) (\<lambda>g.
     andThen (add_group (base_config name subGroup pw cfg0) g) (\<lambda>cfg.
       ret (cfg\<lparr>cdi_CopyTagsToSnapshot := or_default (cdi_CopyTagsToSnapshot cfg) True\<rparr>))))))"
  by (simp add: buildRDSCreateStrategy_def Let_def base_config_def add_group_def cong: option.case_cong if_cong)

lemma buildRDSCreateStrategy_Val:
  assumes "buildRDSCreateStrategy p cl pg cfg0 pw s = (Val cfg, t)"
  shows "\<exists>name subGroup groups. keeps (cdi_VpcSecurityGroupIds cfg0) groups \<and> cfg = built_config name subGroup groups pw cfg0"
proof -
  obtain name subGroup g u cfg5 where add: "add_group (base_config name subGroup pw cfg0) g u = (Val cfg5, t)"
    and cfg: "cfg = cfg5\<lparr>cdi_CopyTagsToSnapshot := or_default (cdi_CopyTagsToSnapshot cfg5) True\<rparr>"
    using assms unfolding buildRDSCreateStrategy_steps val_simps by blast
  obtain groups where "keeps (cdi_VpcSecurityGroupIds cfg0) groups" "cfg5 = (base_config name subGroup pw cfg0)\<lparr>cdi_VpcSecurityGroupIds := groups\<rparr>"
    using add_group_Val [OF add] by (auto simp: base_config_def)
  then show ?thesis by (intro exI conjI) (simp_all add: cfg built_config_def base_config_def)
qed

lemma built_config_complete: "complete_config (built_config name subGroup groups pw c)"
  using supported_version [of pw c] by (simp add: complete_config_def built_config_def base_config_def)

lemma built_config_keeps: "keeps (cdi_VpcSecurityGroupIds c) groups \<Longrightarrow> keeps_config c (built_config name subGroup groups pw c)"
  by (simp add: keeps_config_def built_config_def base_config_def)


section \<open>Updates converge\<close>

text \<open>
  \<open>complete_instance\<close>: RDS reports the settings that are compared. \<open>modified m i\<close> is the instance once the
  modification \<open>m\<close> has been applied: settings of \<open>m\<close> that are set replace those of \<open>i\<close> and nothing is pending.
\<close>

definition complete_instance :: "dbInstance \<Rightarrow> bool" where
  "complete_instance i \<longleftrightarrow>
     dbi_DBInstanceIdentifier i \<noteq> None \<and> dbi_CACertificateIdentifier i \<noteq> None \<and> dbi_DeletionProtection i \<noteq> None \<and>
     dbi_BackupRetentionPeriod i \<noteq> None \<and> dbi_DBInstanceClass i \<noteq> None \<and> dbi_PubliclyAccessible i \<noteq> None \<and>
     dbi_MaxAllocatedStorage i \<noteq> None \<and> dbi_MultiAZ i \<noteq> None \<and> dbi_AutoMinorVersionUpgrade i \<noteq> None \<and>
     dbi_PreferredBackupWindow i \<noteq> None \<and> dbi_PreferredMaintenanceWindow i \<noteq> None \<and> dbi_EngineVersion i \<noteq> None \<and>
     (\<forall>ep. dbi_Endpoint i = Some ep \<longrightarrow> ep_Port ep \<noteq> None)"

definition override :: "'a option \<Rightarrow> 'a option \<Rightarrow> 'a option" where
  "override new old = (if new = None then old else new)"

definition modified :: "modifyDBInstanceInput \<Rightarrow> dbInstance \<Rightarrow> dbInstance" where
  "modified m i = i\<lparr>
     dbi_CACertificateIdentifier := override (mdi_CACertificateIdentifier m) (dbi_CACertificateIdentifier i),
     dbi_DeletionProtection := override (mdi_DeletionProtection m) (dbi_DeletionProtection i),
     dbi_Endpoint := map_option (\<lambda>ep. ep\<lparr>ep_Port := override (mdi_DBPortNumber m) (ep_Port ep)\<rparr>) (dbi_Endpoint i),
     dbi_BackupRetentionPeriod := override (mdi_BackupRetentionPeriod m) (dbi_BackupRetentionPeriod i),
     dbi_DBInstanceClass := override (mdi_DBInstanceClass m) (dbi_DBInstanceClass i),
     dbi_PubliclyAccessible := override (mdi_PubliclyAccessible m) (dbi_PubliclyAccessible i),
     dbi_MaxAllocatedStorage := override (mdi_MaxAllocatedStorage m) (dbi_MaxAllocatedStorage i),
     dbi_MultiAZ := override (mdi_MultiAZ m) (dbi_MultiAZ i),
     dbi_AutoMinorVersionUpgrade := override (mdi_AutoMinorVersionUpgrade m) (dbi_AutoMinorVersionUpgrade i),
     dbi_PreferredBackupWindow := override (mdi_PreferredBackupWindow m) (dbi_PreferredBackupWindow i),
     dbi_PreferredMaintenanceWindow := override (mdi_PreferredMaintenanceWindow m) (dbi_PreferredMaintenanceWindow i),
     dbi_EngineVersion := override (mdi_EngineVersion m) (dbi_EngineVersion i),
     dbi_PendingModifiedValues := None\<rparr>"

text \<open>The comparison of one setting, as a function; both sides are set.\<close>

definition change :: "'a option \<Rightarrow> 'a option \<Rightarrow> 'a option" where
  "change wanted found = (if wanted = None \<or> wanted = found then None else wanted)"

lemma wanted_change_eq: "w \<noteq> None \<Longrightarrow> f \<noteq> None \<Longrightarrow> wanted_change w f = ret (change w f)"
  by (auto simp: wanted_change_def change_def)

lemma optional_change_eq: "f \<noteq> None \<Longrightarrow> optional_change w f = ret (change w f)"
  by (cases w) (auto simp: optional_change_def wanted_change_eq change_def)

lemma change_override [simp]: "f \<noteq> None \<Longrightarrow> change w (override (change w f) f) = None" "f \<noteq> None \<Longrightarrow> override m f \<noteq> None"
  by (auto simp: change_def override_def)

text \<open>The modification that the comparison of all settings gives; \<open>up\<close> is the verdict on the version.\<close>

definition port_change :: "createDBInstanceInput \<Rightarrow> dbInstance \<Rightarrow> int option" where
  "port_change c i = (case dbi_Endpoint i of None \<Rightarrow> None | Some ep \<Rightarrow> change (cdi_Port c) (ep_Port ep))"

definition changes :: "createDBInstanceInput \<Rightarrow> dbInstance \<Rightarrow> bool \<Rightarrow> bool \<Rightarrow> modifyDBInstanceInput" where
  "changes c i up now = \<lparr>mdi_DBInstanceIdentifier = dbi_DBInstanceIdentifier i,
     mdi_CACertificateIdentifier = (if dbi_CACertificateIdentifier i = Some ''rds-ca-2019'' then Some ''rds-ca-rsa2048-g1'' else None),
     mdi_DeletionProtection = change (cdi_DeletionProtection c) (dbi_DeletionProtection i), mdi_DBPortNumber = port_change c i,
     mdi_BackupRetentionPeriod = change (cdi_BackupRetentionPeriod c) (dbi_BackupRetentionPeriod i),
     mdi_DBInstanceClass = change (cdi_DBInstanceClass c) (dbi_DBInstanceClass i),
     mdi_PubliclyAccessible = change (cdi_PubliclyAccessible c) (dbi_PubliclyAccessible i),
     mdi_MaxAllocatedStorage = change (cdi_MaxAllocatedStorage c) (dbi_MaxAllocatedStorage i), mdi_MultiAZ = change (cdi_MultiAZ c) (dbi_MultiAZ i),
     mdi_AutoMinorVersionUpgrade = change (cdi_AutoMinorVersionUpgrade c) (dbi_AutoMinorVersionUpgrade i),
     mdi_PreferredBackupWindow = change (cdi_PreferredBackupWindow c) (dbi_PreferredBackupWindow i),
     mdi_PreferredMaintenanceWindow = change (cdi_PreferredMaintenanceWindow c) (dbi_PreferredMaintenanceWindow i),
     mdi_EngineVersion = (if up then cdi_EngineVersion c else None), mdi_AllowMajorVersionUpgrade = (if up then Some True else None),
     mdi_ApplyImmediately = (if up \<and> now then Some True else None)\<rparr>"

lemma buildRDSUpdateStrategy_eq:
  fixes found :: dbInstance
  defines "cur \<equiv> the (dbi_EngineVersion found)"
  assumes c: "complete_config c" and i: "complete_instance found" and v: "cdi_EngineVersion c = Some v"
    and parse: "ver_NewVersion p cur = None" "ver_NewVersion p v = None"
  shows "buildRDSUpdateStrategy p c found inst =
     (let up = ver_LessThan p cur v; m = changes c found up (spec_ApplyImmediately (cr_spec inst)) in
      ret (if (m \<noteq> no_modification (dbi_DBInstanceIdentifier found) \<longrightarrow> \<not> verifyPendingModification m (dbi_PendingModifiedValues found)) \<and>
              mdi_ApplyImmediately m \<noteq> Some True then None else Some m))"
proof -
  obtain ident cert cur' where *: "dbi_DBInstanceIdentifier found = Some ident" "dbi_CACertificateIdentifier found = Some cert" "dbi_EngineVersion found = Some cur'"
    using i by (auto simp: complete_instance_def)
  have port: "(case dbi_Endpoint found of None \<Rightarrow> ret None | Some ep \<Rightarrow> wanted_change (cdi_Port c) (ep_Port ep)) = ret (port_change c found)"
    using c i by (auto simp: complete_instance_def complete_config_def port_change_def wanted_change_eq split: option.split)
  have same: "wanted_change (cdi_DeletionProtection c) (dbi_DeletionProtection found) = ret (change (cdi_DeletionProtection c) (dbi_DeletionProtection found))"
    "wanted_change (cdi_BackupRetentionPeriod c) (dbi_BackupRetentionPeriod found) = ret (change (cdi_BackupRetentionPeriod c) (dbi_BackupRetentionPeriod found))"
    "wanted_change (cdi_DBInstanceClass c) (dbi_DBInstanceClass found) = ret (change (cdi_DBInstanceClass c) (dbi_DBInstanceClass found))"
    "wanted_change (cdi_PubliclyAccessible c) (dbi_PubliclyAccessible found) = ret (change (cdi_PubliclyAccessible c) (dbi_PubliclyAccessible found))"
    "wanted_change (cdi_MaxAllocatedStorage c) (dbi_MaxAllocatedStorage found) = ret (change (cdi_MaxAllocatedStorage c) (dbi_MaxAllocatedStorage found))"
    "wanted_change (cdi_MultiAZ c) (dbi_MultiAZ found) = ret (change (cdi_MultiAZ c) (dbi_MultiAZ found))"
    "optional_change (cdi_AutoMinorVersionUpgrade c) (dbi_AutoMinorVersionUpgrade found) = ret (change (cdi_AutoMinorVersionUpgrade c) (dbi_AutoMinorVersionUpgrade found))"
    "optional_change (cdi_PreferredBackupWindow c) (dbi_PreferredBackupWindow found) = ret (change (cdi_PreferredBackupWindow c) (dbi_PreferredBackupWindow found))"
    "optional_change (cdi_PreferredMaintenanceWindow c) (dbi_PreferredMaintenanceWindow found) = ret (change (cdi_PreferredMaintenanceWindow c) (dbi_PreferredMaintenanceWindow found))"
    using c i by (simp_all add: complete_instance_def complete_config_def wanted_change_eq optional_change_eq)
  have version: "VerifyVersionUpgradeNeeded p cur' v = Inr (ver_LessThan p cur' v)"
    using parse * by (simp add: VerifyVersionUpgradeNeeded_def cur_def)
  show ?thesis
    unfolding buildRDSUpdateStrategy_def same port v *
    by (simp add: version * cur_def changes_def Let_def v split del: if_split cong: if_cong)
qed

lemma modified_identifier: "dbi_DBInstanceIdentifier (modified m i) = dbi_DBInstanceIdentifier i"
  by (simp add: modified_def)

lemma complete_modified: "complete_instance i \<Longrightarrow> complete_instance (modified m i)"
  by (cases "dbi_Endpoint i") (simp_all add: complete_instance_def modified_def del: not_None_eq)

lemma changes_modified:
  assumes "complete_instance i"
  shows "changes c (modified (changes c i up now) i) False now = no_modification (dbi_DBInstanceIdentifier i)"
proof -
  have "port_change c (modified (changes c i up now) i) = None"
    using assms by (auto simp: port_change_def modified_def changes_def complete_instance_def change_def override_def split: option.split)
  moreover have "dbi_CACertificateIdentifier (modified (changes c i up now) i) \<noteq> Some ''rds-ca-2019''"
    by (simp add: modified_def changes_def override_def)
  ultimately show ?thesis
    using assms unfolding changes_def [of c "modified (changes c i up now) i"]
    by (simp add: no_modification_def modified_def complete_instance_def del: not_None_eq) (simp add: changes_def del: not_None_eq)
qed


end
