(* ===== verification/AWS_Network_Safety.thy ===== *)
theory AWS_Network_Safety
  imports AWS_Network
begin

text \<open>
  What the operations of the standalone network may do, whatever AWS and the API server answer: which
  requests they make, in which order, and under which conditions; and where they panic.
\<close>

section \<open>Requests of the parts\<close>

lemma only_exec: "P (EvCloud req True) \<Longrightarrow> P (EvCloud req False) \<Longrightarrow> only P (exec a req)"
  unfolding only_def by (rule emits_weaken [OF emits_exec]) auto

lemma only_create: "P (EvCloud req True) \<Longrightarrow> P (EvCloud req False) \<Longrightarrow> only P (create f req)"
  unfolding only_def by (rule emits_weaken [OF emits_create]) auto

lemma only_observe: "P (EvCloud req True) \<Longrightarrow> only P (observe req)"
  unfolding only_def by (rule emits_weaken [OF emits_observe]) auto

lemmas only_reads [only_rules] =
  quiet_cluster [THEN only_quiet] quiet_cluster_reads [THEN only_quiet] quiet_getClusterVpc [THEN only_quiet]
  quiet_groups [THEN only_quiet] quiet_network_tags [THEN only_quiet] quiet_network_reads [THEN only_quiet]
  quiet_subnetExists [THEN only_quiet] quiet_sort_azs [THEN only_quiet] quiet_private_tags [THEN only_quiet]

text \<open>The requests that create or delete a VPC.\<close>

definition vpc_lifecycle :: "cloud_req event \<Rightarrow> bool" where
  "vpc_lifecycle e = (case e of EvCloud (ReqCreateVpc _ _) _ \<Rightarrow> True | EvCloud (ReqDeleteVpc _) _ \<Rightarrow> True | _ \<Rightarrow> False)"

lemma vpc_lifecycle_simps [simp]:
  "vpc_lifecycle (EvCloud (ReqCreateVpc c ts) b)" "vpc_lifecycle (EvCloud (ReqDeleteVpc i) b)"
  "\<not> vpc_lifecycle (EvCloud (ReqCreateTags i' ts') b)" "\<not> vpc_lifecycle (EvCloud (ReqCreateSubnet z c' v ts) b)"
  "\<not> vpc_lifecycle (EvCloud (ReqModifyDBSubnetGroup d n ids) b)" "\<not> vpc_lifecycle (EvCloud (ReqCreateDBSubnetGroup d n' ids ts') b)"
  "\<not> vpc_lifecycle (EvCloud (ReqRemoveTagsFromResource i' ks) b)" "\<not> vpc_lifecycle (EvCloud (ReqAddTagsToResource i' ts') b)"
  "\<not> vpc_lifecycle (EvCloud (ReqModifyCacheSubnetGroup d n ids) b)" "\<not> vpc_lifecycle (EvCloud (ReqCreateCacheSubnetGroup d n' ids ts') b)"
  by (simp_all add: vpc_lifecycle_def)

lemma only_exec_no_lifecycle [only_rules]:
  "\<not> vpc_lifecycle (EvCloud req True) \<Longrightarrow> only (\<lambda>e. \<not> vpc_lifecycle e) (exec a req)"
  "\<not> vpc_lifecycle (EvCloud req True) \<Longrightarrow> only (\<lambda>e. \<not> vpc_lifecycle e) (create f req)"
  by (rule only_exec only_create; cases req; simp add: vpc_lifecycle_def)+

lemma only_tagPrivateSubnet [only_rules]: "only (\<lambda>e. \<not> vpc_lifecycle e) (tagPrivateSubnet k a sub)"
  unfolding tagPrivateSubnet_def by (intro only_rules vpc_lifecycle_simps)

lemma only_standalone_parts [only_rules]:
  "only (\<lambda>e. \<not> vpc_lifecycle e) (reconcileStandaloneRouteTableTags n v)"
  "only (\<lambda>e. \<not> vpc_lifecycle e) (reconcileVPCTags n v)"
  "only (\<lambda>e. \<not> vpc_lifecycle e) (reconcileStandaloneVPCSubnets n v)"
  "only (\<lambda>e. \<not> vpc_lifecycle e) (reconcileRDSVpcConfiguration n subs)"
  "only (\<lambda>e. \<not> vpc_lifecycle e) (reconcileElasticacheVPCConfiguration n subs)"
  unfolding reconcileStandaloneRouteTableTags_def reconcileVPCTags_def reconcileStandaloneVPCSubnets_def ensure_subnet_def
    ensure_subnet_tags_def reconcileRDSVpcConfiguration_def verify_rds_group_def updateRdsSubnetGroupTags_def
    reconcileElasticacheVPCConfiguration_def verify_cache_group_def Let_def
  by (intro only_rules vpc_lifecycle_simps)+

lemma only_reconcile_standalone_vpc: "only (\<lambda>e. \<not> vpc_lifecycle e) (reconcile_standalone_vpc n v)"
  unfolding reconcile_standalone_vpc_def by (intro only_rules)


section \<open>The creation of a VPC\<close>

definition creation_shape :: "cloud_req \<Rightarrow> cloud_req event list \<Rightarrow> Network res \<Rightarrow> bool" where
  "creation_shape req es r \<longleftrightarrow>
     ((\<exists>e. r = Fail e) \<and> (es = [EvCloud req False] \<or> (\<exists>c. es = [EvCloud req False, EvCloud (ReqSetVpcAction ''create'' ''failed'' c) True]))) \<or>
     ((\<exists>v. r = Val \<lparr>nw_Vpc = Some v, nw_Subnets = []\<rparr>) \<and> es = [EvCloud req True, EvCloud ReqResetVpcAction True]) \<or>
     (r = Val \<lparr>nw_Vpc = None, nw_Subnets = []\<rparr> \<and> (\<exists>i b. es = [EvCloud req True, EvCloud (ReqDeleteVpc i) b])) \<or>
     ((\<exists>a. r = Abort a) \<and> es = [EvCloud req True])"

lemma emits_await_vpc:
  "emits (await_vpc a v) (\<lambda>es r. creation_shape req (EvCloud req True # es) r)"
proof -
  have del: "emits (attempt (exec a (ReqDeleteVpc i))) (\<lambda>es r. (\<exists>x. r = Val x) \<and> (\<exists>b. es = [EvCloud (ReqDeleteVpc i) b]))" for i
    by (rule emits_attempt [OF emits_exec]) auto
  have del': "emits (andThen (attempt (exec a (ReqDeleteVpc i))) (\<lambda>_. ret \<lparr>nw_Vpc = None, nw_Subnets = []\<rparr>))
      (\<lambda>es r. creation_shape req (EvCloud req True # es) r)" for i
    by (rule emits_andThen [OF del]) (auto intro!: emits_ret simp: creation_shape_def)
  have reset: "emits (andThen (observe ReqResetVpcAction) (\<lambda>_. ret \<lparr>nw_Vpc = Some v, nw_Subnets = []\<rparr>))
      (\<lambda>es r. creation_shape req (EvCloud req True # es) r)"
    by (rule emits_andThen [OF emits_observe]) (auto intro!: emits_ret simp: creation_shape_def)
  have noval: "emits (deref p) (\<lambda>es r. es = [] \<and> (\<forall>e. r \<noteq> Fail e))" for p :: "'x option"
    by (rule emits_deref) auto
  have att: "emits (attempt (query f)) (\<lambda>es r. es = [] \<and> (\<exists>x. r = Val x))" for f :: "'w \<Rightarrow> (error + 'y) \<times> 'w"
    by (rule emits_attempt [OF emits_query]) auto
  show ?thesis unfolding await_vpc_def
    by (rule emits_andThen [OF noval]; (rule emits_andThen [OF att])?; (rule emits_andThen [OF noval])?)
      (auto intro!: emits_sum emits_andThen [OF att] emits_andThen [OF noval] simp: creation_shape_def
        intro: emits_weaken [OF del'] emits_weaken [OF reset])
qed


lemma emits_create_vpc_error:
  "emits (create_vpc_error c err) (\<lambda>es r. creation_shape req (EvCloud req False # es) r)"
proof (cases "aws_code err")
  case None
  then show ?thesis by (auto simp: create_vpc_error_def creation_shape_def intro!: emits_throw)
next
  case (Some code)
  show ?thesis unfolding create_vpc_error_def Some option.case
    by (rule emits_andThen [OF emits_observe]) (auto intro!: emits_if emits_throw simp: creation_shape_def)
qed

lemma emits_create_vpc:
  "emits (andThen (attempt (create f req)) (\<lambda>r. case r of Inl err \<Rightarrow> create_vpc_error c err | Inr v \<Rightarrow> await_vpc a v)) (creation_shape req)"
proof -
  have cr: "emits (attempt (create f req)) (\<lambda>es r. (\<exists>x. r = Val (Inr x) \<and> es = [EvCloud req True]) \<or> (\<exists>e. r = Val (Inl e) \<and> es = [EvCloud req False]))"
    by (rule emits_attempt [OF emits_create]) auto
  show ?thesis
    by (rule emits_andThen [OF cr])
      (auto intro!: emits_weaken [OF emits_await_vpc [of a _ req]] emits_weaken [OF emits_create_vpc_error [of c _ req]])
qed

text \<open>What has been read and checked before a VPC is created.\<close>

definition block_checked :: "'w NetworkProvider \<Rightarrow> ipnet \<Rightarrow> ('w, cloud_req event) sys \<Rightarrow> bool" where
  "block_checked n cidr s1 \<longleftrightarrow> (\<exists>cv s2 block ip cn.
     getClusterVpc (np_Client n) (np_Api n) s1 = (Val cv, s2) \<and> vpc_CidrBlock cv = Some block \<and>
     ParseCIDR block = Inr (ip, cn) \<and> validateStandaloneCidrBlock cidr cn = None)"

lemma create_standalone_vpc_cases:
  assumes run: "create_standalone_vpc n cidr s1 = (r, t)"
  shows "\<exists>es. trace t = trace s1 @ es \<and>
    ((es = [] \<and> (\<forall>nw. r \<noteq> Val nw)) \<or> (block_checked n cidr s1 \<and> (\<exists>ts. creation_shape (ReqCreateVpc (net_String cidr) ts) es r)))"
proof -
  obtain rc s2 where rc: "getClusterVpc (np_Client n) (np_Api n) s1 = (rc, s2)" by force
  have tr2: "trace s2 = trace s1" using quietD [OF quiet_getClusterVpc rc] .
  show ?thesis
  proof (cases "\<exists>cv block ip cn. rc = Val cv \<and> vpc_CidrBlock cv = Some block \<and> ParseCIDR block = Inr (ip, cn) \<and>
      validateStandaloneCidrBlock cidr cn = None")
    case True
    then obtain cv block ip cn where c: "rc = Val cv" "vpc_CidrBlock cv = Some block" "ParseCIDR block = Inr (ip, cn)"
      "validateStandaloneCidrBlock cidr cn = None" by blast
    then have bc: "block_checked n cidr s1" using rc by (auto simp: block_checked_def)
    let ?rest = "andThen (wrapping ''failed to get default tag spec'' (getDefaultTagSpec (np_Client n) (display_tag defaultVpcNameTagValue) ''vpc''))
      (\<lambda>ts. andThen (attempt (create (aws_CreateVpc (np_Api n) (net_String cidr) ts) (ReqCreateVpc (net_String cidr) ts)))
         (\<lambda>r. case r of Inl err \<Rightarrow> create_vpc_error cidr err | Inr v \<Rightarrow> await_vpc (np_Api n) v))"
    have eq: "?rest s2 = (r, t)" using run rc c by (simp add: create_standalone_vpc_def op_simps)
    have "emits ?rest (\<lambda>es r. (es = [] \<and> (\<forall>nw. r \<noteq> Val nw)) \<or> (\<exists>ts. creation_shape (ReqCreateVpc (net_String cidr) ts) es r))"
      by (rule emits_andThen_quiet) (auto intro: quiet_rules intro!: emits_weaken [OF emits_create_vpc])
    from emitsD [OF this eq] tr2 bc show ?thesis by auto
  next
    case False
    then have "t = s2 \<and> (\<forall>nw. r \<noteq> Val nw)" using run rc
      by (auto simp: create_standalone_vpc_def op_simps deref_def lift_sum_def split: res.splits option.splits sum.splits prod.splits)
    then show ?thesis using tr2 by auto
  qed
qed

lemma creation_shape_create:
  assumes "creation_shape (ReqCreateVpc c ts) es r"
  shows "EvCloud (ReqCreateVpc c' ts') b \<in> set es \<Longrightarrow> c' = c" and "\<exists>b. hd es = EvCloud (ReqCreateVpc c ts) b"
    and "\<forall>e \<in> set (tl es). \<forall>c ts b. e \<noteq> EvCloud (ReqCreateVpc c ts) b"
  using assms by (auto simp: creation_shape_def)

section \<open>Properties\<close>

text \<open>
  C35. Creating the standalone network is safe: when a VPC with the owner tag exists, no VPC is created or
  deleted and a network that is returned has that VPC. A VPC is created only when none was found, with the
  requested block, at most once, and only after the block has been checked against the cluster VPC: its
  mask lies between /16 and /26 and it shares no address with the cluster.
\<close>

theorem CreateNetwork_safe:
  assumes "CreateNetwork n cidr s = (r, t)" and "wf_net cidr"
    and "getStandaloneVpc (np_Client n) (np_Api n) s = (Val found, s1)"
  shows "\<exists>es. trace t = trace s @ es \<and>
    (case found of
       Some v \<Rightarrow> (\<forall>e \<in> set es. \<not> vpc_lifecycle e) \<and> (\<forall>nw. r = Val nw \<longrightarrow> nw_Vpc nw = Some v)
     | None \<Rightarrow> es = [] \<or>
         (\<exists>ts b rest. es = EvCloud (ReqCreateVpc (net_String cidr) ts) b # rest \<and>
            (\<forall>e \<in> set rest. \<forall>c ts b. e \<noteq> EvCloud (ReqCreateVpc c ts) b) \<and>
            16 \<le> mask_Size (net_Mask cidr) \<and> mask_Size (net_Mask cidr) \<le> 26 \<and>
            (\<exists>cv s2 block ip cn. getClusterVpc (np_Client n) (np_Api n) s1 = (Val cv, s2) \<and> vpc_CidrBlock cv = Some block \<and>
               ParseCIDR block = Inr (ip, cn) \<and> (wf_net cn \<longrightarrow> addresses cidr \<inter> addresses cn = {}))))"
proof (cases found)
  case (Some v)
  have tr1: "trace s1 = trace s" using quietD [OF quiet_network_reads(1) assms(3)] .
  have run: "reconcile_standalone_vpc n v s1 = (r, t)" using assms(1,3) Some by (simp add: CreateNetwork_def op_simps)
  have "\<forall>nw. r = Val nw \<longrightarrow> nw_Vpc nw = Some v"
    using run by (auto simp: reconcile_standalone_vpc_def op_simps split: prod.splits res.splits if_splits)
  then show ?thesis using onlyD [OF only_reconcile_standalone_vpc run] tr1 Some by auto
next
  case None
  have tr1: "trace s1 = trace s" using quietD [OF quiet_network_reads(1) assms(3)] .
  have run: "create_standalone_vpc n cidr s1 = (r, t)" using assms(1,3) None by (simp add: CreateNetwork_def op_simps)
  from create_standalone_vpc_cases [OF run] obtain es where es: "trace t = trace s1 @ es"
    "es = [] \<or> (block_checked n cidr s1 \<and> (\<exists>ts. creation_shape (ReqCreateVpc (net_String cidr) ts) es r))" by blast
  from es(2) show ?thesis
  proof
    assume "es = []"
    then show ?thesis using es(1) tr1 None by auto
  next
    assume bc: "block_checked n cidr s1 \<and> (\<exists>ts. creation_shape (ReqCreateVpc (net_String cidr) ts) es r)"
    then obtain ts where sh: "creation_shape (ReqCreateVpc (net_String cidr) ts) es r" by blast
    then have "es \<noteq> []" by (auto simp: creation_shape_def)
    then have hd: "\<exists>b rest. es = EvCloud (ReqCreateVpc (net_String cidr) ts) b # rest \<and> (\<forall>e \<in> set rest. \<forall>c ts b. e \<noteq> EvCloud (ReqCreateVpc c ts) b)"
      using creation_shape_create(2,3) [OF sh] by (cases es) auto
    obtain cv s2 block ip cn where v: "getClusterVpc (np_Client n) (np_Api n) s1 = (Val cv, s2)" "vpc_CidrBlock cv = Some block"
      "ParseCIDR block = Inr (ip, cn)" "validateStandaloneCidrBlock cidr cn = None" using bc by (auto simp: block_checked_def)
    have mask: "16 \<le> mask_Size (net_Mask cidr)" "mask_Size (net_Mask cidr) \<le> 26"
      using v(4) by (auto simp: validateStandaloneCidrBlock_def isValidCIDRRange_def split: if_splits)
    have dis: "wf_net cn \<longrightarrow> addresses cidr \<inter> addresses cn = {}"
      using validateStandaloneCidrBlock_disjoint [OF v(4) assms(2)] by blast
    show ?thesis using es(1) tr1 hd mask v(1-3) dis None by auto
  qed
qed


section \<open>Deleting the network\<close>

definition group_deletion :: "cloud_req event \<Rightarrow> bool" where
  "group_deletion e = (case e of EvCloud (ReqDeleteDBSubnetGroup _) _ \<Rightarrow> True | EvCloud (ReqDeleteCacheSubnetGroup _) _ \<Rightarrow> True | _ \<Rightarrow> False)"

definition succeeded :: "cloud_req event \<Rightarrow> bool" where
  "succeeded e = (case e of EvCloud _ b \<Rightarrow> b | _ \<Rightarrow> False)"

lemma deletion_simps [simp]:
  "group_deletion (EvCloud (ReqDeleteDBSubnetGroup i) b)" "group_deletion (EvCloud (ReqDeleteCacheSubnetGroup j) b)"
  "\<not> group_deletion (EvCloud (ReqDeleteVpc v) b)" "\<not> group_deletion (EvCloud (ReqDeleteSubnet v) b)"
  "succeeded (EvCloud req b) = b"
  by (simp_all add: group_deletion_def succeeded_def)

lemma no_vpc_in_groups: "\<forall>e \<in> set es. group_deletion e \<Longrightarrow> EvCloud (ReqDeleteVpc i) b \<notin> set es"
  using deletion_simps(3) by blast

text \<open>Deleting the groups: when it returns, every request succeeded.\<close>

definition groups_gone :: "cloud_req event list \<Rightarrow> unit res \<Rightarrow> bool" where
  "groups_gone es r \<longleftrightarrow> (\<forall>e \<in> set es. group_deletion e) \<and> (r = Val () \<longrightarrow> (\<forall>e \<in> set es. succeeded e))"

lemma groups_gone_simps [simp]:
  "groups_gone [] r" "groups_gone (es @ fs) r \<longleftrightarrow> groups_gone es r \<and> groups_gone fs r"
  by (auto simp: groups_gone_def)

lemma emits_delete_group:
  assumes "group_deletion (EvCloud req True)" "group_deletion (EvCloud req False)"
  shows "emits (wrapping msg (exec a req)) groups_gone"
  by (rule emits_wrapping [OF emits_exec]) (use assms in \<open>auto simp: groups_gone_def\<close>)

lemma emits_groups_seq:
  assumes "emits m groups_gone" and "\<And>x. emits (f x) groups_gone"
  shows "emits (andThen m f) groups_gone"
  by (rule emits_andThen [OF assms(1)]) (auto intro: emits_weaken [OF assms(2)] simp: groups_gone_def)

lemma emits_delete_subnet_groups: "emits (delete_subnet_groups n) groups_gone"
  unfolding delete_subnet_groups_def
  by (intro emits_andThen_quiet emits_groups_seq emits_option emits_ret emits_delete_group quiet_rules) (simp_all)

lemma emits_delete_subnet:
  "emits (delete_subnet a sub) (\<lambda>es r. (r = Val () \<and> es = [EvCloud (ReqDeleteSubnet (StringValue (sub_SubnetId sub))) True]) \<or>
     ((\<exists>e. r = Fail e) \<and> es = [EvCloud (ReqDeleteSubnet (StringValue (sub_SubnetId sub))) False]) \<or> ((\<exists>a. r = Abort a) \<and> es = []))"
proof (cases "sub_SubnetId sub")
  case (Some i)
  show ?thesis unfolding delete_subnet_def Some deref_simps andThen_ret
    by (rule emits_wrapping [OF emits_exec]) auto
qed (simp add: delete_subnet_def emits_crash)

text \<open>The events of a deletion: subnets, then groups, then the VPC, and each step only after the ones before it succeeded.\<close>

definition deletion_order :: "subnet list \<Rightarrow> vpc \<Rightarrow> cloud_req event list \<Rightarrow> unit res \<Rightarrow> bool" where
  "deletion_order subs v es r \<longleftrightarrow>
     (\<forall>i b. EvCloud (ReqDeleteVpc i) b \<in> set es \<longrightarrow>
        vpc_VpcId v = Some i \<and> (\<exists>groups. es = map (\<lambda>sub. EvCloud (ReqDeleteSubnet (StringValue (sub_SubnetId sub))) True) subs @ groups @ [EvCloud (ReqDeleteVpc i) b] \<and>
          (\<forall>e \<in> set groups. group_deletion e \<and> succeeded e))) \<and>
     (r = Val () \<longleftrightarrow> (\<exists>i. EvCloud (ReqDeleteVpc i) True \<in> set es))"

lemma deletion_order_early:
  assumes "r \<noteq> Val ()" and "\<forall>i b. EvCloud (ReqDeleteVpc i) b \<notin> set es" shows "deletion_order subs v es r"
  using assms by (auto simp: deletion_order_def)

lemma emits_delete_vpc:
  assumes "\<forall>e \<in> set groups. group_deletion e \<and> succeeded e"
  shows "emits (andThen (deref (vpc_VpcId v)) (\<lambda>i. wrapping msg (exec a (ReqDeleteVpc i))))
    (\<lambda>fs r. deletion_order subs v (map (\<lambda>sub. EvCloud (ReqDeleteSubnet (StringValue (sub_SubnetId sub))) True) subs @ groups @ fs) r)"
proof -
  have no: "\<forall>i b. EvCloud (ReqDeleteVpc i) b \<notin> set (map (\<lambda>sub. EvCloud (ReqDeleteSubnet (StringValue (sub_SubnetId sub))) True) subs @ groups)"
    using assms deletion_simps(3) by (auto)
  show ?thesis
  proof (cases "vpc_VpcId v")
    case None
    then show ?thesis using no by (auto intro!: emits_crash deletion_order_early)
  next
    case (Some i)
    show ?thesis unfolding Some deref_simps andThen_ret
      by (rule emits_wrapping [OF emits_exec]) (use no assms Some in \<open>auto simp: deletion_order_def\<close>)
  qed
qed

lemma emits_delete_rest:
  "emits (andThen (for_each (delete_subnet a) subs) (\<lambda>_. andThen (delete_subnet_groups n) (\<lambda>_.
      andThen (deref (vpc_VpcId v)) (\<lambda>i. wrapping msg (exec a (ReqDeleteVpc i)))))) (deletion_order subs v)"
proof (rule emits_andThen [OF emits_for_each_requests [where ev = "\<lambda>sub b. EvCloud (ReqDeleteSubnet (StringValue (sub_SubnetId sub))) b"]])
  let ?ev = "\<lambda>sub b. EvCloud (ReqDeleteSubnet (StringValue (sub_SubnetId sub))) b"
  show "emits (delete_subnet a sub) (\<lambda>es r. (r = Val () \<and> es = [?ev sub True]) \<or> ((\<exists>e. r = Fail e) \<and> es = [?ev sub False]) \<or> ((\<exists>a. r = Abort a) \<and> es = []))" for sub
    by (rule emits_delete_subnet)
  fix es and x :: unit
  assume "(Val x = Val () \<and> es = map (\<lambda>x. ?ev x True) subs) \<or>
     (Val x \<noteq> Val () \<and> (\<exists>ys y zs. subs = ys @ y # zs \<and> (es = map (\<lambda>x. ?ev x True) ys \<or> es = map (\<lambda>x. ?ev x True) ys @ [?ev y False])))"
  then have es: "es = map (\<lambda>x. ?ev x True) subs" by simp
  show "emits (andThen (delete_subnet_groups n) (\<lambda>_. andThen (deref (vpc_VpcId v)) (\<lambda>i. wrapping msg (exec a (ReqDeleteVpc i)))))
     (\<lambda>fs r. deletion_order subs v (es @ fs) r)"
    unfolding es
  proof (rule emits_andThen [OF emits_delete_subnet_groups])
    fix gs and y :: unit
    assume "groups_gone gs (Val y)"
    then have "\<forall>e \<in> set gs. group_deletion e \<and> succeeded e" by (auto simp: groups_gone_def)
    from emits_delete_vpc [OF this]
    show "emits (andThen (deref (vpc_VpcId v)) (\<lambda>i. wrapping msg (exec a (ReqDeleteVpc i))))
      (\<lambda>fs r. deletion_order subs v (map (\<lambda>x. ?ev x True) subs @ gs @ fs) r)" .
  qed (auto intro!: deletion_order_early simp: groups_gone_def no_vpc_in_groups)
qed (auto intro!: deletion_order_early)



section \<open>Routes\<close>

definition route_event :: "route \<Rightarrow> routeTable \<Rightarrow> bool \<Rightarrow> cloud_req event" where
  "route_event r t b = EvCloud (ReqCreateRoute (route_VpcPeeringConnectionId r) (route_DestinationCidrBlock r) (rtb_RouteTableId t)) b"

definition missing_in :: "route \<Rightarrow> routeTable list \<Rightarrow> routeTable list" where
  "missing_in r ts = filter (\<lambda>t. \<not> routeExists (rtb_Routes t) r) ts"

text \<open>The requests of a loop that returned: one per table that lacks the route, in order.\<close>

lemma emits_ensure_route:
  "emits (ensure_route a skip r t) (\<lambda>es out. (if routeExists (rtb_Routes t) r then es = [] else \<exists>b. es = [route_event r t b] \<and> (b \<or> skip \<or> out \<noteq> Val ())))"
proof (cases "routeExists (rtb_Routes t) r")
  case False
  have ex: "emits (attempt (exec a req)) (\<lambda>es r. (r = Val (Inr ()) \<and> es = [EvCloud req True]) \<or> (\<exists>e. r = Val (Inl e) \<and> es = [EvCloud req False]))" for req
    by (rule emits_attempt [OF emits_exec]) auto
  show ?thesis unfolding ensure_route_def using False
    by (simp, intro emits_andThen [OF ex]) (auto simp: route_event_def intro!: emits_ret emits_throw emits_if)
qed (simp add: ensure_route_def emits_ret)

lemma emits_ensure_routes:
  "emits (for_each (ensure_route a skip r) ts) (\<lambda>es out. out = Val () \<longrightarrow>
     (\<exists>bs. length bs = length (missing_in r ts) \<and> es = map2 (route_event r) (missing_in r ts) bs \<and> (skip \<or> list_all id bs)))"
proof (induction ts)
  case Nil
  show ?case by (simp add: emits_ret missing_in_def)
next
  case (Cons t ts)
  show ?case unfolding for_each.simps
  proof (rule emits_andThen [OF emits_ensure_route])
    fix es and x :: unit
    assume h: "if routeExists (rtb_Routes t) r then es = [] else \<exists>b. es = [route_event r t b] \<and> (b \<or> skip \<or> Val x \<noteq> Val ())"
    show "emits (for_each (ensure_route a skip r) ts) (\<lambda>fs out. out = Val () \<longrightarrow>
      (\<exists>bs. length bs = length (missing_in r (t # ts)) \<and> es @ fs = map2 (route_event r) (missing_in r (t # ts)) bs \<and> (skip \<or> list_all id bs)))"
    proof (rule emits_weaken [OF Cons.IH], rule impI)
      fix fs and out :: "unit res"
      assume "out = Val () \<longrightarrow> (\<exists>bs. length bs = length (missing_in r ts) \<and> fs = map2 (route_event r) (missing_in r ts) bs \<and> (skip \<or> list_all id bs))"
        and "out = Val ()"
      then obtain bs where bs: "length bs = length (missing_in r ts)" "fs = map2 (route_event r) (missing_in r ts) bs" "skip \<or> list_all id bs" by blast
      show "\<exists>bs. length bs = length (missing_in r (t # ts)) \<and> es @ fs = map2 (route_event r) (missing_in r (t # ts)) bs \<and> (skip \<or> list_all id bs)"
      proof (cases "routeExists (rtb_Routes t) r")
        case True
        then show ?thesis using h bs by (auto simp: missing_in_def)
      next
        case False
        then obtain b where "es = [route_event r t b]" "b \<or> skip" using h by auto
        then show ?thesis using False bs by (intro exI [where x = "b # bs"]) (auto simp: missing_in_def)
      qed
    qed
  qed simp_all
qed

text \<open>
  Connecting the networks adds exactly the missing routes: when the connection is established, after
  the security group one request was made for every cluster route table without the route to the standalone
  block, then one for every standalone route table without the route to the cluster block, in the order of
  the tables, all through the live peering; tables that have the route are left alone, and only a cluster
  table may have refused its route.
\<close>

theorem CreateNetworkConnection_routes:
  assumes "reconcileStandaloneSecurityGroup n s = (Val g, s1)"
    and "getClusterRouteTables (np_Client n) (np_Api n) s1 = (Val cts, s2)"
    and "getNetworkPeering (np_Client n) (np_Api n) nw s2 = (Val (Some pc), s3)"
    and "nw_Vpc nw = Some v" and "CreateNetworkConnection n nw s = (Val conn, t)"
  shows "\<exists>bs cv sts s4 s5. nc_StandaloneSecurityGroup conn = g \<and>
    getCRORouteTables (np_Client n) (np_Api n) s4 = (Val sts, s5) \<and> fst (getClusterVpc (np_Client n) (np_Api n) s5) = Val cv \<and>
    trace t = trace s1 @
      map2 (route_event \<lparr>route_DestinationCidrBlock = vpc_CidrBlock v, route_VpcPeeringConnectionId = pc_VpcPeeringConnectionId pc\<rparr>)
        (missing_in \<lparr>route_DestinationCidrBlock = vpc_CidrBlock v, route_VpcPeeringConnectionId = pc_VpcPeeringConnectionId pc\<rparr> cts) bs @
      map (\<lambda>t. route_event \<lparr>route_DestinationCidrBlock = vpc_CidrBlock cv, route_VpcPeeringConnectionId = pc_VpcPeeringConnectionId pc\<rparr> t True)
        (missing_in \<lparr>route_DestinationCidrBlock = vpc_CidrBlock cv, route_VpcPeeringConnectionId = pc_VpcPeeringConnectionId pc\<rparr> sts) \<and>
    length bs = length (missing_in \<lparr>route_DestinationCidrBlock = vpc_CidrBlock v, route_VpcPeeringConnectionId = pc_VpcPeeringConnectionId pc\<rparr> cts)"
proof -
  let ?k = "np_Client n" and ?a = "np_Api n"
  let ?r1 = "\<lparr>route_DestinationCidrBlock = vpc_CidrBlock v, route_VpcPeeringConnectionId = pc_VpcPeeringConnectionId pc\<rparr>"
  let ?r2 = "\<lambda>cv. \<lparr>route_DestinationCidrBlock = vpc_CidrBlock cv, route_VpcPeeringConnectionId = pc_VpcPeeringConnectionId pc\<rparr>"
  have tr3: "trace s3 = trace s1"
    using quietD [OF quiet_network_reads(3) assms(2)] quietD [OF quiet_network_reads(5) assms(3)] by simp
  obtain s4 where l1: "for_each (ensure_route ?a True ?r1) cts s3 = (Val (), s4)"
    and rest: "andThen (wrapping ''error getting standalone vpc route tables'' (getCRORouteTables ?k ?a)) (\<lambda>sts.
       andThen (wrapping ''error getting standalone vpc route tables'' (getClusterVpc ?k ?a)) (\<lambda>cv.
       andThen (for_each (ensure_route ?a False (?r2 cv)) sts) (\<lambda>_. ret \<lparr>nc_StandaloneSecurityGroup = g\<rparr>))) s4 = (Val conn, t)"
    using assms by (auto simp: CreateNetworkConnection_def Let_def op_simps split: prod.splits res.splits)
  from rest obtain sts s5 cv s6 where r: "getCRORouteTables ?k ?a s4 = (Val sts, s5)" "getClusterVpc ?k ?a s5 = (Val cv, s6)"
    "for_each (ensure_route ?a False (?r2 cv)) sts s6 = (Val (), t)" "nc_StandaloneSecurityGroup conn = g"
    by (auto simp: op_simps split: prod.splits res.splits)
  have tr6: "trace s6 = trace s4" using quietD [OF quiet_network_reads(4) r(1)] quietD [OF quiet_getClusterVpc r(2)] by simp
  obtain bs where b1: "length bs = length (missing_in ?r1 cts)" "trace s4 = trace s3 @ map2 (route_event ?r1) (missing_in ?r1 cts) bs"
    using emitsD [OF emits_ensure_routes l1] by auto
  obtain cs where b2: "length cs = length (missing_in (?r2 cv) sts)" "list_all id cs"
    "trace t = trace s6 @ map2 (route_event (?r2 cv)) (missing_in (?r2 cv) sts) cs"
    using emitsD [OF emits_ensure_routes r(3)] by auto
  have cs: "cs = replicate (length (missing_in (?r2 cv) sts)) True"
    using b2(1,2) by (metis (full_types) id_apply list_all_length replicate_eqI in_set_conv_nth)
  have "map2 (route_event (?r2 cv)) ts (replicate (length ts) True) = map (\<lambda>t. route_event (?r2 cv) t True) ts" for ts
    by (induction ts) simp_all
  then show ?thesis using tr3 tr6 b1 b2(3) r unfolding cs by (metis append.assoc fst_conv)
qed


section \<open>The peering\<close>

text \<open>The events of a peering: its creation when none is live, its tags, its acceptance.\<close>

definition peering_state :: "vpcPeeringConnection \<Rightarrow> string" where
  "peering_state pc = (case pc_Status pc of None \<Rightarrow> '''' | Some st \<Rightarrow> StringValue (ps_Code st))"

lemma emits_accept_peering:
  "emits (accept_peering a pc) (\<lambda>es r.
     (peering_state pc = ''pending-acceptance'' \<and> (\<exists>b. es = [EvCloud (ReqAcceptVpcPeeringConnection (pc_VpcPeeringConnectionId pc)) b] \<and> (r = Val () \<longleftrightarrow> b))) \<or>
     (peering_state pc \<noteq> ''pending-acceptance'' \<and> es = [] \<and>
        (r = Val () \<longleftrightarrow> peering_state pc \<in> {''active'', ''provisioning'', ''initiating-request''})))"
proof (cases "pc_Status pc")
  case None
  then show ?thesis by (auto simp: accept_peering_def peering_code_def peering_state_def intro!: emits_crash)
next
  case (Some st)
  have acc: "emits (wrapping msg (exec a req)) (\<lambda>es r. \<exists>b. es = [EvCloud req b] \<and> (r = Val () \<longleftrightarrow> b))" for msg req
    by (rule emits_wrapping [OF emits_exec]) auto
  have st: "peering_state pc = StringValue (ps_Code st)" by (simp add: peering_state_def Some)
  show ?thesis unfolding accept_peering_def peering_code_def Some deref_simps andThen_ret prod.case st
    by (auto intro!: emits_if emits_ret emits_throw emits_weaken [OF acc])
qed

lemma emits_create_peering:
  "emits (create_peering n nw cv) (\<lambda>es r. (es = [] \<and> (\<forall>pc. r \<noteq> Val pc)) \<or>
     (\<exists>v ts b. nw_Vpc nw = Some v \<and> es = [EvCloud (ReqCreateVpcPeeringConnection (vpc_VpcId cv) (vpc_VpcId v) ts) b] \<and> ((\<exists>pc. r = Val pc) \<longleftrightarrow> b)))"
proof (cases "nw_Vpc nw")
  case None
  then show ?thesis by (simp add: create_peering_def emits_crash)
next
  case (Some v)
  have cr: "emits (wrapping msg (create f req)) (\<lambda>es r. \<exists>b. es = [EvCloud req b] \<and> ((\<exists>x. r = Val x) \<longleftrightarrow> b))" for msg f req
    by (rule emits_wrapping [OF emits_create]) auto
  show ?thesis unfolding create_peering_def Some deref_simps andThen_ret
    by (rule emits_andThen_quiet) (auto intro!: quiet_rules emits_weaken [OF cr])
qed

lemma emits_peering_tags:
  "emits (if np_IsSTSCluster n then ret () else andThen (wrapping m (getDefaultNetworkTags k t)) (\<lambda>ts. ensure_tags a m' i ts ts'))
     (\<lambda>es r. es = [] \<or> (\<exists>ts b. es = [EvCloud (ReqCreateTags i ts) b] \<and> (r = Val () \<longleftrightarrow> b)))"
proof -
  have tg: "emits (ensure_tags a m' i ts ts') (\<lambda>es r. es = [] \<or> (\<exists>ts b. es = [EvCloud (ReqCreateTags i ts) b] \<and> (r = Val () \<longleftrightarrow> b)))" for ts
    unfolding ensure_tags_def by (intro emits_if emits_ret emits_wrapping [OF emits_exec]) auto
  show ?thesis by (intro emits_if emits_ret emits_andThen_quiet tg) (auto intro!: quiet_rules)
qed

text \<open>
  Peering is established once and only accepted when it waits for it: when \<^verbatim>\<open>CreateNetworkPeering\<close>
  returns a connection, a new one was requested exactly when no live one existed, between the standalone and
  the cluster VPC; at most one tagging request follows; the acceptance is requested, and succeeded, exactly
  when the connection is pending; and the connection is pending, active, provisioning or initiating. A live
  connection in another state (failed, rejected, expired) makes every call fail.
\<close>

theorem CreateNetworkPeering_steps:
  assumes "getClusterVpc (np_Client n) (np_Api n) s = (Val cv, s1)"
    and "getNetworkPeering (np_Client n) (np_Api n) nw s1 = (Val found, s2)"
    and "CreateNetworkPeering n nw s = (r, t)"
  shows "(\<forall>np. r = Val np \<longrightarrow> (\<exists>pc creation tagging.
      np_PeeringConnection np = Some pc \<and> (case found of Some old \<Rightarrow> pc = old \<and> creation = []
        | None \<Rightarrow> \<exists>v ts. nw_Vpc nw = Some v \<and> creation = [EvCloud (ReqCreateVpcPeeringConnection (vpc_VpcId cv) (vpc_VpcId v) ts) True]) \<and>
      (tagging = [] \<or> (\<exists>ts. tagging = [EvCloud (ReqCreateTags (pc_VpcPeeringConnectionId pc) ts) True])) \<and>
      trace t = trace s @ creation @ tagging @
        (if peering_state pc = ''pending-acceptance'' then [EvCloud (ReqAcceptVpcPeeringConnection (pc_VpcPeeringConnectionId pc)) True] else []) \<and>
      peering_state pc \<in> {''pending-acceptance'', ''active'', ''provisioning'', ''initiating-request''})) \<and>
    (\<forall>old. found = Some old \<and> peering_state old \<notin> {''pending-acceptance'', ''active'', ''provisioning'', ''initiating-request''} \<longrightarrow> (\<forall>np. r \<noteq> Val np))"
proof -
  let ?k = "np_Client n" and ?a = "np_Api n"
  have tr: "trace s2 = trace s" using quietD [OF quiet_getClusterVpc assms(1)] quietD [OF quiet_network_reads(5) assms(2)] by simp
  let ?tag = "\<lambda>pc. if np_IsSTSCluster n then ret () else andThen (wrapping ''failed to get default tags for peering connection''
                   (getDefaultNetworkTags ?k (Some (display_tag defaultVpcPeeringConnectionNameTagValue)))) (\<lambda>defaultTags.
                 ensure_tags ?a ''failed to tag peering connection'' (pc_VpcPeeringConnectionId pc) defaultTags (pc_Tags pc))"
  have main: "\<exists>pc creation tagging.
      np_PeeringConnection np = Some pc \<and> (case found of Some old \<Rightarrow> pc = old \<and> creation = []
        | None \<Rightarrow> \<exists>v ts. nw_Vpc nw = Some v \<and> creation = [EvCloud (ReqCreateVpcPeeringConnection (vpc_VpcId cv) (vpc_VpcId v) ts) True]) \<and>
      (tagging = [] \<or> (\<exists>ts. tagging = [EvCloud (ReqCreateTags (pc_VpcPeeringConnectionId pc) ts) True])) \<and>
      trace t = trace s @ creation @ tagging @
        (if peering_state pc = ''pending-acceptance'' then [EvCloud (ReqAcceptVpcPeeringConnection (pc_VpcPeeringConnectionId pc)) True] else []) \<and>
      peering_state pc \<in> {''pending-acceptance'', ''active'', ''provisioning'', ''initiating-request''}" if r: "r = Val np" for np
  proof -
    obtain pc s3 s4 where st: "(case found of Some pc \<Rightarrow> ret pc | None \<Rightarrow> create_peering n nw cv) s2 = (Val pc, s3)"
      "?tag pc s3 = (Val (), s4)" "accept_peering ?a pc s4 = (Val (), t)" "np = \<lparr>np_PeeringConnection = Some pc\<rparr>"
      using assms r by (auto simp: CreateNetworkPeering_def Let_def op_simps split: prod.splits res.splits)
    obtain creation where c: "trace s3 = trace s2 @ creation" "case found of Some old \<Rightarrow> pc = old \<and> creation = []
        | None \<Rightarrow> \<exists>v ts. nw_Vpc nw = Some v \<and> creation = [EvCloud (ReqCreateVpcPeeringConnection (vpc_VpcId cv) (vpc_VpcId v) ts) True]"
      using st(1) emitsD [OF emits_create_peering, of n nw cv s2 "Val pc" s3] by (cases found) (auto simp: op_simps)
    obtain tagging where tg: "trace s4 = trace s3 @ tagging" "tagging = [] \<or> (\<exists>ts. tagging = [EvCloud (ReqCreateTags (pc_VpcPeeringConnectionId pc) ts) True])"
      using emitsD [OF emits_peering_tags st(2)] by auto
    have "trace t = trace s4 @ (if peering_state pc = ''pending-acceptance'' then [EvCloud (ReqAcceptVpcPeeringConnection (pc_VpcPeeringConnectionId pc)) True] else []) \<and>
       peering_state pc \<in> {''pending-acceptance'', ''active'', ''provisioning'', ''initiating-request''}"
      using emitsD [OF emits_accept_peering st(3)] by auto
    then show ?thesis using c tg tr st(4) by (intro exI [where x = pc] exI [where x = creation] exI [where x = tagging]) simp
  qed
  then show ?thesis by (cases found) auto
qed

section \<open>A missing standalone VPC\<close>

text \<open>
  The clean-up of a network whose VPC is already gone panics instead of returning an error: looking for
  the peering reads through the nil VPC, and so does the removal of the routes, once the cluster has a route
  table.
\<close>

theorem missing_vpc_panics:
  "(getStandaloneVpc (np_Client n) (np_Api n) s = (Val None, s1) \<and> getClusterVpc (np_Client n) (np_Api n) s1 = (Val cv, s2) \<longrightarrow>
      GetClusterNetworkPeering n s = (Abort Panics, s2)) \<and>
   (BuildInfraName (np_Client n) defaultSecurityGroupPostfix defaultAwsIdentifierLength s = (Val name, s1') \<and>
      getSecurityGroup (np_Api n) name s1' = (Val None, s2') \<and>
      getClusterRouteTables (np_Client n) (np_Api n) s2' = (Val (t # ts), s3') \<and>
      getStandaloneVpc (np_Client n) (np_Api n) s3' = (Val None, s4') \<and> np_PeeringConnection np = Some pc \<longrightarrow>
      DeleteNetworkConnection n np s = (Abort Panics, s4'))"
  by (simp add: GetClusterNetworkPeering_def getNetworkPeering_def DeleteNetworkConnection_def remove_route_def Let_def op_simps)


section \<open>Finding the VPC by its owner tag\<close>

definition complete_tags :: "awsTag list \<Rightarrow> bool" where
  "complete_tags ts \<longleftrightarrow> (\<forall>t \<in> set ts. at_Key t \<noteq> None \<and> at_Value t \<noteq> None)"

definition owned_by :: "tag \<Rightarrow> vpc \<Rightarrow> bool" where
  "owned_by owner v \<longleftrightarrow> owner \<in> set (ec2TagListToGenericList (vpc_Tags v))"

lemma owner_tagged_eq:
  assumes "complete_tags ts" and "vpc_VpcId v \<noteq> None"
  shows "owner_tagged owner v found ts = ret (if owner \<in> set (ec2TagListToGenericList ts) then Some v else found)"
  using assms
proof (induction ts arbitrary: found)
  case (Cons t ts)
  obtain x y i where t: "at_Key t = Some x" "at_Value t = Some y" "vpc_VpcId v = Some i" using Cons.prems by (auto simp: complete_tags_def)
  have ts: "complete_tags ts" using Cons.prems by (simp add: complete_tags_def)
  have "owner = ec2TagToGeneric t \<longleftrightarrow> x = tag_Key owner \<and> y = tag_Value owner"
    using t by (cases owner) (auto simp: ec2TagToGeneric_def)
  then show ?case using t Cons.IH [OF ts Cons.prems(2)] by (auto simp: ec2TagListToGenericList_def)
qed (simp add: ec2TagListToGenericList_def)

lemma getStandaloneVpc_eq:
  assumes "\<And>w. aws_DescribeVpcs a [] w = (Inr vpcs, w)" and "\<And>w. kube_GetInfrastructure k ''cluster'' w = (Inr infra, w)"
    and "\<forall>v \<in> set vpcs. complete_tags (vpc_Tags v) \<and> vpc_VpcId v \<noteq> None"
  shows "getStandaloneVpc k a s =
    (Val (case filter (owned_by \<lparr>tag_Key = GetOrganizationTag (kube_env k) @ ''clusterID'', tag_Value = infra_InfrastructureName infra\<rparr>) (rev vpcs) of
        [] \<Rightarrow> None | v # _ \<Rightarrow> Some v), s)"
proof -
  let ?o = "\<lparr>tag_Key = GetOrganizationTag (kube_env k) @ ''clusterID'', tag_Value = infra_InfrastructureName infra\<rparr>"
  have "for_fold (\<lambda>found v. owner_tagged ?o v found (vpc_Tags v)) None vpcs s =
      ret (foldl (\<lambda>found v. if owned_by ?o v then Some v else found) None vpcs) s"
    by (subst for_fold_ret) (use assms(3) in \<open>auto simp: owner_tagged_eq owned_by_def\<close>)
  then show ?thesis
    using assms(1,2) by (simp add: getStandaloneVpc_def getCloudResourceOperatorOwnerTag_def GetClusterID_def GetClusterInfrastructure_def
        query_def op_simps ec2TagToGeneric_def foldl_last_match)
qed

lemma default_network_tags_owner:
  assumes "\<And>w. kube_GetInfrastructure k ''cluster'' w = (Inr infra, w)"
  shows "\<exists>tags. getDefaultNetworkTags k ct s = (Val tags, s) \<and>
    \<lparr>tag_Key = GetOrganizationTag (kube_env k) @ ''clusterID'', tag_Value = infra_InfrastructureName infra\<rparr> \<in> set tags"
proof -
  have pre: "set xs \<subseteq> set (MergeTags xs ys)" for xs ys by (simp add: MergeTags_filter)
  have q: "query (kube_GetInfrastructure k ''cluster'') s = (Val infra, s)" for s :: "('a, cloud_req event) sys"
    by (simp add: query_def assms)
  show ?thesis using pre
    by (auto simp: getDefaultNetworkTags_def getCloudResourceOperatorOwnerTag_def GetClusterID_def GetClusterInfrastructure_def
        GetUserInfraTags_def q op_simps ec2TagToGeneric_def Let_def MergeTags_filter split: option.splits)
qed

text \<open>
  Round trip of the owner tag: the tags that \<^verbatim>\<open>CreateNetwork\<close> sends with a new VPC always identify it,
  whatever tags the user has set on the cluster. When a VPC with these tags is the only one with the owner
  tag in the account, \<^verbatim>\<open>getStandaloneVpc\<close> finds it again.
\<close>

theorem created_vpc_is_found:
  assumes "\<And>w. kube_GetInfrastructure k ''cluster'' w = (Inr infra, w)" and "\<And>w. aws_DescribeVpcs a [] w = (Inr vpcs, w)"
    and "\<forall>v \<in> set vpcs. complete_tags (vpc_Tags v) \<and> vpc_VpcId v \<noteq> None"
  shows "\<exists>ts. getDefaultTagSpec k (display_tag defaultVpcNameTagValue) ''vpc'' s = (Val [(''vpc'', ts)], s) \<and>
    (\<forall>v \<in> set vpcs. vpc_Tags v = ts \<and>
       (\<forall>v' \<in> set vpcs. owned_by \<lparr>tag_Key = GetOrganizationTag (kube_env k) @ ''clusterID'', tag_Value = infra_InfrastructureName infra\<rparr> v' \<longrightarrow> v' = v) \<longrightarrow>
       getStandaloneVpc k a s = (Val (Some v), s))"
proof -
  let ?o = "\<lparr>tag_Key = GetOrganizationTag (kube_env k) @ ''clusterID'', tag_Value = infra_InfrastructureName infra\<rparr>"
  obtain tags where tags: "getDefaultNetworkTags k (Some (display_tag defaultVpcNameTagValue)) s = (Val tags, s)" "?o \<in> set tags"
    using default_network_tags_owner [OF assms(1)] by blast
  have spec: "getDefaultTagSpec k (display_tag defaultVpcNameTagValue) ''vpc'' s = (Val [(''vpc'', genericListToEc2TagList tags)], s)"
    using tags(1) by (simp add: getDefaultTagSpec_def op_simps)
  have "getStandaloneVpc k a s = (Val (Some v), s)"
    if v: "v \<in> set vpcs" "vpc_Tags v = genericListToEc2TagList tags" and only: "\<forall>v' \<in> set vpcs. owned_by ?o v' \<longrightarrow> v' = v" for v
  proof -
    have "owned_by ?o v" using v(2) tags(2) by (simp add: owned_by_def)
    then obtain x xs where f: "filter (owned_by ?o) (rev vpcs) = x # xs"
      using v(1) by (metis filter_empty_conv neq_Nil_conv set_rev)
    then have "x \<in> set (filter (owned_by ?o) (rev vpcs))" by simp
    then have "x = v" using only by auto
    then show ?thesis using getStandaloneVpc_eq [OF assms(2,1,3)] f by simp
  qed
  with spec show ?thesis by blast
qed

section \<open>Bundled subnets\<close>

lemma bundled_tags_eq:
  assumes "sub_SubnetId sub \<noteq> None" and "sub_VpcId sub \<noteq> None"
  shows "bundled_tags key c sub ts = ret (length (filter (\<lambda>t. tag_Key t = key \<and> tag_Value t = c) (ec2TagListToGenericList ts)))"
  using assms by (induction ts) (auto simp: ec2TagListToGenericList_def ec2TagToGeneric_def)

lemma foldl_plus_zero: "foldl (\<lambda>c x. c + g x) (b :: nat) xs = 0 \<longleftrightarrow> b = 0 \<and> (\<forall>x \<in> set xs. g x = 0)"
  by (induction xs arbitrary: b) auto

text \<open>
  The standalone network is enabled exactly when no subnet of the cluster VPC carries the owner tag of
  this cluster, that is, when no bundled subnets are left; the check changes nothing.
\<close>

theorem IsEnabled_exact:
  assumes "getClusterVpc (np_Client n) (np_Api n) s = (Val v, s1)" and "GetClusterID (np_Client n) s1 = (Val clusterID, s2)"
    and "GetVPCSubnets (np_Api n) (Some v) s2 = (Val subs, s3)" and "\<forall>sub \<in> set subs. sub_SubnetId sub \<noteq> None \<and> sub_VpcId sub \<noteq> None"
  shows "IsEnabled n s = (Val (\<forall>sub \<in> set subs.
      \<not> TagsContains (ec2TagListToGenericList (sub_Tags sub)) (GetOrganizationTag (kube_env (np_Client n)) @ ''clusterID'') clusterID), s3) \<and>
    trace s3 = trace s"
proof -
  let ?key = "GetOrganizationTag (kube_env (np_Client n)) @ ''clusterID''"
  let ?g = "\<lambda>sub. length (filter (\<lambda>t. tag_Key t = ?key \<and> tag_Value t = clusterID) (ec2TagListToGenericList (sub_Tags sub)))"
  have loop: "for_fold (\<lambda>c sub. andThen (bundled_tags ?key clusterID sub (sub_Tags sub)) (\<lambda>d. ret (c + d))) 0 subs s3 = ret (foldl (\<lambda>c sub. c + ?g sub) 0 subs) s3"
    by (subst for_fold_ret [where g = "\<lambda>c sub. c + ?g sub"]) (use assms(4) in \<open>simp_all add: bundled_tags_eq\<close>)
  have g: "?g sub = 0 \<longleftrightarrow> \<not> TagsContains (ec2TagListToGenericList (sub_Tags sub)) ?key clusterID" for sub :: subnet
    by (auto simp: TagsContains_def filter_empty_conv)
  have "trace s3 = trace s"
    using quietD [OF quiet_getClusterVpc assms(1)] quietD [OF quiet_cluster(2) assms(2)] quietD [OF quiet_cluster_reads(4) assms(3)] by simp
  then show ?thesis using assms(1-3) g by (simp add: IsEnabled_def Let_def op_simps loop foldl_plus_zero)
qed

end
