(* ===== verification/AWS_Provider_Safety.thy ===== *)
theory AWS_Provider_Safety
  imports AWS_Provider AWS_Network_Safety
begin

text \<open>
  Which requests the shared parts of the AWS providers make: the operations of the network make requests about
  networking only, the metric helpers set gauges only. The resource providers build on these classes.
\<close>

section \<open>Classes of requests\<close>

definition network_req :: "cloud_req \<Rightarrow> bool" where
  "network_req req = (case req of
     ReqCreateDBInstance _ \<Rightarrow> False | ReqModifyDBInstance _ \<Rightarrow> False | ReqDeleteDBInstance _ \<Rightarrow> False
   | ReqApplyPendingMaintenanceAction _ _ \<Rightarrow> False | ReqCreateDBSnapshot _ _ _ \<Rightarrow> False | ReqDeleteDBSnapshot _ \<Rightarrow> False
   | ReqCreateReplicationGroup _ \<Rightarrow> False | ReqModifyReplicationGroup _ \<Rightarrow> False | ReqDeleteReplicationGroup _ \<Rightarrow> False
   | ReqBatchApplyUpdateAction _ _ \<Rightarrow> False | ReqAddTagsToCacheResource _ _ \<Rightarrow> False | ReqCreateSnapshot _ _ _ \<Rightarrow> False | ReqDeleteSnapshot _ \<Rightarrow> False
   | ReqCreateBucket _ \<Rightarrow> False | ReqDeleteBucket _ \<Rightarrow> False | ReqDeleteObjects _ \<Rightarrow> False | ReqPutBucketTagging _ _ \<Rightarrow> False
   | ReqPutPublicAccessBlock _ _ \<Rightarrow> False | ReqPutBucketEncryption _ _ \<Rightarrow> False
   | _ \<Rightarrow> True)"

lemma network_req_simps [simp]:
  "network_req (ReqCreateVpc a1 b1)" "network_req (ReqDeleteVpc a2)" "network_req (ReqCreateSubnet a3 b3 c3 d3)" "network_req (ReqDeleteSubnet a4)"
  "network_req (ReqCreateTags a5 b5)" "network_req (ReqCreateSecurityGroup a6 b6 c6 d6)" "network_req (ReqDeleteSecurityGroup a7)"
  "network_req (ReqAuthorizeSecurityGroupIngress a8 b8)" "network_req (ReqCreateVpcPeeringConnection a9 b9 c9)"
  "network_req (ReqAcceptVpcPeeringConnection a10)" "network_req (ReqDeleteVpcPeeringConnection a11)" "network_req (ReqCreateRoute a12 b12 c12)"
  "network_req (ReqDeleteRoute a13 b13)" "network_req (ReqCreateDBSubnetGroup a14 b14 c14 d14)" "network_req (ReqModifyDBSubnetGroup a15 b15 c15)"
  "network_req (ReqDeleteDBSubnetGroup a16)" "network_req (ReqRemoveTagsFromResource a17 b17)" "network_req (ReqAddTagsToResource a18 b18)"
  "network_req (ReqCreateCacheSubnetGroup a19 b19 c19 d19)" "network_req (ReqModifyCacheSubnetGroup a20 b20 c20)"
  "network_req (ReqDeleteCacheSubnetGroup a21)" "network_req (ReqSetVpcAction a22 b22 c22)" "network_req ReqResetVpcAction"
  "\<not> network_req (ReqCreateDBInstance x1)" "\<not> network_req (ReqModifyDBInstance x2)" "\<not> network_req (ReqDeleteDBInstance x3)"
  "\<not> network_req (ReqCreateReplicationGroup x4)" "\<not> network_req (ReqModifyReplicationGroup x5)" "\<not> network_req (ReqDeleteReplicationGroup x6)"
  by (simp_all add: network_req_def)

fun network_event :: "cloud_req event \<Rightarrow> bool" where
  "network_event (EvCloud req b) = network_req req"
| "network_event _ = False"

declare only_exec [only_rules] only_create [only_rules] only_observe [only_rules]

lemma quiet_provider_reads [quiet_rules]: "quiet (metric_name_of p inst)" "quiet (buildInstanceName p msg inst)"
  unfolding metric_name_of_def buildInstanceName_def by (intro quiet_rules)+

lemmas only_provider_reads [only_rules] = quiet_provider_reads [THEN only_quiet]

lemma visible_exec: "(\<And>b. S (filter L [EvCloud req b])) \<Longrightarrow> visible L (exec a req) S"
  unfolding exec_def by (rule visible_request)

section \<open>Gauges\<close>

lemma only_deletion_metric [only_rules]:
  "only metric_event (set_deletion_metric p name prov inst)"
  unfolding set_deletion_metric_def by (intro only_rules; simp)

section \<open>The network\<close>

lemma only_network_subnets [only_rules]:
  "only network_event (tagPrivateSubnet k a sub)" "only network_event (reconcileStandaloneRouteTableTags n v)" "only network_event (reconcileVPCTags n v)"
  "only network_event (reconcileStandaloneVPCSubnets n v)" "only network_event (reconcileRDSVpcConfiguration n subs)"
  "only network_event (reconcileElasticacheVPCConfiguration n subs)"
  unfolding tagPrivateSubnet_def reconcileStandaloneRouteTableTags_def reconcileVPCTags_def reconcileStandaloneVPCSubnets_def ensure_subnet_def
    ensure_subnet_tags_def reconcileRDSVpcConfiguration_def verify_rds_group_def updateRdsSubnetGroupTags_def
    reconcileElasticacheVPCConfiguration_def verify_cache_group_def ensure_tags_def Let_def
  by (intro only_rules; simp)+

lemma only_network_create: "only network_event (CreateNetwork n cidr)"
  unfolding CreateNetwork_def reconcile_standalone_vpc_def create_standalone_vpc_def await_vpc_def create_vpc_error_def Let_def
  by (intro only_rules; simp)

lemma only_network_connect: "only network_event (CreateNetworkConnection n nw)" "only network_event (CreateNetworkPeering n nw)"
  unfolding CreateNetworkConnection_def reconcileStandaloneSecurityGroup_def create_standalone_group_def tag_standalone_group_def ensure_route_def
    CreateNetworkPeering_def create_peering_def accept_peering_def peering_code_def ensure_tags_def Let_def
  by (intro only_rules; simp)+

lemma only_network_delete: "only network_event (DeleteNetworkConnection n np)" "only network_event (DeleteNetworkPeering n np)"
    "only network_event (DeleteNetwork n)" "only network_event (DeleteBundledCloudResources n)"
  unfolding DeleteNetworkConnection_def remove_route_def DeleteNetworkPeering_def DeleteNetwork_def delete_subnet_def delete_subnet_groups_def
    DeleteBundledCloudResources_def tolerating_def peering_code_def Let_def
  by (intro only_rules; simp)+

lemma only_try_subnets [only_rules]: "only network_event (try_subnets k a v zone nets)"
  by (induction nets) (auto intro!: only_rules simp: Let_def)

lemma only_network_bundled: "only network_event (configureSecurityGroup k a)" "only network_event (GetPrivateSubnetIDS k a)"
  unfolding configureSecurityGroup_def GetPrivateSubnetIDS_def ensure_zone_def createPrivateSubnet_def Let_def
  by (intro only_rules; simp)+

lemmas only_network [only_rules] = only_network_create only_network_connect only_network_delete only_network_bundled

text \<open>The network around a resource.\<close>

lemma only_remove_network: "only network_event (remove_network p n isEnabled isLast inst)"
  unfolding remove_network_def by (intro only_rules)

lemmas only_config [only_rules] = quiet_config [THEN only_quiet] quiet_credentials [THEN only_quiet]

lemma only_reconcile_network: "only network_event (reconcile_network p n msg inst)"
  unfolding reconcile_network_def ReconcileNetworkProviderConfig_def getNonOverlappingDefaultCIDR_def by (intro only_rules)

end
