(* ===== verification/AWS_RDS_Safety.thy ===== *)
theory AWS_RDS_Safety
  imports AWS_RDS_Config AWS_Provider_Safety
begin

text \<open>
  Which requests the RDS provider makes about a database instance, and in which order: an instance is created
  at most once and only when it is not there, it is deleted only when it is available and unprotected, and the
  resource is released only after its instance is gone.
\<close>

section \<open>Parts that make no request about an instance\<close>

fun instance_request :: "cloud_req event \<Rightarrow> bool" where
  "instance_request (EvCloud (ReqCreateDBInstance _) _) = True"
| "instance_request (EvCloud (ReqModifyDBInstance _) _) = True"
| "instance_request (EvCloud (ReqDeleteDBInstance _) _) = True"
| "instance_request _ = False"

lemma quiet_rds_reads [quiet_rules]: "quiet (getRDSInstances c)" "quiet (timestamped_name p inst)" "quiet (getDefaultRdsTags p inst)"
    "quiet (buildRDSTagCreateStrategy p inst cfg)" "quiet (connection_details i pass)" "quiet (buildRDSUpdateStrategy p cfg i inst)"
    "quiet (buildRDSDeleteConfig p pg cc dc)"
  unfolding getRDSInstances_def timestamped_name_def buildRDSTagCreateStrategy_def getDefaultRdsTags_def connection_details_def
    buildRDSUpdateStrategy_def wanted_change_def optional_change_def buildRDSDeleteConfig_def Let_def
  by (intro quiet_rules)+

lemmas only_rds_reads [only_rules] = quiet_rds_reads [THEN only_quiet] quiet_buildRDSCreateStrategy [THEN only_quiet]

interpretation db_instance: named_lookup dbi_DBInstanceIdentifier first_instance
  by unfold_locales simp_all

lemma getFoundInstance_emits:
  "emits (getFoundInstance insts (Some n) :: ('w, dbInstance option) aop) (\<lambda>es r. (\<forall>e \<in> set es. \<not> L e) \<and>
     (case r of Val (Some i) \<Rightarrow> i \<in> set insts \<and> dbi_DBInstanceIdentifier i = Some n
      | Val None \<Rightarrow> \<forall>i \<in> set insts. dbi_DBInstanceIdentifier i \<noteq> Some n | _ \<Rightarrow> True))"
proof (rule emitsI)
  fix s r and t :: "('w, cloud_req event) sys" assume run: "getFoundInstance insts (Some n) s = (r, t)"
  then have "first_instance n insts s = (r, t)" by (cases insts) (auto simp: getFoundInstance_def)
  then show "\<exists>es. trace t = trace s @ es \<and> (\<forall>e \<in> set es. \<not> L e) \<and>
     (case r of Val (Some i) \<Rightarrow> i \<in> set insts \<and> dbi_DBInstanceIdentifier i = Some n
      | Val None \<Rightarrow> \<forall>i \<in> set insts. dbi_DBInstanceIdentifier i \<noteq> Some n | _ \<Rightarrow> True)"
    by (induction insts) (auto simp: op_simps deref_def split: option.splits if_splits res.splits)
qed

lemma only_rds_gauges [only_rules]:
  "only metric_event (setPostgresMaxMemoryMetric types ls)" "only metric_event (expose_maintenance_action p clusterID ident pma)"
  "only metric_event (rdsInstanceStatusIsHealthy i)"
  unfolding setPostgresMaxMemoryMetric_def expose_maintenance_action_def rdsInstanceStatusIsHealthy_def
  by (intro only_rules; simp)+

lemma only_rds_metrics: "only metric_event (exposePostgresMetrics p c inst found)" "only metric_event (createRDSConnectionMetric p inst found)"
    "only metric_event (setPostgresServiceMaintenanceMetric p c found)" "only metric_event (setPostgresDeletionTimestampMetric p inst)"
    "only metric_event (rds_metrics p c inst found)"
  unfolding exposePostgresMetrics_def createRDSConnectionMetric_def setPostgresServiceMaintenanceMetric_def setPostgresDeletionTimestampMetric_def
    rds_metrics_def Let_def
  by (intro only_rules; simp)+

lemma metric_no_instance: "metric_event e \<Longrightarrow> \<not> instance_request e"
  by (cases e) auto

lemma network_no_instance: "network_event e \<Longrightarrow> \<not> instance_request e"
  by (cases e rule: instance_request.cases) auto

lemmas only_weakened [only_rules] = only_rds_metrics(5) [THEN only_weaken, OF metric_no_instance] only_network_bundled [THEN only_weaken, OF network_no_instance]

lemma only_no_instance [only_rules]:
  "only (\<lambda>e. \<not> instance_request e) (TagRDSPostgres p c inst i)" "only (\<lambda>e. \<not> instance_request e) (addAnnotation p inst ident)"
  "only (\<lambda>e. \<not> instance_request e) (configureRDSVpc p c)"
  unfolding TagRDSPostgres_def addAnnotation_def configureRDSVpc_def Let_def
  by (intro only_rules; simp)+

lemma only_rds_available [only_rules]: "only (\<lambda>e. \<not> instance_request e) (rds_available p c inst cfg i pass)"
  unfolding rds_available_def Let_def by (intro only_rules)

section \<open>Creation\<close>

text \<open>What a pass over a live resource may do to the instances that were listed.\<close>

definition allowed_change :: "dbInstance list \<Rightarrow> cr \<Rightarrow> bool \<Rightarrow> cloud_req event list \<Rightarrow> bool" where
  "allowed_change insts inst maintenanceWindow es \<longleftrightarrow> es = [] \<or>
     (\<exists>cfg b. es = [EvCloud (ReqCreateDBInstance cfg) b] \<and> complete_config cfg \<and> \<not> annotations_Has (cr_meta inst) ResourceIdentifierAnnotation \<and>
        (\<forall>i \<in> set insts. dbi_DBInstanceIdentifier i \<noteq> cdi_DBInstanceIdentifier cfg)) \<or>
     (\<exists>m b i. es = [EvCloud (ReqModifyDBInstance m) b] \<and> maintenanceWindow \<and> i \<in> set insts \<and>
        dbi_DBInstanceIdentifier i = mdi_DBInstanceIdentifier m \<and> dbi_DBInstanceStatus i = Some ''available'')"

lemma allowed_Nil [simp]: "allowed_change insts inst w []"
  by (simp add: allowed_change_def)

lemma emits_buildRDSCreateStrategy:
  "emits (buildRDSCreateStrategy p c inst cfg0 pass) (\<lambda>es r. (\<forall>e \<in> set es. \<not> L e) \<and> (\<forall>cfg. r = Val cfg \<longrightarrow> complete_config cfg))"
proof (rule emitsI, intro exI conjI)
  fix s r t assume run: "buildRDSCreateStrategy p c inst cfg0 pass s = (r, t)"
  show "trace t = trace s @ []" using quietD [OF quiet_buildRDSCreateStrategy run] by simp
  show "\<forall>cfg. r = Val cfg \<longrightarrow> complete_config cfg"
  proof (intro allI impI)
    fix cfg assume "r = Val cfg"
    then obtain name subGroup groups where "cfg = built_config name subGroup groups pass cfg0" using buildRDSCreateStrategy_Val run by blast
    then show "complete_config cfg" by (simp only: built_config_complete)
  qed
qed simp

lemma emits_buildRDSTagCreateStrategy:
  "emits (buildRDSTagCreateStrategy p inst cfg) (\<lambda>es r. (\<forall>e \<in> set es. \<not> L e) \<and>
     (\<forall>cfg'. r = Val cfg' \<longrightarrow> cdi_DBInstanceIdentifier cfg' = cdi_DBInstanceIdentifier cfg \<and> (complete_config cfg \<longrightarrow> complete_config cfg')))"
  unfolding buildRDSTagCreateStrategy_def
  by (rule emits_andThen_quiet) (auto intro!: quiet_rules emits_ret simp: complete_config_def)

lemma emits_buildRDSUpdateStrategy:
  "emits (buildRDSUpdateStrategy p cfg i inst) (\<lambda>es r. (\<forall>e \<in> set es. \<not> L e) \<and> (\<forall>m. r = Val (Some m) \<longrightarrow> mdi_DBInstanceIdentifier m = dbi_DBInstanceIdentifier i))"
  unfolding buildRDSUpdateStrategy_def wanted_change_def optional_change_def Let_def
  by (intro emits_andThen_quiet quiet_rules emits_ret) auto

lemma visible_rds_create:
  assumes "complete_config cfg" and "\<forall>i \<in> set insts. dbi_DBInstanceIdentifier i \<noteq> cdi_DBInstanceIdentifier cfg"
  shows "visible instance_request (rds_create p c inst cfg) (allowed_change insts inst w)"
proof (cases "annotations_Has (cr_meta inst) ResourceIdentifierAnnotation")
  case True
  then show ?thesis by (simp add: rds_create_def Let_def visible_ret)
next
  case False
  let ?Q = "\<lambda>r. \<forall>cfg'. r = Val cfg' \<longrightarrow> cdi_DBInstanceIdentifier cfg' = cdi_DBInstanceIdentifier cfg \<and> complete_config cfg'"
  have tags: "emits (if isSTS p then buildRDSTagCreateStrategy p inst cfg else ret cfg) (\<lambda>es r. (\<forall>e \<in> set es. \<not> instance_request e) \<and> ?Q r)"
    using assms(1) by (auto intro: emits_ret emits_weaken [OF emits_buildRDSTagCreateStrategy])
  have make: "visible instance_request (exec (cl_Aws c) (ReqCreateDBInstance cfg')) (allowed_change insts inst w)"
    if "?Q (Val cfg')" for cfg'
    using that assms False by (intro visible_exec) (auto simp: allowed_change_def)
  show ?thesis
    unfolding rds_create_def if_not_P [OF False]
    by (rule visible_otherwise_step [OF tags], rule visible_otherwise_after [OF make], assumption) (intro only_rules, simp)
qed

lemma visible_rds_found:
  assumes "i \<in> set insts"
  shows "visible instance_request (rds_found p c inst cfg i pass w) (allowed_change insts inst w)"
proof -
  have modify: "visible instance_request (otherwise (exec (cl_Aws c) (ReqModifyDBInstance m)) h (\<lambda>_. ret x)) (allowed_change insts inst w)"
    if "w" "mdi_DBInstanceIdentifier m = dbi_DBInstanceIdentifier i" "dbi_DBInstanceStatus i = Some ''available''"
    for m and h :: "error \<Rightarrow> postgresDeploymentDetails create_reply" and x
    using that assms
    by (intro visible_otherwise_after [OF visible_exec] only_rules) (auto simp: allowed_change_def)
  have update: "visible instance_request (otherwise (buildRDSUpdateStrategy p cfg i inst') h (\<lambda>mi. case mi of
       Some m \<Rightarrow> otherwise (exec (cl_Aws c) (ReqModifyDBInstance m)) (g m) (\<lambda>_. ret x) | None \<Rightarrow> rds_available p c inst' cfg i pass)) (allowed_change insts inst w)"
    if "w" "dbi_DBInstanceStatus i = Some ''available''" for inst' g h x
    using that
    by (intro visible_otherwise_step [OF emits_buildRDSUpdateStrategy] visible_option modify)
       (auto intro: visible_silent only_rds_available)
  show ?thesis
  proof (cases "dbi_DBInstanceIdentifier i = None \<or> dbi_DBInstanceStatus i = None")
    case True
    then show ?thesis by (cases "dbi_DBInstanceIdentifier i") (auto simp: rds_found_def intro!: visible_silent only_rules)
  next
    case False
    then obtain ident status where "dbi_DBInstanceIdentifier i = Some ident" "dbi_DBInstanceStatus i = Some status" by auto
    then show ?thesis
      unfolding rds_found_def Let_def
      by (simp only: deref_simps andThen_ret) (intro visible_if visible_ret update visible_silent [OF only_rds_available] allowed_Nil; simp)
  qed
qed

text \<open>
  C7. One pass of the RDS provider over a Postgres resource makes at most one request about a database instance.
  An instance is created only when none of the listed instances has its identifier and the resource is not
  annotated with an earlier instance, always with a complete configuration; a listed instance is modified only
  in a maintenance window and while it is available; a pass never deletes one. This holds whatever AWS and the
  API server answer.
\<close>

theorem rds_at_most_one_instance:
  assumes list: "getRDSInstances c s = (Val insts, s1)"
    and run: "reconcileRDSInstance p c inst cfg0 standaloneNetworkExists maintenanceWindow s = (r, t)"
  shows "\<exists>es. trace t = trace s @ es \<and> allowed_change insts inst maintenanceWindow (filter instance_request es)"
proof -
  let ?S = "allowed_change insts inst maintenanceWindow"
  have found: "visible instance_request (andThen (getFoundInstance insts (cdi_DBInstanceIdentifier cfg)) (\<lambda>found.
      andThen (case found of Some i \<Rightarrow> rds_found p c inst cfg i pass maintenanceWindow | None \<Rightarrow> rds_create p c inst cfg) (\<lambda>(answer, inst').
      andThen (rds_metrics p c inst' found) (\<lambda>_. ret ((answer, inst'), cfg))))) ?S" if cfg: "complete_config cfg" for cfg pass
  proof -
    obtain n where n: "cdi_DBInstanceIdentifier cfg = Some n" using cfg by (auto simp: complete_config_def)
    show ?thesis unfolding n
      by (rule visible_step [OF getFoundInstance_emits], rule visible_after, rule visible_option)
         (auto simp: n intro!: visible_rds_create [OF cfg] visible_rds_found only_rules)
  qed
  show ?thesis
    using run unfolding reconcileRDSInstance_def Let_def
    by (rule visible_after_read [OF quiet_rds_reads(1) list])
       (intro visible_otherwise visible_if visible_ret visible_otherwise_step [OF emits_buildRDSCreateStrategy] found only_rules allowed_Nil; simp)
qed

section \<open>Deletion\<close>

text \<open>
  What a pass over a deleted resource may do, apart from gauges: with an instance that was listed, one request
  about it; without one, first the network is removed when this is the last resource, then the credentials, then
  the finalizer.
\<close>

definition release_tail :: "cr \<Rightarrow> cloud_req event list \<Rightarrow> bool" where
  "release_tail pg es \<longleftrightarrow> es = [] \<or> (\<exists>b. es = [EvDeleteSecret (credential_secret_name pg) b]) \<or>
     (\<exists>b om b'. es = [EvDeleteSecret (credential_secret_name pg) b, EvUpdate Postgres (pg\<lparr>cr_meta := om\<rparr>) b'] \<and>
        RemoveFinalizer (cr_meta pg) DefaultFinalizer = Some om)"

definition release_steps :: "bool \<Rightarrow> cr \<Rightarrow> cloud_req event list \<Rightarrow> bool" where
  "release_steps isLast pg es \<longleftrightarrow> (\<exists>net rest. es = net @ rest \<and> (\<forall>e \<in> set net. network_event e) \<and> (\<not> isLast \<longrightarrow> net = []) \<and> release_tail pg rest)"

definition allowed_deletion :: "dbInstance option \<Rightarrow> deleteDBInstanceInput \<Rightarrow> bool \<Rightarrow> cr \<Rightarrow> cloud_req event list \<Rightarrow> bool" where
  "allowed_deletion found cfg isLast pg es = (case found of
     None \<Rightarrow> release_steps isLast pg es
   | Some i \<Rightarrow> es = [] \<or>
       (\<exists>b. es = [EvCloud (ReqDeleteDBInstance cfg) b] \<and> dbi_DBInstanceStatus i = Some ''available'' \<and> dbi_DeletionProtection i = Some False) \<or>
       (\<exists>b. es = [EvCloud (ReqModifyDBInstance ((no_modification (ddi_DBInstanceIdentifier cfg))\<lparr>mdi_DeletionProtection := Some False\<rparr>)) b] \<and>
          dbi_DBInstanceStatus i = Some ''available'' \<and> dbi_DeletionProtection i = Some True))"

lemma allowed_deletion_None: "allowed_deletion None cfg isLast pg = release_steps isLast pg"
  by (simp add: fun_eq_iff allowed_deletion_def)

lemma release_stepsI:
  "(\<forall>e \<in> set net. network_event e) \<and> (\<not> isLast \<longrightarrow> net = []) \<Longrightarrow> release_tail pg rest \<Longrightarrow> release_steps isLast pg (net @ rest)"
  unfolding release_steps_def by blast

lemma emits_remove_finalizer:
  "emits (remove_finalizer p kind inst) (\<lambda>es r. es = [] \<or> (\<exists>om b. es = [EvUpdate kind (inst\<lparr>cr_meta := om\<rparr>) b] \<and> RemoveFinalizer (cr_meta inst) DefaultFinalizer = Some om))"
  unfolding remove_finalizer_def Let_def update_cr_def
  by (rule emits_andThen [OF emits_deref [where R = "\<lambda>es r. es = [] \<and> (\<forall>om. r = Val om \<longrightarrow> RemoveFinalizer (cr_meta inst) DefaultFinalizer = Some om)"]])
     (auto intro!: emits_otherwise [OF emits_request] emits_ret)

lemma emits_release: "emits (release_postgres p n isEnabled isLast pg) (\<lambda>es r. release_steps isLast pg es)"
proof -
  let ?net = "\<lambda>es. (\<forall>e \<in> set es. network_event e) \<and> (\<not> isLast \<longrightarrow> es = [])"
  have net: "emits (remove_network p n isEnabled isLast pg) (\<lambda>es r. ?net es)"
  proof (cases isLast)
    case True
    then show ?thesis by (intro emits_weaken [OF only_remove_network [unfolded only_def]]) simp
  qed (simp add: remove_network_def emits_ret)
  have one: "release_steps isLast pg (es @ [EvDeleteSecret (credential_secret_name pg) b])" "release_steps isLast pg es" if "?net es" for es b
    using release_stepsI [OF that, of pg "[]"] release_stepsI [OF that, of pg "[EvDeleteSecret (credential_secret_name pg) b]"]
    by (simp_all add: release_tail_def)
  have two: "emits (remove_finalizer p Postgres pg) (\<lambda>fs r. release_steps isLast pg (es @ [EvDeleteSecret (credential_secret_name pg) b] @ fs))" if "?net es" for es b
    by (rule emits_weaken [OF emits_remove_finalizer], rule release_stepsI [OF that]) (auto simp: release_tail_def)
  have secret: "emits (andThen (attempt (request (kube_DeleteSecret (ap_Client p) (credential_secret_name pg)) (\<lambda>r. EvDeleteSecret (credential_secret_name pg) (ok r)))) (\<lambda>r.
       case r of Inl e \<Rightarrow> if k8s_IsNotFound e then remove_finalizer p Postgres pg else ret (delete_failed pg ''failed to deleted rds secrets'' e) | Inr _ \<Rightarrow> remove_finalizer p Postgres pg))
     (\<lambda>fs r. release_steps isLast pg (es @ fs))" if es: "?net es" for es
    by (rule emits_andThen [OF emits_attempt [OF emits_request, where S = "\<lambda>fs r. \<exists>b. fs = [EvDeleteSecret (credential_secret_name pg) b]"]])
       (auto intro!: emits_sum emits_if emits_ret two [OF es, simplified] one(1) [OF es])
  show ?thesis
    unfolding release_postgres_def by (rule emits_andThen [OF net]) (auto intro!: emits_option secret emits_ret one)
qed

lemma release_filter: "release_steps isLast pg es \<Longrightarrow> release_steps isLast pg (filter (\<lambda>e. \<not> metric_event e) es)"
proof -
  assume steps: "release_steps isLast pg es"
  have "\<not> metric_event e" if "network_event e" for e using that by (cases e) auto
  then have "\<forall>e \<in> set es. \<not> metric_event e" using steps by (auto simp: release_steps_def release_tail_def)
  then show ?thesis using steps by (simp add: filter_id_conv [THEN iffD2])
qed

lemma buildRDSDeleteConfig_identifier:
  "buildRDSDeleteConfig p pg cc dc s = (Val cfg, t) \<Longrightarrow> ddi_DBInstanceIdentifier cfg \<noteq> None"
  by (auto simp: buildRDSDeleteConfig_def Let_def val_simps or_default_def split: option.splits if_splits)

lemma getFoundInstance_find:
  assumes "\<forall>i \<in> set insts. dbi_DBInstanceIdentifier i \<noteq> None" and "ident \<noteq> None"
  shows "getFoundInstance insts ident = ret (find (\<lambda>i. dbi_DBInstanceIdentifier i = ident) insts)"
  using assms(2) db_instance.lookup_find [OF assms(1)] by (auto simp: getFoundInstance_def)

text \<open>The requests about an instance that was found, after its gauges.\<close>

lemma visible_delete_instance: "visible (\<lambda>e. \<not> metric_event e) (delete_found_instance p c pg cfg i) (allowed_deletion (Some i) cfg isLast pg)"
proof -
  let ?S = "allowed_deletion (Some i) cfg isLast pg"
  have delete: "visible (\<lambda>e. \<not> metric_event e) (exec (cl_Aws c) (ReqDeleteDBInstance cfg)) ?S"
    if "dbi_DBInstanceStatus i = Some ''available''" "dbi_DeletionProtection i = Some False"
    using that by (intro visible_exec) (auto simp: allowed_deletion_def)
  have modify: "visible (\<lambda>e. \<not> metric_event e)
      (exec (cl_Aws c) (ReqModifyDBInstance ((no_modification (ddi_DBInstanceIdentifier cfg))\<lparr>mdi_DeletionProtection := Some False\<rparr>))) ?S"
    if "dbi_DBInstanceStatus i = Some ''available''" "dbi_DeletionProtection i = Some True"
    using that by (intro visible_exec) (auto simp: allowed_deletion_def)
  have S: "?S []" by (simp add: allowed_deletion_def)
  have gauges: "only (\<lambda>e. \<not> \<not> metric_event e) (exposePostgresMetrics p c pg (Some i))" using only_rds_metrics(1) by simp
  show ?thesis
    unfolding delete_found_instance_def
    by (intro visible_andThen [OF gauges] visible_deref visible_if visible_ret S
        visible_after [OF visible_attempt [OF delete]] visible_otherwise_after [OF modify] only_rules) simp_all
qed

text \<open>
  C8. The deletion of a Postgres resource: while its instance is listed, the only request is to delete it, when it is
  available and unprotected, or to lift its protection; the network (if this is the last resource), the
  credentials and the finalizer go, in this order, only when no listed instance has the identifier. This
  holds whatever AWS and the API server answer.
\<close>

theorem rds_deletion_order:
  assumes list: "getRDSInstances c s = (Val insts, s1)" and named: "\<forall>i \<in> set insts. dbi_DBInstanceIdentifier i \<noteq> None"
    and build: "buildRDSDeleteConfig p pg createConfig deleteConfig s1 = (Val cfg, s2)"
    and run: "deleteRDSInstance p c n pg createConfig deleteConfig isEnabled isLastResource s = (r, t)"
  shows "\<exists>es. trace t = trace s @ es \<and>
    allowed_deletion (find (\<lambda>i. dbi_DBInstanceIdentifier i = ddi_DBInstanceIdentifier cfg) insts) cfg isLastResource pg (filter (\<lambda>e. \<not> metric_event e) es)"
proof -
  let ?found = "find (\<lambda>i. dbi_DBInstanceIdentifier i = ddi_DBInstanceIdentifier cfg) insts" and ?L = "\<lambda>e. \<not> metric_event e"
  let ?S = "allowed_deletion ?found cfg isLastResource pg"
  have run2: "(case ?found of Some i \<Rightarrow> delete_found_instance p c pg cfg i | None \<Rightarrow> release_postgres p n isEnabled isLastResource pg) s2 = (r, t)"
    using run list build
    by (simp add: deleteRDSInstance_def otherwise_apply getFoundInstance_find [OF named buildRDSDeleteConfig_identifier [OF build]])
  have gone: "visible ?L (release_postgres p n isEnabled isLastResource pg) (release_steps isLastResource pg)"
    unfolding visible_def by (rule emits_weaken [OF emits_release]) (rule release_filter)
  have vis: "visible ?L (case ?found of Some i \<Rightarrow> delete_found_instance p c pg cfg i | None \<Rightarrow> release_postgres p n isEnabled isLastResource pg) ?S"
    using visible_delete_instance gone by (cases ?found) (simp_all add: allowed_deletion_None)
  have "trace s2 = trace s" using quietD [OF quiet_rds_reads(1) list] quietD [OF quiet_rds_reads(7) build] by simp
  then show ?thesis using visibleD [OF vis run2] by simp
qed

end
