(* ===== verification/AWS_S3_Safety.thy ===== *)
theory AWS_S3_Safety
  imports AWS_S3 AWS_RDS_Safety
begin

text \<open>
  Which requests the BlobStorage provider makes about a bucket: a bucket that is reported as ready is closed to
  the public and encrypted, it is created only when it is missing, and it is deleted only when it is empty or
  its deletion is forced.
\<close>

section \<open>Creation\<close>

fun cloud_event :: "'c event \<Rightarrow> bool" where
  "cloud_event (EvCloud _ _) = True"
| "cloud_event _ = False"

abbreviation blocked :: "string \<Rightarrow> bool \<Rightarrow> cloud_req event" where
  "blocked b accepted \<equiv> EvCloud (ReqPutPublicAccessBlock b [True, True, True, True]) accepted"

abbreviation encrypted :: "string \<Rightarrow> bool \<Rightarrow> cloud_req event" where
  "encrypted b accepted \<equiv> EvCloud (ReqPutBucketEncryption b ''AES256'') accepted"

abbreviation created :: "string \<Rightarrow> bool \<Rightarrow> cloud_req event" where
  "created b accepted \<equiv> EvCloud (ReqCreateBucket (Some b)) accepted"

text \<open>The settings of a bucket are made in this order, and the reply is a success when both were accepted.\<close>

definition settings_made :: "string \<Rightarrow> bool \<Rightarrow> cloud_req event list \<Rightarrow> bool" where
  "settings_made b ready es \<longleftrightarrow> (if ready then es = [blocked b True, encrypted b True] else es = [blocked b False] \<or> es = [blocked b True, encrypted b False])"

definition bucket_steps :: "bool \<Rightarrow> bool \<Rightarrow> string \<Rightarrow> bool \<Rightarrow> cloud_req event list \<Rightarrow> bool" where
  "bucket_steps found annotated b ready es \<longleftrightarrow>
     (if found then settings_made b ready es
      else if annotated then es = [] \<and> \<not> ready
      else (es = [created b False] \<and> \<not> ready) \<or> (es = [created b True] \<and> \<not> ready) \<or> (\<exists>rest. es = created b True # rest \<and> settings_made b ready rest))"

lemma emits_wrapped_exec:
  "emits (wrapping msg (exec a req)) (\<lambda>es r. (r = Val () \<and> es = [EvCloud req True]) \<or> (\<exists>e. r = Fail e \<and> es = [EvCloud req False]))"
  by (rule emits_wrapping [OF emits_exec]) auto

lemma emits_settings:
  "emits (reconcileS3BucketSettings c b) (\<lambda>es r. case r of Val _ \<Rightarrow> settings_made b True es | Fail _ \<Rightarrow> settings_made b False es | Abort _ \<Rightarrow> False)"
  unfolding reconcileS3BucketSettings_def
  by (rule emits_andThen [OF emits_wrapped_exec], rule emits_weaken [OF emits_wrapped_exec]) (auto simp: settings_made_def)

lemma settings_cloud: "settings_made b ready es \<Longrightarrow> filter cloud_event es = es"
  by (auto simp: settings_made_def split: if_splits)

lemma quiet_s3_reads [quiet_rules]: "quiet (getS3buckets c)" "quiet (bucket_listed b bs)" "quiet (getBucketSize c b)" "quiet (getDefaultS3Tags p inst)"
proof -
  show "quiet (bucket_listed b bs)" by (induction bs) (auto intro!: quiet_rules)
qed (unfold getS3buckets_def getBucketSize_def getDefaultS3Tags_def, (intro quiet_rules)+)

lemma only_blob_metrics: "only metric_event (exposeBlobStorageMetrics p inst)"
  unfolding exposeBlobStorageMetrics_def by (intro only_rules; simp)

lemma metric_no_cloud: "metric_event e \<Longrightarrow> \<not> cloud_event e"
  by (cases e) auto

text \<open>The reply of an operation that answers with a message and an error.\<close>

definition replies :: "(bool \<Rightarrow> cloud_req event list \<Rightarrow> bool) \<Rightarrow> cloud_req event list \<Rightarrow> delete_reply res \<Rightarrow> bool" where
  "replies S es r \<longleftrightarrow> (\<forall>msg err inst. r = Val ((msg, err), inst) \<longrightarrow> S (err = None) (filter cloud_event es))"

lemma replies_simps [simp]: "replies S es (Fail e)" "replies S es (Abort a)" "replies S es (Val ((msg, err), inst)) = S (err = None) (filter cloud_event es)"
    "replies S es (Val (delete_failed inst msg e)) = S False (filter cloud_event es)"
  by (auto simp: replies_def delete_failed_def)

lemma emits_bucket_create:
  "emits (bucket_create p c bs b found) (replies (bucket_steps found (annotations_Has (cr_meta bs) ResourceIdentifierAnnotation) b))"
proof -
  let ?ann = "annotations_Has (cr_meta bs) ResourceIdentifierAnnotation"
  have settings: "emits (otherwise (reconcileS3BucketSettings c b) (delete_failed x m) (\<lambda>_. ret ((m', None), y))) (\<lambda>fs r. replies S (es @ fs) r)"
    if "\<And>ready fs. settings_made b ready fs \<Longrightarrow> S ready (filter cloud_event es @ fs)" for x y m m' es S
    by (rule emits_otherwise [OF emits_settings]) (auto intro!: emits_ret that simp: settings_cloud)
  have created: "emits (otherwise (update_cr (ap_Client p) BlobStorage b1) (delete_failed b2 m) (\<lambda>stored.
      otherwise (reconcileS3BucketSettings c b) (delete_failed stored m1) (\<lambda>_. ret ((m2, None), stored)))) (\<lambda>fs r. replies (bucket_steps False False b) (created b True # fs) r)"
    for b1 b2 m m1 m2
    unfolding update_cr_def
    by (rule emits_otherwise [OF emits_request])
       (auto simp: bucket_steps_def settings_cloud intro!: settings [where es = "[created b True, _]", simplified])
  show ?thesis
  proof (cases found)
    case True
    then show ?thesis
      using settings [where es = "[]" and S = "bucket_steps True ?ann b"] by (simp add: bucket_create_def bucket_steps_def settings_cloud)
  next
    case False
    show ?thesis
    proof (cases ?ann)
      case True
      then show ?thesis using False by (auto simp: bucket_create_def Let_def bucket_steps_def intro: emits_ret)
    next
      case ann: False
      then have "bucket_create p c bs b found = otherwise (exec (cl_Aws c) (ReqCreateBucket (Some b))) (delete_failed bs (''failed to create s3 bucket '' @ b)) (\<lambda>_.
        let bs1 = with_annotation b bs in
        otherwise (update_cr (ap_Client p) BlobStorage bs1) (delete_failed bs1 ''failed to add annotation'') (\<lambda>stored.
        otherwise (reconcileS3BucketSettings c b) (delete_failed stored (''failed to set s3 bucket settings on bucket creation '' @ b)) (\<lambda>_.
          ret ((''successfully reconciled'', None), stored))))"
        using False by (simp add: bucket_create_def)
      then show ?thesis
        using False ann by (auto simp: Let_def intro!: emits_otherwise [OF emits_exec] created) (simp add: bucket_steps_def)
    qed
  qed
qed

lemma bucket_listed_eq: "\<forall>x \<in> set bs. x \<noteq> None \<Longrightarrow> bucket_listed b bs = ret (Some b \<in> set bs)"
  by (induction bs) auto

text \<open>
  C10. A bucket is ready only when it is safe: when the provider reports success, public access was blocked and
  encryption switched on for exactly this bucket and both were accepted, as the last requests. A bucket is created only
  when no listed bucket has its name and the resource is not annotated with an earlier one, before its
  settings are made; nothing is ever deleted. This holds whatever AWS and the API server answer.
\<close>

theorem s3_ready_is_secured:
  assumes list: "getS3buckets c s = (Val buckets, s1)" and named: "\<forall>x \<in> set buckets. x \<noteq> None"
    and run: "reconcileBucketCreate p c bs bucket s = (Val ((msg, err), bs'), t)"
  shows "\<exists>es. trace t = trace s @ es \<and>
    bucket_steps (Some bucket \<in> set buckets) (annotations_Has (cr_meta bs) ResourceIdentifierAnnotation) bucket (err = None) (filter cloud_event es)"
proof -
  let ?found = "Some bucket \<in> set buckets" and ?ann = "annotations_Has (cr_meta bs) ResourceIdentifierAnnotation"
  let ?rest = "andThen (bucket_create p c bs bucket ?found) (\<lambda>(answer, bs'). andThen (exposeBlobStorageMetrics p bs') (\<lambda>_. ret (answer, bs')))"
  have run1: "?rest s1 = (Val ((msg, err), bs'), t)"
    using run list by (simp add: reconcileBucketCreate_def otherwise_apply bucket_listed_eq [OF named])
  have gauges: "emits (andThen (exposeBlobStorageMetrics p b1) (\<lambda>_. ret (answer, b1))) (\<lambda>fs r. replies (bucket_steps ?found ?ann bucket) (es @ fs) r)"
    if "replies (bucket_steps ?found ?ann bucket) es (Val (answer, b1))" for es answer b1
  proof (rule emits_andThen [OF only_blob_metrics [unfolded only_def]])
    fix fs :: "cloud_req event list" and x :: unit
    assume "\<forall>e \<in> set fs. metric_event e"
    then have "filter cloud_event fs = []" using metric_no_cloud by (auto simp: filter_empty_conv)
    then show "emits (ret (answer, b1)) (\<lambda>gs r. replies (bucket_steps ?found ?ann bucket) (es @ fs @ gs) r)"
      using that by (cases answer) (auto intro!: emits_ret)
  qed simp_all
  have all: "emits ?rest (replies (bucket_steps ?found ?ann bucket))"
    by (rule emits_andThen [OF emits_bucket_create]) (auto intro!: gauges split: prod.split)
  obtain es where "trace t = trace s1 @ es" "replies (bucket_steps ?found ?ann bucket) es (Val ((msg, err), bs'))"
    using emitsD [OF all run1] by blast
  then show ?thesis using quietD [OF quiet_s3_reads(1) list] by auto
qed

section \<open>Deletion\<close>

text \<open>What a released resource leaves in the trace, apart from gauges.\<close>

definition released_blob :: "cr \<Rightarrow> string \<Rightarrow> cloud_req event list \<Rightarrow> bool" where
  "released_blob bs b es \<longleftrightarrow> (\<exists>x om. es = [EvDeleteCredentialsRequest (buildEndUserCredentialsNameFromBucket b, om_Namespace (cr_meta bs)) x, EvUpdate BlobStorage (bs\<lparr>cr_meta := om\<rparr>) True] \<and>
     RemoveFinalizer (cr_meta bs) DefaultFinalizer = Some om)"

lemma emits_release_blob:
  "emits (removeCredsAndFinalizer p bs b) (\<lambda>es r. (\<forall>e \<in> set es. \<not> cloud_event e) \<and> (\<forall>bs'. r = Val (None, bs') \<longrightarrow> released_blob bs b (filter (\<lambda>e. \<not> metric_event e) es)))"
proof -
  let ?del = "\<lambda>x. EvDeleteCredentialsRequest (buildEndUserCredentialsNameFromBucket b, om_Namespace (cr_meta bs)) x"
  let ?S = "\<lambda>es r. (\<forall>e \<in> set es. \<not> cloud_event e) \<and> (\<forall>bs'. r = Val (None, bs') \<longrightarrow> released_blob bs b (filter (\<lambda>e. \<not> metric_event e) es))"
  have gauges: "emits (andThen (exposeBlobStorageMetrics p stored) (\<lambda>_. ret (None, stored))) (\<lambda>fs r. ?S ([?del x, EvUpdate BlobStorage (bs\<lparr>cr_meta := om\<rparr>) True] @ fs) r)"
    if "RemoveFinalizer (cr_meta bs) DefaultFinalizer = Some om" for x om stored
  proof (rule emits_andThen [OF only_blob_metrics [unfolded only_def]])
    fix fs :: "cloud_req event list" and u :: unit
    assume fs: "\<forall>e \<in> set fs. metric_event e"
    then have "filter (\<lambda>e. \<not> metric_event e) fs = []" by (simp add: filter_empty_conv)
    then show "emits (ret (None, stored)) (\<lambda>gs r. ?S ([?del x, EvUpdate BlobStorage (bs\<lparr>cr_meta := om\<rparr>) True] @ fs @ gs) r)"
      using fs metric_no_cloud that by (intro emits_ret) (auto simp: released_blob_def)
  qed (use metric_no_cloud in auto)
  have update: "emits (otherwise (update_cr (ap_Client p) BlobStorage (bs\<lparr>cr_meta := om\<rparr>)) (\<lambda>e. (Some (ErrWrap e m), bs\<lparr>cr_meta := om\<rparr>)) (\<lambda>stored.
      andThen (exposeBlobStorageMetrics p stored) (\<lambda>_. ret (None, stored)))) (\<lambda>fs r. ?S (?del x # fs) r)"
    if "RemoveFinalizer (cr_meta bs) DefaultFinalizer = Some om" for x om m
    unfolding update_cr_def
    by (rule emits_otherwise [OF emits_request]) (auto intro!: gauges [OF that, simplified])
  show ?thesis
    unfolding removeCredsAndFinalizer_def Let_def
    by (rule emits_andThen [OF emits_attempt [OF emits_request, where S = "\<lambda>es r. (\<exists>x. es = [?del x]) \<and> (\<exists>y. r = Val y)"]])
       (auto intro!: emits_option emits_ret emits_andThen [OF emits_deref [where R = "\<lambda>es r. es = [] \<and> (\<forall>om. r = Val om \<longrightarrow> RemoveFinalizer (cr_meta bs) DefaultFinalizer = Some om)"]] update [simplified])
qed

text \<open>
  A deletion: first requests that delete the objects or the bucket itself, if it is to be deleted, then the
  release of the resource; a successful one has asked to delete the bucket and released the resource.
\<close>

definition bucket_deletion :: "string \<Rightarrow> cloud_req event \<Rightarrow> bool" where
  "bucket_deletion b e \<longleftrightarrow> (\<exists>x. e = EvCloud (ReqDeleteObjects b) x \<or> e = EvCloud (ReqDeleteBucket (Some b)) x)"

definition deletion_steps :: "cr \<Rightarrow> string \<Rightarrow> bool \<Rightarrow> bool \<Rightarrow> cloud_req event list \<Rightarrow> bool" where
  "deletion_steps bs b delete done es \<longleftrightarrow> (\<exists>cl rest. es = cl @ rest \<and> (\<forall>e \<in> set cl. delete \<and> bucket_deletion b e) \<and> (\<forall>e \<in> set rest. \<not> cloud_event e) \<and>
     (done \<longrightarrow> released_blob bs b (filter (\<lambda>e. \<not> metric_event e) rest) \<and> (delete \<longrightarrow> (\<exists>cl' x. cl = cl' @ [EvCloud (ReqDeleteBucket (Some b)) x]))))"

definition delete_replies :: "cr \<Rightarrow> string \<Rightarrow> bool \<Rightarrow> cloud_req event list \<Rightarrow> delete_reply res \<Rightarrow> bool" where
  "delete_replies bs b delete es r \<longleftrightarrow> (\<forall>msg err inst. r = Val ((msg, err), inst) \<longrightarrow> deletion_steps bs b delete (err = None) es)"

lemma delete_replies_simps [simp]: "delete_replies bs b d es (Fail e)" "delete_replies bs b d es (Abort a)"
    "delete_replies bs b d es (Val ((msg, err), inst)) = deletion_steps bs b d (err = None) es"
    "delete_replies bs b d es (Val (delete_failed inst msg e)) = deletion_steps bs b d False es"
  by (auto simp: delete_replies_def delete_failed_def)

lemma deletion_unfinished: "\<forall>e \<in> set cl. d \<and> bucket_deletion b e \<Longrightarrow> deletion_steps bs b d False cl"
  unfolding deletion_steps_def by (intro exI [of _ cl] exI [of _ "[]"]) simp

lemma emits_emptyBucket: "emits (emptyBucket c b) (\<lambda>es r. \<forall>e \<in> set es. bucket_deletion b e)"
  unfolding emptyBucket_def
  by (rule emits_andThen_quiet) (auto intro!: quiet_rules emits_if emits_ret emits_weaken [OF emits_wrapped_exec] simp: bucket_deletion_def)

lemma emits_deleteBucket: "emits (deleteBucket c b) (\<lambda>es r. \<exists>x. es = [EvCloud (ReqDeleteBucket (Some b)) x])"
  unfolding deleteBucket_def
  by (rule emits_andThen [OF emits_attempt [OF emits_exec, where S = "\<lambda>es r. \<exists>x. es = [EvCloud (ReqDeleteBucket (Some b)) x]"]])
     (auto intro!: emits_sum emits_if emits_ret emits_throw)

lemma emits_final_release:
  assumes "\<forall>e \<in> set cl. d \<and> bucket_deletion b e" and "d \<longrightarrow> (\<exists>cl' x. cl = cl' @ [EvCloud (ReqDeleteBucket (Some b)) x])"
  shows "emits (andThen (removeCredsAndFinalizer p bs b) (\<lambda>(err, bs'). case err of
      Some e \<Rightarrow> ret (delete_failed bs' m e) | None \<Rightarrow> ret (('''', None), bs'))) (\<lambda>fs r. delete_replies bs b d (cl @ fs) r)"
proof (rule emits_andThen [OF emits_release_blob])
  fix es and x :: "error option \<times> cr"
  assume es: "(\<forall>e \<in> set es. \<not> cloud_event e) \<and> (\<forall>bs'. Val x = Val (None, bs') \<longrightarrow> released_blob bs b (filter (\<lambda>e. \<not> metric_event e) es))"
  have "deletion_steps bs b d (fst x = None) (cl @ es)"
    unfolding deletion_steps_def by (intro exI [of _ cl] exI [of _ es]) (use assms es in \<open>cases x; auto\<close>)
  then show "emits (case x of (err, bs') \<Rightarrow> case err of Some e \<Rightarrow> ret (delete_failed bs' m e) | None \<Rightarrow> ret (('''', None), bs'))
      (\<lambda>fs r. delete_replies bs b d (cl @ es @ fs) r)"
    by (cases x) (auto intro!: emits_ret split: option.split)
qed simp_all

text \<open>
  A bucket with objects is never deleted unless this is forced: when it is listed with a number of objects
  that is not zero and the strategy does not force the deletion, no request is made to S3 at all and the resource is
  released (credentials request, then finalizer) while the bucket stays. Otherwise only this bucket and its
  objects are deleted, before the resource is released; a success means that the deletion was requested and the
  finalizer removed.
\<close>

theorem s3_deletion_steps:
  assumes list: "getS3buckets c s = (Val buckets, s1)" and named: "\<forall>x \<in> set buckets. x \<noteq> None" and listed: "Some b \<in> set buckets"
    and content: "getBucketSize c b s1 = (Val n, s2)"
    and run: "reconcileBucketDelete p c bs b force s = (Val ((msg, err), bs'), t)"
  shows "\<exists>es. trace t = trace s @ es \<and> deletion_steps bs b (force \<or> n = 0) (err = None) es"
proof -
  let ?d = "force \<or> n = 0"
  let ?release = "andThen (removeCredsAndFinalizer p bs b) (\<lambda>(err, bs'). case err of
      Some e \<Rightarrow> ret (delete_failed bs' (''unable to remove credential secrets and finalizer for '' @ b) e) | None \<Rightarrow> ret (('''', None), bs'))"
  let ?rest = "otherwise (if ?d then emptyBucket c b else ret ()) (delete_failed bs (''unable to empty bucket : '' @ quoted b)) (\<lambda>_.
     otherwise (if ?d then deleteBucket c b else ret ()) (delete_failed bs (''unable to delete bucket : '' @ b)) (\<lambda>_. ?release))"
  have run2: "?rest s2 = (Val ((msg, err), bs'), t)"
    using run list listed content by (simp add: reconcileBucketDelete_def delete_and_release_def otherwise_apply bucket_listed_eq [OF named])
  have empty: "emits (if ?d then emptyBucket c b else ret ()) (\<lambda>es r. \<forall>e \<in> set es. ?d \<and> bucket_deletion b e)"
    by (auto intro: emits_ret emits_weaken [OF emits_emptyBucket])
  have delete: "emits (if ?d then deleteBucket c b else ret ()) (\<lambda>es r. if ?d then \<exists>x. es = [EvCloud (ReqDeleteBucket (Some b)) x] else es = [])"
    by (auto intro: emits_ret emits_weaken [OF emits_deleteBucket])
  have last: "emits (otherwise (if ?d then deleteBucket c b else ret ()) (delete_failed bs m) (\<lambda>_. ?release)) (\<lambda>fs r. delete_replies bs b ?d (cl @ fs) r)"
    if cl: "\<forall>e \<in> set cl. ?d \<and> bucket_deletion b e" for cl m
  proof (rule emits_otherwise [OF delete])
    fix es x assume es: "if ?d then \<exists>x. es = [EvCloud (ReqDeleteBucket (Some b)) x] else es = []"
    have del: "bucket_deletion b (EvCloud (ReqDeleteBucket (Some b)) y)" for y by (simp add: bucket_deletion_def)
    have all: "\<forall>e \<in> set (cl @ es). ?d \<and> bucket_deletion b e"
    proof (cases ?d)
      case True
      then obtain y where "es = [EvCloud (ReqDeleteBucket (Some b)) y]" using es by (simp only: if_True) blast
      then show ?thesis using cl del True by simp
    qed (use es cl in simp)
    have ended: "?d \<longrightarrow> (\<exists>cl' x. cl @ es = cl' @ [EvCloud (ReqDeleteBucket (Some b)) x])" using es by fastforce
    show "emits ?release (\<lambda>fs r. delete_replies bs b ?d (cl @ es @ fs) r)"
      using emits_final_release [OF all ended] by simp
    show "delete_replies bs b ?d (cl @ es) (Val (delete_failed bs m e))" for e using deletion_unfinished [OF all] by simp
  qed simp
  have "emits ?rest (delete_replies bs b ?d)"
    by (rule emits_otherwise [OF empty], erule last, simp only: delete_replies_simps, erule deletion_unfinished, simp)
  then have "\<exists>es. trace t = trace s2 @ es \<and> delete_replies bs b ?d es (Val ((msg, err), bs'))" using run2 by (rule emitsD)
  moreover have "trace s2 = trace s" using quietD [OF quiet_s3_reads(1) list] quietD [OF quiet_s3_reads(3) content] by simp
  ultimately show ?thesis by auto
qed

text \<open>
  A bucket that is gone already is reported as an error: the resource is released first, and the deletion goes
  on to list the objects of the missing bucket, so the reply is the error of that call although the finalizer
  has been removed.
\<close>

theorem s3_missing_bucket_error:
  assumes list: "getS3buckets c s = (Val buckets, s1)" and named: "\<forall>x \<in> set buckets. x \<noteq> None" and gone: "Some b \<notin> set buckets"
    and release: "removeCredsAndFinalizer p bs b s1 = (Val (None, bs'), s2)"
    and missing: "s3_ListObjectsV2 c b (world s2) = (Inl e, w)"
  shows "\<exists>t err. reconcileBucketDelete p c bs b force s = (Val ((''unable to get bucket size : '' @ b, Some err), bs'), t) \<and>
    (\<exists>es. trace t = trace s @ es \<and> released_blob bs b (filter (\<lambda>e. \<not> metric_event e) es))"
proof -
  have emitted: "\<exists>es. trace s2 = trace s1 @ es \<and> released_blob bs b (filter (\<lambda>e. \<not> metric_event e) es)"
    using emitsD [OF emits_release_blob release] by auto
  have "reconcileBucketDelete p c bs b force s = delete_and_release p c bs' b force s2"
    using list gone release by (simp add: reconcileBucketDelete_def otherwise_apply bucket_listed_eq [OF named] op_simps)
  also have "\<dots> = (Val (delete_failed bs' (''unable to get bucket size : '' @ b) (ErrWrap e (''unable to list items in bucket '' @ quoted b))), s2\<lparr>world := w\<rparr>)"
    using missing by (simp add: delete_and_release_def getBucketSize_def otherwise_apply wrapping_def query_def)
  finally show ?thesis using emitted quietD [OF quiet_s3_reads(1) list] by (auto simp: delete_failed_def)
qed

end
