(* ===== verification/AWS_Redis.thy ===== *)
theory AWS_Redis
  imports AWS_RDS
begin

text \<open>
  The Redis provider for AWS ElastiCache (\<^verbatim>\<open>pkg/providers/aws/provider_redis.go\<close>), operation by operation.
  \<^verbatim>\<open>defer\<close>red metric calls run after the body; a panic of the body ends the operation. An empty list that a
  service returns is nil.
\<close>

section \<open>Defaults and the configuration\<close>

definition redisProviderName :: string where "redisProviderName = ''aws-elasticache''"

definition healthyAWSReplicationGroupStatuses :: "string list" where
  "healthyAWSReplicationGroupStatuses = [''creating'', ''available'', ''modifying'', ''deleting'', ''snapshotting'']"

text \<open>The size of the resource replaces the node type of the strategy.\<close>

definition with_size :: "string \<Rightarrow> createReplicationGroupInput \<Rightarrow> createReplicationGroupInput" where
  "with_size sz cfg = (if sz \<noteq> '''' then cfg\<lparr>crg_CacheNodeType := Some sz\<rparr> else cfg)"

definition getElasticacheConfig ::
  "'w awsProvider \<Rightarrow> cr \<Rightarrow> ('w, createReplicationGroupInput \<times> deleteReplicationGroupInput \<times> string list \<times> strategyConfig) aop" where
  "getElasticacheConfig p r =
     andThen (read_strategy p ''redis'' r) (\<lambda>stratCfg.
     andThen (wrapping ''failed to unmarshal aws elasticache cluster configuration'' (lift_sum (dec_CreateReplicationGroup (ap_Decoders p) (sc_CreateStrategy stratCfg)))) (\<lambda>createConfig.
     andThen (wrapping ''failed to unmarshal aws elasticache cluster configuration'' (lift_sum (dec_DeleteReplicationGroup (ap_Decoders p) (sc_DeleteStrategy stratCfg)))) (\<lambda>deleteConfig.
     andThen (decode_updates ''failed to unmarshal aws elasticache cluster configuration (serviceUpdates field)'' stratCfg) (\<lambda>updates.
       ret (with_size (spec_Size (cr_spec r)) createConfig, deleteConfig, updates, stratCfg)))))"

text \<open>The part of \<^verbatim>\<open>buildElasticacheCreateStrategy\<close> before the first name is built.\<close>

definition fill_cache_defaults :: "createReplicationGroupInput \<Rightarrow> createReplicationGroupInput" where
  "fill_cache_defaults c = c\<lparr>
     crg_AutomaticFailoverEnabled := Some True,
     crg_Engine := Some ''redis'',
     crg_CacheNodeType := or_default (crg_CacheNodeType c) ''cache.t3.micro'',
     crg_ReplicationGroupDescription := or_default (crg_ReplicationGroupDescription c) ''A Redis replication group'',
     crg_EngineVersion := or_default (crg_EngineVersion c) ''7.1'',
     crg_NumCacheClusters := or_default (crg_NumCacheClusters c) 2,
     crg_SnapshotRetentionLimit := or_default (crg_SnapshotRetentionLimit c) 31,
     crg_AtRestEncryptionEnabled := or_default (crg_AtRestEncryptionEnabled c) True,
     crg_TransitEncryptionEnabled := or_default (crg_TransitEncryptionEnabled c) False\<rparr>"

definition buildElasticacheCreateStrategy :: "'w awsProvider \<Rightarrow> 'w cloud \<Rightarrow> cr \<Rightarrow> createReplicationGroupInput \<Rightarrow> ('w, createReplicationGroupInput) aop" where
  "buildElasticacheCreateStrategy p c r cfg0 =
     (let k = ap_Client p; cfg1 = fill_cache_defaults cfg0 in
      andThen (wrapping ''failed to retrieve elasticache config'' (BuildInfraNameFromObject k (cr_meta r) defaultAwsIdentifierLength)) (\<lambda>cacheName.
      let cfg2 = cfg1\<lparr>crg_ReplicationGroupId := or_default (crg_ReplicationGroupId cfg1) cacheName\<rparr> in
      andThen (wrapping ''failed to build subnet group name'' (BuildInfraName k defaultSubnetPostfix defaultAwsIdentifierLength)) (\<lambda>subGroup.
      let cfg3 = cfg2\<lparr>crg_CacheSubnetGroupName := or_default (crg_CacheSubnetGroupName cfg2) subGroup\<rparr> in
      andThen (wrapping ''error building subnet group name'' (BuildInfraName k defaultSecurityGroupPostfix defaultAwsIdentifierLength)) (\<lambda>secName.
      andThen (wrapping '''' (getSecurityGroup (cl_Aws c) secName)) (\<lambda>foundSecGroup. case foundSecGroup of
          Some g \<Rightarrow> if crg_SecurityGroupIds cfg3 = None
                     then andThen (deref (sg_GroupId g)) (\<lambda>i. ret (cfg3\<lparr>crg_SecurityGroupIds := Some [Some i]\<rparr>)) else ret cfg3
        | None \<Rightarrow> ret cfg3)))))"

text \<open>
  The identifier of the delete strategy is completed from the create strategy, which is completed on the way;
  both are changed through their pointers and returned.
\<close>

definition buildElasticacheDeleteConfig ::
  "'w awsProvider \<Rightarrow> cr \<Rightarrow> createReplicationGroupInput \<Rightarrow> deleteReplicationGroupInput \<Rightarrow> ('w, createReplicationGroupInput \<times> deleteReplicationGroupInput) aop" where
  "buildElasticacheDeleteConfig p r createConfig deleteConfig =
     andThen (wrapping ''failed to retrieve elasticache config'' (BuildInfraNameFromObject (ap_Client p) (cr_meta r) defaultAwsIdentifierLength)) (\<lambda>cacheName.
     let c1 = (if drg_ReplicationGroupId deleteConfig = None
               then createConfig\<lparr>crg_ReplicationGroupId := or_default (crg_ReplicationGroupId createConfig) cacheName\<rparr> else createConfig);
         d1 = (if drg_ReplicationGroupId deleteConfig = None
               then deleteConfig\<lparr>drg_ReplicationGroupId := crg_ReplicationGroupId c1\<rparr> else deleteConfig);
         d2 = d1\<lparr>drg_RetainPrimaryCluster := or_default (drg_RetainPrimaryCluster d1) False\<rparr>
     in andThen (wrapping ''failed to retrieve rds config'' (timestamped_name p r)) (\<lambda>snapshotIdentifier.
          ret (c1, d2\<lparr>drg_FinalSnapshotIdentifier := or_default (drg_FinalSnapshotIdentifier d2) snapshotIdentifier\<rparr>)))"

section \<open>What has to change on an existing group\<close>

text \<open>\<^verbatim>\<open>strings.Replace(s, pat, "", 1)\<close>: the first occurrence is cut out.\<close>

fun remove_first :: "string \<Rightarrow> string \<Rightarrow> string" where
  "remove_first pat [] = []"
| "remove_first pat (x # xs) = (if take (length pat) (x # xs) = pat then drop (length pat) (x # xs) else x # remove_first pat xs)"

definition no_group_modification :: "string option \<Rightarrow> modifyReplicationGroupInput" where
  "no_group_modification i = \<lparr>mrg_ReplicationGroupId = i, mrg_CacheNodeType = None, mrg_ApplyImmediately = None, mrg_SnapshotRetentionLimit = None,
     mrg_EngineVersion = None, mrg_PreferredMaintenanceWindow = None, mrg_SnapshotWindow = None\<rparr>"

text \<open>A node type is changed only when it is offered in every zone the clusters are in.\<close>

definition node_type_change ::
  "'w cloud \<Rightarrow> createReplicationGroupInput \<Rightarrow> replicationGroup \<Rightarrow> cacheCluster list \<Rightarrow> cr \<Rightarrow> modifyReplicationGroupInput \<Rightarrow> ('w, modifyReplicationGroupInput) aop" where
  "node_type_change c cfg found clusters r mi = (case (rg_CacheNodeType found, crg_CacheNodeType cfg) of
     (Some current, Some wanted) \<Rightarrow>
       if wanted = current then ret mi
       else andThen (wrapping (''failed to get instance type offerings for type '' @ current) (query (ec2_InstanceTypeLocations c (remove_first ''cache.'' wanted)))) (\<lambda>offerings.
         let supported = map StringValue offerings;
             used = map (\<lambda>cl. StringValue (cc_PreferredAvailabilityZone cl)) clusters
         in ret (if list_all (Contains supported) used
                 then mi\<lparr>mrg_CacheNodeType := Some wanted, mrg_ApplyImmediately := Some (spec_ApplyImmediately (cr_spec r))\<rparr> else mi))
   | _ \<Rightarrow> ret mi)"

definition retention_change :: "createReplicationGroupInput \<Rightarrow> replicationGroup \<Rightarrow> modifyReplicationGroupInput \<Rightarrow> ('s, modifyReplicationGroupInput) op" where
  "retention_change cfg found mi = (case rg_SnapshotRetentionLimit found of
     None \<Rightarrow> ret mi
   | Some current \<Rightarrow> andThen (deref (crg_SnapshotRetentionLimit cfg)) (\<lambda>wanted.
       ret (if wanted \<noteq> current then mi\<lparr>mrg_SnapshotRetentionLimit := Some wanted\<rparr> else mi)))"

text \<open>One round of the loop over the cache clusters of the group.\<close>

definition cluster_changes ::
  "'w awsProvider \<Rightarrow> createReplicationGroupInput \<Rightarrow> modifyReplicationGroupInput \<Rightarrow> cacheCluster \<Rightarrow> ('s, modifyReplicationGroupInput) op" where
  "cluster_changes p cfg mi cl =
     andThen (case crg_EngineVersion cfg of None \<Rightarrow> ret mi
       | Some desired \<Rightarrow> andThen (deref (cc_EngineVersion cl)) (\<lambda>current.
           andThen (wrapping ''invalid redis version'' (lift_sum (VerifyVersionUpgradeNeeded p current desired))) (\<lambda>needed.
             ret (if needed then mi\<lparr>mrg_ApplyImmediately := Some True, mrg_EngineVersion := Some desired\<rparr> else mi)))) (\<lambda>mi1.
     andThen (optional_change (crg_PreferredMaintenanceWindow cfg) (cc_PreferredMaintenanceWindow cl)) (\<lambda>maintenance.
     let mi2 = (if maintenance \<noteq> None then mi1\<lparr>mrg_PreferredMaintenanceWindow := maintenance\<rparr> else mi1) in
     andThen (optional_change (crg_SnapshotWindow cfg) (cc_SnapshotWindow cl)) (\<lambda>snapshot.
       ret (if snapshot \<noteq> None then mi2\<lparr>mrg_SnapshotWindow := snapshot\<rparr> else mi2))))"

text \<open>\<open>updateFound\<close> is set wherever a field is: it holds when the input is not the empty one.\<close>

definition buildElasticacheUpdateStrategy ::
  "'w awsProvider \<Rightarrow> 'w cloud \<Rightarrow> createReplicationGroupInput \<Rightarrow> replicationGroup \<Rightarrow> cacheCluster list \<Rightarrow> cr \<Rightarrow> ('w, modifyReplicationGroupInput option) aop" where
  "buildElasticacheUpdateStrategy p c cfg found clusters r =
     (let mi0 = no_group_modification (rg_ReplicationGroupId found) in
      andThen (node_type_change c cfg found clusters r mi0) (\<lambda>mi1.
      andThen (retention_change cfg found mi1) (\<lambda>mi2.
      andThen (for_fold (cluster_changes p cfg) mi2 clusters) (\<lambda>mi.
        ret (if mi \<noteq> mi0 then Some mi else None)))))"

section \<open>Finding groups\<close>

definition getReplicationGroups :: "'w cloud \<Rightarrow> ('w, replicationGroup list) aop" where
  "getReplicationGroups c = poll (andThen (attempt (query (cache_DescribeReplicationGroups c None))) (\<lambda>r. ret (case r of Inl _ \<Rightarrow> None | Inr gs \<Rightarrow> Some gs)))
     (aws_polls (cl_Aws c))"

fun first_replication_group :: "string \<Rightarrow> replicationGroup list \<Rightarrow> ('s, replicationGroup option) op" where
  "first_replication_group n [] = ret None"
| "first_replication_group n (g # gs) = andThen (deref (rg_ReplicationGroupId g)) (\<lambda>m. if m = n then ret (Some g) else first_replication_group n gs)"

text \<open>The identifier of the configuration is read in the loop, so it is not read for an empty list.\<close>

definition found_group :: "replicationGroup list \<Rightarrow> string option \<Rightarrow> ('s, replicationGroup option) op" where
  "found_group rgs ident = (if rgs = [] then ret None else andThen (deref ident) (\<lambda>n. first_replication_group n rgs))"

section \<open>Metrics\<close>

definition replicationGroupStatusIsHealthy :: "replicationGroup \<Rightarrow> ('s, bool) op" where
  "replicationGroupStatusIsHealthy g = andThen (deref (rg_Status g)) (\<lambda>st. ret (Contains healthyAWSReplicationGroupStatuses st))"

definition buildCacheName :: "'w awsProvider \<Rightarrow> cr \<Rightarrow> ('w, string) aop" where
  "buildCacheName p r = buildInstanceName p ''error occurred building cache name: '' r"

text \<open>An error of the name is logged and the name is empty.\<close>

definition cache_name_or_empty :: "'w awsProvider \<Rightarrow> cr \<Rightarrow> ('w, string) aop" where
  "cache_name_or_empty p r = andThen (attempt (buildCacheName p r)) (\<lambda>x. ret (case x of Inl _ \<Rightarrow> '''' | Inr n \<Rightarrow> n))"

definition exposeRedisMetrics :: "'w awsProvider \<Rightarrow> cr \<Rightarrow> replicationGroup option \<Rightarrow> ('w, unit) aop" where
  "exposeRedisMetrics p r found =
     andThen (cache_name_or_empty p r) (\<lambda>cacheName.
     otherwise (GetClusterID (ap_Client p)) (\<lambda>_. ()) (\<lambda>clusterID.
     let status = (case found of None \<Rightarrow> '''' | Some g \<Rightarrow> SafeStringDereference (rg_Status g)); om = cr_meta r
     in andThen (SetMetricCurrentTime (ap_Now p) ''cro_redis_info'' (BuildInfoMetricLabels om status clusterID cacheName redisProviderName)) (\<lambda>_.
        andThen (expose_phases ''cro_redis_status_phase'' (BuildStatusMetricsLabels om clusterID cacheName redisProviderName) (st_Phase (cr_status r))) (\<lambda>_.
        andThen (case found of None \<Rightarrow> ret False | Some g \<Rightarrow> replicationGroupStatusIsHealthy g) (\<lambda>healthy.
          set_metric ''cro_redis_available'' (BuildGenericMetricLabels om clusterID cacheName redisProviderName) (if healthy then 1 else 0))))))"

definition setRedisDeletionTimestampMetric :: "'w awsProvider \<Rightarrow> cr \<Rightarrow> ('w, unit) aop" where
  "setRedisDeletionTimestampMetric p r = set_deletion_metric p ''cro_redis_deletion_timestamp'' redisProviderName r"

text \<open>\<^verbatim>\<open>SafeTimeDereference(t).Unix()\<close>: nil counts as the zero time.\<close>

definition unix_or_zero :: "int option \<Rightarrow> int" where
  "unix_or_zero t = (case t of None \<Rightarrow> zero_time | Some x \<Rightarrow> x)"

definition update_action_labels :: "string \<Rightarrow> updateAction \<Rightarrow> labels" where
  "update_action_labels clusterID ua =
     [''clusterID'' \<mapsto> clusterID,
      ''ReplicationGroupId'' \<mapsto> SafeStringDereference (ua_ReplicationGroupId ua),
      ''CacheClusterId'' \<mapsto> SafeStringDereference (ua_CacheClusterId ua),
      ''Engine'' \<mapsto> SafeStringDereference (ua_Engine ua),
      ''EstimatedUpdateTime'' \<mapsto> SafeStringDereference (ua_EstimatedUpdateTime ua),
      ''NodesUpdated'' \<mapsto> SafeStringDereference (ua_NodesUpdated ua),
      ''ServiceUpdateName'' \<mapsto> SafeStringDereference (ua_ServiceUpdateName ua),
      ''ServiceUpdateRecommendedApplyByDate'' \<mapsto> itoa (unix_or_zero (ua_ServiceUpdateRecommendedApplyByDate ua)),
      ''ServiceUpdateReleaseDate'' \<mapsto> itoa (unix_or_zero (ua_ServiceUpdateReleaseDate ua)),
      ''ServiceUpdateSeverity'' \<mapsto> SafeStringDereference (ua_ServiceUpdateSeverity ua),
      ''ServiceUpdateStatus'' \<mapsto> SafeStringDereference (ua_ServiceUpdateStatus ua),
      ''ServiceUpdateType'' \<mapsto> SafeStringDereference (ua_ServiceUpdateType ua),
      ''SlaMet'' \<mapsto> SafeStringDereference (ua_SlaMet ua),
      ''UpdateActionAvailableDate'' \<mapsto> itoa (unix_or_zero (ua_UpdateActionAvailableDate ua)),
      ''UpdateActionStatus'' \<mapsto> SafeStringDereference (ua_UpdateActionStatus ua),
      ''UpdateActionStatusModifiedDate'' \<mapsto> itoa (unix_or_zero (ua_UpdateActionStatusModifiedDate ua))]"

text \<open>The messages that are logged for an error dereference the identifier.\<close>

definition setRedisServiceMaintenanceMetric :: "'w awsProvider \<Rightarrow> 'w cloud \<Rightarrow> replicationGroup option \<Rightarrow> ('w, unit) aop" where
  "setRedisServiceMaintenanceMetric p c found = (case found of None \<Rightarrow> ret ()
   | Some g \<Rightarrow>
       (let logged = andThen (deref (rg_ReplicationGroupId g)) (\<lambda>_. ret ()) in
        andThen (attempt (GetClusterID (ap_Client p))) (\<lambda>r. case r of Inl _ \<Rightarrow> logged | Inr clusterID \<Rightarrow>
        andThen (attempt (query (cache_DescribeUpdateActions c (rg_ReplicationGroupId g) None))) (\<lambda>r. case r of Inl _ \<Rightarrow> logged | Inr actions \<Rightarrow>
          for_each (\<lambda>ua. set_metric ''cro_redis_service_maintenance'' (update_action_labels clusterID ua)
            (real_of_int (unix_or_zero (ua_ServiceUpdateRecommendedApplyByDate ua)))) actions))))"

definition createElasticacheConnectionMetric :: "'w awsProvider \<Rightarrow> cr \<Rightarrow> replicationGroup option \<Rightarrow> ('w, unit) aop" where
  "createElasticacheConnectionMetric p r found =
     andThen (cache_name_or_empty p r) (\<lambda>cacheName.
     andThen (attempt (GetClusterID (ap_Client p))) (\<lambda>x.
     let clusterID = (case x of Inl _ \<Rightarrow> '''' | Inr i \<Rightarrow> i);
         genericLabels = BuildGenericMetricLabels (cr_meta r) clusterID cacheName redisProviderName
     in case (case found of None \<Rightarrow> [] | Some g \<Rightarrow> rg_NodeGroups g) of
          [] \<Rightarrow> set_metric ''cro_redis_connection'' genericLabels 0
        | ng # _ \<Rightarrow>
            andThen (deref (ng_PrimaryEndpoint ng)) (\<lambda>ep.
            andThen (deref (ep_Address ep)) (\<lambda>host. andThen (deref (ep_Port ep)) (\<lambda>port.
            andThen (ask (ap_TCPConnection p host port)) (\<lambda>conn.
              set_metric ''cro_redis_connection'' genericLabels (if conn then 1 else 0)))))))"

section \<open>Service updates\<close>

definition validServiceUpdateStates :: "string \<Rightarrow> bool" where
  "validServiceUpdateStates status \<longleftrightarrow> status = ''not-applied'' \<or> status = ''stopping'' \<or> status = ''stopped'' \<or> status = ''scheduling''"

definition applyServiceUpdate :: "'w cloud \<Rightarrow> string option \<Rightarrow> string option \<Rightarrow> ('w, unit) aop" where
  "applyServiceUpdate c replicationgroupid update =
     andThen (create (cache_BatchApplyUpdateAction c replicationgroupid update) (ReqBatchApplyUpdateAction replicationgroupid update)) (\<lambda>unprocessed.
       if unprocessed > 0 then throw (ErrNew (''encountered unprocessedupdateaction while applying '' @ [CHR 0x27] @ SafeStringDereference update @ [CHR 0x27])) else ret ())"

text \<open>
  The inner loop over the updates of the strategy: an error ends it and is remembered. A critical security
  update is applied at once.
\<close>

fun apply_specified :: "'w cloud \<Rightarrow> replicationGroup \<Rightarrow> updateAction \<Rightarrow> string list \<Rightarrow> ('w, bool) aop" where
  "apply_specified c g ua [] = ret False"
| "apply_specified c g ua (sp # sps) =
     andThen (deref (ua_ServiceUpdateName ua)) (\<lambda>name.
     if sp \<noteq> name then apply_specified c g ua sps
     else andThen (deref (ua_ServiceUpdateStatus ua)) (\<lambda>status.
       if \<not> (status = ''available'' \<and> validServiceUpdateStates (SafeStringDereference (ua_UpdateActionStatus ua))) then apply_specified c g ua sps
       else andThen (deref (rg_ReplicationGroupId g)) (\<lambda>_.
         andThen (attempt (applyServiceUpdate c (rg_ReplicationGroupId g) (ua_ServiceUpdateName ua))) (\<lambda>x. case x of
           Inl _ \<Rightarrow> ret True
         | Inr _ \<Rightarrow>
             andThen (deref (ua_ServiceUpdateSeverity ua)) (\<lambda>severity.
             andThen (if severity = ''critical'' then andThen (deref (ua_ServiceUpdateType ua)) (\<lambda>type. ret (type = ''security-update'')) else ret False) (\<lambda>atOnce.
             if \<not> atOnce then apply_specified c g ua sps
             else andThen (attempt (exec (cl_Aws c) (ReqModifyReplicationGroup ((no_group_modification (rg_ReplicationGroupId g))\<lparr>mrg_ApplyImmediately := Some True\<rparr>)))) (\<lambda>y. case y of
               Inl _ \<Rightarrow> ret True
             | Inr _ \<Rightarrow> apply_specified c g ua sps)))))))"

definition applySpecifiedSecurityUpdates :: "'w cloud \<Rightarrow> replicationGroup \<Rightarrow> string list \<Rightarrow> ('w, unit) aop" where
  "applySpecifiedSecurityUpdates c g updates =
     andThen (query (cache_DescribeUpdateActions c (rg_ReplicationGroupId g) (Some ''available''))) (\<lambda>actions.
     andThen (for_fold (\<lambda>encountered ua. andThen (apply_specified c g ua updates) (\<lambda>b. ret (encountered \<or> b))) False actions) (\<lambda>encounteredError.
       if encounteredError then throw (ErrNew ''encountered an error - check the logs for error messages'') else ret ()))"

section \<open>Tags and the subnet group\<close>

definition getDefaultElasticacheTags :: "'w awsProvider \<Rightarrow> cr \<Rightarrow> ('w, awsTag list \<times> string) aop" where
  "getDefaultElasticacheTags p r =
     andThen (wrapping ''Failed to get default redis tags'' (GetDefaultResourceTags (ap_Client p) (spec_Type (cr_spec r)) (om_Name (cr_meta r))
         (map_get (om_Labels (cr_meta r)) ''productName''))) (\<lambda>(tags, clusterID). ret (genericListToElasticacheTagList tags, clusterID))"

definition buildRedisTagCreateStrategy :: "'w awsProvider \<Rightarrow> cr \<Rightarrow> createReplicationGroupInput \<Rightarrow> ('w, createReplicationGroupInput) aop" where
  "buildRedisTagCreateStrategy p r cfg =
     andThen (wrapping ''Failed to build default tags'' (getDefaultElasticacheTags p r)) (\<lambda>(redisTags, _).
       ret (cfg\<lparr>crg_Tags := redisTags @ addon_tag r\<rparr>))"

definition getMetricName :: "string \<Rightarrow> string" where
  "getMetricName redisName = ''cro_redis_snapshot_not_found'' @ ''_'' @ ToLower (map (\<lambda>x. if x = CHR ''-'' then CHR ''_'' else x) redisName)"

definition buildCacheSnapshotNotFoundLabels :: "string \<Rightarrow> string \<Rightarrow> string option \<Rightarrow> string option \<Rightarrow> string \<Rightarrow> labels" where
  "buildCacheSnapshotNotFoundLabels clusterID arn snapshotName cacheClusterID cacheArn =
     [''clusterID'' \<mapsto> clusterID, ''arn'' \<mapsto> arn, ''cacheClusterId'' \<mapsto> SafeStringDereference cacheClusterID,
      ''snapshotName'' \<mapsto> SafeStringDereference snapshotName, ''cacheArn'' \<mapsto> cacheArn]"

definition elasticache_arn :: "string \<Rightarrow> string \<Rightarrow> string \<Rightarrow> string \<Rightarrow> string" where
  "elasticache_arn region account what name = ''arn:aws:elasticache:'' @ region @ '':'' @ account @ '':'' @ what @ '':'' @ name"

text \<open>Tagging one snapshot: a snapshot that is not found is reported by a gauge and is not an error.\<close>

definition tag_cache_snapshot ::
  "'w cloud \<Rightarrow> string \<Rightarrow> awsTag list \<Rightarrow> (string \<Rightarrow> string) \<Rightarrow> (string \<Rightarrow> string \<Rightarrow> labels) \<Rightarrow> cacheSnapshot \<Rightarrow> ('w, unit) aop" where
  "tag_cache_snapshot c metricName tags arn_of labels_of sn =
     andThen (deref (cs_SnapshotName sn)) (\<lambda>name.
     andThen (attempt (exec (cl_Aws c) (ReqAddTagsToCacheResource (arn_of name) tags))) (\<lambda>x. case x of
       Inr _ \<Rightarrow> set_metric metricName (labels_of (arn_of name) name) 0
     | Inl e \<Rightarrow> if aws_code e = Some ''SnapshotNotFoundFault'' then set_metric metricName (labels_of (arn_of name) name) 1 else throw e))"

text \<open>
  Tag a node and its snapshots. \<^verbatim>\<open>Wrap\<close> of a nil error is nil, so a node that is not available is skipped
  without an error; the SDK returns an empty output beside an error of \<^verbatim>\<open>DescribeSnapshots\<close>.
\<close>

definition TagElasticacheNode :: "'w awsProvider \<Rightarrow> 'w cloud \<Rightarrow> cr \<Rightarrow> nodeGroupMember \<Rightarrow> ('w, string \<times> error option) aop" where
  "TagElasticacheNode p c r cache =
     (let fail = (\<lambda>msg e. (msg, Some (ErrWrap e msg))); plain = (\<lambda>msg e. (msg, Some e)) in
      otherwise (query (cache_DescribeCacheClusters c (ngm_CacheClusterId cache))) (fail ''failed to get cache cluster output'') (\<lambda>clusters. case clusters of
        [] \<Rightarrow> crash
      | cl # _ \<Rightarrow>
          andThen (deref (cc_CacheClusterStatus cl)) (\<lambda>clusterStatus.
          if clusterStatus \<noteq> ''available''
          then andThen (deref (ngm_CacheClusterId cache)) (\<lambda>i. ret (i @ '' status is '' @ clusterStatus @ '', skipping adding tags'', None))
          else otherwise (query (sts_GetCallerIdentity c)) (fail ''failed to get account identity'') (\<lambda>acct.
            andThen (deref (ngm_PreferredAvailabilityZone cache)) (\<lambda>zone.
            if zone = [] then crash
            else andThen (deref acct) (\<lambda>account.
              andThen (deref (ngm_CacheClusterId cache)) (\<lambda>nodeId.
              let region = butlast zone; arn = elasticache_arn region account ''cluster'' nodeId in
              otherwise (getDefaultElasticacheTags p r) (fail ''Failed to build default tags'') (\<lambda>(cacheTags, clusterID).
              otherwise (exec (cl_Aws c) (ReqAddTagsToCacheResource arn cacheTags)) (plain ''failed to add tags to aws elasticache :'') (\<lambda>_.
              andThen (attempt (query (cache_DescribeSnapshots c (Some nodeId) None))) (\<lambda>x.
              let snapshots = (case x of Inl _ \<Rightarrow> [] | Inr xs \<Rightarrow> xs); metricName = getMetricName (om_Name (cr_meta r)) in
              andThen (if snapshots = [] then ret () else reset_metric metricName) (\<lambda>_.
              otherwise (for_each (tag_cache_snapshot c metricName cacheTags (elasticache_arn region account ''snapshot'')
                  (\<lambda>snArn name. buildCacheSnapshotNotFoundLabels clusterID snArn (Some name) (Some nodeId) arn)) snapshots)
                (plain ''failed to add tags to aws elasticache snapshot'') (\<lambda>_. ret (''successfully created and tagged'', None)))))))))))))"

definition configureElasticacheVpc :: "'w awsProvider \<Rightarrow> 'w cloud \<Rightarrow> ('w, unit) aop" where
  "configureElasticacheVpc p c =
     (let k = ap_Client p; a = cl_Aws c in
      andThen (wrapping ''error building subnet group name'' (BuildInfraName k defaultSubnetPostfix defaultAwsIdentifierLength)) (\<lambda>sgName.
      andThen (wrapping ''error describing subnet groups'' (query (aws_DescribeCacheSubnetGroups a))) (\<lambda>groups.
      andThen (first_cache_group sgName groups) (\<lambda>foundSubnet. case foundSubnet of
        Some _ \<Rightarrow> ret ()
      | None \<Rightarrow>
          andThen (wrapping ''error getting vpc subnets'' (GetPrivateSubnetIDS k a)) (\<lambda>subIDs.
            wrapping ''unable to create cache subnet group''
              (exec a (ReqCreateCacheSubnetGroup ''Subnet group created by the cloud resource operator'' sgName subIDs [])))))))"

section \<open>Reconciling a replication group\<close>

fun tag_members :: "'w awsProvider \<Rightarrow> 'w cloud \<Rightarrow> cr \<Rightarrow> nodeGroupMember list \<Rightarrow> ('w, 'a create_reply option) aop" where
  "tag_members p c r [] = ret None"
| "tag_members p c r (m # ms) = andThen (TagElasticacheNode p c r m) (\<lambda>(msg, err). case err of
     Some e \<Rightarrow> ret (Some (failed r (''failed to add tags to elasticache: '' @ msg) e))
   | None \<Rightarrow> tag_members p c r ms)"

text \<open>Without STS the nodes of the first node group are tagged, once it is available.\<close>

definition tag_nodes :: "'w awsProvider \<Rightarrow> 'w cloud \<Rightarrow> cr \<Rightarrow> replicationGroup \<Rightarrow> ('w, 'a create_reply option) aop" where
  "tag_nodes p c r g = (case rg_NodeGroups g of
     [] \<Rightarrow> crash
   | ng # _ \<Rightarrow> andThen (deref (ng_Status ng)) (\<lambda>nodeStatus.
       if nodeStatus \<noteq> ''available''
       then andThen (deref (ng_NodeGroupId ng)) (\<lambda>_. andThen (deref (rg_Status g)) (\<lambda>status.
         ret (Some (in_progress r (''cache node status not available, current status:  '' @ status)))))
       else tag_members p c r (ng_NodeGroupMembers ng)))"

definition redis_connection :: "replicationGroup \<Rightarrow> ('s, redisDeploymentDetails) op" where
  "redis_connection g = (case rg_NodeGroups g of
     [] \<Rightarrow> crash
   | ng # _ \<Rightarrow> andThen (deref (ng_PrimaryEndpoint ng)) (\<lambda>ep.
       andThen (deref (ep_Address ep)) (\<lambda>host. andThen (deref (ep_Port ep)) (\<lambda>port. ret \<lparr>rdd_URI = host, rdd_Port = port\<rparr>))))"

text \<open>The end of the branch for an available group: service updates, tags, connection.\<close>

definition redis_available ::
  "'w awsProvider \<Rightarrow> 'w cloud \<Rightarrow> cr \<Rightarrow> replicationGroup \<Rightarrow> string list \<Rightarrow> ('w, redisDeploymentDetails create_reply) aop" where
  "redis_available p c r g updates =
     otherwise (if updates = [] then ret () else applySpecifiedSecurityUpdates c g updates) (failed r ''there was an error applying critical security updates'') (\<lambda>_.
     andThen (if isSTS p then ret None else tag_nodes p c r g) (\<lambda>stopped. case stopped of
       Some answer \<Rightarrow> ret answer
     | None \<Rightarrow>
         andThen (redis_connection g) (\<lambda>rdd.
         andThen (deref (rg_Status g)) (\<lambda>status.
           ret ((Some rdd, ''successfully created and tagged, aws elasticache status is '' @ status, None), r)))))"

text \<open>The version of the last cluster of the group that has one.\<close>

definition with_version :: "cr \<Rightarrow> cacheCluster \<Rightarrow> cr" where
  "with_version r cl = (case cc_EngineVersion cl of None \<Rightarrow> r
     | Some v \<Rightarrow> if st_Version (cr_status r) \<noteq> v then r\<lparr>cr_status := (cr_status r)\<lparr>st_Version := v\<rparr>\<rparr> else r)"

text \<open>The branch for a group that was found.\<close>

definition redis_found ::
  "'w awsProvider \<Rightarrow> 'w cloud \<Rightarrow> cr \<Rightarrow> createReplicationGroupInput \<Rightarrow> replicationGroup \<Rightarrow> string list \<Rightarrow> bool \<Rightarrow> ('w, redisDeploymentDetails create_reply) aop" where
  "redis_found p c r0 cfg g updates maintenanceWindow =
     andThen (deref (rg_ReplicationGroupId g)) (\<lambda>ident.
     otherwise (query (cache_DescribeCacheClusters c None)) (failed r0 ''failed to describe clusters'') (\<lambda>allClusters.
     let clusters = filter (\<lambda>cl. SafeStringDereference (cc_ReplicationGroupId cl) = ident) allClusters; r = foldl with_version r0 clusters in
     andThen (deref (rg_Status g)) (\<lambda>status.
     if status \<noteq> ''available'' then ret (in_progress r (''createReplicationGroup() in progress, current aws elasticache status is '' @ status))
     else if maintenanceWindow
     then otherwise (buildElasticacheUpdateStrategy p c cfg g clusters r) (failed r ''failed to build elasticache modify strategy'') (\<lambda>mi.
       otherwise (case mi of None \<Rightarrow> ret () | Some m \<Rightarrow> exec (cl_Aws c) (ReqModifyReplicationGroup m)) (failed r ''failed to modify elasticache cluster'') (\<lambda>_.
         redis_available p c r g updates))
     else redis_available p c r g updates)))"

text \<open>The branch without a group.\<close>

definition redis_create :: "'w awsProvider \<Rightarrow> 'w cloud \<Rightarrow> cr \<Rightarrow> createReplicationGroupInput \<Rightarrow> ('w, redisDeploymentDetails create_reply) aop" where
  "redis_create p c r cfg =
     (if annotations_Has (cr_meta r) ResourceIdentifierAnnotation
      then (let errMsg = annotation_error ''Redis'' ''Elasticache cluster'' r in ret (failed_plain r errMsg (ErrNew errMsg)))
      else otherwise (if isSTS p then buildRedisTagCreateStrategy p r cfg else ret cfg)
             (\<lambda>e. failed r ''failed to add tags to rds: Failed to build default tags'' e) (\<lambda>cfg'.
        otherwise (exec (cl_Aws c) (ReqCreateReplicationGroup cfg')) (\<lambda>e. failed r (''error creating elasticache cluster '' @ error_text e) e) (\<lambda>_.
        andThen (deref (crg_ReplicationGroupId cfg')) (\<lambda>groupId.
        otherwise (update_cr (ap_Client p) Redis (with_annotation groupId r)) (\<lambda>e. failed_plain (with_annotation groupId r) ''failed to add annotation'' e) (\<lambda>stored.
          ret (in_progress stored ''started elasticache provision''))))))"

definition redis_metrics :: "'w awsProvider \<Rightarrow> 'w cloud \<Rightarrow> cr \<Rightarrow> replicationGroup option \<Rightarrow> ('w, unit) aop" where
  "redis_metrics p c r found =
     andThen (createElasticacheConnectionMetric p r found) (\<lambda>_.
     andThen (exposeRedisMetrics p r found) (\<lambda>_.
       setRedisServiceMaintenanceMetric p c found))"

definition createElasticacheCluster ::
  "'w awsProvider \<Rightarrow> 'w cloud \<Rightarrow> cr \<Rightarrow> createReplicationGroupInput \<Rightarrow> string list \<Rightarrow> bool \<Rightarrow> bool \<Rightarrow> ('w, redisDeploymentDetails create_reply) aop" where
  "createElasticacheCluster p c r cfg0 updates standaloneNetworkExists maintenanceWindow =
     otherwise (getReplicationGroups c) (failed r ''error getting replication groups'') (\<lambda>rgs.
     otherwise (if standaloneNetworkExists then ret () else configureElasticacheVpc p c) (failed r ''error setting up resource vpc'') (\<lambda>_.
     otherwise (if standaloneNetworkExists then ret () else configureSecurityGroup (ap_Client p) (cl_Aws c)) (failed r ''error setting up security group'') (\<lambda>_.
     otherwise (buildElasticacheCreateStrategy p c r cfg0) (failed r ''failed to build and verify aws elasticache create strategy'') (\<lambda>cfg.
     andThen (found_group rgs (crg_ReplicationGroupId cfg)) (\<lambda>found.
     andThen (case found of Some g \<Rightarrow> redis_found p c r cfg g updates maintenanceWindow | None \<Rightarrow> redis_create p c r cfg) (\<lambda>(answer, r').
     andThen (redis_metrics p c r' found) (\<lambda>_. ret (answer, r'))))))))"

definition CreateRedis :: "'w awsProvider \<Rightarrow> cr \<Rightarrow> ('w, redisDeploymentDetails create_reply) aop" where
  "CreateRedis p r0 =
     (let k = ap_Client p in
      otherwise (CreateFinalizer k Redis r0 DefaultFinalizer) (\<lambda>e. failed_plain (with_finalizer r0) ''failed to set finalizer'' e) (\<lambda>r.
      otherwise (getElasticacheConfig p r) (failed r (''failed to retrieve aws elasticache cluster config '' @ om_Name (cr_meta r))) (\<lambda>(cfg, _, serviceUpdates, stratCfg).
      otherwise (ReconcileProviderCredentials k (ap_Codec p) (ap_CredentialManager p) (om_Namespace (cr_meta r))) (failed r ''failed to reconcile elasticache credentials'') (\<lambda>creds.
      otherwise (CreateSessionFromStrategy k (ap_Files p) (ap_Must p) creds stratCfg) (failed r ''failed to create aws session to create elasticache replication group'') (\<lambda>sess.
      otherwise (VerifyMaintenanceWindow k Redis (om_Namespace (cr_meta r)) (om_Name (cr_meta r))) (failed r ''failed to verify if redis updates are allowed'') (\<lambda>maintenanceWindow.
      let c = ap_Services p sess in
      andThen (isSTSCluster k (ap_Files p)) (\<lambda>sts. let n = network_of p c sts in
      otherwise (IsEnabled n) (failed r ''failed to check cluster vpc subnets'') (\<lambda>isEnabled.
      andThen (if isEnabled then reconcile_network p n ''failed to get _network strategy config'' r else ret None) (\<lambda>stopped. case stopped of
        Some answer \<Rightarrow> ret answer
      | None \<Rightarrow>
          andThen (createElasticacheCluster p c r cfg serviceUpdates isEnabled maintenanceWindow) (\<lambda>((rdd, msg, err), r'). case err of
            Some e \<Rightarrow> ret ((None, msg, Some (ErrWrap e ''failed to reconcile redis instance'')), r')
          | None \<Rightarrow> (case rdd of
              None \<Rightarrow> ret ((None, msg, None), r')
            | Some d \<Rightarrow> if maintenanceWindow
                then (let r2 = r'\<lparr>cr_spec := (cr_spec r')\<lparr>spec_MaintenanceWindow := False\<rparr>\<rparr> in
                  otherwise (update_cr k Redis r2) (\<lambda>e. failed_plain r2 ''failed to set redis allowUpdates to false'' e)
                    (\<lambda>stored. ret ((Some d, msg, None), stored)))
                else ret ((Some d, msg, None), r'))))))))))))"

section \<open>Deleting a replication group\<close>

definition delete_found_group :: "'w awsProvider \<Rightarrow> 'w cloud \<Rightarrow> cr \<Rightarrow> deleteReplicationGroupInput \<Rightarrow> replicationGroup \<Rightarrow> ('w, delete_reply) aop" where
  "delete_found_group p c r cfg g =
     andThen (exposeRedisMetrics p r (Some g)) (\<lambda>_.
     andThen (deref (rg_Status g)) (\<lambda>status.
     if status \<noteq> ''available''
     then ret ((''delete detected, deleteReplicationGroup() in progress, current aws elasticache status is '' @ status, None), r)
     else andThen (attempt (exec (cl_Aws c) (ReqDeleteReplicationGroup cfg))) (\<lambda>x. case x of
       Inl e \<Rightarrow> if aws_code e = Some ''ReplicationGroupNotFoundFault'' then ret ((''delete detected, deleteReplicationGroup started'', None), r)
                  else ret (delete_failed r (''failed to delete elasticache cluster : '' @ error_text e) e)
     | Inr _ \<Rightarrow> ret ((''delete detected, deleteReplicationGroup started'', None), r))))"

text \<open>Once it is gone: the network and the finalizer.\<close>

definition release_redis :: "'w awsProvider \<Rightarrow> 'w NetworkProvider \<Rightarrow> bool \<Rightarrow> bool \<Rightarrow> cr \<Rightarrow> ('w, delete_reply) aop" where
  "release_redis p n isEnabled isLastResource r =
     andThen (remove_network p n isEnabled isLastResource r) (\<lambda>stopped. case stopped of
       Some answer \<Rightarrow> ret answer
     | None \<Rightarrow> remove_finalizer p Redis r)"

definition deleteElasticacheCluster ::
  "'w awsProvider \<Rightarrow> 'w cloud \<Rightarrow> 'w NetworkProvider \<Rightarrow> cr \<Rightarrow> createReplicationGroupInput \<Rightarrow> deleteReplicationGroupInput \<Rightarrow> bool \<Rightarrow> bool \<Rightarrow> ('w, delete_reply) aop" where
  "deleteElasticacheCluster p c n r createConfig0 deleteConfig0 isEnabled isLastResource =
     otherwise (getReplicationGroups c) (\<lambda>e. ((''error getting replication groups'', Some e), r)) (\<lambda>rgs.
     otherwise (buildElasticacheDeleteConfig p r createConfig0 deleteConfig0) (delete_failed r ''failed to verify aws rds instance configuration'') (\<lambda>(createConfig, deleteConfig).
     andThen (found_group rgs (crg_ReplicationGroupId createConfig)) (\<lambda>found. case found of
       Some g \<Rightarrow> delete_found_group p c r deleteConfig g
     | None \<Rightarrow> release_redis p n isEnabled isLastResource r)))"

definition DeleteRedis :: "'w awsProvider \<Rightarrow> cr \<Rightarrow> ('w, delete_reply) aop" where
  "DeleteRedis p r =
     (let k = ap_Client p in
      andThen (setRedisDeletionTimestampMetric p r) (\<lambda>_.
      otherwise (getElasticacheConfig p r) (delete_failed r (''failed to retrieve aws elasticache config for instance '' @ om_Name (cr_meta r))) (\<lambda>(createConfig, deleteConfig, _, stratCfg).
      otherwise (ReconcileProviderCredentials k (ap_Codec p) (ap_CredentialManager p) (om_Namespace (cr_meta r))) (delete_failed r ''failed to reconcile aws provider credentials'') (\<lambda>creds.
      otherwise (CreateSessionFromStrategy k (ap_Files p) (ap_Must p) creds stratCfg) (delete_failed r ''failed to create aws session to delete elasticache replication group'') (\<lambda>sess.
      let c = ap_Services p sess in
      andThen (isSTSCluster k (ap_Files p)) (\<lambda>sts. let n = network_of p c sts in
      otherwise (IsEnabled n) (delete_failed r ''failed to check cluster vpc subnets'') (\<lambda>isEnabled.
      otherwise (IsLastResource k) (delete_failed r ''failed to check if this cr is the last cr of type postgres and redis'') (\<lambda>isLastResource.
        deleteElasticacheCluster p c n r createConfig deleteConfig isEnabled isLastResource))))))))"

end
