(* ===== verification/AWS_Redis_Safety.thy ===== *)
theory AWS_Redis_Safety
  imports AWS_Redis AWS_RDS_Safety
begin

text \<open>
  The configuration of a replication group, and which requests the Redis provider makes about one: it is
  created at most once and only when it is not there, modified while it is available, and the resource is
  released only after its group is gone.
\<close>

section \<open>A complete configuration\<close>

definition complete_group :: "createReplicationGroupInput \<Rightarrow> bool" where
  "complete_group c \<longleftrightarrow> crg_ReplicationGroupId c \<noteq> None \<and> crg_ReplicationGroupDescription c \<noteq> None \<and> crg_CacheNodeType c \<noteq> None \<and>
     crg_Engine c = Some ''redis'' \<and> crg_EngineVersion c \<noteq> None \<and> crg_NumCacheClusters c \<noteq> None \<and> crg_SnapshotRetentionLimit c \<noteq> None \<and>
     crg_AtRestEncryptionEnabled c \<noteq> None \<and> crg_TransitEncryptionEnabled c \<noteq> None \<and> crg_AutomaticFailoverEnabled c = Some True \<and>
     crg_CacheSubnetGroupName c \<noteq> None"

definition keeps_group :: "createReplicationGroupInput \<Rightarrow> createReplicationGroupInput \<Rightarrow> bool" where
  "keeps_group c d \<longleftrightarrow> keeps (crg_ReplicationGroupId c) (crg_ReplicationGroupId d) \<and>
     keeps (crg_ReplicationGroupDescription c) (crg_ReplicationGroupDescription d) \<and> keeps (crg_CacheNodeType c) (crg_CacheNodeType d) \<and>
     keeps (crg_EngineVersion c) (crg_EngineVersion d) \<and> keeps (crg_NumCacheClusters c) (crg_NumCacheClusters d) \<and>
     keeps (crg_SnapshotRetentionLimit c) (crg_SnapshotRetentionLimit d) \<and> keeps (crg_AtRestEncryptionEnabled c) (crg_AtRestEncryptionEnabled d) \<and>
     keeps (crg_TransitEncryptionEnabled c) (crg_TransitEncryptionEnabled d) \<and> keeps (crg_CacheSubnetGroupName c) (crg_CacheSubnetGroupName d) \<and>
     keeps (crg_SecurityGroupIds c) (crg_SecurityGroupIds d) \<and>
     crg_PreferredMaintenanceWindow d = crg_PreferredMaintenanceWindow c \<and> crg_SnapshotWindow d = crg_SnapshotWindow c"

text \<open>The configuration that is returned, as a function of the names that are built.\<close>

definition built_group :: "string \<Rightarrow> string \<Rightarrow> string option list option \<Rightarrow> createReplicationGroupInput \<Rightarrow> createReplicationGroupInput" where
  "built_group name subGroup groups c = (fill_cache_defaults c)\<lparr>crg_ReplicationGroupId := or_default (crg_ReplicationGroupId c) name,
     crg_CacheSubnetGroupName := or_default (crg_CacheSubnetGroupName c) subGroup, crg_SecurityGroupIds := groups\<rparr>"

lemma built_group_complete: "complete_group (built_group name subGroup groups c)"
  by (simp add: complete_group_def built_group_def fill_cache_defaults_def)

lemma built_group_keeps: "keeps (crg_SecurityGroupIds c) groups \<Longrightarrow> keeps_group c (built_group name subGroup groups c)"
  by (simp add: keeps_group_def built_group_def fill_cache_defaults_def)

lemma buildElasticacheCreateStrategy_Val:
  assumes "buildElasticacheCreateStrategy p c r cfg0 s = (Val cfg, t)"
  shows "\<exists>name subGroup groups. keeps (crg_SecurityGroupIds cfg0) groups \<and> cfg = built_group name subGroup groups cfg0"
proof -
  let ?ids = "crg_SecurityGroupIds cfg0"
  have same: "crg_SecurityGroupIds (fill_cache_defaults cfg0) = ?ids" "crg_CacheSubnetGroupName (fill_cache_defaults cfg0) = crg_CacheSubnetGroupName cfg0"
    "crg_ReplicationGroupId (fill_cache_defaults cfg0) = crg_ReplicationGroupId cfg0"
    by (simp_all add: fill_cache_defaults_def)
  have kept: "built_group name subGroup ?ids cfg0 = (fill_cache_defaults cfg0)\<lparr>crg_ReplicationGroupId := or_default (crg_ReplicationGroupId cfg0) name,
     crg_CacheSubnetGroupName := or_default (crg_CacheSubnetGroupName cfg0) subGroup\<rparr>" for name subGroup
    by (simp add: built_group_def fill_cache_defaults_def)
  have upd: "crg_SecurityGroupIds (built_group name subGroup g cfg0) = g" "built_group name subGroup g cfg0\<lparr>crg_SecurityGroupIds := h\<rparr> = built_group name subGroup h cfg0"
    for name subGroup g h by (simp_all add: built_group_def)
  obtain name subGroup u and g :: "securityGroup option" where "(case g of Some g \<Rightarrow> if ?ids = None
      then andThen (deref (sg_GroupId g)) (\<lambda>i. ret (built_group name subGroup (Some [Some i]) cfg0)) else ret (built_group name subGroup ?ids cfg0)
    | None \<Rightarrow> ret (built_group name subGroup ?ids cfg0)) u = (Val cfg, t)"
    using assms unfolding buildElasticacheCreateStrategy_def Let_def by (simp add: andThen_Val same kept [symmetric] upd cong: option.case_cong if_cong) blast
  then show ?thesis
    by (auto simp: val_simps keeps_def split: option.splits if_splits)
qed

lemma quiet_cache_reads [quiet_rules]: "quiet (buildElasticacheCreateStrategy p c r cfg)" "quiet (buildElasticacheDeleteConfig p r cc dc)"
    "quiet (getReplicationGroups c)" "quiet (cache_name_or_empty p r)" "quiet (getDefaultElasticacheTags p r)" "quiet (buildRedisTagCreateStrategy p r cfg)"
    "quiet (redis_connection g)" "quiet (replicationGroupStatusIsHealthy g)" "quiet (cluster_changes p cfg mi cl)"
  unfolding buildElasticacheCreateStrategy_def buildElasticacheDeleteConfig_def getReplicationGroups_def cache_name_or_empty_def buildCacheName_def
    getDefaultElasticacheTags_def buildRedisTagCreateStrategy_def redis_connection_def replicationGroupStatusIsHealthy_def cluster_changes_def optional_change_def wanted_change_def Let_def
  by (intro quiet_rules)+

lemma quiet_buildElasticacheUpdateStrategy [quiet_rules]: "quiet (buildElasticacheUpdateStrategy p c cfg g cls r)"
  unfolding buildElasticacheUpdateStrategy_def node_type_change_def retention_change_def Let_def by (intro quiet_rules)

lemmas only_cache_reads [only_rules] = quiet_cache_reads [THEN only_quiet] quiet_buildElasticacheUpdateStrategy [THEN only_quiet] quiet_first_group [THEN only_quiet]

text \<open>
  The configuration a replication group is created with and compared against is complete: every field that is
  read through a pointer afterwards is set, the engine is Redis with automatic failover. What the strategy sets
  is kept, and building it makes no request.
\<close>

theorem redis_config_complete:
  assumes "buildElasticacheCreateStrategy p c r cfg0 s = (Val cfg, t)"
  shows "complete_group cfg \<and> keeps_group cfg0 cfg \<and> trace t = trace s"
  using buildElasticacheCreateStrategy_Val [OF assms] built_group_complete built_group_keeps quietD [OF quiet_cache_reads(1) assms] by blast

section \<open>Parts that make no request about a group\<close>

fun group_request :: "cloud_req event \<Rightarrow> bool" where
  "group_request (EvCloud (ReqCreateReplicationGroup _) _) = True"
| "group_request (EvCloud (ReqModifyReplicationGroup _) _) = True"
| "group_request (EvCloud (ReqDeleteReplicationGroup _) _) = True"
| "group_request _ = False"

interpretation replication_group: named_lookup rg_ReplicationGroupId first_replication_group
  by unfold_locales simp_all

lemma found_group_emits:
  "emits (found_group rgs (Some n) :: ('w, replicationGroup option) aop) (\<lambda>es r. (\<forall>e \<in> set es. \<not> L e) \<and>
     (case r of Val (Some g) \<Rightarrow> g \<in> set rgs \<and> rg_ReplicationGroupId g = Some n
      | Val None \<Rightarrow> \<forall>g \<in> set rgs. rg_ReplicationGroupId g \<noteq> Some n | _ \<Rightarrow> True))"
proof (rule emitsI)
  fix s r and t :: "('w, cloud_req event) sys" assume run: "found_group rgs (Some n) s = (r, t)"
  then have "first_replication_group n rgs s = (r, t)" by (cases rgs) (auto simp: found_group_def)
  then show "\<exists>es. trace t = trace s @ es \<and> (\<forall>e \<in> set es. \<not> L e) \<and>
     (case r of Val (Some g) \<Rightarrow> g \<in> set rgs \<and> rg_ReplicationGroupId g = Some n
      | Val None \<Rightarrow> \<forall>g \<in> set rgs. rg_ReplicationGroupId g \<noteq> Some n | _ \<Rightarrow> True)"
    by (induction rgs) (auto simp: op_simps deref_def split: option.splits if_splits res.splits)
qed

lemma only_reset_metric [only_rules]: "P (EvResetMetric name) \<Longrightarrow> only P (reset_metric name)"
  by (auto simp: only_def emits_def reset_metric_def)

lemma only_redis_metrics: "only metric_event (exposeRedisMetrics p r found)" "only metric_event (createElasticacheConnectionMetric p r found)"
    "only metric_event (setRedisServiceMaintenanceMetric p c found)" "only metric_event (setRedisDeletionTimestampMetric p r)"
    "only metric_event (redis_metrics p c r found)"
  unfolding exposeRedisMetrics_def createElasticacheConnectionMetric_def setRedisServiceMaintenanceMetric_def setRedisDeletionTimestampMetric_def
    redis_metrics_def Let_def
  by (intro only_rules; simp)+

lemma metric_no_group: "metric_event e \<Longrightarrow> \<not> group_request e"
  by (cases e) auto

lemma network_no_group: "network_event e \<Longrightarrow> \<not> group_request e"
  by (cases e rule: group_request.cases) auto

lemmas only_redis_weakened [only_rules] = only_redis_metrics(5) [THEN only_weaken, OF metric_no_group] only_network_bundled [THEN only_weaken, OF network_no_group]

lemma only_TagElasticacheNode [only_rules]: "only (\<lambda>e. \<not> group_request e) (TagElasticacheNode p c r m)"
  unfolding TagElasticacheNode_def tag_cache_snapshot_def Let_def by (intro only_rules; simp)

lemma only_tag_members [only_rules]: "only (\<lambda>e. \<not> group_request e) (tag_members p c r ms)"
  by (induction ms) (simp_all, (intro only_rules; simp)+)

lemma only_no_group [only_rules]: "only (\<lambda>e. \<not> group_request e) (configureElasticacheVpc p c)" "only (\<lambda>e. \<not> group_request e) (tag_nodes p c r g)"
  unfolding configureElasticacheVpc_def tag_nodes_def Let_def by (intro only_rules; simp)+

section \<open>Service updates\<close>

abbreviation apply_at_once :: "replicationGroup \<Rightarrow> cloud_req" where
  "apply_at_once g \<equiv> ReqModifyReplicationGroup ((no_group_modification (rg_ReplicationGroupId g))\<lparr>mrg_ApplyImmediately := Some True\<rparr>)"

lemma only_apply_specified:
  assumes "\<And>n b. n \<in> set specs \<Longrightarrow> ua_ServiceUpdateName ua = Some n \<Longrightarrow> ua_ServiceUpdateStatus ua = Some ''available'' \<Longrightarrow>
      P (EvCloud (ReqBatchApplyUpdateAction (rg_ReplicationGroupId g) (Some n)) b)"
    and "\<And>b. P (EvCloud (apply_at_once g) b)"
  shows "only P (apply_specified c g ua specs)"
  using assms(1)
proof (induction specs)
  case (Cons sp sps)
  then have rec: "only P (apply_specified c g ua sps)" by simp
  show ?case
  proof (cases "ua_ServiceUpdateName ua = Some sp \<and> ua_ServiceUpdateStatus ua = Some ''available''")
    case True
    then have batch: "P (EvCloud (ReqBatchApplyUpdateAction (rg_ReplicationGroupId g) (Some sp)) b)" for b using Cons.prems by simp
    show ?thesis
      unfolding apply_specified.simps applyServiceUpdate_def using True rec batch assms(2) by (auto intro!: only_rules)
  next
    case False
    then show ?thesis
      by (cases "ua_ServiceUpdateName ua"; cases "ua_ServiceUpdateStatus ua") (auto intro!: only_rules rec)
  qed
qed (simp add: only_rules)

text \<open>An action that is to be applied, and that it is applied when no error is met.\<close>

definition due_update :: "string list \<Rightarrow> updateAction \<Rightarrow> string \<Rightarrow> bool" where
  "due_update updates ua n \<longleftrightarrow> n \<in> set updates \<and> ua_ServiceUpdateName ua = Some n \<and> ua_ServiceUpdateStatus ua = Some ''available'' \<and>
     validServiceUpdateStates (SafeStringDereference (ua_UpdateActionStatus ua))"

lemma emits_any: "only (\<lambda>_. True) m \<Longrightarrow> (\<And>es r. S es r) \<Longrightarrow> emits m S"
  unfolding only_def by (erule emits_weaken) simp

lemma emits_applyServiceUpdate:
  "emits (attempt (applyServiceUpdate c g (Some n))) (\<lambda>es r. \<forall>u. r = Val (Inr u) \<longrightarrow> es = [EvCloud (ReqBatchApplyUpdateAction g (Some n)) True])"
proof (rule emits_attempt)
  show "emits (applyServiceUpdate c g (Some n)) (\<lambda>es r. \<forall>u. r = Val u \<longrightarrow> es = [EvCloud (ReqBatchApplyUpdateAction g (Some n)) True])"
    unfolding applyServiceUpdate_def by (rule emits_andThen [OF emits_create]) (auto intro!: emits_if emits_ret emits_throw)
qed simp_all

lemma apply_specified_complete:
  assumes "due_update specs ua n"
  shows "emits (apply_specified c g ua specs) (\<lambda>es r. r = Val False \<longrightarrow> EvCloud (ReqBatchApplyUpdateAction (rg_ReplicationGroupId g) (Some n)) True \<in> set es)"
  using assms
proof (induction specs)
  case Nil
  then show ?case by (simp add: due_update_def)
next
  case (Cons sp sps)
  have any: "only (\<lambda>_. True) (apply_specified c g ua sps)" for sps by (rule only_apply_specified) simp_all
  show ?case
  proof (cases "sp = n")
    case True
    let ?S = "\<lambda>es r. r = Val False \<longrightarrow> EvCloud (ReqBatchApplyUpdateAction (rg_ReplicationGroupId g) (Some n)) True \<in> set es"
    have step: "emits (andThen (attempt (applyServiceUpdate c (rg_ReplicationGroupId g) (Some n))) (\<lambda>x. case x of Inl _ \<Rightarrow> ret True | Inr _ \<Rightarrow> k)) ?S"
      if "only (\<lambda>_. True) k" for k
      by (rule emits_andThen [OF emits_applyServiceUpdate]) (auto intro!: emits_sum emits_ret emits_any [OF that])
    show ?thesis
    proof (cases "rg_ReplicationGroupId g")
      case None
      then show ?thesis using Cons.prems True by (auto simp: due_update_def intro: emits_crash)
    next
      case (Some i)
      then show ?thesis
        using Cons.prems True by (simp add: due_update_def) (rule step [unfolded Some], (intro only_rules any; simp))
    qed
  next
    case False
    then show ?thesis using Cons by (simp add: due_update_def)
  qed
qed

lemma emits_conj: "emits m R \<Longrightarrow> emits m R' \<Longrightarrow> emits m (\<lambda>es r. R es r \<and> R' es r)"
  unfolding emits_def by (metis same_append_eq)

lemma emits_all: "(\<And>n. emits m (R n)) \<Longrightarrow> emits m (\<lambda>es r. \<forall>n. R n es r)"
  unfolding emits_def by (metis same_append_eq)

definition update_request :: "replicationGroup \<Rightarrow> string list \<Rightarrow> updateAction list \<Rightarrow> cloud_req event \<Rightarrow> bool" where
  "update_request g updates actions e \<longleftrightarrow> (\<exists>b. e = EvCloud (apply_at_once g) b \<or>
     (\<exists>ua \<in> set actions. \<exists>n \<in> set updates. ua_ServiceUpdateName ua = Some n \<and> ua_ServiceUpdateStatus ua = Some ''available'' \<and>
        e = EvCloud (ReqBatchApplyUpdateAction (rg_ReplicationGroupId g) (Some n)) b))"

definition updates_done :: "replicationGroup \<Rightarrow> string list \<Rightarrow> updateAction list \<Rightarrow> cloud_req event list \<Rightarrow> bool" where
  "updates_done g updates actions es \<longleftrightarrow> (\<forall>ua \<in> set actions. \<forall>n. due_update updates ua n \<longrightarrow>
     EvCloud (ReqBatchApplyUpdateAction (rg_ReplicationGroupId g) (Some n)) True \<in> set es)"

lemma emits_apply_specified:
  "emits (apply_specified c g ua specs) (\<lambda>es r. (\<forall>e \<in> set es. update_request g specs [ua] e) \<and> (r = Val False \<longrightarrow> updates_done g specs [ua] es))"
proof (rule emits_conj)
  show "emits (apply_specified c g ua specs) (\<lambda>es r. \<forall>e \<in> set es. update_request g specs [ua] e)"
    unfolding only_def [symmetric] by (rule only_apply_specified) (auto simp: update_request_def)
  have "emits (apply_specified c g ua specs) (\<lambda>es r. \<forall>n. due_update specs ua n \<longrightarrow> r = Val False \<longrightarrow>
      EvCloud (ReqBatchApplyUpdateAction (rg_ReplicationGroupId g) (Some n)) True \<in> set es)" (is "emits _ (\<lambda>es r. \<forall>n. ?R n es r)")
  proof (rule emits_all)
    show "emits (apply_specified c g ua specs) (?R n)" for n
    proof (cases "due_update specs ua n")
      case False
      then show ?thesis by (intro emits_any [OF only_apply_specified]) simp_all
    qed (simp add: apply_specified_complete)
  qed
  then show "emits (apply_specified c g ua specs) (\<lambda>es r. r = Val False \<longrightarrow> updates_done g specs [ua] es)"
    by (rule emits_weaken) (auto simp: updates_done_def)
qed

lemma update_request_Cons: "update_request g us [ua] e \<or> update_request g us actions e \<Longrightarrow> update_request g us (ua # actions) e"
  unfolding update_request_def by auto

lemma updates_done_Cons: "updates_done g us [ua] es \<Longrightarrow> updates_done g us actions fs \<Longrightarrow> updates_done g us (ua # actions) (es @ fs)"
  unfolding updates_done_def by auto

lemma emits_update_loop:
  "emits (for_fold (\<lambda>encountered ua. andThen (apply_specified c g ua updates) (\<lambda>b. ret (encountered \<or> b))) acc actions)
     (\<lambda>es r. (\<forall>e \<in> set es. update_request g updates actions e) \<and> (r = Val False \<longrightarrow> \<not> acc \<and> updates_done g updates actions es))"
proof (induction actions arbitrary: acc)
  case Nil
  then show ?case by (auto intro!: emits_ret simp: updates_done_def)
next
  case (Cons ua actions)
  have one: "emits (andThen (apply_specified c g ua updates) (\<lambda>b. ret (acc \<or> b)))
     (\<lambda>es r. (\<forall>e \<in> set es. update_request g updates [ua] e) \<and> (r = Val False \<longrightarrow> \<not> acc \<and> updates_done g updates [ua] es))"
    by (rule emits_andThen [OF emits_apply_specified]) (auto intro!: emits_ret)
  show ?case
    unfolding for_fold.simps
    by (rule emits_andThen [OF one], rule emits_weaken [OF Cons.IH]) (auto intro: update_request_Cons updates_done_Cons)
qed

text \<open>
  Service updates are applied exactly as specified: every update that is requested is named in the strategy
  and was listed as available for this group, every other request only asks to apply changes to this group at
  once; and when the operation succeeds, every listed update that is named, available and not yet under way has
  been accepted by ElastiCache.
\<close>

theorem redis_updates_specified:
  assumes run: "applySpecifiedSecurityUpdates c g updates s = (r, t)"
    and list: "cache_DescribeUpdateActions c (rg_ReplicationGroupId g) (Some ''available'') (world s) = (Inr actions, w)"
  shows "\<exists>es. trace t = trace s @ es \<and> (\<forall>e \<in> set es. update_request g updates actions e) \<and> (r = Val () \<longrightarrow> updates_done g updates actions es)"
proof -
  let ?R = "\<lambda>es r. (\<forall>e \<in> set es. update_request g updates actions e) \<and> (r = Val () \<longrightarrow> updates_done g updates actions es)"
  let ?loop = "for_fold (\<lambda>encountered ua. andThen (apply_specified c g ua updates) (\<lambda>b. ret (encountered \<or> b))) False actions"
  have "andThen ?loop (\<lambda>encounteredError. if encounteredError then throw (ErrNew ''encountered an error - check the logs for error messages'') else ret ())
      (s\<lparr>world := w\<rparr>) = (r, t)"
    using run list by (simp add: applySpecifiedSecurityUpdates_def andThen_def query_def)
  moreover have "emits (andThen ?loop (\<lambda>encounteredError.
      if encounteredError then throw (ErrNew ''encountered an error - check the logs for error messages'') else ret ())) ?R"
    by (rule emits_andThen [OF emits_update_loop]) (auto intro!: emits_throw emits_ret)
  ultimately show ?thesis by (auto dest: emitsD)
qed

section \<open>Creation\<close>

text \<open>What a pass over a live resource may do to the groups that were listed.\<close>

definition group_change :: "replicationGroup \<Rightarrow> bool \<Rightarrow> cloud_req event \<Rightarrow> bool" where
  "group_change g maintenanceWindow e \<longleftrightarrow> (\<exists>m b. e = EvCloud (ReqModifyReplicationGroup m) b \<and> mrg_ReplicationGroupId m = rg_ReplicationGroupId g \<and>
     (maintenanceWindow \<or> ReqModifyReplicationGroup m = apply_at_once g))"

definition allowed_group_change :: "replicationGroup list \<Rightarrow> cr \<Rightarrow> bool \<Rightarrow> cloud_req event list \<Rightarrow> bool" where
  "allowed_group_change rgs r maintenanceWindow es \<longleftrightarrow>
     (\<exists>cfg b. es = [EvCloud (ReqCreateReplicationGroup cfg) b] \<and> complete_group cfg \<and> \<not> annotations_Has (cr_meta r) ResourceIdentifierAnnotation \<and>
        (\<forall>g \<in> set rgs. rg_ReplicationGroupId g \<noteq> crg_ReplicationGroupId cfg)) \<or>
     es = [] \<or> (\<exists>g \<in> set rgs. rg_Status g = Some ''available'' \<and> (\<forall>e \<in> set es. group_change g maintenanceWindow e))"

lemma allowed_group_Nil [simp]: "allowed_group_change rgs r w []"
  by (simp add: allowed_group_change_def)

lemma visible_only: "only (\<lambda>e. L e \<longrightarrow> P e) m \<Longrightarrow> (\<And>es. \<forall>e \<in> set es. P e \<Longrightarrow> S es) \<Longrightarrow> visible L m S"
  unfolding only_def visible_def by (erule emits_weaken) simp

lemma emits_buildElasticacheCreateStrategy:
  "emits (buildElasticacheCreateStrategy p c r cfg0) (\<lambda>es x. (\<forall>e \<in> set es. \<not> L e) \<and> (\<forall>cfg. x = Val cfg \<longrightarrow> complete_group cfg))"
proof (rule emitsI, intro exI conjI)
  fix s x t assume run: "buildElasticacheCreateStrategy p c r cfg0 s = (x, t)"
  show "trace t = trace s @ []" using quietD [OF quiet_cache_reads(1) run] by simp
  show "\<forall>cfg. x = Val cfg \<longrightarrow> complete_group cfg"
    using run buildElasticacheCreateStrategy_Val built_group_complete by blast
qed simp

lemma emits_buildRedisTagCreateStrategy:
  "emits (buildRedisTagCreateStrategy p r cfg) (\<lambda>es x. (\<forall>e \<in> set es. \<not> L e) \<and>
     (\<forall>cfg'. x = Val cfg' \<longrightarrow> crg_ReplicationGroupId cfg' = crg_ReplicationGroupId cfg \<and> (complete_group cfg \<longrightarrow> complete_group cfg')))"
  unfolding buildRedisTagCreateStrategy_def
  by (rule emits_andThen_quiet) (auto intro!: quiet_rules emits_ret emits_prod simp: complete_group_def)

lemma visible_redis_create:
  assumes "complete_group cfg" and "\<forall>g \<in> set rgs. rg_ReplicationGroupId g \<noteq> crg_ReplicationGroupId cfg"
  shows "visible group_request (redis_create p c r cfg) (allowed_group_change rgs r w)"
proof (cases "annotations_Has (cr_meta r) ResourceIdentifierAnnotation")
  case True
  then show ?thesis by (simp add: redis_create_def Let_def visible_ret)
next
  case False
  let ?Q = "\<lambda>x. \<forall>cfg'. x = Val cfg' \<longrightarrow> crg_ReplicationGroupId cfg' = crg_ReplicationGroupId cfg \<and> complete_group cfg'"
  have tags: "emits (if isSTS p then buildRedisTagCreateStrategy p r cfg else ret cfg) (\<lambda>es x. (\<forall>e \<in> set es. \<not> group_request e) \<and> ?Q x)"
    using assms(1) by (auto intro: emits_ret emits_weaken [OF emits_buildRedisTagCreateStrategy])
  have make: "visible group_request (exec (cl_Aws c) (ReqCreateReplicationGroup cfg')) (allowed_group_change rgs r w)" if "?Q (Val cfg')" for cfg'
    using that assms False by (intro visible_exec) (auto simp: allowed_group_change_def)
  show ?thesis
    unfolding redis_create_def if_not_P [OF False]
    by (rule visible_otherwise_step [OF tags], rule visible_otherwise_after [OF make], assumption) (intro only_rules allowed_group_Nil; simp)+
qed

text \<open>The modification that is built names the group that was found.\<close>

lemma for_fold_keeps:
  assumes "\<And>a x s b t. f a x s = (Val b, t) \<Longrightarrow> K a \<Longrightarrow> K b"
  shows "for_fold f a xs s = (Val b, t) \<Longrightarrow> K a \<Longrightarrow> K b"
  by (induction xs arbitrary: a s) (auto simp: val_simps dest: assms)

lemma node_type_identifier: "node_type_change c cfg g cls r mi s = (Val mi1, t) \<Longrightarrow> mrg_ReplicationGroupId mi1 = mrg_ReplicationGroupId mi"
  by (auto simp: node_type_change_def val_simps Let_def split: option.splits if_splits)

lemma retention_identifier: "retention_change cfg g mi s = (Val mi1, t) \<Longrightarrow> mrg_ReplicationGroupId mi1 = mrg_ReplicationGroupId mi"
  by (auto simp: retention_change_def val_simps split: option.splits if_splits)

lemma cluster_identifier: "cluster_changes p cfg mi cl s = (Val mi1, t) \<Longrightarrow> mrg_ReplicationGroupId mi1 = mrg_ReplicationGroupId mi"
  by (auto simp: cluster_changes_def val_simps Let_def split: option.splits if_splits)

lemma update_identifier:
  assumes "buildElasticacheUpdateStrategy p c cfg g cls r s = (Val (Some m), t)"
  shows "mrg_ReplicationGroupId m = rg_ReplicationGroupId g"
proof -
  obtain y u ya ua where 1: "node_type_change c cfg g cls r (no_group_modification (rg_ReplicationGroupId g)) s = (Val y, u)"
    and 2: "retention_change cfg g y u = (Val ya, ua)" and 3: "for_fold (cluster_changes p cfg) ya cls ua = (Val m, t)"
    using assms unfolding buildElasticacheUpdateStrategy_def Let_def val_simps by (auto split: if_splits)
  have "mrg_ReplicationGroupId ya = rg_ReplicationGroupId g"
    using node_type_identifier [OF 1] retention_identifier [OF 2] by (simp add: no_group_modification_def)
  then show ?thesis
    by (rule for_fold_keeps [where K = "\<lambda>m. mrg_ReplicationGroupId m = rg_ReplicationGroupId g", OF _ 3, rotated]) (simp add: cluster_identifier)
qed

lemma emits_buildElasticacheUpdateStrategy:
  "emits (buildElasticacheUpdateStrategy p c cfg g cls r)
     (\<lambda>es x. (\<forall>e \<in> set es. \<not> L e) \<and> (\<forall>m. x = Val (Some m) \<longrightarrow> mrg_ReplicationGroupId m = rg_ReplicationGroupId g))"
proof (rule emitsI, intro exI conjI)
  fix s x t assume run: "buildElasticacheUpdateStrategy p c cfg g cls r s = (x, t)"
  show "trace t = trace s @ []" using quietD [OF quiet_buildElasticacheUpdateStrategy run] by simp
  show "\<forall>m. x = Val (Some m) \<longrightarrow> mrg_ReplicationGroupId m = rg_ReplicationGroupId g" using run update_identifier by blast
qed simp

lemma only_group_change: "only (\<lambda>e. \<not> group_request e) m \<Longrightarrow> only (\<lambda>e. group_request e \<longrightarrow> group_change g w e) m"
  by (erule only_weaken) simp

lemma only_redis_updates: "only (\<lambda>e. group_request e \<longrightarrow> group_change g w e) (applySpecifiedSecurityUpdates c g updates)"
  unfolding applySpecifiedSecurityUpdates_def
  by (intro only_rules only_apply_specified; simp add: group_change_def no_group_modification_def)

lemma only_redis_available: "only (\<lambda>e. group_request e \<longrightarrow> group_change g w e) (redis_available p c r g updates)"
  unfolding redis_available_def
  by (intro only_otherwise only_andThen only_if only_option only_redis_updates only_group_change [OF only_no_group(2)] only_base only_cache_reads)

lemma visible_redis_found:
  assumes g: "g \<in> set rgs"
  shows "visible group_request (redis_found p c r cfg g updates w) (allowed_group_change rgs r' w)"
proof (cases "rg_Status g = Some ''available''")
  case True
  let ?P = "\<lambda>e. group_request e \<longrightarrow> group_change g w e" and ?S = "allowed_group_change rgs r' w"
  have all: "?S es" if "\<forall>e \<in> set es. group_change g w e" for es
    using that g True by (auto simp: allowed_group_change_def)
  have rest: "visible group_request (redis_available p c q g updates) ?S" for q
    by (rule visible_only [OF only_redis_available all])
  have modify: "visible group_request (otherwise (case mi of None \<Rightarrow> ret () | Some m \<Rightarrow> exec (cl_Aws c) (ReqModifyReplicationGroup m)) h
      (\<lambda>_. redis_available p c q g updates)) ?S"
    if "w" "\<forall>m. mi = Some m \<longrightarrow> mrg_ReplicationGroupId m = rg_ReplicationGroupId g" for mi h q
  proof (rule visible_only [OF _ all])
    have "only ?P (exec (cl_Aws c) (ReqModifyReplicationGroup m))" if "mi = Some m" for m
      using that \<open>w\<close> \<open>\<forall>m. mi = Some m \<longrightarrow> _ m\<close> by (intro only_exec) (auto simp: group_change_def)
    then show "only ?P (otherwise (case mi of None \<Rightarrow> ret () | Some m \<Rightarrow> exec (cl_Aws c) (ReqModifyReplicationGroup m)) h (\<lambda>_. redis_available p c q g updates))"
      by (intro only_otherwise only_option only_redis_available only_base)
  qed simp
  show ?thesis
    unfolding redis_found_def Let_def True deref_simps andThen_ret
    by (intro visible_deref visible_otherwise visible_otherwise_step [OF emits_buildElasticacheUpdateStrategy] visible_if rest modify visible_ret only_base allowed_group_Nil; simp)
next
  case False
  then show ?thesis
    unfolding redis_found_def Let_def
    by (intro visible_silent) (cases "rg_Status g"; auto intro!: only_rules)+
qed

text \<open>
  C9. One pass of the Redis provider over a resource makes at most one request to create a replication group: only
  when none of the listed groups has its identifier and the resource is not annotated with an earlier group, and
  with a complete configuration. Otherwise its requests about groups modify one listed group that is available
  (outside a maintenance window only by applying pending changes at once), and a pass never deletes one. This
  holds whatever AWS and the API server answer.
\<close>

theorem redis_at_most_one_group:
  assumes list: "getReplicationGroups c s = (Val rgs, s1)"
    and run: "createElasticacheCluster p c r cfg0 updates standaloneNetworkExists maintenanceWindow s = (x, t)"
  shows "\<exists>es. trace t = trace s @ es \<and> allowed_group_change rgs r maintenanceWindow (filter group_request es)"
proof -
  let ?S = "allowed_group_change rgs r maintenanceWindow"
  have found: "visible group_request (andThen (found_group rgs (crg_ReplicationGroupId cfg)) (\<lambda>found.
      andThen (case found of Some g \<Rightarrow> redis_found p c r cfg g updates maintenanceWindow | None \<Rightarrow> redis_create p c r cfg) (\<lambda>(answer, r').
      andThen (redis_metrics p c r' found) (\<lambda>_. ret (answer, r'))))) ?S" if cfg: "complete_group cfg" for cfg
  proof -
    obtain n where n: "crg_ReplicationGroupId cfg = Some n" using cfg by (auto simp: complete_group_def)
    show ?thesis unfolding n
      by (rule visible_step [OF found_group_emits], rule visible_after, rule visible_option)
         (auto simp: n intro!: visible_redis_create [OF cfg] visible_redis_found only_rules)
  qed
  show ?thesis
    using run unfolding createElasticacheCluster_def
    by (rule visible_after_read [OF quiet_cache_reads(3) list])
       (intro visible_otherwise visible_if visible_ret visible_otherwise_step [OF emits_buildElasticacheCreateStrategy] found only_rules allowed_group_Nil; simp)
qed

section \<open>Deletion\<close>

text \<open>
  What a pass over a deleted resource may do, apart from gauges: with a group that was listed, one request to
  delete it; without one, first the network is removed when this is the last resource, then the finalizer.
\<close>

definition release_group_steps :: "bool \<Rightarrow> cr \<Rightarrow> cloud_req event list \<Rightarrow> bool" where
  "release_group_steps isLast r es \<longleftrightarrow> (\<exists>net rest. es = net @ rest \<and> (\<forall>e \<in> set net. network_event e) \<and> (\<not> isLast \<longrightarrow> net = []) \<and>
     (rest = [] \<or> (\<exists>om b. rest = [EvUpdate Redis (r\<lparr>cr_meta := om\<rparr>) b] \<and> RemoveFinalizer (cr_meta r) DefaultFinalizer = Some om)))"

definition allowed_group_deletion :: "replicationGroup option \<Rightarrow> deleteReplicationGroupInput \<Rightarrow> bool \<Rightarrow> cr \<Rightarrow> cloud_req event list \<Rightarrow> bool" where
  "allowed_group_deletion found cfg isLast r es = (case found of
     None \<Rightarrow> release_group_steps isLast r es
   | Some g \<Rightarrow> es = [] \<or> (\<exists>b. es = [EvCloud (ReqDeleteReplicationGroup cfg) b] \<and> rg_Status g = Some ''available''))"

lemma emits_release_redis: "emits (release_redis p n isEnabled isLast r) (\<lambda>es x. release_group_steps isLast r es)"
proof -
  let ?net = "\<lambda>es. (\<forall>e \<in> set es. network_event e) \<and> (\<not> isLast \<longrightarrow> es = [])"
  have net: "emits (remove_network p n isEnabled isLast r) (\<lambda>es x. ?net es)"
  proof (cases isLast)
    case True
    then show ?thesis using only_remove_network [of p n isEnabled isLast r] by (simp add: only_def)
  qed (auto simp: remove_network_def intro: emits_ret)
  have fin: "emits (remove_finalizer p Redis r) (\<lambda>fs x. release_group_steps isLast r (es @ fs))" if "?net es" for es
    by (rule emits_weaken [OF emits_remove_finalizer]) (use that in \<open>unfold release_group_steps_def, blast\<close>)
  have stop: "release_group_steps isLast r es" if "?net es" for es
    unfolding release_group_steps_def using that by (intro exI [of _ es] exI [of _ "[]"]) simp
  show ?thesis
    unfolding release_redis_def by (rule emits_andThen [OF net]) (auto intro!: emits_option fin emits_ret stop)
qed

lemma release_group_filter: "release_group_steps isLast r es \<Longrightarrow> release_group_steps isLast r (filter (\<lambda>e. \<not> metric_event e) es)"
proof -
  assume steps: "release_group_steps isLast r es"
  have "\<not> metric_event e" if "network_event e" for e using that by (cases e) auto
  then have "\<forall>e \<in> set es. \<not> metric_event e" using steps by (auto simp: release_group_steps_def)
  then show ?thesis using steps by (simp add: filter_id_conv [THEN iffD2])
qed

lemma visible_delete_group: "visible (\<lambda>e. \<not> metric_event e) (delete_found_group p c r cfg g) (allowed_group_deletion (Some g) cfg isLast r)"
proof -
  let ?S = "allowed_group_deletion (Some g) cfg isLast r"
  have delete: "visible (\<lambda>e. \<not> metric_event e) (exec (cl_Aws c) (ReqDeleteReplicationGroup cfg)) ?S" if "rg_Status g = Some ''available''"
    using that by (intro visible_exec) (auto simp: allowed_group_deletion_def)
  have S: "?S []" by (simp add: allowed_group_deletion_def)
  have gauges: "only (\<lambda>e. \<not> \<not> metric_event e) (exposeRedisMetrics p r (Some g))" using only_redis_metrics(1) by simp
  show ?thesis
    unfolding delete_found_group_def
    by (intro visible_andThen [OF gauges] visible_deref visible_if visible_ret S visible_after [OF visible_attempt [OF delete]] only_rules) simp_all
qed

lemma found_group_find:
  assumes "\<forall>g \<in> set rgs. rg_ReplicationGroupId g \<noteq> None" and "ident \<noteq> None"
  shows "found_group rgs ident = ret (find (\<lambda>g. rg_ReplicationGroupId g = ident) rgs)"
  using assms(2) replication_group.lookup_find [OF assms(1)] by (auto simp: found_group_def)

text \<open>
  The deletion of a Redis resource: while its group is listed (by the identifier of the create strategy), the
  only request is to delete, when it is available; the network (if this is the last resource) and then the
  finalizer go only when no listed group has the identifier. This holds whatever AWS and the API server answer.
\<close>

theorem redis_deletion_order:
  assumes list: "getReplicationGroups c s = (Val rgs, s1)" and named: "\<forall>g \<in> set rgs. rg_ReplicationGroupId g \<noteq> None"
    and build: "buildElasticacheDeleteConfig p r createConfig deleteConfig s1 = (Val (cc, cfg), s2)" and ident: "crg_ReplicationGroupId cc \<noteq> None"
    and run: "deleteElasticacheCluster p c n r createConfig deleteConfig isEnabled isLastResource s = (x, t)"
  shows "\<exists>es. trace t = trace s @ es \<and>
    allowed_group_deletion (find (\<lambda>g. rg_ReplicationGroupId g = crg_ReplicationGroupId cc) rgs) cfg isLastResource r (filter (\<lambda>e. \<not> metric_event e) es)"
proof -
  let ?found = "find (\<lambda>g. rg_ReplicationGroupId g = crg_ReplicationGroupId cc) rgs" and ?L = "\<lambda>e. \<not> metric_event e"
  let ?S = "allowed_group_deletion ?found cfg isLastResource r"
  have run2: "(case ?found of Some g \<Rightarrow> delete_found_group p c r cfg g | None \<Rightarrow> release_redis p n isEnabled isLastResource r) s2 = (x, t)"
    using run list build by (simp add: deleteElasticacheCluster_def otherwise_apply found_group_find [OF named ident])
  have gone: "visible ?L (release_redis p n isEnabled isLastResource r) (release_group_steps isLastResource r)"
    unfolding visible_def by (rule emits_weaken [OF emits_release_redis]) (rule release_group_filter)
  then have "visible ?L (release_redis p n isEnabled isLastResource r) (allowed_group_deletion None cfg isLastResource r)"
    by (rule visible_weaken) (simp add: allowed_group_deletion_def)
  then have vis: "visible ?L (case ?found of Some g \<Rightarrow> delete_found_group p c r cfg g | None \<Rightarrow> release_redis p n isEnabled isLastResource r) ?S"
    using visible_delete_group by (cases ?found) simp_all
  have "trace s2 = trace s" using quietD [OF quiet_cache_reads(3) list] quietD [OF quiet_cache_reads(2) build] by simp
  then show ?thesis using visibleD [OF vis run2] by simp
qed

text \<open>
  A delete strategy that names the group while the create strategy does not leaves the identifier the group
  is looked up by unset: the deletion panics as soon as any group is listed, without having made a request,
  although the identifier to delete is known.
\<close>

theorem redis_delete_identifier_panics:
  assumes list: "getReplicationGroups c s = (Val (g # rgs), s1)"
    and build: "buildElasticacheDeleteConfig p r createConfig deleteConfig s1 = (Val (cc, cfg), s2)"
    and only_delete: "drg_ReplicationGroupId deleteConfig = Some n" "crg_ReplicationGroupId createConfig = None"
  shows "deleteElasticacheCluster p c net r createConfig deleteConfig isEnabled isLastResource s = (Abort Panics, s2) \<and>
    drg_ReplicationGroupId cfg = Some n \<and> trace s2 = trace s"
proof -
  have "crg_ReplicationGroupId cc = None" "drg_ReplicationGroupId cfg = Some n"
    using build only_delete by (auto simp: buildElasticacheDeleteConfig_def Let_def val_simps)
  moreover have "trace s2 = trace s" using quietD [OF quiet_cache_reads(3) list] quietD [OF quiet_cache_reads(2) build] by simp
  ultimately show ?thesis
    using list build by (simp add: deleteElasticacheCluster_def otherwise_apply found_group_def op_simps)
qed

end
