(* ===== verification/AWS_Redis_Update.thy ===== *)
theory AWS_Redis_Update
  imports AWS_Redis_Safety
begin

text \<open>
  The update of a replication group: the computation of \<^verbatim>\<open>buildElasticacheUpdateStrategy\<close> as a pure function of
  what is known about the group, and that it does not repeat itself once it has been applied.
\<close>

section \<open>The loop over the clusters\<close>

text \<open>What has to be known about a cluster; which settings differ.\<close>

definition readable :: "'w awsProvider \<Rightarrow> createReplicationGroupInput \<Rightarrow> cacheCluster \<Rightarrow> bool" where
  "readable p cfg cl \<longleftrightarrow>
     (\<forall>d. crg_EngineVersion cfg = Some d \<longrightarrow> ver_NewVersion p d = None \<and> (\<exists>v. cc_EngineVersion cl = Some v \<and> ver_NewVersion p v = None)) \<and>
     (crg_PreferredMaintenanceWindow cfg \<noteq> None \<longrightarrow> cc_PreferredMaintenanceWindow cl \<noteq> None) \<and>
     (crg_SnapshotWindow cfg \<noteq> None \<longrightarrow> cc_SnapshotWindow cl \<noteq> None)"

definition needs_upgrade :: "'w awsProvider \<Rightarrow> createReplicationGroupInput \<Rightarrow> cacheCluster \<Rightarrow> bool" where
  "needs_upgrade p cfg cl \<longleftrightarrow> (\<exists>d v. crg_EngineVersion cfg = Some d \<and> cc_EngineVersion cl = Some v \<and> ver_LessThan p v d)"

definition differs :: "'a option \<Rightarrow> 'a option \<Rightarrow> bool" where
  "differs wanted found \<longleftrightarrow> wanted \<noteq> None \<and> found \<noteq> wanted"

definition cluster_step :: "'w awsProvider \<Rightarrow> createReplicationGroupInput \<Rightarrow> modifyReplicationGroupInput \<Rightarrow> cacheCluster \<Rightarrow> modifyReplicationGroupInput" where
  "cluster_step p cfg mi cl = mi\<lparr>
     mrg_ApplyImmediately := (if needs_upgrade p cfg cl then Some True else mrg_ApplyImmediately mi),
     mrg_EngineVersion := (if needs_upgrade p cfg cl then crg_EngineVersion cfg else mrg_EngineVersion mi),
     mrg_PreferredMaintenanceWindow := (if differs (crg_PreferredMaintenanceWindow cfg) (cc_PreferredMaintenanceWindow cl)
       then crg_PreferredMaintenanceWindow cfg else mrg_PreferredMaintenanceWindow mi),
     mrg_SnapshotWindow := (if differs (crg_SnapshotWindow cfg) (cc_SnapshotWindow cl) then crg_SnapshotWindow cfg else mrg_SnapshotWindow mi)\<rparr>"

lemma optional_change_pure:
  "(wanted \<noteq> None \<longrightarrow> found \<noteq> None) \<Longrightarrow> optional_change wanted found = ret (if differs wanted found then wanted else None)"
  by (cases wanted; cases found) (auto simp: optional_change_def wanted_change_def differs_def)

lemma VerifyVersion_pure:
  "ver_NewVersion p v = None \<Longrightarrow> ver_NewVersion p d = None \<Longrightarrow> wrapping msg (lift_sum (VerifyVersionUpgradeNeeded p v d)) = ret (ver_LessThan p v d)"
  by (simp add: VerifyVersionUpgradeNeeded_def lift_sum_def wrapping_def fun_eq_iff op_simps)

lemma upgrade_pure:
  "readable p cfg cl \<Longrightarrow> (case crg_EngineVersion cfg of None \<Rightarrow> ret mi
       | Some desired \<Rightarrow> andThen (deref (cc_EngineVersion cl)) (\<lambda>current.
           andThen (wrapping msg (lift_sum (VerifyVersionUpgradeNeeded p current desired))) (\<lambda>needed.
             ret (if needed then mi\<lparr>mrg_ApplyImmediately := Some True, mrg_EngineVersion := Some desired\<rparr> else mi)))) =
     ret (if needs_upgrade p cfg cl then mi\<lparr>mrg_ApplyImmediately := Some True, mrg_EngineVersion := crg_EngineVersion cfg\<rparr> else mi)"
  by (auto simp: readable_def needs_upgrade_def VerifyVersion_pure split: option.split)

lemma cluster_changes_pure: "readable p cfg cl \<Longrightarrow> cluster_changes p cfg mi cl = ret (cluster_step p cfg mi cl)"
  by (simp add: cluster_changes_def upgrade_pure optional_change_pure readable_def Let_def cluster_step_def differs_def)

lemma for_fold_pure: "(\<And>a x. x \<in> set xs \<Longrightarrow> f a x = ret (h a x)) \<Longrightarrow> for_fold f a xs = ret (foldl h a xs)"
  by (induction xs arbitrary: a) simp_all

lemma cluster_loop_fields:
  "mrg_ReplicationGroupId (foldl (cluster_step p cfg) mi cls) = mrg_ReplicationGroupId mi"
  "mrg_CacheNodeType (foldl (cluster_step p cfg) mi cls) = mrg_CacheNodeType mi"
  "mrg_SnapshotRetentionLimit (foldl (cluster_step p cfg) mi cls) = mrg_SnapshotRetentionLimit mi"
  "mrg_EngineVersion (foldl (cluster_step p cfg) mi cls) = (if \<exists>cl \<in> set cls. needs_upgrade p cfg cl then crg_EngineVersion cfg else mrg_EngineVersion mi)"
  "mrg_PreferredMaintenanceWindow (foldl (cluster_step p cfg) mi cls) =
     (if \<exists>cl \<in> set cls. differs (crg_PreferredMaintenanceWindow cfg) (cc_PreferredMaintenanceWindow cl) then crg_PreferredMaintenanceWindow cfg
      else mrg_PreferredMaintenanceWindow mi)"
  "mrg_SnapshotWindow (foldl (cluster_step p cfg) mi cls) =
     (if \<exists>cl \<in> set cls. differs (crg_SnapshotWindow cfg) (cc_SnapshotWindow cl) then crg_SnapshotWindow cfg else mrg_SnapshotWindow mi)"
  by (induction cls arbitrary: mi) (auto simp: cluster_step_def)

definition settled_cluster :: "'w awsProvider \<Rightarrow> createReplicationGroupInput \<Rightarrow> cacheCluster \<Rightarrow> bool" where
  "settled_cluster p cfg cl \<longleftrightarrow> \<not> needs_upgrade p cfg cl \<and> \<not> differs (crg_PreferredMaintenanceWindow cfg) (cc_PreferredMaintenanceWindow cl) \<and>
     \<not> differs (crg_SnapshotWindow cfg) (cc_SnapshotWindow cl)"

lemma settled_loop: "\<forall>cl \<in> set cls. settled_cluster p cfg cl \<Longrightarrow> foldl (cluster_step p cfg) mi cls = mi"
  by (induction cls) (simp_all add: cluster_step_def settled_cluster_def)

section \<open>Updates converge\<close>

text \<open>The group and its clusters once a modification has been applied: the settings that are set replace the old ones.\<close>

definition applied :: "'a option \<Rightarrow> 'a option \<Rightarrow> 'a option" where
  "applied new old = (case new of None \<Rightarrow> old | Some _ \<Rightarrow> new)"

definition modified_group :: "modifyReplicationGroupInput \<Rightarrow> replicationGroup \<Rightarrow> replicationGroup" where
  "modified_group m g = g\<lparr>rg_CacheNodeType := applied (mrg_CacheNodeType m) (rg_CacheNodeType g),
     rg_SnapshotRetentionLimit := applied (mrg_SnapshotRetentionLimit m) (rg_SnapshotRetentionLimit g)\<rparr>"

definition modified_cluster :: "modifyReplicationGroupInput \<Rightarrow> cacheCluster \<Rightarrow> cacheCluster" where
  "modified_cluster m cl = cl\<lparr>cc_EngineVersion := applied (mrg_EngineVersion m) (cc_EngineVersion cl),
     cc_PreferredMaintenanceWindow := applied (mrg_PreferredMaintenanceWindow m) (cc_PreferredMaintenanceWindow cl),
     cc_SnapshotWindow := applied (mrg_SnapshotWindow m) (cc_SnapshotWindow cl)\<rparr>"

text \<open>The node type is offered in the zones of all clusters.\<close>

definition offered :: "string option list \<Rightarrow> cacheCluster list \<Rightarrow> bool" where
  "offered zones cls \<longleftrightarrow> (\<forall>cl \<in> set cls. StringValue (cc_PreferredAvailabilityZone cl) \<in> set (map StringValue zones))"

definition type_step :: "(string \<Rightarrow> string option list) \<Rightarrow> createReplicationGroupInput \<Rightarrow> replicationGroup \<Rightarrow> cacheCluster list \<Rightarrow> bool" where
  "type_step offers cfg g cls \<longleftrightarrow> (\<exists>wanted current. crg_CacheNodeType cfg = Some wanted \<and> rg_CacheNodeType g = Some current \<and> wanted \<noteq> current \<and>
     offered (offers (remove_first ''cache.'' wanted)) cls)"

lemma node_type_change_pure:
  assumes "\<And>n w. ec2_InstanceTypeLocations c n w = (Inr (offers n), w)"
  shows "node_type_change c cfg g cls r mi = ret (if type_step offers cfg g cls
    then mi\<lparr>mrg_CacheNodeType := crg_CacheNodeType cfg, mrg_ApplyImmediately := Some (spec_ApplyImmediately (cr_spec r))\<rparr> else mi)"
  by (auto simp: node_type_change_def type_step_def offered_def Let_def fun_eq_iff op_simps wrapping_def query_def assms list_all_iff Contains_def
      split: option.splits)

lemma retention_change_pure:
  assumes "crg_SnapshotRetentionLimit cfg \<noteq> None"
  shows "retention_change cfg g mi = ret (if rg_SnapshotRetentionLimit g \<noteq> None \<and> rg_SnapshotRetentionLimit g \<noteq> crg_SnapshotRetentionLimit cfg
    then mi\<lparr>mrg_SnapshotRetentionLimit := crg_SnapshotRetentionLimit cfg\<rparr> else mi)"
  using assms by (auto simp: retention_change_def split: option.split)

text \<open>The input that is computed, when everything that is read is known.\<close>

definition group_update ::
  "'w awsProvider \<Rightarrow> (string \<Rightarrow> string option list) \<Rightarrow> createReplicationGroupInput \<Rightarrow> replicationGroup \<Rightarrow> cacheCluster list \<Rightarrow> cr \<Rightarrow> modifyReplicationGroupInput" where
  "group_update p offers cfg g cls r = foldl (cluster_step p cfg) ((no_group_modification (rg_ReplicationGroupId g))\<lparr>
     mrg_CacheNodeType := (if type_step offers cfg g cls then crg_CacheNodeType cfg else None),
     mrg_ApplyImmediately := (if type_step offers cfg g cls then Some (spec_ApplyImmediately (cr_spec r)) else None),
     mrg_SnapshotRetentionLimit := (if rg_SnapshotRetentionLimit g \<noteq> None \<and> rg_SnapshotRetentionLimit g \<noteq> crg_SnapshotRetentionLimit cfg
       then crg_SnapshotRetentionLimit cfg else None)\<rparr>) cls"

lemma group_update_fields:
  "mrg_CacheNodeType (group_update p offers cfg g cls r) = (if type_step offers cfg g cls then crg_CacheNodeType cfg else None)"
  "mrg_SnapshotRetentionLimit (group_update p offers cfg g cls r) =
     (if rg_SnapshotRetentionLimit g \<noteq> None \<and> rg_SnapshotRetentionLimit g \<noteq> crg_SnapshotRetentionLimit cfg then crg_SnapshotRetentionLimit cfg else None)"
  "mrg_EngineVersion (group_update p offers cfg g cls r) = (if \<exists>cl \<in> set cls. needs_upgrade p cfg cl then crg_EngineVersion cfg else None)"
  "mrg_PreferredMaintenanceWindow (group_update p offers cfg g cls r) =
     (if \<exists>cl \<in> set cls. differs (crg_PreferredMaintenanceWindow cfg) (cc_PreferredMaintenanceWindow cl) then crg_PreferredMaintenanceWindow cfg else None)"
  "mrg_SnapshotWindow (group_update p offers cfg g cls r) =
     (if \<exists>cl \<in> set cls. differs (crg_SnapshotWindow cfg) (cc_SnapshotWindow cl) then crg_SnapshotWindow cfg else None)"
  by (simp_all add: group_update_def cluster_loop_fields no_group_modification_def cong: if_cong)

lemma buildElasticacheUpdateStrategy_pure:
  assumes "\<And>n w. ec2_InstanceTypeLocations c n w = (Inr (offers n), w)" and "crg_SnapshotRetentionLimit cfg \<noteq> None"
    and "\<forall>cl \<in> set cls. readable p cfg cl"
  shows "buildElasticacheUpdateStrategy p c cfg g cls r = ret (let m = group_update p offers cfg g cls r in
    if m \<noteq> no_group_modification (rg_ReplicationGroupId g) then Some m else None)"
proof -
  have loop: "for_fold (cluster_changes p cfg) mi cls = ret (foldl (cluster_step p cfg) mi cls)" for mi
    using assms(3) by (intro for_fold_pure) (simp add: cluster_changes_pure)
  show ?thesis
    by (simp add: buildElasticacheUpdateStrategy_def node_type_change_pure [OF assms(1)] retention_change_pure [OF assms(2)] loop group_update_def Let_def
        no_group_modification_def)
qed

lemma applied_simps [simp]: "applied None x = x" "applied (Some y) x = Some y"
  by (simp_all add: applied_def)

lemma readable_modified:
  assumes "readable p cfg cl" and "mrg_EngineVersion m = None \<or> mrg_EngineVersion m = crg_EngineVersion cfg"
  shows "readable p cfg (modified_cluster m cl)"
  using assms by (auto simp: readable_def modified_cluster_def applied_def split: option.splits)

text \<open>A setting that differs on one cluster is set on all of them.\<close>

lemma window_settled: "cl \<in> set cls \<Longrightarrow> \<not> differs w (applied (if \<exists>cl \<in> set cls. differs w (f cl) then w else None) (f cl))"
  by (auto simp: differs_def applied_def split: option.split)

lemma settled_modified:
  assumes "cl \<in> set cls" and "\<And>v. \<not> ver_LessThan p v v"
  shows "settled_cluster p cfg (modified_cluster (group_update p offers cfg g cls r) cl)"
proof -
  have "\<not> needs_upgrade p cfg (modified_cluster (group_update p offers cfg g cls r) cl)"
    using assms by (auto simp: needs_upgrade_def modified_cluster_def group_update_fields applied_def split: option.splits if_splits)
  then show ?thesis
    using window_settled [OF assms(1), of "crg_PreferredMaintenanceWindow cfg" cc_PreferredMaintenanceWindow]
      window_settled [OF assms(1), of "crg_SnapshotWindow cfg" cc_SnapshotWindow]
    by (simp add: settled_cluster_def modified_cluster_def group_update_fields split del: if_split)
qed

lemma modified_same [simp]: "rg_ReplicationGroupId (modified_group m g) = rg_ReplicationGroupId g"
    "offered zones (map (modified_cluster m) cls) = offered zones cls"
  by (simp_all add: modified_group_def modified_cluster_def offered_def)

lemma group_update_settled:
  assumes "\<And>v. \<not> ver_LessThan p v v" and "crg_SnapshotRetentionLimit cfg \<noteq> None" and m: "m = group_update p offers cfg g cls r"
  shows "group_update p offers cfg (modified_group m g) (map (modified_cluster m) cls) r = no_group_modification (rg_ReplicationGroupId g)"
proof -
  have "\<not> type_step offers cfg (modified_group m g) (map (modified_cluster m) cls)"
    by (auto simp: m type_step_def modified_group_def group_update_fields modified_cluster_def offered_def)
  moreover have "rg_SnapshotRetentionLimit (modified_group m g) = None \<or> rg_SnapshotRetentionLimit (modified_group m g) = crg_SnapshotRetentionLimit cfg"
    using assms(2) by (cases "crg_SnapshotRetentionLimit cfg") (auto simp: m modified_group_def group_update_fields)
  moreover have "foldl (cluster_step p cfg) mi (map (modified_cluster m) cls) = mi" for mi
    using settled_modified [OF _ assms(1)] by (intro settled_loop) (auto simp: m)
  ultimately show ?thesis
    unfolding group_update_def by (auto simp: no_group_modification_def)
qed

text \<open>
  The update of a replication group converges: with a complete configuration and clusters whose settings are
  known the computation neither panics nor fails; a node type is changed only when it is offered in the zones of
  all clusters; and when the modification it returns has been applied to the group and its clusters, it returns
  none. Versions are compared by an irreflexive order and the offer of node types does not change.
\<close>

theorem redis_update_converges:
  assumes offers: "\<And>n w. ec2_InstanceTypeLocations c n w = (Inr (offers n), w)" and cfg: "complete_group cfg"
    and known: "\<forall>cl \<in> set cls. readable p cfg cl" and irrefl: "\<And>v. \<not> ver_LessThan p v v"
  shows "\<exists>result. buildElasticacheUpdateStrategy p c cfg g cls r s = (Val result, s) \<and> (\<forall>m. result = Some m \<longrightarrow>
     (mrg_CacheNodeType m \<noteq> None \<longrightarrow> (\<exists>wanted. crg_CacheNodeType cfg = Some wanted \<and> mrg_CacheNodeType m = Some wanted \<and>
        offered (offers (remove_first ''cache.'' wanted)) cls)) \<and>
     buildElasticacheUpdateStrategy p c cfg (modified_group m g) (map (modified_cluster m) cls) r s = (Val None, s))"
proof -
  have limit: "crg_SnapshotRetentionLimit cfg \<noteq> None" using cfg by (simp add: complete_group_def)
  note pure = buildElasticacheUpdateStrategy_pure [OF offers limit]
  define m where "m = group_update p offers cfg g cls r"
  have "mrg_EngineVersion m = None \<or> mrg_EngineVersion m = crg_EngineVersion cfg"
    by (simp add: m_def group_update_fields)
  then have "\<forall>cl \<in> set (map (modified_cluster m) cls). readable p cfg cl" using known by (auto intro: readable_modified)
  then have again: "buildElasticacheUpdateStrategy p c cfg (modified_group m g) (map (modified_cluster m) cls) r s = (Val None, s)"
    using group_update_settled [OF irrefl limit m_def] by (simp add: pure Let_def ret_def)
  have "mrg_CacheNodeType m \<noteq> None \<longrightarrow> (\<exists>wanted. crg_CacheNodeType cfg = Some wanted \<and> mrg_CacheNodeType m = Some wanted \<and>
      offered (offers (remove_first ''cache.'' wanted)) cls)"
    by (auto simp: m_def group_update_fields type_step_def)
  then show ?thesis using again known by (simp add: pure Let_def m_def [symmetric] ret_def)
qed

end
