(* ===== verification/AWS_RDS_Liveness.thy ===== *)
theory AWS_RDS_Liveness
  imports AWS_RDS_Safety
begin

text \<open>
  The deletion of a Postgres resource ends: repeated passes of the provider lift the protection of its instance,
  delete it and, when RDS has finished, release the resource.
\<close>

section \<open>Operations that return and leave the outside as it is\<close>

text \<open>\<open>calm m\<close>: \<open>m\<close> does not panic and the outside does not change; \<open>harmless m\<close>: moreover it returns a value.\<close>

definition calm :: "(('w, 'e) sys, 'a) op \<Rightarrow> bool" where
  "calm m \<longleftrightarrow> (\<forall>s. \<exists>r tr. m s = (r, s\<lparr>trace := tr\<rparr>) \<and> (\<forall>a. r \<noteq> Abort a))"

definition harmless :: "(('w, 'e) sys, 'a) op \<Rightarrow> bool" where
  "harmless m \<longleftrightarrow> (\<forall>s. \<exists>x tr. m s = (Val x, s\<lparr>trace := tr\<rparr>))"

named_theorems calm_rules \<open>operations that leave the outside as it is\<close>

lemma same_trace: "s = s\<lparr>trace := trace s\<rparr>" for s :: "('w, 'e) sys" by simp

lemma calm_harmless: "harmless m \<Longrightarrow> calm m"
  unfolding calm_def harmless_def by (metis res.distinct(3))

lemma harmless_ret [calm_rules]: "harmless (ret x)"
  unfolding harmless_def ret_def by (metis same_trace)

lemma harmless_set_metric [calm_rules]: "harmless (set_metric name ls x)"
  by (auto simp: harmless_def set_metric_def)

lemma harmless_otherwise [calm_rules]:
  assumes m: "calm m" and f: "\<And>x. harmless (f x)"
  shows "harmless (otherwise m h f)"
  unfolding harmless_def
proof
  fix s
  obtain r tr where r: "m s = (r, s\<lparr>trace := tr\<rparr>)" "\<forall>a. r \<noteq> Abort a" using m unfolding calm_def by blast
  show "\<exists>x tr. otherwise m h f s = (Val x, s\<lparr>trace := tr\<rparr>)"
  proof (cases r)
    case (Val x)
    obtain y tr' where "f x (s\<lparr>trace := tr\<rparr>) = (Val y, s\<lparr>trace := tr\<rparr>\<lparr>trace := tr'\<rparr>)" using f unfolding harmless_def by blast
    then show ?thesis using r Val by (auto simp: otherwise_apply)
  qed (use r in \<open>auto simp: otherwise_apply\<close>)
qed

lemma harmless_andThen [calm_rules]:
  assumes m: "harmless m" and f: "\<And>x. harmless (f x)"
  shows "harmless (andThen m f)"
  unfolding harmless_def
proof
  fix s
  obtain x tr where "m s = (Val x, s\<lparr>trace := tr\<rparr>)" using m unfolding harmless_def by blast
  moreover obtain y tr' where "f x (s\<lparr>trace := tr\<rparr>) = (Val y, s\<lparr>trace := tr\<rparr>\<lparr>trace := tr'\<rparr>)" using f unfolding harmless_def by blast
  ultimately show "\<exists>x tr. andThen m f s = (Val x, s\<lparr>trace := tr\<rparr>)" by (auto simp: andThen_apply)
qed

lemma calm_query: assumes "\<And>w. snd (f w) = w" shows "calm (query f)"
  unfolding calm_def
proof
  fix s :: "('a, 'c) sys"
  obtain r where r: "f (world s) = (r, world s)" using assms [of "world s"] by (cases "f (world s)") simp
  show "\<exists>r tr. query f s = (r, s\<lparr>trace := tr\<rparr>) \<and> (\<forall>a. r \<noteq> Abort a)"
    by (rule exI [where x = "case r of Inl e \<Rightarrow> Fail e | Inr x \<Rightarrow> Val x"], rule exI [where x = "trace s"])
       (simp add: query_def r split: sum.split)
qed

lemma harmless_ask [calm_rules]: assumes "\<And>w. snd (f w) = w" shows "harmless (ask f)"
  unfolding harmless_def
proof
  fix s :: "('a, 'c) sys"
  obtain r where "f (world s) = (r, world s)" using assms [of "world s"] by (cases "f (world s)") simp
  then show "\<exists>x tr. ask f s = (Val x, s\<lparr>trace := tr\<rparr>)" by (intro exI [where x = r] exI [where x = "trace s"]) (simp add: ask_def)
qed

lemma harmless_for_each [calm_rules]: "(\<And>x. harmless (f x)) \<Longrightarrow> harmless (for_each f xs)"
  by (induction xs) (auto intro: calm_rules)

lemma harmless_option [calm_rules]:
  "(x = None \<Longrightarrow> harmless m) \<Longrightarrow> (\<And>y. x = Some y \<Longrightarrow> harmless (f y)) \<Longrightarrow> harmless (case x of None \<Rightarrow> m | Some y \<Rightarrow> f y)"
  by (cases x) auto

lemma harmless_deref [calm_rules]: "x \<noteq> None \<Longrightarrow> harmless (deref x)"
  by (auto intro: calm_rules)

section \<open>What the outside is relied on for\<close>

text \<open>The reads of a pass return and change nothing.\<close>

definition steady_reads :: "'w awsProvider \<Rightarrow> 'w cloud \<Rightarrow> infrastructure \<Rightarrow> bool" where
  "steady_reads p c infra \<longleftrightarrow> (\<forall>w. kube_GetInfrastructure (ap_Client p) ''cluster'' w = (Inr infra, w)) \<and>
     (\<forall>w. snd (ap_Now p w) = w) \<and> (\<forall>ty w. snd (ec2_DescribeInstanceTypes c ty w) = w)"

text \<open>
  \<open>rds_service\<close>: RDS lists its instances \<open>account w\<close>, each with an identifier, and does to the instance \<open>ident\<close> what it
  is asked. \<open>settle\<close> is what happens between two passes: an instance that is being deleted is gone and any other is
  available again.
\<close>

definition target :: "string \<Rightarrow> dbInstance list \<Rightarrow> dbInstance option" where
  "target ident insts = find (\<lambda>i. dbi_DBInstanceIdentifier i = Some ident) insts"

definition settled :: "dbInstance option \<Rightarrow> dbInstance option" where
  "settled found = (case found of None \<Rightarrow> None
     | Some i \<Rightarrow> if dbi_DBInstanceStatus i = Some ''deleting'' then None else Some (i\<lparr>dbi_DBInstanceStatus := Some ''available''\<rparr>))"

definition rds_service :: "('w \<Rightarrow> dbInstance list) \<Rightarrow> ('w \<Rightarrow> 'w) \<Rightarrow> string \<Rightarrow> 'w cloud \<Rightarrow> bool" where
  "rds_service account settle ident c \<longleftrightarrow>
     (\<forall>w. rds_DescribeDBInstances c w = (Inr (account w), w) \<and> (\<forall>i \<in> set (account w). dbi_DBInstanceIdentifier i \<noteq> None)) \<and>
     (\<forall>m w. mdi_DBInstanceIdentifier m = Some ident \<longrightarrow> (\<exists>w'. aws_Exec (cl_Aws c) (ReqModifyDBInstance m) w = (Inr (), w') \<and>
        target ident (account w') = map_option (modified m) (target ident (account w)))) \<and>
     (\<forall>d w. ddi_DBInstanceIdentifier d = Some ident \<longrightarrow> (\<exists>w'. aws_Exec (cl_Aws c) (ReqDeleteDBInstance d) w = (Inr (), w') \<and>
        target ident (account w') = map_option (\<lambda>i. i\<lparr>dbi_DBInstanceStatus := Some ''deleting''\<rparr>) (target ident (account w)))) \<and>
     (\<forall>w. target ident (account (settle w)) = settled (target ident (account w)))"

lemma rds_serviceD:
  assumes "rds_service account settle ident c"
  shows "rds_DescribeDBInstances c w = (Inr (account w), w)" and "\<forall>i \<in> set (account w). dbi_DBInstanceIdentifier i \<noteq> None"
    and "mdi_DBInstanceIdentifier m = Some ident \<Longrightarrow> \<exists>w'. aws_Exec (cl_Aws c) (ReqModifyDBInstance m) w = (Inr (), w') \<and>
      target ident (account w') = map_option (modified m) (target ident (account w))"
    and "ddi_DBInstanceIdentifier d = Some ident \<Longrightarrow> \<exists>w'. aws_Exec (cl_Aws c) (ReqDeleteDBInstance d) w = (Inr (), w') \<and>
      target ident (account w') = map_option (\<lambda>i. i\<lparr>dbi_DBInstanceStatus := Some ''deleting''\<rparr>) (target ident (account w))"
    and "target ident (account (settle w)) = settled (target ident (account w))"
  using assms unfolding rds_service_def by blast+

text \<open>The API server accepts the last two steps.\<close>

definition accepts_release :: "'w awsProvider \<Rightarrow> bool" where
  "accepts_release p \<longleftrightarrow> (\<forall>n w. case fst (kube_DeleteSecret (ap_Client p) n w) of Inl e \<Rightarrow> k8s_IsNotFound e | Inr _ \<Rightarrow> True) \<and>
     (\<forall>inst w. \<exists>stored w'. kube_Update (ap_Client p) Postgres inst w = (Inr stored, w'))"

text \<open>The identifier of the instance that is deleted.\<close>

definition deletion_target :: "infrastructure \<Rightarrow> cr \<Rightarrow> createDBInstanceInput \<Rightarrow> deleteDBInstanceInput \<Rightarrow> string" where
  "deletion_target infra pg cc dc = (case ddi_DBInstanceIdentifier dc of Some x \<Rightarrow> x
     | None \<Rightarrow> (case cdi_DBInstanceIdentifier cc of Some x \<Rightarrow> x
       | None \<Rightarrow> ShortenString (infra_InfrastructureName infra @ ''-'' @ om_Namespace (cr_meta pg) @ ''-'' @ om_Name (cr_meta pg)) defaultAwsIdentifierLength))"

section \<open>One pass\<close>

lemma GetClusterID_steady: "steady_reads p c infra \<Longrightarrow> GetClusterID (ap_Client p) s = (Val (infra_InfrastructureName infra), s)"
  by (simp add: GetClusterID_def GetClusterInfrastructure_def query_def op_simps steady_reads_def)

lemma harmless_eqI: "(\<And>s. m s = (Val x, s)) \<Longrightarrow> harmless m"
  unfolding harmless_def by (metis same_trace)

lemma harmless_steady:
  assumes "steady_reads p c infra"
  shows "harmless (GetClusterID (ap_Client p))" "harmless (metric_name_of p inst)" "harmless (ask (ap_Now p))" "calm (query (ec2_DescribeInstanceTypes c ty))"
  using assms
  by (auto intro!: harmless_eqI harmless_ask calm_query
      simp: GetClusterID_steady [OF assms] metric_name_of_def buildInstanceName_def BuildInfraNameFromObject_def op_simps steady_reads_def)

lemma harmless_metrics:
  assumes steady: "steady_reads p c infra" and "dbi_DBInstanceStatus i \<noteq> None" "dbi_DBInstanceClass i \<noteq> None"
  shows "harmless (exposePostgresMetrics p c pg (Some i))"
proof -
  have memory: "harmless (setPostgresMaxMemoryMetric types ls)" for types ls
    unfolding setPostgresMaxMemoryMetric_def by (auto intro: calm_rules split: list.split option.split)
  show ?thesis
    unfolding exposePostgresMetrics_def SetMetricCurrentTime_def expose_phases_def rdsInstanceStatusIsHealthy_def Let_def option.case
    by (intro calm_rules memory harmless_steady [OF steady] calm_harmless [OF harmless_steady(1) [OF steady]]) (use assms(2,3) in auto)
qed

lemma buildRDSDeleteConfig_steady:
  assumes steady: "steady_reads p c infra"
  shows "\<exists>cfg. buildRDSDeleteConfig p pg cc dc s = (Val cfg, s) \<and> ddi_DBInstanceIdentifier cfg = Some (deletion_target infra pg cc dc)"
proof -
  obtain now where now: "ap_Now p (world s) = (now, world s)"
    using assms unfolding steady_reads_def by (metis prod.collapse)
  have name: "BuildInfraNameFromObject (ap_Client p) (cr_meta pg) defaultAwsIdentifierLength s =
      (Val (ShortenString (infra_InfrastructureName infra @ ''-'' @ om_Namespace (cr_meta pg) @ ''-'' @ om_Name (cr_meta pg)) defaultAwsIdentifierLength), s)" for s :: "('a, cloud_req event) sys"
    by (simp add: BuildInfraNameFromObject_def GetClusterID_steady [OF steady] op_simps)
  obtain snap where snap: "timestamped_name p pg s = (Val snap, s)"
    by (simp add: timestamped_name_def ask_def now op_simps BuildTimestampedInfraNameFromObject_def GetClusterID_steady [OF steady])
  show ?thesis
    by (auto simp: buildRDSDeleteConfig_def Let_def op_simps name snap deletion_target_def or_default_def split: option.split)
qed

text \<open>What a pass does to the instance, and that it releases the resource when the instance is gone.\<close>

definition reported :: "dbInstance \<Rightarrow> bool" where
  "reported i \<longleftrightarrow> dbi_DBInstanceStatus i \<noteq> None \<and> dbi_DBInstanceClass i \<noteq> None \<and> dbi_DeletionProtection i \<noteq> None"

definition after_pass :: "dbInstance \<Rightarrow> dbInstance" where
  "after_pass i = (if dbi_DBInstanceStatus i \<noteq> Some ''available'' then i
     else if dbi_DeletionProtection i = Some False then i\<lparr>dbi_DBInstanceStatus := Some ''deleting''\<rparr>
     else modified ((no_modification (dbi_DBInstanceIdentifier i))\<lparr>mdi_DeletionProtection := Some False\<rparr>) i)"

lemma exec_apply: "aws_Exec a req (world s) = (Inr (), w) \<Longrightarrow> exec a req s = (Val (), s\<lparr>world := w, trace := trace s @ [EvCloud req True]\<rparr>)"
  by (simp add: exec_def request_def)

lemma pass_delete_found:
  assumes steady: "steady_reads p c infra" and rds: "rds_service account settle ident c" and i: "target ident (account (world s)) = Some i" "reported i"
    and cfg: "ddi_DBInstanceIdentifier cfg = Some ident"
  shows "\<exists>r t. delete_found_instance p c pg cfg i s = (Val r, t) \<and> target ident (account (world t)) = Some (after_pass i)"
proof -
  have ident: "dbi_DBInstanceIdentifier i = Some ident" using i(1) unfolding target_def by (auto dest: find_Some_set)
  obtain status cls protection where st: "dbi_DBInstanceStatus i = Some status" "dbi_DBInstanceClass i = Some cls" "dbi_DeletionProtection i = Some protection"
    using i(2) by (auto simp: reported_def)
  have "harmless (exposePostgresMetrics p c pg (Some i))" by (rule harmless_metrics [OF steady]) (simp_all add: st)
  then obtain tr where m: "exposePostgresMetrics p c pg (Some i) s = (Val (), s\<lparr>trace := tr\<rparr>)" unfolding harmless_def by fastforce
  let ?req = "(no_modification (Some ident))\<lparr>mdi_DeletionProtection := Some False\<rparr>"
  obtain w1 where w1: "aws_Exec (cl_Aws c) (ReqModifyDBInstance ?req) (world s) = (Inr (), w1)" "target ident (account w1) = Some (modified ?req i)"
    using rds_serviceD(3) [OF rds, of ?req "world s"] i(1) by (auto simp: no_modification_def)
  obtain w2 where w2: "aws_Exec (cl_Aws c) (ReqDeleteDBInstance cfg) (world s) = (Inr (), w2)"
      "target ident (account w2) = Some (i\<lparr>dbi_DBInstanceStatus := Some ''deleting''\<rparr>)"
    using rds_serviceD(4) [OF rds cfg, of "world s"] i(1) by auto
  consider "status \<noteq> ''available''" | "status = ''available''" "protection" | "status = ''available''" "\<not> protection" by blast
  then show ?thesis
  proof cases
    case 1
    then show ?thesis using i(1) by (simp add: delete_found_instance_def op_simps m st after_pass_def)
  next
    case 2
    then show ?thesis using w1 by (simp add: delete_found_instance_def op_simps m st after_pass_def cfg ident exec_apply [of _ _ "s\<lparr>trace := tr\<rparr>" w1])
  next
    case 3
    then show ?thesis using w2 by (simp add: delete_found_instance_def op_simps m st after_pass_def exec_apply [of _ _ "s\<lparr>trace := tr\<rparr>" w2])
  qed
qed

lemma getRDSInstances_steady: "rds_service account settle ident c \<Longrightarrow> getRDSInstances c s = (Val (account (world s)), s)"
  by (subst getRDSInstances_def, subst poll.simps) (simp add: op_simps query_def rds_service_def)

lemma pass_steady:
  assumes steady: "steady_reads p c infra" and rds: "rds_service account settle (deletion_target infra pg cc dc) c"
  shows "\<exists>cfg. ddi_DBInstanceIdentifier cfg = Some (deletion_target infra pg cc dc) \<and> deleteRDSInstance p c n pg cc dc isEnabled isLast s =
    (case target (deletion_target infra pg cc dc) (account (world s)) of
       Some i \<Rightarrow> delete_found_instance p c pg cfg i | None \<Rightarrow> release_postgres p n isEnabled isLast pg) s"
proof -
  obtain cfg where cfg: "buildRDSDeleteConfig p pg cc dc s = (Val cfg, s)" "ddi_DBInstanceIdentifier cfg = Some (deletion_target infra pg cc dc)"
    using buildRDSDeleteConfig_steady [OF steady] by blast
  show ?thesis
    using cfg by (intro exI [where x = cfg])
      (simp add: deleteRDSInstance_def op_simps getRDSInstances_steady [OF rds] target_def getFoundInstance_find [OF rds_serviceD(2) [OF rds]])
qed

section \<open>Repeated passes\<close>

text \<open>The controller calls the provider again and again; RDS works in between.\<close>

fun passes :: "(('w, 'e) sys, 'a) op \<Rightarrow> ('w \<Rightarrow> 'w) \<Rightarrow> nat \<Rightarrow> ('w, 'e) sys \<Rightarrow> ('w, 'e) sys" where
  "passes pass settle 0 s = s"
| "passes pass settle (Suc k) s = passes pass settle k (let t = snd (pass s) in t\<lparr>world := settle (world t)\<rparr>)"

text \<open>How many more passes an instance takes at most.\<close>

definition rank :: "dbInstance option \<Rightarrow> nat" where
  "rank found = (case found of None \<Rightarrow> 0
     | Some i \<Rightarrow> if dbi_DBInstanceStatus i = Some ''deleting'' then 1
                 else if dbi_DBInstanceStatus i = Some ''available'' then (if dbi_DeletionProtection i = Some False then 1 else 2) else 3)"

lemma rank_decreases: "rank (settled (Some (after_pass i))) < rank (Some i)"
  by (auto simp: rank_def settled_def after_pass_def modified_def no_modification_def override_def)

lemma reported_settled: "reported i \<Longrightarrow> settled (Some (after_pass i)) = Some j \<Longrightarrow> reported j"
  by (auto simp: reported_def settled_def after_pass_def modified_def no_modification_def override_def split: if_splits)

lemma passes_reach_none:
  fixes pg :: cr and p :: "'w awsProvider" and c :: "'w cloud" and n :: "'w NetworkProvider" and cc :: createDBInstanceInput and dc :: deleteDBInstanceInput
    and isEnabled isLast :: bool and s :: "('w, cloud_req event) sys"
  defines "pass \<equiv> deleteRDSInstance p c n pg cc dc isEnabled isLast"
  assumes steady: "steady_reads p c infra" and rds: "rds_service account settle (deletion_target infra pg cc dc) c"
    and reported: "\<And>i. target (deletion_target infra pg cc dc) (account (world s)) = Some i \<Longrightarrow> reported i"
    and bound: "rank (target (deletion_target infra pg cc dc) (account (world s))) \<le> m"
  shows "\<exists>k \<le> m. target (deletion_target infra pg cc dc) (account (world (passes pass settle k s))) = None"
  using reported bound
proof (induction m arbitrary: s)
  case 0
  then have "target (deletion_target infra pg cc dc) (account (world s)) = None"
    by (cases "target (deletion_target infra pg cc dc) (account (world s))") (auto simp: rank_def split: if_splits)
  then show ?case by simp
next
  case (Suc m)
  let ?target = "\<lambda>s :: ('w, cloud_req event) sys. target (deletion_target infra pg cc dc) (account (world s))"
  show ?case
  proof (cases "?target s")
    case None
    then show ?thesis by (intro exI [where x = 0]) simp
  next
    case (Some i)
    obtain r t where t: "pass s = (Val r, t)" "?target t = Some (after_pass i)"
      using pass_steady [OF steady rds, where s = s] pass_delete_found [OF steady rds Some] Suc.prems(1) [OF Some] unfolding pass_def Some
      by (smt (verit) option.case(2))
    define s' where "s' = t\<lparr>world := settle (world t)\<rparr>"
    have target': "?target s' = settled (Some (after_pass i))" using rds_serviceD(5) [OF rds, of "world t"] t(2) by (simp add: s'_def)
    have "\<exists>k \<le> m. ?target (passes pass settle k s') = None"
    proof (rule Suc.IH)
      show "reported j" if "?target s' = Some j" for j using reported_settled [OF Suc.prems(1) [OF Some]] that target' by simp
      show "rank (?target s') \<le> m" using rank_decreases [of i] Suc.prems(2) unfolding target' Some by simp
    qed
    then obtain k where "k \<le> m" "?target (passes pass settle k s') = None" by blast
    then show ?thesis using t(1) by (intro exI [where x = "Suc k"]) (simp add: s'_def)
  qed
qed

lemma release_completes:
  assumes acc: "accepts_release p" and net: "\<And>s. \<exists>t. remove_network p n isEnabled isLast pg s = (Val None, t)"
    and fin: "RemoveFinalizer (cr_meta pg) DefaultFinalizer = Some om"
  shows "\<exists>stored t. release_postgres p n isEnabled isLast pg s = (Val (('''', None), stored), t) \<and>
    trace t \<noteq> [] \<and> last (trace t) = EvUpdate Postgres (pg\<lparr>cr_meta := om\<rparr>) True"
proof -
  obtain t1 where t1: "remove_network p n isEnabled isLast pg s = (Val None, t1)" using net by blast
  have fin': "\<exists>stored t. remove_finalizer p Postgres pg u = (Val (('''', None), stored), t) \<and> trace t = trace u @ [EvUpdate Postgres (pg\<lparr>cr_meta := om\<rparr>) True]" for u
  proof -
    obtain stored w where "kube_Update (ap_Client p) Postgres (pg\<lparr>cr_meta := om\<rparr>) (world u) = (Inr stored, w)" using acc unfolding accepts_release_def by blast
    then show ?thesis by (simp add: remove_finalizer_def fin Let_def op_simps update_cr_def request_def)
  qed
  obtain r w where d: "kube_DeleteSecret (ap_Client p) (credential_secret_name pg) (world t1) = (r, w)" by fastforce
  have nf: "k8s_IsNotFound e" if "r = Inl e" for e
    using acc d that unfolding accepts_release_def by (metis fst_conv sum.case(1))
  obtain stored t where "remove_finalizer p Postgres pg (t1\<lparr>world := w, trace := trace t1 @ [EvDeleteSecret (credential_secret_name pg) (ok r)]\<rparr>) =
      (Val (('''', None), stored), t)" "last (trace t) = EvUpdate Postgres (pg\<lparr>cr_meta := om\<rparr>) True" "trace t \<noteq> []"
    using fin' by fastforce
  then show ?thesis
    using t1 d nf by (cases r) (auto simp: release_postgres_def op_simps request_def)
qed


end
