(* ===== verification/AWS_Network_Subnets.thy ===== *)
theory AWS_Network_Subnets
  imports AWS_Network_Safety
begin

text \<open>
  The subnets of the network: the halves of the standalone block and the subnets that are created in them,
  and the private /27 subnets that are added to the cluster VPC.
\<close>

section \<open>The two halves of the standalone block\<close>

lemma half_subnets_eq:
  assumes "wf_net net" and "vpc_CidrBlock v = Some (net_String net)" and "1 \<le> mask_Size (net_Mask net)" and "mask_Size (net_Mask net) < 27"
  shows "half_subnets a v s = (Val (subnets_of (net_base net) (Suc (mask_Size (net_Mask net))) 2), s)"
proof -
  let ?k = "Suc (mask_Size (net_Mask net))"
  let ?to = "\<lparr>net_IP = net_IP net, net_Mask = mask_bytes 4 ?k\<rparr>"
  have to: "wf_net ?to" "net_base ?to = net_base net" "mask_Size (net_Mask ?to) = ?k"
    using assms mask_finer [of net ?k] by (simp_all add: wf_net_def net_base_def)
  have p: "ParseCIDR (ip_String (net_IP net) @ ''/'' @ itoa_nat ?k) = Inr (v4InV6Prefix @ net_IP net, ?to)"
    using ParseCIDR_text [of "net_IP net" ?k] assms mask_finer [of net ?k] by (simp add: ip_String_wf)
  show ?thesis
    using assms to p generateAvailableSubnets_eq [OF assms(1) to(1,2)]
    by (simp add: half_subnets_def net_String_nonempty ParseCIDR_net_String defaultSubnetMask_def defaultNumberOfExpectedSubnets_def op_simps Let_def)
qed

text \<open>
  The standalone block is split into two halves: for every VPC block from /1 to /26 the split succeeds
  and gives two networks with a mask one longer that share no address and together have exactly the
  addresses of the block; the error for a wrong number of subnets cannot occur.
\<close>

theorem half_subnets_partition:
  assumes "wf_net net" and "vpc_CidrBlock v = Some (net_String net)" and "1 \<le> mask_Size (net_Mask net)" and "mask_Size (net_Mask net) < 27"
  shows "\<exists>lo hi. half_subnets a v s = (Val [lo, hi], s) \<and> wf_net lo \<and> wf_net hi \<and>
    mask_Size (net_Mask lo) = Suc (mask_Size (net_Mask net)) \<and> mask_Size (net_Mask hi) = Suc (mask_Size (net_Mask net)) \<and>
    addresses lo \<inter> addresses hi = {} \<and> addresses lo \<union> addresses hi = addresses net"
proof -
  let ?k = "Suc (mask_Size (net_Mask net))" and ?b = "net_base net"
  have size: "net_size net = 2 * 2 ^ (32 - ?k)" using assms(4) by (simp add: net_size_def Suc_diff_Suc flip: power_Suc)
  have dv: "2 ^ (32 - ?k) dvd ?b" using wf_net_aligned [OF assms(1)] size by (metis dvd_mult_right)
  have le: "?b + 2 * 2 ^ (32 - ?k) \<le> 2 ^ 32" using net_end_le [OF assms(1)] size by simp
  note part = subnets_of_partition [OF dv _ le]
  obtain lo hi where lh: "subnets_of ?b ?k 2 = [lo, hi]" by (simp add: subnets_of_def numeral_2_eq_2)
  have "addresses lo \<inter> addresses hi = {}" using part(3) [of 0 1] assms(4) lh by simp
  moreover have "addresses lo \<union> addresses hi = addresses net" using part(2) assms(4) lh by (simp add: addresses_def size)
  moreover have "wf_net lo \<and> mask_Size (net_Mask lo) = ?k" "wf_net hi \<and> mask_Size (net_Mask hi) = ?k"
    using part(1) assms(4) unfolding lh by simp_all
  moreover have "half_subnets a v s = (Val [lo, hi], s)" using half_subnets_eq [OF assms] unfolding lh .
  ultimately show ?thesis by blast
qed

section \<open>Adding a private subnet\<close>

text \<open>The loop over the potential blocks, when AWS rejects exactly the blocks that conflict.\<close>

lemma try_subnets_eq:
  assumes "\<And>c w. aws_CreateSubnet a zone c vpcId [] w = (if taken c then Inl (ErrAws ''InvalidSubnet.Conflict'' m) else Inr (mk c), w)"
  shows "try_subnets k a vpcId zone blocks s =
    (case dropWhile (\<lambda>b. taken (net_String b)) blocks of
       [] \<Rightarrow> (Fail (ErrNew ''failed to create subnet''), s\<lparr>trace := trace s @ map (\<lambda>b. EvCloud (ReqCreateSubnet zone (net_String b) vpcId []) False) blocks\<rparr>)
     | b # _ \<Rightarrow> andThen (tagPrivateSubnet k a (mk (net_String b))) (\<lambda>_. ret (mk (net_String b)))
         (s\<lparr>trace := trace s @ map (\<lambda>b. EvCloud (ReqCreateSubnet zone (net_String b) vpcId []) False) (takeWhile (\<lambda>b. taken (net_String b)) blocks) @
                      [EvCloud (ReqCreateSubnet zone (net_String b) vpcId []) True]\<rparr>))"
proof (induction blocks arbitrary: s)
  case Nil
  show ?case by (simp add: op_simps)
next
  case (Cons b bs)
  have cr: "create (aws_CreateSubnet a zone (net_String b) vpcId []) req s =
      (if taken (net_String b) then (Fail (ErrAws ''InvalidSubnet.Conflict'' m), s\<lparr>trace := trace s @ [EvCloud req False]\<rparr>)
       else (Val (mk (net_String b)), s\<lparr>trace := trace s @ [EvCloud req True]\<rparr>))" for req
    by (simp add: create_def request_def assms)
  show ?case
  proof (cases "taken (net_String b)")
    case True
    then have "try_subnets k a vpcId zone (b # bs) s =
        try_subnets k a vpcId zone bs (s\<lparr>trace := trace s @ [EvCloud (ReqCreateSubnet zone (net_String b) vpcId []) False]\<rparr>)"
      by (simp add: attempt_apply andThen_apply cr aws_code_def)
    then show ?thesis using True unfolding Cons.IH
      by (cases "dropWhile (\<lambda>b. taken (net_String b)) bs") (simp_all del: dropWhile_eq_Nil_conv try_subnets.simps)
  next
    case False
    then show ?thesis by (simp add: attempt_apply andThen_apply cr)
  qed
qed

text \<open>
  A private subnet of the cluster VPC gets the highest free /27 block: when AWS rejects exactly the
  blocks that conflict with another subnet, the blocks of the VPC are tried from the highest on, each
  conflict moves on to the next, the first free one is created and tagged, and the operation fails exactly
  when every /27 block of the VPC is taken. It always returns.
\<close>

theorem createPrivateSubnet_highest_free:
  assumes "wf_net net" and "vpc_CidrBlock v = Some (net_String net)" and "vpc_VpcId v = Some vpcId"
    and "1 \<le> mask_Size (net_Mask net)" and "mask_Size (net_Mask net) < 27"
    and "\<And>c w. aws_CreateSubnet a zone c vpcId [] w = (if taken c then Inl (ErrAws ''InvalidSubnet.Conflict'' m) else Inr (mk c), w)"
  shows "\<exists>blocks. blocks = rev (subnets_of (net_base net) 27 (2 ^ (27 - mask_Size (net_Mask net)))) \<and>
    createPrivateSubnet k a v zone s =
    (case dropWhile (\<lambda>b. taken (net_String b)) blocks of
       [] \<Rightarrow> (Fail (ErrNew ''failed to create subnet''), s\<lparr>trace := trace s @ map (\<lambda>b. EvCloud (ReqCreateSubnet zone (net_String b) vpcId []) False) blocks\<rparr>)
     | b # _ \<Rightarrow> andThen (tagPrivateSubnet k a (mk (net_String b))) (\<lambda>_. ret (mk (net_String b)))
         (s\<lparr>trace := trace s @ map (\<lambda>b. EvCloud (ReqCreateSubnet zone (net_String b) vpcId []) False) (takeWhile (\<lambda>b. taken (net_String b)) blocks) @
                      [EvCloud (ReqCreateSubnet zone (net_String b) vpcId []) True]\<rparr>))"
  using buildSubnetAddress_eq [OF assms(1,4,5)] try_subnets_eq [OF assms(6)] assms(2,3)
  by (simp add: createPrivateSubnet_def op_simps)

section \<open>The subnets of the standalone VPC\<close>

lemma subnetExists_eq:
  "\<forall>sub \<in> set subs. sub_CidrBlock sub \<noteq> None \<Longrightarrow> subnetExists subs c = ret (\<exists>sub \<in> set subs. sub_CidrBlock sub = Some c)"
  by (induction subs) auto

definition subnet_event :: "cloud_req event \<Rightarrow> bool" where
  "subnet_event e = (case e of EvCloud (ReqCreateSubnet _ _ _ _) _ \<Rightarrow> True | _ \<Rightarrow> False)"

lemma subnet_event_simps [simp]:
  "subnet_event (EvCloud (ReqCreateSubnet z c v ts) b)" "\<not> subnet_event (EvCloud (ReqCreateTags i ts') b)"
  by (simp_all add: subnet_event_def)

lemma only_tag_not_subnet: "only (\<lambda>e. \<not> subnet_event e) (tagPrivateSubnet k a sub)"
  unfolding tagPrivateSubnet_def by (intro only_rules only_exec) simp_all

text \<open>Documented behaviour of EC2: a created subnet has the requested block, and every subnet has one.\<close>

definition creates_requested_block :: "'w aws \<Rightarrow> bool" where
  "creates_requested_block a \<longleftrightarrow> (\<forall>z c v ts w sub w'. aws_CreateSubnet a z c v ts w = (Inr sub, w') \<longrightarrow> sub_CidrBlock sub = Some c)"

lemma requested_blockD:
  "creates_requested_block a \<Longrightarrow> aws_CreateSubnet a z c v ts w = (Inr sub, w') \<Longrightarrow> sub_CidrBlock sub = Some c"
  unfolding creates_requested_block_def by blast

definition describes_blocks :: "'w aws \<Rightarrow> bool" where
  "describes_blocks a \<longleftrightarrow> (\<forall>w subs w'. aws_DescribeSubnets a w = (Inr subs, w') \<longrightarrow> (\<forall>sub \<in> set subs. sub_CidrBlock sub \<noteq> None))"

text \<open>One step of the loop, when AWS returns the block that was asked for.\<close>

lemma ensure_subnet_step:
  assumes "creates_requested_block (np_Api n)"
    and "\<forall>sub \<in> set subs. sub_CidrBlock sub \<noteq> None" and "ensure_subnet n v ts subs e s = (Val subs', t)"
  shows "\<exists>es. trace t = trace s @ es \<and>
    (if \<exists>sub \<in> set subs. sub_CidrBlock sub = Some (net_String (nas_IP e)) then subs' = subs \<and> es = []
     else \<exists>sub vpcId z. subs' = subs @ [sub] \<and> sub_CidrBlock sub = Some (net_String (nas_IP e)) \<and> vpc_VpcId v = Some vpcId \<and> az_ZoneName (nas_AZ e) = Some z \<and>
       filter subnet_event es = [EvCloud (ReqCreateSubnet z (net_String (nas_IP e)) vpcId ts) True])"
proof (cases "\<exists>sub \<in> set subs. sub_CidrBlock sub = Some (net_String (nas_IP e))")
  case True
  then show ?thesis using assms(2,3) by (auto simp: ensure_subnet_def Let_def subnetExists_eq op_simps)
next
  case False
  let ?c = "net_String (nas_IP e)"
  obtain vpcId z where ids: "vpc_VpcId v = Some vpcId" "az_ZoneName (nas_AZ e) = Some z"
    using assms(2,3) False
    by (cases "vpc_VpcId v"; cases "az_ZoneName (nas_AZ e)") (auto simp: ensure_subnet_def Let_def subnetExists_eq op_simps)
  obtain sub s1 where c: "create (aws_CreateSubnet (np_Api n) z ?c vpcId ts) (ReqCreateSubnet z ?c vpcId ts) s = (Val sub, s1)"
    and tg: "(if np_IsSTSCluster n then ret () else tagPrivateSubnet (np_Client n) (np_Api n) sub) s1 = (Val (), t)" and subs': "subs' = subs @ [sub]"
    using assms(2,3) False ids
    by (auto simp: ensure_subnet_def Let_def subnetExists_eq op_simps split: prod.splits res.splits)
  have "sub_CidrBlock sub = Some ?c" using c assms(1) by (auto simp: create_def request_def split: prod.splits sum.splits dest: requested_blockD)
  moreover have tr1: "trace s1 = trace s @ [EvCloud (ReqCreateSubnet z ?c vpcId ts) True]"
    using c by (auto simp: create_def request_def split: prod.splits sum.splits)
  moreover have "only (\<lambda>e. \<not> subnet_event e) (if np_IsSTSCluster n then ret () else tagPrivateSubnet (np_Client n) (np_Api n) sub)"
    by (intro only_rules only_tag_not_subnet)
  then obtain es where "trace t = trace s1 @ es" "\<forall>e \<in> set es. \<not> subnet_event e" using onlyD tg by blast
  ultimately show ?thesis using False ids subs' by (auto simp: filter_empty_conv)
qed


fun block_of :: "cloud_req event \<Rightarrow> string" where
  "block_of (EvCloud (ReqCreateSubnet z c v ts) b) = c"
| "block_of _ = ''''"

text \<open>The blocks of the subnets that are requested, in order.\<close>

definition subnet_blocks :: "cloud_req event list \<Rightarrow> string list" where
  "subnet_blocks es = map block_of (filter subnet_event es)"

lemma subnet_blocks_simps [simp]: "subnet_blocks [] = []" "subnet_blocks (es @ fs) = subnet_blocks es @ subnet_blocks fs"
  by (simp_all add: subnet_blocks_def)

lemma subnet_blocks_none: "\<forall>e \<in> set es. \<not> subnet_event e \<Longrightarrow> subnet_blocks es = []"
  by (simp add: subnet_blocks_def filter_empty_conv)

definition has_block :: "subnet list \<Rightarrow> string \<Rightarrow> bool" where
  "has_block subs c \<longleftrightarrow> (\<exists>sub \<in> set subs. sub_CidrBlock sub = Some c)"

lemma associated_logged_subset: "associated_logged v subs s = (Val subs', t) \<Longrightarrow> set subs' \<subseteq> set subs"
  by (induction subs arbitrary: subs') (auto simp: op_simps deref_def split: option.splits if_splits prod.splits res.splits)

lemma poll_subnets_answer:
  "poll_subnets a n s = (Val subs, t) \<Longrightarrow> \<exists>w w'. aws_DescribeSubnets a w = (Inr subs, w')"
proof (induction n arbitrary: s)
  case 0
  then show ?case by (subst (asm) poll_subnets.simps) (auto simp: op_simps query_def split: prod.splits sum.splits intro!: exI)
next
  case (Suc n)
  then show ?case by (subst (asm) (2) poll_subnets.simps) (fastforce simp: op_simps query_def split: prod.splits sum.splits)
qed

lemma getVPCAssociatedSubnets_blocks:
  assumes "describes_blocks a"
    and "getVPCAssociatedSubnets a (Some v) s = (Val subs, t)"
  shows "\<forall>sub \<in> set subs. sub_CidrBlock sub \<noteq> None"
proof -
  obtain all s1 where p: "poll_subnets a (aws_polls a) s = (Val all, s1)" and as: "associated_logged v all s1 = (Val subs, t)"
    using assms(2) by (auto simp: getVPCAssociatedSubnets_def getSubnets_def op_simps split: prod.splits res.splits)
  show ?thesis using poll_subnets_answer [OF p] associated_logged_subset [OF as] assms(1) by (fastforce simp: describes_blocks_def)
qed

lemma ensure_subnet_blocks:
  assumes "creates_requested_block (np_Api n)"
    and "\<forall>sub \<in> set subs. sub_CidrBlock sub \<noteq> None" and "ensure_subnet n v ts subs e s = (Val subs', t)"
  shows "\<exists>es. trace t = trace s @ es \<and> subnet_blocks es = (if has_block subs (net_String (nas_IP e)) then [] else [net_String (nas_IP e)])"
    and "\<forall>sub \<in> set subs'. sub_CidrBlock sub \<noteq> None"
    and "has_block subs' c \<longleftrightarrow> has_block subs c \<or> c = net_String (nas_IP e)"
proof -
  from ensure_subnet_step [OF assms] obtain es where es: "trace t = trace s @ es"
    "if has_block subs (net_String (nas_IP e)) then subs' = subs \<and> es = []
     else \<exists>sub vpcId z. subs' = subs @ [sub] \<and> sub_CidrBlock sub = Some (net_String (nas_IP e)) \<and> vpc_VpcId v = Some vpcId \<and> az_ZoneName (nas_AZ e) = Some z \<and>
       filter subnet_event es = [EvCloud (ReqCreateSubnet z (net_String (nas_IP e)) vpcId ts) True]"
    unfolding has_block_def by blast
  show "\<exists>es. trace t = trace s @ es \<and> subnet_blocks es = (if has_block subs (net_String (nas_IP e)) then [] else [net_String (nas_IP e)])"
    using es by (intro exI [where x = es]) (auto simp: subnet_blocks_def split: if_splits)
  show "\<forall>sub \<in> set subs'. sub_CidrBlock sub \<noteq> None" using es(2) assms(2) by (auto split: if_splits)
  show "has_block subs' c \<longleftrightarrow> has_block subs c \<or> c = net_String (nas_IP e)" using es(2) by (auto simp: has_block_def split: if_splits)
qed

lemma half_texts_differ:
  assumes "wf_net net" and "1 \<le> mask_Size (net_Mask net)" and "mask_Size (net_Mask net) < 27"
    and "subnets_of (net_base net) (Suc (mask_Size (net_Mask net))) 2 = [lo, hi]"
  shows "net_String lo \<noteq> net_String hi"
proof
  assume eq: "net_String lo = net_String hi"
  let ?k = "Suc (mask_Size (net_Mask net))"
  have size: "net_size net = 2 * 2 ^ (32 - ?k)" using assms(3) by (simp add: net_size_def Suc_diff_Suc flip: power_Suc)
  have dv: "2 ^ (32 - ?k) dvd net_base net" using wf_net_aligned [OF assms(1)] size by (metis dvd_mult_right)
  have le: "net_base net + 2 * 2 ^ (32 - ?k) \<le> 2 ^ 32" using net_end_le [OF assms(1)] size by simp
  note part = subnets_of_partition [OF dv _ le]
  have wf: "wf_net lo" "wf_net hi" using part(1) assms(3) unfolding assms(4) by simp_all
  then have "lo = hi" using eq ParseCIDR_net_String by (metis Inr_inject prod.inject)
  moreover have "addresses lo \<inter> addresses hi = {}" using part(3) [of 0 1] assms(3) unfolding assms(4) by simp
  ultimately show False using base_in_addresses [of lo] by auto
qed

lemma only_ensure_subnet_tags: "only (\<lambda>e. \<not> subnet_event e) (ensure_subnet_tags n subs)"
  unfolding ensure_subnet_tags_def by (intro only_rules only_tag_not_subnet)

text \<open>The run as a chain of states.\<close>

lemma standalone_subnets_chain:
  assumes "half_subnets (np_Api n) v s = (Val [lo, hi], s)" and "reconcileStandaloneVPCSubnets n v s = (Val subs', t)"
  obtains subs s2 ts s3 a0 a1 subs1 s4 s5 where
    "\<exists>s1. getVPCAssociatedSubnets (np_Api n) (Some v) s1 = (Val subs, s2) \<and> trace s1 = trace s" "trace s3 = trace s2"
    "ensure_subnet n v ts subs \<lparr>nas_IP = lo, nas_AZ = a0\<rparr> s3 = (Val subs1, s4)"
    "ensure_subnet n v ts subs1 \<lparr>nas_IP = hi, nas_AZ = a1\<rparr> s4 = (Val subs', s5)"
    "(if np_IsSTSCluster n then ret () else ensure_subnet_tags n subs') s5 = (Val (), t)"
proof -
  obtain zs s1 subs s2 ts s3 s5 where c: "valid_zones (np_Api n) s = (Val zs, s1)"
    "getVPCAssociatedSubnets (np_Api n) (Some v) s1 = (Val subs, s2)"
    "(if np_IsSTSCluster n then andThen (wrapping ''failed to get default tags for subnet'' (getDefaultSubnetTags (np_Client n)))
         (\<lambda>subnetTags. ret [(''subnet'', subnetTags)]) else ret []) s2 = (Val ts, s3)"
    "for_fold (ensure_subnet n v ts) subs (expected_subnets [lo, hi] zs) s3 = (Val subs', s5)"
    "(if np_IsSTSCluster n then ret () else ensure_subnet_tags n subs') s5 = (Val (), t)"
    using assms by (simp add: reconcileStandaloneVPCSubnets_def andThen_apply wrapping_apply ret_apply split: prod.splits res.splits) metis
  have tr1: "trace s1 = trace s" using quietD [OF quiet_network_reads(7) c(1)] .
  have "quiet (if np_IsSTSCluster n then andThen (wrapping ''failed to get default tags for subnet'' (getDefaultSubnetTags (np_Client n)))
         (\<lambda>subnetTags. ret [(''subnet'', subnetTags)]) else ret [])" by (intro quiet_rules)
  then have tr3: "trace s3 = trace s2" using quietD c(3) by blast
  have "length zs = 2" using c(1)
    by (auto simp: valid_zones_def op_simps Let_def defaultNumberOfExpectedSubnets_def split: prod.splits res.splits if_splits)
  then obtain a0 a1 where zs: "zs = [a0, a1]" by (cases zs; cases "tl zs") auto
  then obtain subs1 s4 where e: "ensure_subnet n v ts subs \<lparr>nas_IP = lo, nas_AZ = a0\<rparr> s3 = (Val subs1, s4)"
    "ensure_subnet n v ts subs1 \<lparr>nas_IP = hi, nas_AZ = a1\<rparr> s4 = (Val subs', s5)"
    using c(4) by (auto simp: expected_subnets_def op_simps split: prod.splits res.splits)
  show thesis by (rule that [OF _ tr3 e c(5)]) (use c(2) tr1 in blast)
qed

text \<open>
  Reconciling the subnets of the standalone VPC completes them and is idempotent: when it returns, there
  is a subnet for each half of the VPC block, and a subnet was requested exactly for each half that had none
  before, the lower half first; when both existed, none is requested.
\<close>

theorem standalone_subnets_complete:
  assumes "wf_net net" and "vpc_CidrBlock v = Some (net_String net)" and "1 \<le> mask_Size (net_Mask net)" and "mask_Size (net_Mask net) < 27"
    and "creates_requested_block (np_Api n)"
    and "describes_blocks (np_Api n)"
    and "reconcileStandaloneVPCSubnets n v s = (Val subs', t)"
  shows "\<exists>lo hi subs s1 s2 es. half_subnets (np_Api n) v s = (Val [lo, hi], s) \<and>
    getVPCAssociatedSubnets (np_Api n) (Some v) s1 = (Val subs, s2) \<and>
    has_block subs' (net_String lo) \<and> has_block subs' (net_String hi) \<and> trace t = trace s @ es \<and>
    subnet_blocks es = filter (\<lambda>c. \<not> has_block subs c) [net_String lo, net_String hi]"
proof -
  obtain lo hi where lh: "subnets_of (net_base net) (Suc (mask_Size (net_Mask net))) 2 = [lo, hi]" by (simp add: subnets_of_def numeral_2_eq_2)
  have half: "half_subnets (np_Api n) v s = (Val [lo, hi], s)" using half_subnets_eq [OF assms(1-4)] lh by simp
  have ne: "net_String lo \<noteq> net_String hi" using half_texts_differ [OF assms(1,3,4) lh] .
  from standalone_subnets_chain [OF half assms(7)] obtain subs s1 s2 ts s3 a0 a1 subs1 s4 s5 where
    c: "getVPCAssociatedSubnets (np_Api n) (Some v) s1 = (Val subs, s2)" "trace s1 = trace s" "trace s3 = trace s2"
      "ensure_subnet n v ts subs \<lparr>nas_IP = lo, nas_AZ = a0\<rparr> s3 = (Val subs1, s4)"
      "ensure_subnet n v ts subs1 \<lparr>nas_IP = hi, nas_AZ = a1\<rparr> s4 = (Val subs', s5)"
      "(if np_IsSTSCluster n then ret () else ensure_subnet_tags n subs') s5 = (Val (), t)" by metis
  have tr3: "trace s3 = trace s" using c(2,3) quietD [OF quiet_network_reads(2) c(1)] by simp
  note b0 = getVPCAssociatedSubnets_blocks [OF assms(6) c(1)]
  note e0 = ensure_subnet_blocks [OF assms(5) b0 c(4)]
  note e1 = ensure_subnet_blocks [OF assms(5) e0(2) c(5)]
  have "only (\<lambda>e. \<not> subnet_event e) (if np_IsSTSCluster n then ret () else ensure_subnet_tags n subs')"
    by (intro only_rules only_ensure_subnet_tags)
  from onlyD [OF this c(6)] obtain fs where fs: "trace t = trace s5 @ fs" "subnet_blocks fs = []" using subnet_blocks_none by blast
  obtain es0 where es0: "trace s4 = trace s3 @ es0" "subnet_blocks es0 = (if has_block subs (net_String lo) then [] else [net_String lo])" using e0(1) by auto
  obtain es1 where es1: "trace s5 = trace s4 @ es1" "subnet_blocks es1 = (if has_block subs1 (net_String hi) then [] else [net_String hi])" using e1(1) by auto
  have has: "has_block subs1 (net_String hi) \<longleftrightarrow> has_block subs (net_String hi)" using e0(3) ne by simp
  have "trace t = trace s @ (es0 @ es1 @ fs)" using tr3 fs(1) es0(1) es1(1) by simp
  moreover have "subnet_blocks (es0 @ es1 @ fs) = filter (\<lambda>c. \<not> has_block subs c) [net_String lo, net_String hi]"
    using es0(2) es1(2) fs(2) has by simp
  moreover have "has_block subs' (net_String lo)" "has_block subs' (net_String hi)" using e0(3) e1(3) by simp_all
  ultimately show ?thesis using half c(1) by blast
qed

end
