(* ===== verification/AWS_Samples.thy ===== *)
theory AWS_Samples
  imports AWS_Network_Subnets
begin

text \<open>A sample AWS account and the properties of the network at it.\<close>


section \<open>A sample account\<close>

text \<open>
  A cluster VPC with one tagged subnet and a route table, and the standalone VPCs that are given, with
  route tables that have the owner tag; the answers never change.
\<close>

definition owner_tag :: awsTag where
  "owner_tag = \<lparr>at_Key = Some ''integreatly.org/clusterID'', at_Value = Some ''cluster-x''\<rparr>"

definition cluster_vpc :: vpc where
  "cluster_vpc = \<lparr>vpc_VpcId = Some ''vpc-cluster'', vpc_CidrBlock = Some ''10.0.0.0/16'', vpc_State = Some ''available'', vpc_Tags = []\<rparr>"

definition standalone_vpc :: vpc where
  "standalone_vpc = \<lparr>vpc_VpcId = Some ''vpc-cro'', vpc_CidrBlock = Some (net_String (default_candidate 10 1)), vpc_State = Some ''available'',
     vpc_Tags = [owner_tag]\<rparr>"

definition cluster_subnet :: subnet where
  "cluster_subnet = \<lparr>sub_SubnetId = Some ''subnet-1'', sub_VpcId = Some ''vpc-cluster'', sub_CidrBlock = Some ''10.0.0.0/24'',
     sub_AvailabilityZone = Some ''zone-a'', sub_Tags = [\<lparr>at_Key = Some ''kubernetes.io/cluster/cluster-x'', at_Value = Some ''owned''\<rparr>]\<rparr>"

definition standalone_subnet :: subnet where
  "standalone_subnet = \<lparr>sub_SubnetId = Some ''subnet-2'', sub_VpcId = Some ''vpc-cro'', sub_CidrBlock = Some ''10.1.0.0/27'',
     sub_AvailabilityZone = Some ''zone-a'', sub_Tags = [owner_tag]\<rparr>"

definition sample_tables :: "routeTable list" where
  "sample_tables = [\<lparr>rtb_RouteTableId = Some ''rtb-1'', rtb_VpcId = Some ''vpc-cluster'', rtb_Routes = [], rtb_Tags = []\<rparr>,
     \<lparr>rtb_RouteTableId = Some ''rtb-2'', rtb_VpcId = Some ''vpc-cro'', rtb_Routes = [], rtb_Tags = [owner_tag]\<rparr>]"

definition sample_group :: securityGroup where
  "sample_group = \<lparr>sg_GroupId = Some ''sg-1'', sg_GroupName = Some ''clusterxsecuritygroup'', sg_VpcId = Some ''vpc-cro'',
     sg_Tags = [owner_tag], sg_IpPermissions = [ingress_permission (Some ''10.0.0.0/16'')]\<rparr>"

definition sample_peering :: vpcPeeringConnection where
  "sample_peering = \<lparr>pc_VpcPeeringConnectionId = Some ''pcx-1'', pc_Status = Some \<lparr>ps_Code = Some ''active'', ps_Message = None\<rparr>, pc_Tags = []\<rparr>"

definition sample_zone :: "string \<Rightarrow> availabilityZone" where
  "sample_zone z = \<lparr>az_ZoneName = Some z, az_State = Some ''available''\<rparr>"

definition sample_aws :: "vpc list \<Rightarrow> 'w aws" where
  "sample_aws vpcs = \<lparr>
     aws_DescribeVpcs = (\<lambda>ids w. (Inr (if ids = [] then cluster_vpc # vpcs else [cluster_vpc]), w)),
     aws_CreateVpc = (\<lambda>c ts w. (Inr \<lparr>vpc_VpcId = Some ''vpc-new'', vpc_CidrBlock = Some c, vpc_State = Some ''pending'', vpc_Tags = concat (map snd ts)\<rparr>, w)),
     aws_WaitUntilVpcExists = (\<lambda>_ w. (Inr (), w)),
     aws_DescribeSubnets = (\<lambda>w. (Inr [cluster_subnet, standalone_subnet], w)),
     aws_CreateSubnet = (\<lambda>z c v ts w. (Inr \<lparr>sub_SubnetId = Some ''subnet-new'', sub_VpcId = Some v, sub_CidrBlock = Some c, sub_AvailabilityZone = Some z, sub_Tags = concat (map snd ts)\<rparr>, w)),
     aws_DescribeAvailabilityZones = (\<lambda>w. (Inr [sample_zone ''zone-b'', sample_zone ''zone-a''], w)),
     aws_DescribeInstanceTypeOfferings = (\<lambda>_ w. (Inr [Some ''zone-a'', Some ''zone-b''], w)),
     aws_DescribeSecurityGroups = (\<lambda>_ w. (Inr (if vpcs = [] then [] else [sample_group]), w)),
     aws_CreateSecurityGroup = (\<lambda>_ _ _ _ w. (Inr (Some ''sg-new''), w)),
     aws_DescribeRouteTables = (\<lambda>_ w. (Inr sample_tables, w)),
     aws_DescribeVpcPeeringConnections = (\<lambda>_ w. (Inr [sample_peering], w)),
     aws_CreateVpcPeeringConnection = (\<lambda>_ _ _ w. (Inr sample_peering, w)),
     aws_DescribeDBSubnetGroups = (\<lambda>w. (Inr [], w)),
     aws_ListTagsForResource = (\<lambda>_ w. (Inr [], w)),
     aws_DescribeCacheSubnetGroups = (\<lambda>w. (Inr [], w)),
     aws_Exec = (\<lambda>_ w. (Inr (), w)), aws_polls = 60, aws_show_azs = (\<lambda>_. ''''), aws_show_nets = (\<lambda>_. ''''), aws_show_pointer = (\<lambda>_. '''')\<rparr>"

definition plain_infra :: infrastructure where
  "plain_infra = \<lparr>infra_InfrastructureName = ''cluster-x'', infra_PlatformStatus = None\<rparr>"

definition sample_np :: "vpc list \<Rightarrow> unit NetworkProvider" where
  "sample_np vpcs = \<lparr>np_Client = (sample_kube sample_cr)\<lparr>kube_GetInfrastructure := (\<lambda>_ w. (Inr plain_infra, w))\<rparr>,
     np_Api = sample_aws vpcs, np_IsSTSCluster = True\<rparr>"

abbreviation sample_state :: "(unit, cloud_req event) sys" where
  "sample_state \<equiv> sample_sys"

lemma sample_answers [simp]:
  "kube_GetInfrastructure (np_Client (sample_np vpcs)) c w = (Inr plain_infra, w)" "kube_env (np_Client (sample_np vpcs)) = Map.empty"
  "aws_DescribeVpcs (np_Api (sample_np vpcs)) ids w = (Inr (if ids = [] then cluster_vpc # vpcs else [cluster_vpc]), w)"
  "aws_DescribeSubnets (np_Api (sample_np vpcs)) w = (Inr [cluster_subnet, standalone_subnet], w)"
  "aws_DescribeRouteTables (np_Api (sample_np vpcs)) f w = (Inr sample_tables, w)"
  "aws_DescribeSecurityGroups (np_Api (sample_np vpcs)) ids' w = (Inr (if vpcs = [] then [] else [sample_group]), w)"
  "aws_DescribeVpcPeeringConnections (np_Api (sample_np vpcs)) pf w = (Inr [sample_peering], w)"
  "aws_DescribeAvailabilityZones (np_Api (sample_np vpcs)) w = (Inr [sample_zone ''zone-b'', sample_zone ''zone-a''], w)"
  "aws_DescribeInstanceTypeOfferings (np_Api (sample_np vpcs)) ts w = (Inr [Some ''zone-a'', Some ''zone-b''], w)"
  "aws_Exec (np_Api (sample_np vpcs)) req w = (Inr (), w)" "aws_polls (np_Api (sample_np vpcs)) = 60" "np_IsSTSCluster (sample_np vpcs)"
  by (simp_all add: sample_np_def sample_aws_def sample_kube_def)

lemma sample_world [simp]: "s\<lparr>world := w\<rparr> = s" for s :: "(unit, 'e) sys"
  by (cases s) simp

lemma sample_trace [simp]: "trace sample_state = []"
  by (simp add: sample_sys_def)

lemmas sample_objects = cluster_vpc_def standalone_vpc_def cluster_subnet_def standalone_subnet_def sample_tables_def sample_group_def
  sample_peering_def sample_zone_def owner_tag_def plain_infra_def

lemma sample_query [simp]: "query f s = (case f () of (Inr r, w) \<Rightarrow> (Val r, s) | (Inl e, w) \<Rightarrow> (Fail e, s))"
  for s :: "(unit, 'e) sys"
  by (simp add: query_def split: prod.splits sum.splits)

lemma sample_exec [simp]:
  "exec (np_Api (sample_np vpcs)) req s = (Val (), s\<lparr>trace := trace s @ [EvCloud req True]\<rparr>)"
  by (simp add: exec_def request_def)

lemma sample_create_subnet [simp]:
  "create (aws_CreateSubnet (np_Api (sample_np vpcs)) z c v ts) req s =
    (Val \<lparr>sub_SubnetId = Some ''subnet-new'', sub_VpcId = Some v, sub_CidrBlock = Some c, sub_AvailabilityZone = Some z, sub_Tags = concat (map snd ts)\<rparr>,
     s\<lparr>trace := trace s @ [EvCloud req True]\<rparr>)"
  by (simp add: create_def request_def sample_np_def sample_aws_def)

lemma sample_cluster_id [simp]: "GetClusterID (np_Client (sample_np vpcs)) s = (Val ''cluster-x'', s)"
  by (simp add: GetClusterID_def GetClusterInfrastructure_def op_simps plain_infra_def)

lemma sample_cluster_vpc [simp]: "getClusterVpc (np_Client (sample_np vpcs)) (np_Api (sample_np vpcs)) s = (Val cluster_vpc, s)"
  by (simp add: getClusterVpc_def getVPCIDByClusterSubnets_def getOSDClusterTagKey_def op_simps cluster_subnet_def cluster_vpc_def)

lemma sample_org [simp]: "GetOrganizationTag Map.empty = ''integreatly.org/''"
  by (simp add: GetOrganizationTag_def)

lemma sample_owner [simp]: "getCloudResourceOperatorOwnerTag (np_Client (sample_np vpcs)) s =
    (Val \<lparr>tag_Key = ''integreatly.org/clusterID'', tag_Value = ''cluster-x''\<rparr>, s)"
  by (simp add: getCloudResourceOperatorOwnerTag_def op_simps ec2TagToGeneric_def)

lemma sample_standalone [simp]:
  "getStandaloneVpc (np_Client (sample_np [])) (np_Api (sample_np [])) s = (Val None, s)"
  "getStandaloneVpc (np_Client (sample_np [standalone_vpc])) (np_Api (sample_np [standalone_vpc])) s = (Val (Some standalone_vpc), s)"
  by (simp_all add: getStandaloneVpc_def op_simps cluster_vpc_def standalone_vpc_def owner_tag_def)

lemma sample_subnets [simp]: "getSubnets (np_Api (sample_np vpcs)) s = (Val [cluster_subnet, standalone_subnet], s)"
  by (simp add: getSubnets_def poll_subnets.simps [of _ 60] op_simps)


lemma sample_infra_name: "BuildInfraName (np_Client (sample_np vpcs)) defaultSecurityGroupPostfix defaultAwsIdentifierLength s =
    (Val ''clusterxsecuritygroup'', s)"
proof -
  have "ShortenString ''cluster-x-security-group'' 40 = ''clusterxsecuritygroup''" by code_simp
  then show ?thesis by (simp add: BuildInfraName_def op_simps defaultSecurityGroupPostfix_def defaultAwsIdentifierLength_def)
qed

lemma sample_security_group:
  "getSecurityGroup (np_Api (sample_np [standalone_vpc])) ''clusterxsecuritygroup'' s = (Val (Some sample_group), s)"
  "getSecurityGroup (np_Api (sample_np [])) ''clusterxsecuritygroup'' s = (Val None, s)"
  by (simp_all add: getSecurityGroup_def op_simps sample_group_def)

lemma sample_cluster_tables: "getClusterRouteTables (np_Client (sample_np vpcs)) (np_Api (sample_np vpcs)) s = (Val [hd sample_tables], s)"
  by (simp add: getClusterRouteTables_def op_simps sample_tables_def cluster_vpc_def)

lemma sample_cro_tables: "getCRORouteTables (np_Client (sample_np vpcs)) (np_Api (sample_np vpcs)) s = (Val (tl sample_tables), s)"
  by (simp add: getCRORouteTables_def op_simps sample_tables_def owner_tag_def TagsContains_def ec2TagListToGenericList_def ec2TagToGeneric_def Let_def)

lemma sample_peered: "getNetworkPeering (np_Client (sample_np vpcs)) (np_Api (sample_np vpcs)) \<lparr>nw_Vpc = Some v, nw_Subnets = subs\<rparr> s =
    (Val (Some sample_peering), s)"
  by (simp add: getNetworkPeering_def op_simps sample_peering_def)


section \<open>The properties at the sample\<close>

theorem CreateNetwork_safe_witness:
  "\<exists>es. trace (snd (CreateNetwork (sample_np [standalone_vpc]) (default_candidate 10 1) sample_state)) = es \<and> (\<forall>e \<in> set es. \<not> vpc_lifecycle e)"
proof -
  obtain r t where run: "CreateNetwork (sample_np [standalone_vpc]) (default_candidate 10 1) sample_state = (r, t)" by force
  show ?thesis using CreateNetwork_safe [OF run wf_candidate sample_standalone(2)] run by auto
qed


theorem missing_vpc_panics_witness:
  "GetClusterNetworkPeering (sample_np []) sample_state = (Abort Panics, sample_state)"
  using missing_vpc_panics [of "sample_np []" sample_state sample_state cluster_vpc sample_state] by simp

theorem created_vpc_is_found_witness:
  "\<exists>ts. getDefaultTagSpec (np_Client (sample_np [standalone_vpc])) (display_tag defaultVpcNameTagValue) ''vpc'' sample_state = (Val [(''vpc'', ts)], sample_state)"
proof -
  have "\<forall>v \<in> set (cluster_vpc # [standalone_vpc]). complete_tags (vpc_Tags v) \<and> vpc_VpcId v \<noteq> None"
    by (simp add: complete_tags_def cluster_vpc_def standalone_vpc_def owner_tag_def)
  then show ?thesis
    using created_vpc_is_found [of "np_Client (sample_np [standalone_vpc])" plain_infra "np_Api (sample_np [standalone_vpc])" "[cluster_vpc, standalone_vpc]" sample_state]
    by auto
qed

theorem IsEnabled_exact_witness: "IsEnabled (sample_np []) sample_state = (Val True, sample_state)"
proof -
  have "GetVPCSubnets (np_Api (sample_np [])) (Some cluster_vpc) sample_state = (Val [cluster_subnet], sample_state)"
    by (simp add: GetVPCSubnets_def op_simps cluster_subnet_def standalone_subnet_def cluster_vpc_def)
  then show ?thesis
    using IsEnabled_exact [of "sample_np []" sample_state cluster_vpc sample_state "''cluster-x''" sample_state "[cluster_subnet]" sample_state]
    by (simp add: cluster_subnet_def TagsContains_def ec2TagListToGenericList_def ec2TagToGeneric_def)
qed

theorem half_subnets_partition_witness:
  "\<exists>lo hi. half_subnets (np_Api (sample_np [])) standalone_vpc sample_state = (Val [lo, hi], sample_state) \<and>
     addresses lo \<inter> addresses hi = {} \<and> addresses lo \<union> addresses hi = addresses (default_candidate 10 1)"
proof -
  have m: "mask_Size (net_Mask (default_candidate 10 1)) = 26" by (simp add: default_candidate_def)
  show ?thesis
    using half_subnets_partition [OF wf_candidate [of 10 1], of standalone_vpc "np_Api (sample_np [])" sample_state] m
    by (auto simp: standalone_vpc_def)
qed

theorem createPrivateSubnet_highest_free_witness:
  "\<exists>blocks. createPrivateSubnet (np_Client (sample_np [])) ((np_Api (sample_np []))\<lparr>aws_CreateSubnet :=
       (\<lambda>z c v ts w. (Inl (ErrAws ''InvalidSubnet.Conflict'' ''''), w))\<rparr>) standalone_vpc ''zone-a'' sample_state =
     (Fail (ErrNew ''failed to create subnet''), sample_state\<lparr>trace := map (\<lambda>b. EvCloud (ReqCreateSubnet ''zone-a'' (net_String b) ''vpc-cro'' []) False) blocks\<rparr>)"
proof -
  have m: "mask_Size (net_Mask (default_candidate 10 1)) = 26" by (simp add: default_candidate_def)
  have dw: "dropWhile (\<lambda>b. True) xs = []" for xs :: "ipnet list" by (induction xs) simp_all
  show ?thesis
    using createPrivateSubnet_highest_free [OF wf_candidate [of 10 1], of standalone_vpc "''vpc-cro''"
        "(np_Api (sample_np []))\<lparr>aws_CreateSubnet := (\<lambda>z c v ts w. (Inl (ErrAws ''InvalidSubnet.Conflict'' ''''), w))\<rparr>" "''zone-a''" "\<lambda>_. True" "''''"
        "\<lambda>_. standalone_subnet" "np_Client (sample_np [])" sample_state] m
    by (auto simp: standalone_vpc_def dw)
qed


lemma sample_group_reconciled:
  "reconcileStandaloneSecurityGroup (sample_np [standalone_vpc]) s = (Val sample_group, s)"
  by (simp add: reconcileStandaloneSecurityGroup_def sample_infra_name sample_security_group tag_standalone_group_def op_simps Let_def
      sample_group_def cluster_vpc_def)

theorem CreateNetworkConnection_routes_witness:
  "CreateNetworkConnection (sample_np [standalone_vpc]) \<lparr>nw_Vpc = Some standalone_vpc, nw_Subnets = []\<rparr> sample_state =
     (Val \<lparr>nc_StandaloneSecurityGroup = sample_group\<rparr>,
      snd (CreateNetworkConnection (sample_np [standalone_vpc]) \<lparr>nw_Vpc = Some standalone_vpc, nw_Subnets = []\<rparr> sample_state)) \<and>
   (\<exists>bs.
     trace (snd (CreateNetworkConnection (sample_np [standalone_vpc]) \<lparr>nw_Vpc = Some standalone_vpc, nw_Subnets = []\<rparr> sample_state)) =
      map2 (route_event \<lparr>route_DestinationCidrBlock = vpc_CidrBlock standalone_vpc, route_VpcPeeringConnectionId = Some ''pcx-1''\<rparr>)
        (missing_in \<lparr>route_DestinationCidrBlock = vpc_CidrBlock standalone_vpc, route_VpcPeeringConnectionId = Some ''pcx-1''\<rparr> [hd sample_tables]) bs @
      map (\<lambda>t. route_event \<lparr>route_DestinationCidrBlock = vpc_CidrBlock cluster_vpc, route_VpcPeeringConnectionId = Some ''pcx-1''\<rparr> t True)
        (missing_in \<lparr>route_DestinationCidrBlock = vpc_CidrBlock cluster_vpc, route_VpcPeeringConnectionId = Some ''pcx-1''\<rparr> (tl sample_tables)))"
proof -
  let ?n = "sample_np [standalone_vpc]" and ?nw = "\<lparr>nw_Vpc = Some standalone_vpc, nw_Subnets = []\<rparr>"
  have run: "CreateNetworkConnection ?n ?nw sample_state =
     (Val \<lparr>nc_StandaloneSecurityGroup = sample_group\<rparr>, snd (CreateNetworkConnection ?n ?nw sample_state))"
    by (simp add: CreateNetworkConnection_def sample_group_reconciled sample_cluster_tables sample_cro_tables sample_peered op_simps Let_def
        ensure_route_def routeExists_def sample_tables_def sample_peering_def)
  have pcx: "pc_VpcPeeringConnectionId sample_peering = Some ''pcx-1''" by (simp add: sample_peering_def)
  show ?thesis
    using run CreateNetworkConnection_routes [OF sample_group_reconciled sample_cluster_tables sample_peered _ run] unfolding pcx
    by (auto simp: sample_cro_tables)
qed

theorem CreateNetworkPeering_steps_witness:
  "\<exists>pc creation tagging. trace (snd (CreateNetworkPeering (sample_np [standalone_vpc]) \<lparr>nw_Vpc = Some standalone_vpc, nw_Subnets = []\<rparr> sample_state)) =
     creation @ tagging \<and> pc = sample_peering \<and> creation = []"
proof -
  let ?n = "sample_np [standalone_vpc]" and ?nw = "\<lparr>nw_Vpc = Some standalone_vpc, nw_Subnets = []\<rparr>"
  have run: "CreateNetworkPeering ?n ?nw sample_state =
     (Val \<lparr>np_PeeringConnection = Some sample_peering\<rparr>, snd (CreateNetworkPeering ?n ?nw sample_state))"
    by (simp add: CreateNetworkPeering_def sample_peered op_simps accept_peering_def peering_code_def Let_def sample_peering_def)
  show ?thesis
    using CreateNetworkPeering_steps [OF sample_cluster_vpc sample_peered run] by (auto simp: peering_state_def sample_peering_def)
qed


lemma sample_ensure_subnet:
  assumes "\<forall>sub \<in> set subs. sub_CidrBlock sub \<noteq> None" and "az_ZoneName (nas_AZ e) \<noteq> None"
  shows "\<exists>subs' t. ensure_subnet (sample_np vpcs) standalone_vpc ts subs e s = (Val subs', t) \<and> (\<forall>sub \<in> set subs'. sub_CidrBlock sub \<noteq> None)"
  using assms by (auto simp: ensure_subnet_def subnetExists_eq standalone_vpc_def op_simps Let_def)

lemma sample_zones: "valid_zones (np_Api (sample_np vpcs)) s = (Val [sample_zone ''zone-a'', sample_zone ''zone-b''], s)"
  by (auto simp: valid_zones_def supported_zones_def sort_azs_def sample_zone_def defaultNumberOfExpectedSubnets_def op_simps)

theorem standalone_subnets_complete_witness:
  "\<exists>subs' t lo hi. reconcileStandaloneVPCSubnets (sample_np [standalone_vpc]) standalone_vpc sample_state = (Val subs', t) \<and>
     half_subnets (np_Api (sample_np [standalone_vpc])) standalone_vpc sample_state = (Val [lo, hi], sample_state) \<and>
     has_block subs' (net_String lo) \<and> has_block subs' (net_String hi)"
proof -
  let ?n = "sample_np [standalone_vpc]" and ?net = "default_candidate 10 1"
  have m: "mask_Size (net_Mask ?net) = 26" by (simp add: default_candidate_def)
  have block: "vpc_CidrBlock standalone_vpc = Some (net_String ?net)" by (simp add: standalone_vpc_def)
  obtain lo hi where half: "half_subnets (np_Api ?n) standalone_vpc sample_state = (Val [lo, hi], sample_state)"
    using half_subnets_eq [OF wf_candidate block, of "np_Api ?n" sample_state] m by (auto simp: subnets_of_def numeral_2_eq_2)
  have subs: "getVPCAssociatedSubnets (np_Api ?n) (Some standalone_vpc) sample_state = (Val [standalone_subnet], sample_state)"
    by (simp add: getVPCAssociatedSubnets_def op_simps cluster_subnet_def standalone_subnet_def standalone_vpc_def)
  obtain ts where tags: "getDefaultSubnetTags (np_Client ?n) sample_state = (Val ts, sample_state)"
    by (simp add: getDefaultSubnetTags_def GetUserInfraTags_def GetClusterInfrastructure_def plain_infra_def op_simps Let_def)
  have zone: "\<forall>sub \<in> set [standalone_subnet]. sub_CidrBlock sub \<noteq> None" "az_ZoneName (nas_AZ \<lparr>nas_IP = ip, nas_AZ = sample_zone z\<rparr>) \<noteq> None" for ip z
    by (simp_all add: standalone_subnet_def sample_zone_def)
  obtain subs1 t1 where e1: "ensure_subnet ?n standalone_vpc [(''subnet'', ts)] [standalone_subnet] \<lparr>nas_IP = lo, nas_AZ = sample_zone ''zone-a''\<rparr> sample_state = (Val subs1, t1)"
    "\<forall>sub \<in> set subs1. sub_CidrBlock sub \<noteq> None"
    using sample_ensure_subnet [of "[standalone_subnet]" "\<lparr>nas_IP = lo, nas_AZ = sample_zone ''zone-a''\<rparr>" "[standalone_vpc]" "[(''subnet'', ts)]" sample_state] zone by blast
  obtain subs2 t2 where e2: "ensure_subnet ?n standalone_vpc [(''subnet'', ts)] subs1 \<lparr>nas_IP = hi, nas_AZ = sample_zone ''zone-b''\<rparr> t1 = (Val subs2, t2)"
    using sample_ensure_subnet [OF e1(2), of "\<lparr>nas_IP = hi, nas_AZ = sample_zone ''zone-b''\<rparr>" "[standalone_vpc]" "[(''subnet'', ts)]" t1] zone by blast
  have run: "reconcileStandaloneVPCSubnets ?n standalone_vpc sample_state = (Val subs2, t2)"
    by (simp add: reconcileStandaloneVPCSubnets_def expected_subnets_def half sample_zones subs tags e1 e2 op_simps)
  have api: "creates_requested_block (np_Api ?n)" "describes_blocks (np_Api ?n)"
    by (simp_all add: creates_requested_block_def describes_blocks_def sample_np_def sample_aws_def cluster_subnet_def standalone_subnet_def)
  show ?thesis using standalone_subnets_complete [OF wf_candidate block _ _ api run] m run by auto
qed

end
