(* ===== verification/AWS_RDS_Samples.thy ===== *)
theory AWS_RDS_Samples
  imports AWS_RDS_Liveness AWS_Samples
begin

text \<open>A sample RDS service with at most one instance, and the properties of the RDS provider at it.\<close>

section \<open>A sample service\<close>

definition no_config :: createDBInstanceInput where
  "no_config = \<lparr>cdi_DBInstanceIdentifier = None, cdi_DBInstanceClass = None, cdi_DBName = None, cdi_MasterUsername = None, cdi_MasterUserPassword = None,
     cdi_Port = None, cdi_Engine = None, cdi_EngineVersion = None, cdi_DeletionProtection = None, cdi_AutoMinorVersionUpgrade = None,
     cdi_BackupRetentionPeriod = None, cdi_PubliclyAccessible = None, cdi_AllocatedStorage = None, cdi_MaxAllocatedStorage = None,
     cdi_StorageEncrypted = None, cdi_MultiAZ = None, cdi_AvailabilityZone = Some ''zone-a'', cdi_DBSubnetGroupName = None, cdi_VpcSecurityGroupIds = None,
     cdi_CopyTagsToSnapshot = None, cdi_PreferredBackupWindow = None, cdi_PreferredMaintenanceWindow = None, cdi_Tags = []\<rparr>"

definition no_delete_config :: deleteDBInstanceInput where
  "no_delete_config = \<lparr>ddi_DBInstanceIdentifier = None, ddi_DeleteAutomatedBackups = None, ddi_SkipFinalSnapshot = None, ddi_FinalDBSnapshotIdentifier = None\<rparr>"

definition sample_instance :: dbInstance where
  "sample_instance = \<lparr>dbi_DBInstanceIdentifier = Some ''clusterxnsdb'', dbi_DBInstanceArn = Some ''arn'', dbi_DBInstanceStatus = Some ''available'',
     dbi_DBInstanceClass = Some ''db.t2.small'', dbi_DBName = Some ''postgres'', dbi_MasterUsername = Some ''postgres'',
     dbi_Endpoint = Some \<lparr>ep_Address = Some ''host'', ep_Port = Some 5432\<rparr>, dbi_EngineVersion = Some ''13.11'', dbi_CACertificateIdentifier = Some ''rds-ca-2019'',
     dbi_DeletionProtection = Some True, dbi_BackupRetentionPeriod = Some 31, dbi_PubliclyAccessible = Some False, dbi_AllocatedStorage = Some 20,
     dbi_MaxAllocatedStorage = Some 100, dbi_MultiAZ = Some True, dbi_AutoMinorVersionUpgrade = Some False, dbi_PreferredBackupWindow = Some '''',
     dbi_PreferredMaintenanceWindow = Some '''', dbi_PendingModifiedValues = None\<rparr>"

text \<open>The state of the service is its instance; it does what it is asked at once.\<close>

definition sample_account :: "dbInstance option \<Rightarrow> dbInstance list" where
  "sample_account w = (case w of None \<Rightarrow> [] | Some i \<Rightarrow> [i\<lparr>dbi_DBInstanceIdentifier := Some ''clusterxnsdb''\<rparr>])"

definition sample_exec :: "cloud_req \<Rightarrow> dbInstance option \<Rightarrow> (error + unit) \<times> dbInstance option" where
  "sample_exec req w = (Inr (), case req of
     ReqModifyDBInstance m \<Rightarrow> map_option (modified m) w
   | ReqDeleteDBInstance d \<Rightarrow> map_option (\<lambda>i. i\<lparr>dbi_DBInstanceStatus := Some ''deleting''\<rparr>) w
   | _ \<Rightarrow> w)"

definition sample_cloud :: "dbInstance option cloud" where
  "sample_cloud = \<lparr>cl_Aws = (sample_aws [])\<lparr>aws_Exec := sample_exec\<rparr>,
     rds_DescribeDBInstances = (\<lambda>w. (Inr (sample_account w), w)), rds_DescribeDBSnapshots = (\<lambda>_ _ w. (Inr [], w)),
     rds_DescribePendingMaintenanceActions = (\<lambda>_ w. (Inr [], w)), ec2_DescribeInstanceTypes = (\<lambda>_ w. (Inr [Some 2048], w)),
     ec2_InstanceTypeLocations = (\<lambda>_ w. (Inr [], w)), cache_DescribeReplicationGroups = (\<lambda>_ w. (Inr [], w)),
     cache_DescribeCacheClusters = (\<lambda>_ w. (Inr [], w)), cache_DescribeSnapshots = (\<lambda>_ _ w. (Inr [], w)),
     cache_DescribeUpdateActions = (\<lambda>_ _ w. (Inr [], w)), cache_BatchApplyUpdateAction = (\<lambda>_ _ w. (Inr 0, w)),
     sts_GetCallerIdentity = (\<lambda>w. (Inr (Some ''1''), w)), s3_ListBuckets = (\<lambda>w. (Inr [], w)), s3_ListObjectsV2 = (\<lambda>_ w. (Inr 0, w))\<rparr>"

definition sample_rds_provider :: "dbInstance option awsProvider" where
  "sample_rds_provider = \<lparr>ap_Client = sample_kube sample_cr, ap_CredentialManager = STS ''ns'', ap_ConfigManager = NewDefaultConfigMapConfigManager Map.empty,
     ap_Codec = sample_codec, ap_Files = cluster_files, ap_Must = (\<lambda>_. True), ap_Services = (\<lambda>_. sample_cloud),
     ap_Decoders = \<lparr>dec_CreateDBInstance = (\<lambda>_. Inr no_config), dec_DeleteDBInstance = (\<lambda>_. Inr no_delete_config),
       dec_CreateReplicationGroup = (\<lambda>_. Inl (ErrNew '''')), dec_DeleteReplicationGroup = (\<lambda>_. Inl (ErrNew '''')),
       dec_CreateVpc = (\<lambda>_. Inr None), dec_CreateBucket = (\<lambda>_. Inr None)\<rparr>,
     ap_TCPConnection = (\<lambda>_ _ w. (True, w)), ap_Now = (\<lambda>w. (0, w)), ap_NewRandom = (\<lambda>w. (Inr ''secret'', w)),
     ver_NewVersion = (\<lambda>_. None), ver_LessThan = (\<lambda>a b. a = ''13.11'' \<and> b = ''13.13'')\<rparr>"

definition sample_pg :: cr where
  "sample_pg = sample_cr\<lparr>cr_meta := sample_meta\<lparr>om_Finalizers := [DefaultFinalizer]\<rparr>\<rparr>"

abbreviation rds_state :: "dbInstance option \<Rightarrow> (dbInstance option, cloud_req event) sys" where
  "rds_state w \<equiv> \<lparr>world = w, trace = []\<rparr>"

lemma sample_name: "ShortenString ''cluster-x-ns-db'' 40 = ''clusterxnsdb''"
  by code_simp

lemma sample_steady: "steady_reads sample_rds_provider sample_cloud sample_infra"
  by (simp add: steady_reads_def sample_rds_provider_def sample_cloud_def sample_kube_def)

lemma sample_target: "deletion_target sample_infra sample_pg no_config no_delete_config = ''clusterxnsdb''"
  using sample_name
  by (simp add: deletion_target_def no_config_def no_delete_config_def sample_infra_def sample_pg_def sample_meta_def defaultAwsIdentifierLength_def)

lemma sample_service: "rds_service sample_account settled ''clusterxnsdb'' sample_cloud"
  by (auto simp: rds_service_def sample_cloud_def sample_account_def sample_exec_def target_def settled_def modified_def split: option.split)

lemma sample_accepts: "accepts_release sample_rds_provider"
  by (simp add: accepts_release_def sample_rds_provider_def sample_kube_def)

section \<open>The properties at the sample\<close>

abbreviation rds_network :: "dbInstance option NetworkProvider" where
  "rds_network \<equiv> network_of sample_rds_provider sample_cloud True"

lemma sample_no_network: "remove_network sample_rds_provider n isEnabled False pg s = (Val None, s)"
  by (simp add: remove_network_def op_simps)

lemma sample_finalizer: "RemoveFinalizer (cr_meta sample_pg) DefaultFinalizer = Some (sample_meta\<lparr>om_Finalizers := []\<rparr>)"
  by (simp add: sample_pg_def sample_meta_def RemoveFinalizer_def remove_def DefaultFinalizer_def)


theorem rds_deletion_order_witness:
  "\<exists>es. trace (snd (deleteRDSInstance sample_rds_provider sample_cloud rds_network sample_pg no_config no_delete_config True False (rds_state None))) = es \<and>
     release_steps False sample_pg (filter (\<lambda>e. \<not> metric_event e) es)"
proof -
  let ?s = "rds_state None"
  obtain r t where run: "deleteRDSInstance sample_rds_provider sample_cloud rds_network sample_pg no_config no_delete_config True False ?s = (r, t)" by force
  obtain cfg where cfg: "buildRDSDeleteConfig sample_rds_provider sample_pg no_config no_delete_config ?s = (Val cfg, ?s)"
    using buildRDSDeleteConfig_steady [OF sample_steady] by blast
  show ?thesis
    using rds_deletion_order [OF getRDSInstances_steady [OF sample_service] _ cfg run] run
    by (simp add: sample_account_def allowed_deletion_None)
qed

theorem rds_at_most_one_instance_witness:
  "\<exists>es. trace (snd (reconcileRDSInstance sample_rds_provider sample_cloud sample_pg no_config True False (rds_state None))) = es \<and>
     allowed_change [] sample_pg False (filter instance_request es)"
proof -
  obtain r t where run: "reconcileRDSInstance sample_rds_provider sample_cloud sample_pg no_config True False (rds_state None) = (r, t)" by force
  show ?thesis
    using rds_at_most_one_instance [OF getRDSInstances_steady [OF sample_service] run] run by (simp add: sample_account_def)
qed



end
