(* ===== verification/AWS_Redis_Samples.thy ===== *)
theory AWS_Redis_Samples
  imports AWS_Redis_Update AWS_RDS_Samples
begin

text \<open>The properties of the Redis provider at a sample ElastiCache service with one replication group.\<close>

section \<open>A sample service\<close>

definition no_group_config :: createReplicationGroupInput where
  "no_group_config = \<lparr>crg_ReplicationGroupId = None, crg_ReplicationGroupDescription = None, crg_CacheNodeType = None, crg_Engine = None,
     crg_EngineVersion = None, crg_NumCacheClusters = None, crg_SnapshotRetentionLimit = None, crg_AtRestEncryptionEnabled = None,
     crg_TransitEncryptionEnabled = None, crg_AutomaticFailoverEnabled = None, crg_CacheSubnetGroupName = None, crg_SecurityGroupIds = None,
     crg_PreferredMaintenanceWindow = Some ''sun'', crg_SnapshotWindow = None, crg_Tags = []\<rparr>"

definition no_group_delete :: deleteReplicationGroupInput where
  "no_group_delete = \<lparr>drg_ReplicationGroupId = None, drg_RetainPrimaryCluster = None, drg_FinalSnapshotIdentifier = None\<rparr>"

definition sample_group :: replicationGroup where
  "sample_group = \<lparr>rg_ReplicationGroupId = Some ''clusterxnsdb'', rg_Status = Some ''available'', rg_CacheNodeType = Some ''cache.t2.micro'',
     rg_SnapshotRetentionLimit = Some 31, rg_NodeGroups = []\<rparr>"

definition sample_cluster :: cacheCluster where
  "sample_cluster = \<lparr>cc_ReplicationGroupId = Some ''clusterxnsdb'', cc_CacheClusterStatus = Some ''available'', cc_EngineVersion = Some ''7.1'',
     cc_PreferredAvailabilityZone = Some ''zone-a'', cc_PreferredMaintenanceWindow = Some ''mon'', cc_SnapshotWindow = None\<rparr>"

definition sample_action :: updateAction where
  "sample_action = \<lparr>ua_ReplicationGroupId = None, ua_CacheClusterId = None, ua_Engine = None, ua_EstimatedUpdateTime = None, ua_NodesUpdated = None,
     ua_ServiceUpdateName = Some ''su-1'', ua_ServiceUpdateRecommendedApplyByDate = None, ua_ServiceUpdateReleaseDate = None,
     ua_ServiceUpdateSeverity = Some ''critical'', ua_ServiceUpdateStatus = Some ''available'', ua_ServiceUpdateType = Some ''security-update'', ua_SlaMet = None,
     ua_UpdateActionAvailableDate = None, ua_UpdateActionStatus = Some ''not-applied'', ua_UpdateActionStatusModifiedDate = None\<rparr>"

definition redis_cloud :: "replicationGroup list \<Rightarrow> dbInstance option cloud" where
  "redis_cloud rgs = sample_cloud\<lparr>cache_DescribeReplicationGroups := (\<lambda>_ w. (Inr rgs, w)), cache_DescribeUpdateActions := (\<lambda>_ _ w. (Inr [sample_action], w)),
     ec2_InstanceTypeLocations := (\<lambda>_ w. (Inr [Some ''zone-a''], w))\<rparr>"

lemma sample_groups: "getReplicationGroups (redis_cloud rgs) s = (Val rgs, s)"
  by (subst getReplicationGroups_def, subst poll.simps) (simp add: redis_cloud_def query_def op_simps attempt_def)

lemma sample_names:
  "\<exists>n. BuildInfraNameFromObject (ap_Client sample_rds_provider) om len s = (Val n, s)"
  "\<exists>n. BuildInfraName (ap_Client sample_rds_provider) post len s = (Val n, s)"
  "\<exists>n. timestamped_name sample_rds_provider r s = (Val n, s)"
proof -
  have now: "ask (ap_Now sample_rds_provider) s = (Val 0, s)" by (simp add: sample_rds_provider_def ask_def)
  show "\<exists>n. BuildInfraNameFromObject (ap_Client sample_rds_provider) om len s = (Val n, s)"
    and "\<exists>n. BuildInfraName (ap_Client sample_rds_provider) post len s = (Val n, s)"
    and "\<exists>n. timestamped_name sample_rds_provider r s = (Val n, s)"
    by (simp_all add: BuildInfraNameFromObject_def BuildInfraName_def timestamped_name_def BuildTimestampedInfraNameFromObject_def
        GetClusterID_steady [OF sample_steady] op_simps now)
qed

lemma sample_redis_delete:
  obtains cc dc' where "buildElasticacheDeleteConfig sample_rds_provider r cfg dc s = (Val (cc, dc'), s)"
    and "drg_ReplicationGroupId dc = None \<Longrightarrow> crg_ReplicationGroupId cc \<noteq> None"
proof -
  obtain n m where "BuildInfraNameFromObject (ap_Client sample_rds_provider) (cr_meta r) defaultAwsIdentifierLength s = (Val n, s)"
    and "timestamped_name sample_rds_provider r s = (Val m, s)"
    using sample_names by metis
  then show ?thesis by (intro that) (auto simp: buildElasticacheDeleteConfig_def op_simps Let_def or_default_def split: option.split)
qed

section \<open>The properties at the sample\<close>

theorem redis_config_complete_witness:
  "\<exists>cfg t. buildElasticacheCreateStrategy sample_rds_provider (redis_cloud []) sample_pg no_group_config (rds_state None) = (Val cfg, t) \<and> complete_group cfg"
proof -
  have group: "getSecurityGroup (cl_Aws (redis_cloud [])) g s = (Val None, s)" for g s
    by (simp add: getSecurityGroup_def query_def op_simps redis_cloud_def sample_cloud_def sample_aws_def)
  obtain a b e where "BuildInfraNameFromObject (ap_Client sample_rds_provider) (cr_meta sample_pg) defaultAwsIdentifierLength (rds_state None) = (Val a, rds_state None)"
    "BuildInfraName (ap_Client sample_rds_provider) defaultSubnetPostfix defaultAwsIdentifierLength (rds_state None) = (Val b, rds_state None)"
    "BuildInfraName (ap_Client sample_rds_provider) defaultSecurityGroupPostfix defaultAwsIdentifierLength (rds_state None) = (Val e, rds_state None)"
    using sample_names by metis
  then obtain cfg where run: "buildElasticacheCreateStrategy sample_rds_provider (redis_cloud []) sample_pg no_group_config (rds_state None) = (Val cfg, rds_state None)"
    by (simp add: buildElasticacheCreateStrategy_def op_simps group Let_def)
  show ?thesis using redis_config_complete [OF run] run by blast
qed

theorem redis_updates_specified_witness:
  "\<exists>es. trace (snd (applySpecifiedSecurityUpdates (redis_cloud []) sample_group [''su-1''] (rds_state None))) = es \<and>
     (\<forall>e \<in> set es. update_request sample_group [''su-1''] [sample_action] e)"
proof -
  obtain r t where run: "applySpecifiedSecurityUpdates (redis_cloud []) sample_group [''su-1''] (rds_state None) = (r, t)" by force
  have "cache_DescribeUpdateActions (redis_cloud []) (rg_ReplicationGroupId sample_group) (Some ''available'') (world (rds_state None)) = (Inr [sample_action], None)"
    by (simp add: redis_cloud_def)
  then show ?thesis using redis_updates_specified [OF run] run by auto
qed

theorem redis_at_most_one_group_witness:
  "\<exists>es. trace (snd (createElasticacheCluster sample_rds_provider (redis_cloud [sample_group]) sample_pg no_group_config [] True True (rds_state None))) = es \<and>
     allowed_group_change [sample_group] sample_pg True (filter group_request es)"
proof -
  obtain x t where run: "createElasticacheCluster sample_rds_provider (redis_cloud [sample_group]) sample_pg no_group_config [] True True (rds_state None) = (x, t)" by force
  show ?thesis using redis_at_most_one_group [OF sample_groups run] run by simp
qed

theorem redis_deletion_order_witness:
  "\<exists>es. trace (snd (deleteElasticacheCluster sample_rds_provider (redis_cloud []) rds_network sample_pg no_group_config no_group_delete True False (rds_state None))) = es \<and>
     release_group_steps False sample_pg (filter (\<lambda>e. \<not> metric_event e) es)"
proof -
  obtain x t where run: "deleteElasticacheCluster sample_rds_provider (redis_cloud []) rds_network sample_pg no_group_config no_group_delete True False (rds_state None) = (x, t)" by force
  obtain cc dc where build: "buildElasticacheDeleteConfig sample_rds_provider sample_pg no_group_config no_group_delete (rds_state None) = (Val (cc, dc), rds_state None)"
    and ident: "crg_ReplicationGroupId cc \<noteq> None"
    by (rule sample_redis_delete [where dc = no_group_delete]) (auto simp: no_group_delete_def)
  show ?thesis
    using redis_deletion_order [OF sample_groups _ build ident run] run by (simp add: allowed_group_deletion_def)
qed

theorem redis_delete_identifier_panics_witness:
  "fst (deleteElasticacheCluster sample_rds_provider (redis_cloud [sample_group]) rds_network sample_pg no_group_config
     (no_group_delete\<lparr>drg_ReplicationGroupId := Some ''cache''\<rparr>) True False (rds_state None)) = Abort Panics"
proof -
  let ?dc = "no_group_delete\<lparr>drg_ReplicationGroupId := Some ''cache''\<rparr>"
  obtain cc dc where build: "buildElasticacheDeleteConfig sample_rds_provider sample_pg no_group_config ?dc (rds_state None) = (Val (cc, dc), rds_state None)"
    by (rule sample_redis_delete)
  show ?thesis
    using redis_delete_identifier_panics [OF sample_groups build, where n = "''cache''"] by (simp add: no_group_config_def)
qed

theorem redis_update_converges_witness:
  "\<exists>result. buildElasticacheUpdateStrategy sample_rds_provider (redis_cloud []) (built_group ''clusterxnsdb'' ''g'' None no_group_config) sample_group [sample_cluster]
     sample_pg (rds_state None) = (Val result, rds_state None) \<and> (\<forall>m. result = Some m \<longrightarrow>
     buildElasticacheUpdateStrategy sample_rds_provider (redis_cloud []) (built_group ''clusterxnsdb'' ''g'' None no_group_config) (modified_group m sample_group)
       (map (modified_cluster m) [sample_cluster]) sample_pg (rds_state None) = (Val None, rds_state None))"
proof -
  let ?cfg = "built_group ''clusterxnsdb'' ''g'' None no_group_config"
  have "ec2_InstanceTypeLocations (redis_cloud []) n w = (Inr [Some ''zone-a''], w)" for n w by (simp add: redis_cloud_def)
  moreover have "\<forall>cl \<in> set [sample_cluster]. readable sample_rds_provider ?cfg cl"
    by (simp add: readable_def sample_cluster_def built_group_def fill_cache_defaults_def no_group_config_def sample_rds_provider_def)
  moreover have "\<not> ver_LessThan sample_rds_provider v v" for v by (simp add: sample_rds_provider_def)
  ultimately show ?thesis
    using redis_update_converges [where offers = "\<lambda>_. [Some ''zone-a'']", OF _ built_group_complete] by blast
qed

end
