(* ===== verification/AWS_S3_Samples.thy ===== *)
theory AWS_S3_Samples
  imports AWS_S3_Safety AWS_Redis_Samples
begin

text \<open>The properties of the BlobStorage provider at a sample S3 service.\<close>

definition s3_cloud :: "string option list \<Rightarrow> (error + nat) \<Rightarrow> dbInstance option cloud" where
  "s3_cloud buckets content = sample_cloud\<lparr>s3_ListBuckets := (\<lambda>w. (Inr buckets, w)), s3_ListObjectsV2 := (\<lambda>_ w. (content, w))\<rparr>"

lemma sample_buckets: "getS3buckets (s3_cloud buckets content) s = (Val buckets, s)"
  by (subst getS3buckets_def, subst poll.simps) (simp add: s3_cloud_def query_def op_simps attempt_def)

lemma s3_exec: "\<exists>t. exec (cl_Aws (s3_cloud buckets content)) req s = (Val (), t)"
  by (simp add: exec_def request_def s3_cloud_def sample_cloud_def sample_exec_def)

lemma sample_blob_metrics: "\<exists>t. exposeBlobStorageMetrics sample_rds_provider inst s = (Val (), t)"
proof -
  obtain n where n: "BuildInfraNameFromObject (ap_Client sample_rds_provider) (cr_meta inst) defaultAwsBucketNameLength s = (Val n, s)"
    using sample_names(1) by blast
  show ?thesis
    by (simp add: exposeBlobStorageMetrics_def op_simps n GetClusterID_steady [OF sample_steady] expose_phases_def set_metric_def)
qed

lemma sample_update: "\<exists>x t. update_cr (ap_Client sample_rds_provider) kind inst s = (Val x, t)"
  by (simp add: update_cr_def request_def sample_rds_provider_def sample_kube_def)

lemma sample_release: "\<exists>bs' t. removeCredsAndFinalizer sample_rds_provider sample_pg b s = (Val (None, bs'), t)"
proof -
  let ?key = "(buildEndUserCredentialsNameFromBucket b, om_Namespace (cr_meta sample_pg))" and ?p = sample_rds_provider
  obtain t1 where 1: "request (kube_DeleteCredentialsRequest (ap_Client ?p) ?key) (\<lambda>r. EvDeleteCredentialsRequest ?key (ok r)) s = (Val (), t1)"
    by (simp add: request_def sample_rds_provider_def sample_kube_def)
  obtain x t2 where 2: "update_cr (ap_Client ?p) BlobStorage (sample_pg\<lparr>cr_meta := sample_meta\<lparr>om_Finalizers := []\<rparr>\<rparr>) t1 = (Val x, t2)"
    using sample_update by blast
  obtain t3 where "exposeBlobStorageMetrics ?p x t2 = (Val (), t3)" using sample_blob_metrics by blast
  then show ?thesis using 1 2 by (simp add: removeCredsAndFinalizer_def Let_def op_simps sample_finalizer)
qed

theorem s3_ready_is_secured_witness:
  "bucket_steps True (annotations_Has (cr_meta sample_pg) ResourceIdentifierAnnotation) ''b'' True
     (filter cloud_event (trace (snd (reconcileBucketCreate sample_rds_provider (s3_cloud [Some ''b''] (Inr 0)) sample_pg ''b'' (rds_state None)))))"
proof -
  let ?c = "s3_cloud [Some ''b''] (Inr 0)"
  obtain t1 where 1: "exec (cl_Aws ?c) (ReqPutPublicAccessBlock ''b'' [True, True, True, True]) (rds_state None) = (Val (), t1)" using s3_exec by blast
  obtain t2 where 2: "exec (cl_Aws ?c) (ReqPutBucketEncryption ''b'' ''AES256'') t1 = (Val (), t2)" using s3_exec by blast
  obtain t3 where 3: "exposeBlobStorageMetrics sample_rds_provider sample_pg t2 = (Val (), t3)" using sample_blob_metrics by blast
  have run: "reconcileBucketCreate sample_rds_provider ?c sample_pg ''b'' (rds_state None) = (Val ((''using bucket b'', None), sample_pg), t3)"
    using 1 2 3 by (simp add: reconcileBucketCreate_def bucket_create_def reconcileS3BucketSettings_def op_simps sample_buckets)
  show ?thesis using s3_ready_is_secured [OF sample_buckets _ run] run by simp
qed

lemma sample_content: "getBucketSize (s3_cloud buckets (Inr n)) b s = (Val n, s)"
  by (simp add: getBucketSize_def s3_cloud_def query_def op_simps)

theorem s3_deletion_steps_witness:
  "deletion_steps sample_pg ''b'' False True
     (trace (snd (reconcileBucketDelete sample_rds_provider (s3_cloud [Some ''b''] (Inr 3)) sample_pg ''b'' False (rds_state None))))"
proof -
  let ?c = "s3_cloud [Some ''b''] (Inr 3)"
  obtain bs' t where "removeCredsAndFinalizer sample_rds_provider sample_pg ''b'' (rds_state None) = (Val (None, bs'), t)" using sample_release by blast
  then have run: "reconcileBucketDelete sample_rds_provider ?c sample_pg ''b'' False (rds_state None) = (Val (('''', None), bs'), t)"
    by (simp add: reconcileBucketDelete_def delete_and_release_def op_simps sample_buckets sample_content)
  show ?thesis
    using s3_deletion_steps [OF sample_buckets _ _ sample_content run] run by simp
qed

theorem s3_missing_bucket_error_witness:
  "\<exists>t err bs'. reconcileBucketDelete sample_rds_provider (s3_cloud [] (Inl (ErrAws ''NoSuchBucket'' ''''))) sample_pg ''b'' False (rds_state None) =
     (Val ((''unable to get bucket size : b'', Some err), bs'), t) \<and> (\<exists>es. trace t = es \<and> released_blob sample_pg ''b'' (filter (\<lambda>e. \<not> metric_event e) es))"
proof -
  let ?c = "s3_cloud [] (Inl (ErrAws ''NoSuchBucket'' ''''))"
  obtain bs' t where release: "removeCredsAndFinalizer sample_rds_provider sample_pg ''b'' (rds_state None) = (Val (None, bs'), t)" using sample_release by blast
  have missing: "s3_ListObjectsV2 ?c ''b'' (world t) = (Inl (ErrAws ''NoSuchBucket'' ''''), world t)" by (simp add: s3_cloud_def)
  have "\<exists>t err. reconcileBucketDelete sample_rds_provider ?c sample_pg ''b'' False (rds_state None) = (Val ((''unable to get bucket size : '' @ ''b'', Some err), bs'), t) \<and>
    (\<exists>es. trace t = trace (rds_state None) @ es \<and> released_blob sample_pg ''b'' (filter (\<lambda>e. \<not> metric_event e) es))"
    by (rule s3_missing_bucket_error [OF sample_buckets _ _ release missing]) simp_all
  then show ?thesis by (simp only: append.simps) auto
qed

end
