(* ===== verification/AWS_Snapshots_Safety.thy ===== *)
theory AWS_Snapshots_Safety
  imports AWS_Snapshots AWS_S3_Samples
begin

text \<open>
  What the snapshot providers request: at most one snapshot per pass, under a name that is stored in the status
  first; and that Redis snapshots get stuck on the error code ElastiCache has for a missing snapshot.
\<close>

section \<open>Requests\<close>

definition named_status :: "kind \<Rightarrow> snapshot \<Rightarrow> string \<Rightarrow> cloud_req event \<Rightarrow> bool" where
  "named_status kind sn n e \<longleftrightarrow> e = EvSnapshotStatus kind (sn\<lparr>sn_status := (sn_status sn)\<lparr>ss_SnapshotID := n\<rparr>\<rparr>) True"

text \<open>The requests of a creation: the name is stored, then at most one request \<open>req n\<close> for a snapshot of this name.\<close>

definition snapshot_steps :: "kind \<Rightarrow> snapshot \<Rightarrow> (string \<Rightarrow> cloud_req \<Rightarrow> bool) \<Rightarrow> cloud_req event list \<Rightarrow> bool" where
  "snapshot_steps kind sn req es \<longleftrightarrow> es = [] \<or> (\<exists>n b. es = [EvSnapshotStatus kind (sn\<lparr>sn_status := (sn_status sn)\<lparr>ss_SnapshotID := n\<rparr>\<rparr>) b]) \<or>
     (\<exists>n e q b. es = [e, EvCloud q b] \<and> named_status kind sn n e \<and> req n q)"

lemma quiet_db_snapshots [quiet_rules]: "quiet (first_db_snapshot n xs)"
  by (induction xs) (auto intro!: quiet_rules)

lemma quiet_cache_snapshots [quiet_rules]: "quiet (first_cache_snapshot n ys)"
  by (induction ys) (auto intro!: quiet_rules)

lemma quiet_primary [quiet_rules]: "quiet (primary_node ms)"
  by (induction ms) (auto intro!: quiet_rules)

lemma quiet_find [quiet_rules]: "quiet (find_db_snapshot c n)" "quiet (find_cache_snapshot c n)"
  unfolding find_db_snapshot_def find_cache_snapshot_def by (intro quiet_rules)+

text \<open>The continuation of \<open>name_snapshot\<close> makes at most one request, for the name it is given.\<close>

definition at_most_one :: "(cloud_req \<Rightarrow> bool) \<Rightarrow> cloud_req event list \<Rightarrow> bool" where
  "at_most_one P es \<longleftrightarrow> es = [] \<or> (\<exists>q b. es = [EvCloud q b] \<and> P q)"



lemma emits_list: "(x = [] \<Longrightarrow> emits m R) \<Longrightarrow> (\<And>y ys. x = y # ys \<Longrightarrow> emits (f y ys) R) \<Longrightarrow> emits (case x of [] \<Rightarrow> m | y # ys \<Rightarrow> f y ys) R"
  by (cases x) auto

lemma emits_name_snapshot:
  assumes "\<And>n stored. emits (k n stored) (\<lambda>es r. at_most_one (req n) es)"
  shows "emits (name_snapshot p kind sn k) (\<lambda>es r. snapshot_steps kind sn req es)"
proof -
  have k: "emits (k n stored) (\<lambda>fs r. snapshot_steps kind sn req (EvSnapshotStatus kind (sn\<lparr>sn_status := (sn_status sn)\<lparr>ss_SnapshotID := n\<rparr>\<rparr>) True # fs))" for n stored
    by (rule emits_weaken [OF assms]) (auto simp: at_most_one_def snapshot_steps_def named_status_def)
  have few: "snapshot_steps kind sn req []" "snapshot_steps kind sn req [EvSnapshotStatus kind (sn\<lparr>sn_status := (sn_status sn)\<lparr>ss_SnapshotID := n\<rparr>\<rparr>) b]" for n b
    by (auto simp: snapshot_steps_def)
  show ?thesis
    unfolding name_snapshot_def status_update_snapshot_def Let_def
    by (rule emits_otherwise_quiet [OF quiet_cluster(10)]) (auto intro!: emits_otherwise [OF emits_request] k few)
qed

lemma one_simps [simp]: "at_most_one P []" "at_most_one P [EvCloud q b] = P q"
  by (auto simp: at_most_one_def)

lemma emits_one_exec: "P req \<Longrightarrow> emits (otherwise (exec a req) h (\<lambda>_. ret x)) (\<lambda>es r. at_most_one P es)"
  by (rule emits_otherwise [OF emits_exec]) (auto intro!: emits_ret)

lemma emits_one_quiet: "quiet m \<Longrightarrow> emits m (\<lambda>es r. at_most_one P es)"
  unfolding quiet_def by (erule emits_weaken) simp

lemma emits_postgres_snapshot:
  "emits (createPostgresSnapshot p c sn pg) (\<lambda>es r. snapshot_steps Postgres sn (\<lambda>n q.
     \<exists>i tags. q = ReqCreateDBSnapshot i n tags \<and> st_Phase (cr_status pg) \<noteq> PhaseInProgress \<and> st_Phase (cr_status pg) \<noteq> PhaseDeleteInProgress) es)"
  unfolding createPostgresSnapshot_def Let_def
  by (intro emits_name_snapshot emits_otherwise_quiet emits_option emits_if emits_prod emits_one_exec emits_ret quiet_rules; (intro emits_one_quiet quiet_rules)?; simp)

lemma emits_redis_snapshot:
  "emits (createRedisSnapshot p c sn r) (\<lambda>es r. snapshot_steps Redis sn (\<lambda>n q. \<exists>node tags. q = ReqCreateSnapshot node n tags) es)"
  unfolding createRedisSnapshot_def Let_def
  by (intro emits_name_snapshot emits_otherwise_quiet emits_andThen_quiet emits_list emits_option emits_if emits_prod emits_one_exec emits_ret emits_crash quiet_rules;
      (intro emits_one_quiet quiet_rules)?; simp)


section \<open>Missing Redis snapshots\<close>

lemma find_cache_missing:
  assumes "\<And>n w. cache_DescribeSnapshots c None (Some n) w = (Inl (ErrAws ''SnapshotNotFoundFault'' m), w)"
  shows "find_cache_snapshot c n s = (Fail (ErrAws ''SnapshotNotFoundFault'' m), s)"
  by (simp add: find_cache_snapshot_def op_simps query_def assms aws_code_def)

text \<open>
  The Redis snapshot provider takes the code \<^verbatim>\<open>SnapshotNotFound\<close> for a missing snapshot. ElastiCache has the code
  \<^verbatim>\<open>SnapshotNotFoundFault\<close> (which the Redis provider compares with); with it a snapshot is never requested, and a
  deleted snapshot resource is never released: both passes end in the error of the lookup.
\<close>

theorem redis_snapshot_stuck:
  assumes missing: "\<And>n w. cache_DescribeSnapshots c None (Some n) w = (Inl (ErrAws ''SnapshotNotFoundFault'' m), w)"
    and run: "createRedisSnapshot p c sn r s = (x, t)"
  shows "(\<exists>es. trace t = trace s @ es \<and> (\<forall>e \<in> set es. \<not> cloud_event e)) \<and> (\<forall>inst msg err sn'. x = Val ((inst, msg, err), sn') \<longrightarrow> inst = None \<and> err \<noteq> None) \<and>
    deleteRedisSnapshot p c sn s = (Val (sn_delete_failed sn ''failed to describe snaphots in AWS'' (ErrAws ''SnapshotNotFoundFault'' m)), s)"
proof -
  let ?R = "\<lambda>es (x :: snapshot_reply res). (\<forall>e \<in> set es. \<not> cloud_event e) \<and> (\<forall>inst msg err sn'. x = Val ((inst, msg, err), sn') \<longrightarrow> inst = None \<and> err \<noteq> None)"
  have find: "emits (find_cache_snapshot c n) (\<lambda>es r. es = [] \<and> (\<exists>e. r = Fail e))" for n
    unfolding emits_def using find_cache_missing [OF missing] by auto
  have "emits (createRedisSnapshot p c sn r) ?R"
    unfolding createRedisSnapshot_def name_snapshot_def status_update_snapshot_def Let_def
    by (rule emits_otherwise_quiet [OF quiet_cluster(10)], rule emits_otherwise [OF emits_request], rule emits_otherwise_quiet [OF quiet_cluster(8)],
        rule emits_otherwise [OF find]) (auto simp: sn_failed_def)
  then have "\<exists>es. trace t = trace s @ es \<and> ?R es x" using run by (rule emitsD)
  then show ?thesis using find_cache_missing [OF missing] by (auto simp: deleteRedisSnapshot_def Let_def op_simps)
qed

section \<open>The properties at a sample\<close>

definition no_snapshot :: snapshot where
  "no_snapshot = \<lparr>sn_meta = sample_meta, sn_spec = \<lparr>sp_ResourceName = ''db'', sp_SkipDelete = False\<rparr>,
     sn_status = \<lparr>ss_SnapshotID = '''', ss_Phase = '''', ss_Message = '''', ss_Strategy = ''''\<rparr>\<rparr>"

definition lost_cloud :: "dbInstance option cloud" where
  "lost_cloud = sample_cloud\<lparr>cache_DescribeSnapshots := (\<lambda>_ _ w. (Inl (ErrAws ''SnapshotNotFoundFault'' ''gone''), w))\<rparr>"


theorem redis_snapshot_stuck_witness:
  "fst (deleteRedisSnapshot sample_rds_provider lost_cloud no_snapshot (rds_state None)) =
     Val (sn_delete_failed no_snapshot ''failed to describe snaphots in AWS'' (ErrAws ''SnapshotNotFoundFault'' ''gone''))"
proof -
  obtain x t where run: "createRedisSnapshot sample_rds_provider lost_cloud no_snapshot sample_pg (rds_state None) = (x, t)" by fastforce
  have missing: "cache_DescribeSnapshots lost_cloud None (Some n) w = (Inl (ErrAws ''SnapshotNotFoundFault'' ''gone''), w)" for n w
    by (simp add: lost_cloud_def)
  show ?thesis using redis_snapshot_stuck [OF missing run] by simp
qed

end
