(* ===== verification/GCP_SQL_Types.thy ===== *)
theory GCP_SQL_Types
  imports Kubernetes
begin

text \<open>
  The database instances of Cloud SQL: the operator's own types for a create strategy
  (\<^verbatim>\<open>pkg/providers/gcp/gcpiface/database_types.go\<close>), in which an absent boolean differs from a false one, those of the
  service (\<^verbatim>\<open>google.golang.org/api/sqladmin\<close>) and the conversion between them. Of the types of the service the
  fields the operator reads or writes are kept; messages it only passes on are JSON values.
\<close>

section \<open>The types of a strategy\<close>

record backupRetentionSettings =
  brs_RetentionUnit :: string
  brs_RetainedBackups :: int

record ipMapping =
  im_Type :: string
  im_IpAddress :: string

record maintenanceWindow =
  mw_Day :: "int option"
  mw_Hour :: "int option"
  mw_Kind :: string
  mw_UpdateTrack :: string

record databaseInstanceFailoverReplica =
  fr_Available :: "bool option"
  fr_Name :: string

record backupConfiguration =
  bc_BackupRetentionSettings :: "backupRetentionSettings option"
  bc_BinaryLogEnabled :: "bool option"
  bc_Enabled :: "bool option"
  bc_Kind :: string
  bc_Location :: string
  bc_PointInTimeRecoveryEnabled :: "bool option"
  bc_ReplicationLogArchivingEnabled :: "bool option"
  bc_StartTime :: string
  bc_TransactionLogRetentionDays :: int

record ipConfiguration =
  ic_AllocatedIpRange :: string
  ic_AuthorizedNetworks :: "json list option"
  ic_Ipv4Enabled :: "bool option"
  ic_PrivateNetwork :: string
  ic_RequireSsl :: "bool option"

record settings =
  se_ActivationPolicy :: string
  se_AvailabilityType :: string
  se_BackupConfiguration :: "backupConfiguration option"
  se_Collation :: string
  se_ConnectorEnforcement :: string
  se_CrashSafeReplicationEnabled :: "bool option"
  se_DataDiskSizeGb :: int
  se_DataDiskType :: string
  se_DatabaseFlags :: "json list option"
  se_DatabaseReplicationEnabled :: "bool option"
  se_DeletionProtectionEnabled :: "bool option"
  se_DenyMaintenancePeriods :: "json list option"
  se_InsightsConfig :: "json option"
  se_IpConfiguration :: "ipConfiguration option"
  se_Kind :: string
  se_LocationPreference :: "json option"
  se_MaintenanceWindow :: "maintenanceWindow option"
  se_PasswordValidationPolicy :: "json option"
  se_PricingPlan :: string
  se_ReplicationType :: string
  se_SettingsVersion :: int
  se_StorageAutoResize :: "bool option"
  se_StorageAutoResizeLimit :: int
  se_Tier :: string
  se_UserLabels :: "labels option"

record databaseInstance =
  di_ConnectionName :: string
  di_DatabaseVersion :: string
  di_DiskEncryptionConfiguration :: "json option"
  di_FailoverReplica :: "databaseInstanceFailoverReplica option"
  di_GceZone :: string
  di_InstanceType :: string
  di_IpAddresses :: "ipMapping option list option"
  di_Kind :: string
  di_MaintenanceVersion :: string
  di_MasterInstanceName :: string
  di_MaxDiskSize :: int
  di_Name :: string
  di_Project :: string
  di_Region :: string
  di_ReplicaNames :: "string list option"
  di_RootPassword :: string
  di_SecondaryGceZone :: string
  di_SelfLink :: string
  di_ServerCaCert :: "json option"
  di_Settings :: "settings option"

section \<open>The types of the service\<close>

text \<open>
  Booleans and numbers are plain values; the names in \<open>ForceSendFields\<close> are sent even when the value is the zero
  value of its type.
\<close>

record sqlMaintenanceWindow =
  smw_Day :: int
  smw_Hour :: int
  smw_UpdateTrack :: string
  smw_ForceSendFields :: "string list"

record sqlFailoverReplica =
  sfr_Available :: bool
  sfr_Name :: string
  sfr_ForceSendFields :: "string list"

record sqlBackupConfiguration =
  sbc_BackupRetentionSettings :: "backupRetentionSettings option"
  sbc_BinaryLogEnabled :: bool
  sbc_Enabled :: bool
  sbc_Kind :: string
  sbc_Location :: string
  sbc_PointInTimeRecoveryEnabled :: bool
  sbc_ReplicationLogArchivingEnabled :: bool
  sbc_StartTime :: string
  sbc_TransactionLogRetentionDays :: int
  sbc_ForceSendFields :: "string list"

record sqlIpConfiguration =
  sic_AllocatedIpRange :: string
  sic_AuthorizedNetworks :: "json list option"
  sic_Ipv4Enabled :: bool
  sic_PrivateNetwork :: string
  sic_RequireSsl :: bool
  sic_ForceSendFields :: "string list"

record sqlSettings =
  sse_ActivationPolicy :: string
  sse_AvailabilityType :: string
  sse_BackupConfiguration :: "sqlBackupConfiguration option"
  sse_Collation :: string
  sse_ConnectorEnforcement :: string
  sse_CrashSafeReplicationEnabled :: bool
  sse_DataDiskSizeGb :: int
  sse_DataDiskType :: string
  sse_DatabaseFlags :: "json list option"
  sse_DatabaseReplicationEnabled :: bool
  sse_DeletionProtectionEnabled :: bool
  sse_DenyMaintenancePeriods :: "json list option"
  sse_InsightsConfig :: "json option"
  sse_IpConfiguration :: "sqlIpConfiguration option"
  sse_Kind :: string
  sse_LocationPreference :: "json option"
  sse_MaintenanceWindow :: "sqlMaintenanceWindow option"
  sse_PasswordValidationPolicy :: "json option"
  sse_PricingPlan :: string
  sse_ReplicationType :: string
  sse_SettingsVersion :: int
  sse_StorageAutoResize :: "bool option"
  sse_StorageAutoResizeLimit :: int
  sse_Tier :: string
  sse_UserLabels :: "labels option"
  sse_ForceSendFields :: "string list"

record sqlInstance =
  sql_ConnectionName :: string
  sql_DatabaseVersion :: string
  sql_DiskEncryptionConfiguration :: "json option"
  sql_FailoverReplica :: "sqlFailoverReplica option"
  sql_GceZone :: string
  sql_InstanceType :: string
  sql_IpAddresses :: "ipMapping option list option"
  sql_Kind :: string
  sql_MaintenanceVersion :: string
  sql_MasterInstanceName :: string
  sql_MaxDiskSize :: int
  sql_Name :: string
  sql_Project :: string
  sql_Region :: string
  sql_ReplicaNames :: "string list option"
  sql_RootPassword :: string
  sql_SecondaryGceZone :: string
  sql_SelfLink :: string
  sql_ServerCaCert :: "json option"
  sql_ServiceAccountEmailAddress :: string
  sql_Settings :: "sqlSettings option"
  sql_State :: string

section \<open>The conversion\<close>

text \<open>
  Assigning a field when it is not the zero value of its type, to a structure that has the zero value, is
  assigning it. A pointer to a boolean is dereferenced, and its name is added to the forced fields when it is false.
\<close>

definition is_set :: "bool option \<Rightarrow> bool" where
  "is_set b = (case b of Some v \<Rightarrow> v | None \<Rightarrow> False)"

definition forced :: "string \<Rightarrow> bool option \<Rightarrow> string list" where
  "forced name b = (if b = Some False then [name] else [])"

definition map_failover :: "databaseInstanceFailoverReplica \<Rightarrow> sqlFailoverReplica" where
  "map_failover f = \<lparr>sfr_Available = is_set (fr_Available f), sfr_Name = fr_Name f, sfr_ForceSendFields = forced ''Available'' (fr_Available f)\<rparr>"

definition map_backup :: "backupConfiguration \<Rightarrow> sqlBackupConfiguration" where
  "map_backup b = \<lparr>sbc_BackupRetentionSettings = bc_BackupRetentionSettings b,
     sbc_BinaryLogEnabled = is_set (bc_BinaryLogEnabled b), sbc_Enabled = is_set (bc_Enabled b), sbc_Kind = bc_Kind b, sbc_Location = bc_Location b,
     sbc_PointInTimeRecoveryEnabled = is_set (bc_PointInTimeRecoveryEnabled b),
     sbc_ReplicationLogArchivingEnabled = is_set (bc_ReplicationLogArchivingEnabled b), sbc_StartTime = bc_StartTime b,
     sbc_TransactionLogRetentionDays = bc_TransactionLogRetentionDays b,
     sbc_ForceSendFields = forced ''BinaryLogEnabled'' (bc_BinaryLogEnabled b) @ forced ''Enabled'' (bc_Enabled b) @
       forced ''PointInTimeRecoveryEnabled'' (bc_PointInTimeRecoveryEnabled b) @
       forced ''ReplicationLogArchivingEnabled'' (bc_ReplicationLogArchivingEnabled b)\<rparr>"

definition map_ip_configuration :: "ipConfiguration \<Rightarrow> sqlIpConfiguration" where
  "map_ip_configuration i = \<lparr>sic_AllocatedIpRange = ic_AllocatedIpRange i, sic_AuthorizedNetworks = ic_AuthorizedNetworks i,
     sic_Ipv4Enabled = is_set (ic_Ipv4Enabled i), sic_PrivateNetwork = ic_PrivateNetwork i, sic_RequireSsl = is_set (ic_RequireSsl i),
     sic_ForceSendFields = forced ''Ipv4Enabled'' (ic_Ipv4Enabled i) @ forced ''RequireSsl'' (ic_RequireSsl i)\<rparr>"

definition map_maintenance_window :: "maintenanceWindow \<Rightarrow> sqlMaintenanceWindow" where
  "map_maintenance_window m = \<lparr>smw_Day = (case mw_Day m of Some d \<Rightarrow> d | None \<Rightarrow> 0), smw_Hour = (case mw_Hour m of Some h \<Rightarrow> h | None \<Rightarrow> 0),
     smw_UpdateTrack = mw_UpdateTrack m, smw_ForceSendFields = (if mw_Hour m = Some 0 then [''Hour''] else [])\<rparr>"

definition map_settings :: "settings \<Rightarrow> sqlSettings" where
  "map_settings s = \<lparr>sse_ActivationPolicy = se_ActivationPolicy s, sse_AvailabilityType = se_AvailabilityType s,
     sse_BackupConfiguration = map_option map_backup (se_BackupConfiguration s), sse_Collation = se_Collation s,
     sse_ConnectorEnforcement = se_ConnectorEnforcement s, sse_CrashSafeReplicationEnabled = is_set (se_CrashSafeReplicationEnabled s),
     sse_DataDiskSizeGb = se_DataDiskSizeGb s, sse_DataDiskType = se_DataDiskType s, sse_DatabaseFlags = se_DatabaseFlags s,
     sse_DatabaseReplicationEnabled = is_set (se_DatabaseReplicationEnabled s),
     sse_DeletionProtectionEnabled = is_set (se_DeletionProtectionEnabled s), sse_DenyMaintenancePeriods = se_DenyMaintenancePeriods s,
     sse_InsightsConfig = se_InsightsConfig s, sse_IpConfiguration = map_option map_ip_configuration (se_IpConfiguration s),
     sse_Kind = se_Kind s, sse_LocationPreference = se_LocationPreference s,
     sse_MaintenanceWindow = map_option map_maintenance_window (se_MaintenanceWindow s),
     sse_PasswordValidationPolicy = se_PasswordValidationPolicy s, sse_PricingPlan = se_PricingPlan s, sse_ReplicationType = se_ReplicationType s,
     sse_SettingsVersion = se_SettingsVersion s, sse_StorageAutoResize = se_StorageAutoResize s,
     sse_StorageAutoResizeLimit = se_StorageAutoResizeLimit s, sse_Tier = se_Tier s, sse_UserLabels = se_UserLabels s,
     sse_ForceSendFields = forced ''CrashSafeReplicationEnabled'' (se_CrashSafeReplicationEnabled s) @
       forced ''DatabaseReplicationEnabled'' (se_DatabaseReplicationEnabled s) @ forced ''DeletionProtectionEnabled'' (se_DeletionProtectionEnabled s)\<rparr>"

text \<open>The secondary zone is assigned to the primary zone; the fields the service fills in are empty.\<close>

definition MapToGcpDatabaseInstance :: "databaseInstance \<Rightarrow> sqlInstance" where
  "MapToGcpDatabaseInstance dbi = \<lparr>sql_ConnectionName = di_ConnectionName dbi, sql_DatabaseVersion = di_DatabaseVersion dbi,
     sql_DiskEncryptionConfiguration = di_DiskEncryptionConfiguration dbi, sql_FailoverReplica = map_option map_failover (di_FailoverReplica dbi),
     sql_GceZone = (if di_SecondaryGceZone dbi \<noteq> '''' then di_SecondaryGceZone dbi else di_GceZone dbi),
     sql_InstanceType = di_InstanceType dbi, sql_IpAddresses = di_IpAddresses dbi, sql_Kind = di_Kind dbi,
     sql_MaintenanceVersion = di_MaintenanceVersion dbi, sql_MasterInstanceName = di_MasterInstanceName dbi, sql_MaxDiskSize = di_MaxDiskSize dbi,
     sql_Name = di_Name dbi, sql_Project = di_Project dbi, sql_Region = di_Region dbi, sql_ReplicaNames = di_ReplicaNames dbi,
     sql_RootPassword = di_RootPassword dbi, sql_SecondaryGceZone = '''', sql_SelfLink = di_SelfLink dbi, sql_ServerCaCert = di_ServerCaCert dbi,
     sql_ServiceAccountEmailAddress = '''', sql_Settings = map_option map_settings (di_Settings dbi), sql_State = ''''\<rparr>"

section \<open>What is sent\<close>

text \<open>
  The service reads a request as JSON without the fields that have the zero value and are not forced, which is how
  \<^verbatim>\<open>gensupport.MarshalJSON\<close> of the client library encodes it. Decoding this JSON into the types of a strategy gives
  back what the service was told.
\<close>

definition sent :: "string \<Rightarrow> string list \<Rightarrow> bool \<Rightarrow> bool option" where
  "sent name fs v = (if v \<or> name \<in> set fs then Some v else None)"

definition sent_int :: "string \<Rightarrow> string list \<Rightarrow> int \<Rightarrow> int option" where
  "sent_int name fs v = (if v \<noteq> 0 \<or> name \<in> set fs then Some v else None)"

definition told_failover :: "sqlFailoverReplica \<Rightarrow> databaseInstanceFailoverReplica" where
  "told_failover f = \<lparr>fr_Available = sent ''Available'' (sfr_ForceSendFields f) (sfr_Available f), fr_Name = sfr_Name f\<rparr>"

definition told_backup :: "sqlBackupConfiguration \<Rightarrow> backupConfiguration" where
  "told_backup b = (let fs = sbc_ForceSendFields b in \<lparr>bc_BackupRetentionSettings = sbc_BackupRetentionSettings b,
     bc_BinaryLogEnabled = sent ''BinaryLogEnabled'' fs (sbc_BinaryLogEnabled b), bc_Enabled = sent ''Enabled'' fs (sbc_Enabled b),
     bc_Kind = sbc_Kind b, bc_Location = sbc_Location b,
     bc_PointInTimeRecoveryEnabled = sent ''PointInTimeRecoveryEnabled'' fs (sbc_PointInTimeRecoveryEnabled b),
     bc_ReplicationLogArchivingEnabled = sent ''ReplicationLogArchivingEnabled'' fs (sbc_ReplicationLogArchivingEnabled b),
     bc_StartTime = sbc_StartTime b, bc_TransactionLogRetentionDays = sbc_TransactionLogRetentionDays b\<rparr>)"

definition told_ip_configuration :: "sqlIpConfiguration \<Rightarrow> ipConfiguration" where
  "told_ip_configuration i = (let fs = sic_ForceSendFields i in \<lparr>ic_AllocatedIpRange = sic_AllocatedIpRange i,
     ic_AuthorizedNetworks = sic_AuthorizedNetworks i, ic_Ipv4Enabled = sent ''Ipv4Enabled'' fs (sic_Ipv4Enabled i),
     ic_PrivateNetwork = sic_PrivateNetwork i, ic_RequireSsl = sent ''RequireSsl'' fs (sic_RequireSsl i)\<rparr>)"

definition told_maintenance_window :: "sqlMaintenanceWindow \<Rightarrow> maintenanceWindow" where
  "told_maintenance_window m = \<lparr>mw_Day = sent_int ''Day'' (smw_ForceSendFields m) (smw_Day m),
     mw_Hour = sent_int ''Hour'' (smw_ForceSendFields m) (smw_Hour m), mw_Kind = '''', mw_UpdateTrack = smw_UpdateTrack m\<rparr>"

definition told_settings :: "sqlSettings \<Rightarrow> settings" where
  "told_settings s = (let fs = sse_ForceSendFields s in
    \<lparr>se_ActivationPolicy = sse_ActivationPolicy s, se_AvailabilityType = sse_AvailabilityType s,
     se_BackupConfiguration = map_option told_backup (sse_BackupConfiguration s), se_Collation = sse_Collation s,
     se_ConnectorEnforcement = sse_ConnectorEnforcement s,
     se_CrashSafeReplicationEnabled = sent ''CrashSafeReplicationEnabled'' fs (sse_CrashSafeReplicationEnabled s),
     se_DataDiskSizeGb = sse_DataDiskSizeGb s, se_DataDiskType = sse_DataDiskType s, se_DatabaseFlags = sse_DatabaseFlags s,
     se_DatabaseReplicationEnabled = sent ''DatabaseReplicationEnabled'' fs (sse_DatabaseReplicationEnabled s),
     se_DeletionProtectionEnabled = sent ''DeletionProtectionEnabled'' fs (sse_DeletionProtectionEnabled s),
     se_DenyMaintenancePeriods = sse_DenyMaintenancePeriods s, se_InsightsConfig = sse_InsightsConfig s,
     se_IpConfiguration = map_option told_ip_configuration (sse_IpConfiguration s),
     se_Kind = sse_Kind s, se_LocationPreference = sse_LocationPreference s,
     se_MaintenanceWindow = map_option told_maintenance_window (sse_MaintenanceWindow s),
     se_PasswordValidationPolicy = sse_PasswordValidationPolicy s, se_PricingPlan = sse_PricingPlan s, se_ReplicationType = sse_ReplicationType s,
     se_SettingsVersion = sse_SettingsVersion s, se_StorageAutoResize = sse_StorageAutoResize s,
     se_StorageAutoResizeLimit = sse_StorageAutoResizeLimit s, se_Tier = sse_Tier s, se_UserLabels = sse_UserLabels s\<rparr>)"

definition told :: "sqlInstance \<Rightarrow> databaseInstance" where
  "told i = \<lparr>di_ConnectionName = sql_ConnectionName i, di_DatabaseVersion = sql_DatabaseVersion i,
     di_DiskEncryptionConfiguration = sql_DiskEncryptionConfiguration i, di_FailoverReplica = map_option told_failover (sql_FailoverReplica i),
     di_GceZone = sql_GceZone i, di_InstanceType = sql_InstanceType i, di_IpAddresses = sql_IpAddresses i, di_Kind = sql_Kind i,
     di_MaintenanceVersion = sql_MaintenanceVersion i, di_MasterInstanceName = sql_MasterInstanceName i, di_MaxDiskSize = sql_MaxDiskSize i,
     di_Name = sql_Name i, di_Project = sql_Project i, di_Region = sql_Region i, di_ReplicaNames = sql_ReplicaNames i,
     di_RootPassword = sql_RootPassword i, di_SecondaryGceZone = sql_SecondaryGceZone i, di_SelfLink = sql_SelfLink i,
     di_ServerCaCert = sql_ServerCaCert i, di_Settings = map_option told_settings (sql_Settings i)\<rparr>"

text \<open>What gets lost of a strategy: the kind and a day 0 of the maintenance window, and the secondary zone, which replaces the primary one.\<close>

definition sent_window :: "maintenanceWindow \<Rightarrow> maintenanceWindow" where
  "sent_window m = m\<lparr>mw_Kind := '''', mw_Day := (if mw_Day m = Some 0 then None else mw_Day m)\<rparr>"

definition sent_strategy :: "databaseInstance \<Rightarrow> databaseInstance" where
  "sent_strategy d = d\<lparr>di_GceZone := (if di_SecondaryGceZone d \<noteq> '''' then di_SecondaryGceZone d else di_GceZone d), di_SecondaryGceZone := '''',
     di_Settings := map_option (\<lambda>s. s\<lparr>se_MaintenanceWindow := map_option sent_window (se_MaintenanceWindow s)\<rparr>) (di_Settings d)\<rparr>"

lemma sent_is_set: "sent n (forced n b) (is_set b) = b"
  by (cases b) (auto simp: sent_def forced_def is_set_def)

lemma set_forced: "n \<in> set (forced m b) \<longleftrightarrow> n = m \<and> b = Some False"
  by (auto simp: forced_def)

lemma sent_among: "(n \<in> set fs \<longleftrightarrow> b = Some False) \<Longrightarrow> sent n fs (is_set b) = b"
  by (cases b) (auto simp: sent_def is_set_def)

lemma told_map_failover: "told_failover (map_failover f) = f"
  by (simp add: told_failover_def map_failover_def sent_is_set)

lemma told_map_backup: "told_backup (map_backup b) = b"
  by (simp add: told_backup_def map_backup_def Let_def sent_among set_forced)

lemma told_map_ip_configuration: "told_ip_configuration (map_ip_configuration i) = i"
  by (simp add: told_ip_configuration_def map_ip_configuration_def Let_def sent_among set_forced)

lemma told_map_window: "told_maintenance_window (map_maintenance_window m) = sent_window m"
  by (cases m) (auto simp: told_maintenance_window_def map_maintenance_window_def sent_window_def sent_int_def split: option.splits)

lemma told_map_settings:
  "told_settings (map_settings s) = s\<lparr>se_MaintenanceWindow := map_option sent_window (se_MaintenanceWindow s)\<rparr>"
  by (simp add: told_settings_def map_settings_def Let_def sent_among set_forced option.map_comp comp_def told_map_backup
      told_map_ip_configuration told_map_window option.map_ident)


end
