(* ===== verification/GCP_API.thy ===== *)
theory GCP_API
  imports GCP_SQL_Types Provider_Parts Go_Net
begin

text \<open>
  The services of Google Cloud behind the interfaces of \<^verbatim>\<open>pkg/providers/gcp/gcpiface\<close>: the messages the operator reads and
  writes, its state-changing requests, and the questions it asks. The services are parameters, functions on a world of any type.
\<close>

section \<open>Messages\<close>

text \<open>
  Fields of protocol buffers are pointers; a getter returns the zero value for nil.
\<close>

definition pb_get :: "string option \<Rightarrow> string" where
  "pb_get x = (case x of None \<Rightarrow> '''' | Some v \<Rightarrow> v)"

record gcpNetwork =
  gn_Name :: "string option"
  gn_SelfLink :: "string option"
  gn_Subnetworks :: "string list"
  gn_Peerings :: "string option list"

record gcpAddress =
  ga_Name :: "string option"
  ga_Network :: "string option"
  ga_Status :: "string option"
  ga_Address :: "string option"
  ga_PrefixLength :: "nat option"
  ga_AddressType :: "string option"
  ga_IpVersion :: "string option"
  ga_Purpose :: "string option"

record serviceConnection =
  co_Network :: string
  co_ReservedPeeringRanges :: "string list"

text \<open>
  A Memorystore instance. Enumerations are their numbers, 0 when unspecified; a weekly maintenance window is its
  day and start (a JSON value) and its duration, which the service fills in.
\<close>

record weeklyWindow =
  ww_Window :: json
  ww_Duration :: "int option"

record redisInstance =
  ri_Name :: string
  ri_Tier :: int
  ri_ReadReplicasMode :: int
  ri_MemorySizeGb :: int
  ri_AuthorizedNetwork :: string
  ri_ConnectMode :: int
  ri_ReservedIpRange :: string
  ri_RedisVersion :: string
  ri_Labels :: "labels option"
  ri_RedisConfigs :: "labels option"
  ri_MaintenancePolicy :: "weeklyWindow list option"
  ri_State :: int
  ri_Host :: string
  ri_Port :: int

record createInstanceRequest =
  cir_Parent :: string
  cir_InstanceId :: string
  cir_Instance :: "redisInstance option"

section \<open>Requests\<close>

datatype gcp_req =
    ReqInsertAddress string gcpAddress
  | ReqDeleteAddress string string
  | ReqCreateConnection string serviceConnection
  | ReqDeleteConnection string string
  | ReqRemovePeering string string string
  | ReqInsertInstance string sqlInstance
  | ReqPatchInstance string string sqlInstance
  | ReqDeleteInstance string string
  | ReqExportInstance string string string
  | ReqCreateRedis createInstanceRequest
  | ReqUpdateRedis redisInstance "string list"
  | ReqUpgradeRedis string string
  | ReqDeleteRedis string
  | ReqCreateStorageBucket string string string
  | ReqDeleteStorageBucket string
  | ReqSetBucketPolicy string string string
  | ReqSetBucketLifecycle string int
  | ReqDeleteObject string string

type_synonym ('w, 'a) gop = "('w, gcp_req, 'a) kop"

datatype gcp_api = SQLAdminApi | NetworksApi | SubnetsApi | ServicesApi | AddressApi | RedisApi | StorageApi

text \<open>
  The services an account gives access to. \<open>gcp_Exec\<close> performs a request; its result is whether the operation the
  service answers with is done. The iterator of the networks yields the networks and then an error, the end of the iteration or
  another one. A lifecycle rule is whether its action deletes, and its age in days.
\<close>

record 'w gcp =
  gcp_Exec :: "gcp_req \<Rightarrow> 'w \<Rightarrow> (error + bool) \<times> 'w"
  gcp_IterateNetworks :: "string \<Rightarrow> string \<Rightarrow> 'w \<Rightarrow> (gcpNetwork list \<times> error) \<times> 'w"
  gcp_GetSubnetwork :: "string \<Rightarrow> string \<Rightarrow> string \<Rightarrow> 'w \<Rightarrow> (error + string option) \<times> 'w"
  gcp_ListConnections :: "string \<Rightarrow> string \<Rightarrow> 'w \<Rightarrow> (error + serviceConnection list) \<times> 'w"
  gcp_GetAddress :: "string \<Rightarrow> string \<Rightarrow> 'w \<Rightarrow> (error + gcpAddress) \<times> 'w"
  gcp_GetInstance :: "string \<Rightarrow> string \<Rightarrow> 'w \<Rightarrow> (error + sqlInstance) \<times> 'w"
  gcp_GetRedis :: "string \<Rightarrow> 'w \<Rightarrow> (error + redisInstance) \<times> 'w"
  gcp_GetBucket :: "string \<Rightarrow> 'w \<Rightarrow> (error + (bool \<times> int) list) \<times> 'w"
  gcp_HasRole :: "string \<Rightarrow> string \<Rightarrow> string \<Rightarrow> 'w \<Rightarrow> (error + bool) \<times> 'w"
  gcp_ListObjects :: "string \<Rightarrow> 'w \<Rightarrow> (error + string list) \<times> 'w"
  gcp_GetObjectMetadata :: "string \<Rightarrow> string \<Rightarrow> 'w \<Rightarrow> (error + string) \<times> 'w"

definition gexec :: "'w gcp \<Rightarrow> gcp_req \<Rightarrow> ('w, bool) gop" where
  "gexec g req = request (gcp_Exec g req) (\<lambda>r. EvCloud req (ok r))"

section \<open>The provider structure\<close>

text \<open>
  Decoding a strategy is a parameter, of which nothing is assumed: into a Cloud SQL instance (None when the strategy
  sets it to null), the name of the instance to delete, a Memorystore request, the name to delete, the block of the network. So are the creation of
  a client for an account, the path of a URL (\<^verbatim>\<open>url.Parse\<close>), durations in nanoseconds (\<^verbatim>\<open>str2duration\<close>), the clock in nanoseconds,
  the instant a creation timestamp stands for, \<^verbatim>\<open>reflect.DeepEqual\<close> on maintenance windows
  (it also compares the internal state of the messages), and \<^verbatim>\<open>sort.Slice\<close> by creation, newest first.
\<close>

record 'w gcpProvider =
  gp_Client :: "'w kube"
  gp_ConfigManager :: configMapConfigManager
  gp_Codec :: gcp_codec
  gp_New :: "gcp_api \<Rightarrow> string \<Rightarrow> error option"
  gp_Services :: "string \<Rightarrow> 'w gcp"
  gp_TCPConnection :: "string \<Rightarrow> int \<Rightarrow> 'w \<Rightarrow> bool \<times> 'w"
  gp_Now :: "'w \<Rightarrow> int \<times> 'w"
  gp_NewRandom :: "'w \<Rightarrow> (error + string) \<times> 'w"
  gp_UrlPath :: "string \<Rightarrow> error + string"
  gp_ParseDuration :: "string \<Rightarrow> error + int"
  gp_Created :: "string \<Rightarrow> int"
  gp_SameWindows :: "weeklyWindow list \<Rightarrow> weeklyWindow list \<Rightarrow> bool"
  gp_SortNewest :: "snapshot list \<Rightarrow> snapshot list"
  dec_CreateSql :: "json option \<Rightarrow> error + databaseInstance option"
  dec_DeleteSql :: "json option \<Rightarrow> error + string"
  dec_CreateRedisRequest :: "json option \<Rightarrow> error + createInstanceRequest"
  dec_DeleteRedisRequest :: "json option \<Rightarrow> error + string"
  dec_CidrBlock :: "json option \<Rightarrow> error + string"

definition defaultGcpIdentifierLength :: int where
  "defaultGcpIdentifierLength = 40"

definition gcp_SupportsStrategy :: "string \<Rightarrow> bool" where
  "gcp_SupportsStrategy d \<longleftrightarrow> d = ''gcp''"

definition gcp_GetReconcileTime_instance :: "env \<Rightarrow> cr \<Rightarrow> int" where
  "gcp_GetReconcileTime_instance env inst =
     (if st_Phase (cr_status inst) \<noteq> PhaseComplete then 60 * 1000000000 else GetForcedReconcileTimeOrDefault env (30 * 1000000000))"

definition new_client :: "'w gcpProvider \<Rightarrow> gcp_api \<Rightarrow> string \<Rightarrow> ('w, unit) gop" where
  "new_client p api account = (case gp_New p api account of Some e \<Rightarrow> throw e | None \<Rightarrow> ret ())"

section \<open>Tags\<close>

text \<open>
  Labels have no upper case letters, dots or slashes: \<^verbatim>\<open>strings.NewReplacer(".", "-", "/", "_")\<close> and \<^verbatim>\<open>strings.ToLower\<close>,
  on ASCII texts. The tags are built alike for Redis and Postgres, only the message differs.
\<close>

definition to_lower :: "char \<Rightarrow> char" where
  "to_lower ch = (if (of_char ch :: nat) \<in> {65..90} then char_of (of_char ch + 32 :: nat) else ch)"

definition label_text :: "string \<Rightarrow> string" where
  "label_text s = map to_lower (map (\<lambda>ch. if ch = CHR ''.'' then CHR ''-'' else if ch = CHR ''/'' then CHR ''_'' else ch) s)"

definition label_map :: "tag list \<Rightarrow> labels" where
  "label_map ts = foldl (\<lambda>m t. m(label_text (tag_Key t) \<mapsto> label_text (tag_Value t))) Map.empty ts"

definition buildDefaultTags :: "'w kube \<Rightarrow> string \<Rightarrow> cr \<Rightarrow> ('w, labels) gop" where
  "buildDefaultTags k msg inst =
     andThen (wrapping msg (GetDefaultResourceTags k (spec_Type (cr_spec inst)) (om_Name (cr_meta inst)) (map_get (om_Labels (cr_meta inst)) ''productName'')))
       (\<lambda>(tags, _). ret (label_map tags))"

definition buildDefaultPostgresTags :: "'w kube \<Rightarrow> cr \<Rightarrow> ('w, labels) gop" where
  "buildDefaultPostgresTags k pg = buildDefaultTags k ''failed to get default postgres tags'' pg"

definition buildDefaultRedisTags :: "'w kube \<Rightarrow> cr \<Rightarrow> ('w, labels) gop" where
  "buildDefaultRedisTags k r = buildDefaultTags k ''failed to get default redis tags'' r"

section \<open>Rules\<close>

lemma only_gexec [only_rules]: "P (EvCloud req True) \<Longrightarrow> P (EvCloud req False) \<Longrightarrow> only P (gexec g req)"
  unfolding gexec_def only_def by (rule emits_weaken [OF emits_request]) auto

lemma visible_gexec: "(\<And>b. S (filter L [EvCloud req b])) \<Longrightarrow> visible L (gexec g req) S"
  unfolding gexec_def by (rule visible_request)

lemma quiet_new_client [quiet_rules]: "quiet (new_client p api account)"
  unfolding new_client_def by (intro quiet_rules)

lemma quiet_tags [quiet_rules]: "quiet (buildDefaultPostgresTags k pg)" "quiet (buildDefaultRedisTags k pg)"
  unfolding buildDefaultPostgresTags_def buildDefaultRedisTags_def buildDefaultTags_def by (intro quiet_rules)+

end
