(* ===== verification/GCP_Snapshots.thy ===== *)
theory GCP_Snapshots
  imports GCP_API
begin

text \<open>
  The Postgres snapshots of GCP (\<^verbatim>\<open>pkg/providers/gcp/provider_postgressnapshot.go\<close>, \<^verbatim>\<open>gcpiface/storage_api.go\<close>): an export of the
  database to an object in a bucket of the instance. A snapshot resource is changed through its pointer, so it is part of the result.
\<close>

section \<open>Storage\<close>

definition ErrObjectNotExist :: error where
  "ErrObjectNotExist = ErrNew ''storage: object doesn't exist''"

definition ErrBucketNotExist :: error where
  "ErrBucketNotExist = ErrNew ''storage: bucket doesn't exist''"

definition HasBucketLifecycle :: "'w gcp \<Rightarrow> string \<Rightarrow> int \<Rightarrow> ('w, bool) gop" where
  "HasBucketLifecycle g bucket days = andThen (query (gcp_GetBucket g bucket)) (\<lambda>rules. ret (\<exists>r \<in> set rules. fst r \<and> snd r = days))"

section \<open>The snapshots of an instance\<close>

definition getAllSnapshotsForInstance :: "'w gcpProvider \<Rightarrow> string \<Rightarrow> string \<Rightarrow> ('w, snapshot list) gop" where
  "getAllSnapshotsForInstance p resourceName ns =
     andThen (query (kube_ListSnapshots (gp_Client p) Postgres ns)) (\<lambda>items. ret (filter (\<lambda>sn. sp_ResourceName (sn_spec sn) = resourceName) items))"

definition getLatestPostgresSnapshot :: "'w gcpProvider \<Rightarrow> string \<Rightarrow> string \<Rightarrow> ('w, snapshot option) gop" where
  "getLatestPostgresSnapshot p resourceName ns = andThen (getAllSnapshotsForInstance p resourceName ns) (\<lambda>snapshots.
     ret (find (\<lambda>sn. ss_Phase (sn_status sn) = PhaseComplete) (gp_SortNewest p snapshots)))"

section \<open>Creation\<close>

definition sn_failed_plain :: "snapshot \<Rightarrow> string \<Rightarrow> error \<Rightarrow> snapshot_reply" where
  "sn_failed_plain sn msg e = ((None, msg, Some e), sn)"

definition bucketPolicy :: string where "bucketPolicy = ''roles/storage.objectAdmin''"

text \<open>The bucket is created in the region of the strategy; one that exists already is no error.\<close>

definition ensure_bucket :: "'w gcp \<Rightarrow> strategyConfig \<Rightarrow> string \<Rightarrow> ('w, (string \<times> error) option) gop" where
  "ensure_bucket g config instanceName =
     andThen (attempt (query (gcp_GetBucket g instanceName))) (\<lambda>r. case r of
       Inr _ \<Rightarrow> ret None
     | Inl e \<Rightarrow>
         if e \<noteq> ErrBucketNotExist then ret (Some (''failed to retrieve bucket metadata for bucket '' @ instanceName, e))
         else andThen (attempt (gexec g (ReqCreateStorageBucket instanceName (sc_ProjectID config) (sc_Region config)))) (\<lambda>r2. case r2 of
           Inl e \<Rightarrow> ret (if IsConflictError e then None else Some (''failed to create bucket with name '' @ instanceName, e))
         | Inr _ \<Rightarrow> ret None))"

definition gcp_createPostgresSnapshot :: "'w gcp \<Rightarrow> strategyConfig \<Rightarrow> cr \<Rightarrow> snapshot \<Rightarrow> ('w, snapshot_reply) gop" where
  "gcp_createPostgresSnapshot g config pg snap =
     (let instanceName = annotations_Get (cr_meta pg) ResourceIdentifierAnnotation in
      if st_Phase (cr_status pg) \<noteq> PhaseComplete
      then (let errMsg = ''waiting for postgres instance '' @ instanceName @ '' to be complete, status '' @ st_Phase (cr_status pg)
            in ret (sn_failed_plain snap errMsg (ErrNew errMsg)))
      else andThen (ensure_bucket g config instanceName) (\<lambda>problem. case problem of
        Some (errMsg, e) \<Rightarrow> ret (sn_failed snap errMsg e)
      | None \<Rightarrow>
      otherwise (query (gcp_GetInstance g (sc_ProjectID config) instanceName)) (sn_failed snap (''failed to find postgres instance with name '' @ instanceName)) (\<lambda>inst.
      let serviceAccount = ''serviceAccount:'' @ sql_ServiceAccountEmailAddress inst in
      otherwise (query (gcp_HasRole g instanceName serviceAccount bucketPolicy)) (sn_failed snap (''failed to check bucket policy for '' @ instanceName)) (\<lambda>hasPolicy.
      otherwise (if hasPolicy then ret True else gexec g (ReqSetBucketPolicy instanceName serviceAccount bucketPolicy))
        (sn_failed snap (''failed to set policy on bucket '' @ instanceName)) (\<lambda>_.
      andThen (attempt (gexec g (ReqExportInstance (sc_ProjectID config) instanceName (''gs://'' @ instanceName @ ''/'' @ ss_SnapshotID (sn_status snap))))) (\<lambda>r. case r of
        Inl e \<Rightarrow> if IsConflictError e then ret ((None, ''snapshot creation started for '' @ om_Name (sn_meta snap), None), snap)
                  else ret (sn_failed snap (''failed to export database from postgres instance '' @ instanceName) e)
      | Inr _ \<Rightarrow> ret ((None, ''snapshot creation started for '' @ om_Name (sn_meta snap), None), snap)))))))"

text \<open>The snapshot after \<^verbatim>\<open>p.client.Update\<close> has the stored values; the resource keeps the flag when the update fails.\<close>

definition mark_latest :: "'w gcpProvider \<Rightarrow> snapshot \<Rightarrow> snapshot \<Rightarrow> ('w, snapshot) gop" where
  "mark_latest p latest snap =
     (if om_Name (sn_meta snap) = om_Name (sn_meta latest)
      then update_snapshot (gp_Client p) Postgres (snap\<lparr>sn_spec := (sn_spec snap)\<lparr>sp_SkipDelete := True\<rparr>\<rparr>)
      else ret snap)"

definition with_skip :: "snapshot \<Rightarrow> snapshot \<Rightarrow> snapshot" where
  "with_skip latest snap = (if om_Name (sn_meta snap) = om_Name (sn_meta latest) then snap\<lparr>sn_spec := (sn_spec snap)\<lparr>sp_SkipDelete := True\<rparr>\<rparr> else snap)"

definition unmark_others :: "'w gcpProvider \<Rightarrow> snapshot \<Rightarrow> snapshot list \<Rightarrow> ('w, unit) gop" where
  "unmark_others p latest snapshots = for_each (\<lambda>sn.
     if om_Name (sn_meta sn) = om_Name (sn_meta latest) then ret ()
     else andThen (update_snapshot (gp_Client p) Postgres (sn\<lparr>sn_spec := (sn_spec sn)\<lparr>sp_SkipDelete := False\<rparr>\<rparr>)) (\<lambda>_. ret ())) snapshots"

definition reconcileSkipDelete :: "'w gcpProvider \<Rightarrow> snapshot \<Rightarrow> ('w, (string \<times> error option) \<times> snapshot) gop" where
  "reconcileSkipDelete p snap =
     (let res = sp_ResourceName (sn_spec snap); ns = om_Namespace (sn_meta snap); stop = (\<lambda>sn msg e. ((msg, Some (ErrWrap e msg)), sn)) in
      otherwise (getLatestPostgresSnapshot p res ns) (stop snap (''failed to determine latest snapshot for '' @ res)) (\<lambda>latestSnapshot. case latestSnapshot of
        None \<Rightarrow> ret ((''no complete snapshots found for '' @ res, None), snap)
      | Some latest \<Rightarrow>
          otherwise (mark_latest p latest snap) (stop (with_skip latest snap) (''failed to update postgres snapshot '' @ om_Name (sn_meta snap))) (\<lambda>snap1.
          let finished = ((''snapshot '' @ om_Name (sn_meta snap1) @ '' successfully reconciled'', None), snap1) in
          if sp_SkipDelete (sn_spec latest)
          then otherwise (getAllSnapshotsForInstance p (sp_ResourceName (sn_spec snap1)) (om_Namespace (sn_meta snap1))) (stop snap1 ''failed to list postgres snapshots'') (\<lambda>snapshots.
            otherwise (unmark_others p latest snapshots) (stop snap1 ''failed to remove skipDelete from postgres snapshot cr'') (\<lambda>_. ret finished))
          else ret finished)))"

text \<open>Days of the lifecycle rule: the retention in full days and ten more, computed exactly in place of 64 bit floats.\<close>

definition lifecycle_days :: "int \<Rightarrow> int" where
  "lifecycle_days retention = \<lceil>real_of_int retention / (24 * 3600 * 1000000000)\<rceil> + 10"

definition reconcilePostgresSnapshot :: "'w gcpProvider \<Rightarrow> 'w gcp \<Rightarrow> strategyConfig \<Rightarrow> cr \<Rightarrow> snapshot \<Rightarrow> ('w, snapshot_reply) gop" where
  "reconcilePostgresSnapshot p g config pg snap =
     (let instanceName = annotations_Get (cr_meta pg) ResourceIdentifierAnnotation in
      if instanceName = ''''
      then (let errMsg = ''failed to find '' @ ResourceIdentifierAnnotation @ '' annotation for postgres cr '' @ om_Name (cr_meta pg)
            in ret (sn_failed_plain snap errMsg (ErrNew errMsg)))
      else let snap1 = snap\<lparr>sn_status := (sn_status snap)\<lparr>ss_SnapshotID := om_Name (sn_meta snap)\<rparr>\<rparr>; snapshotID = om_Name (sn_meta snap) in
      otherwise (status_update_snapshot (gp_Client p) Postgres snap1)
        (sn_failed snap1 (''failed to update snapshot '' @ om_Name (sn_meta snap) @ '' in namespace '' @ om_Namespace (sn_meta snap))) (\<lambda>snap2.
      andThen (attempt (query (gcp_GetObjectMetadata g instanceName snapshotID))) (\<lambda>r. case r of
        Inl e \<Rightarrow>
          if e = ErrObjectNotExist then gcp_createPostgresSnapshot g config pg snap2
          else ret (sn_failed snap2 (''failed to retrieve object metadata for bucket '' @ instanceName @ '' and object '' @ snapshotID) e)
      | Inr objectName \<Rightarrow>
          otherwise (lift_sum (gp_ParseDuration p (spec_SnapshotRetention (cr_spec pg))))
            (sn_failed snap2 (''failed to parse '' @ quoted (spec_SnapshotRetention (cr_spec pg)) @ '' into go duration'')) (\<lambda>snapshotRetention.
          otherwise (HasBucketLifecycle g instanceName (lifecycle_days snapshotRetention))
            (sn_failed snap2 (''failed to check object lifecycle for bucket '' @ instanceName)) (\<lambda>hasLifecycle.
          otherwise (if hasLifecycle then ret True else gexec g (ReqSetBucketLifecycle instanceName (lifecycle_days snapshotRetention)))
            (sn_failed snap2 (''failed to set object lifecycle for bucket '' @ instanceName)) (\<lambda>_.
          andThen (reconcileSkipDelete p snap2) (\<lambda>((msg, err), snap3). case err of
            Some e \<Rightarrow> ret (sn_failed_plain snap3 msg e)
          | None \<Rightarrow> ret ((Some objectName, msg, None), snap3))))))))"

definition CreatePostgresSnapshot_gcp :: "'w gcpProvider \<Rightarrow> snapshot \<Rightarrow> cr \<Rightarrow> ('w, snapshot_reply) gop" where
  "CreatePostgresSnapshot_gcp p snap0 pg =
     (let k = gp_Client p in
      otherwise (CreateFinalizer_snapshot k Postgres snap0) (sn_failed (snapshot_finalizer snap0) ''failed to set finalizer'') (\<lambda>snap.
      otherwise (gcp_ReadStorageStrategy k (gp_ConfigManager p) ''postgres'' (spec_Tier (cr_spec pg))) (sn_failed snap ''failed to retrieve postgres strategy config'') (\<lambda>config.
      otherwise (gcp_ReconcileProviderCredentials k (gp_Codec p) (om_Namespace (cr_meta pg)))
        (sn_failed snap (''failed to reconcile gcp provider credentials for postgres instance '' @ om_Name (cr_meta pg))) (\<lambda>creds.
      let account = gcred_ServiceAccountJson creds in
      otherwise (new_client p StorageApi account) (sn_failed snap ''could not initialise storage client'') (\<lambda>_.
      otherwise (new_client p SQLAdminApi account) (sn_failed snap ''could not initialise sql admin service'') (\<lambda>_.
        reconcilePostgresSnapshot p (gp_Services p account) config pg snap))))))"

section \<open>Deletion\<close>

definition gcp_release_snapshot :: "'w gcpProvider \<Rightarrow> snapshot \<Rightarrow> ('w, snapshot_delete_reply) gop" where
  "gcp_release_snapshot p snap =
     andThen (deref (RemoveFinalizer (sn_meta snap) DefaultFinalizer)) (\<lambda>om.
     let snap1 = snap\<lparr>sn_meta := om\<rparr> in
     otherwise (update_snapshot (gp_Client p) Postgres snap1) (sn_delete_failed snap1 ''failed to update snapshot as part of finalizer reconcile'') (\<lambda>stored.
       ret ((''snapshot '' @ om_Name (sn_meta stored) @ '' deleted'', None), stored)))"

definition gcp_deletePostgresSnapshot :: "'w gcpProvider \<Rightarrow> 'w gcp \<Rightarrow> cr \<Rightarrow> snapshot \<Rightarrow> ('w, snapshot_delete_reply) gop" where
  "gcp_deletePostgresSnapshot p g pg snap =
     (let instanceName = annotations_Get (cr_meta pg) ResourceIdentifierAnnotation; name = om_Name (sn_meta snap); stop = (\<lambda>msg e. ((msg, Some e), snap)) in
      if sp_SkipDelete (sn_spec snap) then gcp_release_snapshot p snap
      else otherwise (gexec g (ReqDeleteObject instanceName name)) (stop (''failed to delete snapshot '' @ name @ '' from bucket '' @ instanceName)) (\<lambda>_.
      otherwise (query (gcp_ListObjects g instanceName)) (stop (''failed to list objects from bucket '' @ instanceName)) (\<lambda>objects.
      if name \<in> set objects then ret ((''object '' @ name @ '' deletion in progress'', None), snap)
      else if objects = []
      then otherwise (gexec g (ReqDeleteStorageBucket instanceName)) (stop (''failed to delete bucket '' @ instanceName)) (\<lambda>_. gcp_release_snapshot p snap)
      else gcp_release_snapshot p snap)))"

definition DeletePostgresSnapshot_gcp :: "'w gcpProvider \<Rightarrow> snapshot \<Rightarrow> cr \<Rightarrow> ('w, snapshot_delete_reply) gop" where
  "DeletePostgresSnapshot_gcp p snap pg =
     otherwise (gcp_ReconcileProviderCredentials (gp_Client p) (gp_Codec p) (om_Namespace (cr_meta pg)))
       (sn_delete_failed snap (''failed to reconcile gcp provider credentials for postgres instance '' @ om_Name (cr_meta pg))) (\<lambda>creds.
     otherwise (new_client p StorageApi (gcred_ServiceAccountJson creds)) (sn_delete_failed snap ''could not initialise storage client'') (\<lambda>_.
       gcp_deletePostgresSnapshot p (gp_Services p (gcred_ServiceAccountJson creds)) pg snap))"

end
