(* ===== verification/GCP_Network.thy ===== *)
theory GCP_Network
  imports GCP_API
begin

text \<open>
  The network of GCP resources (\<^verbatim>\<open>pkg/providers/gcp/cluster_network_provider.go\<close> and \<^verbatim>\<open>cluster_vpc.go\<close>): the address range
  reserved in the cluster VPC, the service connection that peers it with Google's services, and their removal.
\<close>

section \<open>The cluster VPC\<close>

definition api_error :: "error \<Rightarrow> bool" where
  "api_error e = (case error_root e of ErrGoogleHTTP _ _ \<Rightarrow> True | ErrGoogleGRPC _ _ \<Rightarrow> True | _ \<Rightarrow> False)"

text \<open>The loop over the iterator: every error but one of the API ends the iteration.\<close>

definition list_networks :: "'w gcp \<Rightarrow> string \<Rightarrow> string \<Rightarrow> ('w, gcpNetwork list) gop" where
  "list_networks g projectID flt = andThen (ask (gcp_IterateNetworks g projectID flt)) (\<lambda>(networks, e).
     if api_error e then throw e else ret networks)"

definition gcp_getClusterVpc :: "'w kube \<Rightarrow> 'w gcp \<Rightarrow> string \<Rightarrow> ('w, gcpNetwork) gop" where
  "gcp_getClusterVpc k g projectID =
     andThen (wrapping ''error getting clusterID'' (GetClusterID k)) (\<lambda>clusterID.
     andThen (wrapping ''error getting networks from gcp'' (list_networks g projectID (''name = '' @ quoted (clusterID @ ''-*'')))) (\<lambda>networks.
     case networks of
       [network] \<Rightarrow>
         if length (gn_Subnetworks network) < 2
         then throw (ErrNew (''found cluster vpc has only '' @ itoa (int (length (gn_Subnetworks network))) @ '' subnetworks, expected at least 2''))
         else andThen (deref (gn_Name network)) (\<lambda>_. ret network)
     | _ \<Rightarrow> throw (ErrNew (''cannot determine cluster vpc. matching networks found '' @ itoa (int (length networks))))))"

section \<open>Subnets and blocks\<close>

fun split_slash :: "string \<Rightarrow> string list" where
  "split_slash [] = ['''']"
| "split_slash (ch # s) = (if ch = CHR ''/'' then '''' # split_slash s
     else (case split_slash s of [] \<Rightarrow> [[ch]] | w # ws \<Rightarrow> (ch # w) # ws))"

text \<open>The loop over the segments of a path; the segment after \<open>regions\<close> or \<open>subnetworks\<close> must exist, None is a panic.\<close>

fun subnet_segments :: "string list \<Rightarrow> string \<Rightarrow> (string \<times> string) option" where
  "subnet_segments [] region = Some ('''', region)"
| "subnet_segments [x] region = (if x = ''regions'' \<or> x = ''subnetworks'' then None else Some ('''', region))"
| "subnet_segments (x # y # xs) region = (let region' = (if x = ''regions'' then y else region) in
     if x = ''subnetworks'' then Some (y, region') else subnet_segments (y # xs) region')"

definition parseSubnetUrl :: "'w gcpProvider \<Rightarrow> string \<Rightarrow> ('w, string \<times> string) gop" where
  "parseSubnetUrl p subnetUrl =
     andThen (wrapping (''failed to parse subnet url '' @ subnetUrl) (lift_sum (gp_UrlPath p subnetUrl))) (\<lambda>path.
     andThen (deref (subnet_segments (split_slash path) '''')) (\<lambda>(name, region).
     if name = '''' \<or> region = '''' then throw (ErrNew ''failed to retrieve subnetwork name from URL'') else ret (name, region)))"

text \<open>Of a subnet its block is kept.\<close>

definition getClusterSubnets :: "'w gcpProvider \<Rightarrow> 'w gcp \<Rightarrow> string \<Rightarrow> gcpNetwork \<Rightarrow> ('w, string option list) gop" where
  "getClusterSubnets p g projectID clusterVpc = for_fold (\<lambda>subnets url.
     andThen (parseSubnetUrl p url) (\<lambda>(name, region).
     andThen (wrapping ''failed to retrieve cluster subnet <nil>'' (query (gcp_GetSubnetwork g projectID name region))) (\<lambda>subnet.
       ret (subnets @ [subnet])))) [] (gn_Subnetworks clusterVpc)"

definition gcp_isValidCIDRRange :: "ipnet \<Rightarrow> bool" where
  "gcp_isValidCIDRRange c \<longleftrightarrow> mask_Size (net_Mask c) \<le> 22"

fun overlapping_subnet :: "ipnet \<Rightarrow> string option list \<Rightarrow> error option" where
  "overlapping_subnet c [] = None"
| "overlapping_subnet c (s # ss) = (case ParseCIDR (pb_get s) of
     Inl _ \<Rightarrow> Some (ErrNew ''failed to parse cluster subnet into cidr'')
   | Inr (_, clusterCIDR) \<Rightarrow>
       if net_Contains clusterCIDR (net_IP c) \<or> net_Contains c (net_IP clusterCIDR)
       then Some (ErrNew (''ip range creation failed: cidr block '' @ net_String c @ '' overlaps with cluster vpc subnet block '' @ net_String clusterCIDR @
              '', update _network strategy to continue ip range creation''))
       else overlapping_subnet c ss)"

definition validateCidrBlock :: "ipnet \<Rightarrow> string option list \<Rightarrow> error option" where
  "validateCidrBlock c subnets =
     (if \<not> gcp_isValidCIDRRange c
      then Some (ErrNew (net_String c @ '' is out of range, block sizes must be `/22` or lower, please update `_network` strategy''))
      else overlapping_subnet c subnets)"

section \<open>Parts of the network\<close>

definition service_path :: string where
  "service_path = ''services/servicenetworking.googleapis.com''"

definition network_path :: "string \<Rightarrow> gcpNetwork \<Rightarrow> string" where
  "network_path projectID vpc = ''projects/'' @ projectID @ ''/global/networks/'' @ pb_get (gn_Name vpc)"

definition getServiceConnection :: "'w gcp \<Rightarrow> string \<Rightarrow> gcpNetwork \<Rightarrow> ('w, serviceConnection option) gop" where
  "getServiceConnection g projectID clusterVpc = andThen (query (gcp_ListConnections g service_path (network_path projectID clusterVpc)))
     (\<lambda>conns. ret (case conns of [] \<Rightarrow> None | co # _ \<Rightarrow> Some co))"

definition createServiceConnection :: "'w gcp \<Rightarrow> string \<Rightarrow> gcpNetwork \<Rightarrow> string \<Rightarrow> ('w, bool) gop" where
  "createServiceConnection g projectID clusterVpc ipRange = gexec g (ReqCreateConnection service_path
     \<lparr>co_Network = network_path projectID clusterVpc, co_ReservedPeeringRanges = [ipRange]\<rparr>)"

definition deleteServiceConnection :: "'w gcp \<Rightarrow> serviceConnection \<Rightarrow> ('w, unit) gop" where
  "deleteServiceConnection g service =
     andThen (gexec g (ReqDeleteConnection (service_path @ ''/connections/servicenetworking-googleapis-com'') (co_Network service))) (\<lambda>finished.
       if \<not> finished then throw (ErrNew ''service connection deletion in progress'') else ret ())"

definition getAddressRange :: "'w gcp \<Rightarrow> string \<Rightarrow> string \<Rightarrow> ('w, gcpAddress option) gop" where
  "getAddressRange g projectID ipRange = andThen (attempt (query (gcp_GetAddress g projectID ipRange))) (\<lambda>r. case r of
     Inl e \<Rightarrow> if IsNotFoundError e then ret None else throw (ErrWrap e ''unexpected error getting addresses from gcp'')
   | Inr address \<Rightarrow> ret (Some address))"

definition new_address :: "gcpNetwork \<Rightarrow> string \<Rightarrow> ipnet \<Rightarrow> gcpAddress" where
  "new_address clusterVpc name cidrRange = \<lparr>ga_Name = Some name, ga_Network = gn_SelfLink clusterVpc, ga_Status = None,
     ga_Address = (if net_IP cidrRange \<noteq> [] then Some (ip_String (net_IP cidrRange)) else None),
     ga_PrefixLength = Some (mask_Size (net_Mask cidrRange)), ga_AddressType = Some ''INTERNAL'', ga_IpVersion = Some ''IPV4'', ga_Purpose = Some ''VPC_PEERING''\<rparr>"

definition createAddressRange :: "'w gcp \<Rightarrow> string \<Rightarrow> gcpNetwork \<Rightarrow> string \<Rightarrow> ipnet \<Rightarrow> ('w, bool) gop" where
  "createAddressRange g projectID clusterVpc name cidrRange = gexec g (ReqInsertAddress projectID (new_address clusterVpc name cidrRange))"

definition deleteAddressRange :: "'w gcp \<Rightarrow> string \<Rightarrow> string \<Rightarrow> ('w, bool) gop" where
  "deleteAddressRange g projectID ipRange = gexec g (ReqDeleteAddress projectID ipRange)"

definition getPeeringConnection :: "gcpNetwork \<Rightarrow> string option" where
  "getPeeringConnection clusterVpc = map_option pb_get (find (\<lambda>n. pb_get n = ''servicenetworking-googleapis-com'') (gn_Peerings clusterVpc))"

definition deletePeeringConnection :: "'w gcp \<Rightarrow> string \<Rightarrow> gcpNetwork \<Rightarrow> ('w, bool) gop" where
  "deletePeeringConnection g projectID clusterVpc = gexec g (ReqRemovePeering projectID (pb_get (gn_Name clusterVpc)) ''servicenetworking-googleapis-com'')"

definition ip_range_name :: "'w kube \<Rightarrow> ('w, string) gop" where
  "ip_range_name k = wrapping ''failed to build ip address range infra name'' (BuildInfraName k ''ip-range'' defaultGcpIdentifierLength)"

section \<open>Creating the network\<close>

type_synonym 'a network_reply = "'a option \<times> string \<times> error option"

definition network_failed :: "error \<Rightarrow> 'a network_reply" where
  "network_failed e = (None, ''failed to create network service'', Some e)"

definition CreateNetworkIpRange :: "'w gcpProvider \<Rightarrow> 'w gcp \<Rightarrow> string \<Rightarrow> ipnet \<Rightarrow> ('w, gcpAddress network_reply) gop" where
  "CreateNetworkIpRange p g projectID cidrRange =
     otherwise (ip_range_name (gp_Client p)) network_failed (\<lambda>ipRangeName.
     otherwise (wrapping ''failed to retrieve ip address range'' (getAddressRange g projectID ipRangeName)) network_failed (\<lambda>address.
     case address of
       Some a \<Rightarrow> ret (Some a, '''', None)
     | None \<Rightarrow>
         otherwise (wrapping ''failed to get cluster vpc'' (gcp_getClusterVpc (gp_Client p) g projectID)) network_failed (\<lambda>clusterVpc.
         otherwise (wrapping ''failed to get cluster subnetworks'' (getClusterSubnets p g projectID clusterVpc)) network_failed (\<lambda>subnets.
         case validateCidrBlock cidrRange subnets of
           Some e \<Rightarrow> ret (network_failed (ErrWrap e ''ip range validation failure''))
         | None \<Rightarrow>
             otherwise (wrapping ''failed to create ip address range'' (createAddressRange g projectID clusterVpc ipRangeName cidrRange)) network_failed (\<lambda>_.
               ret (None, ''ip address range is pending creation'', None))))))"

definition CreateNetworkService :: "'w gcpProvider \<Rightarrow> 'w gcp \<Rightarrow> string \<Rightarrow> ('w, serviceConnection network_reply) gop" where
  "CreateNetworkService p g projectID =
     otherwise (wrapping ''failed to get cluster vpc'' (gcp_getClusterVpc (gp_Client p) g projectID)) network_failed (\<lambda>clusterVpc.
     otherwise (wrapping ''failed to retrieve service connection'' (getServiceConnection g projectID clusterVpc)) network_failed (\<lambda>service.
     case service of
       Some s \<Rightarrow> ret (Some s, '''', None)
     | None \<Rightarrow>
         otherwise (ip_range_name (gp_Client p)) network_failed (\<lambda>ipRange.
         otherwise (wrapping ''failed to retrieve ip address range'' (getAddressRange g projectID ipRange)) network_failed (\<lambda>address.
         case address of
           None \<Rightarrow> ret (None, ''ip address range does not exist or is pending creation'', None)
         | Some a \<Rightarrow>
             if pb_get (ga_Status a) = ''RESERVING'' then ret (None, ''ip address range does not exist or is pending creation'', None)
             else if pb_get (ga_Status a) = ''RESERVED''
             then otherwise (wrapping ''failed to create service connection'' (createServiceConnection g projectID clusterVpc ipRange)) network_failed (\<lambda>_.
               ret (None, ''service connection is pending creation'', None))
             else ret (None, '''', None)))))"

text \<open>A block in the strategy of the network, or a /22 whose address is left to the service.\<close>

definition gcp_ReconcileNetworkProviderConfig :: "'w gcpProvider \<Rightarrow> string \<Rightarrow> ('w, ipnet) gop" where
  "gcp_ReconcileNetworkProviderConfig p tier =
     andThen (wrapping ''failed to read _network strategy config'' (gcp_ReadStorageStrategy (gp_Client p) (gp_ConfigManager p) ''_network'' tier)) (\<lambda>stratCfg.
     andThen (wrapping ''failed to unmarshal gcp vpc create config'' (lift_sum (dec_CidrBlock p (sc_CreateStrategy stratCfg)))) (\<lambda>cidrBlock.
     if cidrBlock \<noteq> ''''
     then andThen (wrapping ''failed to parse cidr block from _network strategy'' (lift_sum (ParseCIDR cidrBlock))) (\<lambda>(_, vpcCidr). ret vpcCidr)
     else ret \<lparr>net_IP = [], net_Mask = CIDRMask 22 32\<rparr>))"

section \<open>Deleting the network\<close>

definition gcp_DeleteNetworkPeering :: "'w gcpProvider \<Rightarrow> 'w gcp \<Rightarrow> string \<Rightarrow> ('w, unit) gop" where
  "gcp_DeleteNetworkPeering p g projectID =
     andThen (wrapping ''failed to get cluster vpc'' (gcp_getClusterVpc (gp_Client p) g projectID)) (\<lambda>clusterVpc.
     if getPeeringConnection clusterVpc \<noteq> None
     then andThen (wrapping ''failed to delete peering connection'' (deletePeeringConnection g projectID clusterVpc)) (\<lambda>_. ret ())
     else ret ())"

definition DeleteNetworkService :: "'w gcpProvider \<Rightarrow> 'w gcp \<Rightarrow> string \<Rightarrow> ('w, unit) gop" where
  "DeleteNetworkService p g projectID =
     andThen (wrapping ''failed to get cluster vpc'' (gcp_getClusterVpc (gp_Client p) g projectID)) (\<lambda>clusterVpc.
     andThen (getServiceConnection g projectID clusterVpc) (\<lambda>service. case service of
       Some s \<Rightarrow> deleteServiceConnection g s
     | None \<Rightarrow> ret ()))"

definition DeleteNetworkIpRange :: "'w gcpProvider \<Rightarrow> 'w gcp \<Rightarrow> string \<Rightarrow> ('w, unit) gop" where
  "DeleteNetworkIpRange p g projectID =
     andThen (ip_range_name (gp_Client p)) (\<lambda>ipRange.
     andThen (wrapping ''failed to retrieve ip address range'' (getAddressRange g projectID ipRange)) (\<lambda>address. case address of
       None \<Rightarrow> ret ()
     | Some a \<Rightarrow>
         andThen (wrapping ''failed to get cluster vpc'' (gcp_getClusterVpc (gp_Client p) g projectID)) (\<lambda>clusterVpc.
         andThen (getServiceConnection g projectID clusterVpc) (\<lambda>service.
         andThen (case service of None \<Rightarrow> ret False
             | Some s \<Rightarrow> (case co_ReservedPeeringRanges s of [] \<Rightarrow> crash | r # _ \<Rightarrow> ret (r = pb_get (ga_Name a)))) (\<lambda>present.
         if present then throw (ErrNew ''failed to delete ip address range, service connection still present'')
         else andThen (wrapping ''failed to delete ip address range'' (deleteAddressRange g projectID ipRange)) (\<lambda>_. ret ()))))))"

definition ComponentsExist :: "'w gcpProvider \<Rightarrow> 'w gcp \<Rightarrow> string \<Rightarrow> ('w, bool) gop" where
  "ComponentsExist p g projectID =
     andThen (wrapping ''failed to get cluster vpc'' (gcp_getClusterVpc (gp_Client p) g projectID)) (\<lambda>clusterVpc.
     andThen (ip_range_name (gp_Client p)) (\<lambda>ipRange.
     andThen (wrapping ''failed to retrieve ip address range'' (getAddressRange g projectID ipRange)) (\<lambda>address.
     if address \<noteq> None then ret True
     else andThen (getServiceConnection g projectID clusterVpc) (\<lambda>service. ret (service \<noteq> None)))))"

text \<open>The clients of the network, created one after the other.\<close>

definition NewNetworkManager :: "'w gcpProvider \<Rightarrow> string \<Rightarrow> ('w, unit) gop" where
  "NewNetworkManager p account =
     andThen (wrapping ''Failed to initialise network client'' (new_client p NetworksApi account)) (\<lambda>_.
     andThen (wrapping ''Failed to initialise subnetworks client'' (new_client p SubnetsApi account)) (\<lambda>_.
     andThen (wrapping ''Failed to initialise servicenetworking client'' (new_client p ServicesApi account)) (\<lambda>_.
       wrapping ''Failed to initialise addresses client'' (new_client p AddressApi account))))"

section \<open>Around a resource\<close>

text \<open>
  The steps both providers take: the network before an instance is looked up, its removal with the last resource (the messages
  are arguments). None means to go on.
\<close>

definition gcp_reconcile_network :: "'w gcpProvider \<Rightarrow> 'w gcp \<Rightarrow> string \<Rightarrow> cr \<Rightarrow> ('w, 'b create_reply + gcpAddress option) gop" where
  "gcp_reconcile_network p g projectID inst =
     otherwise (gcp_ReconcileNetworkProviderConfig p (spec_Tier (cr_spec inst))) (\<lambda>e. Inl (failed inst ''failed to reconcile network provider config'' e)) (\<lambda>ipRangeCidr.
     andThen (CreateNetworkIpRange p g projectID ipRangeCidr) (\<lambda>(address, msg, err).
     if err \<noteq> None \<or> msg \<noteq> '''' then ret (Inl ((None, msg, err), inst))
     else andThen (CreateNetworkService p g projectID) (\<lambda>(_, msg, err).
     if err \<noteq> None \<or> msg \<noteq> '''' then ret (Inl ((None, msg, err), inst))
     else ret (Inr address))))"

definition gcp_remove_network :: "'w gcpProvider \<Rightarrow> 'w gcp \<Rightarrow> string \<Rightarrow> string \<Rightarrow> string \<Rightarrow> bool \<Rightarrow> cr \<Rightarrow> ('w, delete_reply option) gop" where
  "gcp_remove_network p g projectID serviceMsg rangeMsg isLastResource inst =
     (if \<not> isLastResource then ret None
      else otherwise (gcp_DeleteNetworkPeering p g projectID) (\<lambda>e. Some (delete_failed inst ''failed to delete cluster network peering'' e)) (\<lambda>_.
      otherwise (DeleteNetworkService p g projectID) (\<lambda>e. Some (delete_failed inst serviceMsg e)) (\<lambda>_.
      otherwise (DeleteNetworkIpRange p g projectID) (\<lambda>e. Some (delete_failed inst rangeMsg e)) (\<lambda>_.
      otherwise (ComponentsExist p g projectID) (\<lambda>e. Some (delete_failed inst ''failed to check if components exist'' e)) (\<lambda>exist.
        ret (if exist then Some ((''network component deletion in progress'', None), inst) else None))))))"

text \<open>The last step of a deletion, and the version of a found instance.\<close>

definition gcp_release :: "'w gcpProvider \<Rightarrow> kind \<Rightarrow> string \<Rightarrow> string \<Rightarrow> cr \<Rightarrow> ('w, delete_reply) gop" where
  "gcp_release p kind msg finishedMsg inst =
     andThen (deref (RemoveFinalizer (cr_meta inst) DefaultFinalizer)) (\<lambda>om.
     let inst1 = inst\<lparr>cr_meta := om\<rparr> in
     otherwise (update_cr (gp_Client p) kind inst1) (delete_failed inst1 msg) (\<lambda>stored. ret ((finishedMsg, None), stored)))"

definition store_version :: "string \<Rightarrow> cr \<Rightarrow> cr" where
  "store_version v inst = (if v \<noteq> '''' then inst\<lparr>cr_status := (cr_status inst)\<lparr>st_Version := v\<rparr>\<rparr> else inst)"

end
