(* ===== verification/GCP_SQL.thy ===== *)
theory GCP_SQL
  imports GCP_Network GCP_Snapshots
begin

text \<open>
  The Postgres provider for Cloud SQL (\<^verbatim>\<open>pkg/providers/gcp/provider_postgres.go\<close>), operation by operation. The call deferred in
  \<^verbatim>\<open>reconcileCloudSQLInstance\<close> runs after its body on the resource the body leaves behind.
\<close>

definition gcp_postgresProviderName :: string where "gcp_postgresProviderName = ''gcp-cloudsql''"

section \<open>The instance a strategy asks for\<close>

definition str_default :: "string \<Rightarrow> string \<Rightarrow> string" where
  "str_default s d = (if s = '''' then d else s)"

definition int_default :: "int \<Rightarrow> int \<Rightarrow> int" where
  "int_default n d = (if n = 0 then d else n)"

definition ptr_default :: "'a option \<Rightarrow> 'a \<Rightarrow> 'a option" where
  "ptr_default x d = (case x of None \<Rightarrow> Some d | Some _ \<Rightarrow> x)"

text \<open>\<^verbatim>\<open>&gcpiface.Settings{}\<close> and its parts.\<close>

definition empty_backup :: backupConfiguration where
  "empty_backup = \<lparr>bc_BackupRetentionSettings = None, bc_BinaryLogEnabled = None, bc_Enabled = None, bc_Kind = '''', bc_Location = '''',
     bc_PointInTimeRecoveryEnabled = None, bc_ReplicationLogArchivingEnabled = None, bc_StartTime = '''', bc_TransactionLogRetentionDays = 0\<rparr>"

definition empty_ip_configuration :: ipConfiguration where
  "empty_ip_configuration = \<lparr>ic_AllocatedIpRange = '''', ic_AuthorizedNetworks = None, ic_Ipv4Enabled = None, ic_PrivateNetwork = '''', ic_RequireSsl = None\<rparr>"

definition empty_settings :: settings where
  "empty_settings = \<lparr>se_ActivationPolicy = '''', se_AvailabilityType = '''', se_BackupConfiguration = None, se_Collation = '''',
     se_ConnectorEnforcement = '''', se_CrashSafeReplicationEnabled = None, se_DataDiskSizeGb = 0, se_DataDiskType = '''', se_DatabaseFlags = None,
     se_DatabaseReplicationEnabled = None, se_DeletionProtectionEnabled = None, se_DenyMaintenancePeriods = None, se_InsightsConfig = None,
     se_IpConfiguration = None, se_Kind = '''', se_LocationPreference = None, se_MaintenanceWindow = None, se_PasswordValidationPolicy = None,
     se_PricingPlan = '''', se_ReplicationType = '''', se_SettingsVersion = 0, se_StorageAutoResize = None, se_StorageAutoResizeLimit = 0,
     se_Tier = '''', se_UserLabels = None\<rparr>"

definition fill_retention :: "backupRetentionSettings \<Rightarrow> backupRetentionSettings" where
  "fill_retention r = r\<lparr>brs_RetentionUnit := str_default (brs_RetentionUnit r) ''COUNT'', brs_RetainedBackups := int_default (brs_RetainedBackups r) 30\<rparr>"

definition fill_backup :: "backupConfiguration \<Rightarrow> backupConfiguration" where
  "fill_backup b = b\<lparr>bc_Enabled := ptr_default (bc_Enabled b) True,
     bc_PointInTimeRecoveryEnabled := ptr_default (bc_PointInTimeRecoveryEnabled b) True,
     bc_BackupRetentionSettings := Some (fill_retention (the (ptr_default (bc_BackupRetentionSettings b) \<lparr>brs_RetentionUnit = '''', brs_RetainedBackups = 0\<rparr>)))\<rparr>"

definition fill_ip_configuration :: "gcpAddress option \<Rightarrow> ipConfiguration \<Rightarrow> ipConfiguration" where
  "fill_ip_configuration address i = i\<lparr>ic_Ipv4Enabled := ptr_default (ic_Ipv4Enabled i) False,
     ic_AllocatedIpRange := str_default (ic_AllocatedIpRange i) (case address of None \<Rightarrow> '''' | Some a \<Rightarrow> pb_get (ga_Name a)),
     ic_PrivateNetwork := str_default (ic_PrivateNetwork i) (case address of None \<Rightarrow> '''' | Some a \<Rightarrow> pb_get (ga_Network a))\<rparr>"

definition fill_settings :: "labels \<Rightarrow> gcpAddress option \<Rightarrow> settings \<Rightarrow> settings" where
  "fill_settings tags address s = s\<lparr>
     se_UserLabels := Some (the (ptr_default (se_UserLabels s) Map.empty) ++ tags),
     se_Tier := str_default (se_Tier s) ''db-custom-2-3840'',
     se_AvailabilityType := str_default (se_AvailabilityType s) ''REGIONAL'',
     se_StorageAutoResizeLimit := int_default (se_StorageAutoResizeLimit s) 100,
     se_BackupConfiguration := Some (fill_backup (the (ptr_default (se_BackupConfiguration s) empty_backup))),
     se_DataDiskSizeGb := int_default (se_DataDiskSizeGb s) 20,
     se_DeletionProtectionEnabled := ptr_default (se_DeletionProtectionEnabled s) True,
     se_IpConfiguration := Some (fill_ip_configuration address (the (ptr_default (se_IpConfiguration s) empty_ip_configuration)))\<rparr>"

definition fill_instance :: "string \<Rightarrow> string \<Rightarrow> string \<Rightarrow> labels \<Rightarrow> gcpAddress option \<Rightarrow> databaseInstance \<Rightarrow> databaseInstance" where
  "fill_instance name region password tags address d = d\<lparr>di_Name := name,
     di_DatabaseVersion := str_default (di_DatabaseVersion d) ''POSTGRES_13'',
     di_Region := str_default (di_Region d) region,
     di_RootPassword := str_default (di_RootPassword d) password,
     di_Settings := Some (fill_settings tags address (the (ptr_default (di_Settings d) empty_settings)))\<rparr>"

definition instance_id :: "'w gcpProvider \<Rightarrow> string \<Rightarrow> cr \<Rightarrow> ('w, string) gop" where
  "instance_id p name pg = (if name \<noteq> '''' then ret name
     else wrapping ''failed to build gcp postgres instance id from object'' (BuildInfraNameFromObject (gp_Client p) (cr_meta pg) defaultGcpIdentifierLength))"

definition buildCloudSQLCreateStrategy :: "'w gcpProvider \<Rightarrow> cr \<Rightarrow> strategyConfig \<Rightarrow> secret \<Rightarrow> gcpAddress option \<Rightarrow> ('w, databaseInstance) gop" where
  "buildCloudSQLCreateStrategy p pg strategyConfig sec address =
     andThen (wrapping ''failed to unmarshal gcp postgres create request'' (lift_sum (dec_CreateSql p (sc_CreateStrategy strategyConfig)))) (\<lambda>decoded.
     andThen (deref decoded) (\<lambda>d.
     andThen (instance_id p (di_Name d) pg) (\<lambda>name.
     andThen (wrapping ''failed to build gcp postgres instance tags'' (buildDefaultPostgresTags (gp_Client p) pg)) (\<lambda>tags.
       ret (fill_instance name (sc_Region strategyConfig) (map_get (sec_Data sec) ''password'') tags address d)))))"

definition buildCloudSQLDeleteStrategy :: "'w gcpProvider \<Rightarrow> cr \<Rightarrow> strategyConfig \<Rightarrow> ('w, string) gop" where
  "buildCloudSQLDeleteStrategy p pg strategyConfig =
     andThen (wrapping ''failed to unmarshal gcp postgres delete request'' (lift_sum (dec_DeleteSql p (sc_DeleteStrategy strategyConfig)))) (\<lambda>name.
       instance_id p name pg)"

section \<open>The modification of a found instance\<close>

text \<open>\<^verbatim>\<open>&sqladmin.DatabaseInstance{}\<close> and its parts.\<close>

definition no_settings :: sqlSettings where
  "no_settings = map_settings empty_settings"

definition no_backup :: sqlBackupConfiguration where
  "no_backup = map_backup empty_backup"

definition no_ip_configuration :: sqlIpConfiguration where
  "no_ip_configuration = map_ip_configuration empty_ip_configuration"

definition no_instance :: sqlInstance where
  "no_instance = \<lparr>sql_ConnectionName = '''', sql_DatabaseVersion = '''', sql_DiskEncryptionConfiguration = None, sql_FailoverReplica = None,
     sql_GceZone = '''', sql_InstanceType = '''', sql_IpAddresses = None, sql_Kind = '''', sql_MaintenanceVersion = '''', sql_MasterInstanceName = '''',
     sql_MaxDiskSize = 0, sql_Name = '''', sql_Project = '''', sql_Region = '''', sql_ReplicaNames = None, sql_RootPassword = '''',
     sql_SecondaryGceZone = '''', sql_SelfLink = '''', sql_ServerCaCert = None, sql_ServiceAccountEmailAddress = '''', sql_Settings = None, sql_State = ''''\<rparr>"

text \<open>A pointer that is set and differs from the found value; its value then, and the zero value otherwise.\<close>

definition sql_differs :: "'a option \<Rightarrow> 'a \<Rightarrow> bool" where
  "sql_differs w f \<longleftrightarrow> (\<exists>v. w = Some v \<and> v \<noteq> f)"

definition new_bool :: "bool option \<Rightarrow> bool \<Rightarrow> bool" where
  "new_bool w f \<longleftrightarrow> sql_differs w f \<and> is_set w"

definition new_int :: "int option \<Rightarrow> int \<Rightarrow> int" where
  "new_int w f = (if sql_differs w f then the w else 0)"

definition force_if :: "bool \<Rightarrow> string \<Rightarrow> string list" where
  "force_if b name = (if b then [name] else [])"

definition retention_update :: "backupRetentionSettings \<Rightarrow> backupRetentionSettings \<Rightarrow> backupRetentionSettings" where
  "retention_update w f = \<lparr>brs_RetentionUnit = (if brs_RetentionUnit w \<noteq> brs_RetentionUnit f then brs_RetentionUnit w else ''''),
     brs_RetainedBackups = (if brs_RetainedBackups w \<noteq> brs_RetainedBackups f then brs_RetainedBackups w else 0)\<rparr>"

definition backup_update :: "backupConfiguration \<Rightarrow> sqlBackupConfiguration \<Rightarrow> sqlBackupConfiguration" where
  "backup_update w f = no_backup\<lparr>sbc_Enabled := new_bool (bc_Enabled w) (sbc_Enabled f),
     sbc_PointInTimeRecoveryEnabled := new_bool (bc_PointInTimeRecoveryEnabled w) (sbc_PointInTimeRecoveryEnabled f),
     sbc_BackupRetentionSettings := (case (bc_BackupRetentionSettings w, sbc_BackupRetentionSettings f) of
        (Some wr, Some fr) \<Rightarrow> Some (retention_update wr fr) | _ \<Rightarrow> None),
     sbc_ForceSendFields := force_if (sql_differs (bc_Enabled w) (sbc_Enabled f)) ''Enabled'' @
       force_if (sql_differs (bc_PointInTimeRecoveryEnabled w) (sbc_PointInTimeRecoveryEnabled f)) ''PointInTimeRecoveryEnabled''\<rparr>"

definition backup_differs :: "backupConfiguration \<Rightarrow> sqlBackupConfiguration \<Rightarrow> bool" where
  "backup_differs w f \<longleftrightarrow> sql_differs (bc_Enabled w) (sbc_Enabled f) \<or> sql_differs (bc_PointInTimeRecoveryEnabled w) (sbc_PointInTimeRecoveryEnabled f) \<or>
     (\<exists>wr fr. bc_BackupRetentionSettings w = Some wr \<and> sbc_BackupRetentionSettings f = Some fr \<and> wr \<noteq> fr)"

definition ip_update :: "ipConfiguration \<Rightarrow> sqlIpConfiguration \<Rightarrow> sqlIpConfiguration" where
  "ip_update w f = no_ip_configuration\<lparr>sic_Ipv4Enabled := new_bool (ic_Ipv4Enabled w) (sic_Ipv4Enabled f),
     sic_ForceSendFields := force_if (sql_differs (ic_Ipv4Enabled w) (sic_Ipv4Enabled f)) ''Ipv4Enabled''\<rparr>"

definition window_update :: "maintenanceWindow \<Rightarrow> sqlMaintenanceWindow \<Rightarrow> sqlMaintenanceWindow" where
  "window_update w f = \<lparr>smw_Day = new_int (mw_Day w) (smw_Day f), smw_Hour = new_int (mw_Hour w) (smw_Hour f), smw_UpdateTrack = '''',
     smw_ForceSendFields = force_if (sql_differs (mw_Hour w) (smw_Hour f)) ''Hour''\<rparr>"

definition window_differs :: "maintenanceWindow \<Rightarrow> sqlMaintenanceWindow \<Rightarrow> bool" where
  "window_differs w f \<longleftrightarrow> sql_differs (mw_Day w) (smw_Day f) \<or> sql_differs (mw_Hour w) (smw_Hour f)"

definition both :: "('a \<Rightarrow> 'b \<Rightarrow> 'c) \<Rightarrow> 'a option \<Rightarrow> 'b option \<Rightarrow> 'c option" where
  "both f x y = (case x of None \<Rightarrow> None | Some a \<Rightarrow> map_option (f a) y)"

definition settings_update :: "settings \<Rightarrow> sqlSettings \<Rightarrow> sqlSettings" where
  "settings_update w f = no_settings\<lparr>
     sse_DeletionProtectionEnabled := new_bool (se_DeletionProtectionEnabled w) (sse_DeletionProtectionEnabled f),
     sse_StorageAutoResize := (if se_StorageAutoResize w \<noteq> None \<and> se_StorageAutoResize w \<noteq> sse_StorageAutoResize f then se_StorageAutoResize w else None),
     sse_Tier := (if se_Tier w \<noteq> sse_Tier f then se_Tier w else ''''),
     sse_AvailabilityType := (if se_AvailabilityType w \<noteq> sse_AvailabilityType f then se_AvailabilityType w else ''''),
     sse_StorageAutoResizeLimit := (if se_StorageAutoResizeLimit w \<noteq> sse_StorageAutoResizeLimit f then se_StorageAutoResizeLimit w else 0),
     sse_DataDiskSizeGb := (if se_DataDiskSizeGb w \<noteq> sse_DataDiskSizeGb f then se_DataDiskSizeGb w else 0),
     sse_UserLabels := (if se_UserLabels w \<noteq> sse_UserLabels f then se_UserLabels w else None),
     sse_BackupConfiguration := both backup_update (se_BackupConfiguration w) (sse_BackupConfiguration f),
     sse_IpConfiguration := both ip_update (se_IpConfiguration w) (sse_IpConfiguration f),
     sse_MaintenanceWindow := both window_update (se_MaintenanceWindow w) (sse_MaintenanceWindow f),
     sse_ForceSendFields := force_if (sql_differs (se_DeletionProtectionEnabled w) (sse_DeletionProtectionEnabled f)) ''DeletionProtectionEnabled'' @
       force_if (se_StorageAutoResize w \<noteq> None \<and> se_StorageAutoResize w \<noteq> sse_StorageAutoResize f) ''StorageAutoResize''\<rparr>"

definition settings_differ :: "settings \<Rightarrow> sqlSettings \<Rightarrow> bool" where
  "settings_differ w f \<longleftrightarrow> sql_differs (se_DeletionProtectionEnabled w) (sse_DeletionProtectionEnabled f) \<or>
     (se_StorageAutoResize w \<noteq> None \<and> se_StorageAutoResize w \<noteq> sse_StorageAutoResize f) \<or>
     se_Tier w \<noteq> sse_Tier f \<or> se_AvailabilityType w \<noteq> sse_AvailabilityType f \<or> se_StorageAutoResizeLimit w \<noteq> sse_StorageAutoResizeLimit f \<or>
     se_DataDiskSizeGb w \<noteq> sse_DataDiskSizeGb f \<or> se_UserLabels w \<noteq> sse_UserLabels f \<or>
     both backup_differs (se_BackupConfiguration w) (sse_BackupConfiguration f) = Some True \<or>
     both (\<lambda>i j. sql_differs (ic_Ipv4Enabled i) (sic_Ipv4Enabled j)) (se_IpConfiguration w) (sse_IpConfiguration f) = Some True \<or>
     both window_differs (se_MaintenanceWindow w) (sse_MaintenanceWindow f) = Some True"

text \<open>
  The conditions dereference the settings and the backup configuration of the strategy and the settings of the found instance
  whatever the others are; the found auto resize when the strategy sets one; and the found backup configuration when the strategy
  has retention settings.
\<close>

definition buildCloudSQLUpdateStrategy :: "databaseInstance \<Rightarrow> sqlInstance \<Rightarrow> ('s, sqlInstance option) op" where
  "buildCloudSQLUpdateStrategy cloudSQLConfig foundInstance =
     andThen (deref (di_Settings cloudSQLConfig)) (\<lambda>w.
     andThen (deref (se_BackupConfiguration w)) (\<lambda>wb.
     andThen (deref (sql_Settings foundInstance)) (\<lambda>f.
     andThen (if se_StorageAutoResize w \<noteq> None then andThen (deref (sse_StorageAutoResize f)) (\<lambda>_. ret ()) else ret ()) (\<lambda>_.
     andThen (if bc_BackupRetentionSettings wb \<noteq> None then andThen (deref (sse_BackupConfiguration f)) (\<lambda>_. ret ()) else ret ()) (\<lambda>_.
     let version = di_DatabaseVersion cloudSQLConfig \<noteq> sql_DatabaseVersion foundInstance in
     ret (if settings_differ w f \<or> version
          then Some (no_instance\<lparr>sql_Settings := Some (settings_update w f),
            sql_DatabaseVersion := (if version then di_DatabaseVersion cloudSQLConfig else '''')\<rparr>)
          else None))))))"

section \<open>Gauges\<close>

text \<open>The private address of an instance, the last one of several.\<close>

definition private_host :: "sqlInstance \<Rightarrow> ('s, string) op" where
  "private_host i = for_fold (\<lambda>host addr. andThen (deref addr) (\<lambda>a. ret (if im_Type a = ''PRIVATE'' then im_IpAddress a else host))) ''''
     (case sql_IpAddresses i of None \<Rightarrow> [] | Some as \<Rightarrow> as)"

definition healthyPostgresInstanceStates :: "string list" where
  "healthyPostgresInstanceStates = [''PENDING_CREATE'', ''RUNNABLE'', ''PENDING_DELETE'']"

definition sql_connectable :: "'w gcpProvider \<Rightarrow> sqlInstance \<Rightarrow> ('w, bool) gop" where
  "sql_connectable p i = (if sql_State i \<in> set healthyPostgresInstanceStates \<and> sql_IpAddresses i \<noteq> None \<and> sql_IpAddresses i \<noteq> Some []
     then andThen (private_host i) (\<lambda>host. ask (gp_TCPConnection p host 5432)) else ret False)"

definition exposePostgresInstanceMetrics :: "'w gcpProvider \<Rightarrow> cr \<Rightarrow> sqlInstance option \<Rightarrow> ('w, unit) gop" where
  "exposePostgresInstanceMetrics p pg found = (case found of None \<Rightarrow> ret ()
   | Some i \<Rightarrow>
       otherwise (GetClusterID (gp_Client p)) (\<lambda>_. ()) (\<lambda>clusterID.
       let om = cr_meta pg; name = sql_Name i; prov = gcp_postgresProviderName; genericLabels = BuildGenericMetricLabels om clusterID name prov in
       andThen (SetMetricCurrentTime (gp_Now p) ''cro_postgres_info'' (BuildInfoMetricLabels om (sql_State i) clusterID name prov)) (\<lambda>_.
       andThen (expose_phases ''cro_postgres_status_phase'' (BuildStatusMetricsLabels om clusterID name prov) (st_Phase (cr_status pg))) (\<lambda>_.
       andThen (sql_connectable p i) (\<lambda>connectable.
       andThen (set_metric ''cro_postgres_available'' genericLabels (if sql_State i \<in> set healthyPostgresInstanceStates then 1 else 0)) (\<lambda>_.
         set_metric ''cro_postgres_connection'' genericLabels (if connectable then 1 else 0)))))))"

definition gcp_setPostgresDeletionTimestampMetric :: "'w gcpProvider \<Rightarrow> cr \<Rightarrow> ('w, unit) gop" where
  "gcp_setPostgresDeletionTimestampMetric p pg = (case om_DeletionTimestamp (cr_meta pg) of
     None \<Rightarrow> ret ()
   | Some ts \<Rightarrow> if ts = zero_time then ret ()
       else otherwise (BuildInfraNameFromObject (gp_Client p) (cr_meta pg) defaultGcpIdentifierLength) (\<lambda>_. ()) (\<lambda>instanceName.
         if instanceName = '''' then ret ()
         else otherwise (GetClusterID (gp_Client p)) (\<lambda>_. ()) (\<lambda>clusterID.
           set_metric ''cro_postgres_deletion_timestamp''
             (BuildStatusMetricsLabels (cr_meta pg) clusterID instanceName gcp_postgresProviderName (st_Phase (cr_status pg))) (real_of_int ts))))"

section \<open>Reconciling an instance\<close>

definition gcp_credential_secret :: "cr \<Rightarrow> nsName" where
  "gcp_credential_secret pg = (om_Name (cr_meta pg) @ ''-gcp-sql-credentials'', om_Namespace (cr_meta pg))"

definition buildDefaultCloudSQLSecret :: "'w gcpProvider \<Rightarrow> cr \<Rightarrow> ('w, secret) gop" where
  "buildDefaultCloudSQLSecret p pg = andThen (wrapping ''failed to generate password'' (GeneratePassword (gp_NewRandom p))) (\<lambda>password.
     ret \<lparr>sec_Name = fst (gcp_credential_secret pg), sec_Namespace = snd (gcp_credential_secret pg),
       sec_Data = Some [''user'' \<mapsto> ''postgres'', ''password'' \<mapsto> password], sec_Type = ''Opaque'', sec_Owners = []\<rparr>)"

definition sql_create :: "'w gcpProvider \<Rightarrow> 'w gcp \<Rightarrow> string \<Rightarrow> cr \<Rightarrow> databaseInstance \<Rightarrow> ('w, postgresDeploymentDetails create_reply) gop" where
  "sql_create p g projectID pg conf =
     andThen (attempt (gexec g (ReqInsertInstance projectID (MapToGcpDatabaseInstance conf)))) (\<lambda>r.
     case (case r of Inl e \<Rightarrow> if IsNotFoundError e then None else Some e | Inr _ \<Rightarrow> None) of
       Some e \<Rightarrow> ret (failed pg ''failed to create cloudSQL instance'' e)
     | None \<Rightarrow>
         let pg1 = with_annotation (di_Name conf) pg in
         otherwise (update_cr (gp_Client p) Postgres pg1) (failed pg1 ''failed to add annotation'') (\<lambda>stored.
           ret (in_progress stored ''started cloudSQL provision'')))"

definition sql_modify :: "'w gcp \<Rightarrow> string \<Rightarrow> sqlInstance \<Rightarrow> sqlInstance option \<Rightarrow> ('w, error option) gop" where
  "sql_modify g projectID i modified = (case modified of None \<Rightarrow> ret None
   | Some m \<Rightarrow> andThen (attempt (gexec g (ReqPatchInstance projectID (sql_Name i) m))) (\<lambda>r.
       ret (case r of Inl e \<Rightarrow> if IsConflictError e then None else Some e | Inr _ \<Rightarrow> None)))"

definition sql_found :: "'w gcp \<Rightarrow> string \<Rightarrow> cr \<Rightarrow> secret \<Rightarrow> databaseInstance \<Rightarrow> sqlInstance \<Rightarrow> ('w, postgresDeploymentDetails create_reply) gop" where
  "sql_found g projectID pg sec conf i =
     (if sql_State i = ''PENDING_CREATE'' then ret (in_progress pg (''creation of '' @ sql_Name i @ '' cloudSQL instance in progress''))
      else andThen (buildCloudSQLUpdateStrategy conf i) (\<lambda>modified.
      andThen (sql_modify g projectID i modified) (\<lambda>err. case err of
        Some e \<Rightarrow> ret (failed pg (''failed to modify cloudsql instance: '' @ sql_Name i) e)
      | None \<Rightarrow> andThen (private_host i) (\<lambda>host.
          ret ((Some \<lparr>pdd_Username = map_get (sec_Data sec) ''user'', pdd_Password = map_get (sec_Data sec) ''password'', pdd_Host = host,
                  pdd_Database = ''postgres'', pdd_Port = 5432\<rparr>, ''successfully reconciled cloudsql instance '' @ sql_Name i, None), pg)))))"

definition annotate_found :: "'w gcpProvider \<Rightarrow> cr \<Rightarrow> sqlInstance \<Rightarrow> ('w, cr) gop" where
  "annotate_found p pg i = (if annotations_Has (cr_meta pg) ResourceIdentifierAnnotation then ret pg
     else update_cr (gp_Client p) Postgres (with_annotation (sql_Name i) pg))"

definition sql_body :: "'w gcpProvider \<Rightarrow> 'w gcp \<Rightarrow> string \<Rightarrow> cr \<Rightarrow> secret \<Rightarrow> databaseInstance \<Rightarrow> sqlInstance option \<Rightarrow> ('w, postgresDeploymentDetails create_reply) gop" where
  "sql_body p g projectID pg sec conf found = (case found of
     None \<Rightarrow> sql_create p g projectID pg conf
   | Some i \<Rightarrow>
       otherwise (annotate_found p pg i) (failed (with_annotation (sql_Name i) pg) ''failed to add annotation to postgres cr'') (\<lambda>pg1.
         sql_found g projectID (store_version (sql_DatabaseVersion i) pg1) sec conf i))"

definition reconcileCloudSQLInstance :: "'w gcpProvider \<Rightarrow> 'w gcp \<Rightarrow> cr \<Rightarrow> strategyConfig \<Rightarrow> gcpAddress option \<Rightarrow> ('w, postgresDeploymentDetails create_reply) gop" where
  "reconcileCloudSQLInstance p g pg strategyConfig address =
     (let projectID = sc_ProjectID strategyConfig in
      otherwise (buildDefaultCloudSQLSecret p pg) (failed pg ''failed to build default cloudSQL secret'') (\<lambda>sec0.
      otherwise (ensure_secret (gp_Client p) sec0) (failed pg (''failed to create or update secret '' @ sec_Name sec0 @ '', action was unchanged'')) (\<lambda>sec.
      otherwise (buildCloudSQLCreateStrategy p pg strategyConfig sec address) (failed pg ''failed to build and verify gcp cloudSQL instance configuration'') (\<lambda>conf.
      andThen (attempt (query (gcp_GetInstance g projectID (di_Name conf)))) (\<lambda>r. case r of
        Inl e \<Rightarrow> if \<not> IsNotFoundError e then ret (failed pg ''cannot retrieve sql instance from gcp'' e)
                  else sql_body p g projectID pg sec conf None
      | Inr i \<Rightarrow> andThen (sql_body p g projectID pg sec conf (Some i)) (\<lambda>(answer, pg').
          andThen (exposePostgresInstanceMetrics p pg' (Some i)) (\<lambda>_. ret (answer, pg'))))))))"

section \<open>Snapshots\<close>

definition createSnapshot :: "'w gcpProvider \<Rightarrow> cr \<Rightarrow> ('w, unit) gop" where
  "createSnapshot p pg = (let name = om_Name (cr_meta pg); ns = om_Namespace (cr_meta pg) in
     andThen (request (kube_CreateSnapshot (gp_Client p) Postgres name ns name) (\<lambda>r. EvCreateSnapshotCR Postgres name ns name (ok r))) (\<lambda>_. ret ()))"

definition created_at :: "'w gcpProvider \<Rightarrow> snapshot \<Rightarrow> int" where
  "created_at p sn = gp_Created p (om_CreationTimestamp (sn_meta sn))"

text \<open>The loop over the snapshots: an expired one other than the latest is deleted. The error carries its message.\<close>

fun delete_expired :: "'w gcpProvider \<Rightarrow> snapshot \<Rightarrow> int \<Rightarrow> snapshot list \<Rightarrow> ('w, (string \<times> error) option) gop" where
  "delete_expired p latest retention [] = ret None"
| "delete_expired p latest retention (sn # sns) =
     (if om_Name (sn_meta sn) = om_Name (sn_meta latest) then delete_expired p latest retention sns
      else andThen (ask (gp_Now p)) (\<lambda>now.
        if created_at p sn + retention < now
        then (let key = (om_Name (sn_meta sn), om_Namespace (sn_meta sn)) in
          andThen (attempt (request (kube_DeleteSnapshot (gp_Client p) Postgres key) (\<lambda>r. EvDeleteSnapshotCR Postgres key (ok r)))) (\<lambda>r. case r of
            Inl e \<Rightarrow> ret (Some (''failed to delete postgres snapshot '' @ om_Name (sn_meta sn), e))
          | Inr _ \<Rightarrow> delete_expired p latest retention sns))
        else delete_expired p latest retention sns))"

definition reconcileCloudSqlInstanceSnapshots :: "'w gcpProvider \<Rightarrow> cr \<Rightarrow> ('w, string \<times> error option) gop" where
  "reconcileCloudSqlInstanceSnapshots p pg =
     (let name = om_Name (cr_meta pg); ns = om_Namespace (cr_meta pg); stop = (\<lambda>msg e. (msg, Some (ErrWrap e msg)));
          parse = (\<lambda>d. ''failed to parse '' @ quoted d @ '' into go duration'') in
      otherwise (lift_sum (gp_ParseDuration p (spec_SnapshotRetention (cr_spec pg)))) (stop (parse (spec_SnapshotRetention (cr_spec pg)))) (\<lambda>snapshotRetention.
      otherwise (getAllSnapshotsForInstance p name ns) (stop (''failed to fetch all snapshots associated with postgres instance '' @ name)) (\<lambda>snapshots.
      if snapshots = []
      then otherwise (createSnapshot p pg) (stop (''failed to create postgres snapshot for '' @ name)) (\<lambda>_.
        ret (''created postgres snapshot CR for instance '' @ name, None))
      else otherwise (getLatestPostgresSnapshot p name ns) (stop (''failed to determine latest snapshot id for instance '' @ name)) (\<lambda>latestSnapshot.
      case latestSnapshot of
        None \<Rightarrow> ret (''latest snapshot creation in progress for instance '' @ name, None)
      | Some latest \<Rightarrow>
          andThen (delete_expired p latest snapshotRetention snapshots) (\<lambda>problem. case problem of
            Some (msg, e) \<Rightarrow> ret (stop msg e)
          | None \<Rightarrow>
              otherwise (lift_sum (gp_ParseDuration p (spec_SnapshotFrequency (cr_spec pg)))) (stop (parse (spec_SnapshotFrequency (cr_spec pg)))) (\<lambda>snapshotFrequency.
              andThen (deref (case gp_SortNewest p snapshots of [] \<Rightarrow> None | sn # _ \<Rightarrow> Some sn)) (\<lambda>newest.
              andThen (ask (gp_Now p)) (\<lambda>now.
              otherwise (if created_at p newest + snapshotFrequency < now then createSnapshot p pg else ret ())
                (stop (''failed to create postgres snapshot for '' @ name)) (\<lambda>_.
                ret (''successfully reconciled postgres instance '' @ name @ '' snapshots'', None))))))))))"

definition ReconcilePostgres_gcp :: "'w gcpProvider \<Rightarrow> cr \<Rightarrow> ('w, postgresDeploymentDetails create_reply) gop" where
  "ReconcilePostgres_gcp p pg0 =
     (let k = gp_Client p in
      otherwise (CreateFinalizer k Postgres pg0 DefaultFinalizer) (failed_plain (with_finalizer pg0) ''failed to set finalizer'') (\<lambda>pg.
      otherwise (gcp_ReadStorageStrategy k (gp_ConfigManager p) ''postgres'' (spec_Tier (cr_spec pg))) (failed pg ''failed to retrieve postgres strategy config'') (\<lambda>strategyConfig.
      otherwise (gcp_ReconcileProviderCredentials k (gp_Codec p) (om_Namespace (cr_meta pg)))
        (failed pg (''failed to reconcile gcp postgres provider credentials for postgres instance '' @ om_Name (cr_meta pg))) (\<lambda>creds.
      let account = gcred_ServiceAccountJson creds; g = gp_Services p account in
      otherwise (new_client p SQLAdminApi account) (failed pg ''could not initialise new SQL Admin Service'') (\<lambda>_.
      otherwise (NewNetworkManager p account) (failed pg ''failed to initialise network manager'') (\<lambda>_.
      andThen (gcp_reconcile_network p g (sc_ProjectID strategyConfig) pg) (\<lambda>network. case network of
        Inl answer \<Rightarrow> ret answer
      | Inr address \<Rightarrow>
          andThen (reconcileCloudSQLInstance p g pg strategyConfig address) (\<lambda>((inst, msg, err), pg1). case (inst, err) of
            (Some d, None) \<Rightarrow>
              if spec_SnapshotFrequency (cr_spec pg1) \<noteq> '''' \<and> spec_SnapshotRetention (cr_spec pg1) \<noteq> ''''
              then andThen (reconcileCloudSqlInstanceSnapshots p pg1) (\<lambda>(msg, err). case err of
                Some e \<Rightarrow> ret ((None, msg, Some e), pg1)
              | None \<Rightarrow> ret ((Some d, msg, None), pg1))
              else ret ((Some d, msg, None), pg1)
          | _ \<Rightarrow> ret ((None, msg, err), pg1)))))))))"

section \<open>Deletion\<close>

definition unprotect :: sqlInstance where
  "unprotect = no_instance\<lparr>sql_Settings := Some (no_settings\<lparr>sse_ForceSendFields := [''DeletionProtectionEnabled'']\<rparr>)\<rparr>"

text \<open>A conflict is no error.\<close>

definition tolerating_conflict :: "('w, bool) gop \<Rightarrow> (error \<Rightarrow> 'b) \<Rightarrow> 'b \<Rightarrow> ('w, 'b) gop" where
  "tolerating_conflict m h b = andThen (attempt m) (\<lambda>r. ret (case r of Inl e \<Rightarrow> if IsConflictError e then b else h e | Inr _ \<Rightarrow> b))"

definition delete_found_sql :: "'w gcpProvider \<Rightarrow> 'w gcp \<Rightarrow> string \<Rightarrow> cr \<Rightarrow> string \<Rightarrow> sqlInstance \<Rightarrow> ('w, delete_reply) gop" where
  "delete_found_sql p g projectID pg name i =
     andThen (exposePostgresInstanceMetrics p pg (Some i)) (\<lambda>_.
     if sql_State i = ''PENDING_DELETE'' then ret ((''postgres instance '' @ name @ '' is already deleting'', None), pg)
     else andThen (deref (sql_Settings i)) (\<lambda>f.
     if sse_DeletionProtectionEnabled f
     then tolerating_conflict (gexec g (ReqPatchInstance projectID (sql_Name i) unprotect))
       (delete_failed pg (''failed to disable deletion protection for cloudsql instance: '' @ sql_Name i))
       ((''disabling deletion protection for cloudsql instance '' @ sql_Name i, None), pg)
     else tolerating_conflict (gexec g (ReqDeleteInstance projectID (sql_Name i)))
       (delete_failed pg (''failed to delete cloudsql instance: '' @ sql_Name i))
       ((''deletion in progress for cloudsql instance '' @ sql_Name i, None), pg)))"

definition release_sql :: "'w gcpProvider \<Rightarrow> 'w gcp \<Rightarrow> string \<Rightarrow> cr \<Rightarrow> string \<Rightarrow> bool \<Rightarrow> ('w, delete_reply) gop" where
  "release_sql p g projectID pg name isLastResource =
     (let key = gcp_credential_secret pg in
      andThen (attempt (request (kube_DeleteSecret (gp_Client p) key) (\<lambda>r. EvDeleteSecret key (ok r)))) (\<lambda>r.
      case (case r of Inl e \<Rightarrow> if k8s_IsNotFound e then None else Some e | Inr _ \<Rightarrow> None) of
        Some e \<Rightarrow> ret (delete_failed pg ''failed to delete cloudSQL secrets'' e)
      | None \<Rightarrow>
          andThen (gcp_remove_network p g projectID ''failed to delete cluster network service'' ''failed to delete network IP range'' isLastResource pg) (\<lambda>x. case x of
            Some answer \<Rightarrow> ret answer
          | None \<Rightarrow> gcp_release p Postgres ''failed to update instance as part of finalizer reconcile'' (''successfully deleted gcp postgres instance '' @ name) pg)))"

definition deleteCloudSQLInstance :: "'w gcpProvider \<Rightarrow> 'w gcp \<Rightarrow> strategyConfig \<Rightarrow> cr \<Rightarrow> bool \<Rightarrow> ('w, delete_reply) gop" where
  "deleteCloudSQLInstance p g strategyConfig pg isLastResource =
     (let projectID = sc_ProjectID strategyConfig in
      otherwise (buildCloudSQLDeleteStrategy p pg strategyConfig) (delete_failed pg ''failed to retrieve postgres strategy config'') (\<lambda>name.
      andThen (attempt (query (gcp_GetInstance g projectID name))) (\<lambda>r. case r of
        Inl e \<Rightarrow> if \<not> IsNotFoundError e then ret (delete_failed pg ''cannot retrieve sql instance from gcp'' e)
                  else release_sql p g projectID pg name isLastResource
      | Inr i \<Rightarrow> if sql_Name i \<noteq> '''' then delete_found_sql p g projectID pg name i else release_sql p g projectID pg name isLastResource)))"

definition DeletePostgres_gcp :: "'w gcpProvider \<Rightarrow> cr \<Rightarrow> ('w, delete_reply) gop" where
  "DeletePostgres_gcp p pg =
     (let k = gp_Client p in
      andThen (gcp_setPostgresDeletionTimestampMetric p pg) (\<lambda>_.
      otherwise (gcp_ReadStorageStrategy k (gp_ConfigManager p) ''postgres'' (spec_Tier (cr_spec pg))) (delete_failed pg ''failed to retrieve postgres strategy config'') (\<lambda>strategyConfig.
      otherwise (gcp_ReconcileProviderCredentials k (gp_Codec p) (om_Namespace (cr_meta pg)))
        (delete_failed pg (''failed to reconcile gcp postgres provider credentials for postgres instance '' @ om_Name (cr_meta pg))) (\<lambda>creds.
      let account = gcred_ServiceAccountJson creds in
      otherwise (new_client p SQLAdminApi account) (delete_failed pg ''could not initialise new SQL Admin Service'') (\<lambda>_.
      otherwise (IsLastResource k) (delete_failed pg ''failed to check if this cr is the last cr of type postgres and redis'') (\<lambda>isLastResource.
      otherwise (NewNetworkManager p account) (delete_failed pg ''failed to initialise network manager'') (\<lambda>_.
        deleteCloudSQLInstance p (gp_Services p account) strategyConfig pg isLastResource)))))))"

end
