(* ===== verification/GCP_Network_Safety.thy ===== *)
theory GCP_Network_Safety
  imports GCP_Network
begin

text \<open>
  What the network of GCP guarantees: the validation of a block is exact, an address range is reserved only when it is free of
  the subnets of the cluster, and the parts are removed in order, the range never while a service connection uses it.
\<close>

section \<open>Operations that do not panic\<close>

definition settles :: "('s, 'a) op \<Rightarrow> bool" where
  "settles m \<longleftrightarrow> (\<forall>s a t. m s \<noteq> (Abort a, t))"

named_theorems settle_rules \<open>operations that return a value or an error\<close>

lemma settles_base [settle_rules]: "settles (ret x)" "settles (throw e)" "settles (query f)" "settles (ask g)" "settles (request h ev)" "settles (lift_sum y)"
  by (auto simp: settles_def ret_apply throw_apply query_def ask_def request_def lift_sum_def split: prod.splits sum.splits)

lemma settles_andThen [settle_rules]: "settles m \<Longrightarrow> (\<And>x. settles (f x)) \<Longrightarrow> settles (andThen m f)"
  unfolding settles_def andThen_def by (auto split: prod.splits res.splits)

lemma settles_wrapping [settle_rules]: "settles m \<Longrightarrow> settles (wrapping msg m)"
  unfolding settles_def wrapping_def by (auto split: prod.splits res.splits)

lemma settles_cases [settle_rules]:
  "(b \<Longrightarrow> settles m) \<Longrightarrow> (\<not> b \<Longrightarrow> settles n) \<Longrightarrow> settles (if b then m else n)"
  "(\<And>u v. x = (u, v) \<Longrightarrow> settles (f u v)) \<Longrightarrow> settles (case x of (u, v) \<Rightarrow> f u v)"
  by (auto split: prod.split)

lemma settlesD: "settles m \<Longrightarrow> m s \<noteq> (Abort a, t)"
  by (simp add: settles_def)

lemma settles_kube [settle_rules]: "settles (GetClusterID k)" "settles (BuildInfraNameFromObject k om n)" "settles (buildDefaultTags k msg inst)"
  unfolding buildDefaultTags_def GetDefaultResourceTags_def GetUserInfraTags_def BuildInfraNameFromObject_def GetClusterID_def GetClusterInfrastructure_def Let_def
  by (intro settle_rules)+

section \<open>Reading operations\<close>
lemma quiet_gcp_vpc [quiet_rules]: "quiet (gcp_getClusterVpc k g projectID)"
  unfolding gcp_getClusterVpc_def list_networks_def by (intro quiet_rules)

lemma quiet_gcp_reads [quiet_rules]:
  "quiet (getServiceConnection g projectID vpc)" "quiet (getAddressRange g projectID n)" "quiet (ip_range_name k)" "quiet (parseSubnetUrl p u)"
  unfolding getServiceConnection_def getAddressRange_def ip_range_name_def parseSubnetUrl_def by (intro quiet_rules)+

lemma quiet_gcp_subnets [quiet_rules]: "quiet (getClusterSubnets p g projectID vpc)"
  unfolding getClusterSubnets_def by (intro quiet_rules)

lemma quiet_gcp_network [quiet_rules]: "quiet (ComponentsExist p g projectID)" "quiet (NewNetworkManager p account)"
    "quiet (gcp_ReconcileNetworkProviderConfig p tier)"
  unfolding ComponentsExist_def NewNetworkManager_def gcp_ReconcileNetworkProviderConfig_def by (intro quiet_rules)+

section \<open>Blocks\<close>

lemma overlapping_subnet_None:
  assumes "wf_net c"
  shows "overlapping_subnet c subnets = None \<longleftrightarrow> (\<forall>sub \<in> set subnets. \<exists>ip n. ParseCIDR (pb_get sub) = Inr (ip, n) \<and>
     \<not> net_Contains n (net_IP c) \<and> \<not> net_Contains c (net_IP n))"
  by (induction subnets) (auto split: sum.splits)

lemma overlapping_subnet_clear:
  "overlapping_subnet c subnets = None \<Longrightarrow> sub \<in> set subnets \<Longrightarrow> \<exists>ip n. ParseCIDR (pb_get sub) = Inr (ip, n) \<and>
     \<not> net_Contains n (net_IP c) \<and> \<not> net_Contains c (net_IP n)"
  by (induction subnets) (auto split: sum.splits prod.splits if_splits)

text \<open>The blocks of a list of subnets, when all of them are IPv4 blocks.\<close>

definition blocks_of_subnets :: "string option list \<Rightarrow> ipnet list \<Rightarrow> bool" where
  "blocks_of_subnets subnets nets \<longleftrightarrow> list_all2 (\<lambda>sub n. wf_net n \<and> (\<exists>ip. ParseCIDR (pb_get sub) = Inr (ip, n))) subnets nets"

text \<open>
  C17. The validation of a block is exact: it accepts a block exactly when its mask is at most /22 and it shares no address with
  any subnet of the cluster.
\<close>

theorem gcp_validateCidrBlock_exact:
  assumes "wf_net c" and "blocks_of_subnets subnets nets"
  shows "validateCidrBlock c subnets = None \<longleftrightarrow> mask_Size (net_Mask c) \<le> 22 \<and> (\<forall>n \<in> set nets. addresses c \<inter> addresses n = {})"
proof -
  have "overlapping_subnet c subnets = None \<longleftrightarrow> (\<forall>n \<in> set nets. addresses c \<inter> addresses n = {})"
    using assms(2) unfolding blocks_of_subnets_def
  proof (induction rule: list_all2_induct)
    case (Cons sub subs n ns)
    then show ?case using net_overlap_iff [OF assms(1), of n] by auto
  qed simp
  then show ?thesis by (simp add: validateCidrBlock_def gcp_isValidCIDRRange_def)
qed

section \<open>The address range\<close>

lemma for_fold_length:
  assumes "\<And>acc x s r t. f acc x s = (Val r, t) \<Longrightarrow> length r = Suc (length acc)" and "for_fold f acc xs s = (Val r, t)"
  shows "length r = length acc + length xs"
  using assms(2)
proof (induction xs arbitrary: acc s)
  case (Cons x xs)
  then obtain a u where "f acc x s = (Val a, u)" "for_fold f a xs u = (Val r, t)" by (auto simp: val_simps)
  then show ?case using assms(1) Cons.IH by fastforce
qed (simp add: ret_apply)

lemma getClusterSubnets_length: "getClusterSubnets p g projectID vpc s = (Val subnets, t) \<Longrightarrow> length subnets = length (gn_Subnetworks vpc)"
  unfolding getClusterSubnets_def by (drule for_fold_length [rotated]) (auto simp: val_simps split: prod.splits)

lemma gcp_getClusterVpc_subnets: "gcp_getClusterVpc k g projectID s = (Val vpc, t) \<Longrightarrow> 2 \<le> length (gn_Subnetworks vpc)"
proof -
  assume "gcp_getClusterVpc k g projectID s = (Val vpc, t)"
  then obtain networks :: "gcpNetwork list" and u where "(case networks of
       [network] \<Rightarrow> if length (gn_Subnetworks network) < 2
         then throw (ErrNew (''found cluster vpc has only '' @ itoa (int (length (gn_Subnetworks network))) @ '' subnetworks, expected at least 2''))
         else andThen (deref (gn_Name network)) (\<lambda>_. ret network)
     | _ \<Rightarrow> throw (ErrNew (''cannot determine cluster vpc. matching networks found '' @ itoa (int (length networks))))) u = (Val vpc, t)"
    unfolding gcp_getClusterVpc_def andThen_Val by blast
  then show ?thesis
    by (cases networks; cases "tl networks") (auto simp: val_simps split: if_splits)
qed

text \<open>A reserved range: validated against the block of every subnet of a VPC with at least two subnets.\<close>

definition reserved_range :: "string \<Rightarrow> ipnet \<Rightarrow> gcp_req \<Rightarrow> bool" where
  "reserved_range projectID c req \<longleftrightarrow> (\<exists>vpc name subnets. req = ReqInsertAddress projectID (new_address vpc name c) \<and>
     length subnets = length (gn_Subnetworks vpc) \<and> 2 \<le> length subnets \<and> validateCidrBlock c subnets = None)"

lemma emits_quiet_val:
  "quiet m \<Longrightarrow> (\<And>s x t. m s = (Val x, t) \<Longrightarrow> Q x) \<Longrightarrow> emits m (\<lambda>es r. es = [] \<and> (\<forall>x. r = Val x \<longrightarrow> Q x))"
proof (rule emitsI)
  fix s r t assume "quiet m" and Q: "\<And>s x t. m s = (Val x, t) \<Longrightarrow> Q x" and run: "m s = (r, t)"
  then have "trace t = trace s" by (simp add: quietD)
  then show "\<exists>es. trace t = trace s @ es \<and> es = [] \<and> (\<forall>x. r = Val x \<longrightarrow> Q x)" using Q run by auto
qed

lemma emits_otherwise_val:
  assumes "quiet m" and "\<And>s x t. m s = (Val x, t) \<Longrightarrow> Q x" and "\<And>x. Q x \<Longrightarrow> emits (f x) S" and "\<And>r. S [] r"
  shows "emits (otherwise m h f) S"
  by (rule emits_otherwise [OF emits_quiet_val [OF assms(1,2)]]) (use assms(3,4) in auto)

lemma emits_gexec: "emits (gexec g req) (\<lambda>es r. \<exists>b. es = [EvCloud req b] \<and> (b \<longleftrightarrow> (\<exists>x. r = Val x)) \<and> (\<forall>a. r \<noteq> Abort a))"
  unfolding gexec_def by (rule emits_weaken [OF emits_request]) auto

text \<open>
  The address range of the cluster is requested at most once per pass, and only for a block that has passed the validation
  against one block for each subnet of the cluster VPC; nothing else is requested.
\<close>

theorem gcp_ip_range_validated:
  assumes "CreateNetworkIpRange p g projectID c s = (r, t)"
  shows "\<exists>es. trace t = trace s @ es \<and> (es = [] \<or> (\<exists>req b. es = [EvCloud req b] \<and> reserved_range projectID c req))"
proof -
  let ?S = "\<lambda>es r. es = [] \<or> (\<exists>req b. es = [EvCloud req b] \<and> reserved_range projectID c req)"
  have insert: "emits (otherwise (wrapping m (createAddressRange g projectID vpc n c)) h (\<lambda>_. ret x)) ?S"
    if "reserved_range projectID c (ReqInsertAddress projectID (new_address vpc n c))" for m vpc n h and x :: "gcpAddress network_reply"
    unfolding createAddressRange_def by (rule emits_otherwise [OF emits_wrapping [OF emits_gexec]]) (use that in \<open>auto intro: emits_ret\<close>)
  have "emits (CreateNetworkIpRange p g projectID c) ?S"
    unfolding CreateNetworkIpRange_def
    apply (rule emits_otherwise_quiet, intro quiet_rules)+
    apply (rule emits_option)
     apply (rule emits_otherwise_val [where Q = "\<lambda>vpc. 2 \<le> length (gn_Subnetworks vpc)"], intro quiet_rules)
       apply (simp add: wrapping_Val gcp_getClusterVpc_subnets)
      apply (rule_tac emits_otherwise_val [where Q = "\<lambda>subs. length subs = length (gn_Subnetworks x)" for x], intro quiet_rules)
        apply (simp add: wrapping_Val getClusterSubnets_length)
       apply (rule emits_option)
        apply (rule insert, unfold reserved_range_def, intro exI conjI, rule refl, assumption, linarith, assumption)
    by (auto intro: emits_ret)
  from emitsD [OF this assms] show ?thesis .
qed

section \<open>Removing the network\<close>

text \<open>One step: at most one request, of the given kind; when the step succeeds, so did the request.\<close>

definition one_step :: "(gcp_req \<Rightarrow> bool) \<Rightarrow> gcp_req event list \<Rightarrow> 'a res \<Rightarrow> bool" where
  "one_step P es r \<longleftrightarrow> es = [] \<or> (\<exists>req b. es = [EvCloud req b] \<and> P req \<and> ((\<exists>x. r = Val x) \<longrightarrow> b))"

lemma one_step_Nil [simp]: "one_step P [] r"
  by (simp add: one_step_def)

lemma emits_request_step:
  assumes "P req" and "\<And>x. quiet (f x)"
  shows "emits (andThen (gexec g req) f) (one_step P)"
  by (rule emits_andThen [OF emits_gexec]) (use assms in \<open>auto intro!: emits_quiet simp: one_step_def\<close>)

lemma emits_wrapped_step: "P req \<Longrightarrow> emits (andThen (wrapping msg (gexec g req)) (\<lambda>_. ret ())) (one_step P)"
  by (rule emits_andThen [OF emits_wrapping [OF emits_gexec, where S = "\<lambda>es r. \<exists>b. es = [EvCloud req b] \<and> (b \<longleftrightarrow> (\<exists>x. r = Val x))"]])
     (auto intro!: emits_ret simp: one_step_def)

lemma emits_after_read: "quiet m \<Longrightarrow> (\<And>x. emits (f x) (one_step P)) \<Longrightarrow> emits (andThen m f) (one_step P)"
  unfolding quiet_def by (erule emits_andThen) auto

definition removes_peering :: "string \<Rightarrow> gcp_req \<Rightarrow> bool" where
  "removes_peering projectID req \<longleftrightarrow> (\<exists>network. req = ReqRemovePeering projectID network ''servicenetworking-googleapis-com'')"

definition removes_connection :: "gcp_req \<Rightarrow> bool" where
  "removes_connection req \<longleftrightarrow> (\<exists>network. req = ReqDeleteConnection (service_path @ ''/connections/servicenetworking-googleapis-com'') network)"

definition removes_range :: "string \<Rightarrow> gcp_req \<Rightarrow> bool" where
  "removes_range projectID req \<longleftrightarrow> (\<exists>name. req = ReqDeleteAddress projectID name)"

lemma emits_DeleteNetworkPeering: "emits (gcp_DeleteNetworkPeering p g projectID) (one_step (removes_peering projectID))"
  unfolding gcp_DeleteNetworkPeering_def deletePeeringConnection_def
  by (rule emits_after_read, intro quiet_rules, rule emits_if) (auto intro!: emits_wrapped_step emits_ret simp: removes_peering_def)

lemma emits_DeleteNetworkService: "emits (DeleteNetworkService p g projectID) (one_step removes_connection)"
  unfolding DeleteNetworkService_def deleteServiceConnection_def
  by (rule emits_after_read, intro quiet_rules, rule emits_after_read, intro quiet_rules, rule emits_option)
     (auto intro!: emits_ret emits_request_step quiet_rules simp: removes_connection_def)

lemma emits_DeleteNetworkIpRange: "emits (DeleteNetworkIpRange p g projectID) (one_step (removes_range projectID))"
  unfolding DeleteNetworkIpRange_def deleteAddressRange_def
  by (intro emits_after_read quiet_rules emits_option emits_if emits_ret emits_throw emits_wrapped_step one_step_Nil) (auto simp: removes_range_def)

text \<open>
  The removal of the network: the peering, the service connection and the address range, in this order, each with at most one
  request. When it is finished every request succeeded.
\<close>

definition part_of :: "(gcp_req \<Rightarrow> bool) \<Rightarrow> bool \<Rightarrow> gcp_req event list \<Rightarrow> bool" where
  "part_of P finished es \<longleftrightarrow> es = [] \<or> (\<exists>req b. es = [EvCloud req b] \<and> P req \<and> (finished \<longrightarrow> b))"

fun chain :: "(gcp_req \<Rightarrow> bool) list \<Rightarrow> bool \<Rightarrow> gcp_req event list \<Rightarrow> bool" where
  "chain [] finished es \<longleftrightarrow> es = []"
| "chain (P # Ps) finished es \<longleftrightarrow> (\<exists>as bs. es = as @ bs \<and> part_of P finished as \<and> chain Ps finished bs)"

definition removal :: "string \<Rightarrow> bool \<Rightarrow> gcp_req event list \<Rightarrow> bool" where
  "removal projectID finished es = chain [removes_peering projectID, removes_connection, removes_range projectID] finished es"

lemma chain_Nil: "chain Ps finished []"
  by (induction Ps) (auto simp: part_of_def)

lemma one_step_part: "one_step P es r \<Longrightarrow> part_of P False es" "one_step P es (Val x) \<Longrightarrow> part_of P finished es"
  by (auto simp: one_step_def part_of_def)

lemma chain_stop: "part_of P False es \<Longrightarrow> chain (P # Ps) False es"
  unfolding chain.simps by (metis append_Nil2 chain_Nil)

lemma emits_chain:
  fixes m :: "(('w, gcp_req event) sys, 'b) op"
  assumes "emits m (one_step P)" and "\<And>x. emits (f x) (\<lambda>es r. chain Ps (r = Val None) es)"
  shows "emits (otherwise m (\<lambda>e. Some (h e)) f) (\<lambda>es r. chain (P # Ps) (r = Val None) es)"
proof (rule emits_otherwise [OF assms(1)])
  fix es and x :: 'b assume "one_step P es (Val x)"
  then show "emits (f x) (\<lambda>fs r. chain (P # Ps) (r = Val None) (es @ fs))"
    using one_step_part(2) [of P es x] by (intro emits_weaken [OF assms(2)]) (unfold chain.simps, blast)
next
  fix es e assume "one_step P es (Fail e)"
  then show "chain (P # Ps) (Val (Some (h e)) = Val None) es" using chain_stop [OF one_step_part(1)] by simp
next
  fix es a assume "one_step P es (Abort a)"
  then show "chain (P # Ps) (Abort a = Val None) es" using chain_stop [OF one_step_part(1)] by simp
qed

lemma emits_gcp_remove_network:
  "emits (gcp_remove_network p g projectID m1 m2 isLast inst) (\<lambda>es r. removal projectID (r = Val None) es \<and> (\<not> isLast \<longrightarrow> es = []))"
proof (cases isLast)
  case False
  then show ?thesis by (simp add: gcp_remove_network_def removal_def chain_Nil emits_ret del: chain.simps)
next
  case True
  have "emits (otherwise (ComponentsExist p g projectID) h (\<lambda>exist. ret (if exist then Some x else None))) (\<lambda>es r. chain [] (r = Val None) es)" for h x
    by (rule emits_otherwise_quiet, intro quiet_rules) (auto intro!: emits_ret)
  then have "emits (gcp_remove_network p g projectID m1 m2 isLast inst) (\<lambda>es r. removal projectID (r = Val None) es)"
    using True unfolding gcp_remove_network_def removal_def
    by (simp del: chain.simps) (intro emits_chain emits_DeleteNetworkPeering emits_DeleteNetworkService emits_DeleteNetworkIpRange)
  then show ?thesis using True by simp
qed

lemma emits_gcp_release:
  "emits (gcp_release p kind m1 m2 inst) (\<lambda>es r. es = [] \<or> (\<exists>om b. es = [EvUpdate kind (inst\<lparr>cr_meta := om\<rparr>) b] \<and> RemoveFinalizer (cr_meta inst) DefaultFinalizer = Some om))"
  unfolding gcp_release_def Let_def update_cr_def
  by (rule emits_andThen [OF emits_deref [where R = "\<lambda>es r. es = [] \<and> (\<forall>om. r = Val om \<longrightarrow> RemoveFinalizer (cr_meta inst) DefaultFinalizer = Some om)"]])
     (auto intro!: emits_otherwise [OF emits_request] emits_ret)

text \<open>The network and then the finalizer: the resource is released only after the removal of the network is finished.\<close>

definition gcp_teardown :: "string \<Rightarrow> bool \<Rightarrow> kind \<Rightarrow> cr \<Rightarrow> gcp_req event list \<Rightarrow> bool" where
  "gcp_teardown projectID isLast kind inst es \<longleftrightarrow> (\<exists>net rest. es = net @ rest \<and> (\<not> isLast \<longrightarrow> net = []) \<and>
     ((rest = [] \<and> removal projectID False net) \<or>
      (\<exists>om b. removal projectID True net \<and> rest = [EvUpdate kind (inst\<lparr>cr_meta := om\<rparr>) b] \<and> RemoveFinalizer (cr_meta inst) DefaultFinalizer = Some om)))"

lemma chain_False: "chain Ps finished es \<Longrightarrow> chain Ps False es"
  by (induction Ps arbitrary: es) (auto simp: part_of_def)

lemma emits_gcp_teardown:
  "emits (andThen (gcp_remove_network p g projectID m1 m2 isLast inst) (\<lambda>x. case x of Some answer \<Rightarrow> ret answer | None \<Rightarrow> gcp_release p kind m3 m4 inst))
     (\<lambda>es r. gcp_teardown projectID isLast kind inst es)"
proof (rule emits_andThen [OF emits_gcp_remove_network])
  fix es and x :: "delete_reply option" assume net: "removal projectID (Val x = Val None) es \<and> (\<not> isLast \<longrightarrow> es = [])"
  show "emits (case x of Some answer \<Rightarrow> ret answer | None \<Rightarrow> gcp_release p kind m3 m4 inst) (\<lambda>fs r. gcp_teardown projectID isLast kind inst (es @ fs))"
  proof (cases x)
    case None
    have "gcp_teardown projectID isLast kind inst (es @ fs)"
      if "fs = [] \<or> (\<exists>om b. fs = [EvUpdate kind (inst\<lparr>cr_meta := om\<rparr>) b] \<and> RemoveFinalizer (cr_meta inst) DefaultFinalizer = Some om)" for fs
      unfolding gcp_teardown_def by (intro exI [where x = es] exI [where x = fs])
        (use net None that chain_False in \<open>auto simp: removal_def simp del: chain.simps\<close>)
    then show ?thesis unfolding None option.case by (rule emits_weaken [OF emits_gcp_release])
  next
    case (Some a)
    then show ?thesis using net by (auto intro!: emits_ret simp: gcp_teardown_def)
  qed
qed (auto simp: gcp_teardown_def)

end
