(* ===== verification/GCP_SQL_Config.thy ===== *)
theory GCP_SQL_Config
  imports GCP_SQL GCP_Network_Safety
begin

text \<open>
  The configuration of a Cloud SQL instance: the create strategy has everything the later steps dereference, and the
  modification of an instance brings it to the strategy in one step.
\<close>

section \<open>Complete settings\<close>

definition complete_settings :: "settings \<Rightarrow> bool" where
  "complete_settings w \<longleftrightarrow> se_Tier w \<noteq> '''' \<and> se_AvailabilityType w \<noteq> '''' \<and> se_StorageAutoResizeLimit w \<noteq> 0 \<and> se_DataDiskSizeGb w \<noteq> 0 \<and>
     se_UserLabels w \<noteq> None \<and> se_DeletionProtectionEnabled w \<noteq> None \<and>
     (\<exists>b r. se_BackupConfiguration w = Some b \<and> bc_BackupRetentionSettings b = Some r \<and> brs_RetentionUnit r \<noteq> '''' \<and> brs_RetainedBackups r \<noteq> 0 \<and>
        bc_Enabled b \<noteq> None \<and> bc_PointInTimeRecoveryEnabled b \<noteq> None) \<and>
     (\<exists>i. se_IpConfiguration w = Some i \<and> ic_Ipv4Enabled i \<noteq> None)"

definition complete_database :: "databaseInstance \<Rightarrow> bool" where
  "complete_database d \<longleftrightarrow> di_DatabaseVersion d \<noteq> '''' \<and> (\<exists>w. di_Settings d = Some w \<and> complete_settings w)"

lemma ptr_default_simps [simp]: "ptr_default None d = Some d" "ptr_default (Some x) d = Some x" "ptr_default y d \<noteq> None" "\<exists>z. ptr_default y d = Some z"
  by (auto simp: ptr_default_def split: option.splits)

lemma default_nonzero: "d \<noteq> '''' \<Longrightarrow> str_default s d \<noteq> ''''" "e \<noteq> 0 \<Longrightarrow> int_default n e \<noteq> 0"
  by (simp_all add: str_default_def int_default_def)

lemma fill_settings_complete: "complete_settings (fill_settings tags address s)"
  by (simp add: complete_settings_def fill_settings_def fill_backup_def fill_retention_def fill_ip_configuration_def default_nonzero)

lemma fill_instance_complete: "complete_database (fill_instance name region password tags address d)"
  by (simp add: complete_database_def fill_instance_def fill_settings_complete default_nonzero)

text \<open>What the strategy sets is kept: settings that are present are not replaced by defaults, and labels of the strategy stay unless a default tag has their key.\<close>

definition keeps_strategy :: "databaseInstance \<Rightarrow> databaseInstance \<Rightarrow> bool" where
  "keeps_strategy d c \<longleftrightarrow> (di_Name d \<noteq> '''' \<longrightarrow> di_Name c = di_Name d) \<and> (di_DatabaseVersion d \<noteq> '''' \<longrightarrow> di_DatabaseVersion c = di_DatabaseVersion d) \<and>
     (di_Region d \<noteq> '''' \<longrightarrow> di_Region c = di_Region d) \<and> (di_RootPassword d \<noteq> '''' \<longrightarrow> di_RootPassword c = di_RootPassword d) \<and>
     (\<forall>s. di_Settings d = Some s \<longrightarrow> (\<exists>w. di_Settings c = Some w \<and>
        (se_Tier s \<noteq> '''' \<longrightarrow> se_Tier w = se_Tier s) \<and> (se_AvailabilityType s \<noteq> '''' \<longrightarrow> se_AvailabilityType w = se_AvailabilityType s) \<and>
        (se_DataDiskSizeGb s \<noteq> 0 \<longrightarrow> se_DataDiskSizeGb w = se_DataDiskSizeGb s) \<and>
        (\<forall>b. se_DeletionProtectionEnabled s = Some b \<longrightarrow> se_DeletionProtectionEnabled w = Some b) \<and>
        se_MaintenanceWindow w = se_MaintenanceWindow s \<and> se_StorageAutoResize w = se_StorageAutoResize s))"

lemma fill_instance_keeps: "(di_Name d \<noteq> '''' \<Longrightarrow> name = di_Name d) \<Longrightarrow> keeps_strategy d (fill_instance name region password tags address d)"
  by (simp add: keeps_strategy_def fill_instance_def fill_settings_def str_default_def int_default_def)

lemma cloudsql_config:
  assumes "buildCloudSQLCreateStrategy p pg cfg sec address s = (r, t)"
  shows "trace t = trace s \<and> (\<forall>c. r = Val c \<longrightarrow> complete_database c \<and> (\<exists>d. dec_CreateSql p (sc_CreateStrategy cfg) = Inr (Some d) \<and> keeps_strategy d c)) \<and>
    (\<forall>a. r = Abort a \<longrightarrow> dec_CreateSql p (sc_CreateStrategy cfg) = Inr None)"
proof -
  have q: "quiet (buildCloudSQLCreateStrategy p pg cfg sec address)"
    unfolding buildCloudSQLCreateStrategy_def instance_id_def by (intro quiet_rules)
  have val: "complete_database c \<and> (\<exists>d. dec_CreateSql p (sc_CreateStrategy cfg) = Inr (Some d) \<and> keeps_strategy d c)" if "r = Val c" for c
  proof -
    from assms that obtain d name tags where d: "dec_CreateSql p (sc_CreateStrategy cfg) = Inr (Some d)"
      and name: "\<And>n. n \<noteq> '''' \<Longrightarrow> di_Name d = n \<Longrightarrow> name = n" and c: "c = fill_instance name (sc_Region cfg) (map_get (sec_Data sec) ''password'') tags address d"
      unfolding buildCloudSQLCreateStrategy_def instance_id_def by (auto simp: val_simps lift_sum_def split: sum.splits if_splits)
    then show ?thesis using fill_instance_complete fill_instance_keeps [of d name] by auto
  qed
  have "settles (buildCloudSQLCreateStrategy p pg cfg sec address)" if strategy: "dec_CreateSql p (sc_CreateStrategy cfg) \<noteq> Inr None"
  proof (cases "dec_CreateSql p (sc_CreateStrategy cfg)")
    case (Inr x)
    then obtain d where x: "x = Some d" using strategy by auto
    show ?thesis unfolding buildCloudSQLCreateStrategy_def instance_id_def buildDefaultPostgresTags_def Inr x by (simp only: lift_sum_simps wrapping_ret andThen_ret deref_simps, intro settle_rules)
  qed (simp add: buildCloudSQLCreateStrategy_def settles_base)
  then have "\<forall>a. r = Abort a \<longrightarrow> dec_CreateSql p (sc_CreateStrategy cfg) = Inr None"
    using assms settlesD by metis
  then show ?thesis using quietD [OF q assms] val by blast
qed

text \<open>
  Every configuration \<^verbatim>\<open>buildCloudSQLCreateStrategy\<close> returns has all the fields that are dereferenced later and keeps
  what the strategy sets. The only panic is a strategy that is null.
\<close>

theorem cloudsql_config_complete:
  assumes "buildCloudSQLCreateStrategy p pg cfg sec address s = (r, t)"
  shows "trace t = trace s \<and> (\<forall>c. r = Val c \<longrightarrow> complete_database c \<and> (\<exists>d. dec_CreateSql p (sc_CreateStrategy cfg) = Inr (Some d) \<and> keeps_strategy d c)) \<and>
    (\<forall>a. r = Abort a \<longrightarrow> dec_CreateSql p (sc_CreateStrategy cfg) = Inr None)"
  using cloudsql_config [OF assms] .

section \<open>Patching an instance\<close>

text \<open>
  The effect of a patch, as the service documents it: a field that is sent replaces the field of the instance, all other
  fields stay. Only the fields a modification can carry are listed.
\<close>

definition or_found :: "bool option \<Rightarrow> bool \<Rightarrow> bool" where
  "or_found x f = (case x of Some v \<Rightarrow> v | None \<Rightarrow> f)"

definition int_or :: "int option \<Rightarrow> int \<Rightarrow> int" where
  "int_or x f = (case x of Some v \<Rightarrow> v | None \<Rightarrow> f)"

definition patch_backup :: "sqlBackupConfiguration \<Rightarrow> sqlBackupConfiguration \<Rightarrow> sqlBackupConfiguration" where
  "patch_backup m f = (let fs = sbc_ForceSendFields m in f\<lparr>sbc_Enabled := or_found (sent ''Enabled'' fs (sbc_Enabled m)) (sbc_Enabled f),
     sbc_PointInTimeRecoveryEnabled := or_found (sent ''PointInTimeRecoveryEnabled'' fs (sbc_PointInTimeRecoveryEnabled m)) (sbc_PointInTimeRecoveryEnabled f),
     sbc_BackupRetentionSettings := (case sbc_BackupRetentionSettings m of None \<Rightarrow> sbc_BackupRetentionSettings f
       | Some r \<Rightarrow> map_option (\<lambda>fr. \<lparr>brs_RetentionUnit = str_default (brs_RetentionUnit r) (brs_RetentionUnit fr),
           brs_RetainedBackups = int_default (brs_RetainedBackups r) (brs_RetainedBackups fr)\<rparr>) (sbc_BackupRetentionSettings f))\<rparr>)"

definition patch_ip :: "sqlIpConfiguration \<Rightarrow> sqlIpConfiguration \<Rightarrow> sqlIpConfiguration" where
  "patch_ip m f = f\<lparr>sic_Ipv4Enabled := or_found (sent ''Ipv4Enabled'' (sic_ForceSendFields m) (sic_Ipv4Enabled m)) (sic_Ipv4Enabled f)\<rparr>"

definition patch_window :: "sqlMaintenanceWindow \<Rightarrow> sqlMaintenanceWindow \<Rightarrow> sqlMaintenanceWindow" where
  "patch_window m f = f\<lparr>smw_Day := int_or (sent_int ''Day'' (smw_ForceSendFields m) (smw_Day m)) (smw_Day f),
     smw_Hour := int_or (sent_int ''Hour'' (smw_ForceSendFields m) (smw_Hour m)) (smw_Hour f)\<rparr>"

definition patched :: "('a \<Rightarrow> 'a \<Rightarrow> 'a) \<Rightarrow> 'a option \<Rightarrow> 'a option \<Rightarrow> 'a option" where
  "patched pf m f = (case m of None \<Rightarrow> f | Some x \<Rightarrow> map_option (pf x) f)"

definition patch_settings :: "sqlSettings \<Rightarrow> sqlSettings \<Rightarrow> sqlSettings" where
  "patch_settings m f = f\<lparr>
     sse_DeletionProtectionEnabled := or_found (sent ''DeletionProtectionEnabled'' (sse_ForceSendFields m) (sse_DeletionProtectionEnabled m)) (sse_DeletionProtectionEnabled f),
     sse_StorageAutoResize := (case sse_StorageAutoResize m of None \<Rightarrow> sse_StorageAutoResize f | Some b \<Rightarrow> Some b),
     sse_Tier := str_default (sse_Tier m) (sse_Tier f), sse_AvailabilityType := str_default (sse_AvailabilityType m) (sse_AvailabilityType f),
     sse_StorageAutoResizeLimit := int_default (sse_StorageAutoResizeLimit m) (sse_StorageAutoResizeLimit f),
     sse_DataDiskSizeGb := int_default (sse_DataDiskSizeGb m) (sse_DataDiskSizeGb f),
     sse_UserLabels := (case sse_UserLabels m of None \<Rightarrow> sse_UserLabels f | Some ls \<Rightarrow> Some ls),
     sse_BackupConfiguration := patched patch_backup (sse_BackupConfiguration m) (sse_BackupConfiguration f),
     sse_IpConfiguration := patched patch_ip (sse_IpConfiguration m) (sse_IpConfiguration f),
     sse_MaintenanceWindow := patched patch_window (sse_MaintenanceWindow m) (sse_MaintenanceWindow f)\<rparr>"

definition patch_instance :: "sqlInstance \<Rightarrow> sqlInstance \<Rightarrow> sqlInstance" where
  "patch_instance m f = f\<lparr>sql_DatabaseVersion := str_default (sql_DatabaseVersion m) (sql_DatabaseVersion f),
     sql_Settings := patched patch_settings (sql_Settings m) (sql_Settings f)\<rparr>"

lemma patch_bool: "n \<in> set fs \<longleftrightarrow> sql_differs w f \<Longrightarrow> \<not> sql_differs w (or_found (sent n fs (new_bool w f)) f)"
  by (cases w) (auto simp: sql_differs_def or_found_def sent_def new_bool_def is_set_def split: if_splits)

lemma set_force_if [simp]: "n \<in> set (force_if b m) \<longleftrightarrow> b \<and> n = m"
  by (auto simp: force_if_def)

lemma patch_int:
  assumes "w \<noteq> Some 0 \<or> (sql_differs w f \<longrightarrow> n \<in> set fs)" and "n \<in> set fs \<longrightarrow> sql_differs w f"
  shows "\<not> sql_differs w (int_or (sent_int n fs (new_int w f)) f)"
proof (cases "sql_differs w f")
  case True
  then obtain v where v: "w = Some v" by (auto simp: sql_differs_def)
  then have "new_int w f = v" "v \<noteq> 0 \<or> n \<in> set fs" using True assms(1) by (auto simp: new_int_def)
  then show ?thesis by (simp add: v sql_differs_def int_or_def sent_int_def)
next
  case False
  then show ?thesis using assms(2) by (simp add: new_int_def sent_int_def int_or_def)
qed

lemma patch_retention:
  assumes "brs_RetentionUnit r \<noteq> ''''" and "brs_RetainedBackups r \<noteq> 0"
  shows "\<lparr>brs_RetentionUnit = str_default (brs_RetentionUnit (retention_update r x)) (brs_RetentionUnit x),
    brs_RetainedBackups = int_default (brs_RetainedBackups (retention_update r x)) (brs_RetainedBackups x)\<rparr> = r"
  using assms by (cases r) (simp add: retention_update_def str_default_def int_default_def)

lemma patch_backup_settles:
  assumes "bc_BackupRetentionSettings w = Some r" and "brs_RetentionUnit r \<noteq> ''''" and "brs_RetainedBackups r \<noteq> 0"
  shows "\<not> backup_differs w (patch_backup (backup_update w f) f)"
proof -
  let ?m = "backup_update w f"
  have "\<not> sql_differs (bc_Enabled w) (sbc_Enabled (patch_backup ?m f))"
    "\<not> sql_differs (bc_PointInTimeRecoveryEnabled w) (sbc_PointInTimeRecoveryEnabled (patch_backup ?m f))"
    unfolding patch_backup_def backup_update_def Let_def by (simp_all add: patch_bool)
  moreover have "fr = r" if retention: "sbc_BackupRetentionSettings (patch_backup ?m f) = Some fr" for fr
  proof (cases "sbc_BackupRetentionSettings f")
    case (Some x)
    then show ?thesis using retention patch_retention [OF assms(2,3), of x] assms(1) by (simp add: patch_backup_def backup_update_def Let_def)
  qed (use retention in \<open>simp add: patch_backup_def backup_update_def Let_def assms(1)\<close>)
  ultimately show ?thesis using assms(1) by (auto simp: backup_differs_def)
qed

lemma patch_ip_settles: "\<not> sql_differs (ic_Ipv4Enabled w) (sic_Ipv4Enabled (patch_ip (ip_update w f) f))"
  unfolding patch_ip_def ip_update_def by (simp add: patch_bool)

lemma patch_window_settles: "mw_Day w \<noteq> Some 0 \<Longrightarrow> \<not> window_differs w (patch_window (window_update w f) f)"
  unfolding window_differs_def patch_window_def window_update_def by (simp add: patch_int)

lemma both_patched: "(\<And>a b. x = Some a \<Longrightarrow> y = Some b \<Longrightarrow> \<not> d a (pf (u a b) b)) \<Longrightarrow> both d x (patched pf (both u x y) y) \<noteq> Some True"
  by (cases x; cases y) (auto simp: both_def patched_def)

lemma patch_settings_settles:
  assumes "complete_settings w" and "\<And>m. se_MaintenanceWindow w = Some m \<Longrightarrow> mw_Day m \<noteq> Some 0"
  shows "\<not> settings_differ w (patch_settings (settings_update w f) f)"
proof -
  let ?g = "patch_settings (settings_update w f) f"
  obtain b r where b: "se_BackupConfiguration w = Some b" "bc_BackupRetentionSettings b = Some r" "brs_RetentionUnit r \<noteq> ''''" "brs_RetainedBackups r \<noteq> 0"
    using assms(1) by (auto simp: complete_settings_def)
  have "both backup_differs (se_BackupConfiguration w) (sse_BackupConfiguration ?g) \<noteq> Some True"
    unfolding patch_settings_def settings_update_def by (simp, rule both_patched) (use b patch_backup_settles in auto)
  moreover have "both (\<lambda>i j. sql_differs (ic_Ipv4Enabled i) (sic_Ipv4Enabled j)) (se_IpConfiguration w) (sse_IpConfiguration ?g) \<noteq> Some True"
    unfolding patch_settings_def settings_update_def by (simp, rule both_patched) (rule patch_ip_settles)
  moreover have "both window_differs (se_MaintenanceWindow w) (sse_MaintenanceWindow ?g) \<noteq> Some True"
    unfolding patch_settings_def settings_update_def by (simp, rule both_patched) (use assms(2) patch_window_settles in auto)
  moreover have "\<not> sql_differs (se_DeletionProtectionEnabled w) (sse_DeletionProtectionEnabled ?g)"
    unfolding patch_settings_def settings_update_def by (simp add: patch_bool)
  moreover have "se_Tier w = sse_Tier ?g" "se_AvailabilityType w = sse_AvailabilityType ?g" "se_StorageAutoResizeLimit w = sse_StorageAutoResizeLimit ?g"
    "se_DataDiskSizeGb w = sse_DataDiskSizeGb ?g" "se_UserLabels w = sse_UserLabels ?g" "se_StorageAutoResize w = None \<or> se_StorageAutoResize w = sse_StorageAutoResize ?g"
    using assms(1) by (auto simp: complete_settings_def patch_settings_def settings_update_def str_default_def int_default_def)
  ultimately show ?thesis by (auto simp: settings_differ_def)
qed


end
