(* ===== verification/GCP_SQL_Safety.thy ===== *)
theory GCP_SQL_Safety
  imports GCP_SQL_Config
begin

text \<open>
  What the Cloud SQL provider requests: at most one change of an instance per pass, deletion in order, and which snapshots its
  retention deletes.
\<close>

section \<open>Classes of requests\<close>

fun sql_request :: "gcp_req event \<Rightarrow> bool" where
  "sql_request (EvCloud (ReqInsertInstance _ _) _) = True"
| "sql_request (EvCloud (ReqPatchInstance _ _ _) _) = True"
| "sql_request (EvCloud (ReqDeleteInstance _ _) _) = True"
| "sql_request _ = False"

lemma only_metric_not_sql: "only metric_event m \<Longrightarrow> only (\<lambda>e. \<not> sql_request e) m"
  by (erule only_weaken) (auto elim: metric_event.elims)

lemma quiet_private_host [quiet_rules]: "quiet (private_host i)"
  unfolding private_host_def by (intro quiet_rules)

lemma only_sql_metrics: "only metric_event (exposePostgresInstanceMetrics p pg found)"
  unfolding exposePostgresInstanceMetrics_def sql_connectable_def Let_def
  by (intro only_rules quiet_rules [THEN only_quiet]; simp)

lemma quiet_sql_reads [quiet_rules]:
  "quiet (buildDefaultCloudSQLSecret p pg)" "quiet (buildCloudSQLDeleteStrategy p pg cfg)" "quiet (buildCloudSQLUpdateStrategy conf i)"
  unfolding buildDefaultCloudSQLSecret_def GeneratePassword_def buildCloudSQLDeleteStrategy_def instance_id_def buildCloudSQLUpdateStrategy_def Let_def
  by (intro quiet_rules)+

lemmas only_sql_reads [only_rules] = quiet_private_host [THEN only_quiet] quiet_sql_reads [THEN only_quiet]

lemma only_ensure_secret: "P (EvCreateSecret sec True) \<Longrightarrow> P (EvCreateSecret sec False) \<Longrightarrow> only P (ensure_secret k sec)"
  unfolding ensure_secret_def
  by (intro only_rules) (unfold only_def, rule emits_weaken [OF emits_request], auto)

section \<open>Creation and modification\<close>

text \<open>What one pass may request about instances, given what the service answers about each name.\<close>

definition allowed_sql :: "string \<Rightarrow> (string \<Rightarrow> error + sqlInstance) \<Rightarrow> gcp_req event list \<Rightarrow> bool" where
  "allowed_sql projectID found es \<longleftrightarrow> es = [] \<or>
     (\<exists>conf e b. es = [EvCloud (ReqInsertInstance projectID (MapToGcpDatabaseInstance conf)) b] \<and> complete_database conf \<and>
        found (di_Name conf) = Inl e \<and> IsNotFoundError e) \<or>
     (\<exists>conf i m b. es = [EvCloud (ReqPatchInstance projectID (sql_Name i) m) b] \<and> complete_database conf \<and> found (di_Name conf) = Inr i \<and>
        sql_State i \<noteq> ''PENDING_CREATE'' \<and> buildCloudSQLUpdateStrategy conf i () = (Val (Some m), ()))"

lemma allowed_sql_Nil: "allowed_sql projectID found []"
  by (simp add: allowed_sql_def)

text \<open>The computation does not depend on the state.\<close>

definition same_outcome :: "('s, 'a) op \<Rightarrow> ('t, 'a) op \<Rightarrow> bool" where
  "same_outcome m n \<longleftrightarrow> (\<forall>s t. \<exists>r. m s = (r, s) \<and> n t = (r, t))"

lemma same_outcome_rules:
  "same_outcome (ret x) (ret x)" "same_outcome (deref z) (deref z)"
  "same_outcome m n \<Longrightarrow> (\<And>y. same_outcome (f y) (h y)) \<Longrightarrow> same_outcome (andThen m f) (andThen n h)"
  "same_outcome m1 n1 \<Longrightarrow> same_outcome m2 n2 \<Longrightarrow> same_outcome (if b then m1 else m2) (if b then n1 else n2)"
proof -
  show "same_outcome (deref z) (deref z)" by (cases z) (auto simp: same_outcome_def op_simps)
  assume m: "same_outcome m n" and f: "\<And>y. same_outcome (f y) (h y)"
  show "same_outcome (andThen m f) (andThen n h)" unfolding same_outcome_def
  proof (intro allI)
    fix s t
    obtain r where r: "m s = (r, s)" "n t = (r, t)" using m unfolding same_outcome_def by blast
    show "\<exists>r. andThen m f s = (r, s) \<and> andThen n h t = (r, t)"
      using r f unfolding same_outcome_def by (cases r) (auto simp: andThen_def)
  qed
qed (auto simp: same_outcome_def op_simps)

lemma update_strategy_state:
  assumes "buildCloudSQLUpdateStrategy conf i s = (Val m, t)"
  shows "buildCloudSQLUpdateStrategy conf i () = (Val m, ())"
proof -
  have "same_outcome (buildCloudSQLUpdateStrategy conf i) (buildCloudSQLUpdateStrategy conf i :: (unit, sqlInstance option) op)"
    unfolding buildCloudSQLUpdateStrategy_def Let_def by (intro same_outcome_rules)
  then show ?thesis using assms unfolding same_outcome_def by (metis Pair_inject)
qed

lemma emits_config: "emits (buildCloudSQLCreateStrategy p pg cfg sec address) (\<lambda>es r. es = [] \<and> (\<forall>c. r = Val c \<longrightarrow> complete_database c))"
  by (rule emitsI) (drule cloudsql_config, simp)

lemma visible_sql_create:
  assumes "complete_database conf" and "found (di_Name conf) = Inl e" and "IsNotFoundError e"
  shows "visible sql_request (sql_create p g projectID pg conf) (allowed_sql projectID found)"
  unfolding sql_create_def Let_def
  by (rule visible_after [OF visible_attempt [OF visible_gexec]])
     (use assms in \<open>auto simp: allowed_sql_def intro!: only_rules split: option.split\<close>)

lemma visible_sql_found:
  assumes "complete_database conf" and "found (di_Name conf) = Inr i"
  shows "visible sql_request (sql_found g projectID pg sec conf i) (allowed_sql projectID found)"
proof -
  have m: "visible sql_request (sql_modify g projectID i modified) (allowed_sql projectID found)"
    if "sql_State i \<noteq> ''PENDING_CREATE''" "\<And>m. modified = Some m \<Longrightarrow> buildCloudSQLUpdateStrategy conf i () = (Val (Some m), ())" for modified
    unfolding sql_modify_def
    by (rule visible_option, rule visible_ret, rule allowed_sql_Nil, rule visible_after [OF visible_attempt [OF visible_gexec]])
       (use that assms in \<open>auto simp: allowed_sql_def intro!: only_rules\<close>)
  have u: "emits (buildCloudSQLUpdateStrategy conf i) (\<lambda>es r. (\<forall>e \<in> set es. \<not> sql_request e) \<and> (\<forall>x m. r = Val x \<longrightarrow> x = Some m \<longrightarrow> buildCloudSQLUpdateStrategy conf i () = (Val (Some m), ())))"
    by (rule emits_weaken [OF emits_quiet_val [where Q = "\<lambda>x. \<forall>m. x = Some m \<longrightarrow> buildCloudSQLUpdateStrategy conf i () = (Val (Some m), ())"]])
       (auto intro: quiet_rules dest: update_strategy_state)
  show ?thesis unfolding sql_found_def
    by (rule visible_if, rule visible_ret, rule allowed_sql_Nil, rule visible_step [OF u], rule visible_after [OF m])
       (auto intro!: only_rules allowed_sql_Nil split: option.split)
qed

lemma emits_answer:
  assumes "\<And>w. fst (f w) = x"
  shows "emits (attempt (query f)) (\<lambda>es r. es = [] \<and> r = Val x)"
  using assms by (auto simp: emits_def attempt_def query_def split: prod.splits sum.splits) (metis fst_conv)+

text \<open>
  C12. One pass of the Cloud SQL provider over a Postgres resource makes at most one request about an instance. An instance is
  created only when the service answers that there is none of its name, always with a complete configuration; an
  instance is modified only when it is not being created any more, and exactly by the modification computed for
  it; a pass never deletes one.
\<close>

theorem cloudsql_at_most_one_request:
  assumes answers: "\<And>n w. fst (gcp_GetInstance g (sc_ProjectID cfg) n w) = found n"
    and run: "reconcileCloudSQLInstance p g pg cfg address s = (r, t)"
  shows "\<exists>es. trace t = trace s @ es \<and> allowed_sql (sc_ProjectID cfg) found (filter sql_request es)"
proof -
  let ?S = "allowed_sql (sc_ProjectID cfg) found"
  have some: "visible sql_request (andThen (sql_body p g (sc_ProjectID cfg) pg sec conf (Some i)) (\<lambda>(answer, pg').
      andThen (exposePostgresInstanceMetrics p pg' (Some i)) (\<lambda>_. ret (answer, pg')))) ?S"
    if "complete_database conf" "found (di_Name conf) = Inr i" for sec conf i
    unfolding sql_body_def option.case annotate_found_def
    by (rule visible_after, rule visible_otherwise)
       (use that in \<open>auto intro!: visible_sql_found only_rules only_metric_not_sql [OF only_sql_metrics] allowed_sql_Nil\<close>)
  have none: "visible sql_request (sql_body p g (sc_ProjectID cfg) pg sec conf None) ?S"
    if "complete_database conf" "found (di_Name conf) = Inl e" "IsNotFoundError e" for sec conf e
    using visible_sql_create [of conf found, OF that] by (simp add: sql_body_def)
  have look: "visible sql_request (andThen (attempt (query (gcp_GetInstance g (sc_ProjectID cfg) (di_Name conf)))) (\<lambda>r. case r of
        Inl e \<Rightarrow> if \<not> IsNotFoundError e then ret (failed pg msg e) else sql_body p g (sc_ProjectID cfg) pg sec conf None
      | Inr i \<Rightarrow> andThen (sql_body p g (sc_ProjectID cfg) pg sec conf (Some i)) (\<lambda>(answer, pg').
          andThen (exposePostgresInstanceMetrics p pg' (Some i)) (\<lambda>_. ret (answer, pg'))))) ?S" if "complete_database conf" for sec conf msg
    by (rule visible_step [where Q = "\<lambda>r. r = Val (found (di_Name conf))"], rule emits_weaken [OF emits_answer [OF answers]])
       (use that some none in \<open>auto intro!: visible_ret allowed_sql_Nil split: sum.split\<close>)
  have "visible sql_request (reconcileCloudSQLInstance p g pg cfg address) ?S"
    unfolding reconcileCloudSQLInstance_def Let_def
    by (rule visible_otherwise, rule only_rules, rule visible_otherwise, rule only_ensure_secret, simp, simp,
        rule visible_otherwise_step [where Q = "\<lambda>r. \<forall>c. r = Val c \<longrightarrow> complete_database c"], rule emits_weaken [OF emits_config])
       (auto intro: look allowed_sql_Nil)
  from visibleD [OF this run] show ?thesis .
qed

section \<open>Deletion\<close>

definition deletes_sql :: "string \<Rightarrow> sqlInstance \<Rightarrow> gcp_req event list \<Rightarrow> bool" where
  "deletes_sql projectID i es \<longleftrightarrow> es = [] \<or> (sql_State i \<noteq> ''PENDING_DELETE'' \<and> (\<exists>f b. sql_Settings i = Some f \<and>
     es = [EvCloud (if sse_DeletionProtectionEnabled f then ReqPatchInstance projectID (sql_Name i) unprotect else ReqDeleteInstance projectID (sql_Name i)) b]))"

definition releases_sql :: "string \<Rightarrow> bool \<Rightarrow> cr \<Rightarrow> gcp_req event list \<Rightarrow> bool" where
  "releases_sql projectID isLast pg es \<longleftrightarrow> (\<exists>b rest. es = EvDeleteSecret (gcp_credential_secret pg) b # rest \<and> gcp_teardown projectID isLast Postgres pg rest)"

lemma emits_release_sql: "emits (release_sql p g projectID pg name isLast) (\<lambda>es r. releases_sql projectID isLast pg es)"
proof -
  have nil: "gcp_teardown projectID isLast Postgres pg []" by (auto simp: gcp_teardown_def removal_def chain_Nil simp del: chain.simps)
  show ?thesis unfolding release_sql_def Let_def
    by (rule emits_andThen [OF emits_attempt [OF emits_request, where S = "\<lambda>es r. (\<exists>b. es = [EvDeleteSecret (gcp_credential_secret pg) b]) \<and> (\<exists>x. r = Val x)"]])
       (auto intro!: emits_option emits_ret emits_weaken [OF emits_gcp_teardown] simp: releases_sql_def nil)
qed

lemma visible_delete_found_sql: "visible (\<lambda>e. \<not> metric_event e) (delete_found_sql p g projectID pg name i) (deletes_sql projectID i)"
proof -
  have gauges: "only (\<lambda>e. \<not> \<not> metric_event e) (exposePostgresInstanceMetrics p pg (Some i))" using only_sql_metrics by simp
  have t: "visible (\<lambda>e. \<not> metric_event e) (tolerating_conflict (gexec g req) h b) (deletes_sql projectID i)"
    if "\<And>b. deletes_sql projectID i [EvCloud req b]" for req h and b :: delete_reply
    unfolding tolerating_conflict_def by (rule visible_after [OF visible_attempt [OF visible_gexec]]) (use that in \<open>auto intro: only_rules\<close>)
  show ?thesis unfolding delete_found_sql_def
    by (rule visible_andThen [OF gauges], rule visible_if, rule visible_ret, simp add: deletes_sql_def, rule visible_deref, rule visible_if)
       (auto intro!: t simp: deletes_sql_def)
qed

text \<open>
  C13. The deletion of a Postgres resource on GCP: while the service has its instance, the only request is to delete it when it is
  unprotected and not being deleted, or else to lift the protection. The credentials, the network (if this is the
  last resource: peering, service connection, address range) and the finalizer go, in this order, only when the instance is gone,
  and the finalizer only when every request about the network succeeded.
\<close>

theorem cloudsql_deletion_order:
  assumes build: "buildCloudSQLDeleteStrategy p pg cfg s = (Val name, s1)"
    and answer: "gcp_GetInstance g (sc_ProjectID cfg) name (world s1) = (x, w)"
    and run: "deleteCloudSQLInstance p g cfg pg isLast s = (r, t)"
  shows "\<exists>es. trace t = trace s @ es \<and> (case x of
      Inr i \<Rightarrow> if sql_Name i \<noteq> '''' then deletes_sql (sc_ProjectID cfg) i (filter (\<lambda>e. \<not> metric_event e) es) else releases_sql (sc_ProjectID cfg) isLast pg es
    | Inl e \<Rightarrow> if IsNotFoundError e then releases_sql (sc_ProjectID cfg) isLast pg es else es = [])"
proof -
  let ?s2 = "s1\<lparr>world := w\<rparr>"
  have tr: "trace ?s2 = trace s" using quietD [OF quiet_sql_reads(2) build] by simp
  have q: "attempt (query (gcp_GetInstance g (sc_ProjectID cfg) name)) s1 = (Val x, ?s2)"
    using answer by (cases x) (simp_all add: attempt_def query_def)
  let ?cont = "case x of
      Inl e \<Rightarrow> if \<not> IsNotFoundError e then ret (delete_failed pg ''cannot retrieve sql instance from gcp'' e) else release_sql p g (sc_ProjectID cfg) pg name isLast
    | Inr i \<Rightarrow> if sql_Name i \<noteq> '''' then delete_found_sql p g (sc_ProjectID cfg) pg name i else release_sql p g (sc_ProjectID cfg) pg name isLast"
  have "emits ?cont (\<lambda>es r. case x of
      Inr i \<Rightarrow> if sql_Name i \<noteq> '''' then deletes_sql (sc_ProjectID cfg) i (filter (\<lambda>e. \<not> metric_event e) es) else releases_sql (sc_ProjectID cfg) isLast pg es
    | Inl e \<Rightarrow> if IsNotFoundError e then releases_sql (sc_ProjectID cfg) isLast pg es else es = [])"
    by (cases x) (simp_all add: emits_ret emits_release_sql visible_delete_found_sql [unfolded visible_def])
  moreover have "?cont ?s2 = (r, t)" using run build q by (simp add: deleteCloudSQLInstance_def Let_def otherwise_apply andThen_apply)
  ultimately show ?thesis unfolding tr [symmetric] by (rule emitsD)
qed

end
