(* ===== verification/GCP_SQL_Retention.thy ===== *)
theory GCP_SQL_Retention
  imports GCP_SQL_Safety
begin

text \<open>
  The retention of Cloud SQL snapshots: what \<^verbatim>\<open>reconcileCloudSqlInstanceSnapshots\<close> deletes and creates. \<^verbatim>\<open>sort.Slice\<close> is assumed to
  permute its argument and to order it by creation, newest first.
\<close>

definition sorts_newest :: "'w gcpProvider \<Rightarrow> bool" where
  "sorts_newest p \<longleftrightarrow> (\<forall>xs. set (gp_SortNewest p xs) = set xs \<and> sorted_wrt (\<lambda>a b. created_at p b \<le> created_at p a) (gp_SortNewest p xs))"

text \<open>The newest of the complete snapshots.\<close>

definition latest_complete :: "'w gcpProvider \<Rightarrow> snapshot list \<Rightarrow> snapshot \<Rightarrow> bool" where
  "latest_complete p snaps sn \<longleftrightarrow> sn \<in> set snaps \<and> ss_Phase (sn_status sn) = PhaseComplete \<and>
     (\<forall>x \<in> set snaps. ss_Phase (sn_status x) = PhaseComplete \<longrightarrow> created_at p x \<le> created_at p sn)"

text \<open>A snapshot past its retention that is not the latest complete one.\<close>

definition expired :: "'w gcpProvider \<Rightarrow> int \<Rightarrow> int \<Rightarrow> snapshot \<Rightarrow> snapshot \<Rightarrow> bool" where
  "expired p retention now latest sn \<longleftrightarrow> created_at p sn + retention < now \<and> om_Name (sn_meta sn) \<noteq> om_Name (sn_meta latest)"

definition deletes_expired :: "'w gcpProvider \<Rightarrow> int \<Rightarrow> int \<Rightarrow> snapshot \<Rightarrow> snapshot list \<Rightarrow> gcp_req event list \<Rightarrow> bool" where
  "deletes_expired p retention now latest snaps es \<longleftrightarrow> (\<forall>e \<in> set es. \<exists>sn \<in> set snaps. \<exists>b.
     e = EvDeleteSnapshotCR Postgres (om_Name (sn_meta sn), om_Namespace (sn_meta sn)) b \<and> expired p retention now latest sn)"

definition retention_steps :: "'w gcpProvider \<Rightarrow> int \<Rightarrow> int \<Rightarrow> int \<Rightarrow> cr \<Rightarrow> snapshot list \<Rightarrow> gcp_req event list \<Rightarrow> bool" where
  "retention_steps p retention frequency now pg snaps es \<longleftrightarrow> (\<exists>dels news. es = dels @ news \<and>
     (dels = [] \<or> (\<exists>latest. latest_complete p snaps latest \<and> deletes_expired p retention now latest snaps dels)) \<and>
     (news = [] \<or> (\<forall>sn \<in> set snaps. created_at p sn + frequency < now) \<and>
        (\<exists>b. news = [EvCreateSnapshotCR Postgres (om_Name (cr_meta pg)) (om_Namespace (cr_meta pg)) (om_Name (cr_meta pg)) b])))"

lemma retention_stepsI:
  assumes "dels = [] \<or> (\<exists>latest. latest_complete p snaps latest \<and> deletes_expired p retention now latest snaps dels)"
    and "news = [] \<or> (\<forall>sn \<in> set snaps. created_at p sn + frequency < now) \<and>
      (\<exists>b. news = [EvCreateSnapshotCR Postgres (om_Name (cr_meta pg)) (om_Namespace (cr_meta pg)) (om_Name (cr_meta pg)) b])"
  shows "retention_steps p retention frequency now pg snaps (dels @ news)"
  using assms unfolding retention_steps_def by blast

lemma retention_deletes:
  assumes "latest_complete p snaps latest" and "deletes_expired p retention now latest snaps dels"
  shows "retention_steps p retention frequency now pg snaps dels"
  using retention_stepsI [of dels p snaps retention now "[]" frequency pg] assms by auto

lemma find_latest:
  assumes "sorts_newest p" and "find (\<lambda>sn. ss_Phase (sn_status sn) = PhaseComplete) (gp_SortNewest p snaps) = Some latest"
  shows "latest_complete p snaps latest"
proof -
  let ?P = "\<lambda>sn. ss_Phase (sn_status sn) = PhaseComplete"
  have sorted: "sorted_wrt (\<lambda>a b. created_at p b \<le> created_at p a) (gp_SortNewest p snaps)" and set: "set (gp_SortNewest p snaps) = set snaps"
    using assms(1) by (auto simp: sorts_newest_def)
  obtain i where i: "i < length (gp_SortNewest p snaps)" "?P (gp_SortNewest p snaps ! i)" "latest = gp_SortNewest p snaps ! i"
    "\<forall>j < i. \<not> ?P (gp_SortNewest p snaps ! j)"
    using assms(2) by (auto simp: find_Some_iff)
  have "created_at p x \<le> created_at p latest" if x: "x \<in> set snaps" "?P x" for x
  proof -
    obtain j where j: "j < length (gp_SortNewest p snaps)" "x = gp_SortNewest p snaps ! j" using x(1) set by (metis in_set_conv_nth)
    then have "i \<le> j" using i(4) x(2) by (meson not_less)
    then show ?thesis using sorted i j by (cases "i = j") (auto simp: sorted_wrt_iff_nth_less)
  qed
  then show ?thesis using i set by (auto simp: latest_complete_def)
qed

lemma newest_first:
  assumes "sorts_newest p" and "gp_SortNewest p snaps = newest # rest" and "sn \<in> set snaps"
  shows "created_at p sn \<le> created_at p newest"
proof -
  have "sorted_wrt (\<lambda>a b. created_at p b \<le> created_at p a) (newest # rest)" "sn \<in> set (newest # rest)"
    using assms unfolding sorts_newest_def by metis+
  then show ?thesis by auto
qed

lemma emits_clock: "(\<And>w. fst (gp_Now p w) = now) \<Longrightarrow> emits (ask (gp_Now p)) (\<lambda>es r. es = [] \<and> r = Val now)"
  by (auto simp: emits_def ask_def split: prod.splits) (metis fst_conv)

lemma emits_delete_expired:
  assumes "\<And>w. fst (gp_Now p w) = now"
  shows "emits (delete_expired p latest retention sns) (\<lambda>es r. deletes_expired p retention now latest sns es)"
proof (induction sns)
  case Nil
  show ?case by (simp add: emits_ret deletes_expired_def)
next
  case (Cons sn sns)
  let ?S = "\<lambda>es r. deletes_expired p retention now latest (sn # sns) es"
  let ?del = "\<lambda>b. EvDeleteSnapshotCR Postgres (om_Name (sn_meta sn), om_Namespace (sn_meta sn)) b"
  have rest: "emits (delete_expired p latest retention sns) ?S"
    by (rule emits_weaken [OF Cons]) (auto simp: deletes_expired_def)
  have del: "emits (andThen (attempt (request f (\<lambda>r. ?del (ok r)))) (\<lambda>r. case r of
      Inl e \<Rightarrow> ret (Some (m, e)) | Inr _ \<Rightarrow> delete_expired p latest retention sns)) ?S" if "expired p retention now latest sn" for f :: "'a \<Rightarrow> (error + unit) \<times> 'a" and m
    by (rule emits_andThen [OF emits_attempt [OF emits_request, where S = "\<lambda>es r. (\<exists>b. es = [?del b]) \<and> (\<exists>x. r = Val x)"]])
       (use that in \<open>auto intro!: emits_ret emits_weaken [OF Cons] simp: deletes_expired_def split: sum.split\<close>)
  show ?case
  proof (cases "om_Name (sn_meta sn) = om_Name (sn_meta latest)")
    case False
    then show ?thesis unfolding delete_expired.simps if_not_P [OF False]
      by (intro emits_andThen [OF emits_clock [OF assms]]) (auto intro!: rest del simp: Let_def expired_def)
  qed (use rest in simp)
qed

lemma emits_create_snapshot:
  "emits (createSnapshot p pg) (\<lambda>es r. \<exists>b. es = [EvCreateSnapshotCR Postgres (om_Name (cr_meta pg)) (om_Namespace (cr_meta pg)) (om_Name (cr_meta pg)) b])"
  unfolding createSnapshot_def Let_def by (rule emits_andThen [OF emits_request]) (auto intro!: emits_ret)

lemma emits_known: "emits m (\<lambda>es r. es = [] \<and> r = Val x) \<Longrightarrow> emits (f x) S \<Longrightarrow> emits (andThen m f) S"
  by (erule emits_andThen) auto

lemma emits_known_otherwise: "emits m (\<lambda>es r. es = [] \<and> r = Val x) \<Longrightarrow> emits (f x) S \<Longrightarrow> emits (otherwise m h f) S"
  by (erule emits_otherwise) auto

lemma emits_snapshots:
  assumes "\<And>w. fst (kube_ListSnapshots (gp_Client p) Postgres ns w) = Inr items"
  shows "emits (getAllSnapshotsForInstance p name ns) (\<lambda>es r. es = [] \<and> r = Val (filter (\<lambda>sn. sp_ResourceName (sn_spec sn) = name) items))"
    and "emits (getLatestPostgresSnapshot p name ns) (\<lambda>es r. es = [] \<and>
      r = Val (find (\<lambda>sn. ss_Phase (sn_status sn) = PhaseComplete) (gp_SortNewest p (filter (\<lambda>sn. sp_ResourceName (sn_spec sn) = name) items))))"
proof -
  have list: "emits (query (kube_ListSnapshots (gp_Client p) Postgres ns)) (\<lambda>es r. es = [] \<and> r = Val items)"
    by (rule emitsI) (use assms in \<open>auto simp: query_def split: prod.splits sum.splits, (metis fst_conv old.sum.distinct(1) sum.inject(2))+\<close>)
  show all: "emits (getAllSnapshotsForInstance p name ns) (\<lambda>es r. es = [] \<and> r = Val (filter (\<lambda>sn. sp_ResourceName (sn_spec sn) = name) items))"
    unfolding getAllSnapshotsForInstance_def by (rule emits_known [OF list]) (simp add: emits_ret)
  show "emits (getLatestPostgresSnapshot p name ns) (\<lambda>es r. es = [] \<and>
      r = Val (find (\<lambda>sn. ss_Phase (sn_status sn) = PhaseComplete) (gp_SortNewest p (filter (\<lambda>sn. sp_ResourceName (sn_spec sn) = name) items))))"
    unfolding getLatestPostgresSnapshot_def by (rule emits_known [OF all]) (simp add: emits_ret)
qed

lemma emits_new_snapshot:
  assumes "\<forall>sn \<in> set snaps. created_at p sn + frequency < now"
    and "dels = [] \<or> (\<exists>latest. latest_complete p snaps latest \<and> deletes_expired p retention now latest snaps dels)"
  shows "emits (otherwise (createSnapshot p pg) h (\<lambda>_. ret x)) (\<lambda>es r. retention_steps p retention frequency now pg snaps (dels @ es))"
  by (rule emits_otherwise [OF emits_create_snapshot])
     (use assms in \<open>auto intro!: emits_ret retention_stepsI\<close>)

lemma emits_renewal:
  assumes "sorts_newest p" and clock: "\<And>w. fst (gp_Now p w) = now"
    and dels: "latest_complete p snaps latest" "deletes_expired p retention now latest snaps dels"
  shows "emits (andThen (deref (case gp_SortNewest p snaps of [] \<Rightarrow> None | sn # _ \<Rightarrow> Some sn)) (\<lambda>newest.
      andThen (ask (gp_Now p)) (\<lambda>now. otherwise (if created_at p newest + frequency < now then createSnapshot p pg else ret ()) h (\<lambda>_. ret x))))
      (\<lambda>fs r. retention_steps p retention frequency now pg snaps (dels @ fs))"
proof (cases "gp_SortNewest p snaps")
  case Nil
  then show ?thesis using retention_deletes [OF dels] by (simp add: emits_crash)
next
  case (Cons newest rest)
  let ?S = "\<lambda>fs r. retention_steps p retention frequency now pg snaps (dels @ fs)"
  have "\<forall>sn \<in> set snaps. created_at p sn + frequency < now" if "created_at p newest + frequency < now"
    using newest_first [OF assms(1) Cons] that by fastforce
  then have new: "emits (otherwise (createSnapshot p pg) h (\<lambda>_. ret x)) ?S" if "created_at p newest + frequency < now"
    using that dels by (intro emits_new_snapshot) auto
  have old: "emits (otherwise (ret ()) h (\<lambda>_. ret x)) ?S"
    by (rule emits_known_otherwise [where x = "()"]) (use retention_deletes [OF dels] in \<open>auto intro!: emits_ret\<close>)
  show ?thesis unfolding Cons list.case deref_simps andThen_ret
    by (rule emits_known [OF emits_clock [OF clock]]) (use new old in auto)
qed

lemma emits_rotation:
  assumes "sorts_newest p" and clock: "\<And>w. fst (gp_Now p w) = now" and latest: "latest_complete p snaps latest"
  shows "emits (andThen (delete_expired p latest retention snaps) (\<lambda>problem. case problem of
        Some (msg, e) \<Rightarrow> ret (z msg e)
      | None \<Rightarrow> otherwise (lift_sum (Inr frequency)) h (\<lambda>snapshotFrequency.
          andThen (deref (case gp_SortNewest p snaps of [] \<Rightarrow> None | sn # _ \<Rightarrow> Some sn)) (\<lambda>newest.
          andThen (ask (gp_Now p)) (\<lambda>now.
          otherwise (if created_at p newest + snapshotFrequency < now then createSnapshot p pg else ret ()) h2 (\<lambda>_. ret x))))))
      (\<lambda>es r. retention_steps p retention frequency now pg snaps es)"
proof (rule emits_andThen [OF emits_delete_expired [OF clock]])
  let ?renew = "\<lambda>problem. case problem of
        Some (msg, e) \<Rightarrow> ret (z msg e)
      | None \<Rightarrow> otherwise (lift_sum (Inr frequency)) h (\<lambda>snapshotFrequency.
          andThen (deref (case gp_SortNewest p snaps of [] \<Rightarrow> None | sn # _ \<Rightarrow> Some sn)) (\<lambda>newest.
          andThen (ask (gp_Now p)) (\<lambda>now.
          otherwise (if created_at p newest + snapshotFrequency < now then createSnapshot p pg else ret ()) h2 (\<lambda>_. ret x))))"
  have known: "emits (lift_sum (Inr frequency)) (\<lambda>es r. es = [] \<and> r = Val frequency)" by (simp add: emits_ret)
  show "emits (?renew problem) (\<lambda>fs r. retention_steps p retention frequency now pg snaps (es @ fs))"
    if dels: "deletes_expired p retention now latest snaps es" for es problem
    by (rule emits_option, rule emits_known_otherwise [OF known], rule emits_renewal [OF assms(1) clock latest dels])
       (use retention_deletes [OF latest dels] in \<open>auto simp: emits_ret\<close>)
qed (use retention_deletes [OF latest] in auto)


end
