(* ===== verification/GCP_Redis.thy ===== *)
theory GCP_Redis
  imports GCP_Network
begin

text \<open>
  The Redis provider for Memorystore (\<^verbatim>\<open>pkg/providers/gcp/provider_redis.go\<close>), operation by operation. The call deferred in
  \<^verbatim>\<open>createRedisInstance\<close> runs after its body on the resource the body leaves behind.
\<close>

definition gcp_redisProviderName :: string where "gcp_redisProviderName = ''gcp-memorystore''"

definition redis_state_name :: "int \<Rightarrow> string" where
  "redis_state_name n = (case find (\<lambda>(i, _). i = n) [(0, ''STATE_UNSPECIFIED''), (1, ''CREATING''), (2, ''READY''), (3, ''UPDATING''), (4, ''DELETING''),
     (5, ''REPAIRING''), (6, ''MAINTENANCE''), (8, ''IMPORTING''), (9, ''FAILING_OVER'')] of Some (_, s) \<Rightarrow> s | None \<Rightarrow> itoa n)"

section \<open>The instance a strategy asks for\<close>

text \<open>\<^verbatim>\<open>strings.Split(s, "v1/")[1]\<close>: what is between the first and the second separator; None is a panic.\<close>

fun cut_text :: "string \<Rightarrow> string \<Rightarrow> (string \<times> string) option" where
  "cut_text sep [] = (if sep = [] then Some ([], []) else None)"
| "cut_text sep (ch # s) = (if take (length sep) (ch # s) = sep then Some ([], drop (length sep) (ch # s))
     else map_option (\<lambda>(a, b). (ch # a, b)) (cut_text sep s))"

definition second_part :: "string \<Rightarrow> string \<Rightarrow> string option" where
  "second_part sep s = (case cut_text sep s of None \<Rightarrow> None
     | Some (_, rest) \<Rightarrow> Some (case cut_text sep rest of None \<Rightarrow> rest | Some (a, _) \<Rightarrow> a))"

definition empty_redis :: redisInstance where
  "empty_redis = \<lparr>ri_Name = '''', ri_Tier = 0, ri_ReadReplicasMode = 0, ri_MemorySizeGb = 0, ri_AuthorizedNetwork = '''', ri_ConnectMode = 0,
     ri_ReservedIpRange = '''', ri_RedisVersion = '''', ri_Labels = None, ri_RedisConfigs = None, ri_MaintenancePolicy = None, ri_State = 0, ri_Host = '''', ri_Port = 0\<rparr>"

definition redis_parent :: "strategyConfig \<Rightarrow> string" where
  "redis_parent cfg = ''projects/'' @ sc_ProjectID cfg @ ''/locations/'' @ sc_Region cfg"

definition redis_instance_name :: "strategyConfig \<Rightarrow> string \<Rightarrow> string" where
  "redis_instance_name cfg ident = redis_parent cfg @ ''/instances/'' @ ident"

text \<open>The conversion of the size to 32 bits wraps around.\<close>

definition memory_size :: "string \<Rightarrow> error + int" where
  "memory_size s = (if s = '''' then Inr 1
     else case ParseInt64 s of None \<Rightarrow> Inl (parse_int_error s) | Some n \<Rightarrow> Inr (sint (word_of_int n :: 32 word)))"

definition default_redis :: "string \<Rightarrow> int \<Rightarrow> string \<Rightarrow> gcpAddress option \<Rightarrow> labels \<Rightarrow> redisInstance" where
  "default_redis name gb network address tags = empty_redis\<lparr>ri_Name := name, ri_Tier := 3, ri_ReadReplicasMode := 1, ri_MemorySizeGb := gb,
     ri_AuthorizedNetwork := network, ri_ConnectMode := 2, ri_ReservedIpRange := (case address of None \<Rightarrow> '''' | Some a \<Rightarrow> pb_get (ga_Name a)),
     ri_RedisVersion := ''REDIS_6_X'', ri_Labels := Some tags\<rparr>"

definition fill_redis :: "redisInstance \<Rightarrow> labels \<Rightarrow> redisInstance \<Rightarrow> redisInstance" where
  "fill_redis d tags i = i\<lparr>
     ri_Labels := Some ((case ri_Labels i of None \<Rightarrow> Map.empty | Some m \<Rightarrow> m) ++ tags),
     ri_Name := (if ri_Name i = '''' then ri_Name d else ri_Name i),
     ri_Tier := (if ri_Tier i = 0 then ri_Tier d else ri_Tier i),
     ri_ReadReplicasMode := (if ri_ReadReplicasMode i = 0 then ri_ReadReplicasMode d else ri_ReadReplicasMode i),
     ri_MemorySizeGb := (if ri_MemorySizeGb i = 0 then ri_MemorySizeGb d else ri_MemorySizeGb i),
     ri_AuthorizedNetwork := (if ri_AuthorizedNetwork i = '''' then ri_AuthorizedNetwork d else ri_AuthorizedNetwork i),
     ri_ConnectMode := (if ri_ConnectMode i = 0 then ri_ConnectMode d else ri_ConnectMode i),
     ri_ReservedIpRange := (if ri_ReservedIpRange i = '''' then ri_ReservedIpRange d else ri_ReservedIpRange i),
     ri_RedisVersion := (if ri_RedisVersion i = '''' then ri_RedisVersion d else ri_RedisVersion i)\<rparr>"

text \<open>The result is the parent, the identifier and the instance of the request.\<close>

definition buildCreateInstanceRequest :: "'w gcpProvider \<Rightarrow> cr \<Rightarrow> strategyConfig \<Rightarrow> gcpAddress option \<Rightarrow> ('w, string \<times> string \<times> redisInstance) gop" where
  "buildCreateInstanceRequest p r cfg address =
     andThen (wrapping ''failed to unmarshal gcp redis create strategy'' (lift_sum (dec_CreateRedisRequest p (sc_CreateStrategy cfg)))) (\<lambda>req.
     let parent = (if cir_Parent req = '''' then redis_parent cfg else cir_Parent req) in
     andThen (if cir_InstanceId req \<noteq> '''' then ret (cir_InstanceId req)
       else wrapping ''failed to build gcp redis instance id from object'' (BuildInfraNameFromObject (gp_Client p) (cr_meta r) defaultGcpIdentifierLength)) (\<lambda>ident.
     andThen (wrapping ''failed to build gcp redis instance tags'' (buildDefaultRedisTags (gp_Client p) r)) (\<lambda>tags.
     andThen (deref (second_part ''v1/'' (case address of None \<Rightarrow> '''' | Some a \<Rightarrow> pb_get (ga_Network a)))) (\<lambda>network.
     andThen (wrapping ''failed to parse redis spec size'' (lift_sum (memory_size (spec_Size (cr_spec r))))) (\<lambda>gb.
     let d = default_redis (redis_instance_name cfg ident) gb network address tags in
     ret (parent, ident, case cir_Instance req of None \<Rightarrow> d | Some i \<Rightarrow> fill_redis d tags i))))))"

definition buildDeleteInstanceRequest :: "'w gcpProvider \<Rightarrow> cr \<Rightarrow> strategyConfig \<Rightarrow> ('w, string) gop" where
  "buildDeleteInstanceRequest p r cfg =
     andThen (wrapping ''failed to unmarshal gcp redis delete strategy'' (lift_sum (dec_DeleteRedisRequest p (sc_DeleteStrategy cfg)))) (\<lambda>name.
     if name \<noteq> '''' then ret name
     else let resourceID = annotations_Get (cr_meta r) ResourceIdentifierAnnotation in
       if resourceID = '''' then throw (ErrNew ''failed to find gcp redis instance name from annotations'')
       else ret (redis_instance_name cfg resourceID))"

section \<open>Update and upgrade\<close>

text \<open>The output-only durations are removed from both policies before they are compared.\<close>

definition strip_windows :: "weeklyWindow list \<Rightarrow> weeklyWindow list" where
  "strip_windows ws = map (\<lambda>w. w\<lparr>ww_Duration := None\<rparr>) ws"

definition isMaintenancePolicyOutdated :: "'w gcpProvider \<Rightarrow> weeklyWindow list option \<Rightarrow> weeklyWindow list option \<Rightarrow> bool" where
  "isMaintenancePolicyOutdated p a b = (case (a, b) of
     (None, None) \<Rightarrow> False
   | (Some x, Some y) \<Rightarrow> \<not> gp_SameWindows p (strip_windows x) (strip_windows y)
   | _ \<Rightarrow> True)"

definition buildUpdateInstanceRequest :: "'w gcpProvider \<Rightarrow> redisInstance \<Rightarrow> redisInstance \<Rightarrow> (redisInstance \<times> string list) option" where
  "buildUpdateInstanceRequest p conf i =
     (let size = ri_MemorySizeGb i \<noteq> ri_MemorySizeGb conf; ls = ri_Labels i \<noteq> ri_Labels conf; cs = ri_RedisConfigs i \<noteq> ri_RedisConfigs conf;
          outdated = isMaintenancePolicyOutdated p (ri_MaintenancePolicy i) (ri_MaintenancePolicy conf);
          policy = (case ri_MaintenancePolicy conf of None \<Rightarrow> None | Some ws \<Rightarrow> Some (if ri_MaintenancePolicy i = None then ws else strip_windows ws)) in
      if size \<or> ls \<or> cs \<or> outdated
      then Some (empty_redis\<lparr>ri_Name := ri_Name i, ri_MemorySizeGb := (if size then ri_MemorySizeGb conf else 0),
             ri_Labels := (if ls then ri_Labels conf else None), ri_RedisConfigs := (if cs then ri_RedisConfigs conf else None),
             ri_MaintenancePolicy := (if outdated then policy else None)\<rparr>,
           (if size then [''memory_size_gb''] else []) @ (if ls then [''labels''] else []) @ (if cs then [''redis_configs''] else []) @
           (if outdated then [''maintenance_policy''] else []))
      else None)"

definition buildUpgradeInstanceRequest :: "redisInstance \<Rightarrow> redisInstance \<Rightarrow> (string \<times> string) option" where
  "buildUpgradeInstanceRequest conf i = (if ri_RedisVersion i \<noteq> ri_RedisVersion conf then Some (ri_Name i, ri_RedisVersion conf) else None)"

section \<open>Gauges\<close>

definition healthyRedisInstanceStates :: "string list" where
  "healthyRedisInstanceStates = [''CREATING'', ''READY'', ''UPDATING'', ''DELETING'']"

definition exposeRedisInstanceMetrics :: "'w gcpProvider \<Rightarrow> cr \<Rightarrow> redisInstance option \<Rightarrow> ('w, unit) gop" where
  "exposeRedisInstanceMetrics p r found = (case found of None \<Rightarrow> ret ()
   | Some i \<Rightarrow>
       otherwise (GetClusterID (gp_Client p)) (\<lambda>_. ()) (\<lambda>clusterID.
       let om = cr_meta r; name = annotations_Get om ResourceIdentifierAnnotation; prov = gcp_redisProviderName; state = redis_state_name (ri_State i);
           genericLabels = BuildGenericMetricLabels om clusterID name prov; healthy = state \<in> set healthyRedisInstanceStates in
       andThen (SetMetricCurrentTime (gp_Now p) ''cro_redis_info'' (BuildInfoMetricLabels om state clusterID name prov)) (\<lambda>_.
       andThen (expose_phases ''cro_redis_status_phase'' (BuildStatusMetricsLabels om clusterID name prov) (st_Phase (cr_status r))) (\<lambda>_.
       andThen (if healthy then ask (gp_TCPConnection p (ri_Host i) (ri_Port i)) else ret False) (\<lambda>connectable.
       andThen (set_metric ''cro_redis_available'' genericLabels (if healthy then 1 else 0)) (\<lambda>_.
         set_metric ''cro_redis_connection'' genericLabels (if connectable then 1 else 0)))))))"

definition gcp_setRedisDeletionTimestampMetric :: "'w gcpProvider \<Rightarrow> cr \<Rightarrow> ('w, unit) gop" where
  "gcp_setRedisDeletionTimestampMetric p r = (case om_DeletionTimestamp (cr_meta r) of
     None \<Rightarrow> ret ()
   | Some ts \<Rightarrow> (let name = annotations_Get (cr_meta r) ResourceIdentifierAnnotation in
       if ts = zero_time \<or> name = '''' then ret ()
       else otherwise (GetClusterID (gp_Client p)) (\<lambda>_. ()) (\<lambda>clusterID.
         set_metric ''cro_redis_deletion_timestamp'' (BuildStatusMetricsLabels (cr_meta r) clusterID name gcp_redisProviderName (st_Phase (cr_status r))) (real_of_int ts))))"

section \<open>Reconciling an instance\<close>

text \<open>
  \<^verbatim>\<open>CreateOrUpdate\<close> on the resource: it is read, annotated, and written when that changed it. The result is the resource
  and an error or none.
\<close>

definition annotate_redis :: "'w gcpProvider \<Rightarrow> cr \<Rightarrow> string \<Rightarrow> ('w, error option \<times> cr) gop" where
  "annotate_redis p r ident =
     (let k = gp_Client p in
      andThen (attempt (query (kube_Get k Redis (om_Name (cr_meta r), om_Namespace (cr_meta r))))) (\<lambda>x. case x of
        Inl e \<Rightarrow>
          if \<not> k8s_IsNotFound e then ret (Some e, r)
          else let r1 = with_annotation ident r in
            andThen (attempt (request (kube_Create k Redis r1) (\<lambda>y. EvCreate Redis r1 (ok y)))) (\<lambda>y.
              ret (case y of Inl e \<Rightarrow> (Some e, r1) | Inr stored \<Rightarrow> (None, stored)))
      | Inr existing \<Rightarrow>
          let r1 = with_annotation ident existing in
          if r1 = existing then ret (None, r1)
          else andThen (attempt (update_cr k Redis r1)) (\<lambda>y. ret (case y of Inl e \<Rightarrow> (Some e, r1) | Inr stored \<Rightarrow> (None, stored)))))"

definition redis_create_gcp :: "'w gcpProvider \<Rightarrow> 'w gcp \<Rightarrow> cr \<Rightarrow> string \<times> string \<times> redisInstance \<Rightarrow> ('w, redisDeploymentDetails create_reply) gop" where
  "redis_create_gcp p g r req = (case req of (parent, ident, conf) \<Rightarrow>
     otherwise (gexec g (ReqCreateRedis \<lparr>cir_Parent = parent, cir_InstanceId = ident, cir_Instance = Some conf\<rparr>))
       (failed r (''failed to create gcp redis instance '' @ ri_Name conf)) (\<lambda>_.
     andThen (annotate_redis p r ident) (\<lambda>(err, r1). case err of
       Some e \<Rightarrow> ret (failed r1 ''failed to add annotation to redis cr'' e)
     | None \<Rightarrow> ret (in_progress r1 (''started creation of gcp redis instance '' @ ri_Name conf)))))"

definition redis_found_gcp :: "'w gcpProvider \<Rightarrow> 'w gcp \<Rightarrow> cr \<Rightarrow> redisInstance \<Rightarrow> redisInstance \<Rightarrow> ('w, redisDeploymentDetails create_reply) gop" where
  "redis_found_gcp p g r conf i =
     (if ri_State i \<noteq> 2
      then ret (in_progress r (''gcp redis instance '' @ ri_Name conf @ '' is not ready yet, current state is '' @ redis_state_name (ri_State i)))
      else otherwise (case buildUpdateInstanceRequest p conf i of None \<Rightarrow> ret True | Some (m, paths) \<Rightarrow> gexec g (ReqUpdateRedis m paths))
        (failed r (''failed to update gcp redis instance '' @ ri_Name conf)) (\<lambda>_.
      otherwise (case buildUpgradeInstanceRequest conf i of None \<Rightarrow> ret True | Some (n, v) \<Rightarrow> gexec g (ReqUpgradeRedis n v))
        (failed r (''failed to upgrade gcp redis instance '' @ ri_Name conf)) (\<lambda>_.
        ret ((Some \<lparr>rdd_URI = ri_Host i, rdd_Port = ri_Port i\<rparr>, ''successfully reconciled gcp redis instance '' @ ri_Name conf, None), r))))"

definition redis_body_gcp :: "'w gcpProvider \<Rightarrow> 'w gcp \<Rightarrow> cr \<Rightarrow> string \<times> string \<times> redisInstance \<Rightarrow> redisInstance option \<Rightarrow> ('w, redisDeploymentDetails create_reply) gop" where
  "redis_body_gcp p g r req found = (case found of
     None \<Rightarrow> redis_create_gcp p g r req
   | Some i \<Rightarrow>
       otherwise (if annotations_Has (cr_meta r) ResourceIdentifierAnnotation then ret r else update_cr (gp_Client p) Redis (with_annotation (fst (snd req)) r))
         (failed (with_annotation (fst (snd req)) r) ''failed to add annotation to redis cr'') (\<lambda>r1.
         redis_found_gcp p g (store_version (ri_RedisVersion i) r1) (snd (snd req)) i))"

definition createRedisInstance :: "'w gcpProvider \<Rightarrow> 'w gcp \<Rightarrow> strategyConfig \<Rightarrow> cr \<Rightarrow> ('w, redisDeploymentDetails create_reply) gop" where
  "createRedisInstance p g cfg r =
     andThen (gcp_reconcile_network p g (sc_ProjectID cfg) r) (\<lambda>network. case network of
       Inl answer \<Rightarrow> ret answer
     | Inr address \<Rightarrow>
         otherwise (buildCreateInstanceRequest p r cfg address) (failed r ''failed to build gcp create redis instance request'') (\<lambda>req.
         andThen (attempt (query (gcp_GetRedis g (ri_Name (snd (snd req)))))) (\<lambda>x. case x of
           Inl e \<Rightarrow> if \<not> IsNotFoundError e then ret (failed r (''failed to fetch gcp redis instance '' @ ri_Name (snd (snd req))) e)
                     else redis_body_gcp p g r req None
         | Inr i \<Rightarrow> andThen (redis_body_gcp p g r req (Some i)) (\<lambda>(answer, r').
             andThen (exposeRedisInstanceMetrics p r' (Some i)) (\<lambda>_. ret (answer, r'))))))"

definition CreateRedis_gcp :: "'w gcpProvider \<Rightarrow> cr \<Rightarrow> ('w, redisDeploymentDetails create_reply) gop" where
  "CreateRedis_gcp p r0 =
     (let k = gp_Client p in
      otherwise (gcp_ReadStorageStrategy k (gp_ConfigManager p) ''redis'' (spec_Tier (cr_spec r0))) (failed r0 ''failed to retrieve redis strategy config'') (\<lambda>cfg.
      otherwise (CreateFinalizer k Redis r0 DefaultFinalizer) (failed (with_finalizer r0) ''failed to set finalizer'') (\<lambda>r.
      otherwise (gcp_ReconcileProviderCredentials k (gp_Codec p) (om_Namespace (cr_meta r)))
        (failed r (''failed to reconcile gcp redis provider credentials for redis instance '' @ om_Name (cr_meta r))) (\<lambda>creds.
      let account = gcred_ServiceAccountJson creds in
      otherwise (NewNetworkManager p account) (failed r ''failed to initialise network manager'') (\<lambda>_.
      otherwise (new_client p RedisApi account) (failed r ''could not initialise redis client'') (\<lambda>_.
        createRedisInstance p (gp_Services p account) cfg r))))))"

section \<open>Deletion\<close>

definition delete_found_redis :: "'w gcpProvider \<Rightarrow> 'w gcp \<Rightarrow> cr \<Rightarrow> string \<Rightarrow> redisInstance \<Rightarrow> ('w, delete_reply) gop" where
  "delete_found_redis p g r name i =
     andThen (exposeRedisInstanceMetrics p r (Some i)) (\<lambda>_.
     if ri_State i = 4 then ret ((''deletion in progress for gcp redis instance '' @ name, None), r)
     else otherwise (gexec g (ReqDeleteRedis name)) (delete_failed r (''failed to delete gcp redis instance '' @ name)) (\<lambda>_.
       ret ((''delete detected, gcp redis instance '' @ name @ '' deletion started'', None), r)))"

definition release_redis_gcp :: "'w gcpProvider \<Rightarrow> 'w gcp \<Rightarrow> string \<Rightarrow> cr \<Rightarrow> string \<Rightarrow> bool \<Rightarrow> ('w, delete_reply) gop" where
  "release_redis_gcp p g projectID r name isLastResource =
     andThen (gcp_remove_network p g projectID ''failed to delete network service'' ''failed to delete network ip range'' isLastResource r) (\<lambda>x. case x of
       Some answer \<Rightarrow> ret answer
     | None \<Rightarrow> gcp_release p Redis (''failed to update instance '' @ om_Name (cr_meta r) @ '' as part of finalizer reconcile'')
         (''successfully deleted gcp redis instance '' @ name) r)"

definition deleteRedisInstance :: "'w gcpProvider \<Rightarrow> 'w gcp \<Rightarrow> strategyConfig \<Rightarrow> cr \<Rightarrow> bool \<Rightarrow> ('w, delete_reply) gop" where
  "deleteRedisInstance p g cfg r isLastResource =
     otherwise (buildDeleteInstanceRequest p r cfg) (delete_failed r ''failed to build delete gcp redis instance request'') (\<lambda>name.
     andThen (attempt (query (gcp_GetRedis g name))) (\<lambda>x. case x of
       Inl e \<Rightarrow> if \<not> IsNotFoundError e then ret (delete_failed r (''failed to fetch gcp redis instance '' @ name) e)
                 else release_redis_gcp p g (sc_ProjectID cfg) r name isLastResource
     | Inr i \<Rightarrow> delete_found_redis p g r name i))"

definition DeleteRedis_gcp :: "'w gcpProvider \<Rightarrow> cr \<Rightarrow> ('w, delete_reply) gop" where
  "DeleteRedis_gcp p r =
     (let k = gp_Client p in
      andThen (gcp_setRedisDeletionTimestampMetric p r) (\<lambda>_.
      otherwise (gcp_ReadStorageStrategy k (gp_ConfigManager p) ''redis'' (spec_Tier (cr_spec r))) (delete_failed r ''failed to retrieve redis strategy config'') (\<lambda>cfg.
      otherwise (gcp_ReconcileProviderCredentials k (gp_Codec p) (om_Namespace (cr_meta r)))
        (delete_failed r (''failed to reconcile gcp redis provider credentials for redis instance '' @ om_Name (cr_meta r))) (\<lambda>creds.
      otherwise (IsLastResource k) (delete_failed r ''failed to check if this cr is the last cr of type postgres and redis'') (\<lambda>isLastResource.
      let account = gcred_ServiceAccountJson creds in
      otherwise (NewNetworkManager p account) (delete_failed r ''failed to initialise network manager'') (\<lambda>_.
      otherwise (new_client p RedisApi account) (delete_failed r ''could not initialise redis client'') (\<lambda>_.
        deleteRedisInstance p (gp_Services p account) cfg r isLastResource)))))))"

end
