(* ===== verification/GCP_Redis_Safety.thy ===== *)
theory GCP_Redis_Safety
  imports GCP_Redis GCP_SQL_Safety
begin

text \<open>
  What the Memorystore provider requests: one creation of a missing instance or the update of one that is ready, deletion
  in order; and that an update brings the instance to what is asked for.
\<close>

section \<open>Updates\<close>

text \<open>
  The effect of an update, as the service documents it: the fields of the mask are replaced. The service fills in the durations of the
  maintenance windows, so that windows are the same up to these.
\<close>

definition apply_mask :: "redisInstance \<Rightarrow> string list \<Rightarrow> redisInstance \<Rightarrow> redisInstance" where
  "apply_mask m paths i = i\<lparr>
     ri_MemorySizeGb := (if ''memory_size_gb'' \<in> set paths then ri_MemorySizeGb m else ri_MemorySizeGb i),
     ri_Labels := (if ''labels'' \<in> set paths then ri_Labels m else ri_Labels i),
     ri_RedisConfigs := (if ''redis_configs'' \<in> set paths then ri_RedisConfigs m else ri_RedisConfigs i),
     ri_MaintenancePolicy := (if ''maintenance_policy'' \<in> set paths then ri_MaintenancePolicy m else ri_MaintenancePolicy i)\<rparr>"

definition same_but_durations :: "redisInstance \<Rightarrow> redisInstance \<Rightarrow> bool" where
  "same_but_durations i j \<longleftrightarrow> map_option strip_windows (ri_MaintenancePolicy i) = map_option strip_windows (ri_MaintenancePolicy j) \<and>
     i\<lparr>ri_MaintenancePolicy := None\<rparr> = j\<lparr>ri_MaintenancePolicy := None\<rparr>"

lemma same_but_durations_fields:
  assumes "same_but_durations i j"
  shows "ri_MemorySizeGb i = ri_MemorySizeGb j" "ri_Labels i = ri_Labels j" "ri_RedisConfigs i = ri_RedisConfigs j"
    "map_option strip_windows (ri_MaintenancePolicy i) = map_option strip_windows (ri_MaintenancePolicy j)"
  using assms by (cases i; cases j; simp add: same_but_durations_def)+

lemma strip_windows_idem [simp]: "strip_windows (strip_windows ws) = strip_windows ws"
  by (simp add: strip_windows_def)

lemma policy_outdated:
  assumes "\<And>x y. gp_SameWindows p x y \<longleftrightarrow> x = y"
  shows "isMaintenancePolicyOutdated p a b \<longleftrightarrow> map_option strip_windows a \<noteq> map_option strip_windows b"
  using assms by (cases a; cases b) (auto simp: isMaintenancePolicyOutdated_def)


section \<open>Creation and modification\<close>

fun redis_request :: "gcp_req event \<Rightarrow> bool" where
  "redis_request (EvCloud (ReqCreateRedis _) _) = True"
| "redis_request (EvCloud (ReqUpdateRedis _ _) _) = True"
| "redis_request (EvCloud (ReqUpgradeRedis _ _) _) = True"
| "redis_request (EvCloud (ReqDeleteRedis _) _) = True"
| "redis_request _ = False"

lemma only_metric_not_redis: "only metric_event m \<Longrightarrow> only (\<lambda>e. \<not> redis_request e) m"
  by (erule only_weaken) (auto elim: metric_event.elims)

lemma only_memorystore_metrics: "only metric_event (exposeRedisInstanceMetrics p r found)"
  unfolding exposeRedisInstanceMetrics_def Let_def
  by (intro only_rules quiet_rules [THEN only_quiet]; simp)

text \<open>
  What one pass may request about instances, given what the service answers about each name: the update of an instance comes before
  its upgrade, which is not requested after an update that failed.
\<close>

definition updates_redis :: "'w gcpProvider \<Rightarrow> redisInstance \<Rightarrow> redisInstance \<Rightarrow> gcp_req event list \<Rightarrow> bool" where
  "updates_redis p conf i es \<longleftrightarrow> (\<exists>us gs. es = us @ gs \<and>
     (case buildUpdateInstanceRequest p conf i of None \<Rightarrow> us = [] | Some (m, paths) \<Rightarrow> \<exists>b. us = [EvCloud (ReqUpdateRedis m paths) b] \<and> (gs \<noteq> [] \<longrightarrow> b)) \<and>
     (gs = [] \<or> (ri_RedisVersion i \<noteq> ri_RedisVersion conf \<and> (\<exists>b. gs = [EvCloud (ReqUpgradeRedis (ri_Name i) (ri_RedisVersion conf)) b]))))"

definition allowed_redis :: "'w gcpProvider \<Rightarrow> (string \<Rightarrow> error + redisInstance) \<Rightarrow> gcp_req event list \<Rightarrow> bool" where
  "allowed_redis p found es \<longleftrightarrow> es = [] \<or>
     (\<exists>parent ident conf e b. es = [EvCloud (ReqCreateRedis \<lparr>cir_Parent = parent, cir_InstanceId = ident, cir_Instance = Some conf\<rparr>) b] \<and>
        found (ri_Name conf) = Inl e \<and> IsNotFoundError e) \<or>
     (\<exists>conf i. found (ri_Name conf) = Inr i \<and> ri_State i = 2 \<and> updates_redis p conf i es)"

lemma allowed_redis_Nil: "allowed_redis p found []"
  by (simp add: allowed_redis_def)

lemma only_network_not_redis: "only (\<lambda>e. \<not> redis_request e) (gcp_reconcile_network p g projectID inst)"
  unfolding gcp_reconcile_network_def CreateNetworkIpRange_def CreateNetworkService_def createAddressRange_def createServiceConnection_def
  by (intro only_rules quiet_rules [THEN only_quiet]; simp)

lemma quiet_redis_request [quiet_rules]: "quiet (buildCreateInstanceRequest p r cfg address)" "quiet (buildDeleteInstanceRequest p r cfg)"
  unfolding buildCreateInstanceRequest_def buildDeleteInstanceRequest_def Let_def by (intro quiet_rules)+

lemma only_requested: "(\<And>r. P (ev r)) \<Longrightarrow> only P (request f ev)"
  unfolding only_def by (rule emits_weaken [OF emits_request]) auto

lemma only_annotate_redis: "only (\<lambda>e. \<not> redis_request e) (annotate_redis p r ident)"
  unfolding annotate_redis_def Let_def update_cr_def
  by (intro only_rules only_requested; simp)

lemma emits_redis_found: "ri_State i = 2 \<Longrightarrow> emits (redis_found_gcp p g r conf i) (\<lambda>es _. updates_redis p conf i es)"
proof -
  assume ready: "ri_State i = 2"
  let ?upgrade = "\<lambda>h x. otherwise (case buildUpgradeInstanceRequest conf i of None \<Rightarrow> ret True | Some (n, v) \<Rightarrow> gexec g (ReqUpgradeRedis n v)) h (\<lambda>_. ret x)"
  have upgrade: "emits (?upgrade h x) (\<lambda>es _. es = [] \<or> (ri_RedisVersion i \<noteq> ri_RedisVersion conf \<and>
      (\<exists>b. es = [EvCloud (ReqUpgradeRedis (ri_Name i) (ri_RedisVersion conf)) b])))" for h and x :: "redisDeploymentDetails create_reply"
  proof (cases "ri_RedisVersion i = ri_RedisVersion conf")
    case True
    then show ?thesis by (simp add: buildUpgradeInstanceRequest_def) (rule emits_otherwise [OF emits_ret]; auto intro: emits_ret)
  next
    case False
    then show ?thesis by (simp add: buildUpgradeInstanceRequest_def) (rule emits_otherwise [OF emits_gexec]; auto intro: emits_ret)
  qed
  show ?thesis
  proof (cases "buildUpdateInstanceRequest p conf i")
    case None
    then show ?thesis unfolding redis_found_gcp_def using ready
      by simp (rule emits_otherwise [where R = "\<lambda>es r. es = []", OF emits_ret]; auto intro!: emits_weaken [OF upgrade] simp: updates_redis_def)
  next
    case (Some a)
    then obtain m paths where a: "buildUpdateInstanceRequest p conf i = Some (m, paths)" by (cases a) auto
    then show ?thesis unfolding redis_found_gcp_def using ready
      by simp (rule emits_otherwise [OF emits_gexec]; auto intro!: emits_weaken [OF upgrade] simp: updates_redis_def)
  qed
qed

lemma visible_emits: "emits m (\<lambda>es _. S es) \<Longrightarrow> (\<And>es. S es \<Longrightarrow> S' (filter L es)) \<Longrightarrow> visible L m S'"
  unfolding visible_def by (erule emits_weaken)

lemma updates_redis_visible: "updates_redis p conf i es \<Longrightarrow> filter redis_request es = es"
  by (auto simp: updates_redis_def split: option.splits)


section \<open>Deletion\<close>

definition deletes_redis :: "string \<Rightarrow> redisInstance \<Rightarrow> gcp_req event list \<Rightarrow> bool" where
  "deletes_redis name i es \<longleftrightarrow> es = [] \<or> (ri_State i \<noteq> 4 \<and> (\<exists>b. es = [EvCloud (ReqDeleteRedis name) b]))"

lemma visible_delete_found_redis: "visible (\<lambda>e. \<not> metric_event e) (delete_found_redis p g r name i) (deletes_redis name i)"
proof -
  have "only (\<lambda>e. \<not> \<not> metric_event e) (exposeRedisInstanceMetrics p r (Some i))" using only_memorystore_metrics by simp
  then show ?thesis unfolding delete_found_redis_def
    by (rule visible_andThen)
       (auto intro!: visible_if visible_ret visible_otherwise_after [OF visible_gexec] only_rules simp: deletes_redis_def)
qed

text \<open>
  C16. The deletion of a Redis resource on GCP: while the service has its instance, the only request is to delete it unless it is
  being deleted. The network (if this is the last resource: peering, service connection, address range) and the finalizer go,
  in this order, only when the instance is gone, and the finalizer only when every request about the network succeeded.
\<close>

theorem memorystore_deletion_order:
  assumes build: "buildDeleteInstanceRequest p r cfg s = (Val name, s1)"
    and answer: "gcp_GetRedis g name (world s1) = (x, w)"
    and run: "deleteRedisInstance p g cfg r isLast s = (reply, t)"
  shows "\<exists>es. trace t = trace s @ es \<and> (case x of
      Inr i \<Rightarrow> deletes_redis name i (filter (\<lambda>e. \<not> metric_event e) es)
    | Inl e \<Rightarrow> if IsNotFoundError e then gcp_teardown (sc_ProjectID cfg) isLast Redis r es else es = [])"
proof -
  let ?s2 = "s1\<lparr>world := w\<rparr>"
  have tr: "trace ?s2 = trace s" using quietD [OF quiet_redis_request(2) build] by simp
  have q: "attempt (query (gcp_GetRedis g name)) s1 = (Val x, ?s2)"
    using answer by (cases x) (simp_all add: attempt_def query_def)
  let ?cont = "case x of
      Inl e \<Rightarrow> if \<not> IsNotFoundError e then ret (delete_failed r (''failed to fetch gcp redis instance '' @ name) e)
               else release_redis_gcp p g (sc_ProjectID cfg) r name isLast
    | Inr i \<Rightarrow> delete_found_redis p g r name i"
  have "emits ?cont (\<lambda>es r'. case x of
      Inr i \<Rightarrow> deletes_redis name i (filter (\<lambda>e. \<not> metric_event e) es)
    | Inl e \<Rightarrow> if IsNotFoundError e then gcp_teardown (sc_ProjectID cfg) isLast Redis r es else es = [])"
    by (cases x) (simp_all add: emits_ret release_redis_gcp_def emits_gcp_teardown visible_delete_found_redis [unfolded visible_def])
  moreover have "?cont ?s2 = (reply, t)" using run build q by (simp add: deleteRedisInstance_def Let_def otherwise_apply andThen_apply)
  ultimately show ?thesis unfolding tr [symmetric] by (rule emitsD)
qed

text \<open>
  A Redis resource without its annotation, deleted with a strategy that names no instance, is never released: every deletion
  ends with an error before any request is made.
\<close>

theorem memorystore_deletion_needs_name:
  assumes "dec_DeleteRedisRequest p (sc_DeleteStrategy cfg) = Inr ''''" and "annotations_Get (cr_meta r) ResourceIdentifierAnnotation = ''''"
  shows "\<exists>msg e. deleteRedisInstance p g cfg r isLast s = (Val ((msg, Some e), r), s)"
  using assms
  by (simp add: deleteRedisInstance_def buildDeleteInstanceRequest_def otherwise_apply wrapping_def lift_sum_def ret_apply throw_apply andThen_apply delete_failed_def)

end
