(* ===== verification/GCP_Samples.thy ===== *)
theory GCP_Samples
  imports GCP_SQL_Retention GCP_Redis_Safety
begin

text \<open>A sample project with a network of two subnets and no resources, and the properties of the GCP providers at it.\<close>

section \<open>A sample project\<close>

definition google_not_found :: error where
  "google_not_found = ErrGoogleHTTP 404 ''not found''"

definition sample_gcp_network :: gcpNetwork where
  "sample_gcp_network = \<lparr>gn_Name = Some ''cluster-x-network'', gn_SelfLink = Some ''https://www.googleapis.com/compute/v1/projects/p/global/networks/cluster-x-network'',
     gn_Subnetworks = [''u1'', ''u2''], gn_Peerings = []\<rparr>"

definition sample_gcp :: "unit gcp" where
  "sample_gcp = \<lparr>gcp_Exec = (\<lambda>_ w. (Inr True, w)), gcp_IterateNetworks = (\<lambda>_ _ w. (([sample_gcp_network], ErrNew ''no more items in iterator''), w)),
     gcp_GetSubnetwork = (\<lambda>_ _ _ w. (Inr (Some ''10.0.0.0/17''), w)), gcp_ListConnections = (\<lambda>_ _ w. (Inr [], w)),
     gcp_GetAddress = (\<lambda>_ _ w. (Inl google_not_found, w)), gcp_GetInstance = (\<lambda>_ _ w. (Inl google_not_found, w)),
     gcp_GetRedis = (\<lambda>_ w. (Inl google_not_found, w)), gcp_GetBucket = (\<lambda>_ w. (Inl google_not_found, w)), gcp_HasRole = (\<lambda>_ _ _ w. (Inr False, w)),
     gcp_ListObjects = (\<lambda>_ w. (Inr [], w)), gcp_GetObjectMetadata = (\<lambda>_ _ w. (Inl google_not_found, w))\<rparr>"

definition sample_database :: databaseInstance where
  "sample_database = \<lparr>di_ConnectionName = '''', di_DatabaseVersion = '''', di_DiskEncryptionConfiguration = None, di_FailoverReplica = None, di_GceZone = '''',
     di_InstanceType = '''', di_IpAddresses = None, di_Kind = '''', di_MaintenanceVersion = '''', di_MasterInstanceName = '''', di_MaxDiskSize = 0,
     di_Name = ''db-1'', di_Project = '''', di_Region = '''', di_ReplicaNames = None, di_RootPassword = '''', di_SecondaryGceZone = '''', di_SelfLink = '''',
     di_ServerCaCert = None, di_Settings = None\<rparr>"

definition sample_sql_snapshot :: "string \<Rightarrow> string \<Rightarrow> snapshot" where
  "sample_sql_snapshot name created = \<lparr>sn_meta = sample_meta\<lparr>om_Name := name, om_CreationTimestamp := created\<rparr>,
     sn_spec = \<lparr>sp_ResourceName = ''db'', sp_SkipDelete = False\<rparr>, sn_status = \<lparr>ss_SnapshotID = name, ss_Phase = PhaseComplete, ss_Message = '''', ss_Strategy = ''''\<rparr>\<rparr>"

definition sample_snapshots :: "snapshot list" where
  "sample_snapshots = [sample_sql_snapshot ''old'' ''t'', sample_sql_snapshot ''new'' ''ttt'']"

text \<open>An instant is the length of its text; the clock stands still at 10.\<close>

definition sample_gcp_provider :: "unit gcpProvider" where
  "sample_gcp_provider = \<lparr>gp_Client = (sample_kube sample_cr)\<lparr>kube_ListSnapshots := (\<lambda>_ _ w. (Inr sample_snapshots, w))\<rparr>,
     gp_ConfigManager = NewDefaultConfigMapConfigManager Map.empty,
     gp_Codec = \<lparr>gcp_EncodeProviderSpec = (\<lambda>_. Inr ''spec''), gcp_DecodeProviderSpec = (\<lambda>_. Inr ''account''), gcp_codec_polls = 60\<rparr>,
     gp_New = (\<lambda>_ _. None), gp_Services = (\<lambda>_. sample_gcp), gp_TCPConnection = (\<lambda>_ _ w. (True, w)), gp_Now = (\<lambda>w. (10, w)), gp_NewRandom = (\<lambda>w. (Inr ''pw'', w)),
     gp_UrlPath = (\<lambda>u. Inr (''/regions/r/subnetworks/'' @ u)), gp_ParseDuration = (\<lambda>d. Inr 5), gp_Created = (\<lambda>t. int (length t)), gp_SameWindows = (=),
     gp_SortNewest = sort_key (\<lambda>sn. - int (length (om_CreationTimestamp (sn_meta sn)))),
     dec_CreateSql = (\<lambda>_. Inr (Some sample_database)), dec_DeleteSql = (\<lambda>_. Inr ''db-1''),
     dec_CreateRedisRequest = (\<lambda>_. Inr \<lparr>cir_Parent = '''', cir_InstanceId = ''cache'', cir_Instance = None\<rparr>), dec_DeleteRedisRequest = (\<lambda>_. Inr ''''),
     dec_CidrBlock = (\<lambda>_. Inr '''')\<rparr>"

abbreviation gcp_state :: "(unit, gcp_req event) sys" where
  "gcp_state \<equiv> sample_sys"

definition annotated_cr :: cr where
  "annotated_cr = sample_cr\<lparr>cr_meta := sample_meta\<lparr>om_Annotations := Some [ResourceIdentifierAnnotation \<mapsto> ''cache'']\<rparr>\<rparr>"

lemma google_not_found [simp]: "IsNotFoundError google_not_found"
  by (simp add: IsNotFoundError_def google_not_found_def)

lemma sample_gcp_answers: "fst (gcp_GetInstance sample_gcp q n w) = Inl google_not_found" "fst (gcp_GetRedis sample_gcp n w) = Inl google_not_found"
    "gcp_GetInstance sample_gcp q n w = (Inl google_not_found, w)" "gcp_GetRedis sample_gcp n w = (Inl google_not_found, w)"
  by (simp_all add: sample_gcp_def)

section \<open>The network\<close>

definition sample_block :: ipnet where
  "sample_block = \<lparr>net_IP = [10, 1, 0, 0], net_Mask = mask_bytes 4 22\<rparr>"

definition sample_subnet :: ipnet where
  "sample_subnet = \<lparr>net_IP = [10, 0, 0, 0], net_Mask = mask_bytes 4 17\<rparr>"

lemma sample_blocks: "wf_net sample_block" "wf_net sample_subnet" "mask_Size (net_Mask sample_block) \<le> 22"
    "\<not> net_Contains sample_subnet (net_IP sample_block)" "\<not> net_Contains sample_block (net_IP sample_subnet)"
  by code_simp+

theorem gcp_validateCidrBlock_exact_witness:
  "validateCidrBlock sample_block [Some (net_String sample_subnet)] = None \<and> addresses sample_block \<inter> addresses sample_subnet = {}"
proof -
  have "blocks_of_subnets [Some (net_String sample_subnet)] [sample_subnet]" using sample_blocks by (simp add: blocks_of_subnets_def pb_get_def ParseCIDR_net_String)
  moreover have "validateCidrBlock sample_block [Some (net_String sample_subnet)] = None"
    using sample_blocks by (simp add: validateCidrBlock_def gcp_isValidCIDRRange_def pb_get_def ParseCIDR_net_String)
  ultimately show ?thesis using gcp_validateCidrBlock_exact [OF sample_blocks(1), of "[Some (net_String sample_subnet)]" "[sample_subnet]"] by simp
qed

theorem gcp_ip_range_validated_witness:
  "\<exists>es. trace (snd (CreateNetworkIpRange sample_gcp_provider sample_gcp ''p'' sample_block gcp_state)) = es \<and>
     (es = [] \<or> (\<exists>req b. es = [EvCloud req b] \<and> reserved_range ''p'' sample_block req))"
proof -
  obtain r t where run: "CreateNetworkIpRange sample_gcp_provider sample_gcp ''p'' sample_block gcp_state = (r, t)" by force
  show ?thesis using gcp_ip_range_validated [OF run] run by (simp add: sample_sys_def)
qed

section \<open>Cloud SQL\<close>

definition sample_secret :: secret where
  "sample_secret = \<lparr>sec_Name = ''s'', sec_Namespace = ''ns'', sec_Data = Some Map.empty, sec_Type = '''', sec_Owners = []\<rparr>"

theorem cloudsql_config_complete_witness:
  "\<exists>c t. buildCloudSQLCreateStrategy sample_gcp_provider sample_cr empty_strategy sample_secret None gcp_state = (Val c, t) \<and> complete_database c"
proof -
  have infra: "query (kube_GetInfrastructure (gp_Client sample_gcp_provider) ''cluster'') s = (Val sample_infra, s)" for s :: "(unit, gcp_req event) sys"
    by (simp add: query_def sample_gcp_provider_def sample_kube_def)
  have dec: "dec_CreateSql sample_gcp_provider x = Inr (Some sample_database)" "di_Name sample_database = ''db-1''" for x
    by (simp_all add: sample_gcp_provider_def sample_database_def)
  obtain c where run: "buildCloudSQLCreateStrategy sample_gcp_provider sample_cr empty_strategy sample_secret None gcp_state = (Val c, gcp_state)"
    by (simp add: buildCloudSQLCreateStrategy_def instance_id_def buildDefaultPostgresTags_def buildDefaultTags_def GetDefaultResourceTags_def
        GetUserInfraTags_def GetClusterID_def GetClusterInfrastructure_def Let_def op_simps infra dec)
  show ?thesis using cloudsql_config_complete [OF run] run by blast
qed


theorem cloudsql_at_most_one_request_witness:
  "\<exists>es. trace (snd (reconcileCloudSQLInstance sample_gcp_provider sample_gcp sample_cr empty_strategy None gcp_state)) = es \<and>
     allowed_sql '''' (\<lambda>_. Inl google_not_found) (filter sql_request es)"
proof -
  obtain r t where run: "reconcileCloudSQLInstance sample_gcp_provider sample_gcp sample_cr empty_strategy None gcp_state = (r, t)" by force
  show ?thesis
    using cloudsql_at_most_one_request [where found = "\<lambda>_. Inl google_not_found", OF sample_gcp_answers(1) run] run by (simp add: empty_strategy_def sample_sys_def)
qed

theorem cloudsql_deletion_order_witness:
  "\<exists>es. trace (snd (deleteCloudSQLInstance sample_gcp_provider sample_gcp empty_strategy sample_cr True gcp_state)) = es \<and> releases_sql '''' True sample_cr es"
proof -
  have build: "buildCloudSQLDeleteStrategy sample_gcp_provider sample_cr empty_strategy gcp_state = (Val ''db-1'', gcp_state)"
    by (simp add: buildCloudSQLDeleteStrategy_def instance_id_def sample_gcp_provider_def op_simps)
  obtain r t where run: "deleteCloudSQLInstance sample_gcp_provider sample_gcp empty_strategy sample_cr True gcp_state = (r, t)" by force
  show ?thesis using cloudsql_deletion_order [OF build sample_gcp_answers(3) run] run by (simp add: empty_strategy_def sample_sys_def)
qed

lemma sample_sorts: "sorts_newest sample_gcp_provider"
proof -
  have "sorted_wrt (\<lambda>a b. - int (length (om_CreationTimestamp (sn_meta a))) \<le> - int (length (om_CreationTimestamp (sn_meta b))))
      (sort_key (\<lambda>sn. - int (length (om_CreationTimestamp (sn_meta sn)))) xs)" for xs
    using sorted_sort_key [of "\<lambda>sn. - int (length (om_CreationTimestamp (sn_meta sn)))" xs] by (simp add: sorted_map)
  then show ?thesis unfolding sorts_newest_def by (intro allI) (simp add: sample_gcp_provider_def created_at_def)
qed


section \<open>Memorystore\<close>



theorem memorystore_deletion_order_witness:
  "\<exists>es. trace (snd (deleteRedisInstance sample_gcp_provider sample_gcp empty_strategy annotated_cr True gcp_state)) = es \<and> gcp_teardown '''' True Redis annotated_cr es"
proof -
  have "annotations_Get (cr_meta annotated_cr) ResourceIdentifierAnnotation = ''cache''"
    by (simp add: annotations_Get_def annotated_cr_def map_get_def)
  then have build: "buildDeleteInstanceRequest sample_gcp_provider annotated_cr empty_strategy gcp_state = (Val (redis_instance_name empty_strategy ''cache''), gcp_state)"
    by (simp add: buildDeleteInstanceRequest_def sample_gcp_provider_def op_simps Let_def)
  obtain r t where run: "deleteRedisInstance sample_gcp_provider sample_gcp empty_strategy annotated_cr True gcp_state = (r, t)" by force
  show ?thesis using memorystore_deletion_order [OF build sample_gcp_answers(4) run] run by (simp add: empty_strategy_def sample_sys_def)
qed

theorem memorystore_deletion_needs_name_witness:
  "\<exists>msg e. deleteRedisInstance sample_gcp_provider sample_gcp empty_strategy sample_cr True gcp_state = (Val ((msg, Some e), sample_cr), gcp_state)"
  by (rule memorystore_deletion_needs_name)
     (simp_all add: sample_gcp_provider_def annotations_Get_def sample_cr_def sample_meta_def map_get_def)

end
