(* ===== verification/GCP_Snapshots_Safety.thy ===== *)
theory GCP_Snapshots_Safety
  imports GCP_Snapshots GCP_SQL_Safety GCP_Samples
begin

text \<open>What the deletion of a Postgres snapshot of GCP requests.\<close>

text \<open>Releasing a snapshot is at most one update, which removes its finalizer.\<close>

definition snapshot_released :: "snapshot \<Rightarrow> gcp_req event list \<Rightarrow> bool" where
  "snapshot_released snap es \<longleftrightarrow> es = [] \<or>
     (\<exists>om b. RemoveFinalizer (sn_meta snap) DefaultFinalizer = Some om \<and> es = [EvSnapshotUpdate Postgres (snap\<lparr>sn_meta := om\<rparr>) b])"

text \<open>
  The object goes first. Nothing follows unless its deletion succeeded and the bucket, listed as \<open>objects\<close>, does not have it any more; an empty
  bucket goes next, and the finalizer last.
\<close>

definition snapshot_teardown :: "string \<Rightarrow> (error + string list) \<Rightarrow> snapshot \<Rightarrow> gcp_req event list \<Rightarrow> bool" where
  "snapshot_teardown bucket objects snap es \<longleftrightarrow>
     (if sp_SkipDelete (sn_spec snap) then snapshot_released snap es
      else \<exists>b rest. es = EvCloud (ReqDeleteObject bucket (om_Name (sn_meta snap))) b # rest \<and>
        (rest \<noteq> [] \<longrightarrow> b \<and> (\<exists>names. objects = Inr names \<and> om_Name (sn_meta snap) \<notin> set names \<and>
           (if names = [] then \<exists>b' rest'. rest = EvCloud (ReqDeleteStorageBucket bucket) b' # rest' \<and> (rest' \<noteq> [] \<longrightarrow> b' \<and> snapshot_released snap rest')
            else snapshot_released snap rest))))"

lemma emits_gcp_release_snapshot: "emits (gcp_release_snapshot p snap) (\<lambda>es r. snapshot_released snap es)"
  unfolding gcp_release_snapshot_def Let_def update_snapshot_def
  by (cases "RemoveFinalizer (sn_meta snap) DefaultFinalizer")
     (auto intro!: emits_crash emits_otherwise [OF emits_request] emits_ret simp: snapshot_released_def)

lemma emits_query_answer: "(\<And>w. fst (f w) = a) \<Longrightarrow> emits (query f) (\<lambda>es r. es = [] \<and> (\<forall>x. r = Val x \<longrightarrow> a = Inr x))"
  unfolding query_def emits_def by (auto split: prod.splits sum.splits) (metis fst_conv)+

lemma emits_deletePostgresSnapshot:
  assumes "\<And>w. fst (gcp_ListObjects g (annotations_Get (cr_meta pg) ResourceIdentifierAnnotation) w) = objects"
  shows "emits (gcp_deletePostgresSnapshot p g pg snap) (\<lambda>es r. snapshot_teardown (annotations_Get (cr_meta pg) ResourceIdentifierAnnotation) objects snap es)"
  unfolding gcp_deletePostgresSnapshot_def Let_def snapshot_teardown_def
  by (auto intro!: emits_otherwise [OF emits_gexec] emits_otherwise [OF emits_query_answer [OF assms]] emits_ret emits_if
      emits_weaken [OF emits_gcp_release_snapshot]) (rule exI [of _ True], blast)

text \<open>
  C23. The deletion of a Postgres snapshot of GCP: the exported object goes first, unless the snapshot is marked to be kept; an empty
  bucket goes next and the finalizer last, and only when the object is gone.
\<close>

theorem gcp_snapshot_deletion_order:
  assumes "\<And>w. fst (gcp_ListObjects g (annotations_Get (cr_meta pg) ResourceIdentifierAnnotation) w) = objects"
    and "gcp_deletePostgresSnapshot p g pg snap s = (r, t)"
  shows "\<exists>es. trace t = trace s @ es \<and> snapshot_teardown (annotations_Get (cr_meta pg) ResourceIdentifierAnnotation) objects snap es"
  using emitsD [OF emits_deletePostgresSnapshot [OF assms(1)] assms(2)] .

theorem gcp_snapshot_deletion_order_witness:
  "\<exists>es. trace (snd (gcp_deletePostgresSnapshot sample_gcp_provider sample_gcp annotated_cr (sample_sql_snapshot ''old'' ''t'') gcp_state)) = es \<and>
     snapshot_teardown ''cache'' (Inr []) (sample_sql_snapshot ''old'' ''t'') es"
proof -
  have name: "annotations_Get (cr_meta annotated_cr) ResourceIdentifierAnnotation = ''cache''"
    by (simp add: annotations_Get_def annotated_cr_def map_get_def)
  have objects: "fst (gcp_ListObjects sample_gcp (annotations_Get (cr_meta annotated_cr) ResourceIdentifierAnnotation) w) = Inr []" for w
    by (simp add: sample_gcp_def)
  obtain r t where run: "gcp_deletePostgresSnapshot sample_gcp_provider sample_gcp annotated_cr (sample_sql_snapshot ''old'' ''t'') gcp_state = (r, t)" by force
  show ?thesis using gcp_snapshot_deletion_order [OF objects run] run name by (simp add: sample_sys_def)
qed

end
