(* ===== verification/OpenShift.thy ===== *)
theory OpenShift
  imports Provider_Parts
begin

text \<open>
  The Postgres and Redis providers that run in the cluster (\<^verbatim>\<open>pkg/providers/openshift\<close>): a deployment with its service, volume
  claim and secret or config map, kept up to date with \<^verbatim>\<open>CreateOrUpdate\<close>.
\<close>

section \<open>Objects\<close>

text \<open>
  The specification of an object is the JSON the API server receives, with the fields the code treats apart: the cluster
  address of a service, the requests of a volume claim. Of a status the conditions of a deployment and the phase of a claim are read.
\<close>

record deployment =
  dp_Name :: string
  dp_Namespace :: string
  dp_Spec :: json
  dp_Conditions :: "(string \<times> string) list"

record serviceSpec =
  svs_ClusterIP :: string
  svs_Rest :: json

record service =
  sv_Name :: string
  sv_Namespace :: string
  sv_Spec :: serviceSpec

record volumeClaim =
  vc_Name :: string
  vc_Namespace :: string
  vc_Phase :: string
  vc_Requests :: json
  vc_Rest :: json

record configMap =
  cmo_Name :: string
  cmo_Namespace :: string
  cmo_Data :: "labels option"

text \<open>A secret carries its data and the \<^verbatim>\<open>StringData\<close> to be written.\<close>

datatype workload = DeploymentObj deployment | ServiceObj service | ClaimObj volumeClaim | ConfigMapObj configMap | SecretObj secret "labels option"

datatype workload_kind = DeploymentKind | ServiceKind | ClaimKind | ConfigMapKind | SecretKind

fun kind_of :: "workload \<Rightarrow> workload_kind" where
  "kind_of (DeploymentObj _) = DeploymentKind"
| "kind_of (ServiceObj _) = ServiceKind"
| "kind_of (ClaimObj _) = ClaimKind"
| "kind_of (ConfigMapObj _) = ConfigMapKind"
| "kind_of (SecretObj _ _) = SecretKind"

fun key_of :: "workload \<Rightarrow> nsName" where
  "key_of (DeploymentObj d) = (dp_Name d, dp_Namespace d)"
| "key_of (ServiceObj s) = (sv_Name s, sv_Namespace s)"
| "key_of (ClaimObj c) = (vc_Name c, vc_Namespace c)"
| "key_of (ConfigMapObj m) = (cmo_Name m, cmo_Namespace m)"
| "key_of (SecretObj s _) = (sec_Name s, sec_Namespace s)"

datatype ocp_req =
    OcpCreate workload
  | OcpUpdate workload
  | OcpDelete workload_kind nsName
  | OcpExec string string "string list"

type_synonym ('w, 'a) oop = "('w, ocp_req, 'a) kop"

section \<open>The provider structures\<close>

text \<open>
  What a strategy may set (\<^verbatim>\<open>PostgresStrat\<close>, \<^verbatim>\<open>RedisStrat\<close>); of the specification of a claim only its requests are used.
  \<open>str_Data\<close> is the data of the secret or of the config map.
\<close>

record ocpStrat =
  str_DeploymentSpec :: "json option"
  str_ServiceSpec :: "serviceSpec option"
  str_ClaimRequests :: "json option"
  str_Data :: "labels option"

text \<open>
  Parameters: the objects of the API server, the pods of a deployment (an error leaves the list empty), running a command in a pod, which also
  answers with what was written to the standard error, decoding a strategy, the random source, and \<^verbatim>\<open>equality.Semantic.DeepEqual\<close>.
\<close>

record 'w ocpProvider =
  oc_Client :: "'w kube"
  oc_ConfigManager :: configMapConfigManager
  oc_Get :: "workload_kind \<Rightarrow> nsName \<Rightarrow> 'w \<Rightarrow> (error + workload) \<times> 'w"
  oc_Exec :: "ocp_req \<Rightarrow> 'w \<Rightarrow> (error + unit) \<times> 'w"
  oc_ListPods :: "string \<Rightarrow> string \<Rightarrow> 'w \<Rightarrow> string list \<times> 'w"
  oc_RunExec :: "string list \<Rightarrow> string \<Rightarrow> string \<Rightarrow> 'w \<Rightarrow> (error + unit) \<times> string \<times> 'w"
  oc_NewRandom :: "'w \<Rightarrow> (error + string) \<times> 'w"
  oc_Same :: "workload \<Rightarrow> workload \<Rightarrow> bool"
  dec_PostgresStrat :: "json option \<Rightarrow> error + ocpStrat"
  dec_RedisStrat :: "json option \<Rightarrow> error + ocpStrat"

definition oexec :: "'w ocpProvider \<Rightarrow> ocp_req \<Rightarrow> ('w, unit) oop" where
  "oexec p req = request (oc_Exec p req) (\<lambda>r. EvCloud req (ok r))"

definition openshift_SupportsStrategy :: "string \<Rightarrow> bool" where
  "openshift_SupportsStrategy d \<longleftrightarrow> d = ''openshift''"

definition openshift_GetReconcileTime :: "env \<Rightarrow> cr \<Rightarrow> int" where
  "openshift_GetReconcileTime env inst =
     (if st_Phase (cr_status inst) \<noteq> PhaseComplete then 10 * 1000000000 else GetForcedReconcileTimeOrDefault env (30 * 1000000000))"

section \<open>The strategy\<close>

text \<open>A strategy is its raw JSON, None when it is not set; a nil entry of the map is the same as a missing one.\<close>

definition decode_raw :: "json \<Rightarrow> error option \<Rightarrow> json option option \<times> error option" where
  "decode_raw v err = (case v of
     JNull \<Rightarrow> (None, err)
   | JObject ms \<Rightarrow> (Some (fold (\<lambda>(n, x) c. if field_of [''strategy''] n = Some ''strategy'' then Some x else c) ms None), err)
   | _ \<Rightarrow> (Some None, first_error err (ErrNew (''json: cannot unmarshal '' @ json_kind v @ '' into Go value of type openshift.StrategyConfig''))))"

fun decode_raws :: "(string \<times> json) list \<Rightarrow> (string \<rightharpoonup> json option) \<Rightarrow> error option \<Rightarrow> error + (string \<rightharpoonup> json option)" where
  "decode_raws [] m err = (case err of None \<Rightarrow> Inr m | Some e \<Rightarrow> Inl e)"
| "decode_raws ((tier, v) # ms) m err = (case decode_raw v err of (c, err') \<Rightarrow> decode_raws ms (m(tier := c)) err')"

definition UnmarshalRaws :: "string \<Rightarrow> error + (string \<rightharpoonup> json option)" where
  "UnmarshalRaws s = (case json_document s of Inl e \<Rightarrow> Inl e
     | Inr (JObject ms) \<Rightarrow> decode_raws ms Map.empty None
     | Inr JNull \<Rightarrow> Inr Map.empty
     | Inr v \<Rightarrow> Inl (ErrNew (''json: cannot unmarshal '' @ json_kind v @ '' into Go value of type map[string]*openshift.StrategyConfig'')))"

definition openshift_tier_json :: string where
  "openshift_tier_json = ''{ '' @ quoted ''strategy'' @ '': {} }''"

definition openshift_strategies_json :: string where
  "openshift_strategies_json = ''{'' @ quoted ''development'' @ '': '' @ openshift_tier_json @ '', '' @ quoted ''production'' @ '': '' @ openshift_tier_json @ '' }''"

definition openshift_buildDefaultConfigMap :: labels where
  "openshift_buildDefaultConfigMap = [''postgres'' \<mapsto> openshift_strategies_json, ''redis'' \<mapsto> openshift_strategies_json, ''blobstorage'' \<mapsto> openshift_strategies_json]"

definition openshift_NewDefaultConfigManager :: "env \<Rightarrow> configMapConfigManager" where
  "openshift_NewDefaultConfigManager env = NewConfigMapConfigManager ''cloud-resources-openshift-strategies'' env ''cloud-resources-openshift-strategies''
     (case GetWatchNamespace env of Inl _ \<Rightarrow> '''' | Inr ns \<Rightarrow> ns)"

definition openshift_ReadStorageStrategy :: "'w kube \<Rightarrow> configMapConfigManager \<Rightarrow> string \<Rightarrow> string \<Rightarrow> ('w, json option) oop" where
  "openshift_ReadStorageStrategy k m rt tier =
     andThen (wrapping (''failed to get openshift strategy config map '' @ cfg_Name m @ '' in namespace '' @ cfg_Namespace m)
       (GetConfigMapOrDefault k (cfg_Name m, cfg_Namespace m) (Some openshift_buildDefaultConfigMap))) (\<lambda>cm.
     let raw = map_get cm rt in
     if raw = '''' then throw (ErrNew (''openshift strategy for resource type '' @ rt @ '' is not defined''))
     else andThen (wrapping (''failed to unmarshal strategy mapping for resource type '' @ rt) (lift_sum (UnmarshalRaws raw))) (\<lambda>strategies.
       case strategies tier of
         None \<Rightarrow> throw (ErrNew (''no strategy found for deployment type '' @ rt @ '' and deployment tier '' @ tier))
       | Some c \<Rightarrow> ret c))"

definition getPostgresConfig :: "'w ocpProvider \<Rightarrow> cr \<Rightarrow> ('w, ocpStrat) oop" where
  "getPostgresConfig p ps =
     andThen (wrapping ''failed to read openshift strategy config'' (openshift_ReadStorageStrategy (oc_Client p) (oc_ConfigManager p) ''postgres'' (spec_Tier (cr_spec ps)))) (\<lambda>raw.
       wrapping ''failed to unmarshal openshift postgres configuration'' (lift_sum (dec_PostgresStrat p raw)))"

definition getRedisConfig :: "'w ocpProvider \<Rightarrow> cr \<Rightarrow> ('w, ocpStrat) oop" where
  "getRedisConfig p r =
     andThen (wrapping ''failed to read openshift strategy config'' (openshift_ReadStorageStrategy (oc_Client p) (oc_ConfigManager p) ''redis'' (spec_Tier (cr_spec r)))) (\<lambda>raw.
       wrapping ''failed to unmarshal openshift redis cluster configuration'' (lift_sum (dec_RedisStrat p raw)))"

section \<open>Creating or updating an object\<close>

text \<open>
  The object is read, changed by the callback and written when that made a difference; a missing object is created as the
  callback leaves the given one. The callback asserts the kind of its argument.
\<close>

definition immutableCreateOrUpdate :: "'w ocpProvider \<Rightarrow> workload \<Rightarrow> (workload \<Rightarrow> ('w, workload) oop) \<Rightarrow> ('w, unit) oop" where
  "immutableCreateOrUpdate p obj cb =
     andThen (attempt (query (oc_Get p (kind_of obj) (key_of obj)))) (\<lambda>r. case r of
       Inl e \<Rightarrow> if \<not> k8s_IsNotFound e then throw e else andThen (cb obj) (\<lambda>obj'. oexec p (OcpCreate obj'))
     | Inr existing \<Rightarrow> andThen (cb existing) (\<lambda>obj'. if oc_Same p existing obj' then ret () else oexec p (OcpUpdate obj')))"

definition create_or_update_error :: "string \<Rightarrow> string \<Rightarrow> string" where
  "create_or_update_error what name = ''failed to create or update '' @ what @ '' '' @ name @ '', action was unchanged''"

definition set_deployment :: "deployment \<Rightarrow> ocpStrat \<Rightarrow> workload \<Rightarrow> ('w, workload) oop" where
  "set_deployment d cfg existing = (case existing of
     DeploymentObj e \<Rightarrow> ret (DeploymentObj (e\<lparr>dp_Spec := (case str_DeploymentSpec cfg of None \<Rightarrow> dp_Spec d | Some s \<Rightarrow> s)\<rparr>))
   | _ \<Rightarrow> crash)"

definition CreateDeployment :: "'w ocpProvider \<Rightarrow> deployment \<Rightarrow> ocpStrat \<Rightarrow> ('w, unit) oop" where
  "CreateDeployment p d cfg = wrapping (create_or_update_error ''deployment'' (dp_Name d)) (immutableCreateOrUpdate p (DeploymentObj d) (set_deployment d cfg))"

definition set_service :: "service \<Rightarrow> ocpStrat \<Rightarrow> workload \<Rightarrow> ('w, workload) oop" where
  "set_service s cfg existing = (case existing of
     ServiceObj e \<Rightarrow> ret (ServiceObj (e\<lparr>sv_Spec := (case str_ServiceSpec cfg of
         None \<Rightarrow> (sv_Spec s)\<lparr>svs_ClusterIP := svs_ClusterIP (sv_Spec e)\<rparr> | Some spec \<Rightarrow> spec)\<rparr>))
   | _ \<Rightarrow> crash)"

definition CreateService :: "'w ocpProvider \<Rightarrow> service \<Rightarrow> ocpStrat \<Rightarrow> ('w, unit) oop" where
  "CreateService p s cfg = wrapping (create_or_update_error ''service'' (sv_Name s)) (immutableCreateOrUpdate p (ServiceObj s) (set_service s cfg))"

definition fill_credentials :: "labels option \<Rightarrow> labels \<Rightarrow> labels" where
  "fill_credentials new m = (let pick = (\<lambda>key m. if map_get (Some m) key = '''' then m(key \<mapsto> map_get new key) else m)
     in (pick ''user'' (pick ''password'' m))(''database'' \<mapsto> map_get new ''database''))"

text \<open>Writing to the data of a secret that has none panics.\<close>

definition set_secret :: "secret \<Rightarrow> ocpStrat \<Rightarrow> workload \<Rightarrow> ('w, workload) oop" where
  "set_secret s cfg existing = (case existing of
     SecretObj e text \<Rightarrow> (case str_Data cfg of
       None \<Rightarrow> andThen (deref (sec_Data e)) (\<lambda>m. ret (SecretObj (e\<lparr>sec_Data := Some (fill_credentials (sec_Data s) m)\<rparr>) text))
     | Some m \<Rightarrow> ret (SecretObj e (Some m)))
   | _ \<Rightarrow> crash)"

definition CreateSecret :: "'w ocpProvider \<Rightarrow> secret \<Rightarrow> ocpStrat \<Rightarrow> ('w, unit) oop" where
  "CreateSecret p s cfg = wrapping (create_or_update_error ''secret'' (sec_Name s)) (immutableCreateOrUpdate p (SecretObj s None) (set_secret s cfg))"

definition lower_ascii :: "string \<Rightarrow> string" where
  "lower_ascii s = map (\<lambda>ch. if (of_char ch :: nat) \<in> {65..90} then char_of (of_char ch + 32 :: nat) else ch) s"

definition set_claim :: "volumeClaim \<Rightarrow> ocpStrat \<Rightarrow> workload \<Rightarrow> ('w, workload) oop" where
  "set_claim c cfg existing = (case existing of
     ClaimObj e \<Rightarrow>
       if lower_ascii (vc_Phase e) \<noteq> ''bound'' then ret (ClaimObj e)
       else ret (ClaimObj (e\<lparr>vc_Requests := (case str_ClaimRequests cfg of None \<Rightarrow> vc_Requests c | Some r \<Rightarrow> r)\<rparr>))
   | _ \<Rightarrow> crash)"

definition CreatePVC :: "'w ocpProvider \<Rightarrow> volumeClaim \<Rightarrow> ocpStrat \<Rightarrow> ('w, unit) oop" where
  "CreatePVC p c cfg = wrapping (create_or_update_error ''persistent volume claim'' (vc_Name c)) (immutableCreateOrUpdate p (ClaimObj c) (set_claim c cfg))"

definition set_config_map :: "configMap \<Rightarrow> ocpStrat \<Rightarrow> workload \<Rightarrow> ('w, workload) oop" where
  "set_config_map m cfg existing = (case existing of
     ConfigMapObj e \<Rightarrow> ret (ConfigMapObj (e\<lparr>cmo_Data := (case str_Data cfg of None \<Rightarrow> cmo_Data m | Some d \<Rightarrow> Some d)\<rparr>))
   | _ \<Rightarrow> crash)"

definition CreateConfigMap :: "'w ocpProvider \<Rightarrow> configMap \<Rightarrow> ocpStrat \<Rightarrow> ('w, unit) oop" where
  "CreateConfigMap p m cfg = wrapping (create_or_update_error ''config map'' (cmo_Name m)) (immutableCreateOrUpdate p (ConfigMapObj m) (set_config_map m cfg))"

section \<open>Default objects\<close>

text \<open>The JSON of the structures, without the fields that are empty.\<close>

abbreviation num :: "int \<Rightarrow> json" where
  "num n \<equiv> JNumber (itoa n)"

definition deployment_labels :: "string \<Rightarrow> json" where
  "deployment_labels name = JObject [(''deployment'', JString name)]"

definition quantities :: "string \<Rightarrow> string \<Rightarrow> json" where
  "quantities cpu memory = JObject [(''cpu'', JString cpu), (''memory'', JString memory)]"

definition group_context :: "string \<Rightarrow> int \<Rightarrow> (string \<times> json) list" where
  "group_context ns gid = (if take 10 ns = ''openshift-''
     then [(''securityContext'', JObject [(''fsGroup'', num gid), (''supplementalGroups'', JArray [num gid])])] else [])"

definition deployment_spec :: "string \<Rightarrow> string \<Rightarrow> int \<Rightarrow> json \<Rightarrow> json \<Rightarrow> json" where
  "deployment_spec name ns gid volumes containers = JObject [
     (''replicas'', num 1),
     (''selector'', JObject [(''matchLabels'', deployment_labels name)]),
     (''template'', JObject [
        (''metadata'', JObject [(''labels'', deployment_labels name)]),
        (''spec'', JObject ([(''volumes'', volumes), (''containers'', containers)] @ group_context ns gid))]),
     (''strategy'', JObject [(''type'', JString ''Recreate'')])]"

definition claim_volume :: "string \<Rightarrow> json" where
  "claim_volume name = JObject [(''name'', JString name), (''persistentVolumeClaim'', JObject [(''claimName'', JString name)])]"

definition volume_mount :: "string \<Rightarrow> string \<Rightarrow> json" where
  "volume_mount name path = JObject [(''name'', JString name), (''mountPath'', JString path)]"

definition default_claim :: "cr \<Rightarrow> volumeClaim" where
  "default_claim inst = \<lparr>vc_Name = om_Name (cr_meta inst), vc_Namespace = om_Namespace (cr_meta inst), vc_Phase = '''',
     vc_Requests = JObject [(''storage'', JString ''1Gi'')], vc_Rest = JObject [(''accessModes'', JArray [JString ''ReadWriteOnce''])]\<rparr>"

definition default_service :: "cr \<Rightarrow> (string \<times> json) list \<Rightarrow> service" where
  "default_service inst port = \<lparr>sv_Name = om_Name (cr_meta inst), sv_Namespace = om_Namespace (cr_meta inst), sv_Spec = \<lparr>svs_ClusterIP = '''',
     svs_Rest = JObject [(''ports'', JArray [JObject port]), (''selector'', deployment_labels (om_Name (cr_meta inst)))]\<rparr>\<rparr>"

definition buildDefaultPostgresPVC :: "cr \<Rightarrow> volumeClaim" where
  "buildDefaultPostgresPVC ps = default_claim ps"

definition buildDefaultPostgresService :: "cr \<Rightarrow> service" where
  "buildDefaultPostgresService ps = default_service ps [(''name'', JString ''postgresql''), (''protocol'', JString ''TCP''), (''port'', num 5432), (''targetPort'', num 5432)]"

definition defaultCredentialsSec :: string where
  "defaultCredentialsSec = ''postgres-credentials''"

definition credentials_secret_name :: "cr \<Rightarrow> string" where
  "credentials_secret_name ps = om_Name (cr_meta ps) @ ''-'' @ defaultCredentialsSec"

definition envVarFromSecret :: "string \<Rightarrow> string \<Rightarrow> string \<Rightarrow> json" where
  "envVarFromSecret envVarName secretName secretKey = JObject [(''name'', JString envVarName),
     (''valueFrom'', JObject [(''secretKeyRef'', JObject [(''name'', JString secretName), (''key'', JString secretKey)])])]"

definition buildDefaultPostgresPodContainers :: "cr \<Rightarrow> json" where
  "buildDefaultPostgresPodContainers ps = (let name = om_Name (cr_meta ps); sec = credentials_secret_name ps in
     JArray [JObject [
       (''name'', JString name),
       (''image'', JString ''registry.redhat.io/rhscl/postgresql-13-rhel7''),
       (''ports'', JArray [JObject [(''containerPort'', num 5432), (''protocol'', JString ''TCP'')]]),
       (''env'', JArray [envVarFromSecret ''POSTGRESQL_USER'' sec ''user'', envVarFromSecret ''POSTGRESQL_PASSWORD'' sec ''password'',
          envVarFromSecret ''POSTGRESQL_DATABASE'' sec ''database'']),
       (''resources'', JObject [(''limits'', quantities ''250m'' ''2Gi''), (''requests'', quantities ''50m'' ''512Mi'')]),
       (''volumeMounts'', JArray [volume_mount name ''/var/lib/pgsql/data'']),
       (''livenessProbe'', JObject [(''tcpSocket'', JObject [(''port'', num 5432)]), (''initialDelaySeconds'', num 30), (''periodSeconds'', num 10)]),
       (''readinessProbe'', JObject [(''exec'', JObject [(''command'', JArray (map JString [''/bin/sh'', ''-i'', ''-c'',
            ''psql -h 127.0.0.1 -U $POSTGRESQL_USER -q -d $POSTGRESQL_DATABASE -c '' @ [CHR 0x27] @ ''SELECT 1'' @ [CHR 0x27]]))]),
          (''initialDelaySeconds'', num 10), (''timeoutSeconds'', num 5), (''periodSeconds'', num 30)]),
       (''imagePullPolicy'', JString ''IfNotPresent'')]])"

definition buildDefaultPostgresDeployment :: "cr \<Rightarrow> deployment" where
  "buildDefaultPostgresDeployment ps = (let name = om_Name (cr_meta ps); ns = om_Namespace (cr_meta ps) in
     \<lparr>dp_Name = name, dp_Namespace = ns, dp_Spec = deployment_spec name ns 26 (JArray [claim_volume name]) (buildDefaultPostgresPodContainers ps), dp_Conditions = []\<rparr>)"

definition buildDefaultPostgresSecret :: "cr \<Rightarrow> string \<Rightarrow> secret" where
  "buildDefaultPostgresSecret ps password = \<lparr>sec_Name = credentials_secret_name ps, sec_Namespace = om_Namespace (cr_meta ps),
     sec_Data = Some [''user'' \<mapsto> ''postgresuser'', ''password'' \<mapsto> (if password = '''' then ''password'' else password), ''database'' \<mapsto> om_Name (cr_meta ps)],
     sec_Type = ''Opaque'', sec_Owners = []\<rparr>"

definition buildDefaultRedisPVC :: "cr \<Rightarrow> volumeClaim" where
  "buildDefaultRedisPVC r = default_claim r"

definition buildDefaultRedisService :: "cr \<Rightarrow> service" where
  "buildDefaultRedisService r = default_service r [(''protocol'', JString ''TCP''), (''port'', num 6379), (''targetPort'', num 6379)]"

definition redisConfigMapName :: string where
  "redisConfigMapName = ''redis-config''"

definition getRedisConfData :: string where
  "getRedisConfData = concat (map (\<lambda>line. line @ [CHR 0x0A]) [''protected-mode no'', ''port 6379'', ''timeout 0'', ''tcp-keepalive 300'', ''daemonize no'', ''supervised no'',
     ''loglevel notice'', ''databases 16'', ''save 900 1'', ''save 300 10'', ''save 60 10000'', ''stop-writes-on-bgsave-error yes'', ''rdbcompression yes'', ''rdbchecksum yes'',
     ''dbfilename dump.rdb'', ''slave-serve-stale-data yes'', ''slave-read-only yes'', ''repl-diskless-sync no'', ''repl-disable-tcp-nodelay no'',
     ''appendfilename '' @ quoted ''appendonly.aof'', ''appendfsync everysec'', ''no-appendfsync-on-rewrite no'', ''auto-aof-rewrite-percentage 100'',
     ''auto-aof-rewrite-min-size 64mb'', ''aof-load-truncated yes'', ''lua-time-limit 5000'', ''activerehashing no'', ''aof-rewrite-incremental-fsync yes'',
     ''dir /var/lib/redis/data''])"

definition buildDefaultRedisConfigMap :: "cr \<Rightarrow> configMap" where
  "buildDefaultRedisConfigMap r = \<lparr>cmo_Name = redisConfigMapName, cmo_Namespace = om_Namespace (cr_meta r), cmo_Data = Some [''redis.conf'' \<mapsto> getRedisConfData]\<rparr>"

definition buildDefaultRedisPodVolumes :: "cr \<Rightarrow> json" where
  "buildDefaultRedisPodVolumes r = JArray [claim_volume (om_Name (cr_meta r)),
     JObject [(''name'', JString ''redis-config''), (''configMap'', JObject [(''name'', JString redisConfigMapName),
       (''items'', JArray [JObject [(''key'', JString ''redis.conf''), (''path'', JString ''redis.conf'')]])])]]"

definition buildDefaultRedisPodContainers :: "cr \<Rightarrow> json" where
  "buildDefaultRedisPodContainers r =
     JArray [JObject [
       (''name'', JString ''redis''),
       (''image'', JString ''registry.redhat.io/rhel9/redis-7''),
       (''command'', JArray [JString ''/usr/bin/redis-server'']),
       (''args'', JArray (map JString [''/etc/redis.d/redis.conf'', ''--daemonize'', ''no''])),
       (''resources'', JObject [(''limits'', quantities ''500m'' ''6Gi''), (''requests'', quantities ''150m'' ''256Mi'')]),
       (''volumeMounts'', JArray [volume_mount (om_Name (cr_meta r)) ''/var/lib/redis/data'', volume_mount ''redis-config'' ''/etc/redis.d/'']),
       (''livenessProbe'', JObject [(''tcpSocket'', JObject [(''port'', num 6379)]), (''initialDelaySeconds'', num 10), (''periodSeconds'', num 10)]),
       (''readinessProbe'', JObject [(''exec'', JObject [(''command'', JArray (map JString [''container-entrypoint'', ''bash'', ''-c'',
            ''redis-cli set liveness-probe '' @ quoted (CHR 0x60 # ''date'' @ [CHR 0x60]) @ '' | grep OK'']))]),
          (''initialDelaySeconds'', num 10), (''timeoutSeconds'', num 1), (''periodSeconds'', num 30)]),
       (''imagePullPolicy'', JString ''IfNotPresent'')]]"

definition buildDefaultRedisDeployment :: "cr \<Rightarrow> deployment" where
  "buildDefaultRedisDeployment r = (let name = om_Name (cr_meta r); ns = om_Namespace (cr_meta r) in
     \<lparr>dp_Name = name, dp_Namespace = ns, dp_Spec = deployment_spec name ns 1001 (buildDefaultRedisPodVolumes r) (buildDefaultRedisPodContainers r), dp_Conditions = []\<rparr>)"

section \<open>Reconciling\<close>

text \<open>Reading a deployment or a secret back; the server answers with an object of the kind that was asked for.\<close>

definition get_deployment :: "'w ocpProvider \<Rightarrow> nsName \<Rightarrow> ('w, deployment) oop" where
  "get_deployment p key = andThen (query (oc_Get p DeploymentKind key)) (\<lambda>x. case x of DeploymentObj d \<Rightarrow> ret d | _ \<Rightarrow> crash)"

definition get_secret :: "'w ocpProvider \<Rightarrow> nsName \<Rightarrow> ('w, secret) oop" where
  "get_secret p key = andThen (query (oc_Get p SecretKind key)) (\<lambda>x. case x of SecretObj s _ \<Rightarrow> ret s | _ \<Rightarrow> crash)"

definition available :: "deployment \<Rightarrow> bool" where
  "available d \<longleftrightarrow> (''Available'', ''True'') \<in> set (dp_Conditions d)"

definition service_host :: "cr \<Rightarrow> string" where
  "service_host inst = om_Name (cr_meta inst) @ ''.'' @ om_Namespace (cr_meta inst) @ ''.svc.cluster.local''"

text \<open>No pod is no error: the command is then run in a pod without a name.\<close>

definition getDeploymentPod :: "'w ocpProvider \<Rightarrow> deployment \<Rightarrow> ('w, string) oop" where
  "getDeploymentPod p d = andThen (ask (oc_ListPods p (dp_Namespace d) (''deployment='' @ dp_Name d))) (\<lambda>pods.
     ret (case pods of [] \<Rightarrow> '''' | pod # _ \<Rightarrow> pod))"

definition ExecIntoPod :: "'w ocpProvider \<Rightarrow> deployment \<Rightarrow> string \<Rightarrow> ('w, unit) oop" where
  "ExecIntoPod p d cmd = (let toRun = [''/bin/bash'', ''-c'', cmd] in
     andThen (getDeploymentPod p d) (\<lambda>podName.
       request (\<lambda>w. case oc_RunExec p toRun podName (dp_Namespace d) w of (r, stderr, w') \<Rightarrow>
           (case r of Inl e \<Rightarrow> Inl (ErrWrap e (''failed to exec, '' @ stderr)) | Inr u \<Rightarrow> Inr u, w'))
         (\<lambda>r. EvCloud (OcpExec podName (dp_Namespace d) toRun) (ok r))))"

definition superuser_command :: "string \<Rightarrow> string" where
  "superuser_command u = ''psql -c '' @ quoted (''ALTER USER '' @ [CHR 0x5C, CHR 0x22] @ u @ [CHR 0x5C, CHR 0x22] @ '' WITH SUPERUSER;'')"

definition ReconcileDatabaseUserRoles :: "'w ocpProvider \<Rightarrow> deployment \<Rightarrow> string \<Rightarrow> ('w, unit) oop" where
  "ReconcileDatabaseUserRoles p d u = wrapping ''failed to perform exec on database pod'' (ExecIntoPod p d (superuser_command u))"

definition openshift_ReconcilePostgres :: "'w ocpProvider \<Rightarrow> cr \<Rightarrow> ('w, postgresDeploymentDetails create_reply) oop" where
  "openshift_ReconcilePostgres p ps0 =
     (otherwise (CreateFinalizer (oc_Client p) Postgres ps0 DefaultFinalizer) (failed (with_finalizer ps0) ''failed to set finalizer'') (\<lambda>ps.
      otherwise (getPostgresConfig p ps) (failed ps (''failed to retrieve openshift postgres config for instance '' @ om_Name (cr_meta ps))) (\<lambda>cfg.
      otherwise (CreatePVC p (buildDefaultPostgresPVC ps) cfg) (failed ps (''failed to create or update postgres PVC for instance '' @ om_Name (cr_meta ps))) (\<lambda>_.
      otherwise (GeneratePassword (oc_NewRandom p)) (failed ps ''failed to generate potential postgres password'') (\<lambda>password.
      otherwise (CreateSecret p (buildDefaultPostgresSecret ps password) cfg) (failed ps (''failed to create or update postgres secret for instance '' @ om_Name (cr_meta ps))) (\<lambda>_.
      otherwise (CreateDeployment p (buildDefaultPostgresDeployment ps) cfg) (failed ps (''failed to create or update postgres deployment for instance '' @ om_Name (cr_meta ps))) (\<lambda>_.
      otherwise (CreateService p (buildDefaultPostgresService ps) cfg) (failed ps (''failed to create or update postgres service for instance '' @ om_Name (cr_meta ps))) (\<lambda>_.
      otherwise (get_deployment p (om_Name (cr_meta ps), om_Namespace (cr_meta ps))) (failed ps ''failed to get postgres deployment'') (\<lambda>dpl.
      otherwise (get_secret p (credentials_secret_name ps, om_Namespace (cr_meta ps))) (failed ps ''failed to get postgres creds'') (\<lambda>sec.
      if \<not> available dpl then ret (in_progress ps ''creation in progress'')
      else let dbUser = map_get (sec_Data sec) ''user'' in
        otherwise (ReconcileDatabaseUserRoles p dpl dbUser) (failed ps ''failed to reconcile database roles for user'') (\<lambda>_.
          ret ((Some \<lparr>pdd_Username = dbUser, pdd_Password = map_get (sec_Data sec) ''password'', pdd_Host = service_host ps,
                 pdd_Database = map_get (sec_Data sec) ''database'', pdd_Port = 5432\<rparr>, ''creation successful'', None), ps))))))))))))"

definition openshift_CreateRedis :: "'w ocpProvider \<Rightarrow> cr \<Rightarrow> ('w, redisDeploymentDetails create_reply) oop" where
  "openshift_CreateRedis p r0 =
     otherwise (CreateFinalizer (oc_Client p) Redis r0 DefaultFinalizer) (failed_plain (with_finalizer r0) ''failed to set finalizer'') (\<lambda>r.
     otherwise (getRedisConfig p r) (failed r (''failed to retrieve openshift redis cluster config for instance '' @ om_Name (cr_meta r))) (\<lambda>cfg.
     otherwise (CreatePVC p (buildDefaultRedisPVC r) cfg) (failed r ''failed to create or update redis PVC'') (\<lambda>_.
     otherwise (CreateConfigMap p (buildDefaultRedisConfigMap r) cfg) (failed r ''failed to create or update redis config map'') (\<lambda>_.
     otherwise (CreateDeployment p (buildDefaultRedisDeployment r) cfg) (failed r ''failed to create or update redis deployment'') (\<lambda>_.
     otherwise (CreateService p (buildDefaultRedisService r) cfg) (failed r ''failed to create or update redis service'') (\<lambda>_.
     otherwise (get_deployment p (om_Name (cr_meta r), om_Namespace (cr_meta r))) (failed r ''failed to get redis deployment'') (\<lambda>dpl.
       if available dpl then ret ((Some \<lparr>rdd_URI = service_host r, rdd_Port = 6379\<rparr>, ''redis deployment available'', None), r)
       else ret (in_progress r ''creation in progress''))))))))"

section \<open>Deletion\<close>

text \<open>The objects are deleted one after the other; one that is gone already is no error. None means to go on.\<close>

fun delete_objects :: "'w ocpProvider \<Rightarrow> (workload_kind \<times> nsName \<times> string) list \<Rightarrow> cr \<Rightarrow> ('w, delete_reply option) oop" where
  "delete_objects p [] inst = ret None"
| "delete_objects p ((kd, key, msg) # rest) inst =
     andThen (attempt (oexec p (OcpDelete kd key))) (\<lambda>r. case r of
       Inl e \<Rightarrow> if k8s_IsNotFound e then delete_objects p rest inst else ret (Some (delete_failed inst msg e))
     | Inr _ \<Rightarrow> delete_objects p rest inst)"

definition openshift_release :: "'w ocpProvider \<Rightarrow> kind \<Rightarrow> string \<Rightarrow> cr \<Rightarrow> ('w, delete_reply) oop" where
  "openshift_release p kd msg inst =
     andThen (deref (RemoveFinalizer (cr_meta inst) DefaultFinalizer)) (\<lambda>om.
     let inst1 = inst\<lparr>cr_meta := om\<rparr> in
     otherwise (update_cr (oc_Client p) kd inst1) (delete_failed inst1 msg) (\<lambda>stored. ret ((''deletion in progress'', None), stored)))"

definition openshift_DeletePostgres :: "'w ocpProvider \<Rightarrow> cr \<Rightarrow> ('w, delete_reply) oop" where
  "openshift_DeletePostgres p ps =
     (let key = (om_Name (cr_meta ps), om_Namespace (cr_meta ps)) in
      andThen (delete_objects p [(ServiceKind, key, ''failed to delete postgres service''), (ClaimKind, key, ''failed to delete postgres persistent volume claim''),
        (SecretKind, (defaultCredentialsSec, om_Namespace (cr_meta ps)), ''failed to deleted postgres secrets''), (DeploymentKind, key, ''failed to delete postgres deployment'')] ps) (\<lambda>x. case x of
        Some answer \<Rightarrow> ret answer
      | None \<Rightarrow> openshift_release p Postgres ''failed to update instance as part of the postgres finalizer reconcile'' ps))"

definition openshift_DeleteRedis :: "'w ocpProvider \<Rightarrow> cr \<Rightarrow> ('w, delete_reply) oop" where
  "openshift_DeleteRedis p r =
     (let key = (om_Name (cr_meta r), om_Namespace (cr_meta r)) in
      andThen (delete_objects p [(ServiceKind, key, ''failed to delete service''), (ClaimKind, key, ''failed to delete persistent volume claim''),
        (ConfigMapKind, (redisConfigMapName, om_Namespace (cr_meta r)), ''failed to delete configmap''), (DeploymentKind, key, ''failed to delete deployment'')] r) (\<lambda>x. case x of
        Some answer \<Rightarrow> ret answer
      | None \<Rightarrow> openshift_release p Redis ''failed to update instance as part of finalizer reconcile'' r))"

end
