(* ===== verification/OpenShift_Safety.thy ===== *)
theory OpenShift_Safety
  imports OpenShift
begin

text \<open>
  The providers in the cluster: what a deletion requests, in which order, and that the credentials of a database do not change
  once they are set.
\<close>

section \<open>Deletion\<close>

type_synonym deletion = "workload_kind \<times> nsName \<times> string"

text \<open>An object whose deletion fails, other than because it is gone.\<close>

definition blocked :: "(ocp_req \<Rightarrow> error + unit) \<Rightarrow> deletion \<Rightarrow> bool" where
  "blocked answer x = (case x of (kd, key, _) \<Rightarrow> (case answer (OcpDelete kd key) of Inl e \<Rightarrow> \<not> k8s_IsNotFound e | Inr _ \<Rightarrow> False))"

definition deletion_event :: "(ocp_req \<Rightarrow> error + unit) \<Rightarrow> deletion \<Rightarrow> ocp_req event" where
  "deletion_event answer x = (case x of (kd, key, _) \<Rightarrow> EvCloud (OcpDelete kd key) (ok (answer (OcpDelete kd key))))"

text \<open>The objects up to the first one that is blocked, this one included.\<close>

fun attempted :: "(ocp_req \<Rightarrow> error + unit) \<Rightarrow> deletion list \<Rightarrow> deletion list" where
  "attempted answer [] = []"
| "attempted answer (x # xs) = x # (if blocked answer x then [] else attempted answer xs)"

text \<open>The finalizer goes only when nothing was blocked.\<close>

definition deletion_requests :: "(ocp_req \<Rightarrow> error + unit) \<Rightarrow> deletion list \<Rightarrow> kind \<Rightarrow> cr \<Rightarrow> ocp_req event list \<Rightarrow> bool" where
  "deletion_requests answer xs kd inst es \<longleftrightarrow> (\<exists>rest. es = map (deletion_event answer) (attempted answer xs) @ rest \<and>
     (if list_ex (blocked answer) xs then rest = []
      else case RemoveFinalizer (cr_meta inst) DefaultFinalizer of None \<Rightarrow> rest = [] | Some om \<Rightarrow> \<exists>b. rest = [EvUpdate kd (inst\<lparr>cr_meta := om\<rparr>) b]))"

lemma emits_oexec:
  assumes "\<And>w. fst (oc_Exec p req w) = a"
  shows "emits (attempt (oexec p req)) (\<lambda>es r. es = [EvCloud req (ok a)] \<and> r = Val a)"
proof (rule emitsI)
  fix s r t assume run: "attempt (oexec p req) s = (r, t)"
  obtain w where w: "oc_Exec p req (world s) = (a, w)" using assms [of "world s"] by (cases "oc_Exec p req (world s)") auto
  show "\<exists>es. trace t = trace s @ es \<and> es = [EvCloud req (ok a)] \<and> r = Val a"
    using run by (cases a) (auto simp: oexec_def attempt_def request_def w)
qed

lemma emits_delete_objects:
  assumes "\<And>req w. fst (oc_Exec p req w) = answer req"
  shows "emits (delete_objects p xs inst) (\<lambda>es r. es = map (deletion_event answer) (attempted answer xs) \<and>
     (\<exists>x. r = Val x \<and> (x = None \<longleftrightarrow> \<not> list_ex (blocked answer) xs)))"
proof (induction xs)
  case (Cons x xs)
  obtain kd key msg where x: "x = (kd, key, msg)" by (cases x) auto
  have step: "emits (attempt (oexec p (OcpDelete kd key))) (\<lambda>es r. es = [deletion_event answer x] \<and> r = Val (answer (OcpDelete kd key)))"
    using emits_oexec [of p "OcpDelete kd key", OF assms] by (simp add: x deletion_event_def)
  show ?case unfolding x delete_objects.simps
  proof (rule emits_andThen [OF step])
    fix es r assume "es = [deletion_event answer x] \<and> Val r = Val (answer (OcpDelete kd key))"
    then show "emits (case r of Inl e \<Rightarrow> if k8s_IsNotFound e then delete_objects p xs inst else ret (Some (delete_failed inst msg e)) | Inr _ \<Rightarrow> delete_objects p xs inst)
      (\<lambda>fs r. es @ fs = map (deletion_event answer) (attempted answer ((kd, key, msg) # xs)) \<and>
         (\<exists>x. r = Val x \<and> (x = None \<longleftrightarrow> \<not> list_ex (blocked answer) ((kd, key, msg) # xs))))"
      by (auto simp: x blocked_def delete_failed_def intro!: emits_ret emits_weaken [OF Cons.IH] split: sum.split)
  qed auto
qed (simp add: emits_ret)

lemma emits_openshift_release:
  "emits (openshift_release p kd msg inst) (\<lambda>es r. case RemoveFinalizer (cr_meta inst) DefaultFinalizer of
     None \<Rightarrow> es = [] | Some om \<Rightarrow> \<exists>b. es = [EvUpdate kd (inst\<lparr>cr_meta := om\<rparr>) b])"
  unfolding openshift_release_def Let_def update_cr_def
  by (cases "RemoveFinalizer (cr_meta inst) DefaultFinalizer") (auto intro!: emits_crash emits_otherwise [OF emits_request] emits_ret)

lemma emits_delete_and_release:
  assumes "\<And>req w. fst (oc_Exec p req w) = answer req"
  shows "emits (andThen (delete_objects p xs inst) (\<lambda>x. case x of Some a \<Rightarrow> ret a | None \<Rightarrow> openshift_release p kd msg inst))
     (\<lambda>es r. deletion_requests answer xs kd inst es)"
  by (rule emits_andThen [OF emits_delete_objects [OF assms]])
     (auto intro!: emits_option emits_ret emits_weaken [OF emits_openshift_release] simp: deletion_requests_def split: if_splits)

definition postgres_objects :: "cr \<Rightarrow> deletion list" where
  "postgres_objects ps = (let key = (om_Name (cr_meta ps), om_Namespace (cr_meta ps)) in
     [(ServiceKind, key, ''failed to delete postgres service''), (ClaimKind, key, ''failed to delete postgres persistent volume claim''),
      (SecretKind, (defaultCredentialsSec, om_Namespace (cr_meta ps)), ''failed to deleted postgres secrets''), (DeploymentKind, key, ''failed to delete postgres deployment'')])"

lemma emits_DeletePostgres:
  assumes "\<And>req w. fst (oc_Exec p req w) = answer req"
  shows "emits (openshift_DeletePostgres p ps) (\<lambda>es r. deletion_requests answer (postgres_objects ps) Postgres ps es)"
  unfolding openshift_DeletePostgres_def postgres_objects_def Let_def by (rule emits_delete_and_release [OF assms])

text \<open>
  C19. The deletion of a Postgres resource in the cluster requests exactly this: service, volume claim, secret and deployment are
  deleted in this order up to the first failure, an object that is gone already being none, and the finalizer is removed
  only when there was no failure.
\<close>

theorem openshift_deletion_exact:
  assumes "\<And>req w. fst (oc_Exec p req w) = answer req" and "openshift_DeletePostgres p ps s = (r, t)"
  shows "\<exists>es. trace t = trace s @ es \<and> deletion_requests answer (postgres_objects ps) Postgres ps es"
  using emitsD [OF emits_DeletePostgres [OF assms(1)] assms(2)] .

text \<open>Whatever the server answers, nothing but the listed objects is deleted.\<close>

fun deletes_within :: "(workload_kind \<times> nsName) set \<Rightarrow> ocp_req event \<Rightarrow> bool" where
  "deletes_within K (EvCloud (OcpDelete kd key) b) \<longleftrightarrow> (kd, key) \<in> K"
| "deletes_within K _ \<longleftrightarrow> True"

definition deletes_only :: "deletion list \<Rightarrow> ocp_req event list \<Rightarrow> bool" where
  "deletes_only xs es \<longleftrightarrow> (\<forall>e \<in> set es. deletes_within ((\<lambda>(kd, key, _). (kd, key)) ` set xs) e)"

lemma deletes_only_simps [simp]:
  "deletes_only xs []" "deletes_only xs (es @ fs) \<longleftrightarrow> deletes_only xs es \<and> deletes_only xs fs"
  "deletes_only xs (e # es) \<longleftrightarrow> deletes_within ((\<lambda>(kd, key, _). (kd, key)) ` set xs) e \<and> deletes_only xs es"
  by (auto simp: deletes_only_def)

lemma deletes_within_mono: "deletes_within K e \<Longrightarrow> K \<subseteq> L \<Longrightarrow> deletes_within L e"
  by (cases "(K, e)" rule: deletes_within.cases) auto

lemma deletes_only_Cons: "deletes_only xs es \<Longrightarrow> deletes_only (x # xs) es"
  unfolding deletes_only_def by (blast intro: deletes_within_mono [OF _ image_mono [OF set_subset_Cons]])

lemma emits_attempt_oexec: "emits (attempt (oexec p req)) (\<lambda>es r. (\<exists>b. es = [EvCloud req b]) \<and> (\<exists>x. r = Val x))"
  unfolding oexec_def by (rule emits_attempt [OF emits_request]) auto

lemma emits_delete_listed: "emits (delete_objects p xs inst) (\<lambda>es r. deletes_only xs es)"
proof (induction xs)
  case (Cons x xs)
  obtain kd key msg where x: "x = (kd, key, msg)" by (cases x) auto
  show ?case unfolding x delete_objects.simps
    by (rule emits_andThen [OF emits_attempt_oexec])
       (auto intro!: emits_sum emits_ret emits_weaken [OF Cons.IH] simp: deletes_only_Cons)
qed (simp add: emits_ret)

lemma emits_postgres_deletes: "emits (openshift_DeletePostgres p ps) (\<lambda>es r. deletes_only (postgres_objects ps) es)"
  unfolding openshift_DeletePostgres_def postgres_objects_def Let_def
  by (rule emits_andThen [OF emits_delete_listed])
     (auto intro!: emits_option emits_ret emits_weaken [OF emits_openshift_release] split: option.splits)

text \<open>
  C38. The secret with the credentials of a database outlives it: its deletion is never requested, because the deletion names
  another secret than the one the resource was created with.
\<close>

theorem openshift_credentials_kept:
  assumes "openshift_DeletePostgres p ps s = (r, t)"
  shows "\<exists>es. trace t = trace s @ es \<and> (\<forall>pw b. EvCloud (OcpDelete SecretKind (key_of (SecretObj (buildDefaultPostgresSecret ps pw) None))) b \<notin> set es)"
proof -
  obtain es where es: "trace t = trace s @ es" "deletes_only (postgres_objects ps) es"
    using emitsD [OF emits_postgres_deletes assms] by blast
  have "key_of (SecretObj (buildDefaultPostgresSecret ps pw) None) \<noteq> (defaultCredentialsSec, om_Namespace (cr_meta ps))" for pw
    by (auto simp: buildDefaultPostgresSecret_def credentials_secret_name_def dest: arg_cong [where f = length])
  then show ?thesis using es by (fastforce simp: deletes_only_def postgres_objects_def Let_def)
qed

section \<open>The credentials of a database\<close>

text \<open>
  What is relied on of the API server: a secret is read as it was written last, an unread \<^verbatim>\<open>StringData\<close> aside, and of
  \<^verbatim>\<open>equality.Semantic.DeepEqual\<close>: it tells maps apart, but not an empty one from a missing one.
\<close>

definition keeps_secrets :: "'w ocpProvider \<Rightarrow> bool" where
  "keeps_secrets p \<longleftrightarrow>
     (\<forall>key w. fst (oc_Get p SecretKind key (snd (oc_Get p SecretKind key w))) = fst (oc_Get p SecretKind key w)) \<and>
     (\<forall>key w obj. fst (oc_Get p SecretKind key w) = Inr obj \<longrightarrow> (\<exists>sec. obj = SecretObj sec None \<and> key_of obj = key)) \<and>
     (\<forall>sec w w' req. req \<in> {OcpCreate (SecretObj sec None), OcpUpdate (SecretObj sec None)} \<and> oc_Exec p req w = (Inr (), w') \<longrightarrow>
        fst (oc_Get p SecretKind (key_of (SecretObj sec None)) w') = Inr (SecretObj sec None)) \<and>
     (\<forall>sec m. oc_Same p (SecretObj sec None) (SecretObj (sec\<lparr>sec_Data := Some m\<rparr>) None) \<longleftrightarrow>
        sec_Data sec = Some m \<or> sec_Data sec = None \<and> m = Map.empty)"

lemma keeps_secretsD:
  assumes "keeps_secrets p"
  shows read_again: "oc_Get p SecretKind key w = (x, w') \<Longrightarrow> fst (oc_Get p SecretKind key w') = x"
    and read_secret: "oc_Get p SecretKind key w = (Inr obj, w') \<Longrightarrow> \<exists>sec. obj = SecretObj sec None \<and> (sec_Name sec, sec_Namespace sec) = key"
    and read_created: "oc_Exec p (OcpCreate (SecretObj sec None)) w = (Inr (), w') \<Longrightarrow> fst (oc_Get p SecretKind (sec_Name sec, sec_Namespace sec) w') = Inr (SecretObj sec None)"
    and read_updated: "oc_Exec p (OcpUpdate (SecretObj sec None)) w = (Inr (), w') \<Longrightarrow> fst (oc_Get p SecretKind (sec_Name sec, sec_Namespace sec) w') = Inr (SecretObj sec None)"
    and same_secret: "oc_Same p (SecretObj sec None) (SecretObj (sec\<lparr>sec_Data := Some m\<rparr>) None) \<longleftrightarrow> sec_Data sec = Some m \<or> sec_Data sec = None \<and> m = Map.empty"
  using assms unfolding keeps_secrets_def by (metis fst_conv snd_conv key_of.simps(5) insertCI)+

text \<open>Filled in once, only a new database name makes a difference.\<close>

definition filled :: "labels option \<Rightarrow> labels \<Rightarrow> bool" where
  "filled new m \<longleftrightarrow> map_get (Some m) ''user'' \<noteq> '''' \<and> map_get (Some m) ''password'' \<noteq> '''' \<and> m ''database'' = Some (map_get new ''database'')"

lemma fill_credentials_filled: "filled new m \<Longrightarrow> fill_credentials new m = m"
  by (auto simp: filled_def fill_credentials_def Let_def fun_upd_idem)

lemma filled_fill_credentials:
  "map_get new ''user'' \<noteq> '''' \<Longrightarrow> map_get new ''password'' \<noteq> '''' \<Longrightarrow> map_get new ''database'' = map_get new' ''database'' \<Longrightarrow>
   filled new' (fill_credentials new m)"
  by (auto simp: filled_def fill_credentials_def Let_def map_get_def)

lemma default_secret_data:
  "map_get (sec_Data (buildDefaultPostgresSecret ps pw)) ''user'' \<noteq> ''''" "map_get (sec_Data (buildDefaultPostgresSecret ps pw)) ''password'' \<noteq> ''''"
  "map_get (sec_Data (buildDefaultPostgresSecret ps pw)) ''database'' = om_Name (cr_meta ps)"
  by (auto simp: buildDefaultPostgresSecret_def map_get_def)

lemmas secret_run = CreateSecret_def wrapping_def immutableCreateOrUpdate_def attempt_def query_def andThen_def set_secret_def deref_def ret_def throw_def crash_def
  oexec_def request_def

text \<open>After a success the server holds a secret that is filled in.\<close>

lemma CreateSecret_fills:
  assumes keeps: "keeps_secrets p" and none: "str_Data cfg = None" and run: "CreateSecret p (buildDefaultPostgresSecret ps pw) cfg s = (Val x, t)"
  shows "\<exists>sec m. fst (oc_Get p SecretKind (credentials_secret_name ps, om_Namespace (cr_meta ps)) (world t)) = Inr (SecretObj sec None) \<and>
     sec_Data sec = Some m \<and> filled (sec_Data (buildDefaultPostgresSecret ps pw')) m"
proof -
  let ?new = "buildDefaultPostgresSecret ps pw" and ?key = "(credentials_secret_name ps, om_Namespace (cr_meta ps))"
  have fill: "filled (sec_Data (buildDefaultPostgresSecret ps pw')) (fill_credentials (sec_Data ?new) m)" for m
    by (rule filled_fill_credentials) (simp_all add: default_secret_data)
  have key: "(sec_Name ?new, sec_Namespace ?new) = ?key" by (simp add: buildDefaultPostgresSecret_def)
  obtain r w where get: "oc_Get p SecretKind ?key (world s) = (r, w)" by force
  show ?thesis
  proof (cases r)
    case (Inl e)
    obtain m where m: "sec_Data ?new = Some m" by (simp add: buildDefaultPostgresSecret_def)
    obtain w' where "oc_Exec p (OcpCreate (SecretObj (?new\<lparr>sec_Data := Some (fill_credentials (sec_Data ?new) m)\<rparr>) None)) w = (Inr (), w')" "world t = w'"
      using run get Inl key none m
      by (auto simp: secret_run  split: prod.splits sum.splits res.splits if_splits)
    then show ?thesis using read_created [OF keeps] fill key by fastforce
  next
    case (Inr obj)
    obtain sec where sec: "obj = SecretObj sec None" "(sec_Name sec, sec_Namespace sec) = ?key" using read_secret [OF keeps] get Inr by blast
    obtain m where m: "sec_Data sec = Some m"
      using run get Inr sec key none
      by (auto simp: secret_run split: prod.splits sum.splits res.splits if_splits option.splits)
    show ?thesis
    proof (cases "oc_Same p (SecretObj sec None) (SecretObj (sec\<lparr>sec_Data := Some (fill_credentials (sec_Data ?new) m)\<rparr>) None)")
      case True
      have "world t = w"
        using run get Inr sec key none m True
        by (auto simp: secret_run)
      moreover have "m = fill_credentials (sec_Data ?new) m" using True m same_secret [OF keeps] by simp
      ultimately show ?thesis using read_again [OF keeps get] Inr sec m fill [of m] by auto
    next
      case False
      obtain w' where "oc_Exec p (OcpUpdate (SecretObj (sec\<lparr>sec_Data := Some (fill_credentials (sec_Data ?new) m)\<rparr>) None)) w = (Inr (), w')" "world t = w'"
        using run get Inr sec key none m False
        by (auto simp: secret_run  split: prod.splits sum.splits res.splits if_splits)
      then show ?thesis using read_updated [OF keeps] fill sec(2) by fastforce
    qed
  qed
qed

text \<open>
  C20. The credentials of a database in the cluster settle: once its secret was written without a strategy, the next pass, with
  another random password, succeeds without a request, so that the password of a running database stays as it is.
\<close>

theorem openshift_secret_settles:
  assumes "keeps_secrets p" and "str_Data cfg = None" and "CreateSecret p (buildDefaultPostgresSecret ps pw) cfg s = (Val x, t)"
  shows "\<exists>t'. CreateSecret p (buildDefaultPostgresSecret ps pw') cfg t = (Val (), t') \<and> trace t' = trace t"
proof -
  let ?new = "buildDefaultPostgresSecret ps pw'"
  obtain sec m where m: "fst (oc_Get p SecretKind (credentials_secret_name ps, om_Namespace (cr_meta ps)) (world t)) = Inr (SecretObj sec None)"
      "sec_Data sec = Some m" "filled (sec_Data ?new) m" using CreateSecret_fills [OF assms] by blast
  then have "oc_Same p (SecretObj sec None) (SecretObj (sec\<lparr>sec_Data := Some (fill_credentials (sec_Data ?new) m)\<rparr>) None)"
    by (simp add: same_secret [OF assms(1)] fill_credentials_filled)
  moreover obtain w where "oc_Get p SecretKind (sec_Name ?new, sec_Namespace ?new) (world t) = (Inr (SecretObj sec None), w)"
    using m(1) by (cases "oc_Get p SecretKind (sec_Name ?new, sec_Namespace ?new) (world t)") (simp add: buildDefaultPostgresSecret_def)
  ultimately show ?thesis using assms(2) m(2) by (auto simp: secret_run)
qed

section \<open>A sample cluster\<close>

text \<open>A server that keeps the objects it is given; the objects are told apart by equality.\<close>

type_synonym object_store = "workload_kind \<times> nsName \<rightharpoonup> workload"

fun store_exec :: "ocp_req \<Rightarrow> object_store \<Rightarrow> (error + unit) \<times> object_store" where
  "store_exec (OcpCreate obj) w = (Inr (), w((kind_of obj, key_of obj) \<mapsto> obj))"
| "store_exec (OcpUpdate obj) w = (Inr (), w((kind_of obj, key_of obj) \<mapsto> obj))"
| "store_exec (OcpDelete kd key) w = (Inr (), w((kd, key) := None))"
| "store_exec (OcpExec _ _ _) w = (Inr (), w)"

definition store_get :: "workload_kind \<Rightarrow> nsName \<Rightarrow> object_store \<Rightarrow> (error + workload) \<times> object_store" where
  "store_get kd key w = (case w (kd, key) of
     Some (SecretObj sec text) \<Rightarrow> (if kd = SecretKind \<and> key = (sec_Name sec, sec_Namespace sec) then Inr (SecretObj sec None) else Inl not_found, w)
   | Some obj \<Rightarrow> (if kd = kind_of obj then Inr obj else Inl not_found, w)
   | None \<Rightarrow> (Inl not_found, w))"

definition sample_ocp :: "object_store ocpProvider" where
  "sample_ocp = \<lparr>oc_Client = sample_kube sample_cr, oc_ConfigManager = openshift_NewDefaultConfigManager Map.empty, oc_Get = store_get, oc_Exec = store_exec,
     oc_ListPods = (\<lambda>_ _ w. ([''pod''], w)), oc_RunExec = (\<lambda>_ _ _ w. (Inr (), '''', w)), oc_NewRandom = (\<lambda>w. (Inr ''pw'', w)),
     oc_Same = (\<lambda>a b. case (a, b) of (SecretObj x u, SecretObj y v) \<Rightarrow>
        u = v \<and> (x = y \<or> sec_Data x = None \<and> sec_Data y = Some Map.empty \<and> x\<lparr>sec_Data := Some Map.empty\<rparr> = y) | _ \<Rightarrow> a = b),
     dec_PostgresStrat = (\<lambda>_. Inr \<lparr>str_DeploymentSpec = None, str_ServiceSpec = None, str_ClaimRequests = None, str_Data = None\<rparr>),
     dec_RedisStrat = (\<lambda>_. Inr \<lparr>str_DeploymentSpec = None, str_ServiceSpec = None, str_ClaimRequests = None, str_Data = None\<rparr>)\<rparr>"

abbreviation ocp_state :: "(object_store, ocp_req event) sys" where
  "ocp_state \<equiv> \<lparr>world = Map.empty, trace = []\<rparr>"

lemma sample_ocp_fields: "oc_Get sample_ocp = store_get" "oc_Exec sample_ocp = store_exec"
  by (simp_all add: sample_ocp_def)

lemma store_get_world: "snd (store_get kd key w) = w"
  by (auto simp: store_get_def split: option.split workload.split)

lemma sample_ocp_keeps: "keeps_secrets sample_ocp"
proof -
  have "sec = sec\<lparr>sec_Data := Some m\<rparr> \<longleftrightarrow> sec_Data sec = Some m" for sec m by (cases sec) auto
  then have "oc_Same sample_ocp (SecretObj sec None) (SecretObj (sec\<lparr>sec_Data := Some m\<rparr>) None) \<longleftrightarrow> sec_Data sec = Some m \<or> sec_Data sec = None \<and> m = Map.empty" for sec m
    by (auto simp: sample_ocp_def)
  moreover have "fst (store_get SecretKind key w) = Inr obj \<Longrightarrow> \<exists>sec. obj = SecretObj sec None \<and> key_of obj = key" for key w obj
    by (auto simp: store_get_def split: option.splits workload.splits if_splits)
  ultimately show ?thesis by (auto simp: keeps_secrets_def sample_ocp_fields store_get_world) (auto simp: store_get_def)
qed

theorem openshift_deletion_exact_witness:
  "\<exists>es. trace (snd (openshift_DeletePostgres sample_ocp sample_cr ocp_state)) = es \<and>
     deletion_requests (\<lambda>_. Inr ()) (postgres_objects sample_cr) Postgres sample_cr es"
proof -
  have answers: "fst (oc_Exec sample_ocp req w) = Inr ()" for req w by (cases req) (simp_all add: sample_ocp_fields)
  obtain r t where run: "openshift_DeletePostgres sample_ocp sample_cr ocp_state = (r, t)" by force
  show ?thesis using openshift_deletion_exact [where answer = "\<lambda>_. Inr ()", OF answers run] run by simp
qed

theorem openshift_credentials_kept_witness:
  "\<forall>b. EvCloud (OcpDelete SecretKind (key_of (SecretObj (buildDefaultPostgresSecret sample_cr ''pw'') None))) b \<notin>
     set (trace (snd (openshift_DeletePostgres sample_ocp sample_cr ocp_state)))"
proof -
  obtain r t where run: "openshift_DeletePostgres sample_ocp sample_cr ocp_state = (r, t)" by force
  show ?thesis using openshift_credentials_kept [OF run] run by auto
qed

theorem openshift_secret_settles_witness:
  "\<exists>t t'. CreateSecret sample_ocp (buildDefaultPostgresSecret sample_cr ''one'')
       \<lparr>str_DeploymentSpec = None, str_ServiceSpec = None, str_ClaimRequests = None, str_Data = None\<rparr> ocp_state = (Val (), t) \<and>
     CreateSecret sample_ocp (buildDefaultPostgresSecret sample_cr ''two'')
       \<lparr>str_DeploymentSpec = None, str_ServiceSpec = None, str_ClaimRequests = None, str_Data = None\<rparr> t = (Val (), t') \<and> trace t' = trace t"
proof -
  let ?cfg = "\<lparr>str_DeploymentSpec = None, str_ServiceSpec = None, str_ClaimRequests = None, str_Data = None\<rparr>"
  have cfg: "str_Data ?cfg = None" by simp
  obtain t where run: "CreateSecret sample_ocp (buildDefaultPostgresSecret sample_cr ''one'') ?cfg ocp_state = (Val (), t)"
    by (simp add: secret_run sample_ocp_fields store_get_def buildDefaultPostgresSecret_def)
  show ?thesis using openshift_secret_settles [OF sample_ocp_keeps cfg run] run by blast
qed

end
