(* ===== verification/Metrics.thy ===== *)
theory Metrics
  imports Resources Complex_Main
begin

text \<open>
  The Prometheus gauges of \<^verbatim>\<open>pkg/resources/custom_metrics.go\<close>: the global map \<^verbatim>\<open>MetricVecs\<close>, the
  registry it registers vectors with, and the loops that expose one gauge per phase. A gauge vector
  has the label names it was created with; \<^verbatim>\<open>With\<close> panics on other names and \<^verbatim>\<open>MustRegister\<close> on a name
  that is registered already (None). Values are real numbers.
\<close>

record gaugeVec =
  gv_Names :: "string set"
  gv_Values :: "labels \<rightharpoonup> real"

record metrics =
  MetricVecs :: "string \<rightharpoonup> gaugeVec"
  Registered :: "string set"

definition Btof64 :: "bool \<Rightarrow> real" where
  "Btof64 b = (if b then 1 else 0)"

text \<open>\<^verbatim>\<open>gv.With(labels).Set(value)\<close> and \<^verbatim>\<open>gv.Reset()\<close>.\<close>

definition gauge_Set :: "gaugeVec \<Rightarrow> labels \<Rightarrow> real \<Rightarrow> gaugeVec option" where
  "gauge_Set gv ls v = (if dom ls = gv_Names gv then Some (gv\<lparr>gv_Values := (gv_Values gv)(ls \<mapsto> v)\<rparr>) else None)"

definition gauge_Reset :: "gaugeVec \<Rightarrow> gaugeVec" where
  "gauge_Reset gv = gv\<lparr>gv_Values := Map.empty\<rparr>"

definition SetMetric :: "string \<Rightarrow> labels \<Rightarrow> real \<Rightarrow> metrics \<Rightarrow> metrics option" where
  "SetMetric name ls v m = (case MetricVecs m name of
     Some gv \<Rightarrow> (case gauge_Set gv ls v of None \<Rightarrow> None
       | Some gv' \<Rightarrow> Some (m\<lparr>MetricVecs := (MetricVecs m)(name \<mapsto> gv')\<rparr>))
   | None \<Rightarrow>
       if name \<in> Registered m then None
       else Some (m\<lparr>MetricVecs := (MetricVecs m)(name \<mapsto> \<lparr>gv_Names = dom ls, gv_Values = Map.empty\<rparr>),
                    Registered := insert name (Registered m)\<rparr>))"

definition ResetMetric :: "string \<Rightarrow> metrics \<Rightarrow> metrics" where
  "ResetMetric name m = (case MetricVecs m name of
     Some gv \<Rightarrow> m\<lparr>MetricVecs := (MetricVecs m)(name \<mapsto> gauge_Reset gv)\<rparr> | None \<Rightarrow> m)"

text \<open>One turn of the loop of \<^verbatim>\<open>StartGaugeVector\<close> resets every vector.\<close>

definition reset_all :: "metrics \<Rightarrow> metrics" where
  "reset_all m = m\<lparr>MetricVecs := map_option gauge_Reset \<circ> MetricVecs m\<rparr>"

definition DefaultVpcActionMetricName :: string where
  "DefaultVpcActionMetricName = ''cro_vpc_action''"

definition DefaultSTSCredentialsSecretMetricName :: string where
  "DefaultSTSCredentialsSecretMetricName = ''cro_sts_credentials_secret''"

definition SetVpcAction :: "string \<Rightarrow> string \<Rightarrow> string \<Rightarrow> real \<Rightarrow> metrics \<Rightarrow> metrics option" where
  "SetVpcAction action status err code =
     SetMetric DefaultVpcActionMetricName [''action'' \<mapsto> action, ''status'' \<mapsto> status, ''error'' \<mapsto> err] code"

definition ResetVpcAction :: "metrics \<Rightarrow> metrics" where
  "ResetVpcAction = ResetMetric DefaultVpcActionMetricName"

definition SetSTSCredentialsSecretMetric :: "string \<Rightarrow> error \<Rightarrow> metrics \<Rightarrow> metrics option" where
  "SetSTSCredentialsSecretMetric ns err =
     SetMetric DefaultSTSCredentialsSecretMetricName [''namespace'' \<mapsto> ns, ''error'' \<mapsto> error_text err] 1"

definition ResetSTSCredentialsSecretMetric :: "metrics \<Rightarrow> metrics" where
  "ResetSTSCredentialsSecretMetric = ResetMetric DefaultSTSCredentialsSecretMetricName"

definition getCompoundMetrics :: "string list" where
  "getCompoundMetrics = [''cro_redis_freeable_memory_average'', ''cro_postgres_free_storage_average'',
     ''cro_postgres_freeable_memory_average'']"

definition getComputedCpuMetrics :: "string list" where
  "getComputedCpuMetrics = [''cro_redis_cpu_utilization_average'', ''cro_redis_engine_cpu_utilization_average'']"

definition IsCompoundMetric :: "string \<Rightarrow> bool" where
  "IsCompoundMetric metric \<longleftrightarrow> metric \<in> set getCompoundMetrics"

definition IsComputedCpuMetric :: "string \<Rightarrow> bool" where
  "IsComputedCpuMetric metric \<longleftrightarrow> metric \<in> set getComputedCpuMetrics"

section \<open>One gauge per phase\<close>

definition metric_phases :: "string list" where
  "metric_phases = [PhaseFailed, PhaseDeleteInProgress, PhasePaused, PhaseComplete, PhaseInProgress]"

text \<open>
  The loop shared by the controllers and providers: for every phase, a gauge labelled with it that is
  1 when the resource is in the phase and 0 otherwise.
\<close>

fun phase_loop :: "string \<Rightarrow> (string \<Rightarrow> labels) \<Rightarrow> string \<Rightarrow> string list \<Rightarrow> metrics \<Rightarrow> metrics option" where
  "phase_loop name mk current [] m = Some m"
| "phase_loop name mk current (p # ps) m = (case SetMetric name (mk p) (Btof64 (current = p)) m of
     None \<Rightarrow> None | Some m' \<Rightarrow> phase_loop name mk current ps m')"

definition snapshotStatusMetricLabels :: "string \<Rightarrow> objectMeta \<Rightarrow> string \<Rightarrow> string \<Rightarrow> string \<Rightarrow> labels" where
  "snapshotStatusMetricLabels providerName om clusterID snapshotName phase =
     [''clusterID'' \<mapsto> clusterID, ''resourceID'' \<mapsto> om_Name om, ''namespace'' \<mapsto> om_Namespace om,
      ''instanceID'' \<mapsto> snapshotName, ''productName'' \<mapsto> map_get (om_Labels om) ''productName'',
      ''strategy'' \<mapsto> providerName, ''statusPhase'' \<mapsto> phase]"

section \<open>Invariant\<close>

text \<open>Every known vector is registered, and its gauges carry exactly the label names of the vector.\<close>

definition gauge_ok :: "gaugeVec \<Rightarrow> bool" where
  "gauge_ok gv \<longleftrightarrow> (\<forall>ls \<in> dom (gv_Values gv). dom ls = gv_Names gv)"

definition metrics_inv :: "metrics \<Rightarrow> bool" where
  "metrics_inv m \<longleftrightarrow> (\<forall>name gv. MetricVecs m name = Some gv \<longrightarrow> name \<in> Registered m \<and> gauge_ok gv)"

definition gauge_value :: "metrics \<Rightarrow> string \<Rightarrow> labels \<Rightarrow> real option" where
  "gauge_value m name ls = (case MetricVecs m name of None \<Rightarrow> None | Some gv \<Rightarrow> gv_Values gv ls)"

lemma gauge_ok_Set: "gauge_ok gv \<Longrightarrow> gauge_Set gv ls v = Some gv' \<Longrightarrow> gauge_ok gv'"
  unfolding gauge_Set_def gauge_ok_def by (simp split: if_splits, hypsubst, simp)

lemma gauge_ok_empty [simp]: "gauge_ok (gauge_Reset gv)" "gauge_ok \<lparr>gv_Names = ns, gv_Values = Map.empty\<rparr>"
  by (simp_all add: gauge_Reset_def gauge_ok_def)

lemma SetMetric_inv: "metrics_inv m \<Longrightarrow> SetMetric name ls v m = Some m' \<Longrightarrow> metrics_inv m'"
  by (auto simp: SetMetric_def metrics_inv_def split: option.splits if_splits) (metis gauge_ok_Set)

lemma ResetMetric_inv: "metrics_inv m \<Longrightarrow> metrics_inv (ResetMetric name m)"
  by (auto simp: ResetMetric_def metrics_inv_def split: option.splits)

lemma reset_all_inv: "metrics_inv m \<Longrightarrow> metrics_inv (reset_all m)"
  by (auto simp: reset_all_def metrics_inv_def)

lemma phase_loop_inv: "metrics_inv m \<Longrightarrow> phase_loop name mk cur ps m = Some m' \<Longrightarrow> metrics_inv m'"
  by (induction ps arbitrary: m) (auto split: option.splits dest: SetMetric_inv)

text \<open>On a vector that exists the loop sets every gauge and touches no other.\<close>

lemma SetMetric_existing:
  assumes "MetricVecs m name = Some gv" and "dom ls = gv_Names gv"
  shows "\<exists>m'. SetMetric name ls v m = Some m' \<and>
    MetricVecs m' name = Some (gv\<lparr>gv_Values := (gv_Values gv)(ls \<mapsto> v)\<rparr>) \<and>
    (\<forall>n. n \<noteq> name \<longrightarrow> MetricVecs m' n = MetricVecs m n)"
  using assms by (simp add: SetMetric_def gauge_Set_def)

lemma phase_loop_existing:
  assumes "MetricVecs m name = Some gv" and "\<And>p. dom (mk p) = gv_Names gv" and "inj mk"
  shows "\<exists>m' gv'. phase_loop name mk cur ps m = Some m' \<and> MetricVecs m' name = Some gv' \<and>
    gv_Names gv' = gv_Names gv \<and>
    (\<forall>p. gv_Values gv' (mk p) = (if p \<in> set ps then Some (Btof64 (cur = p)) else gv_Values gv (mk p)))"
  using assms(1,2)
proof (induction ps arbitrary: m gv)
  case Nil
  then show ?case by auto
next
  case (Cons q ps)
  let ?gv = "gv\<lparr>gv_Values := (gv_Values gv)(mk q \<mapsto> Btof64 (cur = q))\<rparr>"
  obtain m1 where m1: "SetMetric name (mk q) (Btof64 (cur = q)) m = Some m1" "MetricVecs m1 name = Some ?gv"
    using SetMetric_existing [OF Cons.prems(1,2)] by metis
  obtain m' gv' where m': "phase_loop name mk cur ps m1 = Some m'" "MetricVecs m' name = Some gv'"
    "gv_Names gv' = gv_Names ?gv"
    "\<And>p. gv_Values gv' (mk p) = (if p \<in> set ps then Some (Btof64 (cur = p)) else gv_Values ?gv (mk p))"
    using Cons.IH [OF m1(2)] Cons.prems(2) by auto
  have "gv_Values gv' (mk p) = (if p \<in> set (q # ps) then Some (Btof64 (cur = p)) else gv_Values gv (mk p))" for p
    using m'(4) [of p] inj_eq [OF assms(3)] by auto
  then show ?case using m1(1) m'(1-3) by auto
qed

lemma phase_loop_fresh:
  assumes "MetricVecs m name = None" and "name \<notin> Registered m"
    and "\<And>p. dom (mk p) = names" and "inj mk" and "distinct (q # ps)"
  shows "\<exists>m' gv'. phase_loop name mk cur (q # ps) m = Some m' \<and> MetricVecs m' name = Some gv' \<and>
    gv_Names gv' = names \<and>
    (\<forall>p. gv_Values gv' (mk p) = (if p \<in> set ps then Some (Btof64 (cur = p)) else None))"
proof -
  let ?gv = "\<lparr>gv_Names = names, gv_Values = Map.empty\<rparr>"
  obtain m1 where "SetMetric name (mk q) (Btof64 (cur = q)) m = Some m1" "MetricVecs m1 name = Some ?gv"
    using assms(1,2) assms(3) [of q] by (simp add: SetMetric_def)
  then show ?thesis using phase_loop_existing [of m1 name ?gv mk cur ps] assms(3,4) by auto
qed

lemma inj_snapshotStatusMetricLabels: "inj (snapshotStatusMetricLabels prov om c s)"
proof (rule injI)
  fix p q assume "snapshotStatusMetricLabels prov om c s p = snapshotStatusMetricLabels prov om c s q"
  then have "snapshotStatusMetricLabels prov om c s p ''statusPhase'' = snapshotStatusMetricLabels prov om c s q ''statusPhase''"
    by simp
  then show "p = q" by (simp add: snapshotStatusMetricLabels_def)
qed

lemma dom_snapshotStatusMetricLabels:
  "dom (snapshotStatusMetricLabels prov om c s p) =
   {''clusterID'', ''resourceID'', ''namespace'', ''instanceID'', ''productName'', ''strategy'', ''statusPhase''}"
  by (auto simp: snapshotStatusMetricLabels_def)

section \<open>Properties\<close>



text \<open>
  \<^verbatim>\<open>SetMetric\<close> on a name without a vector creates and registers the vector but sets no gauge: the
  first value is lost, and only a second call stores one.
\<close>

theorem SetMetric_first_value_lost:
  assumes "MetricVecs m name = None" and "name \<notin> Registered m"
  shows "\<exists>m1. SetMetric name ls v m = Some m1 \<and> name \<in> Registered m1 \<and> gauge_value m1 name ls = None \<and>
    (\<exists>m2. SetMetric name ls v m1 = Some m2 \<and> gauge_value m2 name ls = Some v)"
  using assms by (simp add: SetMetric_def gauge_Set_def gauge_value_def)

theorem SetMetric_first_value_lost_witness:
  "\<exists>m1. SetVpcAction ''CreateVpc'' ''ok'' '''' 1 \<lparr>MetricVecs = Map.empty, Registered = {}\<rparr> = Some m1 \<and>
     gauge_value m1 DefaultVpcActionMetricName [''action'' \<mapsto> ''CreateVpc'', ''status'' \<mapsto> ''ok'', ''error'' \<mapsto> ''''] = None"
  using SetMetric_first_value_lost [of "\<lparr>MetricVecs = Map.empty, Registered = {}\<rparr>" DefaultVpcActionMetricName]
  by (auto simp: SetVpcAction_def)

text \<open>
  Exposing the phase of a snapshot through an existing vector leaves exactly one gauge per phase,
  1 for the current phase and 0 for the others; when the vector is new, the gauge of the first
  phase, failed, is missing.
\<close>

theorem snapshot_phase_gauges:
  fixes m :: metrics and om :: objectMeta and prov clusterID snapshotName name cur :: string
  defines "mk \<equiv> snapshotStatusMetricLabels prov om clusterID snapshotName"
  shows "(\<forall>gv. MetricVecs m name = Some gv \<and> gv_Names gv = dom (mk '''') \<longrightarrow>
      (\<exists>m'. phase_loop name mk cur metric_phases m = Some m' \<and>
        (\<forall>p \<in> set metric_phases. gauge_value m' name (mk p) = Some (if p = cur then 1 else 0)))) \<and>
    (MetricVecs m name = None \<and> name \<notin> Registered m \<longrightarrow>
      (\<exists>m'. phase_loop name mk cur metric_phases m = Some m' \<and>
        gauge_value m' name (mk PhaseFailed) = None \<and>
        (\<forall>p \<in> set metric_phases - {PhaseFailed}. gauge_value m' name (mk p) = Some (if p = cur then 1 else 0))))"
proof -
  have d: "dom (mk p) = dom (mk '''')" for p by (simp add: mk_def dom_snapshotStatusMetricLabels)
  have i: "inj mk" by (simp add: mk_def inj_snapshotStatusMetricLabels)
  have ph: "metric_phases = PhaseFailed # tl metric_phases" "distinct (PhaseFailed # tl metric_phases)"
    by (simp_all add: metric_phases_def phase_defs)
  have 1: "\<exists>m'. phase_loop name mk cur metric_phases m = Some m' \<and>
        (\<forall>p \<in> set metric_phases. gauge_value m' name (mk p) = Some (if p = cur then 1 else 0))"
    if "MetricVecs m name = Some gv" "gv_Names gv = dom (mk '''')" for gv
    using phase_loop_existing [OF that(1) _ i, of cur metric_phases] d that(2)
    by (auto simp: gauge_value_def Btof64_def)
  have 2: "\<exists>m'. phase_loop name mk cur metric_phases m = Some m' \<and>
        gauge_value m' name (mk PhaseFailed) = None \<and>
        (\<forall>p \<in> set metric_phases - {PhaseFailed}. gauge_value m' name (mk p) = Some (if p = cur then 1 else 0))"
    if "MetricVecs m name = None" "name \<notin> Registered m"
  proof -
    note new = that
    obtain m' gv' where m': "phase_loop name mk cur metric_phases m = Some m'" "MetricVecs m' name = Some gv'"
      "\<And>p. gv_Values gv' (mk p) = (if p \<in> set (tl metric_phases) then Some (Btof64 (cur = p)) else None)"
      using phase_loop_fresh [OF new(1,2) d i ph(2), of cur] ph(1) by auto
    have "PhaseFailed \<notin> set (tl metric_phases)" using ph(2) by simp
    moreover have "set metric_phases - {PhaseFailed} \<subseteq> set (tl metric_phases)" by (subst ph(1)) auto
    ultimately show ?thesis using m' by (auto simp: gauge_value_def Btof64_def)
  qed
  show ?thesis using 1 2 by blast
qed

theorem snapshot_phase_gauges_witness:
  "\<forall>om. \<exists>m'. phase_loop ''n'' (snapshotStatusMetricLabels ''p'' om ''c'' ''s'') PhaseFailed metric_phases
      \<lparr>MetricVecs = Map.empty, Registered = {}\<rparr> = Some m' \<and>
    gauge_value m' ''n'' (snapshotStatusMetricLabels ''p'' om ''c'' ''s'' PhaseFailed) = None"
  using snapshot_phase_gauges [where m = "\<lparr>MetricVecs = Map.empty, Registered = {}\<rparr>" and cur = PhaseFailed
    and name = "''n''" and prov = "''p''" and clusterID = "''c''" and snapshotName = "''s''"] by fastforce

end
