(* ===== verification/Metrics_Fanout.thy ===== *)
theory Metrics_Fanout
  imports Kubernetes "HOL-Library.Multiset"
begin

text \<open>
  The goroutines of \<^verbatim>\<open>getMetrics\<close> (\<^verbatim>\<open>pkg/providers/gcp/provider_redis_metrics.go\<close>): one query per metric, a buffered channel for the
  metrics with room for all of them, one for the errors with room for one, a channel that is closed when all queries have
  ended, and a loop that selects among the three until it returns. \<open>os\<close> are the answers to the queries.
\<close>

section \<open>Steps\<close>

text \<open>A failed query sends its error and then a nil metric.\<close>

datatype 'm worker = Querying | SendingErr error | SendingData "'m option" | Exited

record 'm fanout =
  fo_Workers :: "'m worker list"
  fo_MetricChan :: "'m option list"
  fo_ErrChan :: "error list"
  fo_Done :: bool
  fo_Metrics :: "'m option list"
  fo_Result :: "(error + 'm option list) option"

definition fanout_start :: "(error + 'm) list \<Rightarrow> 'm fanout" where
  "fanout_start os = \<lparr>fo_Workers = replicate (length os) Querying, fo_MetricChan = [], fo_ErrChan = [], fo_Done = False, fo_Metrics = [], fo_Result = None\<rparr>"

definition queried :: "error + 'm \<Rightarrow> 'm worker" where
  "queried r = (case r of Inl e \<Rightarrow> SendingErr e | Inr m \<Rightarrow> SendingData (Some m))"

inductive fanout_step :: "(error + 'm) list \<Rightarrow> 'm fanout \<Rightarrow> 'm fanout \<Rightarrow> bool" for os where
  query_ends: "i < length (fo_Workers s) \<Longrightarrow> fo_Workers s ! i = Querying \<Longrightarrow>
    fanout_step os s (s\<lparr>fo_Workers := (fo_Workers s)[i := queried (os ! i)]\<rparr>)"
| send_error: "i < length (fo_Workers s) \<Longrightarrow> fo_Workers s ! i = SendingErr e \<Longrightarrow> length (fo_ErrChan s) < 1 \<Longrightarrow>
    fanout_step os s (s\<lparr>fo_Workers := (fo_Workers s)[i := SendingData None], fo_ErrChan := fo_ErrChan s @ [e]\<rparr>)"
| send_metric: "i < length (fo_Workers s) \<Longrightarrow> fo_Workers s ! i = SendingData m \<Longrightarrow> length (fo_MetricChan s) < length os \<Longrightarrow>
    fanout_step os s (s\<lparr>fo_Workers := (fo_Workers s)[i := Exited], fo_MetricChan := fo_MetricChan s @ [m]\<rparr>)"
| close_done: "\<forall>w \<in> set (fo_Workers s). w = Exited \<Longrightarrow> \<not> fo_Done s \<Longrightarrow> fanout_step os s (s\<lparr>fo_Done := True\<rparr>)"
| select_metric: "fo_Result s = None \<Longrightarrow> fo_MetricChan s = m # q \<Longrightarrow>
    fanout_step os s (s\<lparr>fo_MetricChan := q, fo_Metrics := fo_Metrics s @ [m]\<rparr>)"
| select_error: "fo_Result s = None \<Longrightarrow> fo_ErrChan s = e # q \<Longrightarrow> fanout_step os s (s\<lparr>fo_ErrChan := q, fo_Result := Some (Inl e)\<rparr>)"
| select_done: "fo_Result s = None \<Longrightarrow> fo_Done s \<Longrightarrow> fanout_step os s (s\<lparr>fo_Result := Some (Inr (fo_Metrics s))\<rparr>)"

inductive_cases fanout_stepE: "fanout_step os s t"

section \<open>Invariant\<close>

text \<open>What a query has sent in the end, and what it has still to send.\<close>

definition sent :: "error + 'm \<Rightarrow> 'm option" where
  "sent r = (case r of Inl _ \<Rightarrow> None | Inr m \<Rightarrow> Some m)"

lemma sent_simps [simp]: "sent (Inl e) = None" "sent (Inr m) = Some m"
  by (simp_all add: sent_def)

definition worker_ok :: "error + 'm \<Rightarrow> 'm worker \<Rightarrow> bool" where
  "worker_ok r w = (case w of SendingErr e \<Rightarrow> r = Inl e | SendingData m \<Rightarrow> m = sent r | _ \<Rightarrow> True)"

definition unsent :: "(error + 'm) list \<Rightarrow> 'm worker list \<Rightarrow> 'm option multiset" where
  "unsent os ws = mset (map (sent \<circ> fst) (filter (\<lambda>(r, w). w \<noteq> Exited) (zip os ws)))"

definition result_ok :: "(error + 'm) list \<Rightarrow> 'm option list \<Rightarrow> (error + 'm option list) option \<Rightarrow> bool" where
  "result_ok os metrics r = (case r of None \<Rightarrow> True | Some (Inl e) \<Rightarrow> Inl e \<in> set os | Some (Inr ms) \<Rightarrow> ms = metrics)"

lemma result_ok_simps [simp]: "result_ok os ms None" "result_ok os ms (Some (Inl e)) \<longleftrightarrow> Inl e \<in> set os" "result_ok os ms (Some (Inr ms')) \<longleftrightarrow> ms' = ms"
  by (simp_all add: result_ok_def)

definition fanout_inv :: "(error + 'm) list \<Rightarrow> 'm fanout \<Rightarrow> bool" where
  "fanout_inv os s \<longleftrightarrow> list_all2 worker_ok os (fo_Workers s) \<and>
     mset (fo_Metrics s) + mset (fo_MetricChan s) + unsent os (fo_Workers s) = mset (map sent os) \<and>
     (\<forall>e \<in> set (fo_ErrChan s). Inl e \<in> set os) \<and>
     result_ok os (fo_Metrics s) (fo_Result s)"

lemma unsent_simps [simp]: "unsent [] ws = {#}" "unsent os [] = {#}"
  "unsent (r # os) (w # ws) = (if w = Exited then {#} else {#sent r#}) + unsent os ws"
  by (auto simp: unsent_def)

lemma unsent_update:
  "length os = length ws \<Longrightarrow> i < length ws \<Longrightarrow> ws ! i \<noteq> Exited \<Longrightarrow>
   unsent os ws = (if w = Exited then {#sent (os ! i)#} else {#}) + unsent os (ws[i := w])"
proof (induction os ws arbitrary: i rule: list_induct2)
  case (Cons r os w' ws)
  then show ?case by (cases i) auto
qed simp

lemma unsent_start: "unsent os (replicate (length os) Querying) = mset (map sent os)"
  by (induction os) auto

lemma fanout_inv_start: "fanout_inv os (fanout_start os)"
  by (simp add: fanout_inv_def fanout_start_def unsent_start list_all2_conv_all_nth worker_ok_def)

lemma fanout_inv_step:
  assumes "fanout_step os s t" and inv: "fanout_inv os s"
  shows "fanout_inv os t"
proof -
  have len: "length os = length (fo_Workers s)" and okw: "\<And>i. i < length os \<Longrightarrow> worker_ok (os ! i) (fo_Workers s ! i)"
    using inv by (auto simp: fanout_inv_def list_all2_conv_all_nth)
  have upd: "list_all2 worker_ok os ((fo_Workers s)[i := w])" if "i < length os" "worker_ok (os ! i) w" for i w
    using that inv by (auto simp: fanout_inv_def list_all2_conv_all_nth nth_list_update)
  have un: "unsent os (fo_Workers s) = (if w = Exited then {#sent (os ! i)#} else {#}) + unsent os ((fo_Workers s)[i := w])"
    if "i < length os" "fo_Workers s ! i \<noteq> Exited" for i w using that len unsent_update by metis
  from assms(1) show ?thesis
  proof cases
    case (query_ends i)
    then show ?thesis using inv upd [of i "queried (os ! i)"] un [of i "queried (os ! i)"] len
      by (auto simp: fanout_inv_def queried_def worker_ok_def sent_def split: sum.splits)
  next
    case (send_error i e)
    then show ?thesis using inv upd [of i "SendingData None"] un [of i "SendingData None"] okw [of i] len nth_mem [of i os]
      by (auto simp: fanout_inv_def worker_ok_def sent_def split: sum.splits)
  next
    case (send_metric i m)
    then show ?thesis using inv upd [of i Exited] un [of i Exited] okw [of i] len
      by (auto simp: fanout_inv_def worker_ok_def)
  qed (use inv in \<open>auto simp: fanout_inv_def\<close>)
qed

lemma fanout_reachable_inv: "(fanout_step os)\<^sup>*\<^sup>* (fanout_start os) s \<Longrightarrow> fanout_inv os s"
  by (induction rule: rtranclp_induct) (auto intro: fanout_inv_start fanout_inv_step)

section \<open>Termination\<close>

primrec worker_fuel :: "'m worker \<Rightarrow> nat" where
  "worker_fuel Querying = 6"
| "worker_fuel (SendingErr _) = 5"
| "worker_fuel (SendingData _) = 3"
| "worker_fuel Exited = 0"

definition fanout_fuel :: "'m fanout \<Rightarrow> nat" where
  "fanout_fuel s = sum_list (map worker_fuel (fo_Workers s)) + length (fo_MetricChan s) + length (fo_ErrChan s) +
     (if fo_Done s then 0 else 1) + (if fo_Result s = None then 1 else 0)"

lemma sum_fuel_smaller:
  "i < length ws \<Longrightarrow> worker_fuel w + k < worker_fuel (ws ! i) \<Longrightarrow> sum_list (map worker_fuel (ws[i := w])) + k < sum_list (map worker_fuel ws)"
proof (induction ws arbitrary: i)
  case (Cons x ws)
  then show ?case by (cases i) auto
qed simp

lemma fanout_step_fuel: "fanout_step os s t \<Longrightarrow> fanout_fuel t < fanout_fuel s"
proof (induction rule: fanout_step.induct)
  case (query_ends i s)
  then show ?case using sum_fuel_smaller [of i "fo_Workers s" "queried (os ! i)" 0]
    by (auto simp: fanout_fuel_def queried_def split: sum.splits)
next
  case (send_error i s e)
  then show ?case using sum_fuel_smaller [of i "fo_Workers s" "SendingData None" 1] by (auto simp: fanout_fuel_def)
next
  case (send_metric i s m)
  then show ?case using sum_fuel_smaller [of i "fo_Workers s" Exited 1] by (auto simp: fanout_fuel_def)
qed (auto simp: fanout_fuel_def)

lemma fanout_run_fuel: "(fanout_step os ^^ n) s t \<Longrightarrow> fanout_fuel t + n \<le> fanout_fuel s"
proof (induction n arbitrary: t)
  case (Suc n)
  then obtain u where "(fanout_step os ^^ n) s u" "fanout_step os u t" by auto
  then show ?case using Suc.IH fanout_step_fuel by fastforce
qed simp

lemma fanout_progress:
  assumes inv: "fanout_inv os s" and "fo_Result s = None"
  shows "\<exists>t. fanout_step os s t"
proof (cases "\<forall>w \<in> set (fo_Workers s). w = Exited")
  case True
  then show ?thesis using assms(2) by (cases "fo_Done s") (blast intro: fanout_step.intros)+
next
  case False
  then obtain i where i: "i < length (fo_Workers s)" "fo_Workers s ! i \<noteq> Exited" by (auto simp: in_set_conv_nth)
  have len: "length os = length (fo_Workers s)" using inv by (auto simp: fanout_inv_def dest: list_all2_lengthD)
  have "mset (fo_Metrics s) + mset (fo_MetricChan s) + unsent os (fo_Workers s) = mset (map sent os)" using inv by (simp add: fanout_inv_def)
  from arg_cong [where f = size, OF this]
  have "length (fo_Metrics s) + length (fo_MetricChan s) + size (unsent os (fo_Workers s)) = length os" by simp
  moreover have "size (unsent os (fo_Workers s)) > 0"
    using unsent_update [OF len i, of Exited] by (simp add: nonempty_has_size [symmetric])
  ultimately have room: "length (fo_MetricChan s) < length os" by simp
  show ?thesis
  proof (cases "fo_Workers s ! i")
    case (SendingErr e)
    then show ?thesis using i assms(2) by (cases "fo_ErrChan s") (auto intro: fanout_step.intros)
  qed (use i room in \<open>auto intro: fanout_step.intros\<close>)
qed

section \<open>Properties\<close>

text \<open>
  C18. Querying the metrics of a resource concurrently always returns: a run has at most six steps per query and two more, and it can only
  stop when the loop has returned.
\<close>

theorem getMetrics_returns:
  assumes "(fanout_step os ^^ n) (fanout_start os) s"
  shows "n \<le> 6 * length os + 2 \<and> (fo_Result s \<noteq> None \<or> (\<exists>t. fanout_step os s t))"
proof -
  have "fanout_inv os s" using assms by (meson fanout_reachable_inv relpowp_imp_rtranclp)
  moreover have "fanout_fuel (fanout_start os :: 'a fanout) = 6 * length os + 2"
    by (simp add: fanout_fuel_def fanout_start_def sum_list_replicate)
  ultimately show ?thesis using fanout_run_fuel [OF assms] fanout_progress by fastforce
qed

text \<open>
  What the concurrent queries can return: the error of one of the queries, or metrics that were queried, none more often than it was
  answered, a nil standing for a query that failed.
\<close>

lemma getMetrics_results:
  assumes "(fanout_step os)\<^sup>*\<^sup>* (fanout_start os) s" and "fo_Result s = Some r"
  shows "case r of Inl e \<Rightarrow> Inl e \<in> set os | Inr ms \<Rightarrow> mset ms \<subseteq># mset (map sent os)"
proof -
  have "result_ok os (fo_Metrics s) (Some r)" "mset (fo_Metrics s) \<subseteq># mset (map sent os)"
    using fanout_reachable_inv [OF assms(1)] assms(2) by (auto simp: fanout_inv_def) (metis mset_subset_eq_add_left union_assoc)
  then show ?thesis by (cases r) auto
qed

lemma fanout_run: "fanout_step os s t \<Longrightarrow> (fanout_step os)\<^sup>*\<^sup>* t u \<Longrightarrow> (fanout_step os)\<^sup>*\<^sup>* s u"
  by (rule converse_rtranclp_into_rtranclp)

text \<open>A single query up to the moment when everything is sent and the channel is closed, with nothing selected yet.\<close>

lemma single_query_sent:
  "(fanout_step [r])\<^sup>*\<^sup>* (fanout_start [r]) \<lparr>fo_Workers = [Exited], fo_MetricChan = [sent r],
     fo_ErrChan = (case r of Inl e \<Rightarrow> [e] | Inr _ \<Rightarrow> []), fo_Done = True, fo_Metrics = [], fo_Result = None\<rparr>"
proof -
  let ?s = "\<lambda>w q es d. \<lparr>fo_Workers = [w], fo_MetricChan = q, fo_ErrChan = es, fo_Done = d, fo_Metrics = [], fo_Result = None\<rparr>"
  have start: "fanout_start [r] = ?s Querying [] [] False" by (simp add: fanout_start_def)
  have send: "fanout_step [r] (?s (SendingData (sent r)) [] es False) (?s Exited [sent r] es False)" for es
    using send_metric [of 0 "?s (SendingData (sent r)) [] es False" "sent r" "[r]"] by simp
  have close: "fanout_step [r] (?s Exited [sent r] es False) (?s Exited [sent r] es True)" for es
    using close_done [of "?s Exited [sent r] es False" "[r]"] by simp
  have sent: "(fanout_step [r])\<^sup>*\<^sup>* (?s (SendingData (sent r)) [] es False) (?s Exited [sent r] es True)" for es
    by (rule fanout_run [OF send fanout_run [OF close rtranclp.rtrancl_refl]])
  have first: "fanout_step [r] (?s Querying [] [] False) (?s (queried r) [] [] False)"
    using query_ends [of 0 "?s Querying [] [] False" "[r]"] by simp
  show ?thesis
  proof (cases r)
    case (Inl e)
    have err: "fanout_step [r] (?s (SendingErr e) [] [] False) (?s (SendingData None) [] [e] False)"
      using send_error [of 0 "?s (SendingErr e) [] [] False" e "[r]"] by simp
    then show ?thesis using fanout_run [OF first] fanout_run [OF err] sent [of "[e]"] unfolding start by (simp add: Inl queried_def sent_def)
  next
    case (Inr m)
    then show ?thesis using fanout_run [OF first] sent [of "[]"] unfolding start by (simp add: queried_def sent_def)
  qed
qed

text \<open>
  C39. Closing the channel at the end races with reading the others: whatever a query answers, a metric or an error, the
  loop may return without it, and without an error.
\<close>

theorem getMetrics_may_lose_answer: "\<exists>s. (fanout_step [r])\<^sup>*\<^sup>* (fanout_start [r]) s \<and> fo_Result s = Some (Inr [])"
  using rtranclp.rtrancl_into_rtrancl [OF single_query_sent select_done] by fastforce

text \<open>The nil of a failed query may be returned among the metrics.\<close>

lemma getMetrics_may_return_nil: "\<exists>s. (fanout_step [Inl e])\<^sup>*\<^sup>* (fanout_start [Inl e]) s \<and> fo_Result s = Some (Inr [None])"
proof -
  have "(fanout_step [Inl e])\<^sup>*\<^sup>* (fanout_start [Inl e]) \<lparr>fo_Workers = [Exited], fo_MetricChan = [], fo_ErrChan = [e], fo_Done = True, fo_Metrics = [None], fo_Result = None\<rparr>"
    using rtranclp.rtrancl_into_rtrancl [OF single_query_sent select_metric, of "Inl e"] by (simp add: sent_def)
  from rtranclp.rtrancl_into_rtrancl [OF this select_done] show ?thesis by fastforce
qed

section \<open>The run in order\<close>

text \<open>The result when every query is answered and selected before the next one is started.\<close>

fun first_failure :: "(error + 'm) list \<Rightarrow> error option" where
  "first_failure [] = None"
| "first_failure (Inl e # os) = Some e"
| "first_failure (Inr _ # os) = first_failure os"

definition in_order :: "(error + 'm) list \<Rightarrow> error + 'm option list" where
  "in_order os = (case first_failure os of Some e \<Rightarrow> Inl e | None \<Rightarrow> Inr (map sent os))"

abbreviation after_queries :: "'m worker list \<Rightarrow> 'm option list \<Rightarrow> 'm option list \<Rightarrow> 'm fanout" where
  "after_queries ws q ms \<equiv> \<lparr>fo_Workers = ws, fo_MetricChan = q, fo_ErrChan = [], fo_Done = False, fo_Metrics = ms, fo_Result = None\<rparr>"

lemma success_steps:
  assumes "os = xs @ Inr m # ys"
  shows "(fanout_step os)\<^sup>*\<^sup>* (after_queries (replicate (length xs) Exited @ Querying # replicate (length ys) Querying) [] ms)
     (after_queries (replicate (length xs) Exited @ Exited # replicate (length ys) Querying) [] (ms @ [Some m]))"
proof -
  let ?ws = "\<lambda>w. replicate (length xs) Exited @ w # replicate (length ys) Querying"
  have "fanout_step os (after_queries (?ws Querying) [] ms) (after_queries (?ws (SendingData (Some m))) [] ms)"
    using query_ends [of "length xs" "after_queries (?ws Querying) [] ms" os] assms by (simp add: nth_append list_update_append queried_def)
  moreover have "fanout_step os (after_queries (?ws (SendingData (Some m))) [] ms) (after_queries (?ws Exited) [Some m] ms)"
    using send_metric [of "length xs" "after_queries (?ws (SendingData (Some m))) [] ms" "Some m" os] assms by (simp add: nth_append list_update_append)
  moreover have "fanout_step os (after_queries (?ws Exited) [Some m] ms) (after_queries (?ws Exited) [] (ms @ [Some m]))"
    using select_metric [of "after_queries (?ws Exited) [Some m] ms" "Some m" "[]" os] by simp
  ultimately show ?thesis by (meson fanout_run rtranclp.rtrancl_refl)
qed

lemma successes_run:
  "os = xs @ ys \<Longrightarrow> first_failure xs = None \<Longrightarrow>
   (fanout_step os)\<^sup>*\<^sup>* (fanout_start os) (after_queries (replicate (length xs) Exited @ replicate (length ys) Querying) [] (map sent xs))"
proof (induction xs arbitrary: ys rule: rev_induct)
  case Nil
  then show ?case by (simp add: fanout_start_def)
next
  case (snoc x xs)
  have split: "first_failure (xs @ [x]) = None \<longleftrightarrow> first_failure xs = None \<and> (\<exists>m. x = Inr m)" by (induction xs rule: first_failure.induct) (cases x; auto)+
  then obtain m where m: "x = Inr m" "first_failure xs = None" using snoc.prems by auto
  have "(fanout_step os)\<^sup>*\<^sup>* (fanout_start os) (after_queries (replicate (length xs) Exited @ Querying # replicate (length ys) Querying) [] (map sent xs))"
    using snoc.IH [of "x # ys"] snoc.prems m by simp
  from rtranclp_trans [OF this success_steps [of os xs m ys "map sent xs"]] show ?case
    using snoc.prems m by (simp add: replicate_append_same [symmetric])
qed

lemma first_failure_split: "first_failure os = Some e \<Longrightarrow> \<exists>xs ys. os = xs @ Inl e # ys \<and> first_failure xs = None"
proof (induction os rule: first_failure.induct)
  case (2 e' os)
  then show ?case by (auto intro: exI [of _ "[]"])
next
  case (3 m os)
  then obtain xs ys where "os = xs @ Inl e # ys" "first_failure xs = None" by auto
  then have "Inr m # os = (Inr m # xs) @ Inl e # ys \<and> first_failure (Inr m # xs) = None" by simp
  then show ?case by blast
qed simp

lemma failure_steps:
  assumes "os = xs @ Inl e # ys"
  shows "\<exists>s. (fanout_step os)\<^sup>*\<^sup>* (after_queries (replicate (length xs) Exited @ Querying # replicate (length ys) Querying) [] ms) s \<and> fo_Result s = Some (Inl e)"
proof -
  let ?ws = "\<lambda>w. replicate (length xs) Exited @ w # replicate (length ys) Querying"
  let ?s = "(after_queries (?ws (SendingData None)) [] ms)\<lparr>fo_ErrChan := [e]\<rparr>"
  have "fanout_step os (after_queries (?ws Querying) [] ms) (after_queries (?ws (SendingErr e)) [] ms)"
    using query_ends [of "length xs" "after_queries (?ws Querying) [] ms" os] assms by (simp add: nth_append list_update_append queried_def)
  moreover have "fanout_step os (after_queries (?ws (SendingErr e)) [] ms) ?s"
    using send_error [of "length xs" "after_queries (?ws (SendingErr e)) [] ms" e os] by (simp add: nth_append list_update_append)
  moreover have "fanout_step os ?s (?s\<lparr>fo_ErrChan := [], fo_Result := Some (Inl e)\<rparr>)"
    using select_error [of ?s e "[]" os] by simp
  ultimately have "(fanout_step os)\<^sup>*\<^sup>* (after_queries (?ws Querying) [] ms) (?s\<lparr>fo_ErrChan := [], fo_Result := Some (Inl e)\<rparr>)"
    by (meson fanout_run rtranclp.rtrancl_refl)
  then show ?thesis by (auto intro!: exI [of _ "?s\<lparr>fo_ErrChan := [], fo_Result := Some (Inl e)\<rparr>"])
qed

lemma in_order_possible: "\<exists>s. (fanout_step os)\<^sup>*\<^sup>* (fanout_start os) s \<and> fo_Result s = Some (in_order os)"
proof (cases "first_failure os")
  case None
  let ?s = "after_queries (replicate (length os) Exited) [] (map sent os)"
  have "(fanout_step os)\<^sup>*\<^sup>* (fanout_start os) ?s" using successes_run [of os os "[]"] None by simp
  moreover have "fanout_step os ?s (?s\<lparr>fo_Done := True\<rparr>)" using close_done [of ?s os] by simp
  moreover have "fanout_step os (?s\<lparr>fo_Done := True\<rparr>) (?s\<lparr>fo_Done := True, fo_Result := Some (Inr (map sent os))\<rparr>)"
    using select_done [of "?s\<lparr>fo_Done := True\<rparr>" os] by simp
  ultimately have "(fanout_step os)\<^sup>*\<^sup>* (fanout_start os) (?s\<lparr>fo_Done := True, fo_Result := Some (Inr (map sent os))\<rparr>)"
    by (meson rtranclp.rtrancl_into_rtrancl)
  then show ?thesis using None by (auto simp: in_order_def)
next
  case (Some e)
  then obtain xs ys where os: "os = xs @ Inl e # ys" "first_failure xs = None" using first_failure_split by blast
  have "(fanout_step os)\<^sup>*\<^sup>* (fanout_start os) (after_queries (replicate (length xs) Exited @ Querying # replicate (length ys) Querying) [] (map sent xs))"
    using successes_run [OF os] by simp
  then show ?thesis using failure_steps [OF os(1), of "map sent xs"] Some by (auto simp: in_order_def intro: rtranclp_trans)
qed

section \<open>Witnesses\<close>

theorem getMetrics_returns_witness:
  "\<exists>s. (fanout_step [Inr (), Inl not_found] ^^ 1) (fanout_start [Inr (), Inl not_found]) s \<and> fo_Result s = None \<and> (\<exists>t. fanout_step [Inr (), Inl not_found] s t)"
proof -
  let ?os = "[Inr (), Inl not_found]" and ?s = "(fanout_start [Inr (), Inl not_found])\<lparr>fo_Workers := [SendingData (Some ()), Querying]\<rparr>"
  have run: "(fanout_step ?os ^^ 1) (fanout_start ?os) ?s"
    using query_ends [of 0 "fanout_start ?os" ?os] by (simp add: fanout_start_def queried_def eq_OO)
  moreover have "fo_Result ?s = None" by (simp add: fanout_start_def)
  ultimately show ?thesis using getMetrics_returns [OF run] by blast
qed

end
