(* ===== verification/Cloud_Metrics.thy ===== *)
theory Cloud_Metrics
  imports AWS_Redis AWS_RDS GCP_Redis GCP_SQL Metrics Metrics_Fanout
begin

text \<open>
  Scraping the metrics of the cloud providers: the metrics providers of AWS and GCP (\<^verbatim>\<open>provider_postgres_metrics.go\<close>,
  \<^verbatim>\<open>provider_redis_metrics.go\<close>) and the controller that exposes what they return (\<^verbatim>\<open>controllers/cloudmetrics\<close>).
\<close>

section \<open>Metrics\<close>

text \<open>A value is a real number, None is \<^verbatim>\<open>NaN\<close>. The rounding of the floating-point operations is not modelled.\<close>

type_synonym float64 = "real option"

record genericCloudMetric =
  gm_Name :: string
  gm_Labels :: labels
  gm_Value :: float64

record cloudProviderMetricType =
  mt_PrometheusMetricName :: string
  mt_ProviderMetricName :: string
  mt_Statistic :: string

text \<open>The only requests of the controller: setting a gauge.\<close>

datatype gauge_req = SetGauge string "string list" float64

type_synonym ('w, 'a) mop = "('w, gauge_req, 'a) kop"

definition MetricsWatchDuration :: int where
  "MetricsWatchDuration = 5 * 60 * 1000000000"

section \<open>AWS\<close>

record metricDataQuery =
  mdq_Id :: string
  mdq_MetricName :: string
  mdq_Namespace :: string
  mdq_Dimension :: "string \<times> string"
  mdq_Stat :: string
  mdq_Period :: int

record metricDataResult =
  mdr_Id :: "string option"
  mdr_StatusCode :: "string option"
  mdr_Values :: "real option list"

record memberGroup =
  mg_ReplicationGroupId :: "string option"
  mg_MemberClusters :: "string option list"

text \<open>CloudWatch and ElastiCache are parameters; a query has a start and an end.\<close>

record 'w awsMetricsProvider =
  am_Client :: "'w kube"
  am_CredentialManager :: aws_credential_manager
  am_ConfigManager :: configMapConfigManager
  am_Codec :: aws_codec
  am_Files :: files
  am_Must :: "string \<Rightarrow> bool"
  am_GetMetricData :: "session \<Rightarrow> metricDataQuery list \<Rightarrow> int \<Rightarrow> int \<Rightarrow> 'w \<Rightarrow> (error + metricDataResult list) \<times> 'w"
  am_DescribeReplicationGroups :: "session \<Rightarrow> 'w \<Rightarrow> (error + memberGroup list) \<times> 'w"
  am_Now :: "'w \<Rightarrow> int \<times> 'w"

text \<open>\<^verbatim>\<open>int64(d.Seconds())\<close> of a duration.\<close>

definition whole_seconds :: "int \<Rightarrow> int" where
  "whole_seconds d = (if d < 0 then - (- d div 1000000000) else d div 1000000000)"

definition metric_query :: "env \<Rightarrow> string \<Rightarrow> string \<times> string \<Rightarrow> cloudProviderMetricType \<Rightarrow> metricDataQuery" where
  "metric_query env ns dimension m = \<lparr>mdq_Id = mt_PrometheusMetricName m, mdq_MetricName = mt_ProviderMetricName m, mdq_Namespace = ns,
     mdq_Dimension = dimension, mdq_Stat = mt_Statistic m, mdq_Period = whole_seconds (GetMetricReconcileTimeOrDefault env MetricsWatchDuration)\<rparr>"

definition buildRDSMetricDataQuery :: "env \<Rightarrow> cloudProviderMetricType list \<Rightarrow> string \<Rightarrow> metricDataQuery list" where
  "buildRDSMetricDataQuery env metricTypes resourceID = map (metric_query env ''AWS/RDS'' (''DBInstanceIdentifier'', resourceID)) metricTypes"

definition buildRedisMetricDataQuery :: "env \<Rightarrow> string \<Rightarrow> cloudProviderMetricType list \<Rightarrow> metricDataQuery list" where
  "buildRedisMetricDataQuery env cacheClusterId metricTypes = map (metric_query env ''AWS/ElastiCache'' (''CacheClusterId'', cacheClusterId)) metricTypes"

definition get_metric_data :: "'w awsMetricsProvider \<Rightarrow> session \<Rightarrow> metricDataQuery list \<Rightarrow> ('w, metricDataResult list) mop" where
  "get_metric_data p sess queries =
     andThen (ask (am_Now p)) (\<lambda>t1. andThen (ask (am_Now p)) (\<lambda>t2.
       query (am_GetMetricData p sess queries (t1 - GetMetricReconcileTimeOrDefault (kube_env (am_Client p)) MetricsWatchDuration) t2)))"

text \<open>The loops over the results and their values; only complete results count.\<close>

definition parse_values :: "string option \<Rightarrow> labels \<Rightarrow> genericCloudMetric list \<Rightarrow> real option list \<Rightarrow> ('w, genericCloudMetric list) mop" where
  "parse_values ident ls = for_fold (\<lambda>metrics v.
     andThen (deref ident) (\<lambda>name. andThen (deref v) (\<lambda>x. ret (metrics @ [\<lparr>gm_Name = name, gm_Labels = ls, gm_Value = Some x\<rparr>]))))"

definition parse_results :: "labels \<Rightarrow> genericCloudMetric list \<Rightarrow> metricDataResult list \<Rightarrow> ('w, genericCloudMetric list) mop" where
  "parse_results ls = for_fold (\<lambda>metrics d. andThen (deref (mdr_StatusCode d)) (\<lambda>code.
     if code \<noteq> ''Complete'' then ret metrics else parse_values (mdr_Id d) ls metrics (mdr_Values d)))"

definition building_name :: "('w, string) mop \<Rightarrow> ('w, string) mop" where
  "building_name m = andThen (attempt m) (\<lambda>r. case r of
     Inl e \<Rightarrow> throw (ErrNew (''error occurred building instance name: '' @ error_text e)) | Inr n \<Rightarrow> ret n)"

definition scrapeRDSCloudWatchMetricData :: "'w awsMetricsProvider \<Rightarrow> session \<Rightarrow> cr \<Rightarrow> cloudProviderMetricType list \<Rightarrow> ('w, genericCloudMetric list) mop" where
  "scrapeRDSCloudWatchMetricData p sess pg metricTypes =
     (let k = am_Client p in
      andThen (building_name (BuildInfraNameFromObject k (cr_meta pg) defaultAwsIdentifierLength)) (\<lambda>resourceID.
      andThen (wrapping ''error getting metric for rds'' (get_metric_data p sess (buildRDSMetricDataQuery (kube_env k) metricTypes resourceID))) (\<lambda>results.
      andThen (wrapping ''error getting clusterID'' (GetClusterID k)) (\<lambda>clusterID.
      if results = [] then throw (ErrNew ''no metric data returned from rds cloudwatch'')
      else parse_results (BuildGenericMetricLabels (cr_meta pg) clusterID resourceID postgresProviderName) [] results))))"

text \<open>An error about a member of the group is logged, the next one is asked.\<close>

definition scrape_member :: "'w awsMetricsProvider \<Rightarrow> session \<Rightarrow> cr \<Rightarrow> string \<Rightarrow> cloudProviderMetricType list \<Rightarrow> genericCloudMetric list \<Rightarrow> string option \<Rightarrow>
    ('w, genericCloudMetric list) mop" where
  "scrape_member p sess r clusterID metricTypes metrics member =
     andThen (deref member) (\<lambda>cacheClusterId.
     andThen (attempt (get_metric_data p sess (buildRedisMetricDataQuery (kube_env (am_Client p)) cacheClusterId metricTypes))) (\<lambda>out. case out of
       Inl _ \<Rightarrow> ret metrics
     | Inr results \<Rightarrow> parse_results (BuildGenericMetricLabels (cr_meta r) clusterID cacheClusterId redisProviderName) metrics results))"

fun find_group :: "memberGroup list \<Rightarrow> string \<Rightarrow> ('w, memberGroup option) mop" where
  "find_group [] resourceID = ret None"
| "find_group (g # gs) resourceID = andThen (deref (mg_ReplicationGroupId g)) (\<lambda>i. if i = resourceID then ret (Some g) else find_group gs resourceID)"

definition scrapeRedisCloudWatchMetricData :: "'w awsMetricsProvider \<Rightarrow> session \<Rightarrow> cr \<Rightarrow> cloudProviderMetricType list \<Rightarrow> ('w, genericCloudMetric list) mop" where
  "scrapeRedisCloudWatchMetricData p sess r metricTypes =
     (let k = am_Client p in
      andThen (building_name (BuildInfraNameFromObject k (cr_meta r) defaultAwsIdentifierLength)) (\<lambda>resourceID.
      andThen (wrapping ''error getting clusterID'' (GetClusterID k)) (\<lambda>clusterID.
      andThen (wrapping ''failed redis metrics to describe replicationGroups'' (query (am_DescribeReplicationGroups p sess))) (\<lambda>groups.
      andThen (find_group groups resourceID) (\<lambda>found. case found of
        None \<Rightarrow> throw (ErrNew ''redis metrics failed to find cache in replication group'')
      | Some g \<Rightarrow> for_fold (scrape_member p sess r clusterID metricTypes) [] (mg_MemberClusters g))))))"

definition aws_ScrapePostgresMetrics :: "'w awsMetricsProvider \<Rightarrow> cr \<Rightarrow> cloudProviderMetricType list \<Rightarrow> ('w, genericCloudMetric option list) mop" where
  "aws_ScrapePostgresMetrics p pg metricTypes =
     (let k = am_Client p in
      andThen (wrapping ''failed to read postgres aws strategy config'' (ReadStorageStrategy k (am_ConfigManager p) ''postgres'' (spec_Tier (cr_spec pg)))) (\<lambda>cfg.
      andThen (wrapping ''failed to reconcile rds credentials'' (ReconcileProviderCredentials k (am_Codec p) (am_CredentialManager p) (om_Namespace (cr_meta pg)))) (\<lambda>creds.
      andThen (wrapping ''failed to create aws session to scrape rds cloud watch metrics'' (CreateSessionFromStrategy k (am_Files p) (am_Must p) creds cfg)) (\<lambda>sess.
      andThen (wrapping ''failed to scrape rds cloud watch metrics'' (scrapeRDSCloudWatchMetricData p sess pg metricTypes)) (\<lambda>ms. ret (map Some ms))))))"

definition aws_ScrapeRedisMetrics :: "'w awsMetricsProvider \<Rightarrow> cr \<Rightarrow> cloudProviderMetricType list \<Rightarrow> ('w, genericCloudMetric option list) mop" where
  "aws_ScrapeRedisMetrics p r metricTypes =
     (let k = am_Client p in
      andThen (wrapping ''failed to read redis aws strategy config'' (ReadStorageStrategy k (am_ConfigManager p) ''redis'' (spec_Tier (cr_spec r)))) (\<lambda>cfg.
      andThen (wrapping ''failed to reconcile elasticache credentials'' (ReconcileProviderCredentials k (am_Codec p) (am_CredentialManager p) (om_Namespace (cr_meta r)))) (\<lambda>creds.
      andThen (wrapping ''failed to create aws session to scrape elasticache cloud watch metrics'' (CreateSessionFromStrategy k (am_Files p) (am_Must p) creds cfg)) (\<lambda>sess.
      andThen (wrapping ''failed to scrape elasticache cloud watch metrics'' (scrapeRedisCloudWatchMetricData p sess r metricTypes)) (\<lambda>ms. ret (map Some ms))))))"

section \<open>GCP\<close>

record timeSeriesRequest =
  tsr_Name :: string
  tsr_Filter :: string
  tsr_Aligner :: int
  tsr_AlignmentPeriod :: int
  tsr_Reducer :: string
  tsr_Interval :: "int \<times> int"

text \<open>
  The monitoring client answers with the series it iterated over, each the values of its points, and the error that ended
  the iteration, if any. The number of an aligner and the order in which the goroutines run are parameters too.
\<close>

record 'w gcpMetricsProvider =
  gmp_Client :: "'w kube"
  gmp_ConfigManager :: configMapConfigManager
  gmp_Codec :: gcp_codec
  gmp_NewMetricAPI :: "string \<Rightarrow> error option"
  gmp_IterateTimeSeries :: "string \<Rightarrow> timeSeriesRequest \<Rightarrow> 'w \<Rightarrow> (real list list \<times> error option) \<times> 'w"
  gmp_AlignerValue :: "string \<Rightarrow> int"
  gmp_Select :: "(error + genericCloudMetric) list \<Rightarrow> 'w \<Rightarrow> (error + genericCloudMetric option list) \<times> 'w"
  gmp_Now :: "'w \<Rightarrow> int \<times> 'w"

record getMetricsOpts =
  gmo_FilterSuffix :: string
  gmo_IdLabel :: string
  gmo_ResourceType :: string
  gmo_ProjectID :: string
  gmo_InstanceID :: string
  gmo_DefaultLabels :: labels

definition metric_filter :: "getMetricsOpts \<Rightarrow> string \<Rightarrow> string" where
  "metric_filter opts metric = ''resource.type='' @ quoted (gmo_ResourceType opts) @ '' resource.labels.'' @ gmo_IdLabel opts @ ''='' @ quoted (gmo_InstanceID opts) @
     '' metric.type='' @ quoted metric @ gmo_FilterSuffix opts"

definition ListTimeSeries :: "'w gcpMetricsProvider \<Rightarrow> string \<Rightarrow> timeSeriesRequest \<Rightarrow> ('w, real list list) mop" where
  "ListTimeSeries p account req = andThen (ask (gmp_IterateTimeSeries p account req)) (\<lambda>(series, e). case e of
     Some err \<Rightarrow> throw err
   | None \<Rightarrow> if series = [] then throw (ErrNew ''could not find any time series'') else ret series)"

text \<open>The average of no points is 0 / 0.\<close>

definition calculatePointsAverage :: "real list \<Rightarrow> float64" where
  "calculatePointsAverage points = (if points = [] then None else Some (sum_list points / real (length points)))"

definition round_half_away :: "real \<Rightarrow> real" where
  "round_half_away x = (if x < 0 then - real_of_int \<lfloor>- x + 1 / 2\<rfloor> else real_of_int \<lfloor>x + 1 / 2\<rfloor>)"

definition roundFloat :: "real \<Rightarrow> nat \<Rightarrow> real" where
  "roundFloat val precision = round_half_away (val * 10 ^ precision) / 10 ^ precision"

definition getMetricData :: "'w gcpMetricsProvider \<Rightarrow> string \<Rightarrow> cloudProviderMetricType \<Rightarrow> string \<Rightarrow> string \<Rightarrow> string \<Rightarrow> int \<times> int \<Rightarrow> labels \<Rightarrow>
    ('w, genericCloudMetric) mop" where
  "getMetricData p account metric projectID flt reducer interval ls =
     andThen (wrapping ''error listing time series'' (ListTimeSeries p account \<lparr>tsr_Name = projectID, tsr_Filter = flt, tsr_Aligner = gmp_AlignerValue p (mt_Statistic metric),
        tsr_AlignmentPeriod = MetricsWatchDuration, tsr_Reducer = reducer, tsr_Interval = interval\<rparr>)) (\<lambda>series. case series of
       [] \<Rightarrow> crash
     | points # _ \<Rightarrow> ret \<lparr>gm_Name = mt_PrometheusMetricName metric, gm_Labels = ls, gm_Value = calculatePointsAverage points\<rparr>)"

definition recent :: "'w gcpMetricsProvider \<Rightarrow> ('w, int \<times> int) mop" where
  "recent p = andThen (ask (gmp_Now p)) (\<lambda>t1. andThen (ask (gmp_Now p)) (\<lambda>t2.
     ret (t1 - GetMetricReconcileTimeOrDefault (kube_env (gmp_Client p)) MetricsWatchDuration, t2)))"

definition query_metric :: "'w gcpMetricsProvider \<Rightarrow> string \<Rightarrow> getMetricsOpts \<Rightarrow> cloudProviderMetricType \<Rightarrow> ('w, genericCloudMetric) mop" where
  "query_metric p account opts metric = andThen (recent p) (\<lambda>interval.
     getMetricData p account metric (gmo_ProjectID opts) (metric_filter opts (mt_ProviderMetricName metric)) ''REDUCE_NONE'' interval (gmo_DefaultLabels opts))"

text \<open>The queries are answered one by one; which result the loop over the channels returns depends on the order of the goroutines.\<close>

definition getMetrics :: "'w gcpMetricsProvider \<Rightarrow> string \<Rightarrow> getMetricsOpts \<Rightarrow> cloudProviderMetricType list \<Rightarrow> ('w, genericCloudMetric option list) mop" where
  "getMetrics p account opts metricsToQuery =
     andThen (for_fold (\<lambda>os m. andThen (attempt (query_metric p account opts m)) (\<lambda>r. ret (os @ [r]))) [] metricsToQuery) (\<lambda>os.
       query (gmp_Select p os))"

fun split_dash :: "string \<Rightarrow> string list" where
  "split_dash [] = ['''']"
| "split_dash (ch # s) = (if ch = CHR ''-'' then '''' # split_dash s
     else (case split_dash s of [] \<Rightarrow> [[ch]] | w # ws \<Rightarrow> (ch # w) # ws))"

definition lift_float :: "(real \<Rightarrow> real) \<Rightarrow> float64 \<Rightarrow> float64 \<Rightarrow> float64" where
  "lift_float f x y = (case (x, y) of (Some a, Some b) \<Rightarrow> Some (f (a - b)) | _ \<Rightarrow> None)"

definition calculateAvailableMemory :: "'w gcpMetricsProvider \<Rightarrow> string \<Rightarrow> cloudProviderMetricType \<Rightarrow> getMetricsOpts \<Rightarrow> ('w, genericCloudMetric) mop" where
  "calculateAvailableMemory p account compound opts = (case split_dash (mt_ProviderMetricName compound) of
     maxName # usedName # _ \<Rightarrow>
       andThen (recent p) (\<lambda>interval.
       let get = (\<lambda>name. getMetricData p account \<lparr>mt_PrometheusMetricName = '''', mt_ProviderMetricName = name, mt_Statistic = mt_Statistic compound\<rparr>
             (gmo_ProjectID opts) (metric_filter opts name) ''REDUCE_NONE'' interval (gmo_DefaultLabels opts)) in
       andThen (get maxName) (\<lambda>maxMemory. andThen (get usedName) (\<lambda>usedMemory.
         ret \<lparr>gm_Name = mt_PrometheusMetricName compound, gm_Labels = gmo_DefaultLabels opts,
              gm_Value = lift_float (\<lambda>d. roundFloat d 2) (gm_Value maxMemory) (gm_Value usedMemory)\<rparr>)))
   | _ \<Rightarrow> crash)"

text \<open>The sample is divided by the default duration in seconds; a negative difference counts as no usage.\<close>

definition cpu_usage :: "real \<Rightarrow> real" where
  "cpu_usage d = roundFloat (max 0 (d / real_of_int (MetricsWatchDuration div 1000000000))) 2"

definition calculateCpuUtilization :: "'w gcpMetricsProvider \<Rightarrow> string \<Rightarrow> cloudProviderMetricType \<Rightarrow> getMetricsOpts \<Rightarrow> ('w, genericCloudMetric) mop" where
  "calculateCpuUtilization p account metric opts =
     andThen (ask (gmp_Now p)) (\<lambda>now.
     let env = kube_env (gmp_Client p);
         minutesAgo = now - GetMetricReconcileTimeOrDefault env MetricsWatchDuration;
         minutesAgoDoubled = now - GetMetricReconcileTimeOrDefault env (MetricsWatchDuration * 2);
         get = (\<lambda>interval. getMetricData p account metric (gmo_ProjectID opts) (metric_filter opts (mt_ProviderMetricName metric)) ''REDUCE_SUM'' interval (gmo_DefaultLabels opts)) in
     andThen (get (minutesAgo, now)) (\<lambda>current. andThen (get (minutesAgoDoubled, minutesAgo)) (\<lambda>previous.
       ret \<lparr>gm_Name = mt_PrometheusMetricName metric, gm_Labels = gmo_DefaultLabels opts, gm_Value = lift_float cpu_usage (gm_Value current) (gm_Value previous)\<rparr>)))"

text \<open>The loop over the metric types computes some metrics at once and collects the others.\<close>

definition split_metrics :: "(cloudProviderMetricType \<Rightarrow> ('w, genericCloudMetric) mop option) \<Rightarrow> cloudProviderMetricType list \<Rightarrow>
    ('w, genericCloudMetric list \<times> cloudProviderMetricType list) mop" where
  "split_metrics compute types = for_fold (\<lambda>(ms, rest) m. case compute m of
     Some c \<Rightarrow> andThen c (\<lambda>x. ret (ms @ [x], rest)) | None \<Rightarrow> ret (ms, rest @ [m])) ([], []) types"

definition postgres_compute :: "'w gcpMetricsProvider \<Rightarrow> string \<Rightarrow> getMetricsOpts \<Rightarrow> cloudProviderMetricType \<Rightarrow> ('w, genericCloudMetric) mop option" where
  "postgres_compute p account opts m = (if IsCompoundMetric (mt_PrometheusMetricName m)
     then Some (wrapping (''failed to calculate postgres compound metric '' @ mt_PrometheusMetricName m) (calculateAvailableMemory p account m opts)) else None)"

definition redis_compute :: "'w gcpMetricsProvider \<Rightarrow> string \<Rightarrow> getMetricsOpts \<Rightarrow> cloudProviderMetricType \<Rightarrow> ('w, genericCloudMetric) mop option" where
  "redis_compute p account opts m = (if IsCompoundMetric (mt_PrometheusMetricName m)
     then Some (wrapping (''failed to calculate redis compound metric '' @ mt_PrometheusMetricName m) (calculateAvailableMemory p account m opts))
     else if IsComputedCpuMetric (mt_PrometheusMetricName m)
     then Some (wrapping (''failed to calculate redis cpu utilization metric '' @ mt_ProviderMetricName m) (calculateCpuUtilization p account m opts)) else None)"

definition gcp_scrape :: "'w gcpMetricsProvider \<Rightarrow> string \<Rightarrow> cr \<Rightarrow> (strategyConfig \<Rightarrow> string \<Rightarrow> string \<Rightarrow> getMetricsOpts) \<Rightarrow>
    ('w gcpMetricsProvider \<Rightarrow> string \<Rightarrow> getMetricsOpts \<Rightarrow> cloudProviderMetricType \<Rightarrow> ('w, genericCloudMetric) mop option) \<Rightarrow>
    cloudProviderMetricType list \<Rightarrow> ('w, genericCloudMetric option list) mop" where
  "gcp_scrape p what inst mkOpts compute metricTypes =
     (let k = gmp_Client p in
      andThen (wrapping (''failed to retrieve '' @ what @ '' strategy config'') (gcp_ReadStorageStrategy k (gmp_ConfigManager p) what (spec_Tier (cr_spec inst)))) (\<lambda>cfg.
      andThen (wrapping (''failed to reconcile '' @ what @ '' provider credentials'') (gcp_ReconcileProviderCredentials k (gmp_Codec p) (om_Namespace (cr_meta inst)))) (\<lambda>creds.
      let account = gcred_ServiceAccountJson creds in
      andThen (case gmp_NewMetricAPI p account of None \<Rightarrow> ret () | Some e \<Rightarrow> throw (ErrWrap e ''failed to initialise metric client'')) (\<lambda>_.
      andThen (wrapping ''error getting cluster id'' (GetClusterID k)) (\<lambda>clusterID.
      andThen (wrapping ''error building instance id'' (BuildInfraNameFromObject k (cr_meta inst) defaultGcpIdentifierLength)) (\<lambda>instanceID.
      let opts = mkOpts cfg clusterID instanceID in
      andThen (split_metrics (compute p account opts) metricTypes) (\<lambda>(computed, toQuery).
      andThen (wrapping (''failed to get '' @ what @ '' metrics data'') (getMetrics p account opts toQuery)) (\<lambda>remaining.
        ret (map Some computed @ remaining)))))))))"

definition postgres_opts :: "cr \<Rightarrow> strategyConfig \<Rightarrow> string \<Rightarrow> string \<Rightarrow> getMetricsOpts" where
  "postgres_opts pg cfg clusterID instanceID = \<lparr>gmo_FilterSuffix = '''', gmo_IdLabel = ''database_id'', gmo_ResourceType = ''cloudsql_database'',
     gmo_ProjectID = ''projects/'' @ sc_ProjectID cfg, gmo_InstanceID = sc_ProjectID cfg @ '':'' @ instanceID,
     gmo_DefaultLabels = BuildGenericMetricLabels (cr_meta pg) clusterID instanceID gcp_postgresProviderName\<rparr>"

definition redis_opts :: "cr \<Rightarrow> strategyConfig \<Rightarrow> string \<Rightarrow> string \<Rightarrow> getMetricsOpts" where
  "redis_opts r cfg clusterID instanceID = \<lparr>gmo_FilterSuffix = '' metric.label.role=primary'', gmo_IdLabel = ''instance_id'', gmo_ResourceType = ''redis_instance'',
     gmo_ProjectID = ''projects/'' @ sc_ProjectID cfg, gmo_InstanceID = redis_instance_name cfg instanceID,
     gmo_DefaultLabels = BuildGenericMetricLabels (cr_meta r) clusterID instanceID gcp_redisProviderName\<rparr>"

definition gcp_ScrapePostgresMetrics :: "'w gcpMetricsProvider \<Rightarrow> cr \<Rightarrow> cloudProviderMetricType list \<Rightarrow> ('w, genericCloudMetric option list) mop" where
  "gcp_ScrapePostgresMetrics p pg metricTypes = gcp_scrape p ''postgres'' pg (postgres_opts pg) postgres_compute metricTypes"

definition gcp_ScrapeRedisMetrics :: "'w gcpMetricsProvider \<Rightarrow> cr \<Rightarrow> cloudProviderMetricType list \<Rightarrow> ('w, genericCloudMetric option list) mop" where
  "gcp_ScrapeRedisMetrics p r metricTypes = gcp_scrape p ''redis'' r (redis_opts r) redis_compute metricTypes"

section \<open>The controller\<close>

record croGaugeMetric =
  cg_Name :: string
  cg_ProviderType :: "string \<rightharpoonup> cloudProviderMetricType"

definition gauge_metric :: "string \<Rightarrow> string option \<Rightarrow> string option \<Rightarrow> croGaugeMetric" where
  "gauge_metric name aws gcp = (let of_stat = (\<lambda>stat m. \<lparr>mt_PrometheusMetricName = name, mt_ProviderMetricName = m, mt_Statistic = stat\<rparr>) in
     \<lparr>cg_Name = name, cg_ProviderType = (\<lambda>strategy. if strategy = ''aws'' then map_option (of_stat ''Average'') aws
        else if strategy = ''gcp'' then map_option (of_stat ''ALIGN_MEAN'') gcp else None)\<rparr>)"

definition postgresGaugeMetrics :: "croGaugeMetric list" where
  "postgresGaugeMetrics = [
     gauge_metric ''cro_postgres_free_storage_average'' (Some ''FreeStorageSpace'')
       (Some ''cloudsql.googleapis.com/database/disk/quota-cloudsql.googleapis.com/database/disk/bytes_used''),
     gauge_metric ''cro_postgres_cpu_utilization_average'' (Some ''CPUUtilization'') (Some ''cloudsql.googleapis.com/database/cpu/utilization''),
     gauge_metric ''cro_postgres_freeable_memory_average'' (Some ''FreeableMemory'')
       (Some ''cloudsql.googleapis.com/database/memory/quota-cloudsql.googleapis.com/database/memory/total_usage''),
     gauge_metric ''cro_postgres_max_memory'' None (Some ''cloudsql.googleapis.com/database/memory/quota''),
     gauge_metric ''cro_postgres_current_allocated_storage'' None (Some ''cloudsql.googleapis.com/database/disk/bytes_used'')]"

definition redisGaugeMetrics :: "croGaugeMetric list" where
  "redisGaugeMetrics = [
     gauge_metric ''cro_redis_memory_usage_percentage_average'' (Some ''DatabaseMemoryUsagePercentage'') (Some ''redis.googleapis.com/stats/memory/usage_ratio''),
     gauge_metric ''cro_redis_freeable_memory_average'' (Some ''FreeableMemory'')
       (Some ''redis.googleapis.com/stats/memory/maxmemory-redis.googleapis.com/stats/memory/usage''),
     gauge_metric ''cro_redis_cpu_utilization_average'' (Some ''CPUUtilization'') (Some ''redis.googleapis.com/stats/cpu_utilization''),
     gauge_metric ''cro_redis_engine_cpu_utilization_average'' (Some ''EngineCPUUtilization'') (Some ''redis.googleapis.com/stats/cpu_utilization_main_thread'')]"

definition genericMetricLabelNames :: "string list" where
  "genericMetricLabelNames = [''clusterID'', ''resourceID'', ''namespace'', ''instanceID'', ''productName'', ''strategy'']"

definition registerGaugeVectorMetrics :: "metrics \<Rightarrow> metrics option" where
  "registerGaugeVectorMetrics m = fold (\<lambda>g acc. case acc of None \<Rightarrow> None
     | Some m \<Rightarrow> if cg_Name g \<in> Registered m then None
         else Some (m\<lparr>MetricVecs := (MetricVecs m)(cg_Name g \<mapsto> \<lparr>gv_Names = set genericMetricLabelNames, gv_Values = Map.empty\<rparr>),
                      Registered := insert (cg_Name g) (Registered m)\<rparr>)) (postgresGaugeMetrics @ redisGaugeMetrics) (Some m)"

definition metric_types :: "croGaugeMetric list \<Rightarrow> string \<Rightarrow> cloudProviderMetricType list" where
  "metric_types gauges strategy = List.map_filter (\<lambda>g. cg_ProviderType g strategy) gauges"

text \<open>A metrics provider: the strategies it supports and how it scrapes a resource.\<close>

record 'w metricsProvider =
  mp_SupportsStrategy :: "string \<Rightarrow> bool"
  mp_Scrape :: "cr \<Rightarrow> cloudProviderMetricType list \<Rightarrow> ('w, genericCloudMetric option list) mop"

definition postgresProviderList :: "'w awsMetricsProvider \<Rightarrow> 'w gcpMetricsProvider \<Rightarrow> 'w metricsProvider list" where
  "postgresProviderList a g = [\<lparr>mp_SupportsStrategy = (\<lambda>s. s = ''aws''), mp_Scrape = aws_ScrapePostgresMetrics a\<rparr>,
     \<lparr>mp_SupportsStrategy = (\<lambda>s. s = ''gcp''), mp_Scrape = gcp_ScrapePostgresMetrics g\<rparr>]"

definition redisProviderList :: "'w awsMetricsProvider \<Rightarrow> 'w gcpMetricsProvider \<Rightarrow> 'w metricsProvider list" where
  "redisProviderList a g = [\<lparr>mp_SupportsStrategy = (\<lambda>s. s = ''aws''), mp_Scrape = aws_ScrapeRedisMetrics a\<rparr>,
     \<lparr>mp_SupportsStrategy = (\<lambda>s. s = ''gcp''), mp_Scrape = gcp_ScrapeRedisMetrics g\<rparr>]"

definition scrape_instance :: "croGaugeMetric list \<Rightarrow> 'w metricsProvider list \<Rightarrow> genericCloudMetric option list \<Rightarrow> cr \<Rightarrow> ('w, genericCloudMetric option list) mop" where
  "scrape_instance gauges ps scraped inst = for_fold (\<lambda>scraped p.
     if \<not> mp_SupportsStrategy p (st_Strategy (cr_status inst)) then ret scraped
     else andThen (attempt (mp_Scrape p inst (metric_types gauges (st_Strategy (cr_status inst))))) (\<lambda>r. case r of
       Inl _ \<Rightarrow> ret scraped | Inr ms \<Rightarrow> ret (scraped @ ms))) scraped ps"

definition set_gauge :: "croGaugeMetric \<Rightarrow> genericCloudMetric \<Rightarrow> ('w, unit) mop" where
  "set_gauge g m = (\<lambda>s. (Val (), s\<lparr>trace := trace s @ [EvCloud (SetGauge (cg_Name g) (map (map_get (Some (gm_Labels m))) genericMetricLabelNames) (gm_Value m)) True]\<rparr>))"

definition setGaugeMetrics :: "croGaugeMetric list \<Rightarrow> genericCloudMetric option list \<Rightarrow> ('w, unit) mop" where
  "setGaugeMetrics gauges scraped = for_each (\<lambda>x. for_each (\<lambda>g. andThen (deref x) (\<lambda>m. if gm_Name m = cg_Name g then set_gauge g m else ret ())) gauges) scraped"

text \<open>Failing to list the Postgres resources is logged: none is scraped then. The result is the time until the next pass.\<close>

definition CloudMetrics_Reconcile :: "'w kube \<Rightarrow> 'w metricsProvider list \<Rightarrow> 'w metricsProvider list \<Rightarrow> ('w, int) mop" where
  "CloudMetrics_Reconcile k redisPs postgresPs =
     andThen (query (kube_List k Redis)) (\<lambda>redises.
     andThen (for_fold (scrape_instance redisGaugeMetrics redisPs) [] redises) (\<lambda>scraped.
     andThen (setGaugeMetrics redisGaugeMetrics scraped) (\<lambda>_.
     andThen (attempt (query (kube_List k Postgres))) (\<lambda>r.
     andThen (for_fold (scrape_instance postgresGaugeMetrics postgresPs) scraped (case r of Inl _ \<Rightarrow> [] | Inr pgs \<Rightarrow> pgs)) (\<lambda>scraped'.
     andThen (setGaugeMetrics postgresGaugeMetrics scraped') (\<lambda>_.
       ret (GetMetricReconcileTimeOrDefault (kube_env k) MetricsWatchDuration)))))))"

end
