(* ===== verification/Cloud_Metrics_Safety.thy ===== *)
theory Cloud_Metrics_Safety
  imports Cloud_Metrics
begin

text \<open>What a pass of the metrics controller exposes: exactly what could be scraped, resource by resource.\<close>

section \<open>Gauges\<close>

fun is_gauge :: "gauge_req event \<Rightarrow> bool" where
  "is_gauge (EvCloud (SetGauge _ _ _) _) \<longleftrightarrow> True"
| "is_gauge _ \<longleftrightarrow> False"

definition gauge_event :: "genericCloudMetric \<Rightarrow> gauge_req event" where
  "gauge_event m = EvCloud (SetGauge (gm_Name m) (map (map_get (Some (gm_Labels m))) genericMetricLabelNames) (gm_Value m)) True"

text \<open>A metric is exposed once for every gauge of its name.\<close>

definition exposed :: "croGaugeMetric list \<Rightarrow> genericCloudMetric list \<Rightarrow> gauge_req event list" where
  "exposed gauges ms = concat (map (\<lambda>m. map (\<lambda>_. gauge_event m) (filter (\<lambda>g. cg_Name g = gm_Name m) gauges)) ms)"

lemma is_gauge_event [simp]: "is_gauge (gauge_event m)"
  by (simp add: gauge_event_def)

lemma filter_exposed [simp]: "filter is_gauge (exposed gauges ms) = exposed gauges ms"
  by (auto simp: exposed_def intro!: filter_True)

lemma sys_trace_append [simp]: "s\<lparr>trace := trace s @ []\<rparr> = (s :: ('w, 'e) sys)"
  by simp

lemma set_gauges_run:
  "for_each (\<lambda>g. if gm_Name m = cg_Name g then set_gauge g m else ret ()) gauges s =
     (Val (), s\<lparr>trace := trace s @ map (\<lambda>_. gauge_event m) (filter (\<lambda>g. cg_Name g = gm_Name m) gauges)\<rparr>)"
  by (induction gauges arbitrary: s) (auto simp: andThen_def deref_def ret_def set_gauge_def gauge_event_def)

lemma setGaugeMetrics_Cons:
  "setGaugeMetrics gauges (Some m # xs) s = setGaugeMetrics gauges xs (s\<lparr>trace := trace s @ exposed gauges [m]\<rparr>)"
  by (simp add: setGaugeMetrics_def andThen_def [of "for_each _ _"] set_gauges_run exposed_def)

lemma setGaugeMetrics_run: "setGaugeMetrics gauges (map Some ms) s = (Val (), s\<lparr>trace := trace s @ exposed gauges ms\<rparr>)"
proof (induction ms arbitrary: s)
  case (Cons m ms)
  then show ?case by (simp add: setGaugeMetrics_Cons exposed_def)
qed (simp add: setGaugeMetrics_def exposed_def ret_def)

text \<open>A nil metric is dereferenced.\<close>

lemma setGaugeMetrics_nil:
  "gauges \<noteq> [] \<Longrightarrow> None \<in> set scraped \<Longrightarrow> \<exists>t. setGaugeMetrics gauges scraped s = (Abort Panics, t)"
proof (induction scraped arbitrary: s)
  case (Cons x xs)
  show ?case
  proof (cases x)
    case None
    then show ?thesis using Cons.prems(1) by (cases gauges) (auto simp: setGaugeMetrics_def andThen_def deref_def crash_def)
  qed (use Cons in \<open>simp add: setGaugeMetrics_Cons\<close>)
qed simp

section \<open>A pass\<close>

definition scraped_of :: "(cr \<Rightarrow> cloudProviderMetricType list \<Rightarrow> error + genericCloudMetric list) \<Rightarrow> croGaugeMetric list \<Rightarrow> 'w metricsProvider list \<Rightarrow> cr \<Rightarrow> genericCloudMetric list" where
  "scraped_of answer gauges ps inst = concat (map (\<lambda>p. case answer inst (metric_types gauges (st_Strategy (cr_status inst))) of Inl _ \<Rightarrow> [] | Inr ms \<Rightarrow> ms)
     (filter (\<lambda>p. mp_SupportsStrategy p (st_Strategy (cr_status inst))) ps))"

text \<open>The providers answer with what they scrape from the cloud and set no gauge themselves.\<close>

definition scrapes :: "(cr \<Rightarrow> cloudProviderMetricType list \<Rightarrow> error + genericCloudMetric list) \<Rightarrow> 'w metricsProvider \<Rightarrow> bool" where
  "scrapes answer p \<longleftrightarrow> (\<forall>inst types s. mp_SupportsStrategy p (st_Strategy (cr_status inst)) \<longrightarrow>
     (\<exists>t. mp_Scrape p inst types s = (case answer inst types of Inl e \<Rightarrow> Fail e | Inr ms \<Rightarrow> Val (map Some ms), t) \<and>
        filter is_gauge (trace t) = filter is_gauge (trace s)))"

section \<open>The metrics providers\<close>

text \<open>What the controller relies on: a provider is for one strategy and sets no gauge itself.\<close>

locale metrics_provider =
  fixes p :: "'w metricsProvider" and strategy :: string
  assumes supports: "mp_SupportsStrategy p st \<longleftrightarrow> st = strategy"
    and sets_no_gauge: "only (\<lambda>e. \<not> is_gauge e) (mp_Scrape p inst types)"
begin

lemma skips_others: "st_Strategy (cr_status inst) \<noteq> strategy \<Longrightarrow> scrape_instance gauges [p] acc inst = ret acc"
  by (simp add: scrape_instance_def supports andThen_def ret_def)

lemma scrapes_answer:
  assumes "\<And>inst types s. st_Strategy (cr_status inst) = strategy \<Longrightarrow> fst (mp_Scrape p inst types s) = (case answer inst types of Inl e \<Rightarrow> Fail e | Inr ms \<Rightarrow> Val (map Some ms))"
  shows "scrapes answer p"
  unfolding scrapes_def
proof (intro allI impI)
  fix inst :: cr and types and s :: "('w, gauge_req event) sys"
  assume "mp_SupportsStrategy p (st_Strategy (cr_status inst))"
  then have mine: "st_Strategy (cr_status inst) = strategy" by (simp add: supports)
  obtain t where t: "mp_Scrape p inst types s = (case answer inst types of Inl e \<Rightarrow> Fail e | Inr ms \<Rightarrow> Val (map Some ms), t)"
    using assms [OF mine, of types s] by (cases "mp_Scrape p inst types s") auto
  obtain es where "trace t = trace s @ es" "\<forall>e \<in> set es. \<not> is_gauge e" using onlyD [OF sets_no_gauge t] by blast
  then show "\<exists>t. mp_Scrape p inst types s = (case answer inst types of Inl e \<Rightarrow> Fail e | Inr ms \<Rightarrow> Val (map Some ms), t) \<and>
      filter is_gauge (trace t) = filter is_gauge (trace s)" using t by (auto simp: filter_empty_conv)
qed

end

text \<open>Credentials are the only thing a provider asks the API server to change.\<close>

lemma not_gauge_request: "request_event name ns spec e \<Longrightarrow> \<not> is_gauge e"
  by (cases e) (auto simp: request_event_def)

lemma only_CreateOrUpdate_request: "only (\<lambda>e. \<not> is_gauge e) (CreateOrUpdate_request k name ns spec)"
  unfolding only_def by (rule emits_weaken [OF emits_CreateOrUpdate_request]) (auto dest: not_gauge_request)

lemma only_credential_request: "only (\<lambda>e. \<not> is_gauge e) (reconcileCredentialRequest k encode name ns spec)"
  unfolding reconcileCredentialRequest_def by (intro only_rules only_CreateOrUpdate_request)

lemmas only_credential_parts = only_credential_request only_quiet [OF quiet_poll [OF quiet_credentials(3)]] only_quiet [OF quiet_credentials(4)]
  only_quiet [OF quiet_credentials(5)] only_quiet [OF quiet_credentials(6)]

lemma only_aws_credentials: "only (\<lambda>e. \<not> is_gauge e) (ReconcileProviderCredentials k c cm ns)"
  unfolding ReconcileProviderCredentials_def reconcileCredentials_def
  by (cases cm; simp only: aws_credential_manager.case; intro only_rules only_credential_parts)

lemma only_gcp_credentials: "only (\<lambda>e. \<not> is_gauge e) (gcp_ReconcileProviderCredentials k c ns)"
  unfolding gcp_ReconcileProviderCredentials_def gcp_ReconcileCredentials_def by (intro only_rules only_credential_parts)

lemma quiet_parse: "quiet (parse_values i ls acc vs)" "quiet (parse_results ls acc ds)"
  unfolding parse_results_def parse_values_def by (intro quiet_rules)+

lemma quiet_get_metric_data: "quiet (get_metric_data a sess qs)"
  unfolding get_metric_data_def by (intro quiet_rules)

lemma quiet_find_group: "quiet (find_group gs i)"
  by (induction gs) (auto intro!: quiet_rules)

lemma quiet_building_name: "quiet m \<Longrightarrow> quiet (building_name m)"
  unfolding building_name_def by (intro quiet_rules)

lemma quiet_aws_scrape: "quiet (scrapeRDSCloudWatchMetricData a sess inst types)" "quiet (scrapeRedisCloudWatchMetricData a sess inst types)"
  unfolding scrapeRDSCloudWatchMetricData_def scrapeRedisCloudWatchMetricData_def scrape_member_def Let_def
  by (intro quiet_rules quiet_parse quiet_get_metric_data quiet_find_group quiet_building_name)+

lemma quiet_getMetricData: "quiet (getMetricData g account m project flt reducer interval ls)"
  unfolding getMetricData_def ListTimeSeries_def by (intro quiet_rules)

lemma quiet_query_metric: "quiet (query_metric g account opts m)" "quiet (recent g)"
  unfolding query_metric_def recent_def by (intro quiet_rules quiet_getMetricData)+

lemma quiet_getMetrics: "quiet (getMetrics g account opts ms)"
  unfolding getMetrics_def by (intro quiet_rules quiet_query_metric)

lemma quiet_computed: "quiet (calculateAvailableMemory g account m opts)" "quiet (calculateCpuUtilization g account m opts)"
  unfolding calculateAvailableMemory_def calculateCpuUtilization_def Let_def by (intro quiet_rules quiet_getMetricData quiet_query_metric)+

lemma quiet_split_metrics: "(\<And>m c. compute m = Some c \<Longrightarrow> quiet c) \<Longrightarrow> quiet (split_metrics compute types)"
  unfolding split_metrics_def by (auto intro!: quiet_rules split: option.split)

lemma quiet_compute: "postgres_compute g account opts m = Some c \<Longrightarrow> quiet c" "redis_compute g account opts m = Some c \<Longrightarrow> quiet c"
  unfolding postgres_compute_def redis_compute_def by (auto intro!: quiet_rules quiet_computed split: if_splits)

lemma only_aws_scrape: "only (\<lambda>e. \<not> is_gauge e) (aws_ScrapePostgresMetrics a inst types)" "only (\<lambda>e. \<not> is_gauge e) (aws_ScrapeRedisMetrics a inst types)"
  unfolding aws_ScrapePostgresMetrics_def aws_ScrapeRedisMetrics_def Let_def
  by (intro only_rules only_aws_credentials only_quiet [OF quiet_aws_scrape(1)] only_quiet [OF quiet_aws_scrape(2)]; (rule only_quiet)?; (intro quiet_rules)?)+

lemma only_gcp_scrape:
  assumes "\<And>account opts m c. compute g account opts m = Some c \<Longrightarrow> quiet c"
  shows "only (\<lambda>e. \<not> is_gauge e) (gcp_scrape g what inst mk compute types)"
  unfolding gcp_scrape_def Let_def
  by (intro only_rules only_gcp_credentials only_quiet [OF quiet_getMetrics] only_quiet [OF quiet_split_metrics];
      (erule assms)?; (rule only_quiet)?; (intro quiet_rules)?)

interpretation aws_postgres_metrics: metrics_provider "postgresProviderList a g ! 0" "''aws''" for a g
  by unfold_locales (simp_all add: postgresProviderList_def only_aws_scrape)

interpretation gcp_postgres_metrics: metrics_provider "postgresProviderList a g ! 1" "''gcp''" for a g
  by unfold_locales (simp_all add: postgresProviderList_def gcp_ScrapePostgresMetrics_def only_gcp_scrape quiet_compute)

interpretation aws_redis_metrics: metrics_provider "redisProviderList a g ! 0" "''aws''" for a g
  by unfold_locales (simp_all add: redisProviderList_def only_aws_scrape)

interpretation gcp_redis_metrics: metrics_provider "redisProviderList a g ! 1" "''gcp''" for a g
  by unfold_locales (simp_all add: redisProviderList_def gcp_ScrapeRedisMetrics_def only_gcp_scrape quiet_compute)

text \<open>So the providers of the operator scrape what AWS and GCP answer.\<close>

lemma operator_scrapes:
  assumes "\<And>inst types s. st_Strategy (cr_status inst) = ''aws'' \<Longrightarrow>
      fst (aws_ScrapeRedisMetrics a inst types s) = (case answer inst types of Inl e \<Rightarrow> Fail e | Inr ms \<Rightarrow> Val (map Some ms))"
    and "\<And>inst types s. st_Strategy (cr_status inst) = ''gcp'' \<Longrightarrow>
      fst (gcp_ScrapeRedisMetrics g inst types s) = (case answer inst types of Inl e \<Rightarrow> Fail e | Inr ms \<Rightarrow> Val (map Some ms))"
  shows "\<forall>p \<in> set (redisProviderList a g). scrapes answer p"
  using aws_redis_metrics.scrapes_answer [of a g answer] gcp_redis_metrics.scrapes_answer [of a g answer] assms
  by (simp add: redisProviderList_def)

section \<open>What is scraped\<close>

lemma scrapesD:
  "scrapes answer p \<Longrightarrow> mp_SupportsStrategy p (st_Strategy (cr_status inst)) \<Longrightarrow>
   \<exists>t. mp_Scrape p inst types s = (case answer inst types of Inl e \<Rightarrow> Fail e | Inr ms \<Rightarrow> Val (map Some ms), t) \<and> filter is_gauge (trace t) = filter is_gauge (trace s)"
  unfolding scrapes_def by blast

lemma scrape_instance_run:
  assumes "\<forall>p \<in> set ps. scrapes answer p"
  shows "\<exists>t. scrape_instance gauges ps (map Some acc) inst s = (Val (map Some (acc @ scraped_of answer gauges ps inst)), t) \<and>
     filter is_gauge (trace t) = filter is_gauge (trace s)"
  using assms
proof (induction ps arbitrary: acc s)
  case (Cons p ps)
  let ?types = "metric_types gauges (st_Strategy (cr_status inst))"
  show ?case
  proof (cases "mp_SupportsStrategy p (st_Strategy (cr_status inst))")
    case False
    then show ?thesis using Cons by (simp add: scrape_instance_def scraped_of_def op_simps)
  next
    case True
    then obtain t where t: "mp_Scrape p inst ?types s = (case answer inst ?types of Inl e \<Rightarrow> Fail e | Inr ms \<Rightarrow> Val (map Some ms), t)"
        "filter is_gauge (trace t) = filter is_gauge (trace s)" using scrapesD [of answer p inst ?types s] Cons.prems by auto
    obtain u where u: "scrape_instance gauges ps (map Some (acc @ (case answer inst ?types of Inl _ \<Rightarrow> [] | Inr ms \<Rightarrow> ms))) inst t =
          (Val (map Some ((acc @ (case answer inst ?types of Inl _ \<Rightarrow> [] | Inr ms \<Rightarrow> ms)) @ scraped_of answer gauges ps inst)), u)"
        "filter is_gauge (trace u) = filter is_gauge (trace t)" using Cons.IH Cons.prems by (metis list.set_intros(2))
    have "scrape_instance gauges (p # ps) (map Some acc) inst s = scrape_instance gauges ps (map Some (acc @ (case answer inst ?types of Inl _ \<Rightarrow> [] | Inr ms \<Rightarrow> ms))) inst t"
      using True t(1) by (simp add: scrape_instance_def andThen_def attempt_def ret_def split: sum.splits)
    then show ?thesis using True u t(2) by (simp add: scraped_of_def)
  qed
qed (simp add: scrape_instance_def scraped_of_def ret_def)

lemma scrape_all_run:
  assumes "\<forall>p \<in> set ps. scrapes answer p"
  shows "\<exists>t. for_fold (scrape_instance gauges ps) (map Some acc) insts s = (Val (map Some (acc @ concat (map (scraped_of answer gauges ps) insts))), t) \<and>
     filter is_gauge (trace t) = filter is_gauge (trace s)"
proof (induction insts arbitrary: acc s)
  case (Cons inst insts)
  obtain t where t: "scrape_instance gauges ps (map Some acc) inst s = (Val (map Some (acc @ scraped_of answer gauges ps inst)), t)"
      "filter is_gauge (trace t) = filter is_gauge (trace s)" using scrape_instance_run [OF assms] by blast
  obtain u where "for_fold (scrape_instance gauges ps) (map Some (acc @ scraped_of answer gauges ps inst)) insts t =
        (Val (map Some ((acc @ scraped_of answer gauges ps inst) @ concat (map (scraped_of answer gauges ps) insts))), u)"
      "filter is_gauge (trace u) = filter is_gauge (trace t)" using Cons.IH by blast
  then show ?case using t by (simp add: andThen_def)
qed (simp add: ret_def)



section \<open>The goroutines of a provider\<close>

text \<open>The choice of the result follows a run of the goroutines.\<close>

definition follows_run :: "'w gcpMetricsProvider \<Rightarrow> bool" where
  "follows_run p \<longleftrightarrow> (\<forall>os w. \<exists>s. (fanout_step os)\<^sup>*\<^sup>* (fanout_start os) s \<and> fo_Result s = Some (fst (gmp_Select p os w)))"

lemma fanout_result_sound:
  assumes "(fanout_step os)\<^sup>*\<^sup>* (fanout_start os) s" and "fo_Result s = Some (Inr ms)"
  shows "set ms \<subseteq> sent ` set os"
  using set_mset_mono [of "mset ms" "mset (map sent os)"] getMetrics_results [OF assms] by simp

text \<open>A metric a query answers with has the name of what was asked for and the labels of the resource.\<close>

lemma query_metric_result:
  "query_metric p account opts m s = (Val x, t) \<Longrightarrow> gm_Name x = mt_PrometheusMetricName m \<and> gm_Labels x = gmo_DefaultLabels opts"
  by (auto simp: query_metric_def getMetricData_def andThen_def crash_def ret_def split: prod.splits res.splits list.splits)

lemma collect_queries:
  "for_fold (\<lambda>os m. andThen (attempt (query_metric p account opts m)) (\<lambda>r. ret (os @ [r]))) acc ms s = (Val os, t) \<Longrightarrow>
   Inr x \<in> set os \<Longrightarrow> Inr x \<in> set acc \<or> (\<exists>m \<in> set ms. gm_Name x = mt_PrometheusMetricName m \<and> gm_Labels x = gmo_DefaultLabels opts)"
proof (induction ms arbitrary: acc s)
  case (Cons m ms)
  obtain r u where step: "attempt (query_metric p account opts m) s = (Val r, u)"
      and rest: "for_fold (\<lambda>os m. andThen (attempt (query_metric p account opts m)) (\<lambda>r. ret (os @ [r]))) (acc @ [r]) ms u = (Val os, t)"
    using Cons.prems(1) by (auto simp: andThen_def ret_def split: prod.splits res.splits)
  have "r = Inr y \<Longrightarrow> gm_Name y = mt_PrometheusMetricName m \<and> gm_Labels y = gmo_DefaultLabels opts" for y
    using step query_metric_result by (fastforce simp: attempt_def split: prod.splits res.splits)
  then show ?case using Cons.IH [OF rest Cons.prems(2)] by auto
qed (simp add: ret_def)

text \<open>
  C22. Whatever the order of the goroutines, every metric they return has the name of one of the metrics that were asked for and
  the labels of the resource.
\<close>

theorem getMetrics_named:
  assumes "follows_run p" and "getMetrics p account opts ms s = (Val out, t)" and "Some x \<in> set out"
  shows "\<exists>m \<in> set ms. gm_Name x = mt_PrometheusMetricName m \<and> gm_Labels x = gmo_DefaultLabels opts"
proof -
  obtain os u where os: "for_fold (\<lambda>os m. andThen (attempt (query_metric p account opts m)) (\<lambda>r. ret (os @ [r]))) [] ms s = (Val os, u)"
      and sel: "fst (gmp_Select p os (world u)) = Inr out"
    using assms(2) by (auto simp: getMetrics_def andThen_def query_def split: prod.splits res.splits sum.splits)
  obtain v where "(fanout_step os)\<^sup>*\<^sup>* (fanout_start os) v" "fo_Result v = Some (Inr out)" using assms(1) sel unfolding follows_run_def by metis
  then have "Some x \<in> sent ` set os" using fanout_result_sound assms(3) by blast
  then have "Inr x \<in> set os" by (auto simp: sent_def split: sum.splits)
  then show ?thesis using collect_queries [OF os] by auto
qed

section \<open>Witnesses\<close>

abbreviation metrics_state :: "(unit, gauge_req event) sys" where
  "metrics_state \<equiv> sample_sys"

definition aws_cr :: cr where
  "aws_cr = sample_cr\<lparr>cr_status := (cr_status sample_cr)\<lparr>st_Strategy := ''aws''\<rparr>\<rparr>"

definition sample_metric :: "cloudProviderMetricType \<Rightarrow> genericCloudMetric" where
  "sample_metric m = \<lparr>gm_Name = mt_PrometheusMetricName m, gm_Labels = [''namespace'' \<mapsto> ''ns''], gm_Value = Some 1\<rparr>"

definition sample_scraper :: "(cloudProviderMetricType list \<Rightarrow> genericCloudMetric option list) \<Rightarrow> unit metricsProvider" where
  "sample_scraper f = \<lparr>mp_SupportsStrategy = (\<lambda>s. s = ''aws''), mp_Scrape = (\<lambda>_ types. ret (f types))\<rparr>"

lemma sample_scraper_scrapes: "scrapes (\<lambda>_ types. Inr (map sample_metric types)) (sample_scraper (\<lambda>types. map Some (map sample_metric types)))"
  by (simp add: scrapes_def sample_scraper_def ret_def)



definition sample_monitoring :: "unit gcpMetricsProvider" where
  "sample_monitoring = \<lparr>gmp_Client = sample_kube sample_cr, gmp_ConfigManager = NewDefaultConfigMapConfigManager Map.empty,
     gmp_Codec = \<lparr>gcp_EncodeProviderSpec = (\<lambda>_. Inr ''spec''), gcp_DecodeProviderSpec = (\<lambda>_. Inr ''account''), gcp_codec_polls = 60\<rparr>,
     gmp_NewMetricAPI = (\<lambda>_. None), gmp_IterateTimeSeries = (\<lambda>_ _ w. (([[1, 2]], None), w)), gmp_AlignerValue = (\<lambda>_. 2),
     gmp_Select = (\<lambda>os w. (in_order os, w)), gmp_Now = (\<lambda>w. (0, w))\<rparr>"

lemma sample_monitoring_follows: "follows_run sample_monitoring"
  using in_order_possible by (auto simp: follows_run_def sample_monitoring_def)

definition sample_opts :: getMetricsOpts where
  "sample_opts = \<lparr>gmo_FilterSuffix = '''', gmo_IdLabel = ''database_id'', gmo_ResourceType = ''cloudsql_database'', gmo_ProjectID = ''projects/p'',
     gmo_InstanceID = ''p:db'', gmo_DefaultLabels = [''namespace'' \<mapsto> ''ns'']\<rparr>"

theorem getMetrics_named_witness:
  "\<exists>x t. getMetrics sample_monitoring ''account'' sample_opts [\<lparr>mt_PrometheusMetricName = ''m'', mt_ProviderMetricName = ''n'', mt_Statistic = ''ALIGN_MEAN''\<rparr>] metrics_state = (Val [Some x], t) \<and>
     gm_Name x = ''m'' \<and> gm_Labels x = gmo_DefaultLabels sample_opts"
proof -
  let ?m = "\<lparr>mt_PrometheusMetricName = ''m'', mt_ProviderMetricName = ''n'', mt_Statistic = ''ALIGN_MEAN''\<rparr>"
  obtain x t where run: "getMetrics sample_monitoring ''account'' sample_opts [?m] metrics_state = (Val [Some x], t)"
    by (simp add: getMetrics_def query_metric_def recent_def getMetricData_def ListTimeSeries_def sample_monitoring_def in_order_def
      andThen_def attempt_def ask_def query_def wrapping_def ret_def)
  show ?thesis using getMetrics_named [OF sample_monitoring_follows run, of x] run by auto
qed

end
