(* ===== verification/Client.thy ===== *)
theory Client
  imports GCP_SQL AWS_Provider "HOL-Library.Char_ord" "HOL-Library.List_Lexorder"
begin

text \<open>
  The library for operators that use this one (\<^verbatim>\<open>pkg/client\<close>): writing the strategy config maps with the windows for backups and
  maintenance, and creating or updating the custom resources.
\<close>

section \<open>Start times\<close>

text \<open>A time is the number of minutes since the beginning of 1 January of the year 0; a day of the week is one of the seven constants.\<close>

datatype weekday = Sunday | Monday | Tuesday | Wednesday | Thursday | Friday | Saturday

record startTime =
  sta_Time :: int
  sta_Day :: weekday

record strategyTimeConfig =
  stc_BackupStartTime :: startTime
  stc_MaintenanceStartTime :: startTime

definition time_of :: "int \<Rightarrow> int \<Rightarrow> int" where
  "time_of hour minute = 60 * hour + minute"

definition SetBackupTime :: "int \<Rightarrow> int \<Rightarrow> strategyTimeConfig \<Rightarrow> strategyTimeConfig" where
  "SetBackupTime hour minute t = t\<lparr>stc_BackupStartTime := \<lparr>sta_Time = time_of hour minute, sta_Day = Sunday\<rparr>\<rparr>"

definition SetMaintenanceTime :: "weekday \<Rightarrow> int \<Rightarrow> int \<Rightarrow> strategyTimeConfig \<Rightarrow> strategyTimeConfig" where
  "SetMaintenanceTime day hour minute t = t\<lparr>stc_MaintenanceStartTime := \<lparr>sta_Time = time_of hour minute, sta_Day = day\<rparr>\<rparr>"

text \<open>The time of an empty structure, the year 1, is replaced at once.\<close>

definition NewStrategyTimeConfig :: "int \<Rightarrow> int \<Rightarrow> weekday \<Rightarrow> int \<Rightarrow> int \<Rightarrow> strategyTimeConfig" where
  "NewStrategyTimeConfig backupHour backupMinute maintenanceDay maintenanceHour maintenanceMinute =
     (let none = \<lparr>sta_Time = 366 * 24 * 60, sta_Day = Sunday\<rparr> in
      SetMaintenanceTime maintenanceDay maintenanceHour maintenanceMinute
        (SetBackupTime backupHour backupMinute \<lparr>stc_BackupStartTime = none, stc_MaintenanceStartTime = none\<rparr>))"

definition hour_of :: "int \<Rightarrow> int" where
  "hour_of t = (t div 60) mod 24"

definition minute_of :: "int \<Rightarrow> int" where
  "minute_of t = t mod 60"

definition pad2 :: "int \<Rightarrow> string" where
  "pad2 n = (if n < 10 then ''0'' @ itoa n else itoa n)"

definition clock_text :: "int \<Rightarrow> string" where
  "clock_text t = pad2 (hour_of t) @ '':'' @ pad2 (minute_of t)"

section \<open>The windows of AWS\<close>

fun short_day :: "weekday \<Rightarrow> string" where
  "short_day Sunday = ''sun''"
| "short_day Monday = ''mon''"
| "short_day Tuesday = ''tue''"
| "short_day Wednesday = ''wed''"
| "short_day Thursday = ''thu''"
| "short_day Friday = ''fri''"
| "short_day Saturday = ''sat''"

fun next_day :: "weekday \<Rightarrow> weekday" where
  "next_day Sunday = Monday"
| "next_day Monday = Tuesday"
| "next_day Tuesday = Wednesday"
| "next_day Wednesday = Thursday"
| "next_day Thursday = Friday"
| "next_day Friday = Saturday"
| "next_day Saturday = Sunday"

definition timeBlockOverlaps :: "int \<Rightarrow> int \<Rightarrow> int \<Rightarrow> int \<Rightarrow> bool" where
  "timeBlockOverlaps startA endA startB endB \<longleftrightarrow> startA \<le> endB \<and> endA \<ge> startB"

definition buildAWSWindows :: "strategyTimeConfig \<Rightarrow> error + string \<times> string" where
  "buildAWSWindows t =
     (let m = sta_Time (stc_MaintenanceStartTime t); b = sta_Time (stc_BackupStartTime t); day = sta_Day (stc_MaintenanceStartTime t);
          dayTo = (if hour_of m = 23 then next_day day else day);
          maintenance = short_day day @ '':'' @ clock_text m @ ''-'' @ short_day dayTo @ '':'' @ clock_text (m + 60);
          backup = clock_text b @ ''-'' @ clock_text (b + 60) in
      if timeBlockOverlaps b (b + 60) m (m + 60)
      then Inl (ErrNew (''backup and maintenance windows can not overlap, we require a minumum of 1 hour windows, current backup window : '' @ backup @
        '', current maintenance window : '' @ maintenance @ '' ''))
      else Inr (backup, maintenance))"

section \<open>Writing strategies\<close>

text \<open>
  \<^verbatim>\<open>json.Marshal\<close>: a string with the escapes of Go 1.20, a map with its keys in order. A raw message is written as the value it
  holds, whatever its spelling.
\<close>

definition json_char :: "char \<Rightarrow> string" where
  "json_char ch = (let n = (of_char ch :: nat) in
     if n = 0x22 \<or> n = 0x5C then [CHR 0x5C, ch]
     else if n = 0x0A then [CHR 0x5C, CHR ''n''] else if n = 0x0D then [CHR 0x5C, CHR ''r''] else if n = 0x09 then [CHR 0x5C, CHR ''t'']
     else if n < 0x20 \<or> ch = CHR ''<'' \<or> ch = CHR ''>'' \<or> n = 0x26 then [CHR 0x5C] @ ''u00'' @ [hex_lower (n div 16), hex_lower (n mod 16)]
     else [ch])"

definition json_quote :: "string \<Rightarrow> string" where
  "json_quote s = quoted (concat (map json_char s))"

fun commas :: "string list \<Rightarrow> string" where
  "commas [] = ''''"
| "commas [x] = x"
| "commas (x # y # xs) = x @ '','' @ commas (y # xs)"

fun json_text :: "json \<Rightarrow> string" where
  "json_text JNull = ''null''"
| "json_text (JBool b) = (if b then ''true'' else ''false'')"
| "json_text (JNumber s) = s"
| "json_text (JString s) = json_quote s"
| "json_text (JArray xs) = ''['' @ commas (map json_text xs) @ '']''"
| "json_text (JObject ms) = ''{'' @ commas (map (\<lambda>(n, v). json_quote n @ '':'' @ json_text v) ms) @ ''}''"

definition raw_json :: "json option \<Rightarrow> json" where
  "raw_json r = (case r of None \<Rightarrow> JNull | Some v \<Rightarrow> v)"

definition strategy_field :: "strategyConfig \<Rightarrow> string \<Rightarrow> json" where
  "strategy_field c f = (if f = ''region'' then JString (sc_Region c) else if f = ''projectID'' then JString (sc_ProjectID c)
     else if f = ''createStrategy'' then raw_json (sc_CreateStrategy c) else if f = ''deleteStrategy'' then raw_json (sc_DeleteStrategy c)
     else raw_json (sc_ServiceUpdates c))"

definition strategy_json :: "string list \<Rightarrow> strategyConfig option \<Rightarrow> json" where
  "strategy_json fs c = (case c of None \<Rightarrow> JNull | Some c \<Rightarrow> JObject (map (\<lambda>f. (f, strategy_field c f)) fs))"

text \<open>The keys of the map that was read, in the order they are written.\<close>

definition strategy_keys :: "string \<Rightarrow> string list" where
  "strategy_keys config = (case json_document config of Inr (JObject ms) \<Rightarrow> sort (remdups (map fst ms)) | _ \<Rightarrow> [])"

definition MarshalStrategies :: "string list \<Rightarrow> string list \<Rightarrow> (string \<rightharpoonup> strategyConfig) \<Rightarrow> string" where
  "MarshalStrategies fs keys m = json_text (JObject (map (\<lambda>key. (key, strategy_json fs (m key))) keys))"

text \<open>
  A create strategy is read into a structure, changed and written back; the structures of the SDKs and how they are read and written
  are parameters.
\<close>

record 'r strategyStruct =
  ss_Unmarshal :: "json option \<Rightarrow> error + 'r"
  ss_Marshal :: "'r \<Rightarrow> error + json"

text \<open>The change itself may panic.\<close>

definition new_strategy :: "('r, 'x) strategyStruct_scheme \<Rightarrow> string \<Rightarrow> ('r \<Rightarrow> 'r option) \<Rightarrow> string \<Rightarrow> (string \<rightharpoonup> strategyConfig) \<Rightarrow> ('s, string \<rightharpoonup> strategyConfig) op" where
  "new_strategy st what change tier raw =
     andThen (deref (raw tier)) (\<lambda>c.
     andThen (wrapping (''failed to unmarshal '' @ what @ '' cluster config'') (lift_sum (ss_Unmarshal st (sc_CreateStrategy c)))) (\<lambda>x.
     andThen (deref (change x)) (\<lambda>x'.
     andThen (wrapping (''failed to marshal '' @ what @ '' cluster config'') (lift_sum (ss_Marshal st x'))) (\<lambda>j.
       ret (raw(tier \<mapsto> c\<lparr>sc_CreateStrategy := Some j\<rparr>))))))"

definition reconcile_strategy :: "string \<Rightarrow> string list \<Rightarrow> string \<Rightarrow> ('r, 'x) strategyStruct_scheme \<Rightarrow> string \<Rightarrow> ('r \<Rightarrow> 'r option) \<Rightarrow> string \<Rightarrow> string \<Rightarrow> ('s, string) op" where
  "reconcile_strategy type_name fs resource st what change tier config =
     andThen (wrapping (''failed to unmarshal strategy mapping for '' @ resource @ '' resource'') (lift_sum (UnmarshalStrategies type_name fs config))) (\<lambda>raw.
     andThen (new_strategy st what change tier raw) (\<lambda>raw'. ret (MarshalStrategies fs (strategy_keys config) raw')))"

section \<open>AWS\<close>

record 'r windowStruct = "'r strategyStruct" +
  ws_Backup :: "'r \<Rightarrow> string option"
  ws_SetBackup :: "string \<Rightarrow> 'r \<Rightarrow> 'r"
  ws_Maintenance :: "'r \<Rightarrow> string option"
  ws_SetMaintenance :: "string \<Rightarrow> 'r \<Rightarrow> 'r"

definition set_windows :: "'r windowStruct \<Rightarrow> string \<Rightarrow> string \<Rightarrow> 'r \<Rightarrow> 'r" where
  "set_windows w backup maintenance x =
     (let x1 = (if ws_Backup w x \<noteq> Some backup then ws_SetBackup w backup x else x)
      in if ws_Maintenance w x1 \<noteq> Some maintenance then ws_SetMaintenance w maintenance x1 else x1)"

definition aws_reconcilePostgresStrategy :: "'r windowStruct \<Rightarrow> string \<Rightarrow> string \<Rightarrow> string \<Rightarrow> string \<Rightarrow> ('s, string) op" where
  "aws_reconcilePostgresStrategy w tier config backup maintenance = reconcile_strategy ''aws.StrategyConfig'' aws_strategy_fields ''postgres'' w ''aws rds''
     (Some \<circ> set_windows w backup maintenance) tier config"

definition aws_reconcileRedisStrategy :: "'e windowStruct \<Rightarrow> string \<Rightarrow> string \<Rightarrow> string \<Rightarrow> string \<Rightarrow> ('s, string) op" where
  "aws_reconcileRedisStrategy w tier config backup maintenance = reconcile_strategy ''aws.StrategyConfig'' aws_strategy_fields ''redis'' w ''aws redis''
     (Some \<circ> set_windows w backup maintenance) tier config"

section \<open>GCP\<close>

definition empty_database :: databaseInstance where
  "empty_database = \<lparr>di_ConnectionName = '''', di_DatabaseVersion = '''', di_DiskEncryptionConfiguration = None, di_FailoverReplica = None, di_GceZone = '''',
     di_InstanceType = '''', di_IpAddresses = None, di_Kind = '''', di_MaintenanceVersion = '''', di_MasterInstanceName = '''', di_MaxDiskSize = 0,
     di_Name = '''', di_Project = '''', di_Region = '''', di_ReplicaNames = None, di_RootPassword = '''', di_SecondaryGceZone = '''', di_SelfLink = '''',
     di_ServerCaCert = None, di_Settings = None\<rparr>"

fun day_number :: "weekday \<Rightarrow> int" where
  "day_number Sunday = 7"
| "day_number Monday = 1"
| "day_number Tuesday = 2"
| "day_number Wednesday = 3"
| "day_number Thursday = 4"
| "day_number Friday = 5"
| "day_number Saturday = 6"

text \<open>A window or backup configuration that differs is replaced as a whole.\<close>

definition maintenance_settings :: "int \<Rightarrow> int \<Rightarrow> settings \<Rightarrow> settings" where
  "maintenance_settings day hour se =
     (let new = \<lparr>mw_Day = Some day, mw_Hour = Some hour, mw_Kind = '''', mw_UpdateTrack = ''''\<rparr>; or_minus = (\<lambda>x. case x of None \<Rightarrow> - 1 | Some n \<Rightarrow> n) in
      case se_MaintenanceWindow se of
        None \<Rightarrow> se\<lparr>se_MaintenanceWindow := Some new\<rparr>
      | Some w \<Rightarrow> if or_minus (mw_Day w) \<noteq> day \<or> or_minus (mw_Hour w) \<noteq> hour then se\<lparr>se_MaintenanceWindow := Some new\<rparr> else se)"

definition backup_settings :: "string \<Rightarrow> settings \<Rightarrow> settings" where
  "backup_settings start se = (case se_BackupConfiguration se of
     None \<Rightarrow> se\<lparr>se_BackupConfiguration := Some (empty_backup\<lparr>bc_StartTime := start\<rparr>)\<rparr>
   | Some b \<Rightarrow> if bc_StartTime b \<noteq> start then se\<lparr>se_BackupConfiguration := Some (empty_backup\<lparr>bc_StartTime := start\<rparr>)\<rparr> else se)"

definition set_postgres_times :: "strategyTimeConfig \<Rightarrow> databaseInstance option \<Rightarrow> databaseInstance option" where
  "set_postgres_times t x =
     (let i = (case x of None \<Rightarrow> empty_database | Some i \<Rightarrow> i);
          se = (case di_Settings i of None \<Rightarrow> empty_settings | Some se \<Rightarrow> se);
          m = stc_MaintenanceStartTime t in
      Some (i\<lparr>di_Settings := Some (backup_settings (clock_text (sta_Time (stc_BackupStartTime t))) (maintenance_settings (day_number (sta_Day m)) (hour_of (sta_Time m)) se))\<rparr>))"

definition gcp_reconcilePostgresStrategy :: "databaseInstance option strategyStruct \<Rightarrow> string \<Rightarrow> string \<Rightarrow> strategyTimeConfig \<Rightarrow> ('s, string) op" where
  "gcp_reconcilePostgresStrategy st tier config t =
     reconcile_strategy ''gcp.StrategyConfig'' gcp_strategy_fields ''postgres'' st ''gcp postgres'' (Some \<circ> set_postgres_times t) tier config"

text \<open>
  The weekly windows of the request for a Redis instance: day, hour and minute, nil entries included; None when the instance, its
  policy or the list is nil. \<open>rs_ResetPolicy\<close> gives it a policy with a list of one nil entry. The window is always replaced, since its start time is
  compared as a pointer.
\<close>

record 'g redisStruct = "'g strategyStruct" +
  rs_Windows :: "'g \<Rightarrow> (int \<times> int \<times> int) option list option"
  rs_ResetPolicy :: "'g \<Rightarrow> 'g"
  rs_SetWindows :: "(int \<times> int \<times> int) option list \<Rightarrow> 'g \<Rightarrow> 'g"

definition set_redis_window :: "'g redisStruct \<Rightarrow> strategyTimeConfig \<Rightarrow> 'g \<Rightarrow> 'g option" where
  "set_redis_window g t x =
     (let x1 = (if rs_Windows g x = None then rs_ResetPolicy g x else x); m = stc_MaintenanceStartTime t in
      case rs_Windows g x1 of
        Some (_ # ws) \<Rightarrow> Some (rs_SetWindows g (Some (day_number (sta_Day m), hour_of (sta_Time m), minute_of (sta_Time m)) # ws) x1)
      | _ \<Rightarrow> None)"

definition gcp_reconcileRedisStrategy :: "'g redisStruct \<Rightarrow> string \<Rightarrow> string \<Rightarrow> strategyTimeConfig \<Rightarrow> ('s, string) op" where
  "gcp_reconcileRedisStrategy g tier config t =
     reconcile_strategy ''gcp.StrategyConfig'' gcp_strategy_fields ''redis'' g ''gcp redis'' (set_redis_window g t) tier config"

section \<open>The strategy config maps\<close>

datatype map_req = CreateMapReq nsName labels | UpdateMapReq nsName labels

type_synonym ('w, 'a) cop = "('w, map_req, 'a) kop"

text \<open>\<^verbatim>\<open>controllerutil.CreateOrUpdate\<close> of a config map; a map without data differs from one with data.\<close>

definition CreateOrUpdate_map :: "'w kube \<Rightarrow> (map_req \<Rightarrow> 'w \<Rightarrow> (error + unit) \<times> 'w) \<Rightarrow> nsName \<Rightarrow> (labels option \<Rightarrow> ('w, labels) cop) \<Rightarrow> ('w, unit) cop" where
  "CreateOrUpdate_map k ex key mutate =
     andThen (attempt (query (kube_GetConfigMap k key))) (\<lambda>r. case r of
       Inl e \<Rightarrow> if \<not> k8s_IsNotFound e then throw e
         else andThen (mutate None) (\<lambda>m. request (ex (CreateMapReq key m)) (\<lambda>r. EvCloud (CreateMapReq key m) (ok r)))
     | Inr old \<Rightarrow> andThen (mutate old) (\<lambda>m. if old = Some m then ret () else request (ex (UpdateMapReq key m)) (\<lambda>r. EvCloud (UpdateMapReq key m) (ok r))))"

definition strategy_data :: "labels \<Rightarrow> string \<Rightarrow> (string \<Rightarrow> ('w, string) cop) \<Rightarrow> (string \<Rightarrow> ('w, string) cop) \<Rightarrow> labels option \<Rightarrow> ('w, labels) cop" where
  "strategy_data defaults value postgres redis old =
     (let m0 = (case old of None \<Rightarrow> defaults | Some m \<Rightarrow> m);
          m1 = (if m0 ''postgres'' = None then m0(''postgres'' \<mapsto> value) else m0);
          m = (if m1 ''redis'' = None then m1(''redis'' \<mapsto> value) else m1) in
      andThen (wrapping ''failed to reconcile postgres strategy'' (postgres (map_get (Some m) ''postgres''))) (\<lambda>p.
      andThen (wrapping ''failed to reconcile redis strategy'' (redis (map_get (Some m) ''redis''))) (\<lambda>r.
        ret (m(''postgres'' \<mapsto> p, ''redis'' \<mapsto> r)))))"

definition plain_tiers :: "string list \<Rightarrow> string" where
  "plain_tiers texts = (let tier = ''{ '' @ concat (map (\<lambda>f. quoted f @ '': '' @ quoted '''' @ '', '') texts) @ quoted ''createStrategy'' @ '': {}, '' @ quoted ''deleteStrategy'' @ '': {} }'' in
     ''{'' @ quoted ''development'' @ '': '' @ tier @ '', '' @ quoted ''production'' @ '': '' @ tier @ ''}'')"

definition defaultAwsStratValue :: string where
  "defaultAwsStratValue = plain_tiers [''region'']"

definition defaultGcpStratValue :: string where
  "defaultGcpStratValue = plain_tiers [''region'', ''projectID'']"

definition failing_with :: "string \<Rightarrow> ('w, unit) cop \<Rightarrow> ('w, unit) cop" where
  "failing_with msg m = andThen (attempt m) (\<lambda>r. case r of Inl e \<Rightarrow> throw (ErrNew (msg @ error_text e)) | Inr u \<Rightarrow> ret u)"

definition aws_ReconcileStrategyMap :: "'w kube \<Rightarrow> (map_req \<Rightarrow> 'w \<Rightarrow> (error + unit) \<times> 'w) \<Rightarrow> 'r windowStruct \<Rightarrow> 'e windowStruct \<Rightarrow> string \<Rightarrow> string \<Rightarrow> strategyTimeConfig \<Rightarrow> ('w, unit) cop" where
  "aws_ReconcileStrategyMap k ex rds cache tier namespace t =
     andThen (wrapping ''failed to build aws windows'' (lift_sum (buildAWSWindows t))) (\<lambda>(backup, maintenance).
     failing_with ''failed to update aws strategy config map : '' (CreateOrUpdate_map k ex (''cloud-resources-aws-strategies'', namespace)
       (strategy_data aws_BuildDefaultConfigMap defaultAwsStratValue (\<lambda>c. aws_reconcilePostgresStrategy rds tier c backup maintenance)
          (\<lambda>c. aws_reconcileRedisStrategy cache tier c backup maintenance))))"

definition gcp_ReconcileStrategyMap :: "'w kube \<Rightarrow> (map_req \<Rightarrow> 'w \<Rightarrow> (error + unit) \<times> 'w) \<Rightarrow> databaseInstance option strategyStruct \<Rightarrow> 'g redisStruct \<Rightarrow> string \<Rightarrow> string \<Rightarrow>
    strategyTimeConfig \<Rightarrow> ('w, unit) cop" where
  "gcp_ReconcileStrategyMap k ex sql redis tier namespace t =
     failing_with ''failed to update gcp strategy config map : '' (CreateOrUpdate_map k ex (''cloud-resources-gcp-strategies'', namespace)
       (strategy_data gcp_BuildDefaultConfigMap defaultGcpStratValue (\<lambda>c. gcp_reconcilePostgresStrategy sql tier c t) (\<lambda>c. gcp_reconcileRedisStrategy redis tier c t)))"

definition ReconcileStrategyMaps :: "'w kube \<Rightarrow> (map_req \<Rightarrow> 'w \<Rightarrow> (error + unit) \<times> 'w) \<Rightarrow> 'r windowStruct \<Rightarrow> 'e windowStruct \<Rightarrow> databaseInstance option strategyStruct \<Rightarrow> 'g redisStruct \<Rightarrow>
    strategyTimeConfig \<Rightarrow> string \<Rightarrow> string \<Rightarrow> ('w, unit) cop" where
  "ReconcileStrategyMaps k ex rds cache sql redis t tier namespace =
     andThen (GetPlatformType k) (\<lambda>platform.
       if platform = ''AWS'' then wrapping (''failed to reconcile '' @ platform @ '' strategy map'') (aws_ReconcileStrategyMap k ex rds cache tier namespace t)
       else if platform = ''GCP'' then wrapping (''failed to reconcile '' @ platform @ '' strategy map'') (gcp_ReconcileStrategyMap k ex sql redis tier namespace t)
       else throw (ErrNew ''Unsupported platform type''))"

section \<open>Custom resources\<close>

text \<open>
  \<^verbatim>\<open>controllerutil.CreateOrUpdate\<close> of a custom resource: what is found replaces the object before it is changed. \<open>same\<close> is
  \<^verbatim>\<open>equality.Semantic.DeepEqual\<close>.
\<close>

definition CreateOrUpdate_cr :: "'w kube \<Rightarrow> (cr \<Rightarrow> cr \<Rightarrow> bool) \<Rightarrow> kind \<Rightarrow> cr \<Rightarrow> (cr \<Rightarrow> cr) \<Rightarrow> ('w, 'c, cr) kop" where
  "CreateOrUpdate_cr k same kd obj f =
     andThen (attempt (query (kube_Get k kd (om_Name (cr_meta obj), om_Namespace (cr_meta obj))))) (\<lambda>r. case r of
       Inl e \<Rightarrow> if \<not> k8s_IsNotFound e then throw e else request (kube_Create k kd (f obj)) (\<lambda>r. EvCreate kd (f obj) (ok r))
     | Inr old \<Rightarrow> if same old (f old) then ret (f old) else request (kube_Update k kd (f old)) (\<lambda>r. EvUpdate kd (f old) (ok r)))"

definition new_cr :: "string \<Rightarrow> string \<Rightarrow> labels option \<Rightarrow> cr" where
  "new_cr name ns ls = \<lparr>
     cr_meta = \<lparr>om_Name = name, om_Namespace = ns, om_Labels = ls, om_Annotations = None, om_Finalizers = [], om_DeletionTimestamp = None, om_CreationTimestamp = ''''\<rparr>,
     cr_spec = \<lparr>spec_Type = '''', spec_Tier = '''', spec_SkipCreate = False, spec_ApplyImmediately = False, spec_MaintenanceWindow = False, spec_SecretRef = None,
       spec_Size = '''', spec_SnapshotFrequency = '''', spec_SnapshotRetention = ''''\<rparr>,
     cr_status = \<lparr>st_Strategy = '''', st_Provider = '''', st_Version = '''', st_SecretRef = None, st_Phase = '''', st_Message = ''''\<rparr>\<rparr>"

definition client_reconcile :: "'w kube \<Rightarrow> (cr \<Rightarrow> cr \<Rightarrow> bool) \<Rightarrow> kind \<Rightarrow> string \<Rightarrow> (cr \<Rightarrow> error + cr) option \<Rightarrow> cr \<Rightarrow> (cr \<Rightarrow> cr) \<Rightarrow> ('w, 'c, cr) kop" where
  "client_reconcile k same kd what modify obj f =
     andThen (case modify of None \<Rightarrow> ret obj
        | Some g \<Rightarrow> wrapping (''failed to execute modification function on resource '' @ om_Name (cr_meta obj)) (lift_sum (g obj))) (\<lambda>obj'.
       wrapping (''failed to reconcile '' @ what @ '' request for '' @ om_Name (cr_meta obj)) (CreateOrUpdate_cr k same kd obj' f))"

definition requested_spec :: "string \<Rightarrow> string \<Rightarrow> string \<Rightarrow> string \<Rightarrow> resourceTypeSpec \<Rightarrow> resourceTypeSpec" where
  "requested_spec deploymentType tier secretName secretNs spec =
     spec\<lparr>spec_Type := deploymentType, spec_Tier := tier, spec_SecretRef := Some \<lparr>ref_Name = secretName, ref_Namespace = secretNs\<rparr>\<rparr>"

definition client_ReconcileBlobStorage :: "'w kube \<Rightarrow> (cr \<Rightarrow> cr \<Rightarrow> bool) \<Rightarrow> string \<Rightarrow> string \<Rightarrow> string \<Rightarrow> string \<Rightarrow> string \<Rightarrow> string \<Rightarrow> string \<Rightarrow> (cr \<Rightarrow> error + cr) option \<Rightarrow>
    ('w, 'c, cr) kop" where
  "client_ReconcileBlobStorage k same productName deploymentType tier name ns secretName secretNs modify =
     client_reconcile k same BlobStorage ''blob storage'' modify (new_cr name ns (Some [''productName'' \<mapsto> productName]))
       (\<lambda>bs. bs\<lparr>cr_spec := requested_spec deploymentType tier secretName secretNs (cr_spec bs)\<rparr>)"

definition client_ReconcilePostgres :: "'w kube \<Rightarrow> (cr \<Rightarrow> cr \<Rightarrow> bool) \<Rightarrow> string \<Rightarrow> string \<Rightarrow> string \<Rightarrow> string \<Rightarrow> string \<Rightarrow> string \<Rightarrow> string \<Rightarrow> bool \<Rightarrow> string \<Rightarrow> string \<Rightarrow>
    (cr \<Rightarrow> error + cr) option \<Rightarrow> ('w, 'c, cr) kop" where
  "client_ReconcilePostgres k same productName deploymentType tier name ns secretName secretNs applyImmediately snapshotFrequency snapshotRetention modify =
     client_reconcile k same Postgres ''postgres'' modify (new_cr name ns None)
       (\<lambda>pg. pg\<lparr>cr_meta := (cr_meta pg)\<lparr>om_Labels := Some [''productName'' \<mapsto> productName]\<rparr>,
          cr_spec := (requested_spec deploymentType tier secretName secretNs (cr_spec pg))\<lparr>spec_ApplyImmediately := applyImmediately,
            spec_SnapshotFrequency := snapshotFrequency, spec_SnapshotRetention := snapshotRetention\<rparr>\<rparr>)"

definition client_ReconcileRedis :: "'w kube \<Rightarrow> (cr \<Rightarrow> cr \<Rightarrow> bool) \<Rightarrow> string \<Rightarrow> string \<Rightarrow> string \<Rightarrow> string \<Rightarrow> string \<Rightarrow> string \<Rightarrow> string \<Rightarrow> string \<Rightarrow> bool \<Rightarrow> bool \<Rightarrow>
    (cr \<Rightarrow> error + cr) option \<Rightarrow> ('w, 'c, cr) kop" where
  "client_ReconcileRedis k same productName deploymentType tier name ns secretName secretNs sz applyImmediately maintenanceWindow modify =
     client_reconcile k same Redis ''redis'' modify (new_cr name ns (Some [''productName'' \<mapsto> productName]))
       (\<lambda>r. r\<lparr>cr_spec := (requested_spec deploymentType tier secretName secretNs (cr_spec r))\<lparr>spec_Size := sz, spec_ApplyImmediately := applyImmediately,
            spec_MaintenanceWindow := maintenanceWindow\<rparr>\<rparr>)"

end
