(* ===== verification/Client_Safety.thy ===== *)
theory Client_Safety
  imports Client
begin

text \<open>The windows of AWS, and that writing a strategy twice changes nothing.\<close>

section \<open>Windows\<close>

lemma clock_text_time:
  "0 \<le> h \<Longrightarrow> h < 24 \<Longrightarrow> 0 \<le> m \<Longrightarrow> m < 60 \<Longrightarrow> clock_text (time_of h m) = pad2 h @ '':'' @ pad2 m"
  "0 \<le> h \<Longrightarrow> h < 24 \<Longrightarrow> 0 \<le> m \<Longrightarrow> m < 60 \<Longrightarrow> clock_text (time_of h m + 60) = pad2 ((h + 1) mod 24) @ '':'' @ pad2 m"
proof -
  assume "0 \<le> h" "h < 24" "0 \<le> m" "m < 60"
  then have "(60 * h + m) div 60 = h" "(60 * h + m) mod 60 = m" "(60 * h + m + 60) div 60 = h + 1" "(60 * h + m + 60) mod 60 = m" "h mod 24 = h" by auto
  then show "clock_text (time_of h m) = pad2 h @ '':'' @ pad2 m" "clock_text (time_of h m + 60) = pad2 ((h + 1) mod 24) @ '':'' @ pad2 m"
    by (simp_all add: clock_text_def hour_of_def minute_of_def time_of_def)
qed

lemma hour_of_time: "0 \<le> h \<Longrightarrow> h < 24 \<Longrightarrow> 0 \<le> m \<Longrightarrow> m < 60 \<Longrightarrow> hour_of (time_of h m) = h"
  by (simp add: hour_of_def time_of_def)

text \<open>
  C24. The windows of AWS: start times that are at most an hour apart are rejected; otherwise both windows last from their start
  to an hour later, and a maintenance window that starts after 23 o'clock ends on the next day of the week.
\<close>

theorem aws_windows_exact:
  assumes "0 \<le> bh" "bh < 24" "0 \<le> bm" "bm < 60" "0 \<le> mh" "mh < 24" "0 \<le> mm" "mm < 60"
  shows "case buildAWSWindows (NewStrategyTimeConfig bh bm day mh mm) of
      Inl _ \<Rightarrow> \<bar>time_of bh bm - time_of mh mm\<bar> \<le> 60
    | Inr (backup, maintenance) \<Rightarrow> \<bar>time_of bh bm - time_of mh mm\<bar> > 60 \<and>
        backup = pad2 bh @ '':'' @ pad2 bm @ ''-'' @ pad2 ((bh + 1) mod 24) @ '':'' @ pad2 bm \<and>
        maintenance = short_day day @ '':'' @ pad2 mh @ '':'' @ pad2 mm @ ''-'' @ short_day (if mh = 23 then next_day day else day) @ '':'' @ pad2 ((mh + 1) mod 24) @ '':'' @ pad2 mm"
  using assms
  by (auto simp: buildAWSWindows_def NewStrategyTimeConfig_def SetMaintenanceTime_def SetBackupTime_def Let_def timeBlockOverlaps_def clock_text_time hour_of_time)

text \<open>The minutes of the day a window of an hour covers.\<close>

definition daily :: "int \<Rightarrow> int set" where
  "daily t = (\<lambda>i. (t + i) mod 1440) ` {0..<60}"


section \<open>Strategies settle\<close>

text \<open>What is relied on of a structure: it is read as it was written.\<close>

definition reads_back :: "('r, 'x) strategyStruct_scheme \<Rightarrow> bool" where
  "reads_back st \<longleftrightarrow> (\<forall>x j. ss_Marshal st x = Inr j \<longrightarrow> ss_Unmarshal st (Some j) = Inr x)"

text \<open>A change that has nothing to do the second time.\<close>

locale stable_change =
  fixes change :: "'r \<Rightarrow> 'r option"
  assumes stable: "change x = Some y \<Longrightarrow> change y = Some y"
begin

lemma settles:
  assumes "reads_back st" and "new_strategy st what change tier raw s = (Val raw', t)"
  shows "new_strategy st what change tier raw' u = (Val raw', u) \<and> (\<forall>other. other \<noteq> tier \<longrightarrow> raw' other = raw other)"
proof -
  obtain c x y j where run: "raw tier = Some c" "ss_Unmarshal st (sc_CreateStrategy c) = Inr x" "change x = Some y" "ss_Marshal st y = Inr j"
      "raw' = raw(tier \<mapsto> c\<lparr>sc_CreateStrategy := Some j\<rparr>)"
    using assms(2) by (auto simp: new_strategy_def andThen_def deref_def wrapping_def lift_sum_def ret_def throw_def crash_def split: option.splits sum.splits)
  have "ss_Unmarshal st (Some j) = Inr y" using assms(1) run(4) by (simp add: reads_back_def)
  then show ?thesis using run stable [OF run(3)] by (simp add: new_strategy_def andThen_def deref_def wrapping_def lift_sum_def ret_def)
qed

end

interpretation sql_times: stable_change "Some \<circ> set_postgres_times t" for t
  by unfold_locales (auto simp: set_postgres_times_def Let_def maintenance_settings_def backup_settings_def split: option.splits if_splits)

text \<open>The two windows of a structure are independent.\<close>

definition window_laws :: "'r windowStruct \<Rightarrow> bool" where
  "window_laws w \<longleftrightarrow> (\<forall>b m x. ws_Backup w (ws_SetBackup w b x) = Some b \<and> ws_Maintenance w (ws_SetMaintenance w m x) = Some m \<and>
     ws_Backup w (ws_SetMaintenance w m x) = ws_Backup w x)"

lemma set_windows_stable: "window_laws w \<Longrightarrow> stable_change (Some \<circ> set_windows w backup maintenance)"
  by unfold_locales (auto simp: window_laws_def set_windows_def Let_def)


text \<open>
  The Postgres strategies of GCP settle in the same way.
\<close>

lemma gcp_strategy_settles:
  assumes "reads_back st" and "new_strategy st what (Some \<circ> set_postgres_times cfg) tier raw s = (Val raw', t)"
  shows "new_strategy st what (Some \<circ> set_postgres_times cfg) tier raw' t = (Val raw', t) \<and> (\<forall>other. other \<noteq> tier \<longrightarrow> raw' other = raw other)"
  by (rule sql_times.settles [OF assms])

section \<open>Witnesses\<close>

theorem aws_windows_exact_witness: "buildAWSWindows (NewStrategyTimeConfig 3 5 Saturday 23 0) = Inr (''03:05-04:05'', ''sat:23:00-sun:00:00'')"
proof -
  have texts: "pad2 0 = ''00''" "pad2 3 = ''03''" "pad2 4 = ''04''" "pad2 5 = ''05''" "pad2 23 = ''23''" by code_simp+
  show ?thesis using aws_windows_exact [of 3 5 23 0 Saturday] by (auto simp: texts time_of_def split: sum.splits)
qed


text \<open>A structure with the two windows only, written as an array.\<close>

definition sample_windows :: "(string option \<times> string option) windowStruct" where
  "sample_windows = (let write = (\<lambda>x. case x of None \<Rightarrow> JNull | Some s \<Rightarrow> JString s); read = (\<lambda>j. case j of JString s \<Rightarrow> Some s | _ \<Rightarrow> None) in
     \<lparr>ss_Unmarshal = (\<lambda>j. case j of Some (JArray [b, m]) \<Rightarrow> Inr (read b, read m) | _ \<Rightarrow> Inr (None, None)),
      ss_Marshal = (\<lambda>(b, m). Inr (JArray [write b, write m])),
      ws_Backup = fst, ws_SetBackup = (\<lambda>b x. (Some b, snd x)), ws_Maintenance = snd, ws_SetMaintenance = (\<lambda>m x. (fst x, Some m))\<rparr>)"


end
