(* ===== verification/Blob_Providers.thy ===== *)
theory Blob_Providers
  imports Controllers
begin

text \<open>
  The blob storage providers of OpenShift and GCP (\<^verbatim>\<open>pkg/providers/openshift/provider_blobstorage.go\<close>,
  \<^verbatim>\<open>pkg/providers/gcp/provider_blobstorage.go\<close>) and the contract that the reconciler's providers keep,
  as a locale that both are instances of.
\<close>

section \<open>Definitions\<close>

definition seconds :: "int \<Rightarrow> int" where
  "seconds n = n * 1000000000"

definition varPlaceholder :: string where
  "varPlaceholder = ''REPLACE_ME''"

definition placeholder_data :: labels where
  "placeholder_data = [''bucketName'' \<mapsto> varPlaceholder, ''credentialSecretKey'' \<mapsto> varPlaceholder,
     ''credentialKeyID'' \<mapsto> varPlaceholder, ''bucketRegion'' \<mapsto> varPlaceholder]"

text \<open>
  \<^verbatim>\<open>CreateStorage\<close> of OpenShift: it fills in the namespace of the secret reference (through the pointer
  in the spec), reads the secret of the status or else of the spec, and copies its data over the
  placeholders. A nil secret reference panics.
\<close>

definition openshift_CreateStorage ::
  "'w kube \<Rightarrow> cr \<Rightarrow> 'w \<Rightarrow> (abort + (labels option \<times> string \<times> error option) \<times> cr) \<times> 'w" where
  "openshift_CreateStorage k bs0 w = (case spec_SecretRef (cr_spec bs0) of
     None \<Rightarrow> (Inl Panics, w)
   | Some ref0 \<Rightarrow>
       let ref = (if ref_Namespace ref0 = '''' then ref0\<lparr>ref_Namespace := om_Namespace (cr_meta bs0)\<rparr> else ref0);
           bs = bs0\<lparr>cr_spec := (cr_spec bs0)\<lparr>spec_SecretRef := Some ref\<rparr>\<rparr>;
           secName = (case st_SecretRef (cr_status bs) of Some r \<Rightarrow> if ref_Name r \<noteq> '''' then ref_Name r else ref_Name ref | None \<Rightarrow> ref_Name ref);
           secNamespace = (case st_SecretRef (cr_status bs) of Some r \<Rightarrow> if ref_Namespace r \<noteq> '''' then ref_Namespace r else ref_Namespace ref
                             | None \<Rightarrow> ref_Namespace ref)
       in case kube_GetSecret k (secName, secNamespace) w of
            (Inl err, w') \<Rightarrow> if \<not> k8s_IsNotFound err then (Inr ((None, ''failed to reconcile'', Some err), bs), w')
                           else (Inr ((Some placeholder_data, ''reconcile complete'', None), bs), w')
          | (Inr sec, w') \<Rightarrow>
              (Inr ((Some (placeholder_data ++ (case sec_Data sec of None \<Rightarrow> Map.empty | Some d \<Rightarrow> d)), ''reconcile complete'', None), bs), w'))"

definition openshift_DeleteStorage :: "cr \<Rightarrow> 'w \<Rightarrow> (abort + (string \<times> error option) \<times> cr) \<times> 'w" where
  "openshift_DeleteStorage bs w = (Inr ((''deletion complete'', None), bs), w)"

definition openshift_blobstorage :: "'w kube \<Rightarrow> 'w provider" where
  "openshift_blobstorage k = \<lparr>GetName = ''openshift-blobstorage'', SupportsStrategy = (\<lambda>s. ''openshift'' = s),
     GetReconcileTime = (\<lambda>_. seconds 10), prov_Create = openshift_CreateStorage k, prov_Delete = openshift_DeleteStorage\<rparr>"

text \<open>
  The GCP provider holds a credential manager (an interface); \<open>creds\<close> is its
  \<^verbatim>\<open>ReconcileProviderCredentials\<close>.
\<close>

definition gcp_credentials_error :: "cr \<Rightarrow> string" where
  "gcp_credentials_error bs = ''failed to reconcile gcp blob storage provider credentials for blob storage instance '' @ om_Name (cr_meta bs)"

definition gcp_CreateStorage ::
  "(string \<Rightarrow> 'w \<Rightarrow> error option \<times> 'w) \<Rightarrow> cr \<Rightarrow> 'w \<Rightarrow> (abort + (labels option \<times> string \<times> error option) \<times> cr) \<times> 'w" where
  "gcp_CreateStorage creds bs w = (case creds (om_Namespace (cr_meta bs)) w of
     (Some err, w') \<Rightarrow> (Inr ((None, gcp_credentials_error bs, Some (ErrWrap err (gcp_credentials_error bs))), bs), w')
   | (None, w') \<Rightarrow> (Inr ((None, '''', None), bs), w'))"

definition gcp_DeleteStorage ::
  "(string \<Rightarrow> 'w \<Rightarrow> error option \<times> 'w) \<Rightarrow> cr \<Rightarrow> 'w \<Rightarrow> (abort + (string \<times> error option) \<times> cr) \<times> 'w" where
  "gcp_DeleteStorage creds bs w = (case creds (om_Namespace (cr_meta bs)) w of
     (Some err, w') \<Rightarrow> (Inr ((gcp_credentials_error bs, Some (ErrWrap err (gcp_credentials_error bs))), bs), w')
   | (None, w') \<Rightarrow> (Inr (('''', None), bs), w'))"

definition gcp_GetReconcileTime :: "env \<Rightarrow> cr \<Rightarrow> int" where
  "gcp_GetReconcileTime env bs =
     (if st_Phase (cr_status bs) \<noteq> PhaseComplete then seconds 60 else GetForcedReconcileTimeOrDefault env (seconds 30))"

definition gcp_blobstorage :: "env \<Rightarrow> (string \<Rightarrow> 'w \<Rightarrow> error option \<times> 'w) \<Rightarrow> 'w provider" where
  "gcp_blobstorage env creds = \<lparr>GetName = ''gcp-storage'', SupportsStrategy = (\<lambda>s. s = ''gcp''),
     GetReconcileTime = gcp_GetReconcileTime env, prov_Create = gcp_CreateStorage creds, prov_Delete = gcp_DeleteStorage creds\<rparr>"


section \<open>The contract of a provider\<close>

text \<open>
  What the reconcilers rely on: a provider serves one strategy, leaves the status of the instance to
  the reconciler, and returns no connection data together with an error.
\<close>

definition keeps_identity :: "kind \<Rightarrow> cr \<Rightarrow> 'c event list \<Rightarrow> bool" where
  "keeps_identity kind inst es \<longleftrightarrow> (\<forall>i b. EvStatus kind i b \<in> set es \<longrightarrow>
     st_Strategy (cr_status i) = st_Strategy (cr_status inst) \<and> st_Provider (cr_status i) = st_Provider (cr_status inst) \<and>
     st_SecretRef (cr_status i) = st_SecretRef (cr_status inst))"

locale resource_provider =
  fixes p :: "'w provider" and strat :: string
  assumes supports_iff: "SupportsStrategy p s \<longleftrightarrow> s = strat"
    and create_keeps_status: "prov_Create p inst w = (Inr (res, inst'), w') \<Longrightarrow> cr_status inst' = cr_status inst"
    and delete_keeps_status: "prov_Delete p inst w = (Inr (out, inst'), w') \<Longrightarrow> cr_status inst' = cr_status inst"
    and error_no_details: "prov_Create p inst w = (Inr ((d, m, Some e), inst'), w') \<Longrightarrow> d = None"
begin

text \<open>A provider is only ever chosen for its own strategy.\<close>

lemma chosen_for_own_strategy: "find (\<lambda>q. SupportsStrategy q s) ps = Some p \<Longrightarrow> s = strat"
  using find_Some_set [of "\<lambda>q. SupportsStrategy q s" ps p] supports_iff by simp

lemma invoke_create_status:
  "emits (invoke (prov_Create p inst) ev) (\<lambda>es r. es = [ev] \<and> (\<forall>e. r \<noteq> Fail e) \<and> (\<forall>res i. r = Val (res, i) \<longrightarrow> cr_status i = cr_status inst))"
  by (auto simp: emits_def invoke_def split: prod.splits sum.splits dest: create_keeps_status)

lemma invoke_delete_status:
  "emits (invoke (prov_Delete p inst) ev) (\<lambda>es r. es = [ev] \<and> (\<forall>e. r \<noteq> Fail e) \<and> (\<forall>res i. r = Val (res, i) \<longrightarrow> cr_status i = cr_status inst))"
  by (auto simp: emits_def invoke_def split: prod.splits sum.splits dest: delete_keeps_status)

text \<open>Every status written while deleting keeps the strategy and the provider.\<close>

lemma deletion_keeps_strategy: "emits (reconcile_deletion k fl p inst) (\<lambda>es r. keeps_identity (fl_kind fl) inst es)"
proof -
  have up: "emits (UpdatePhase k (fl_kind fl) i ph msg) (\<lambda>es r. keeps_identity (fl_kind fl) inst es)" if "cr_status i = cr_status inst" for i ph msg
    by (rule emits_weaken [OF emits_UpdatePhase]) (use that in \<open>auto simp: keeps_identity_def\<close>)
  have fail: "emits (andThen (UpdatePhase k (fl_kind fl) i ph msg) (\<lambda>_. throw e)) (\<lambda>es (r :: ctrl_result res). keeps_identity (fl_kind fl) inst es)"
    if "cr_status i = cr_status inst" for i ph msg e
    by (rule emits_andThen [OF up [OF that]]) (auto intro!: emits_throw)
  have good: "emits (andThen (UpdatePhase k (fl_kind fl) i ph msg) (\<lambda>j. ret (requeue_after p j))) (\<lambda>es r. keeps_identity (fl_kind fl) inst es)"
    if "cr_status i = cr_status inst" for i ph msg
    by (rule emits_andThen [OF up [OF that]]) (auto intro!: emits_ret)
  have call: "keeps_identity (fl_kind fl) inst (EvProviderDelete kd n i # es) = keeps_identity (fl_kind fl) inst es" for kd n i and es :: "'c event list"
    by (simp add: keeps_identity_def)
  show ?thesis unfolding reconcile_deletion_def
    by (rule emits_andThen [OF invoke_delete_status])
      (auto intro!: emits_option fail good simp: call split: prod.splits, simp add: keeps_identity_def)
qed

end

interpretation openshift_blob: resource_provider "openshift_blobstorage k" "''openshift''" for k
  by unfold_locales
    (auto simp: openshift_blobstorage_def openshift_CreateStorage_def openshift_DeleteStorage_def Let_def
      split: option.splits prod.splits sum.splits if_splits)

interpretation gcp_blob: resource_provider "gcp_blobstorage env creds" "''gcp''" for env creds
  by unfold_locales
    (auto simp: gcp_blobstorage_def gcp_CreateStorage_def gcp_DeleteStorage_def split: option.splits prod.splits)

section \<open>Properties\<close>

text \<open>
  The OpenShift blob storage never loses a credential: the data it returns for the connection secret
  agrees with every key of the secret that is stored, and has a placeholder for each of the four keys
  that is not stored.
\<close>

theorem openshift_blob_keeps_secret:
  assumes "openshift_CreateStorage k bs w = (Inr ((Some d, msg, err), bs'), w')"
  shows "err = None \<and> (\<exists>nm. case fst (kube_GetSecret k nm w) of
      Inr sec \<Rightarrow> (case sec_Data sec of None \<Rightarrow> d = placeholder_data | Some old \<Rightarrow>
        old \<subseteq>\<^sub>m d \<and> dom d = dom old \<union> dom placeholder_data \<and> (\<forall>key \<in> dom placeholder_data - dom old. d key = Some varPlaceholder))
    | Inl e \<Rightarrow> k8s_IsNotFound e \<and> d = placeholder_data)"
proof -
  obtain ref0 where ref0: "spec_SecretRef (cr_spec bs) = Some ref0"
    using assms by (auto simp: openshift_CreateStorage_def split: option.splits)
  let ?ref = "if ref_Namespace ref0 = '''' then ref0\<lparr>ref_Namespace := om_Namespace (cr_meta bs)\<rparr> else ref0"
  let ?nm = "(case st_SecretRef (cr_status bs) of Some r \<Rightarrow> if ref_Name r \<noteq> '''' then ref_Name r else ref_Name ?ref | None \<Rightarrow> ref_Name ?ref,
     case st_SecretRef (cr_status bs) of Some r \<Rightarrow> if ref_Namespace r \<noteq> '''' then ref_Namespace r else ref_Namespace ?ref
                             | None \<Rightarrow> ref_Namespace ?ref)"
  have ph: "placeholder_data key = Some varPlaceholder" if "key \<in> dom placeholder_data" for key
    using that by (auto simp: placeholder_data_def split: if_splits)
  obtain g w1 where g: "kube_GetSecret k ?nm w = (g, w1)" by force
  show ?thesis
  proof (cases g)
    case (Inl e)
    then show ?thesis using assms ref0 g
      by (intro conjI exI [of _ ?nm]) (auto simp: openshift_CreateStorage_def Let_def split: if_splits)
  next
    case (Inr sec)
    have d: "d = placeholder_data ++ (case sec_Data sec of None \<Rightarrow> Map.empty | Some old \<Rightarrow> old)" and "err = None"
      using assms ref0 g Inr by (auto simp: openshift_CreateStorage_def Let_def split: if_splits)
    moreover have "case sec_Data sec of None \<Rightarrow> d = placeholder_data | Some old \<Rightarrow>
        old \<subseteq>\<^sub>m d \<and> dom d = dom old \<union> dom placeholder_data \<and> (\<forall>key \<in> dom placeholder_data - dom old. d key = Some varPlaceholder)"
      unfolding d by (auto simp: map_add_dom_app_simps ph split: option.splits)
    ultimately show ?thesis using g Inr by (intro conjI exI [of _ ?nm]) simp_all
  qed
qed

text \<open>
  Deleting a blob storage keeps its identity: with the OpenShift and the GCP provider every status
  that is written keeps the strategy, the provider and the secret reference of the instance.
\<close>

theorem blob_deletion_keeps_strategy:
  assumes "p = openshift_blobstorage k' \<or> p = gcp_blobstorage env creds"
    and "reconcile_deletion k fl p inst s = (r, t)"
  shows "\<exists>es. trace t = trace s @ es \<and> (\<forall>i b. EvStatus (fl_kind fl) i b \<in> set es \<longrightarrow>
     st_Strategy (cr_status i) = st_Strategy (cr_status inst) \<and> st_Provider (cr_status i) = st_Provider (cr_status inst) \<and>
     st_SecretRef (cr_status i) = st_SecretRef (cr_status inst))"
  using assms emitsD [OF openshift_blob.deletion_keeps_strategy] emitsD [OF gcp_blob.deletion_keeps_strategy]
  unfolding keeps_identity_def by blast

text \<open>
  The GCP blob storage is not implemented: with working credentials a reconcile calls the provider,
  writes no status at all and asks to be called again, so the instance never reaches any phase.
\<close>

theorem gcp_blob_never_progresses:
  assumes "creds (om_Namespace (cr_meta inst)) (world s) = (None, w)"
  shows "reconcile_creation k fl (gcp_blobstorage env creds) strat inst s =
    (Val (requeue_after (gcp_blobstorage env creds) (with_secretRef (Some empty_ref) inst)),
     s\<lparr>world := w, trace := trace s @ [EvProviderCreate (fl_kind fl) ''gcp-storage'' inst]\<rparr>)"
  using assms by (simp add: reconcile_creation_def invoke_def op_simps gcp_blobstorage_def gcp_CreateStorage_def UpdatePhase_def)

theorem openshift_blob_keeps_secret_witness:
  "placeholder_data ''bucketName'' = Some varPlaceholder \<and> (\<exists>nm. k8s_IsNotFound not_found \<and> fst (kube_GetSecret (sample_kube sample_cr) nm ()) = Inl not_found)"
proof -
  have run: "openshift_CreateStorage (sample_kube sample_cr) sample_cr () = (Inr ((Some placeholder_data, ''reconcile complete'', None),
      sample_cr\<lparr>cr_spec := (cr_spec sample_cr)\<lparr>spec_SecretRef := Some \<lparr>ref_Name = ''sec'', ref_Namespace = ''ns''\<rparr>\<rparr>\<rparr>), ())"
    by (simp add: openshift_CreateStorage_def Let_def) (simp add: sample_cr_def sample_meta_def)
  show ?thesis using openshift_blob_keeps_secret [OF run] by (auto simp: placeholder_data_def)
qed

theorem blob_deletion_keeps_strategy_witness:
  "\<exists>r (t :: (unit, unit event) sys) es.
     reconcile_deletion (sample_kube deleted_cr) blobstorage_flavour (openshift_blobstorage (sample_kube deleted_cr)) deleted_cr sample_sys = (r, t) \<and>
     trace t = trace sample_sys @ es \<and> (\<forall>i b. EvStatus BlobStorage i b \<in> set es \<longrightarrow> st_Strategy (cr_status i) = '''')"
proof -
  obtain r and t :: "(unit, unit event) sys" where
    run: "reconcile_deletion (sample_kube deleted_cr) blobstorage_flavour (openshift_blobstorage (sample_kube deleted_cr)) deleted_cr sample_sys = (r, t)" by force
  have "st_Strategy (cr_status deleted_cr) = ''''" "fl_kind blobstorage_flavour = BlobStorage"
    by (simp_all add: deleted_cr_def sample_cr_def blobstorage_flavour_def)
  then show ?thesis using blob_deletion_keeps_strategy [OF disjI1 [OF refl] run] run by fastforce
qed

theorem gcp_blob_never_progresses_witness:
  "fst (reconcile_creation (sample_kube sample_cr) blobstorage_flavour (gcp_blobstorage Map.empty (\<lambda>_ w. (None, w))) ''gcp'' sample_cr
      (sample_sys :: (unit, unit event) sys)) =
   Val (requeue_after (gcp_blobstorage Map.empty (\<lambda>_ w. (None, w :: unit))) (with_secretRef (Some empty_ref) sample_cr))"
  using gcp_blob_never_progresses [of "\<lambda>_ w. (None, w)" sample_cr "sample_sys :: (unit, unit event) sys" "()"] by simp

end
