(* ===== verification/Snapshot_Controllers.thy ===== *)
theory Snapshot_Controllers
  imports Controllers Metrics
begin

text \<open>
  The reconcilers of PostgresSnapshot and RedisSnapshot (\<^verbatim>\<open>controllers/postgressnapshot\<close>,
  \<^verbatim>\<open>controllers/redissnapshot\<close>). Both expose the phase of the snapshot as metrics in a deferred call,
  so the body returns the instance as it is at the end next to the result. (When a provider panics, the
  deferred call is left out; it only writes metrics.)
\<close>

section \<open>Definitions\<close>

record 'w snapshot_provider =
  sp_SupportsStrategy :: "string \<Rightarrow> bool"
  sp_GetReconcileTime :: "snapshot \<Rightarrow> int"
  sp_Create :: "snapshot \<Rightarrow> cr \<Rightarrow> 'w \<Rightarrow> (abort + (string option \<times> string \<times> error option) \<times> snapshot) \<times> 'w"
  sp_Delete :: "snapshot \<Rightarrow> cr \<Rightarrow> 'w \<Rightarrow> (abort + (string \<times> error option) \<times> snapshot) \<times> 'w"

type_synonym outcome = "error + ctrl_result"

definition with_snapshot_phase :: "string \<Rightarrow> string \<Rightarrow> snapshot \<Rightarrow> snapshot" where
  "with_snapshot_phase phase msg inst = inst\<lparr>sn_status := (sn_status inst)\<lparr>ss_Message := msg, ss_Phase := phase\<rparr>\<rparr>"

definition snapshot_requeue :: "'w snapshot_provider \<Rightarrow> snapshot \<Rightarrow> outcome" where
  "snapshot_requeue p inst = Inr \<lparr>res_Requeue = True, res_RequeueAfter = sp_GetReconcileTime p inst\<rparr>"

text \<open>
  \<^verbatim>\<open>if updateErr := UpdateSnapshotPhase(...); updateErr != nil { return updateErr }\<close> followed by a
  return. A failed update leaves the phase and the message set in the local instance.
\<close>

definition report_and_return ::
  "'w kube \<Rightarrow> kind \<Rightarrow> snapshot \<Rightarrow> string \<Rightarrow> string \<Rightarrow> (snapshot \<Rightarrow> outcome) \<Rightarrow> ('w, 'c, outcome \<times> snapshot) kop" where
  "report_and_return k kind inst phase msg out =
     andThen (attempt (UpdateSnapshotPhase k kind inst phase msg)) (\<lambda>u. case u of
       Inl updateErr \<Rightarrow> ret (Inl updateErr, with_snapshot_phase phase msg inst)
     | Inr inst1 \<Rightarrow> ret (out inst1, inst1))"

text \<open>The same with \<^verbatim>\<open>UpdatePhase\<close>, which fails on every snapshot.\<close>

definition report_wrong_type :: "snapshot \<Rightarrow> string \<Rightarrow> string \<Rightarrow> outcome \<Rightarrow> ('w, 'c, outcome \<times> snapshot) kop" where
  "report_wrong_type inst phase msg out =
     andThen (attempt (UpdatePhase_on_snapshot inst phase msg)) (\<lambda>u. case u of
       Inl updateErr \<Rightarrow> ret (Inl updateErr, inst)
     | Inr inst1 \<Rightarrow> ret (out, inst1))"

definition snapshot_deletion ::
  "'w kube \<Rightarrow> kind \<Rightarrow> string \<Rightarrow> 'w snapshot_provider \<Rightarrow> snapshot \<Rightarrow> cr \<Rightarrow> ('w, 'c, outcome \<times> snapshot) kop" where
  "snapshot_deletion k kind what p inst res =
     andThen (invoke (sp_Delete p inst res) (EvSnapshotDelete kind what inst)) (\<lambda>((msg, err), inst1). case err of
       Some e \<Rightarrow> report_and_return k kind inst1 PhaseFailed (WrapError msg (Some e))
                   (\<lambda>_. Inl (ErrWrap e (''failed to delete '' @ what @ '' snapshot'')))
     | None \<Rightarrow> report_and_return k kind inst1 PhaseDeleteInProgress msg (snapshot_requeue p))"

definition snapshot_creation ::
  "'w kube \<Rightarrow> kind \<Rightarrow> string \<Rightarrow> 'w snapshot_provider \<Rightarrow> snapshot \<Rightarrow> cr \<Rightarrow> ('w, 'c, outcome \<times> snapshot) kop" where
  "snapshot_creation k kind what p inst res =
     andThen (invoke (sp_Create p inst res) (EvSnapshotCreate kind what inst)) (\<lambda>((snap, msg, err), inst1). case err of
       Some e \<Rightarrow> report_and_return k kind inst1 PhaseFailed msg (\<lambda>_. Inl e)
     | None \<Rightarrow> (case snap of
         None \<Rightarrow> report_and_return k kind inst1 PhaseInProgress msg (snapshot_requeue p)
       | Some _ \<Rightarrow>
           (let inst2 = (if kind = Postgres then inst1\<lparr>sn_status := (sn_status inst1)\<lparr>ss_Message := msg\<rparr>\<rparr> else inst1)
            in report_and_return k kind inst2 PhaseComplete msg (snapshot_requeue p))))"

text \<open>The loop over the providers of the PostgresSnapshot reconciler.\<close>

definition snapshot_with ::
  "'w kube \<Rightarrow> 'w snapshot_provider \<Rightarrow> string \<Rightarrow> snapshot \<Rightarrow> cr \<Rightarrow> ('w, 'c, outcome \<times> snapshot) kop" where
  "snapshot_with k p strategyToUse inst res =
     (let go = (\<lambda>inst. if om_DeletionTimestamp (sn_meta inst) \<noteq> None then snapshot_deletion k Postgres ''postgres'' p inst res
                       else snapshot_creation k Postgres ''postgres'' p inst res)
      in if ss_Strategy (sn_status inst) \<noteq> strategyToUse
         then let inst1 = inst\<lparr>sn_status := (sn_status inst)\<lparr>ss_Strategy := strategyToUse\<rparr>\<rparr> in
           andThen (attempt (request (kube_StatusUpdateSnapshot k Postgres inst1) (\<lambda>r. EvSnapshotStatus Postgres inst1 (ok r)))) (\<lambda>u. case u of
             Inl err \<Rightarrow> ret (Inl (ErrWrap err (''failed to update instance '' @ om_Name (sn_meta inst1) @ '' in namespace '' @ om_Namespace (sn_meta inst1))), inst1)
           | Inr inst2 \<Rightarrow> go inst2)
         else go inst)"

fun snapshot_loop ::
  "'w kube \<Rightarrow> string \<Rightarrow> string \<Rightarrow> snapshot \<Rightarrow> cr \<Rightarrow> 'w snapshot_provider list \<Rightarrow> ('w, 'c, outcome \<times> snapshot) kop" where
  "snapshot_loop k mapped strategyToUse inst res [] =
     report_wrong_type inst PhaseFailed (WrapError StatusUnsupportedType None)
       (Inl (ErrNew (''unsupported deployment strategy '' @ mapped)))"
| "snapshot_loop k mapped strategyToUse inst res (p # ps) =
     (if \<not> sp_SupportsStrategy p strategyToUse then snapshot_loop k mapped strategyToUse inst res ps
      else snapshot_with k p strategyToUse inst res)"

definition snapshot_strategy :: "deploymentStrategyMapping \<Rightarrow> snapshot \<Rightarrow> string" where
  "snapshot_strategy stratMap inst =
     (if ss_Strategy (sn_status inst) \<noteq> '''' then ss_Strategy (sn_status inst) else dsm_Postgres stratMap)"

text \<open>The reconcile of a PostgresSnapshot after it has been read, up to the deferred metrics.\<close>

definition postgres_snapshot_body ::
  "'w kube \<Rightarrow> 'w snapshot_provider list \<Rightarrow> nsName \<Rightarrow> snapshot \<Rightarrow> ('w, 'c, outcome \<times> snapshot) kop" where
  "postgres_snapshot_body k providerList req inst =
     andThen (attempt (query (kube_Get k Postgres (sp_ResourceName (sn_spec inst), om_Namespace (sn_meta inst))))) (\<lambda>r. case r of
       Inl err \<Rightarrow>
         (let errMsg = ''failed to get postgres resource: '' @ error_text err
          in report_and_return k Postgres inst PhaseFailed errMsg (\<lambda>_. Inl (ErrNew errMsg)))
     | Inr res \<Rightarrow>
         andThen (attempt (GetStrategyMappingForDeploymentType k
             (NewConfigManager (kube_env k) ''cloud-resource-config'' (snd req)) (spec_Type (cr_spec res)))) (\<lambda>r. case r of
           Inl err \<Rightarrow> report_wrong_type inst PhaseFailed (WrapError StatusDeploymentConfigNotFound (Some err))
                         (Inl (wrapped_config_error res err))
         | Inr stratMap \<Rightarrow> snapshot_loop k (dsm_Postgres stratMap) (snapshot_strategy stratMap inst) inst res providerList))"

definition redis_snapshot_body ::
  "'w kube \<Rightarrow> 'w snapshot_provider \<Rightarrow> snapshot \<Rightarrow> ('w, 'c, outcome \<times> snapshot) kop" where
  "redis_snapshot_body k p inst =
     andThen (attempt (query (kube_Get k Redis (sp_ResourceName (sn_spec inst), om_Namespace (sn_meta inst))))) (\<lambda>r. case r of
       Inl err \<Rightarrow>
         (let errMsg = ''failed to get redis cr : '' @ error_text err
          in report_and_return k Redis inst PhaseFailed errMsg (\<lambda>_. Inl (ErrNew errMsg)))
     | Inr res \<Rightarrow>
         if \<not> sp_SupportsStrategy p (st_Strategy (cr_status res)) then
           (let errMsg = ''the resource '' @ sp_ResourceName (sn_spec inst) @ '' uses an unsupported provider strategy '' @
                  st_Strategy (cr_status res) @ '', only resources using the aws provider are valid''
            in report_and_return k Redis inst PhaseFailed errMsg (\<lambda>_. Inl (ErrNew errMsg)))
         else if om_DeletionTimestamp (sn_meta inst) \<noteq> None then snapshot_deletion k Redis ''redis'' p inst res
         else if ss_Phase (sn_status inst) = PhaseComplete then ret (snapshot_requeue p inst, inst)
         else snapshot_creation k Redis ''redis'' p inst res)"

section \<open>Metrics and the whole reconcile\<close>

definition expose_snapshot_metrics ::
  "'w kube \<Rightarrow> string \<Rightarrow> string \<Rightarrow> snapshot \<Rightarrow> ('w, 'c event) sys \<times> metrics \<Rightarrow> unit res \<times> ('w, 'c event) sys \<times> metrics" where
  "expose_snapshot_metrics k metricName providerName inst = (\<lambda>(s, m). case GetClusterID k s of
     (Val clusterID, s1) \<Rightarrow>
       (case phase_loop metricName
               (snapshotStatusMetricLabels providerName (sn_meta inst) clusterID (ss_SnapshotID (sn_status inst)))
               (ss_Phase (sn_status inst)) metric_phases m of
          None \<Rightarrow> (Abort Panics, s1, m)
        | Some m1 \<Rightarrow> (Val (), s1, m1))
   | (Fail _, s1) \<Rightarrow> (Val (), s1, m)
   | (Abort a, s1) \<Rightarrow> (Abort a, s1, m))"

text \<open>
  The frame of both reconcilers: read the snapshot, run the body, expose the metrics of the instance as
  the body left it, and return the result.
\<close>

definition snapshot_reconcile ::
  "'w kube \<Rightarrow> kind \<Rightarrow> string \<Rightarrow> string \<Rightarrow> (snapshot \<Rightarrow> ('w, 'c, outcome \<times> snapshot) kop) \<Rightarrow> nsName \<Rightarrow>
   ('w, 'c event) sys \<times> metrics \<Rightarrow> ctrl_result res \<times> ('w, 'c event) sys \<times> metrics" where
  "snapshot_reconcile k kind metricName providerName body req = (\<lambda>(s, m).
     case query (kube_GetSnapshot k kind req) s of
       (Fail err, s1) \<Rightarrow> (if k8s_IsNotFound err then Val no_requeue else Fail err, s1, m)
     | (Abort a, s1) \<Rightarrow> (Abort a, s1, m)
     | (Val inst, s1) \<Rightarrow> (case body inst s1 of
           (Val (out, inst1), s2) \<Rightarrow> (case expose_snapshot_metrics k metricName providerName inst1 (s2, m) of
               (Val (), s3, m1) \<Rightarrow> (case out of Inl e \<Rightarrow> Fail e | Inr c \<Rightarrow> Val c, s3, m1)
             | (Fail e, s3, m1) \<Rightarrow> (Fail e, s3, m1)
             | (Abort a, s3, m1) \<Rightarrow> (Abort a, s3, m1))
         | (Fail e, s2) \<Rightarrow> (Fail e, s2, m)
         | (Abort a, s2) \<Rightarrow> (Abort a, s2, m)))"

definition PostgresSnapshotReconcile ::
  "'w kube \<Rightarrow> 'w snapshot_provider list \<Rightarrow> nsName \<Rightarrow> ('w, 'c event) sys \<times> metrics \<Rightarrow> ctrl_result res \<times> ('w, 'c event) sys \<times> metrics" where
  "PostgresSnapshotReconcile k providerList req =
     snapshot_reconcile k Postgres ''cro_postgres_snapshot_status_phase'' ''aws-rds'' (postgres_snapshot_body k providerList req) req"

definition RedisSnapshotReconcile ::
  "'w kube \<Rightarrow> 'w snapshot_provider \<Rightarrow> nsName \<Rightarrow> ('w, 'c event) sys \<times> metrics \<Rightarrow> ctrl_result res \<times> ('w, 'c event) sys \<times> metrics" where
  "RedisSnapshotReconcile k p req =
     snapshot_reconcile k Redis ''cro_redis_snapshot_status_phase'' ''aws-elasticache'' (redis_snapshot_body k p) req"


section \<open>What the bodies add to the trace\<close>

definition snapshot_reports :: "kind \<Rightarrow> 'c event list \<Rightarrow> bool" where
  "snapshot_reports kind es \<longleftrightarrow> (\<forall>e \<in> set es. \<exists>i b. e = EvSnapshotStatus kind i b)"

lemma snapshot_reports_simps [simp]:
  "snapshot_reports kind []" "snapshot_reports kind (es @ fs) \<longleftrightarrow> snapshot_reports kind es \<and> snapshot_reports kind fs"
  "snapshot_reports kind [EvSnapshotStatus kind i b]"
  by (auto simp: snapshot_reports_def)

lemma emits_report_and_return: "emits (report_and_return k kind inst ph msg out) (\<lambda>es r. snapshot_reports kind es)"
proof -
  have up: "emits (attempt (UpdateSnapshotPhase k kind inst ph msg)) (\<lambda>es r. snapshot_reports kind es)"
    by (rule emits_attempt [OF emits_UpdateSnapshotPhase]) (auto simp: snapshot_reports_def)
  show ?thesis unfolding report_and_return_def by (rule emits_andThen [OF up]) (auto intro!: emits_sum emits_ret)
qed

lemma emits_snapshot_deletion:
  "emits (snapshot_deletion k kind what p inst res) (\<lambda>es r. \<exists>rest. es = EvSnapshotDelete kind what inst # rest \<and> snapshot_reports kind rest)"
  unfolding snapshot_deletion_def
  by (rule emits_invoke_then [where P = "\<lambda>es r. snapshot_reports kind es"])
    (auto intro!: emits_option emits_report_and_return split: prod.splits)

lemma emits_snapshot_creation:
  "emits (snapshot_creation k kind what p inst res) (\<lambda>es r. \<exists>rest. es = EvSnapshotCreate kind what inst # rest \<and> snapshot_reports kind rest)"
  unfolding snapshot_creation_def
  by (rule emits_invoke_then [where P = "\<lambda>es r. snapshot_reports kind es"])
    (auto intro!: emits_option emits_report_and_return simp: Let_def split: prod.splits)

lemma quiet_report_wrong_type: "quiet (report_wrong_type inst ph msg out)"
  unfolding report_wrong_type_def UpdatePhase_on_snapshot_def by (intro quiet_rules)

text \<open>Nothing but reports and deletions.\<close>

definition no_snapshot_created :: "'c event list \<Rightarrow> bool" where
  "no_snapshot_created es \<longleftrightarrow> (\<forall>e \<in> set es. \<forall>kd n i. e \<noteq> EvSnapshotCreate kd n i)"

lemma reports_no_creation: "snapshot_reports kind es \<Longrightarrow> no_snapshot_created es"
  by (auto simp: snapshot_reports_def no_snapshot_created_def)

lemma no_creation_simps [simp]:
  "no_snapshot_created []" "no_snapshot_created (es @ fs) \<longleftrightarrow> no_snapshot_created es \<and> no_snapshot_created fs"
  "no_snapshot_created [EvSnapshotStatus kd i b]"
  by (auto simp: no_snapshot_created_def)

lemma deletion_no_creation: "emits (snapshot_deletion k kind what p inst res) (\<lambda>es r. no_snapshot_created es)"
  by (rule emits_weaken [OF emits_snapshot_deletion]) (fastforce simp: no_snapshot_created_def snapshot_reports_def)

lemma report_no_creation: "emits (report_and_return k kind inst ph msg out) (\<lambda>es r. no_snapshot_created es)"
  by (rule emits_weaken [OF emits_report_and_return]) (rule reports_no_creation)

lemma wrong_type_no_creation: "emits (report_wrong_type inst ph msg out) (\<lambda>es r. no_snapshot_created es)"
  by (rule emits_quiet [OF quiet_report_wrong_type]) simp

text \<open>
  The status update that stores the strategy returns the stored object; the API server keeps its
  metadata, in particular the deletion timestamp.
\<close>

definition keeps_snapshot_meta :: "'w kube \<Rightarrow> bool" where
  "keeps_snapshot_meta k \<longleftrightarrow> (\<forall>kd i w j w'. kube_StatusUpdateSnapshot k kd i w = (Inr j, w') \<longrightarrow> sn_meta j = sn_meta i)"

lemma snapshot_with_no_creation:
  assumes "om_DeletionTimestamp (sn_meta inst) \<noteq> None" and "keeps_snapshot_meta k"
  shows "emits (snapshot_with k p strat inst res) (\<lambda>es r. no_snapshot_created es)"
proof -
  let ?i = "inst\<lparr>sn_status := (sn_status inst)\<lparr>ss_Strategy := strat\<rparr>\<rparr>"
  have up: "emits (attempt (request (kube_StatusUpdateSnapshot k Postgres ?i) (\<lambda>r. EvSnapshotStatus Postgres ?i (ok r))))
     (\<lambda>es r. no_snapshot_created es \<and> (\<forall>j. r = Val (Inr j) \<longrightarrow> sn_meta j = sn_meta inst))"
    using assms(2) unfolding keeps_snapshot_meta_def
    by (fastforce simp: emits_def attempt_def request_def split: prod.splits sum.splits)
  show ?thesis
  proof (cases "ss_Strategy (sn_status inst) = strat")
    case True
    then show ?thesis using assms(1) by (simp add: snapshot_with_def deletion_no_creation)
  next
    case False
    then have eq: "snapshot_with k p strat inst res = andThen (attempt (request (kube_StatusUpdateSnapshot k Postgres ?i) (\<lambda>r. EvSnapshotStatus Postgres ?i (ok r))))
        (\<lambda>u. case u of
           Inl err \<Rightarrow> ret (Inl (ErrWrap err (''failed to update instance '' @ om_Name (sn_meta ?i) @ '' in namespace '' @ om_Namespace (sn_meta ?i))), ?i)
         | Inr j \<Rightarrow> if om_DeletionTimestamp (sn_meta j) \<noteq> None then snapshot_deletion k Postgres ''postgres'' p j res
                    else snapshot_creation k Postgres ''postgres'' p j res)"
      by (simp only: snapshot_with_def Let_def if_True not_False_eq_True simp_thms)
    show ?thesis unfolding eq
    proof (rule emits_andThen [OF up])
      fix es and x :: "error + snapshot"
      assume "no_snapshot_created es \<and> (\<forall>j. Val x = Val (Inr j) \<longrightarrow> sn_meta j = sn_meta inst)"
      then have es: "no_snapshot_created es" and j: "\<And>j. x = Inr j \<Longrightarrow> om_DeletionTimestamp (sn_meta j) \<noteq> None"
        using assms(1) by auto
      show "emits (case x of
           Inl err \<Rightarrow> ret (Inl (ErrWrap err (''failed to update instance '' @ om_Name (sn_meta ?i) @ '' in namespace '' @ om_Namespace (sn_meta ?i))), ?i)
         | Inr j \<Rightarrow> if om_DeletionTimestamp (sn_meta j) \<noteq> None then snapshot_deletion k Postgres ''postgres'' p j res
                    else snapshot_creation k Postgres ''postgres'' p j res) (\<lambda>fs r. no_snapshot_created (es @ fs))"
        by (rule emits_sum, rule emits_ret, simp add: es)
          (simp only: j if_True not_False_eq_True, rule emits_weaken [OF deletion_no_creation], simp add: es)
    qed (simp_all only: simp_thms)
  qed
qed

lemma snapshot_loop_no_creation:
  assumes "om_DeletionTimestamp (sn_meta inst) \<noteq> None" and "keeps_snapshot_meta k"
  shows "emits (snapshot_loop k mapped strat inst res ps) (\<lambda>es r. no_snapshot_created es)"
  by (induction ps) (auto intro: wrong_type_no_creation snapshot_with_no_creation [OF assms])

lemma redis_body_no_creation:
  assumes "om_DeletionTimestamp (sn_meta inst) \<noteq> None"
  shows "emits (redis_snapshot_body k p inst) (\<lambda>es r. no_snapshot_created es)"
  unfolding redis_snapshot_body_def Let_def
  by (rule emits_andThen_quiet)
    (use assms in \<open>auto intro!: quiet_rules emits_sum report_no_creation deletion_no_creation\<close>)

lemma postgres_body_no_creation:
  assumes "om_DeletionTimestamp (sn_meta inst) \<noteq> None" and "keeps_snapshot_meta k"
  shows "emits (postgres_snapshot_body k ps req inst) (\<lambda>es r. no_snapshot_created es)"
proof -
  have cfg: "emits (andThen (attempt (GetStrategyMappingForDeploymentType k c t)) (\<lambda>r. case r of
           Inl err \<Rightarrow> report_wrong_type inst PhaseFailed (WrapError StatusDeploymentConfigNotFound (Some err)) (Inl (wrapped_config_error res err))
         | Inr stratMap \<Rightarrow> snapshot_loop k (dsm_Postgres stratMap) (snapshot_strategy stratMap inst) inst res ps)) (\<lambda>es r. no_snapshot_created es)" for c t res
    by (rule emits_andThen_quiet)
      (auto intro!: quiet_rules emits_sum wrong_type_no_creation snapshot_loop_no_creation [OF assms])
  show ?thesis unfolding postgres_snapshot_body_def Let_def
    by (rule emits_andThen_quiet) (auto intro!: quiet_rules emits_sum report_no_creation cfg)
qed

lemma expose_quiet: "expose_snapshot_metrics k mn pn inst (s, m) = (r, t, m') \<Longrightarrow> trace t = trace s"
  by (auto simp: expose_snapshot_metrics_def split: prod.splits res.splits option.splits dest: quietD [OF quiet_cluster(2)])

text \<open>The frame adds nothing to the requests of the body.\<close>

lemma snapshot_reconcile_trace:
  assumes "snapshot_reconcile k kind mn pn body req (s, m) = (r, t, m')"
    and "kube_GetSnapshot k kind req (world s) = (Inr inst, w)" and "body inst (s\<lparr>world := w\<rparr>) = (out, s1)"
  shows "trace t = trace s1"
  using assms by (auto simp: snapshot_reconcile_def query_def split: res.splits prod.splits unit.splits dest!: expose_quiet)

section \<open>Properties\<close>

text \<open>
  Safety of deletion for snapshots: when a snapshot resource that is being deleted is reconciled,
  the creation of a snapshot is never requested; for PostgresSnapshot this needs that the API server
  returns the stored metadata when the strategy is written.
\<close>

theorem snapshot_deletion_never_creates:
  assumes "kube_GetSnapshot k kind req (world s) = (Inr inst, w)" and "om_DeletionTimestamp (sn_meta inst) \<noteq> None"
    and "keeps_snapshot_meta k"
    and "(kind = Postgres \<and> PostgresSnapshotReconcile k ps req (s, m) = (r, t, m')) \<or>
         (kind = Redis \<and> RedisSnapshotReconcile k p req (s, m) = (r, t, m'))"
  shows "\<exists>es. trace t = trace s @ es \<and> no_snapshot_created es"
proof -
  have "\<exists>es. trace t = trace s @ es \<and> no_snapshot_created es"
    if run: "snapshot_reconcile k kind mn pn body req (s, m) = (r, t, m')" and e: "emits (body inst) (\<lambda>es r. no_snapshot_created es)" for mn pn body
  proof -
    obtain out s1 where b: "body inst (s\<lparr>world := w\<rparr>) = (out, s1)" by force
    then show ?thesis using emitsD [OF e b] snapshot_reconcile_trace [OF run assms(1) b] by simp
  qed
  then show ?thesis
    using assms(4) postgres_body_no_creation [OF assms(2,3), of ps req] redis_body_no_creation [OF assms(2), of k p]
    by (auto simp: PostgresSnapshotReconcile_def RedisSnapshotReconcile_def)
qed

text \<open>
  A Redis snapshot that is complete is not taken again: the reconcile makes no request at all and
  only asks to be called later.
\<close>

theorem complete_redis_snapshot_is_kept:
  assumes "kube_Get k Redis (sp_ResourceName (sn_spec inst), om_Namespace (sn_meta inst)) (world s) = (Inr res, w)"
    and "sp_SupportsStrategy p (st_Strategy (cr_status res))" and "om_DeletionTimestamp (sn_meta inst) = None"
    and "ss_Phase (sn_status inst) = PhaseComplete"
  shows "redis_snapshot_body k p inst s = (Val (snapshot_requeue p inst, inst), s\<lparr>world := w\<rparr>)"
  using assms by (simp add: redis_snapshot_body_def op_simps query_def)

text \<open>
  A PostgresSnapshot whose strategy no provider supports, or whose deployment configuration cannot
  be read, is never marked as failed: the update of its phase uses the status type of the other
  resources, fails, and hides the cause; no request is made.
\<close>

theorem postgres_snapshot_failure_hidden:
  assumes "kube_Get k Postgres (sp_ResourceName (sn_spec inst), om_Namespace (sn_meta inst)) (world s) = (Inr res, w)"
    and "read_mapping k req res (s\<lparr>world := w\<rparr>) = (m, s1)"
    and "(\<exists>e. m = Fail e) \<or> (\<exists>sm. m = Val sm \<and> (\<forall>p \<in> set ps. \<not> sp_SupportsStrategy p (snapshot_strategy sm inst)))"
  shows "\<exists>e. postgres_snapshot_body k ps req inst s = (Val (Inl e, inst), s1) \<and> trace s1 = trace s \<and>
    error_text e = ''failed to retrieve status block from object: couldn't assign/convert types.ResourceTypeSnapshotStatus to types.ResourceTypeStatus''"
proof -
  have tr: "trace s1 = trace s" using quietD [OF quiet_cluster(16) assms(2) [unfolded read_mapping_def]] by simp
  have wt: "msg \<noteq> '''' \<Longrightarrow> report_wrong_type inst ph msg out s = (Val (Inl (ErrWrap
      (ErrNew ''couldn't assign/convert types.ResourceTypeSnapshotStatus to types.ResourceTypeStatus'')
      ''failed to retrieve status block from object''), inst), s)" for ph msg out and s :: "('a, 'b event) sys"
    by (simp add: report_wrong_type_def UpdatePhase_on_snapshot_def op_simps)
  have loop: "\<forall>p \<in> set ps. \<not> sp_SupportsStrategy p strat \<Longrightarrow> snapshot_loop k mapped strat inst res ps =
      snapshot_loop k mapped strat inst res []" for mapped strat
    by (induction ps) auto
  have run: "postgres_snapshot_body k ps req inst s = (case m of
      Val sm \<Rightarrow> snapshot_loop k (dsm_Postgres sm) (snapshot_strategy sm inst) inst res ps s1
    | Fail err \<Rightarrow> report_wrong_type inst PhaseFailed (WrapError StatusDeploymentConfigNotFound (Some err)) (Inl (wrapped_config_error res err)) s1
    | Abort a \<Rightarrow> (Abort a, s1))"
    using assms(1,2) by (auto simp: postgres_snapshot_body_def op_simps query_def read_mapping_def split: res.splits)
  from assms(3) show ?thesis
  proof
    assume "\<exists>e. m = Fail e"
    then show ?thesis unfolding run using tr by (auto simp: wt)
  next
    assume "\<exists>sm. m = Val sm \<and> (\<forall>p \<in> set ps. \<not> sp_SupportsStrategy p (snapshot_strategy sm inst))"
    then obtain sm where sm: "m = Val sm" "\<forall>p \<in> set ps. \<not> sp_SupportsStrategy p (snapshot_strategy sm inst)" by blast
    show ?thesis unfolding run sm(1) res.case loop [OF sm(2)] using tr by (auto simp: wt)
  qed
qed

section \<open>A sample run\<close>

definition sample_snapshot :: snapshot where
  "sample_snapshot = \<lparr>sn_meta = sample_meta, sn_spec = \<lparr>sp_ResourceName = ''db'', sp_SkipDelete = False\<rparr>,
     sn_status = \<lparr>ss_SnapshotID = '''', ss_Phase = PhaseComplete, ss_Message = '''', ss_Strategy = ''''\<rparr>\<rparr>"

definition deleted_snapshot :: snapshot where
  "deleted_snapshot = sample_snapshot\<lparr>sn_meta := sample_meta\<lparr>om_DeletionTimestamp := Some 1\<rparr>\<rparr>"

definition snapshot_kube :: "snapshot \<Rightarrow> unit kube" where
  "snapshot_kube sn = (sample_kube sample_cr)\<lparr>kube_GetSnapshot := (\<lambda>_ _ w. (Inr sn, w))\<rparr>"

definition sample_snapshot_provider :: "(string \<Rightarrow> bool) \<Rightarrow> unit snapshot_provider" where
  "sample_snapshot_provider supports = \<lparr>sp_SupportsStrategy = supports, sp_GetReconcileTime = (\<lambda>_. 60),
     sp_Create = (\<lambda>i _ w. (Inr ((Some ''snap'', ''created'', None), i), w)),
     sp_Delete = (\<lambda>i _ w. (Inr ((''deleted'', None), i), w))\<rparr>"

theorem snapshot_deletion_never_creates_witness:
  "\<exists>es. trace (fst (snd (PostgresSnapshotReconcile (snapshot_kube deleted_snapshot) [sample_snapshot_provider (\<lambda>_. True)] (''db'', ''ns'')
      ((sample_sys :: (unit, unit event) sys), \<lparr>MetricVecs = Map.empty, Registered = {}\<rparr>)))) = es \<and> no_snapshot_created es"
proof -
  obtain r t m' where run: "PostgresSnapshotReconcile (snapshot_kube deleted_snapshot) [sample_snapshot_provider (\<lambda>_. True)] (''db'', ''ns'')
      ((sample_sys :: (unit, unit event) sys), \<lparr>MetricVecs = Map.empty, Registered = {}\<rparr>) = (r, t, m')" by (rule prod_cases3)
  have "keeps_snapshot_meta (snapshot_kube deleted_snapshot)"
    by (simp add: keeps_snapshot_meta_def snapshot_kube_def sample_kube_def)
  then show ?thesis
    using snapshot_deletion_never_creates [of "snapshot_kube deleted_snapshot" Postgres "(''db'', ''ns'')" sample_sys deleted_snapshot "()"] run
    by (auto simp: snapshot_kube_def deleted_snapshot_def sample_sys_def)
qed

theorem complete_redis_snapshot_is_kept_witness:
  "redis_snapshot_body (snapshot_kube sample_snapshot) (sample_snapshot_provider (\<lambda>_. True)) sample_snapshot (sample_sys :: (unit, unit event) sys) =
     (Val (Inr \<lparr>res_Requeue = True, res_RequeueAfter = 60\<rparr>, sample_snapshot), sample_sys)"
  using complete_redis_snapshot_is_kept [of "snapshot_kube sample_snapshot" sample_snapshot "sample_sys :: (unit, unit event) sys" sample_cr "()"
      "sample_snapshot_provider (\<lambda>_. True)"]
  by (simp add: snapshot_kube_def sample_kube_def sample_snapshot_provider_def sample_snapshot_def sample_meta_def snapshot_requeue_def sample_sys_def)

theorem postgres_snapshot_failure_hidden_witness:
  "\<exists>e. postgres_snapshot_body (snapshot_kube sample_snapshot) [sample_snapshot_provider (\<lambda>_. False)] (''db'', ''ns'') sample_snapshot
      (sample_sys :: (unit, unit event) sys) = (Val (Inl e, sample_snapshot), sample_sys)"
proof -
  obtain m s1 where rm: "read_mapping (snapshot_kube sample_snapshot) (''db'', ''ns'') sample_cr (sample_sys :: (unit, unit event) sys) = (m, s1)" by force
  have "GetStrategyMappingForDeploymentType (snapshot_kube sample_snapshot) (NewConfigManager Map.empty c n) ''aws'' (sample_sys :: (unit, unit event) sys) =
     (Val \<lparr>dsm_BlobStorage = ''aws'', dsm_Redis = ''aws'', dsm_Postgres = ''aws''\<rparr>, sample_sys)" for c n
    using UnmarshalMapping_default(2)
    by (simp add: GetStrategyMappingForDeploymentType_def GetConfigMapOrDefault_def query_def op_simps snapshot_kube_def sample_kube_def
        not_found_def k8s_IsNotFound_def sample_sys_def buildDefaultConfigMap_def map_get_def)
  then have m: "m = Val \<lparr>dsm_BlobStorage = ''aws'', dsm_Redis = ''aws'', dsm_Postgres = ''aws''\<rparr>" "s1 = sample_sys"
    using rm by (auto simp: read_mapping_def snapshot_kube_def sample_kube_def sample_cr_def)
  show ?thesis
    using postgres_snapshot_failure_hidden [of "snapshot_kube sample_snapshot" sample_snapshot "sample_sys :: (unit, unit event) sys" sample_cr "()"
      "(''db'', ''ns'')" m s1 "[sample_snapshot_provider (\<lambda>_. False)]"] rm m
    by (auto simp: snapshot_kube_def sample_kube_def sample_snapshot_provider_def sample_sys_def)
qed

end
