(* ===== verification/Spec2Isabelle.thy ===== *)
theory Spec2Isabelle
  imports AWS_Snapshots_Safety AWS_S3_Samples AWS_Redis_Samples AWS_RDS_Samples GCP_Snapshots_Safety OpenShift_Safety Cloud_Metrics_Safety Client_Safety Blob_Providers Snapshot_Controllers
begin

text \<open>
  A verification of the cloud resource operator (\<^verbatim>\<open>integr8ly/cloud-resource-operator\<close>).

  \<^bold>\<open>The program.\<close> The operator watches custom resources for databases (Postgres), caches (Redis), buckets (BlobStorage) and their
  snapshots, and has them provided by AWS, by GCP or in the OpenShift cluster. A controller per resource (\<^verbatim>\<open>controllers\<close>) reads the
  strategy that is configured for the type of the resource, asks the providers of \<^verbatim>\<open>pkg/providers\<close> in turn whether they support it, and
  calls the creation or deletion of the first one; it writes the connection details to a secret and the outcome to the status of
  the resource. A provider is one pass of a loop: it reads its strategy config map, gets credentials, compares what the cloud has with
  what is wanted, makes a request and answers with a status message; the controller calls it again later. A further controller scrapes
  metrics from the clouds. Operators that use this one write strategies and resources with \<^verbatim>\<open>pkg/client\<close>.

  \<^bold>\<open>How code is modelled.\<close> A Go function is a definition of the same name where possible. Code that makes requests is an operation
  \<open>'s \<Rightarrow> 'a res \<times> 's\<close> (theory \<open>CRO_Prelude\<close>): it returns a value, an error, or aborts, which stands for a panic (a nil pointer, an index out
  of range, a failed \<^verbatim>\<open>Must\<close>). The state has a world of any type and the trace of requests that change something, with their outcome.
  The API server, the services of the clouds, clocks and random sources are records of functions on the world; nothing is assumed
  of them but what a theorem names, so that a theorem about the trace holds for whatever they answer. A pointer is an option, a map a
  partial function, a structure a record; the \<^verbatim>\<open>int32\<close> conversions that can wrap around and the bytes of addresses are written out.
  Messages are texts, and a message that the code uses as a format is taken literally. A call that the code defers to the end of a
  function that panics is not modelled.

  \<^bold>\<open>Theories, in the order of the layers.\<close>
  \<^item> \<open>CRO_Prelude\<close>: errors, operations and their combinators, a program logic (\<open>emits\<close>, \<open>quiet\<close>, \<open>only\<close>, \<open>visible\<close>: which requests an operation makes),
    decimal texts and list lemmas. \<open>Go_Net\<close>, \<open>Go_Encoding\<close>, \<open>Go_JSON\<close>: the parts of Go's library the operator computes with: addresses and
    networks, SHA-256 and base32, the JSON decoder.
  \<^item> \<open>CRO_Types\<close>, \<open>Resources\<close>, \<open>Metrics\<close>, \<open>Kubernetes\<close>: the custom resources (\<^verbatim>\<open>apis\<close>) and the helpers of \<^verbatim>\<open>pkg/resources\<close> and \<^verbatim>\<open>pkg/annotations\<close>: names,
    labels, tags, finalizers, phases, the gauge registry, the queries of the cluster, the connection secret, the mapping of types to strategies. The locale
    \<open>meta_dict\<close> is the contract of labels and annotations.
  \<^item> \<open>Controllers\<close>, \<open>Snapshot_Controllers\<close>: the five reconcilers over a record of provider functions. \<open>Blob_Providers\<close>: the small providers for buckets
    of OpenShift and GCP, with the locale \<open>resource_provider\<close> for what a controller relies on.
  \<^item> \<open>Credentials\<close>, \<open>Strategy_Config\<close>: \<^verbatim>\<open>internal/k8sutil\<close>, the credential managers, the strategy config maps and the AWS session.
  \<^item> \<open>VPC_Subnets\<close>: the arithmetic of \<^verbatim>\<open>cluster_vpc.go\<close> and \<^verbatim>\<open>cluster_network_provider.go\<close>: enumerating the subnets of a VPC, validating a block, searching a free one.
  \<^item> \<open>AWS_API\<close>, \<open>Cluster_VPC\<close>, \<open>AWS_Network\<close>: the services of AWS, the VPC of the cluster, the standalone network (a VPC of the operator, peered with that of
    the cluster). \<open>AWS_Network_Safety\<close> and \<open>AWS_Network_Subnets\<close> show which requests it makes. The locale \<open>named_lookup\<close> is the contract of the searches by name.
  \<^item> \<open>Provider_Parts\<close>, \<open>AWS_Provider\<close>, \<open>AWS_RDS\<close>, \<open>AWS_Redis\<close>, \<open>AWS_S3\<close>, \<open>AWS_Snapshots\<close>: the AWS providers, operation by operation; the theories named
    \<open>_Config\<close>, \<open>_Update\<close>, \<open>_Safety\<close> and \<open>_Liveness\<close> have their properties, \<open>_Samples\<close> the witnesses at sample services.
  \<^item> \<open>GCP_API\<close>, \<open>GCP_Network\<close>, \<open>GCP_SQL_Types\<close>, \<open>GCP_SQL\<close>, \<open>GCP_Redis\<close>, \<open>GCP_Snapshots\<close>: the GCP providers (\<^verbatim>\<open>pkg/providers/gcp\<close>), with their properties in
    \<open>GCP_Network_Safety\<close>, \<open>GCP_SQL_Config\<close>, \<open>GCP_SQL_Safety\<close>, \<open>GCP_SQL_Retention\<close>, \<open>GCP_Redis_Safety\<close>, \<open>GCP_Snapshots_Safety\<close>, and the witnesses in \<open>GCP_Samples\<close>.
  \<^item> \<open>OpenShift\<close>, \<open>OpenShift_Safety\<close>: the providers that run a database or a cache in the cluster (\<^verbatim>\<open>pkg/providers/openshift\<close>).
  \<^item> \<open>Metrics_Fanout\<close>: the goroutines and channels of \<^verbatim>\<open>getMetrics\<close> as a step relation. \<open>Cloud_Metrics\<close>, \<open>Cloud_Metrics_Safety\<close>: the metrics providers of AWS and GCP
    and the controller of \<^verbatim>\<open>controllers/cloudmetrics\<close>; the locale \<open>metrics_provider\<close> is what the controller relies on.
  \<^item> \<open>Client\<close>, \<open>Client_Safety\<close>: \<^verbatim>\<open>pkg/client\<close>; the locale \<open>stable_change\<close> is a change of a strategy that settles.

  \<^bold>\<open>What is shown.\<close>
  \<^item> Controllers: a reconcile refines an abstract decision that is taken from resource and strategy alone; a deleted resource never has anything created, a
    resource is complete only after its secret is written, its strategy stays the one it was created with, errors are reported.
  \<^item> Providers: in every pass a cloud resource is created only when it is missing and at most once, changed only as computed, deleted only when the
    provider may, and the finalizer goes last; an update converges in one step; the deletion of an RDS database ends after finitely many passes; snapshots
    are kept for their retention; the credentials of a database in the cluster settle.
  \<^item> Networks: subnets partition the VPC, a block is accepted exactly when it is disjoint from the others, a free block is found when there is one,
    the parts of a network are created and removed in order.
  \<^item> Metrics: the registry keeps its invariant; the concurrent queries always return, and only what was asked for; a pass exposes exactly what was scraped.
  \<^item> Strategies: the windows for AWS have the form the service expects, and writing a strategy twice changes nothing.
  \<^item> Errors: theorems of kind error show where the code does not do what it means to: a lost answer and a nil dereference in the metrics code, windows that overlap
    across midnight, a secret that is never deleted.

  \<^bold>\<open>Bounds.\<close> A poll with a timeout is a number of attempts: \<open>aws_polls\<close>, \<open>codec_polls\<close> and \<open>gcp_codec_polls\<close> are fields of the records, so that theorems hold for every
  number; the samples use 60, five minutes in steps of five seconds. Loops over lists are structural. The enumeration of subnets has a termination proof by the distance
  to the end of the VPC; the run of the goroutines is bounded by six steps per query and two.

  \<^bold>\<open>Parameters beside the services.\<close> The JSON decoders and encoders of SDK structures, \<^verbatim>\<open>url.Parse\<close>, \<^verbatim>\<open>str2duration\<close>, the order of \<^verbatim>\<open>sort.Slice\<close>, the comparison of version numbers,
  \<^verbatim>\<open>equality.Semantic.DeepEqual\<close>, and the order in which goroutines run. The SDKs are taken to answer with an empty output beside an error. Of the input that creates a bucket only
  the name is kept. Days of a bucket's lifecycle are computed exactly, not with floating-point numbers; metric values are real numbers or NaN. Specifications of Kubernetes workloads are the JSON
  that is sent. Lower-casing is that of ASCII, and of \<^verbatim>\<open>%q\<close> only the quotes are modelled.

  \<^bold>\<open>Not modelled.\<close> \<^verbatim>\<open>main.go\<close>, the constructors of the controllers and their watches: calls of controller-runtime without logic of their own. The clients of GCP services
  in \<^verbatim>\<open>gcpiface\<close>: each method forwards to Google's library (the loops over iterators are modelled). \<^verbatim>\<open>GetGVKsFromAddToScheme\<close> of \<^verbatim>\<open>internal/k8sutil\<close>: reflection over a scheme.
  \<^verbatim>\<open>runExec\<close> of \<^verbatim>\<open>pkg/resources/cluster.go\<close>: a stream to a pod, a parameter here. Mocks, fakes, generated code, log output, end-to-end tests and release scripts.
\<close>

end
